(* ===== verification/Prelude.thy ===== *)
theory Prelude
  imports Main "HOL-Library.List_Lexorder" "HOL-Library.Char_ord" "HOL-Library.Product_Lexorder"
begin

text \<open>
  Shared vocabulary of the MiniGRC development: the exceptions the Python code raises and
  the result type that carries them, the table operations that stand for SQLAlchemy's
  \<open>session.get\<close>, attribute assignment and row insertion, the string methods the code calls,
  and the generic lemmas on them. A table is the list of its rows in insertion order; a row
  is a record; a primary key is one of its fields.
\<close>

section \<open>Exceptions and results\<close>

text \<open>
  One constructor per exception class of the code. \<open>ValueError\<close> and its subclasses carry the
  fixed part of the message, which tells the raising statements of one function apart.
  \<open>IntegrityError\<close> is the database's refusal of a row (unique, check or foreign-key
  constraint), \<open>AttributeError\<close> the attribute access on the \<open>None\<close> that \<open>session.get\<close> returns
  for a missing row, \<open>StatementError\<close> a column bound to a value of the wrong JSON type.
\<close>

datatype error =
    IntegrityError
  | AttributeError
  | StatementError
  | RuntimeError
  | OverflowError
  | TypeError
  | OSError
  | KeyError string
  | ValueError string
  | ConcurrentAppendError
  | InvalidControlTestError string
  | InvalidComplianceScopeError string
  | FrameworkAdoptionError string
  | ConnectorContractError string
  | ConnectorLifecycleError string
  | ObjectStorageError string
  | RegistryError string
  | BackupError string
  | CsvError string
  | VendorRosterImportError string
  | DirectorySyncError string
  | AuditPackageError string
  | HandlerError string
  | HTTPException nat

type_synonym 'a result = "error + 'a"

text \<open>Sequencing: the rest of a function runs only when no exception was raised.\<close>

definition rbind :: "'a result \<Rightarrow> ('a \<Rightarrow> 'b result) \<Rightarrow> 'b result" where
  "rbind m f = (case m of Inl e \<Rightarrow> Inl e | Inr x \<Rightarrow> f x)"

lemma rbind_Inl [simp]: "rbind (Inl e) f = Inl e"
  by (simp add: rbind_def)

lemma rbind_Inr [simp]: "rbind (Inr x) f = f x"
  by (simp add: rbind_def)

lemma rbind_eq_Inr_iff [simp]: "rbind m f = Inr y \<longleftrightarrow> (\<exists>x. m = Inr x \<and> f x = Inr y)"
  by (cases m) simp_all

lemma rbind_assoc: "rbind (rbind m f) g = rbind m (\<lambda>x. rbind (f x) g)"
  by (cases m) simp_all

lemma rbind_cong [fundef_cong]:
  "m = m' \<Longrightarrow> (\<And>x. m' = Inr x \<Longrightarrow> f x = f' x) \<Longrightarrow> rbind m f = rbind m' f'"
  by (cases m') simp_all

lemma map_sum_Inr_iff [simp]: "map_sum id f r = Inr y \<longleftrightarrow> (\<exists>x. r = Inr x \<and> y = f x)"
  by (cases r) auto

text \<open>A loop over a list whose body may raise: the first exception ends it.\<close>

fun rfold :: "('s \<Rightarrow> 'a \<Rightarrow> 's result) \<Rightarrow> 'a list \<Rightarrow> 's \<Rightarrow> 's result" where
  "rfold f [] s = Inr s"
| "rfold f (x # xs) s = rbind (f s x) (rfold f xs)"

lemma rfold_append: "rfold f (xs @ ys) s = rbind (rfold f xs s) (rfold f ys)"
  by (induction xs arbitrary: s) (simp_all add: rbind_assoc [symmetric] rbind_def split: sum.splits)

lemma rfold_snoc: "rfold f (xs @ [x]) s = rbind (rfold f xs s) (\<lambda>s'. f s' x)"
  by (simp add: rfold_append rbind_def split: sum.splits)

lemma rfold_invariant:
  assumes "rfold f xs s = Inr s'" and "P s"
    and "\<And>s x s'. f s x = Inr s' \<Longrightarrow> P s \<Longrightarrow> P s'"
  shows "P s'"
  using assms(1,2)
proof (induction xs arbitrary: s)
  case (Cons x xs)
  then show ?case by (auto dest: assms(3))
qed simp

text \<open>A map that the body commutes with is carried through the whole loop.\<close>

lemma rfold_commute:
  assumes "\<And>s x s'. f s x = Inr s' \<Longrightarrow> f (u s) x = Inr (u s')"
    and "rfold f xs s = Inr s'"
  shows "rfold f xs (u s) = Inr (u s')"
  using assms(2)
proof (induction xs arbitrary: s)
  case (Cons x xs)
  then obtain s1 where "f s x = Inr s1" and "rfold f xs s1 = Inr s'"
    by auto
  then show ?case
    using Cons.IH assms(1) by auto
qed simp

lemma set_map_filter: "set (List.map_filter f xs) = {y. \<exists>x\<in>set xs. f x = Some y}"
  by (induction xs) (auto simp: List.map_filter_simps split: option.splits)

section \<open>Tables\<close>

text \<open>
  \<open>row_get\<close> is \<open>session.get\<close> (the row with a primary key, if any), \<open>row_upd\<close> the assignment
  to attributes of the row \<open>session.get\<close> returned, \<open>has_row\<close> the existence a foreign key asks
  for and \<open>fk_ok\<close> the check of a nullable foreign key.
\<close>

definition row_get :: "('r \<Rightarrow> 'k) \<Rightarrow> 'k \<Rightarrow> 'r list \<Rightarrow> 'r option" where
  "row_get key k rows = find (\<lambda>r. key r = k) rows"

definition row_upd :: "('r \<Rightarrow> 'k) \<Rightarrow> 'k \<Rightarrow> ('r \<Rightarrow> 'r) \<Rightarrow> 'r list \<Rightarrow> 'r list" where
  "row_upd key k f rows = map (\<lambda>r. if key r = k then f r else r) rows"

definition has_row :: "('r \<Rightarrow> 'k) \<Rightarrow> 'k \<Rightarrow> 'r list \<Rightarrow> bool" where
  "has_row key k rows = list_ex (\<lambda>r. key r = k) rows"

definition fk_ok :: "('r \<Rightarrow> 'k) \<Rightarrow> 'k option \<Rightarrow> 'r list \<Rightarrow> bool" where
  "fk_ok key v rows = (case v of None \<Rightarrow> True | Some k \<Rightarrow> has_row key k rows)"

text \<open>The row an attribute access needs: \<open>None\<close> has no attributes.\<close>

definition row_of :: "('r \<Rightarrow> 'k) \<Rightarrow> 'k \<Rightarrow> 'r list \<Rightarrow> 'r result" where
  "row_of key k rows = (case row_get key k rows of None \<Rightarrow> Inl AttributeError | Some r \<Rightarrow> Inr r)"

lemma find_SomeD: "find P xs = Some x \<Longrightarrow> x \<in> set xs \<and> P x"
  by (induction xs) (auto split: if_splits)

text \<open>At most one row per key: primary keys and unique constraints.\<close>

definition unique_by :: "('r \<Rightarrow> 'k) \<Rightarrow> 'r list \<Rightarrow> bool" where
  "unique_by key rows = distinct (map key rows)"

named_theorems table_simps \<open>rewriting of table operations\<close>

lemma has_row_iff [table_simps]: "has_row key k rows \<longleftrightarrow> (\<exists>r\<in>set rows. key r = k)"
  by (auto simp: has_row_def list_ex_iff)

lemma has_row_image: "has_row key k rows \<longleftrightarrow> k \<in> key ` set rows"
  by (auto simp: has_row_iff)

lemma has_row_append [simp]: "has_row key k (xs @ ys) \<longleftrightarrow> has_row key k xs \<or> has_row key k ys"
  by (auto simp: has_row_iff)

lemma has_row_Nil [simp]: "\<not> has_row key k []"
  by (simp add: has_row_def)

lemma has_row_Cons [simp]: "has_row key k (r # rows) \<longleftrightarrow> key r = k \<or> has_row key k rows"
  by (simp add: has_row_def)

lemma has_row_upd [simp]:
  "(\<And>r. key (f r) = key r) \<Longrightarrow> has_row key k (row_upd key j f rows) = has_row key k rows"
  by (auto simp: has_row_iff row_upd_def)

lemma row_get_Nil [simp]: "row_get key k [] = None"
  by (simp add: row_get_def)

lemma row_get_Cons [simp]:
  "row_get key k (r # rows) = (if key r = k then Some r else row_get key k rows)"
  by (simp add: row_get_def)

lemma row_get_SomeD: "row_get key k rows = Some r \<Longrightarrow> r \<in> set rows \<and> key r = k"
  by (induction rows) (auto split: if_splits)

lemma row_get_None_iff: "row_get key k rows = None \<longleftrightarrow> \<not> has_row key k rows"
  by (induction rows) auto

lemma row_get_Some_has_row: "row_get key k rows = Some r \<Longrightarrow> has_row key k rows"
  using row_get_None_iff [of key k rows] by auto

lemma has_row_get: "has_row key k rows \<Longrightarrow> \<exists>r. row_get key k rows = Some r"
  using row_get_None_iff [of key k rows] by (cases "row_get key k rows") auto

lemma row_get_append [table_simps]:
  "row_get key k (xs @ ys) = (case row_get key k xs of None \<Rightarrow> row_get key k ys | Some r \<Rightarrow> Some r)"
  by (induction xs) auto

lemma row_get_upd [table_simps]:
  "(\<And>r. key (f r) = key r) \<Longrightarrow>
     row_get key k (row_upd key j f rows) =
       (if j = k then map_option f (row_get key k rows) else row_get key k rows)"
  by (induction rows) (auto simp: row_upd_def)

lemma row_of_Inr_iff [simp]: "row_of key k rows = Inr r \<longleftrightarrow> row_get key k rows = Some r"
  by (simp add: row_of_def split: option.splits)

lemma row_of_eq: "row_get key k rows = Some r \<Longrightarrow> row_of key k rows = Inr r"
  by simp

lemma row_of_None: "row_get key k rows = None \<Longrightarrow> row_of key k rows = Inl AttributeError"
  by (simp add: row_of_def)

lemma row_upd_Nil [simp]: "row_upd key k f [] = []"
  by (simp add: row_upd_def)

lemma row_upd_Cons [simp]:
  "row_upd key k f (r # rows) = (if key r = k then f r else r) # row_upd key k f rows"
  by (simp add: row_upd_def)

lemma row_upd_append [simp]: "row_upd key k f (xs @ ys) = row_upd key k f xs @ row_upd key k f ys"
  by (simp add: row_upd_def)

lemma row_upd_absent: "\<not> has_row key k rows \<Longrightarrow> row_upd key k f rows = rows"
  by (induction rows) auto

lemma set_row_upd: "set (row_upd key k f rows) = (\<lambda>r. if key r = k then f r else r) ` set rows"
  by (simp add: row_upd_def)

lemma map_row_upd [simp]: "(\<And>r. g (f r) = g r) \<Longrightarrow> map g (row_upd key k f rows) = map g rows"
  by (simp add: row_upd_def)

lemma length_row_upd [simp]: "length (row_upd key k f rows) = length rows"
  by (simp add: row_upd_def)

lemma unique_by_Nil [simp]: "unique_by key []"
  by (simp add: unique_by_def)

lemma unique_by_snoc [simp]:
  "unique_by key (rows @ [r]) \<longleftrightarrow> unique_by key rows \<and> \<not> has_row key (key r) rows"
  by (auto simp: unique_by_def has_row_image)

lemma unique_by_upd [simp]:
  "(\<And>r. g (f r) = g r) \<Longrightarrow> unique_by g (row_upd key k f rows) = unique_by g rows"
  by (simp add: unique_by_def)

lemma unique_by_eqD: "unique_by key rows \<Longrightarrow> r \<in> set rows \<Longrightarrow> r' \<in> set rows \<Longrightarrow> key r = key r' \<Longrightarrow> r = r'"
  by (auto simp: unique_by_def distinct_map dest: inj_onD)

lemma row_get_unique: "unique_by key rows \<Longrightarrow> r \<in> set rows \<Longrightarrow> row_get key (key r) rows = Some r"
  by (induction rows) (auto simp: unique_by_def image_iff)

lemma fk_ok_None [simp]: "fk_ok key None rows"
  by (simp add: fk_ok_def)

lemma fk_ok_Some [simp]: "fk_ok key (Some k) rows = has_row key k rows"
  by (simp add: fk_ok_def)

section \<open>Strings\<close>

text \<open>
  \<open>str.strip\<close> with no argument removes white space at both ends, \<open>str.lower\<close> maps upper-case
  letters; both on ASCII, the range of HOL's \<open>char\<close> the model reads as text.
\<close>

definition is_space :: "char \<Rightarrow> bool" where
  "is_space c = (of_char c \<in> {9, 10, 11, 12, 13, 28, 29, 30, 31, 32 :: nat})"

definition strip :: "string \<Rightarrow> string" where
  "strip s = rev (dropWhile is_space (rev (dropWhile is_space s)))"

definition lower_char :: "char \<Rightarrow> char" where
  "lower_char c = (let n = of_char c :: nat in if 65 \<le> n \<and> n \<le> 90 then char_of (n + 32) else c)"

definition lower :: "string \<Rightarrow> string" where
  "lower s = map lower_char s"

text \<open>\<open>not s.strip()\<close>: the text is empty or only white space.\<close>

definition blank :: "string \<Rightarrow> bool" where
  "blank s = (strip s = [])"

lemma blank_iff: "blank s \<longleftrightarrow> (\<forall>c\<in>set s. is_space c)"
proof
  assume "blank s"
  then have "\<forall>c\<in>set (dropWhile is_space s). is_space c"
    by (simp add: blank_def strip_def)
  then have "dropWhile is_space s = []"
    using hd_dropWhile [of is_space s] hd_in_set [of "dropWhile is_space s"] by auto
  then show "\<forall>c\<in>set s. is_space c" by simp
next
  assume "\<forall>c\<in>set s. is_space c"
  then have "dropWhile is_space s = []" by simp
  then show "blank s" by (simp add: blank_def strip_def del: dropWhile_eq_Nil_conv)
qed

text \<open>\<open>bool(s)\<close> of a string and of an optional string.\<close>

definition truthy :: "string option \<Rightarrow> bool" where
  "truthy v = (case v of None \<Rightarrow> False | Some s \<Rightarrow> s \<noteq> [])"

end
