(* ===== verification/Py_Time.thy ===== *)
theory Py_Time
  imports Prelude
begin

text \<open>
  The part of Python's \<open>datetime\<close> and \<open>calendar\<close> modules the application uses. A \<open>date\<close> is a
  year, month and day of the proleptic Gregorian calendar; a \<open>datetime\<close> is a date and the
  microsecond of the day. Every timestamp of the application is UTC, so the model has no time
  zone: \<open>utcnow()\<close> of \<open>src/app/models.py\<close> is an argument of the operations that read it.
  Both types are linearly ordered as in Python. \<open>isoformat\<close> and \<open>fromisoformat\<close> are the text
  form event payloads store dates in; the parser reads the form \<open>isoformat\<close> writes.
\<close>

section \<open>Dates\<close>

datatype date = Date (year: int) (month: int) (day: int)

definition date_key :: "date \<Rightarrow> int \<times> int \<times> int" where
  "date_key d = (year d, month d, day d)"

lemma date_key_inject [simp]: "date_key a = date_key b \<longleftrightarrow> a = b"
  by (cases a; cases b) (simp add: date_key_def)

instantiation date :: linorder
begin

definition less_eq_date :: "date \<Rightarrow> date \<Rightarrow> bool" where
  "less_eq_date a b = (date_key a \<le> date_key b)"

definition less_date :: "date \<Rightarrow> date \<Rightarrow> bool" where
  "less_date a b = (date_key a < date_key b)"

instance
proof
  fix x y z :: date
  show "x < y \<longleftrightarrow> x \<le> y \<and> \<not> y \<le> x"
    by (simp add: less_eq_date_def less_date_def less_le_not_le)
  show "x \<le> x" by (simp add: less_eq_date_def)
  show "x \<le> z" if "x \<le> y" "y \<le> z"
    using that by (simp add: less_eq_date_def)
  show "x = y" if "x \<le> y" "y \<le> x"
    using that by (simp add: less_eq_date_def)
  show "x \<le> y \<or> y \<le> x"
    by (auto simp: less_eq_date_def)
qed

end

lemma date_le_iff:
  "Date y m d \<le> Date y' m' d' \<longleftrightarrow> y < y' \<or> y = y' \<and> (m < m' \<or> m = m' \<and> d \<le> d')"
  by (auto simp: less_eq_date_def date_key_def less_eq_prod_def less_prod_def)

lemma date_less_iff:
  "Date y m d < Date y' m' d' \<longleftrightarrow> y < y' \<or> y = y' \<and> (m < m' \<or> m = m' \<and> d < d')"
  by (auto simp: less_date_def date_key_def less_eq_prod_def less_prod_def)

definition is_leap :: "int \<Rightarrow> bool" where
  "is_leap y = (y mod 4 = 0 \<and> (y mod 100 \<noteq> 0 \<or> y mod 400 = 0))"

text \<open>The second component of \<open>calendar.monthrange(year, month)\<close>.\<close>

definition monthrange :: "int \<Rightarrow> int \<Rightarrow> int" where
  "monthrange y m =
     (if m = 2 then (if is_leap y then 29 else 28)
      else if m = 4 \<or> m = 6 \<or> m = 9 \<or> m = 11 then 30 else 31)"

definition valid_date :: "date \<Rightarrow> bool" where
  "valid_date d =
     (1 \<le> year d \<and> year d \<le> 9999 \<and> 1 \<le> month d \<and> month d \<le> 12 \<and>
      1 \<le> day d \<and> day d \<le> monthrange (year d) (month d))"

text \<open>The constructor \<open>datetime.date(year, month, day)\<close> raises outside the calendar.\<close>

definition mk_date :: "int \<Rightarrow> int \<Rightarrow> int \<Rightarrow> date result" where
  "mk_date y m d =
     (if valid_date (Date y m d) then Inr (Date y m d) else Inl (ValueError ''date out of range''))"

lemma mk_date_Inr_iff [simp]: "mk_date y m d = Inr x \<longleftrightarrow> x = Date y m d \<and> valid_date x"
  by (auto simp: mk_date_def)

lemma monthrange_bounds: "28 \<le> monthrange y m" "monthrange y m \<le> 31"
  by (simp_all add: monthrange_def)

text \<open>Days since the epoch of \<open>date.toordinal()\<close>; date differences are differences of these.\<close>

definition days_before_month :: "int \<Rightarrow> int \<Rightarrow> int" where
  "days_before_month y m =
     sum_list (map (\<lambda>k. monthrange y (int k)) [1..<nat m])"

definition toordinal :: "date \<Rightarrow> int" where
  "toordinal d =
     (let p = year d - 1 in p * 365 + p div 4 - p div 100 + p div 400)
       + days_before_month (year d) (month d) + day d"

definition days_between :: "date \<Rightarrow> date \<Rightarrow> int" where
  "days_between a b = toordinal a - toordinal b"

section \<open>Date-times\<close>

datatype datetime = Datetime (dt_date: date) (dt_micros: int)

definition datetime_key :: "datetime \<Rightarrow> date \<times> int" where
  "datetime_key t = (dt_date t, dt_micros t)"

lemma datetime_key_inject [simp]: "datetime_key a = datetime_key b \<longleftrightarrow> a = b"
  by (cases a; cases b) (simp add: datetime_key_def)

instantiation datetime :: linorder
begin

definition less_eq_datetime :: "datetime \<Rightarrow> datetime \<Rightarrow> bool" where
  "less_eq_datetime a b = (datetime_key a \<le> datetime_key b)"

definition less_datetime :: "datetime \<Rightarrow> datetime \<Rightarrow> bool" where
  "less_datetime a b = (datetime_key a < datetime_key b)"

instance
proof
  fix x y z :: datetime
  show "x < y \<longleftrightarrow> x \<le> y \<and> \<not> y \<le> x"
    by (simp add: less_eq_datetime_def less_datetime_def less_le_not_le)
  show "x \<le> x" by (simp add: less_eq_datetime_def)
  show "x \<le> z" if "x \<le> y" "y \<le> z"
    using that by (simp add: less_eq_datetime_def)
  show "x = y" if "x \<le> y" "y \<le> x"
    using that by (simp add: less_eq_datetime_def)
  show "x \<le> y \<or> y \<le> x"
    by (auto simp: less_eq_datetime_def)
qed

end

lemma datetime_le_iff:
  "Datetime a i \<le> Datetime b j \<longleftrightarrow> a < b \<or> a = b \<and> i \<le> j"
  by (auto simp: less_eq_datetime_def datetime_key_def less_eq_prod_def)

lemma datetime_less_iff:
  "Datetime a i < Datetime b j \<longleftrightarrow> a < b \<or> a = b \<and> i < j"
  by (auto simp: less_datetime_def datetime_key_def less_prod_def less_eq_prod_def)

definition micros_per_day :: int where
  "micros_per_day = 86400000000"

definition valid_datetime :: "datetime \<Rightarrow> bool" where
  "valid_datetime t = (valid_date (dt_date t) \<and> 0 \<le> dt_micros t \<and> dt_micros t < micros_per_day)"

text \<open>Microseconds since the epoch, for comparisons against a shifted time stamp.\<close>

definition to_micros :: "datetime \<Rightarrow> int" where
  "to_micros t = toordinal (dt_date t) * micros_per_day + dt_micros t"

section \<open>Decimal fields of fixed width\<close>

definition digit_char :: "int \<Rightarrow> char" where
  "digit_char n = char_of (48 + n mod 10)"

definition is_digit :: "char \<Rightarrow> bool" where
  "is_digit c = (48 \<le> (of_char c :: int) \<and> (of_char c :: int) \<le> 57)"

definition digit_val :: "char \<Rightarrow> int" where
  "digit_val c = of_char c - 48"

fun pad_digits :: "nat \<Rightarrow> int \<Rightarrow> string" where
  "pad_digits 0 n = []"
| "pad_digits (Suc w) n = pad_digits w (n div 10) @ [digit_char n]"

definition read_digits :: "string \<Rightarrow> int" where
  "read_digits s = foldl (\<lambda>acc c. 10 * acc + digit_val c) 0 s"

lemma of_char_digit_char [simp]: "of_char (digit_char n) = (48 + n mod 10 :: int)"
proof -
  have "48 + n mod 10 < 256" "0 \<le> 48 + n mod 10"
    using pos_mod_bound [of 10 n] pos_mod_sign [of 10 n] by linarith+
  then show ?thesis by (simp add: digit_char_def of_char_of mod_pos_pos_trivial)
qed

lemma is_digit_digit_char [simp]: "is_digit (digit_char n)"
  using pos_mod_bound [of 10 n] by (simp add: is_digit_def)

lemma digit_val_digit_char [simp]: "digit_val (digit_char n) = n mod 10"
  by (simp add: digit_val_def)

lemma length_pad_digits [simp]: "length (pad_digits w n) = w"
  by (induction w arbitrary: n) auto

lemma pad_digits_are_digits: "\<forall>c\<in>set (pad_digits w n). is_digit c"
  by (induction w arbitrary: n) auto

lemma read_pad_digits: "0 \<le> n \<Longrightarrow> n < 10 ^ w \<Longrightarrow> read_digits (pad_digits w n) = n"
proof (induction w arbitrary: n)
  case (Suc w)
  have "0 \<le> n div 10" using Suc.prems by simp
  moreover have "n div 10 < 10 ^ w" using Suc.prems(2) unfolding power_Suc by linarith
  ultimately have "read_digits (pad_digits w (n div 10)) = n div 10" by (rule Suc.IH)
  then show ?case by (simp add: read_digits_def)
qed (simp add: read_digits_def)

section \<open>The ISO 8601 text form\<close>

definition field :: "nat \<Rightarrow> nat \<Rightarrow> string \<Rightarrow> string" where
  "field i w s = take w (drop i s)"

definition num_field :: "nat \<Rightarrow> nat \<Rightarrow> string \<Rightarrow> int option" where
  "num_field i w s =
     (let f = field i w s in if length f = w \<and> list_all is_digit f then Some (read_digits f) else None)"

definition date_isoformat :: "date \<Rightarrow> string" where
  "date_isoformat d =
     pad_digits 4 (year d) @ ''-'' @ pad_digits 2 (month d) @ ''-'' @ pad_digits 2 (day d)"

definition date_fromisoformat :: "string \<Rightarrow> date result" where
  "date_fromisoformat s =
     (if length s = 10 \<and> field 4 1 s = ''-'' \<and> field 7 1 s = ''-'' then
        (case (num_field 0 4 s, num_field 5 2 s, num_field 8 2 s) of
           (Some y, Some m, Some d) \<Rightarrow> mk_date y m d
         | _ \<Rightarrow> Inl (ValueError ''Invalid isoformat string''))
      else Inl (ValueError ''Invalid isoformat string''))"

definition time_isoformat :: "int \<Rightarrow> string" where
  "time_isoformat us =
     (let sec = us div 1000000; ff = us mod 1000000 in
      pad_digits 2 (sec div 3600) @ '':'' @ pad_digits 2 (sec div 60 mod 60) @ '':'' @
      pad_digits 2 (sec mod 60) @ (if ff = 0 then [] else ''.'' @ pad_digits 6 ff))"

definition time_fromisoformat :: "string \<Rightarrow> int result" where
  "time_fromisoformat s =
     (if (length s = 8 \<or> length s = 15 \<and> field 8 1 s = ''.'') \<and> field 2 1 s = '':'' \<and> field 5 1 s = '':'' then
        (case (num_field 0 2 s, num_field 3 2 s, num_field 6 2 s,
               if length s = 8 then Some 0 else num_field 9 6 s) of
           (Some h, Some m, Some c, Some f) \<Rightarrow>
             (if h < 24 \<and> m < 60 \<and> c < 60 then Inr (((h * 60 + m) * 60 + c) * 1000000 + f)
              else Inl (ValueError ''time out of range''))
         | _ \<Rightarrow> Inl (ValueError ''Invalid isoformat string''))
      else Inl (ValueError ''Invalid isoformat string''))"

definition datetime_isoformat :: "datetime \<Rightarrow> string" where
  "datetime_isoformat t =
     date_isoformat (dt_date t) @ ''T'' @ time_isoformat (dt_micros t) @ ''+00:00''"

definition drop_utc_offset :: "string \<Rightarrow> string" where
  "drop_utc_offset s =
     (let n = length s - 6 in if field n 6 s = ''+00:00'' then take n s else s)"

definition datetime_fromisoformat :: "string \<Rightarrow> datetime result" where
  "datetime_fromisoformat s =
     (if field 10 1 s = ''T'' then
        rbind (date_fromisoformat (take 10 s)) (\<lambda>d.
        rbind (time_fromisoformat (drop_utc_offset (drop 11 s))) (\<lambda>us.
        Inr (Datetime d us)))
      else Inl (ValueError ''Invalid isoformat string''))"

lemma num_field_of_pad:
  "field i w s = pad_digits w n \<Longrightarrow> 0 \<le> n \<Longrightarrow> n < 10 ^ w \<Longrightarrow> num_field i w s = Some n"
  by (simp add: num_field_def Let_def read_pad_digits pad_digits_are_digits list_all_iff)

lemma length_date_isoformat [simp]: "length (date_isoformat d) = 10"
  by (simp add: date_isoformat_def)

lemma date_isoformat_roundtrip: "valid_date d \<Longrightarrow> date_fromisoformat (date_isoformat d) = Inr d"
proof -
  assume v: "valid_date d"
  obtain y m dd where d: "d = Date y m dd" by (cases d)
  let ?s = "date_isoformat d"
  have b: "0 \<le> y" "y < 10 ^ 4" "0 \<le> m" "m < 10 ^ 2" "0 \<le> dd" "dd < 10 ^ 2"
    using v monthrange_bounds [of y m] by (auto simp: d valid_date_def)
  have f: "num_field 0 4 ?s = Some y" "num_field 5 2 ?s = Some m" "num_field 8 2 ?s = Some dd"
    by (rule num_field_of_pad; simp add: b [simplified] date_isoformat_def d field_def del: pad_digits.simps)+
  moreover have "field 4 1 ?s = ''-''" "field 7 1 ?s = ''-''"
    by (simp_all add: date_isoformat_def field_def del: pad_digits.simps)
  ultimately show ?thesis
    using v by (simp add: date_fromisoformat_def d valid_date_def mk_date_def)
qed

lemma time_isoformat_fields:
  assumes "0 \<le> n" "n < 86400000000"
  defines "s \<equiv> time_isoformat n"
  shows "num_field 0 2 s = Some (n div 1000000 div 3600)"
    and "num_field 3 2 s = Some (n div 1000000 div 60 mod 60)"
    and "num_field 6 2 s = Some (n div 1000000 mod 60)"
    and "n mod 1000000 \<noteq> 0 \<Longrightarrow> num_field 9 6 s = Some (n mod 1000000)"
    and "field 2 1 s = '':''" and "field 5 1 s = '':''"
    and "n mod 1000000 \<noteq> 0 \<Longrightarrow> field 8 1 s = ''.''"
    and "length s = (if n mod 1000000 = 0 then 8 else 15)"
proof -
  have sec: "0 \<le> n div 1000000" "n div 1000000 < 86400" using assms(1,2) by linarith+
  have h: "0 \<le> n div 1000000 div 3600" "n div 1000000 div 3600 < 10 ^ 2" using sec by simp_all
  have m: "0 \<le> n div 1000000 div 60 mod 60" "n div 1000000 div 60 mod 60 < 10 ^ 2"
    using pos_mod_bound [of 60 "n div 1000000 div 60"] by simp_all
  have c: "0 \<le> n div 1000000 mod 60" "n div 1000000 mod 60 < 10 ^ 2"
    using pos_mod_bound [of 60 "n div 1000000"] by simp_all
  have f: "0 \<le> n mod 1000000" "n mod 1000000 < 10 ^ 6" by simp_all
  show "num_field 0 2 s = Some (n div 1000000 div 3600)"
    by (rule num_field_of_pad [OF _ h]) (simp add: s_def time_isoformat_def Let_def field_def del: pad_digits.simps)
  show "num_field 3 2 s = Some (n div 1000000 div 60 mod 60)"
    by (rule num_field_of_pad [OF _ m]) (simp add: s_def time_isoformat_def Let_def field_def del: pad_digits.simps)
  show "num_field 6 2 s = Some (n div 1000000 mod 60)"
    by (rule num_field_of_pad [OF _ c]) (simp add: s_def time_isoformat_def Let_def field_def del: pad_digits.simps)
  show "num_field 9 6 s = Some (n mod 1000000)" if "n mod 1000000 \<noteq> 0"
    by (rule num_field_of_pad [OF _ f])
      (use that in \<open>simp add: s_def time_isoformat_def Let_def field_def del: pad_digits.simps\<close>)
  show "field 2 1 s = '':''" "field 5 1 s = '':''"
    by (simp_all add: s_def time_isoformat_def Let_def field_def del: pad_digits.simps)
  show "field 8 1 s = ''.''" if "n mod 1000000 \<noteq> 0"
    using that by (simp add: s_def time_isoformat_def Let_def field_def del: pad_digits.simps)
  show "length s = (if n mod 1000000 = 0 then 8 else 15)"
    by (simp add: s_def time_isoformat_def Let_def del: pad_digits.simps)
qed

lemma micros_recompose:
  fixes n :: int
  shows "((n div 1000000 div 3600 * 60 + n div 1000000 div 60 mod 60) * 60 + n div 1000000 mod 60) * 1000000
     + n mod 1000000 = n"
proof -
  have "(k div 3600 * 60 + k div 60 mod 60) * 60 + k mod 60 = k" for k :: int
  proof -
    have "k div 3600 = k div 60 div 60" by (simp add: zdiv_zmult2_eq [symmetric])
    then have "k div 3600 * 60 + k div 60 mod 60 = k div 60" by simp
    then show ?thesis by simp
  qed
  then show ?thesis by simp
qed

lemma time_isoformat_roundtrip:
  assumes "0 \<le> n" "n < 86400000000"
  shows "time_fromisoformat (time_isoformat n) = Inr n"
proof -
  define h m c f where "h = n div 1000000 div 3600" and "m = n div 1000000 div 60 mod 60"
    and "c = n div 1000000 mod 60" and "f = n mod 1000000"
  note fields = time_isoformat_fields [OF assms, folded h_def m_def c_def f_def]
  have "n div 1000000 < 86400" using assms by linarith
  then have "h < 24" "m < 60" "c < 60" by (simp_all add: h_def m_def c_def)
  moreover have "((h * 60 + m) * 60 + c) * 1000000 + f = n"
    unfolding h_def m_def c_def f_def by (rule micros_recompose)
  ultimately show ?thesis
    using fields by (cases "f = 0") (simp_all add: time_fromisoformat_def)
qed

lemma drop_utc_offset_append: "drop_utc_offset (s @ ''+00:00'') = s"
  by (simp add: drop_utc_offset_def field_def)

lemma datetime_isoformat_roundtrip:
  assumes "valid_datetime t"
  shows "datetime_fromisoformat (datetime_isoformat t) = Inr t"
proof -
  obtain d us where t: "t = Datetime d us" by (cases t)
  have us: "0 \<le> us" "us < 86400000000"
    using assms by (simp_all add: valid_datetime_def t micros_per_day_def)
  have take: "take 10 (datetime_isoformat t) = date_isoformat d"
    and drop: "drop 11 (datetime_isoformat t) = time_isoformat us @ ''+00:00''"
    and sep: "field 10 1 (datetime_isoformat t) = ''T''"
    by (simp_all add: datetime_isoformat_def t field_def)
  have "date_fromisoformat (date_isoformat d) = Inr d"
    using assms by (intro date_isoformat_roundtrip) (simp add: valid_datetime_def t)
  then show ?thesis
    using time_isoformat_roundtrip [OF us] drop_utc_offset_append [of "time_isoformat us"]
    by (simp only: datetime_fromisoformat_def take drop sep) (simp add: t)
qed

end
