(* ===== verification/Json.thy ===== *)
theory Json
  imports Py_Time
begin

text \<open>
  JSON values as Python reads them back: the payload of a domain event is the value
  \<open>json.loads(event.payload_json)\<close>. A dictionary is an association list; \<open>jget\<close> is
  \<open>payload[key]\<close>, \<open>jget_or\<close> is \<open>payload.get(key, default)\<close>. The typed readers stand for the
  assignment of a payload value to a column of that type.
\<close>

datatype json =
    JNull
  | JBool bool
  | JInt int
  | JStr string
  | JArr "json list"
  | JObj "(string \<times> json) list"

definition jget :: "string \<Rightarrow> json \<Rightarrow> json result" where
  "jget k p =
     (case p of JObj kvs \<Rightarrow> (case map_of kvs k of None \<Rightarrow> Inl (KeyError k) | Some v \<Rightarrow> Inr v)
      | _ \<Rightarrow> Inl StatementError)"

definition jget_or :: "json \<Rightarrow> string \<Rightarrow> json \<Rightarrow> json result" where
  "jget_or d k p =
     (case p of JObj kvs \<Rightarrow> (case map_of kvs k of None \<Rightarrow> Inr d | Some v \<Rightarrow> Inr v)
      | _ \<Rightarrow> Inl AttributeError)"

definition as_str :: "json \<Rightarrow> string result" where
  "as_str j = (case j of JStr s \<Rightarrow> Inr s | _ \<Rightarrow> Inl StatementError)"

definition as_str_opt :: "json \<Rightarrow> string option result" where
  "as_str_opt j = (case j of JNull \<Rightarrow> Inr None | JStr s \<Rightarrow> Inr (Some s) | _ \<Rightarrow> Inl StatementError)"

definition as_int :: "json \<Rightarrow> int result" where
  "as_int j = (case j of JInt i \<Rightarrow> Inr i | _ \<Rightarrow> Inl StatementError)"

definition as_arr :: "json \<Rightarrow> json list result" where
  "as_arr j = (case j of JArr xs \<Rightarrow> Inr xs | _ \<Rightarrow> Inl StatementError)"

definition req_str :: "string \<Rightarrow> json \<Rightarrow> string result" where
  "req_str k p = rbind (jget k p) as_str"

definition req_int :: "string \<Rightarrow> json \<Rightarrow> int result" where
  "req_int k p = rbind (jget k p) as_int"

definition opt_str :: "string \<Rightarrow> json \<Rightarrow> string option result" where
  "opt_str k p = rbind (jget_or JNull k p) as_str_opt"

definition str_or :: "string \<Rightarrow> string \<Rightarrow> json \<Rightarrow> string result" where
  "str_or d k p = rbind (jget_or (JStr d) k p) as_str"

text \<open>Nullable strings and dates as payload values.\<close>

definition jopt :: "string option \<Rightarrow> json" where
  "jopt v = (case v of None \<Rightarrow> JNull | Some s \<Rightarrow> JStr s)"

definition jdatetime :: "datetime option \<Rightarrow> json" where
  "jdatetime v = jopt (map_option datetime_isoformat v)"

definition jdate :: "date option \<Rightarrow> json" where
  "jdate v = jopt (map_option date_isoformat v)"

text \<open>\<open>datetime.fromisoformat(value) if value else None\<close>, and the same for dates.\<close>

definition parse_iso_datetime :: "string option \<Rightarrow> datetime option result" where
  "parse_iso_datetime v =
     (case v of None \<Rightarrow> Inr None
      | Some s \<Rightarrow> if s = [] then Inr None else map_sum id Some (datetime_fromisoformat s))"

definition parse_iso_date :: "string option \<Rightarrow> date option result" where
  "parse_iso_date v =
     (case v of None \<Rightarrow> Inr None
      | Some s \<Rightarrow> if s = [] then Inr None else map_sum id Some (date_fromisoformat s))"

named_theorems json_simps \<open>reading a concrete payload\<close>

lemmas json_readers [json_simps] =
  jget_def jget_or_def as_str_def as_str_opt_def as_int_def as_arr_def
  req_str_def req_int_def opt_str_def str_or_def

lemma as_str_opt_jopt [json_simps]: "as_str_opt (jopt v) = Inr v"
  by (cases v) (simp_all add: jopt_def as_str_opt_def)

lemma jopt_simps [json_simps]: "jopt None = JNull" "jopt (Some s) = JStr s"
  by (simp_all add: jopt_def)

lemma date_isoformat_nonempty [simp]: "date_isoformat d \<noteq> []"
  using length_date_isoformat [of d] by (cases "date_isoformat d") auto

lemma datetime_isoformat_nonempty [simp]: "datetime_isoformat t \<noteq> []"
  by (simp add: datetime_isoformat_def)

lemma parse_iso_datetime_roundtrip:
  "(\<And>t. v = Some t \<Longrightarrow> valid_datetime t) \<Longrightarrow>
     parse_iso_datetime (map_option datetime_isoformat v) = Inr v"
  by (cases v) (simp_all add: parse_iso_datetime_def datetime_isoformat_roundtrip)

lemma parse_iso_date_roundtrip:
  "(\<And>d. v = Some d \<Longrightarrow> valid_date d) \<Longrightarrow>
     parse_iso_date (map_option date_isoformat v) = Inr v"
  by (cases v) (simp_all add: parse_iso_date_def date_isoformat_roundtrip)

end
