(* ===== verification/Event_Store.thy ===== *)
theory Event_Store
  imports Json
begin

text \<open>
  The generic domain-event store of \<open>src/app/events.py\<close>: an append-only table of immutable
  events, a monotonic sequence number per aggregate, idempotency keys, the retry loop that
  survives concurrent appends, and the rebuild of a projection by replay.

  The store is an extensible record, so that the same operations run on a state that also
  holds the projection tables of the domains. The clock reading \<open>utcnow()\<close> and the new row id
  \<open>new_id()\<close> of an append are its \<^emph>\<open>tick\<close>. What other transactions commit while an append
  runs is its \<^emph>\<open>race\<close>: for each attempt, the events that become visible before the attempt's
  reads and those that are committed between its reads and its insert.
\<close>

section \<open>Events\<close>

record domain_event =
  ev_id :: string
  ev_aggregate_type :: string
  ev_aggregate_id :: string
  ev_aggregate_sequence :: int
  ev_event_type :: string
  ev_schema_version :: int
  ev_payload :: json
  ev_occurred_at :: datetime
  ev_recorded_at :: datetime
  ev_actor_type :: string
  ev_actor_id :: "string option"
  ev_correlation_id :: "string option"
  ev_causation_id :: "string option"
  ev_idempotency_key :: "string option"

record store =
  domain_events :: "domain_event list"

text \<open>The keyword arguments of \<open>append_event\<close>, and the ambient inputs of one call.\<close>

record event_cmd =
  c_aggregate_type :: string
  c_aggregate_id :: string
  c_event_type :: string
  c_payload :: json
  c_occurred_at :: "datetime option"
  c_actor_type :: string
  c_actor_id :: "string option"
  c_correlation_id :: "string option"
  c_causation_id :: "string option"
  c_idempotency_key :: "string option"
  c_schema_version :: int

record tick =
  t_now :: datetime
  t_id :: string

type_synonym race = "(domain_event list \<times> domain_event list) list"

type_synonym 's projector = "'s \<Rightarrow> domain_event \<Rightarrow> 's result"

definition max_append_attempts :: nat where
  "max_append_attempts = 5"

text \<open>The table's constraints: primary key, the two unique constraints and the check.\<close>

definition same_slot :: "string \<Rightarrow> string \<Rightarrow> int \<Rightarrow> domain_event \<Rightarrow> bool" where
  "same_slot at aid n e =
     (ev_aggregate_type e = at \<and> ev_aggregate_id e = aid \<and> ev_aggregate_sequence e = n)"

definition event_insertable :: "domain_event list \<Rightarrow> domain_event \<Rightarrow> bool" where
  "event_insertable es e =
     (1 \<le> ev_aggregate_sequence e \<and>
      list_all (\<lambda>x. ev_id x \<noteq> ev_id e) es \<and>
      list_all (\<lambda>x. \<not> same_slot (ev_aggregate_type e) (ev_aggregate_id e) (ev_aggregate_sequence e) x) es \<and>
      (case ev_idempotency_key e of None \<Rightarrow> True
       | Some k \<Rightarrow> list_all (\<lambda>x. ev_idempotency_key x \<noteq> Some k) es))"

text \<open>
  The immutability guards: the mapper events reject a changed or deleted instance, the
  session event rejects a bulk update or delete whose mapper is \<open>DomainEvent\<close>.
\<close>

datatype orm_class = DomainEventClass | OtherClass string

datatype orm_statement =
    InstanceInsert orm_class
  | InstanceUpdate orm_class
  | InstanceDelete orm_class
  | BulkSelect "orm_class option"
  | BulkUpdate "orm_class option"
  | BulkDelete "orm_class option"

definition reject_domain_event_update :: "orm_class \<Rightarrow> unit result" where
  "reject_domain_event_update c = (if c = DomainEventClass then Inl RuntimeError else Inr ())"

definition reject_domain_event_delete :: "orm_class \<Rightarrow> unit result" where
  "reject_domain_event_delete c = (if c = DomainEventClass then Inl RuntimeError else Inr ())"

definition reject_domain_event_bulk_mutation :: "orm_statement \<Rightarrow> unit result" where
  "reject_domain_event_bulk_mutation st =
     (case st of
        BulkUpdate m \<Rightarrow> (if m = Some DomainEventClass then Inl RuntimeError else Inr ())
      | BulkDelete m \<Rightarrow> (if m = Some DomainEventClass then Inl RuntimeError else Inr ())
      | _ \<Rightarrow> Inr ())"

section \<open>Appending\<close>

definition next_aggregate_sequence :: "domain_event list \<Rightarrow> string \<Rightarrow> string \<Rightarrow> int" where
  "next_aggregate_sequence es at aid =
     fold max (map ev_aggregate_sequence
       (filter (\<lambda>e. ev_aggregate_type e = at \<and> ev_aggregate_id e = aid) es)) 0 + 1"

definition find_by_idempotency_key :: "domain_event list \<Rightarrow> string \<Rightarrow> domain_event option" where
  "find_by_idempotency_key es k = find (\<lambda>e. ev_idempotency_key e = Some k) es"

definition lookup_key :: "domain_event list \<Rightarrow> string option \<Rightarrow> domain_event option" where
  "lookup_key es k = (case k of None \<Rightarrow> None | Some k' \<Rightarrow> find_by_idempotency_key es k')"

definition candidate :: "tick \<Rightarrow> event_cmd \<Rightarrow> int \<Rightarrow> domain_event" where
  "candidate t c n =
     \<lparr>ev_id = t_id t, ev_aggregate_type = c_aggregate_type c, ev_aggregate_id = c_aggregate_id c,
      ev_aggregate_sequence = n, ev_event_type = c_event_type c,
      ev_schema_version = c_schema_version c, ev_payload = c_payload c,
      ev_occurred_at = (case c_occurred_at c of None \<Rightarrow> t_now t | Some x \<Rightarrow> x),
      ev_recorded_at = t_now t, ev_actor_type = c_actor_type c, ev_actor_id = c_actor_id c,
      ev_correlation_id = c_correlation_id c, ev_causation_id = c_causation_id c,
      ev_idempotency_key = c_idempotency_key c\<rparr>"

text \<open>
  The retry loop: re-check the key, compute the next slot, insert. An insert that the
  database refuses is retried only when the slot it wanted is now taken; any other refusal
  is raised.
\<close>

fun append_attempts ::
  "nat \<Rightarrow> race \<Rightarrow> tick \<Rightarrow> event_cmd \<Rightarrow> 'z store_scheme \<Rightarrow> (domain_event \<times> bool \<times> 'z store_scheme) result"
where
  "append_attempts 0 race t c s = Inl ConcurrentAppendError"
| "append_attempts (Suc k) race t c s =
     (let (before, between) = (case race of [] \<Rightarrow> ([], []) | r # _ \<Rightarrow> r);
          es = domain_events s @ before
      in case lookup_key es (c_idempotency_key c) of
           Some e \<Rightarrow> Inr (e, False, s\<lparr>domain_events := es\<rparr>)
         | None \<Rightarrow>
             (let n = next_aggregate_sequence es (c_aggregate_type c) (c_aggregate_id c);
                  e = candidate t c n;
                  es' = es @ between
              in if event_insertable es' e then Inr (e, True, s\<lparr>domain_events := es' @ [e]\<rparr>)
                 else if list_ex (same_slot (c_aggregate_type c) (c_aggregate_id c) n) es'
                 then append_attempts k (tl race) t c (s\<lparr>domain_events := es'\<rparr>)
                 else Inl IntegrityError))"

definition append_event_with_created_flag ::
  "race \<Rightarrow> tick \<Rightarrow> event_cmd \<Rightarrow> 'z store_scheme \<Rightarrow> (domain_event \<times> bool \<times> 'z store_scheme) result"
where
  "append_event_with_created_flag race t c s =
     (case lookup_key (domain_events s) (c_idempotency_key c) of
        Some e \<Rightarrow> Inr (e, False, s)
      | None \<Rightarrow> append_attempts max_append_attempts race t c s)"

definition append_event ::
  "race \<Rightarrow> tick \<Rightarrow> event_cmd \<Rightarrow> 'z store_scheme \<Rightarrow> (domain_event \<times> 'z store_scheme) result" where
  "append_event race t c s =
     rbind (append_event_with_created_flag race t c s) (\<lambda>(e, _, s'). Inr (e, s'))"

text \<open>The projector dictionary: a missing event type is a \<open>KeyError\<close>.\<close>

definition run_projector :: "(string \<rightharpoonup> 's projector) \<Rightarrow> 's \<Rightarrow> domain_event \<Rightarrow> 's result" where
  "run_projector ps s e =
     (case ps (ev_event_type e) of None \<Rightarrow> Inl (KeyError (ev_event_type e)) | Some p \<Rightarrow> p s e)"

definition append_and_project ::
  "race \<Rightarrow> tick \<Rightarrow> (string \<rightharpoonup> 'z store_scheme projector) \<Rightarrow> event_cmd \<Rightarrow> 'z store_scheme \<Rightarrow>
   (domain_event \<times> 'z store_scheme) result"
where
  "append_and_project race t ps c s =
     rbind (append_event_with_created_flag race t c s) (\<lambda>(e, created, s').
       if created then rbind (run_projector ps s' e) (\<lambda>s''. Inr (e, s'')) else Inr (e, s'))"

section \<open>Rebuilding\<close>

definition replay_key :: "domain_event \<Rightarrow> datetime \<times> string \<times> string \<times> int" where
  "replay_key e =
     (ev_recorded_at e, ev_aggregate_type e, ev_aggregate_id e, ev_aggregate_sequence e)"

definition events_of :: "string \<Rightarrow> domain_event list \<Rightarrow> domain_event list" where
  "events_of at es = sort_key replay_key (filter (\<lambda>e. ev_aggregate_type e = at) es)"

definition rebuild_projection ::
  "(string \<rightharpoonup> 'z store_scheme projector) \<Rightarrow> string \<Rightarrow> ('z store_scheme \<Rightarrow> 'z store_scheme result) \<Rightarrow>
   'z store_scheme \<Rightarrow> 'z store_scheme result"
where
  "rebuild_projection ps at reset s =
     rbind (reset s) (\<lambda>s0. rfold (run_projector ps) (events_of at (domain_events s0)) s0)"

section \<open>Well-formed stores\<close>

text \<open>
  The invariant of the table: row ids and idempotency keys are unique, and the sequence
  numbers of every aggregate are 1, 2, 3, ... in append order, without a gap.
\<close>

definition agg_events :: "string \<Rightarrow> string \<Rightarrow> domain_event list \<Rightarrow> domain_event list" where
  "agg_events at aid es = filter (\<lambda>e. ev_aggregate_type e = at \<and> ev_aggregate_id e = aid) es"

definition keys_of :: "domain_event list \<Rightarrow> string list" where
  "keys_of es = List.map_filter ev_idempotency_key es"

definition wf_events :: "domain_event list \<Rightarrow> bool" where
  "wf_events es =
     (distinct (map ev_id es) \<and> distinct (keys_of es) \<and>
      (\<forall>at aid. map ev_aggregate_sequence (agg_events at aid es) =
         map int [1..<Suc (length (agg_events at aid es))]))"

text \<open>The stores an append sees while other transactions commit are well-formed too.\<close>

fun race_wf :: "race \<Rightarrow> domain_event list \<Rightarrow> bool" where
  "race_wf [] es = True"
| "race_wf ((before, between) # rs) es =
     (wf_events (es @ before) \<and> wf_events (es @ before @ between) \<and>
      race_wf rs (es @ before @ between))"

lemma fold_max_Suc: "fold max (map int [1..<Suc n]) 0 = int n"
proof (induction n)
  case (Suc n)
  then show ?case by (simp add: upt_Suc_append del: upt_Suc)
qed simp

lemma next_sequence_wf:
  "wf_events es \<Longrightarrow> next_aggregate_sequence es at aid = int (length (agg_events at aid es)) + 1"
  by (simp only: next_aggregate_sequence_def wf_events_def agg_events_def [symmetric] fold_max_Suc)

lemma keys_of_snoc:
  "keys_of (es @ [e]) = keys_of es @ (case ev_idempotency_key e of None \<Rightarrow> [] | Some k \<Rightarrow> [k])"
  by (simp add: keys_of_def List.map_filter_def split: option.splits)

lemma in_keys_of: "k \<in> set (keys_of es) \<longleftrightarrow> (\<exists>e\<in>set es. ev_idempotency_key e = Some k)"
  by (force simp: keys_of_def List.map_filter_def)

lemma agg_events_snoc:
  "agg_events at aid (es @ [e]) =
     agg_events at aid es @ (if ev_aggregate_type e = at \<and> ev_aggregate_id e = aid then [e] else [])"
  by (simp add: agg_events_def)

lemma wf_events_snoc:
  assumes wf: "wf_events es" and ins: "event_insertable es e"
    and n: "ev_aggregate_sequence e =
        int (Suc (length (agg_events (ev_aggregate_type e) (ev_aggregate_id e) es)))"
  shows "wf_events (es @ [e])"
proof -
  have "distinct (map ev_id (es @ [e]))"
    using wf ins by (auto simp: wf_events_def event_insertable_def list_all_iff)
  moreover have "distinct (keys_of (es @ [e]))"
    using wf ins by (auto simp: wf_events_def event_insertable_def list_all_iff keys_of_snoc in_keys_of
        split: option.splits)
  moreover have "map ev_aggregate_sequence (agg_events at aid (es @ [e])) =
      map int [1..<Suc (length (agg_events at aid (es @ [e])))]" for at aid
    using wf n by (simp add: wf_events_def agg_events_snoc)
  ultimately show ?thesis by (simp add: wf_events_def)
qed

lemma wf_slot_taken_iff:
  assumes "wf_events es"
  shows "list_ex (same_slot at aid n) es \<longleftrightarrow> 1 \<le> n \<and> n \<le> int (length (agg_events at aid es))"
proof -
  have "list_ex (same_slot at aid n) es \<longleftrightarrow> n \<in> set (map ev_aggregate_sequence (agg_events at aid es))"
    by (auto simp: list_ex_iff same_slot_def agg_events_def)
  also have "\<dots> \<longleftrightarrow> n \<in> set (map int [1..<Suc (length (agg_events at aid es))])"
    using assms by (simp only: wf_events_def)
  also have "\<dots> \<longleftrightarrow> 1 \<le> n \<and> n \<le> int (length (agg_events at aid es))"
    by (auto intro!: image_eqI [of _ _ "nat n"])
  finally show ?thesis .
qed

lemma agg_events_append [simp]:
  "agg_events at aid (xs @ ys) = agg_events at aid xs @ agg_events at aid ys"
  by (simp add: agg_events_def)

text \<open>
  When the slot computed before other events arrived is still free, none of those events
  belongs to the aggregate, so the slot is the next one of the longer table too.
\<close>

lemma free_slot_is_next:
  assumes "wf_events es" and "wf_events (es @ zs)"
    and "\<not> list_ex (same_slot at aid (next_aggregate_sequence es at aid)) (es @ zs)"
  shows "next_aggregate_sequence es at aid = next_aggregate_sequence (es @ zs) at aid"
  using assms(3) unfolding wf_slot_taken_iff [OF assms(2)] next_sequence_wf [OF assms(1)]
  by (cases "agg_events at aid zs") (simp_all add: next_sequence_wf [OF assms(2)])

lemma candidate_simps [simp]:
  "ev_id (candidate t c n) = t_id t" "ev_aggregate_type (candidate t c n) = c_aggregate_type c"
  "ev_aggregate_id (candidate t c n) = c_aggregate_id c" "ev_aggregate_sequence (candidate t c n) = n"
  "ev_event_type (candidate t c n) = c_event_type c" "ev_payload (candidate t c n) = c_payload c"
  "ev_recorded_at (candidate t c n) = t_now t" "ev_actor_id (candidate t c n) = c_actor_id c"
  "ev_actor_type (candidate t c n) = c_actor_type c"
  "ev_idempotency_key (candidate t c n) = c_idempotency_key c"
  "ev_occurred_at (candidate t c n) = (case c_occurred_at c of None \<Rightarrow> t_now t | Some x \<Rightarrow> x)"
  by (simp_all add: candidate_def)

lemma append_attempts_wf:
  assumes "append_attempts k race t c s = Inr (e, created, s')"
    and "wf_events (domain_events s)" and "race_wf race (domain_events s)"
  shows "wf_events (domain_events s')"
  using assms
proof (induction k arbitrary: race s)
  case (Suc k)
  define before where "before = (case race of [] \<Rightarrow> [] | r # _ \<Rightarrow> fst r)"
  define between where "between = (case race of [] \<Rightarrow> [] | r # _ \<Rightarrow> snd r)"
  let ?es = "domain_events s @ before"
  let ?n = "next_aggregate_sequence ?es (c_aggregate_type c) (c_aggregate_id c)"
  have bb: "(case race of [] \<Rightarrow> ([], []) | r # _ \<Rightarrow> r) = (before, between)"
    by (simp add: before_def between_def split: list.splits)
  have wf: "wf_events ?es" "wf_events (?es @ between)" "race_wf (tl race) (?es @ between)"
    using Suc.prems(2,3) by (cases race; auto simp: before_def between_def)+
  note step = Suc.prems(1) [unfolded append_attempts.simps bb Let_def prod.case]
  show ?case
  proof (cases "lookup_key ?es (c_idempotency_key c)")
    case (Some e0)
    then show ?thesis using step wf(1) by auto
  next
    case None
    show ?thesis
    proof (cases "event_insertable (?es @ between) (candidate t c ?n)")
      case True
      have "\<not> list_ex (same_slot (c_aggregate_type c) (c_aggregate_id c) ?n) (?es @ between)"
        using True by (auto simp: event_insertable_def list_ex_iff list_all_iff)
      then have "?n = next_aggregate_sequence (?es @ between) (c_aggregate_type c) (c_aggregate_id c)"
        by (rule free_slot_is_next [OF wf(1,2)])
      then have "wf_events ((?es @ between) @ [candidate t c ?n])"
        using wf(2) by (intro wf_events_snoc wf(2) True) (simp add: next_sequence_wf)
      then show ?thesis using step None True by auto
    next
      case False
      then show ?thesis
        using step None Suc.IH [of "tl race" "s\<lparr>domain_events := ?es @ between\<rparr>"] wf
        by (auto split: if_splits)
    qed
  qed
qed simp

text \<open>An append only ever extends the table and touches nothing else.\<close>

lemma append_attempts_extends:
  "append_attempts k race t c s = Inr (e, created, s') \<Longrightarrow>
     \<exists>zs. s' = s\<lparr>domain_events := domain_events s @ zs\<rparr> \<and> (created \<longrightarrow> zs \<noteq> [] \<and> last zs = e)"
proof (induction k arbitrary: race s)
  case (Suc k)
  obtain before between where bb: "(case race of [] \<Rightarrow> ([], []) | r # _ \<Rightarrow> r) = (before, between)"
    by fastforce
  let ?es = "domain_events s @ before"
  let ?s1 = "s\<lparr>domain_events := ?es @ between\<rparr>"
  note step = Suc.prems [unfolded append_attempts.simps bb Let_def prod.case]
  consider "s' = s\<lparr>domain_events := ?es\<rparr>" "\<not> created"
    | "s' = s\<lparr>domain_events := (?es @ between) @ [e]\<rparr>"
    | "append_attempts k (tl race) t c ?s1 = Inr (e, created, s')"
    using step by (auto split: option.splits if_splits)
  then show ?case
  proof cases
    case 3
    from Suc.IH [OF this] obtain zs where "s' = ?s1\<lparr>domain_events := domain_events ?s1 @ zs\<rparr>"
      and "created \<longrightarrow> zs \<noteq> [] \<and> last zs = e" by blast
    then show ?thesis by (intro exI [of _ "before @ between @ zs"]) auto
  qed auto
qed simp

lemma append_flag_extends:
  "append_event_with_created_flag race t c s = Inr (e, created, s') \<Longrightarrow>
     \<exists>zs. s' = s\<lparr>domain_events := domain_events s @ zs\<rparr> \<and> (created \<longrightarrow> zs \<noteq> [] \<and> last zs = e)"
proof (cases "lookup_key (domain_events s) (c_idempotency_key c)")
  case (Some e0)
  moreover assume "append_event_with_created_flag race t c s = Inr (e, created, s')"
  ultimately show ?thesis
    by (auto simp: append_event_with_created_flag_def intro!: exI [of _ "[]"])
qed (simp add: append_event_with_created_flag_def append_attempts_extends)

lemma append_flag_wf:
  "append_event_with_created_flag race t c s = Inr (e, created, s') \<Longrightarrow>
     wf_events (domain_events s) \<Longrightarrow> race_wf race (domain_events s) \<Longrightarrow> wf_events (domain_events s')"
  by (auto simp: append_event_with_created_flag_def split: option.splits dest: append_attempts_wf)

text \<open>A quiet append (no other transaction interferes) is one insert or one lookup.\<close>

lemma append_quiet:
  "append_event_with_created_flag [] t c s =
     (case lookup_key (domain_events s) (c_idempotency_key c) of
        Some e \<Rightarrow> Inr (e, False, s)
      | None \<Rightarrow>
          (let e = candidate t c (next_aggregate_sequence (domain_events s) (c_aggregate_type c) (c_aggregate_id c))
           in if event_insertable (domain_events s) e
              then Inr (e, True, s\<lparr>domain_events := domain_events s @ [e]\<rparr>)
              else if list_ex (same_slot (c_aggregate_type c) (c_aggregate_id c) (ev_aggregate_sequence e)) (domain_events s)
              then Inl ConcurrentAppendError else Inl IntegrityError))"
  by (simp add: append_event_with_created_flag_def max_append_attempts_def numeral_eq_Suc Let_def
      split: option.splits)

lemma lookup_key_SomeD:
  "lookup_key es k = Some e \<Longrightarrow> e \<in> set es \<and> ev_idempotency_key e = k \<and> k \<noteq> None"
  by (auto simp: lookup_key_def find_by_idempotency_key_def find_Some_iff split: option.splits)

lemma lookup_key_None_iff:
  "lookup_key es (Some k) = None \<longleftrightarrow> (\<forall>e\<in>set es. ev_idempotency_key e \<noteq> Some k)"
  by (auto simp: lookup_key_def find_by_idempotency_key_def find_None_iff)

lemma lookup_key_append:
  "lookup_key (es @ zs) k = (case lookup_key es k of None \<Rightarrow> lookup_key zs k | Some e \<Rightarrow> Some e)"
  by (induction es) (auto simp: lookup_key_def find_by_idempotency_key_def split: option.splits)

lemma append_attempts_records_key:
  "append_attempts k race t c s = Inr (e, created, s') \<Longrightarrow> c_idempotency_key c = Some key \<Longrightarrow>
     lookup_key (domain_events s') (Some key) = Some e"
proof (induction k arbitrary: race s)
  case (Suc k)
  obtain before between where bb: "(case race of [] \<Rightarrow> ([], []) | r # _ \<Rightarrow> r) = (before, between)"
    by fastforce
  let ?es = "domain_events s @ before"
  note step = Suc.prems(1) [unfolded append_attempts.simps bb Let_def prod.case]
  show ?case
  proof (cases "lookup_key ?es (c_idempotency_key c)")
    case None
    let ?e = "candidate t c (next_aggregate_sequence ?es (c_aggregate_type c) (c_aggregate_id c))"
    show ?thesis
    proof (cases "event_insertable (?es @ between) ?e")
      case True
      then have "\<forall>x\<in>set (?es @ between). ev_idempotency_key x \<noteq> Some key"
        using Suc.prems(2) by (auto simp: event_insertable_def list_all_iff)
      then have "lookup_key (?es @ between) (Some key) = None"
        by (simp only: lookup_key_None_iff)
      then have "lookup_key ((?es @ between) @ [?e]) (Some key) = Some ?e"
        using Suc.prems(2) by (subst lookup_key_append) (simp add: lookup_key_def find_by_idempotency_key_def)
      then show ?thesis using step None True by auto
    qed (use step None Suc.IH Suc.prems(2) in \<open>auto split: if_splits\<close>)
  qed (use step Suc.prems(2) in auto)
qed simp

lemma append_flag_records_key:
  "append_event_with_created_flag race t c s = Inr (e, created, s') \<Longrightarrow> c_idempotency_key c = Some key \<Longrightarrow>
     lookup_key (domain_events s') (Some key) = Some e"
  by (auto simp: append_event_with_created_flag_def split: option.splits dest: append_attempts_records_key)

text \<open>Once a key is in the table, every command that carries it is a lookup.\<close>

lemma append_known_key:
  "lookup_key (domain_events s) (c_idempotency_key c) = Some e \<Longrightarrow>
     append_and_project race t ps c s = Inr (e, s)"
  by (simp add: append_and_project_def append_event_with_created_flag_def)

text \<open>A quiet command without a key appends exactly one event and runs its projector once.\<close>

lemma append_key_free_iff:
  "c_idempotency_key c = None \<Longrightarrow>
     append_and_project [] t ps c s = Inr (e, s') \<longleftrightarrow>
       e = candidate t c (next_aggregate_sequence (domain_events s) (c_aggregate_type c) (c_aggregate_id c)) \<and>
       event_insertable (domain_events s) e \<and>
       run_projector ps (s\<lparr>domain_events := domain_events s @ [e]\<rparr>) e = Inr s'"
  by (auto simp: append_and_project_def append_quiet lookup_key_def Let_def split: if_splits)

lemma fresh_insertable:
  "wf_events es \<Longrightarrow> \<not> has_row ev_id (t_id t) es \<Longrightarrow> c_idempotency_key c = None \<Longrightarrow>
     event_insertable es (candidate t c (next_aggregate_sequence es (c_aggregate_type c) (c_aggregate_id c)))"
  using wf_slot_taken_iff [of es "c_aggregate_type c" "c_aggregate_id c"
      "int (length (agg_events (c_aggregate_type c) (c_aggregate_id c) es)) + 1"]
  by (simp add: event_insertable_def list_all_iff list_ex_iff has_row_iff next_sequence_wf)

lemma append_ok:
  assumes "wf_events (domain_events s)" and "\<not> has_row ev_id (t_id t) (domain_events s)"
    and "c_idempotency_key c = None"
  shows "\<exists>n. append_and_project [] t ps c s =
           rbind (run_projector ps (s\<lparr>domain_events := domain_events s @ [candidate t c n]\<rparr>) (candidate t c n))
             (\<lambda>s'. Inr (candidate t c n, s')) \<and>
         wf_events (domain_events s @ [candidate t c n])"
proof -
  let ?n = "next_aggregate_sequence (domain_events s) (c_aggregate_type c) (c_aggregate_id c)"
  have ins: "event_insertable (domain_events s) (candidate t c ?n)" by (rule fresh_insertable [OF assms])
  then have "wf_events (domain_events s @ [candidate t c ?n])"
    using next_sequence_wf [OF assms(1)] by (intro wf_events_snoc [OF assms(1)]) simp_all
  then show ?thesis using ins assms(3)
    by (intro exI [of _ ?n]) (simp add: append_and_project_def append_quiet lookup_key_def Let_def)
qed

section \<open>Projections\<close>

text \<open>
  A projection is \<^emph>\<open>in sync\<close> when replaying the aggregate type's events on the emptied
  projection tables gives the state back: the tables hold what the event history says.
\<close>

definition in_sync ::
  "(string \<rightharpoonup> 'z store_scheme projector) \<Rightarrow> string \<Rightarrow> ('z store_scheme \<Rightarrow> 'z store_scheme) \<Rightarrow>
   'z store_scheme \<Rightarrow> bool"
where
  "in_sync ps at clear s \<longleftrightarrow>
     rfold (run_projector ps) (events_of at (domain_events s)) (clear s) = Inr s"

text \<open>The clock reading of an append is later than every event of the aggregate type.\<close>

definition clock_ahead :: "string \<Rightarrow> tick \<Rightarrow> domain_event list \<Rightarrow> bool" where
  "clock_ahead at t es = list_all (\<lambda>e. ev_aggregate_type e = at \<longrightarrow> ev_recorded_at e < t_now t) es"

lemma insort_key_snoc: "f a \<le> f x \<Longrightarrow> insort_key f a (ys @ [x]) = insort_key f a ys @ [x]"
  by (induction ys) auto

lemma sort_key_snoc: "(\<And>y. y \<in> set ys \<Longrightarrow> f y \<le> f x) \<Longrightarrow> sort_key f (ys @ [x]) = sort_key f ys @ [x]"
  by (induction ys) (simp_all add: insort_key_snoc)

lemma events_of_snoc:
  assumes "clock_ahead at t es" and "ev_recorded_at e = t_now t" and "ev_aggregate_type e = at"
  shows "events_of at (es @ [e]) = events_of at es @ [e]"
  using assms by (auto simp: events_of_def clock_ahead_def list_all_iff replay_key_def less_eq_prod_def
      intro!: sort_key_snoc)

lemma events_of_other:
  "(\<And>e. e \<in> set zs \<Longrightarrow> ev_aggregate_type e \<noteq> at) \<Longrightarrow> events_of at (es @ zs) = events_of at es"
  by (simp add: events_of_def filter_empty_conv [THEN iffD2])

locale projection =
  fixes projectors :: "string \<rightharpoonup> 'z store_scheme projector"
    and agg :: string
    and clear :: "'z store_scheme \<Rightarrow> 'z store_scheme"
  assumes clear_events: "clear (s\<lparr>domain_events := es\<rparr>) = (clear s)\<lparr>domain_events := es\<rparr>"
    and project_events: "projectors k = Some p \<Longrightarrow> p s e = Inr s' \<Longrightarrow>
          p (s\<lparr>domain_events := es\<rparr>) e = Inr (s'\<lparr>domain_events := es\<rparr>)"
    and project_clear: "projectors k = Some p \<Longrightarrow> p s e = Inr s' \<Longrightarrow> clear s' = clear s"
begin

lemma run_events:
  "run_projector projectors s e = Inr s' \<Longrightarrow>
     run_projector projectors (s\<lparr>domain_events := es\<rparr>) e = Inr (s'\<lparr>domain_events := es\<rparr>)"
  by (auto simp: run_projector_def project_events split: option.splits)

lemma run_clear: "run_projector projectors s e = Inr s' \<Longrightarrow> clear s' = clear s"
  by (auto simp: run_projector_def split: option.splits dest: project_clear)

lemma run_keeps_events: "run_projector projectors s e = Inr s' \<Longrightarrow> domain_events s' = domain_events s"
  using run_events [of s e s' "domain_events s"] by (metis store.select_convs(1) store.surjective store.update_convs(1) sum.inject(2))

lemma replay_events:
  "rfold (run_projector projectors) xs s = Inr s' \<Longrightarrow>
     rfold (run_projector projectors) xs (s\<lparr>domain_events := es\<rparr>) = Inr (s'\<lparr>domain_events := es\<rparr>)"
  by (rule rfold_commute [where u = "\<lambda>s. s\<lparr>domain_events := es\<rparr>"]) (auto dest: run_events)

lemma in_sync_append:
  assumes sync: "in_sync projectors agg clear s"
    and app: "append_and_project [] t projectors c s = Inr (e, s')"
    and agg: "c_aggregate_type c = agg" and clock: "clock_ahead agg t (domain_events s)"
  shows "in_sync projectors agg clear s'"
proof -
  obtain created s1 where a: "append_event_with_created_flag [] t c s = Inr (e, created, s1)"
    using app by (auto simp: append_and_project_def split: if_splits)
  show ?thesis
  proof (cases created)
    case False
    then have "s' = s" using app a
      by (auto simp: append_and_project_def append_quiet Let_def split: option.splits if_splits)
    then show ?thesis using sync by simp
  next
    case True
    let ?es = "domain_events s @ [e]"
    have s1: "s1 = s\<lparr>domain_events := ?es\<rparr>" and e: "ev_aggregate_type e = agg" "ev_recorded_at e = t_now t"
      using a True agg by (auto simp: append_quiet Let_def split: option.splits if_splits)
    have run: "run_projector projectors s1 e = Inr s'"
      using app a True by (auto simp: append_and_project_def)
    have "domain_events s' = ?es" using run_keeps_events [OF run] by (simp add: s1)
    moreover have "events_of agg ?es = events_of agg (domain_events s) @ [e]"
      using events_of_snoc [OF clock] e by simp
    moreover have "clear s' = (clear s)\<lparr>domain_events := ?es\<rparr>"
      using run_clear [OF run] by (simp add: s1 clear_events)
    moreover have "rfold (run_projector projectors) (events_of agg (domain_events s))
        ((clear s)\<lparr>domain_events := ?es\<rparr>) = Inr s1"
      using replay_events [OF sync [unfolded in_sync_def]] by (simp add: s1)
    ultimately show ?thesis using run by (simp add: in_sync_def rfold_snoc)
  qed
qed

lemma rebuild_in_sync:
  assumes "in_sync projectors agg clear s" and "reset s = Inr (clear s)"
  shows "rebuild_projection projectors agg reset s = Inr s"
proof -
  have "domain_events (clear s) = domain_events s"
    using clear_events [where s = s and es = "domain_events s"] by (metis store.select_convs(1) store.surjective store.update_convs(1))
  then show ?thesis using assms by (simp add: rebuild_projection_def in_sync_def)
qed

text \<open>
  A reset that also changes tables the projection does not own: the rebuild restores the
  projection and leaves those other changes in place.
\<close>

lemma rebuild_in_sync_modulo:
  assumes sync: "in_sync projectors agg clear s" and reset: "reset s = Inr (u (clear s))"
    and u: "\<And>s e s'. run_projector projectors s e = Inr s' \<Longrightarrow> run_projector projectors (u s) e = Inr (u s')"
    and u_events: "\<And>s. domain_events (u s) = domain_events s"
  shows "rebuild_projection projectors agg reset s = Inr (u s)"
proof -
  have "domain_events (clear s) = domain_events s"
    using clear_events [where s = s and es = "domain_events s"] by (metis store.select_convs(1) store.surjective store.update_convs(1))
  then show ?thesis
    using rfold_commute [of "run_projector projectors" u, OF u sync [unfolded in_sync_def]] reset
    by (simp add: rebuild_projection_def u_events)
qed

end

text \<open>
  A domain whose requests append and project: \<open>exec\<close> runs one request, whose events are stamped
  between \<open>starts\<close> and \<open>ends\<close>. When every request keeps the projection in sync under a clock
  that moves forward, so does every history of requests, and a rebuild after it changes
  nothing but what the reset detaches in tables the projection does not own.
\<close>

definition recorded_by :: "string \<Rightarrow> datetime \<Rightarrow> domain_event list \<Rightarrow> bool" where
  "recorded_by at t es = list_all (\<lambda>e. ev_aggregate_type e = at \<longrightarrow> ev_recorded_at e \<le> t) es"

fun clock_runs :: "('e \<Rightarrow> datetime) \<Rightarrow> ('e \<Rightarrow> datetime) \<Rightarrow> ('e \<Rightarrow> bool) \<Rightarrow> datetime \<Rightarrow> 'e list \<Rightarrow> bool" where
  "clock_runs starts ends ticking seen [] = True"
| "clock_runs starts ends ticking seen (r # rs) =
     (seen < starts r \<and> ticking r \<and> clock_runs starts ends ticking (ends r) rs)"

lemma recorded_by_ahead: "recorded_by at seen es \<Longrightarrow> seen < t_now t \<Longrightarrow> clock_ahead at t es"
  by (auto simp: recorded_by_def clock_ahead_def list_all_iff)

lemma recorded_by_mono: "recorded_by at t es \<Longrightarrow> t \<le> t' \<Longrightarrow> recorded_by at t' es"
  by (auto simp: recorded_by_def list_all_iff)

lemma recorded_by_append [simp]:
  "recorded_by at t (xs @ ys) \<longleftrightarrow> recorded_by at t xs \<and> recorded_by at t ys"
  by (simp add: recorded_by_def)

context projection
begin

text \<open>One quiet append stamped after everything recorded so far.\<close>

lemma sync_append:
  assumes "in_sync projectors agg clear s" and "recorded_by agg seen (domain_events s)" and "seen < t_now t"
    and app: "append_and_project [] t projectors c s = Inr (e, s')" and "c_aggregate_type c = agg"
  shows "in_sync projectors agg clear s' \<and> recorded_by agg (t_now t) (domain_events s')"
proof -
  obtain created s1 where a: "append_event_with_created_flag [] t c s = Inr (e, created, s1)"
    and s': "if created then run_projector projectors s1 e = Inr s' else s' = s1"
    using app by (auto simp: append_and_project_def split: if_splits)
  have "domain_events s' = domain_events s1" using s' run_keeps_events by (auto split: if_splits)
  moreover have "recorded_by agg (t_now t) (domain_events s)"
    using assms(2,3) by (auto intro: recorded_by_mono)
  then have "recorded_by agg (t_now t) (domain_events s1)"
    using a by (auto simp: append_quiet Let_def recorded_by_def split: option.splits if_splits)
  ultimately have "recorded_by agg (t_now t) (domain_events s')" by simp
  then show ?thesis
    using in_sync_append [OF assms(1) app assms(5)] recorded_by_ahead [OF assms(2,3)] by simp
qed

end

locale projected_domain = projection projectors agg clear
  for projectors :: "string \<rightharpoonup> 'z store_scheme projector" and agg :: string
    and clear :: "'z store_scheme \<Rightarrow> 'z store_scheme" +
  fixes exec :: "'e \<Rightarrow> 'z store_scheme \<Rightarrow> 'z store_scheme result"
    and starts :: "'e \<Rightarrow> datetime" and ends :: "'e \<Rightarrow> datetime" and ticking :: "'e \<Rightarrow> bool"
    and reset :: "'z store_scheme \<Rightarrow> 'z store_scheme result"
    and can_reset :: "'z store_scheme \<Rightarrow> bool"
    and detach :: "'z store_scheme \<Rightarrow> 'z store_scheme"
  assumes exec_sync: "in_sync projectors agg clear s \<Longrightarrow> recorded_by agg seen (domain_events s) \<Longrightarrow>
        seen < starts r \<Longrightarrow> ticking r \<Longrightarrow> exec r s = Inr s' \<Longrightarrow>
        in_sync projectors agg clear s' \<and> recorded_by agg (ends r) (domain_events s')"
    and reset_clears: "can_reset s \<Longrightarrow> reset s = Inr (detach (clear s))"
    and detach_run: "run_projector projectors s e = Inr s' \<Longrightarrow> run_projector projectors (detach s) e = Inr (detach s')"
    and detach_events: "domain_events (detach s) = domain_events s"
begin

lemma history_sync:
  "in_sync projectors agg clear s \<Longrightarrow> recorded_by agg seen (domain_events s) \<Longrightarrow>
     clock_runs starts ends ticking seen rs \<Longrightarrow> rfold (\<lambda>s r. exec r s) rs s = Inr s' \<Longrightarrow>
     in_sync projectors agg clear s'"
proof (induction rs arbitrary: s seen)
  case (Cons r rs)
  then obtain s1 where "exec r s = Inr s1" "rfold (\<lambda>s r. exec r s) rs s1 = Inr s'" by auto
  then show ?case using exec_sync [of s seen r s1] Cons by auto
qed simp

lemma rebuild_after_history:
  "in_sync projectors agg clear s \<Longrightarrow> recorded_by agg seen (domain_events s) \<Longrightarrow>
     clock_runs starts ends ticking seen rs \<Longrightarrow> rfold (\<lambda>s r. exec r s) rs s = Inr s' \<Longrightarrow>
     can_reset s' \<Longrightarrow> rebuild_projection projectors agg reset s' = Inr (detach s')"
  by (rule rebuild_in_sync_modulo) (auto intro: history_sync reset_clears detach_run simp: detach_events)

end

section \<open>Contention\<close>

text \<open>In each raced attempt another transaction appends to the same aggregate.\<close>

definition contended :: "event_cmd \<Rightarrow> race \<Rightarrow> bool" where
  "contended c race = list_all (\<lambda>(_, between). agg_events (c_aggregate_type c) (c_aggregate_id c) between \<noteq> []) race"

definition race_events :: "race \<Rightarrow> domain_event list" where
  "race_events race = concat (map (\<lambda>(before, between). before @ between) race)"

lemma contended_slot_taken:
  assumes "wf_events es" "wf_events (es @ between)" "agg_events at aid between \<noteq> []"
  shows "list_ex (same_slot at aid (next_aggregate_sequence es at aid)) (es @ between)"
proof -
  have "0 < length (agg_events at aid between)" using assms(3) by simp
  then show ?thesis
    by (simp only: wf_slot_taken_iff [OF assms(2)] next_sequence_wf [OF assms(1)] agg_events_append length_append)
       (simp add: Suc_le_eq)
qed

lemma append_attempts_lost:
  assumes "race_wf ((before, between) # race) (domain_events s)" and "contended c ((before, between) # race)"
    and "c_idempotency_key c = None"
  shows "append_attempts (Suc k) ((before, between) # race) t c s =
         append_attempts k race t c (s\<lparr>domain_events := domain_events s @ before @ between\<rparr>)"
proof -
  let ?n = "next_aggregate_sequence (domain_events s @ before) (c_aggregate_type c) (c_aggregate_id c)"
  have taken: "list_ex (same_slot (c_aggregate_type c) (c_aggregate_id c) ?n) ((domain_events s @ before) @ between)"
    using assms by (intro contended_slot_taken) (auto simp: contended_def)
  then have "\<not> event_insertable (domain_events s @ before @ between) (candidate t c ?n)"
    by (auto simp: event_insertable_def list_ex_iff list_all_iff)
  then show ?thesis using taken assms(3) by (simp add: lookup_key_def Let_def del: list_ex_append)
qed

lemma append_attempts_exhausted:
  "race_wf race (domain_events s) \<Longrightarrow> contended c race \<Longrightarrow> c_idempotency_key c = None \<Longrightarrow>
     k \<le> length race \<Longrightarrow> append_attempts k race t c s = Inl ConcurrentAppendError"
proof (induction race arbitrary: k s)
  case (Cons r race)
  obtain before between where r: "r = (before, between)" by (cases r)
  show ?case
  proof (cases k)
    case (Suc k')
    have "append_attempts (Suc k') (r # race) t c s =
        append_attempts k' race t c (s\<lparr>domain_events := domain_events s @ before @ between\<rparr>)"
      unfolding r by (rule append_attempts_lost) (use Cons.prems r in auto)
    then show ?thesis using Cons.IH Cons.prems Suc r by (simp add: contended_def)
  qed simp
qed simp

lemma append_attempts_wins:
  "race_wf race (domain_events s) \<Longrightarrow> contended c race \<Longrightarrow> c_idempotency_key c = None \<Longrightarrow>
     length race < k \<Longrightarrow> wf_events (domain_events s @ race_events race) \<Longrightarrow>
     \<not> has_row ev_id (t_id t) (domain_events s @ race_events race) \<Longrightarrow>
     append_attempts k race t c s =
       (let es = domain_events s @ race_events race;
            e = candidate t c (next_aggregate_sequence es (c_aggregate_type c) (c_aggregate_id c))
        in Inr (e, True, s\<lparr>domain_events := es @ [e]\<rparr>))"
proof (induction race arbitrary: k s)
  case Nil
  then obtain k' where "k = Suc k'" by (cases k) auto
  then show ?case using Nil fresh_insertable [of "domain_events s" t c]
    by (simp add: race_events_def lookup_key_def Let_def)
next
  case (Cons r race)
  obtain before between where r: "r = (before, between)" by (cases r)
  from Cons.prems obtain k' where k: "k = Suc k'" by (cases k) auto
  have "append_attempts (Suc k') (r # race) t c s =
      append_attempts k' race t c (s\<lparr>domain_events := domain_events s @ before @ between\<rparr>)"
    unfolding r by (rule append_attempts_lost) (use Cons.prems r in auto)
  moreover have "race_events (r # race) = before @ between @ race_events race"
    by (simp add: race_events_def r)
  ultimately show ?case
    using Cons.IH [of "s\<lparr>domain_events := domain_events s @ before @ between\<rparr>" k'] Cons.prems k r
    by (simp add: contended_def Let_def)
qed

section \<open>Properties of the event store\<close>

text \<open>Concrete inputs for the witnesses: a clock reading, a command and a rival's event.\<close>

definition noon :: datetime where
  "noon = Datetime (Date 2026 8 20) (12 * 3600 * 1000000)"

definition demo_command :: "string \<Rightarrow> string option \<Rightarrow> event_cmd" where
  "demo_command aid key =
     \<lparr>c_aggregate_type = ''control_occurrence'', c_aggregate_id = aid, c_event_type = ''ControlOccurrencePerformed'',
      c_payload = JObj [], c_occurred_at = None, c_actor_type = ''user'', c_actor_id = None,
      c_correlation_id = None, c_causation_id = None, c_idempotency_key = key, c_schema_version = 1\<rparr>"

definition demo_rival :: "string \<Rightarrow> string option \<Rightarrow> int \<Rightarrow> domain_event" where
  "demo_rival aid key n = candidate \<lparr>t_now = noon, t_id = ''r'' @ aid @ map (\<lambda>_. CHR ''x'') [1..n]\<rparr> (demo_command aid key) n"

lemma wf_events_Nil [simp]: "wf_events []"
  by (simp add: wf_events_def agg_events_def keys_of_def List.map_filter_def)

lemma demo_rival_wf: "wf_events [demo_rival aid key 1]"
  using wf_events_snoc [of "[]" "demo_rival aid key 1"]
  by (simp add: event_insertable_def demo_rival_def demo_command_def agg_events_def candidate_def split: option.splits)

text \<open>
  C1. Append-only and gap-free under concurrency. Whatever other transactions commit while an
  append runs, an append that returns has only added rows at the end of the event table and
  touched no other state; row ids and idempotency keys stay unique and the sequence numbers
  of every aggregate are still 1, 2, 3, ... in append order.
\<close>

theorem append_is_safe:
  assumes "append_event_with_created_flag race t c s = Inr (e, created, s')"
    and "wf_events (domain_events s)" and "race_wf race (domain_events s)"
  shows "\<exists>zs. s' = s\<lparr>domain_events := domain_events s @ zs\<rparr> \<and> (created \<longrightarrow> zs \<noteq> [] \<and> last zs = e) \<and>
              wf_events (domain_events s @ zs)"
  using append_flag_extends [OF assms(1)] append_flag_wf [OF assms] by auto

lemma append_is_safe_witness:
  "\<exists>zs. (\<lparr>domain_events = [demo_rival ''a'' None 1, candidate \<lparr>t_now = noon, t_id = ''id''\<rparr> (demo_command ''a'' None) 2]\<rparr> :: store) =
        \<lparr>domain_events = []\<rparr>\<lparr>domain_events := [] @ zs\<rparr> \<and> zs \<noteq> [] \<and> wf_events zs"
proof -
  let ?c = "demo_command ''a'' None" and ?t = "\<lparr>t_now = noon, t_id = ''id''\<rparr>"
  let ?race = "[([], [demo_rival ''a'' None 1])]"
  let ?s = "\<lparr>domain_events = []\<rparr> :: store"
  have "append_event_with_created_flag ?race ?t ?c ?s =
      Inr (candidate ?t ?c 2, True, \<lparr>domain_events = [demo_rival ''a'' None 1, candidate ?t ?c 2]\<rparr>)"
    by (simp add: append_event_with_created_flag_def max_append_attempts_def numeral_eq_Suc Let_def
        lookup_key_def demo_rival_def demo_command_def candidate_def next_aggregate_sequence_def
        event_insertable_def same_slot_def)
  from append_is_safe [OF this] show ?thesis by (auto simp: demo_rival_wf)
qed

text \<open>
  C2. Idempotent commands. Once a command with an idempotency key has returned an event, a
  command with that key in the state it left, whatever else it carries and whatever it races with, returns
  the same event, appends nothing and does not run a projector again.
\<close>

theorem idempotent_replay:
  assumes "append_and_project race t ps c s = Inr (e, s')" and "c_idempotency_key c = Some k"
    and keep: "\<And>s e s'. run_projector ps s e = Inr s' \<Longrightarrow> domain_events s' = domain_events s"
    and "c_idempotency_key c' = Some k"
  shows "append_and_project race' t' ps' c' s' = Inr (e, s')"
proof -
  obtain created s1 where app: "append_event_with_created_flag race t c s = Inr (e, created, s1)"
    and s': "s' = s1 \<or> run_projector ps s1 e = Inr s'"
    using assms(1) by (auto simp: append_and_project_def split: if_splits)
  have "domain_events s' = domain_events s1" using s' keep by auto
  then show ?thesis
    using append_flag_records_key [OF app assms(2)] by (intro append_known_key) (simp add: assms(4))
qed

lemma idempotent_replay_witness:
  "let e = candidate \<lparr>t_now = noon, t_id = ''id''\<rparr> (demo_command ''a'' (Some ''k'')) 1; s = \<lparr>domain_events = [e]\<rparr> :: store
   in append_and_project [] \<lparr>t_now = noon, t_id = ''id2''\<rparr> Map.empty (demo_command ''b'' (Some ''k'')) s = Inr (e, s)"
proof -
  let ?ps = "[''ControlOccurrencePerformed'' \<mapsto> \<lambda>s e. Inr s] :: string \<rightharpoonup> store projector"
  let ?t = "\<lparr>t_now = noon, t_id = ''id''\<rparr>" and ?c = "demo_command ''a'' (Some ''k'')"
  let ?e = "candidate ?t ?c 1"
  have app: "append_and_project [] ?t ?ps ?c \<lparr>domain_events = []\<rparr> = Inr (?e, \<lparr>domain_events = [?e]\<rparr>)"
    by (simp add: append_and_project_def append_quiet lookup_key_def find_by_idempotency_key_def Let_def
        next_aggregate_sequence_def event_insertable_def run_projector_def demo_command_def candidate_def)
  have keep: "run_projector ?ps s e = Inr s' \<Longrightarrow> domain_events s' = domain_events s" for s e s'
    by (simp add: run_projector_def split: if_splits)
  show ?thesis
    unfolding Let_def by (rule idempotent_replay [OF app _ keep]) (simp_all add: demo_command_def)
qed

text \<open>
  The retry loop. When an append without a key loses the race for its sequence slot to
  other transactions, it succeeds with the next free number as long as it loses fewer than
  five times, and raises \<open>ConcurrentAppendError\<close> exactly from the fifth loss on.
\<close>

theorem append_contention:
  assumes "race_wf race (domain_events s)" and "contended c race" and "c_idempotency_key c = None"
    and "wf_events (domain_events s @ race_events race)"
    and "\<not> has_row ev_id (t_id t) (domain_events s @ race_events race)"
  shows "append_event_with_created_flag race t c s =
     (if length race < 5 then
        let es = domain_events s @ race_events race;
            e = candidate t c (int (length (agg_events (c_aggregate_type c) (c_aggregate_id c) es)) + 1)
        in Inr (e, True, s\<lparr>domain_events := es @ [e]\<rparr>)
      else Inl ConcurrentAppendError)"
proof (cases "length race < 5")
  case True
  then show ?thesis
    using append_attempts_wins [of race s c max_append_attempts t] assms next_sequence_wf [OF assms(4)]
    by (simp add: append_event_with_created_flag_def lookup_key_def max_append_attempts_def Let_def)
next
  case False
  then show ?thesis
    using append_attempts_exhausted [of race s c max_append_attempts t] assms
    by (simp add: append_event_with_created_flag_def lookup_key_def max_append_attempts_def)
qed

lemma append_contention_witness:
  "append_event_with_created_flag [([], [demo_rival ''a'' None 1])] \<lparr>t_now = noon, t_id = ''id''\<rparr>
     (demo_command ''a'' None) (\<lparr>domain_events = []\<rparr> :: store) =
   Inr (candidate \<lparr>t_now = noon, t_id = ''id''\<rparr> (demo_command ''a'' None) 2, True,
     \<lparr>domain_events = [demo_rival ''a'' None 1, candidate \<lparr>t_now = noon, t_id = ''id''\<rparr> (demo_command ''a'' None) 2]\<rparr>)"
  using append_contention [of "[([], [demo_rival ''a'' None 1])]" "\<lparr>domain_events = []\<rparr> :: store"
      "demo_command ''a'' None" "\<lparr>t_now = noon, t_id = ''id''\<rparr>"]
  by (simp add: demo_rival_wf contended_def race_events_def agg_events_def Let_def)
     (simp add: demo_rival_def demo_command_def candidate_def)

text \<open>
  Two transactions that append the same idempotency key for \<^emph>\<open>different\<close> aggregates: the
  one that loses re-reads the slot of its own aggregate, finds it free and re-raises the
  database's \<open>IntegrityError\<close> instead of returning the winner's event.
\<close>

theorem idempotency_race_across_aggregates:
  assumes "wf_events (domain_events s)" and "c_idempotency_key c = Some k"
    and "lookup_key (domain_events s) (Some k) = None"
    and "ev_idempotency_key r = Some k"
    and "ev_aggregate_type r \<noteq> c_aggregate_type c \<or> ev_aggregate_id r \<noteq> c_aggregate_id c"
  shows "append_event_with_created_flag [([], [r])] t c s = Inl IntegrityError"
proof -
  let ?n = "next_aggregate_sequence (domain_events s) (c_aggregate_type c) (c_aggregate_id c)"
  have free: "\<not> list_ex (same_slot (c_aggregate_type c) (c_aggregate_id c) ?n) (domain_events s @ [r])"
    using wf_slot_taken_iff [OF assms(1)] next_sequence_wf [OF assms(1)] assms(5)
    by (auto simp: same_slot_def)
  have "\<not> event_insertable (domain_events s @ [r]) (candidate t c ?n)"
    using assms(2,4) by (simp add: event_insertable_def)
  then show ?thesis using free assms
    by (simp add: append_event_with_created_flag_def max_append_attempts_def numeral_eq_Suc Let_def)
qed

lemma idempotency_race_across_aggregates_witness:
  "append_event_with_created_flag [([], [demo_rival ''a'' (Some ''k'') 1])] \<lparr>t_now = noon, t_id = ''id''\<rparr>
     (demo_command ''b'' (Some ''k'')) (\<lparr>domain_events = []\<rparr> :: store) = Inl IntegrityError"
  using idempotency_race_across_aggregates [of "\<lparr>domain_events = []\<rparr> :: store" "demo_command ''b'' (Some ''k'')" "''k''"
      "demo_rival ''a'' (Some ''k'') 1" "\<lparr>t_now = noon, t_id = ''id''\<rparr>"]
  by (simp add: lookup_key_def find_by_idempotency_key_def demo_rival_def demo_command_def)

end
