(* ===== verification/Models.thy ===== *)
theory Models
  imports Event_Store
begin

text \<open>
  The tables of \<open>src/app/models.py\<close> that the modelled components read and write, one record
  per mapped class, and the database \<open>db\<close> that holds them beside the domain events. Columns
  the ORM maintains on its own (\<open>created_at\<close>, \<open>updated_at\<close> with their \<open>utcnow\<close> defaults, the
  surrogate \<open>id\<close> of pure link rows) are left out unless a projector writes them; relationships
  are queries over the foreign keys. A closed vocabulary the code only ever writes as a
  literal is a datatype; text that comes from a caller stays a string.

  The \<open>insert_\<close> functions are \<open>session.add\<close> of a new row together with the flush that sends
  it: the row is refused with \<open>IntegrityError\<close> when it breaks the primary key, a unique
  constraint, a check or a foreign key of its class.
\<close>

section \<open>Frameworks, requirements and people\<close>

record framework =
  fw_id :: string
  fw_name :: string
  fw_version :: string
  fw_description :: string
  fw_is_placeholder_content :: bool
  fw_is_active :: bool
  fw_catalog_key :: "string option"
  fw_is_primary :: bool
  fw_catalog_family :: "string option"

record framework_requirement =
  fr_id :: string
  fr_framework_id :: string
  fr_reference_code :: string
  fr_title :: string
  fr_summary :: string
  fr_display_order :: int

record requirement_assessment =
  ra_requirement_id :: string
  ra_applicable :: string
  ra_implementation_state :: string
  ra_owner :: string

record person =
  pe_id :: string
  pe_email :: string
  pe_display_name :: string
  pe_employment_status :: string
  pe_source :: string
  pe_external_id :: "string option"
  pe_last_synced_at :: "datetime option"
  pe_in_scope :: bool

section \<open>The lifecycle columns of a version\<close>

text \<open>
  \<open>PolicyVersion\<close> and \<open>InternalControlVersion\<close> carry the same event-sourced columns, under the
  same names; the model groups them.
\<close>

datatype lifecycle_status = Draft | In_review | Approved | Effective | Superseded | Withdrawn

record lifecycle =
  lc_status :: lifecycle_status
  lc_submitted_by :: "string option"
  lc_submitted_at :: "datetime option"
  lc_reviewed_by :: "string option"
  lc_reviewed_at :: "datetime option"
  lc_review_decision :: "string option"
  lc_review_comment :: string
  lc_effective_at :: "datetime option"
  lc_superseded_at :: "datetime option"
  lc_superseded_by_version_id :: "string option"
  lc_withdrawn_at :: "datetime option"
  lc_withdrawn_reason :: string

definition lifecycle_defaults :: lifecycle where
  "lifecycle_defaults =
     \<lparr>lc_status = Draft, lc_submitted_by = None, lc_submitted_at = None, lc_reviewed_by = None,
      lc_reviewed_at = None, lc_review_decision = None, lc_review_comment = [],
      lc_effective_at = None, lc_superseded_at = None, lc_superseded_by_version_id = None,
      lc_withdrawn_at = None, lc_withdrawn_reason = []\<rparr>"

section \<open>Controls, their definitions and their operation\<close>

record internal_control =
  ic_id :: string
  ic_name :: string
  ic_description :: string
  ic_owner :: string
  ic_status :: string
  ic_review_frequency :: string
  ic_cadence_type :: "string option"
  ic_cadence_interval_months :: "int option"
  ic_owner_person_id :: "string option"

record control_requirement_mapping =
  crm_control_id :: string
  crm_requirement_id :: string

record internal_control_version =
  icv_id :: string
  icv_control_id :: string
  icv_version_number :: int
  icv_name :: string
  icv_description :: string
  icv_status_snapshot :: string
  icv_review_frequency_snapshot :: string
  icv_mapped_requirement_ids :: json
  icv_drafted_at :: datetime
  icv_drafted_by :: "string option"
  icv_lc :: lifecycle

datatype period_status = Planned | Active | Closed

record control_period =
  cp_id :: string
  cp_name :: string
  cp_starts_on :: date
  cp_ends_on :: date
  cp_status :: period_status
  cp_closed_at :: "datetime option"

datatype occurrence_origin = Generated | Manual

record control_occurrence =
  oc_id :: string
  oc_control_id :: string
  oc_control_period_id :: "string option"
  oc_origin :: occurrence_origin
  oc_due_at :: "datetime option"
  oc_performed_at :: "datetime option"
  oc_responsible_person_id :: "string option"
  oc_performed_by_person_id :: "string option"
  oc_scope_note :: string
  oc_evidence_note :: string
  oc_control_definition_version_id :: "string option"
  oc_created_at :: datetime
  oc_updated_at :: datetime

record control_occurrence_evidence =
  oe_occurrence_id :: string
  oe_evidence_snapshot_id :: string

record control_occurrence_evidence_artifact =
  oa_occurrence_id :: string
  oa_evidence_artifact_version_id :: string

section \<open>Assurance testing and findings\<close>

record control_test_population =
  tp_id :: string
  tp_control_id :: string
  tp_control_period_id :: "string option"
  tp_description :: string
  tp_criteria_note :: string
  tp_created_by :: string

record control_test_population_item =
  ti_id :: string
  ti_population_id :: string
  ti_control_occurrence_id :: string

record control_test_sample =
  ts_id :: string
  ts_population_id :: string
  ts_selection_method :: string
  ts_selection_rationale :: string
  ts_created_by :: string

record control_test_sample_item =
  si_id :: string
  si_sample_id :: string
  si_population_item_id :: string

record control_test =
  ct_id :: string
  ct_control_id :: string
  ct_control_period_id :: "string option"
  ct_sample_id :: "string option"
  ct_procedure_description :: string
  ct_tester_person_id :: string
  ct_performed_at :: "datetime option"
  ct_result :: string
  ct_notes :: string
  ct_retest_of_test_id :: "string option"
  ct_created_at :: datetime
  ct_updated_at :: datetime

record control_test_exception =
  te_test_id :: string
  te_sample_item_id :: "string option"
  te_description :: string

record control_test_evidence_artifact =
  ta_test_id :: string
  ta_evidence_artifact_version_id :: string

datatype finding_status = Open | Remediating | Retesting | FClosed

record finding =
  fi_id :: string
  fi_title :: string
  fi_description :: string
  fi_severity :: string
  fi_status :: finding_status
  fi_control_id :: "string option"
  fi_source_test_id :: "string option"
  fi_owner_person_id :: "string option"
  fi_due_date :: "date option"
  fi_closure_decision :: "string option"
  fi_closure_note :: string
  fi_created_at :: datetime
  fi_updated_at :: datetime

record finding_remediation_update =
  fu_finding_id :: string
  fu_note :: string
  fu_actor :: string
  fu_linked_evidence_artifact_version_id :: "string option"
  fu_created_at :: datetime

record finding_retest =
  ft_finding_id :: string
  ft_test_id :: string

section \<open>Policies, evidence, scope and adoption\<close>

record policy =
  po_id :: string
  po_title :: string
  po_description :: string
  po_owner :: string
  po_status :: string
  po_effective_date :: "date option"
  po_next_review_date :: "date option"
  po_archived :: bool
  po_source_type :: string
  po_drive_file_id :: "string option"
  po_drive_web_url :: "string option"
  po_drive_mime_type :: "string option"
  po_drive_last_seen_revision_id :: "string option"
  po_drive_last_synced_at :: "datetime option"

record policy_version =
  pv_id :: string
  pv_policy_id :: string
  pv_version_number :: int
  pv_original_filename :: string
  pv_stored_filename :: string
  pv_media_type :: string
  pv_byte_size :: int
  pv_sha256 :: string
  pv_uploader :: string
  pv_change_note :: string
  pv_created_at :: datetime
  pv_source_type :: string
  pv_source_file_id :: "string option"
  pv_source_revision_id :: "string option"
  pv_source_modified_at :: "datetime option"
  pv_captured_at :: datetime
  pv_lc :: lifecycle

record evidence_snapshot =
  es_id :: string
  es_source_type :: string
  es_source_connection_id :: "string option"
  es_check_key :: string
  es_status :: string
  es_title :: string
  es_summary :: string
  es_collected_at :: datetime
  es_expires_at :: "datetime option"
  es_collector_version :: string
  es_normalized_payload_json :: string
  es_raw_payload_sha256 :: string

record evidence_artifact =
  ea_id :: string
  ea_title :: string
  ea_description :: string

record evidence_artifact_version =
  av_id :: string
  av_artifact_id :: string
  av_version_number :: int
  av_object_key :: string
  av_original_filename :: string
  av_media_type :: string
  av_byte_size :: int
  av_sha256 :: string
  av_source_type :: string
  av_source_connection_id :: "string option"
  av_source_object_id :: "string option"
  av_source_revision_id :: "string option"
  av_source_modified_at :: "datetime option"
  av_linked_evidence_snapshot_id :: "string option"
  av_captured_at :: datetime
  av_actor_type :: string
  av_actor_id :: "string option"

record compliance_scope =
  cs_id :: string
  cs_service_description :: string
  cs_trust_service_categories :: string
  cs_audit_period_starts_on :: "date option"
  cs_audit_period_ends_on :: "date option"
  cs_data_categories :: string
  cs_locations :: string
  cs_exclusions :: string
  cs_exclusions_rationale :: string
  cs_revision :: int
  cs_created_at :: datetime
  cs_updated_at :: datetime

record framework_adoption =
  fa_id :: string
  fa_catalog_family :: string
  fa_framework_id :: string
  fa_previous_framework_id :: "string option"
  fa_adopted_at :: datetime
  fa_upgraded_at :: "datetime option"

record audit_event =
  ae_entity_type :: string
  ae_entity_id :: string
  ae_action :: string
  ae_detail :: string
  ae_actor :: string

section \<open>The database\<close>

record db = store +
  frameworks :: "framework list"
  framework_requirements :: "framework_requirement list"
  requirement_assessments :: "requirement_assessment list"
  people :: "person list"
  internal_controls :: "internal_control list"
  control_requirement_mappings :: "control_requirement_mapping list"
  internal_control_versions :: "internal_control_version list"
  control_periods :: "control_period list"
  control_occurrences :: "control_occurrence list"
  control_occurrence_evidence_rows :: "control_occurrence_evidence list"
  control_occurrence_evidence_artifacts :: "control_occurrence_evidence_artifact list"
  control_test_populations :: "control_test_population list"
  control_test_population_items :: "control_test_population_item list"
  control_test_samples :: "control_test_sample list"
  control_test_sample_items :: "control_test_sample_item list"
  control_tests :: "control_test list"
  control_test_exceptions :: "control_test_exception list"
  control_test_evidence_artifacts :: "control_test_evidence_artifact list"
  findings :: "finding list"
  finding_remediation_updates :: "finding_remediation_update list"
  finding_retests :: "finding_retest list"
  policies :: "policy list"
  policy_versions :: "policy_version list"
  evidence_snapshots :: "evidence_snapshot list"
  evidence_artifacts :: "evidence_artifact list"
  evidence_artifact_versions :: "evidence_artifact_version list"
  compliance_scopes :: "compliance_scope list"
  framework_adoptions :: "framework_adoption list"
  audit_events :: "audit_event list"

text \<open>A database with the schema and no rows.\<close>

definition empty_db :: db where
  "empty_db =
     \<lparr>domain_events = [], frameworks = [], framework_requirements = [], requirement_assessments = [],
      people = [], internal_controls = [], control_requirement_mappings = [],
      internal_control_versions = [], control_periods = [], control_occurrences = [],
      control_occurrence_evidence_rows = [], control_occurrence_evidence_artifacts = [],
      control_test_populations = [], control_test_population_items = [], control_test_samples = [],
      control_test_sample_items = [], control_tests = [], control_test_exceptions = [],
      control_test_evidence_artifacts = [], findings = [], finding_remediation_updates = [],
      finding_retests = [], policies = [], policy_versions = [], evidence_snapshots = [],
      evidence_artifacts = [], evidence_artifact_versions = [], compliance_scopes = [],
      framework_adoptions = [], audit_events = []\<rparr>"

text \<open>The command a domain function builds: only the keyword arguments it passes.\<close>

definition event_command ::
  "string \<Rightarrow> string \<Rightarrow> string \<Rightarrow> (string \<times> json) list \<Rightarrow> string \<Rightarrow> string option \<Rightarrow> event_cmd" where
  "event_command at aid et payload actor_type actor_id =
     \<lparr>c_aggregate_type = at, c_aggregate_id = aid, c_event_type = et, c_payload = JObj payload,
      c_occurred_at = None, c_actor_type = actor_type, c_actor_id = actor_id,
      c_correlation_id = None, c_causation_id = None, c_idempotency_key = None,
      c_schema_version = 1\<rparr>"

lemma event_command_simps [simp]:
  "c_aggregate_type (event_command at aid et p a i) = at"
  "c_aggregate_id (event_command at aid et p a i) = aid"
  "c_event_type (event_command at aid et p a i) = et"
  "c_payload (event_command at aid et p a i) = JObj p"
  "c_occurred_at (event_command at aid et p a i) = None"
  "c_actor_type (event_command at aid et p a i) = a"
  "c_actor_id (event_command at aid et p a i) = i"
  "c_idempotency_key (event_command at aid et p a i) = None"
  by (simp_all add: event_command_def)

text \<open>\<open>src/app/audit.py\<close>: an audit row beside the mutation, in the same transaction.\<close>

definition record_audit_event :: "string \<Rightarrow> string \<Rightarrow> string \<Rightarrow> string \<Rightarrow> string \<Rightarrow> db \<Rightarrow> db" where
  "record_audit_event entity_type entity_id action detail actor s =
     s\<lparr>audit_events := audit_events s @
        [\<lparr>ae_entity_type = entity_type, ae_entity_id = entity_id, ae_action = action,
          ae_detail = detail, ae_actor = actor\<rparr>]\<rparr>"

end
