(* ===== verification/Lifecycle.thy ===== *)
theory Lifecycle
  imports Models
begin

text \<open>
  The approval state machine that \<open>src/app/policy_lifecycle.py\<close> and
  \<open>src/app/control_definition_lifecycle.py\<close> both implement, as an abstract specification: a
  labelled step relation on the map from version ids to their parent (policy or control) and
  lifecycle status. The locale \<open>version_lifecycle\<close> is the contract a module fulfils when its
  commands refine the machine; what follows for whole histories of commands is proved in it
  once, and both modules interpret it.
\<close>

datatype lifecycle_command =
    New_version string
  | Submit
  | Review string string
  | Make_effective
  | Withdraw string "datetime option"

type_synonym version_view = "string \<rightharpoonup> string \<times> lifecycle_status"

section \<open>The columns the projectors write\<close>

text \<open>The attribute assignments of the projectors, the same statements in the two modules.\<close>

definition lc_submitted :: "domain_event \<Rightarrow> lifecycle \<Rightarrow> lifecycle" where
  "lc_submitted e l =
     l\<lparr>lc_status := In_review, lc_submitted_by := ev_actor_id e, lc_submitted_at := Some (ev_occurred_at e)\<rparr>"

definition lc_reviewed :: "domain_event \<Rightarrow> string \<Rightarrow> string \<Rightarrow> lifecycle \<Rightarrow> lifecycle" where
  "lc_reviewed e decision comment l =
     l\<lparr>lc_reviewed_by := ev_actor_id e, lc_reviewed_at := Some (ev_occurred_at e),
       lc_review_decision := Some decision, lc_review_comment := comment,
       lc_status := (if decision = ''approved'' then Approved else Draft)\<rparr>"

definition lc_made_effective :: "domain_event \<Rightarrow> lifecycle \<Rightarrow> lifecycle" where
  "lc_made_effective e l = l\<lparr>lc_status := Effective, lc_effective_at := Some (ev_occurred_at e)\<rparr>"

definition lc_superseded :: "domain_event \<Rightarrow> string \<Rightarrow> lifecycle \<Rightarrow> lifecycle" where
  "lc_superseded e by_id l =
     l\<lparr>lc_status := Superseded, lc_superseded_at := Some (ev_occurred_at e),
       lc_superseded_by_version_id := Some by_id\<rparr>"

definition lc_withdrawn :: "domain_event \<Rightarrow> string \<Rightarrow> lifecycle \<Rightarrow> lifecycle" where
  "lc_withdrawn e reason l =
     l\<lparr>lc_status := Withdrawn, lc_withdrawn_at := Some (ev_occurred_at e), lc_withdrawn_reason := reason\<rparr>"

lemma lc_status_simps [simp]:
  "lc_status (lc_submitted e l) = In_review"
  "lc_status (lc_reviewed e d c l) = (if d = ''approved'' then Approved else Draft)"
  "lc_status (lc_made_effective e l) = Effective"
  "lc_status (lc_superseded e b l) = Superseded"
  "lc_status (lc_withdrawn e r l) = Withdrawn"
  by (simp_all add: lc_submitted_def lc_reviewed_def lc_made_effective_def lc_superseded_def lc_withdrawn_def)

lemma lc_superseded_by_simps [simp]:
  "lc_superseded_by_version_id (lc_submitted e l) = lc_superseded_by_version_id l"
  "lc_superseded_by_version_id (lc_reviewed e d c l) = lc_superseded_by_version_id l"
  "lc_superseded_by_version_id (lc_made_effective e l) = lc_superseded_by_version_id l"
  "lc_superseded_by_version_id (lc_superseded e b l) = Some b"
  "lc_superseded_by_version_id (lc_withdrawn e r l) = lc_superseded_by_version_id l"
  by (simp_all add: lc_submitted_def lc_reviewed_def lc_made_effective_def lc_superseded_def lc_withdrawn_def)

section \<open>The abstract machine\<close>

text \<open>Making a version effective supersedes the effective version of the same parent.\<close>

definition supersede_effective :: "string \<Rightarrow> version_view \<Rightarrow> version_view" where
  "supersede_effective p m =
     (\<lambda>w. if m w = Some (p, Effective) then Some (p, Superseded) else m w)"

inductive lifecycle_step :: "version_view \<Rightarrow> lifecycle_command \<times> string \<Rightarrow> version_view \<Rightarrow> bool" where
  new_version: "m v = None \<Longrightarrow> lifecycle_step m (New_version p, v) (m(v \<mapsto> (p, Draft)))"
| submit: "m v = Some (p, Draft) \<Longrightarrow> lifecycle_step m (Submit, v) (m(v \<mapsto> (p, In_review)))"
| approve: "m v = Some (p, In_review) \<Longrightarrow> d = ''approved'' \<Longrightarrow>
    lifecycle_step m (Review d c, v) (m(v \<mapsto> (p, Approved)))"
| reject: "m v = Some (p, In_review) \<Longrightarrow> d = ''rejected'' \<Longrightarrow> \<not> blank c \<Longrightarrow>
    lifecycle_step m (Review d c, v) (m(v \<mapsto> (p, Draft)))"
| make_effective: "m v = Some (p, Approved) \<Longrightarrow>
    lifecycle_step m (Make_effective, v) ((supersede_effective p m)(v \<mapsto> (p, Effective)))"
| withdraw: "m v = Some (p, st) \<Longrightarrow> st \<in> {Draft, In_review, Approved, Effective} \<Longrightarrow>
    lifecycle_step m (Withdraw r at, v) (m(v \<mapsto> (p, Withdrawn)))"

inductive_cases lifecycle_stepE: "lifecycle_step m l m'"

fun lifecycle_run :: "version_view \<Rightarrow> (lifecycle_command \<times> string) list \<Rightarrow> version_view \<Rightarrow> bool" where
  "lifecycle_run m [] m' = (m' = m)"
| "lifecycle_run m (l # ls) m' = (\<exists>m1. lifecycle_step m l m1 \<and> lifecycle_run m1 ls m')"

lemma lifecycle_run_append:
  "lifecycle_run m (xs @ ys) m' \<longleftrightarrow> (\<exists>m1. lifecycle_run m xs m1 \<and> lifecycle_run m1 ys m')"
  by (induction xs arbitrary: m) (simp_all, blast)

definition one_effective :: "version_view \<Rightarrow> bool" where
  "one_effective m = (\<forall>v w p. m v = Some (p, Effective) \<longrightarrow> m w = Some (p, Effective) \<longrightarrow> v = w)"

lemma step_one_effective: "lifecycle_step m l m' \<Longrightarrow> one_effective m \<Longrightarrow> one_effective m'"
  by (erule lifecycle_stepE)
     (auto simp: one_effective_def supersede_effective_def split: if_splits)

lemma run_one_effective: "lifecycle_run m ls m' \<Longrightarrow> one_effective m \<Longrightarrow> one_effective m'"
  by (induction m ls m' rule: lifecycle_run.induct) (auto dest: step_one_effective)

text \<open>A version never changes parent and never disappears.\<close>

lemma step_parent: "lifecycle_step m l m' \<Longrightarrow> m v = Some (p, st) \<Longrightarrow> \<exists>st'. m' v = Some (p, st')"
  by (erule lifecycle_stepE) (auto simp: supersede_effective_def)

lemma run_parent: "lifecycle_run m ls m' \<Longrightarrow> m v = Some (p, st) \<Longrightarrow> \<exists>st'. m' v = Some (p, st')"
  by (induction m ls m' arbitrary: st rule: lifecycle_run.induct) (auto dest: step_parent)

text \<open>Superseded and withdrawn are terminal.\<close>

lemma step_terminal:
  "lifecycle_step m l m' \<Longrightarrow> m v = Some (p, st) \<Longrightarrow> st \<in> {Superseded, Withdrawn} \<Longrightarrow> m' v = Some (p, st)"
  by (erule lifecycle_stepE) (auto simp: supersede_effective_def)

lemma run_terminal:
  "lifecycle_run m ls m' \<Longrightarrow> m v = Some (p, st) \<Longrightarrow> st \<in> {Superseded, Withdrawn} \<Longrightarrow> m' v = Some (p, st)"
  by (induction m ls m' rule: lifecycle_run.induct) (auto dest: step_terminal)

text \<open>
  Progress needs its command: a version becomes effective only by \<open>Make_effective\<close> on an
  approved one, and approved only by a review that approves it.
\<close>

lemma step_effective_cause:
  "lifecycle_step m l m' \<Longrightarrow> m' v = Some (p, Effective) \<Longrightarrow>
     m v = Some (p, Effective) \<or> (m v = Some (p, Approved) \<and> l = (Make_effective, v))"
  by (erule lifecycle_stepE) (auto simp: supersede_effective_def split: if_splits)

lemma step_approved_cause:
  "lifecycle_step m l m' \<Longrightarrow> m' v = Some (p, Approved) \<Longrightarrow>
     m v = Some (p, Approved) \<or> (m v = Some (p, In_review) \<and> (\<exists>c. l = (Review ''approved'' c, v)))"
  by (erule lifecycle_stepE) (auto simp: supersede_effective_def split: if_splits)

lemma run_approved_cause:
  "lifecycle_run m ls m' \<Longrightarrow> m' v = Some (p, Approved) \<Longrightarrow> m v \<noteq> Some (p, Approved) \<Longrightarrow>
     \<exists>c. (Review ''approved'' c, v) \<in> set ls"
proof (induction m ls m' rule: lifecycle_run.induct)
  case (2 m l ls m')
  then obtain m1 where step: "lifecycle_step m l m1" and run: "lifecycle_run m1 ls m'" by auto
  show ?case
  proof (cases "m1 v = Some (p, Approved)")
    case True
    then show ?thesis using step_approved_cause [OF step True] 2(4) by auto
  next
    case False
    then show ?thesis using 2(1) [of m1] run 2(3) by fastforce
  qed
qed simp

lemma run_effective_cause:
  "lifecycle_run m ls m' \<Longrightarrow> m' v = Some (p, Effective) \<Longrightarrow>
     m v \<noteq> Some (p, Effective) \<Longrightarrow> m v \<noteq> Some (p, Approved) \<Longrightarrow>
     \<exists>c xs ys. ls = xs @ (Make_effective, v) # ys \<and> (Review ''approved'' c, v) \<in> set xs"
proof (induction ls arbitrary: m' rule: rev_induct)
  case (snoc l ls)
  have split: "\<exists>m1. lifecycle_run m ls m1 \<and> lifecycle_step m1 l m'"
    using lifecycle_run_append [of m ls "[l]" m'] snoc.prems(1) by auto
  then obtain m1 where run: "lifecycle_run m ls m1" and step: "lifecycle_step m1 l m'" by blast
  from step_effective_cause [OF step snoc.prems(2)] show ?case
  proof
    assume "m1 v = Some (p, Effective)"
    then obtain c xs ys where "ls = xs @ (Make_effective, v) # ys" "(Review ''approved'' c, v) \<in> set xs"
      using snoc.IH [OF run] snoc.prems by blast
    then show ?thesis by (intro exI [of _ c] exI [of _ xs] exI [of _ "ys @ [l]"]) simp
  next
    assume "m1 v = Some (p, Approved) \<and> l = (Make_effective, v)"
    then show ?thesis using run_approved_cause [OF run] snoc.prems(4) by blast
  qed
qed simp

section \<open>Version tables\<close>

text \<open>
  The view of a table of versions with its primary key, parent and lifecycle columns, and
  the partial unique index on the parent of the effective rows.
\<close>

definition table_view :: "('r \<Rightarrow> string) \<Rightarrow> ('r \<Rightarrow> string) \<Rightarrow> ('r \<Rightarrow> lifecycle) \<Rightarrow> 'r list \<Rightarrow> version_view" where
  "table_view key par lc rows v = map_option (\<lambda>r. (par r, lc_status (lc r))) (row_get key v rows)"

definition one_effective_index :: "('r \<Rightarrow> string) \<Rightarrow> ('r \<Rightarrow> lifecycle) \<Rightarrow> 'r list \<Rightarrow> bool" where
  "one_effective_index par lc rows = unique_by par (filter (\<lambda>r. lc_status (lc r) = Effective) rows)"

lemma table_view_Some:
  "unique_by key rows \<Longrightarrow>
     table_view key par lc rows v = Some (p, st) \<longleftrightarrow>
       (\<exists>r\<in>set rows. key r = v \<and> par r = p \<and> lc_status (lc r) = st)"
  by (auto simp: table_view_def dest: row_get_SomeD intro: row_get_unique)

lemma one_effective_index_iff:
  assumes "unique_by key rows"
  shows "one_effective_index par lc rows \<longleftrightarrow> one_effective (table_view key par lc rows)"
proof -
  have "distinct rows" using assms by (auto simp: unique_by_def distinct_map)
  then have "one_effective_index par lc rows \<longleftrightarrow>
      inj_on par {r \<in> set rows. lc_status (lc r) = Effective}"
    by (simp add: one_effective_index_def unique_by_def distinct_map)
  also have "\<dots> \<longleftrightarrow> one_effective (table_view key par lc rows)"
    unfolding one_effective_def table_view_Some [OF assms] inj_on_def
    using unique_by_eqD [OF assms] by blast
  finally show ?thesis .
qed

lemma table_view_upd:
  "(\<And>r. key (f r) = key r) \<Longrightarrow> (\<And>r. par (f r) = par r) \<Longrightarrow> (\<And>r. lc (f r) = g (lc r)) \<Longrightarrow>
     row_get key v rows = Some r \<Longrightarrow>
     table_view key par lc (row_upd key v f rows) =
       (table_view key par lc rows)(v \<mapsto> (par r, lc_status (g (lc r))))"
  by (auto simp: table_view_def row_get_upd fun_eq_iff)

lemma table_view_snoc:
  "\<not> has_row key (key r) rows \<Longrightarrow>
     table_view key par lc (rows @ [r]) = (table_view key par lc rows)(key r \<mapsto> (par r, lc_status (lc r)))"
  by (auto simp: table_view_def row_get_append fun_eq_iff row_get_None_iff [symmetric] split: option.splits)

text \<open>Superseding the one effective version of the parent, found among its versions.\<close>

lemma supersede_effective_found:
  assumes "one_effective m" and "m w = Some (p, Effective)"
  shows "m(w \<mapsto> (p, Superseded)) = supersede_effective p m"
  using assms by (auto simp: one_effective_def supersede_effective_def fun_eq_iff)

lemma supersede_effective_none:
  "(\<And>w. m w \<noteq> Some (p, Effective)) \<Longrightarrow> supersede_effective p m = m"
  by (auto simp: supersede_effective_def)

text \<open>The other effective version of the parent, looked up before a version is made effective.\<close>

lemma table_previous:
  assumes uniq: "unique_by key rows" and one: "one_effective (table_view key par lc rows)"
    and v: "table_view key par lc rows v = Some (p, Approved)"
    and vs: "set vs = {r \<in> set rows. par r = p}"
    and find: "find (\<lambda>w. lc_status (lc w) = Effective \<and> key w \<noteq> v) vs = prev"
  shows "case prev of
           None \<Rightarrow> supersede_effective p (table_view key par lc rows) = table_view key par lc rows
         | Some w \<Rightarrow> row_get key (key w) rows = Some w \<and> par w = p \<and>
             (table_view key par lc rows)(key w \<mapsto> (p, Superseded)) =
               supersede_effective p (table_view key par lc rows)"
proof (cases prev)
  case None
  then have none: "\<not> (\<exists>w\<in>set rows. par w = p \<and> lc_status (lc w) = Effective \<and> key w \<noteq> v)"
    using find vs by (auto simp: find_None_iff)
  have "table_view key par lc rows w \<noteq> Some (p, Effective)" for w
  proof
    assume w: "table_view key par lc rows w = Some (p, Effective)"
    then have "w \<noteq> v" using v by auto
    then show False using none w by (auto simp: table_view_Some [OF uniq])
  qed
  then show ?thesis using None by (simp add: supersede_effective_none)
next
  case (Some w)
  then have w: "w \<in> set rows" "par w = p" "lc_status (lc w) = Effective"
    using find vs by (auto dest!: find_SomeD)
  then have "row_get key (key w) rows = Some w" by (simp add: row_get_unique uniq)
  then show ?thesis using Some w supersede_effective_found [OF one, of "key w" p]
    by (simp add: table_view_def)
qed

section \<open>The contract of a module\<close>

text \<open>
  \<open>view\<close> abstracts the module's tables, \<open>exec\<close> runs one command with its environment (clock
  readings, actor). The laws: a command that returns is a step of the machine and keeps the
  module's invariant, which implies that at most one version per parent is effective; a
  command that the machine does not allow raises.
\<close>

locale version_lifecycle =
  fixes inv :: "'s \<Rightarrow> bool"
    and view :: "'s \<Rightarrow> version_view"
    and exec :: "'e \<Rightarrow> lifecycle_command \<Rightarrow> string \<Rightarrow> 's \<Rightarrow> 's result"
  assumes inv_one_effective: "inv s \<Longrightarrow> one_effective (view s)"
    and exec_step: "inv s \<Longrightarrow> exec env c v s = Inr s' \<Longrightarrow> lifecycle_step (view s) (c, v) (view s')"
    and exec_inv: "inv s \<Longrightarrow> exec env c v s = Inr s' \<Longrightarrow> inv s'"
begin

text \<open>A history: commands in order, each with its environment.\<close>

lemma history_run:
  "inv s \<Longrightarrow> rfold (\<lambda>s (env, c, v). exec env c v s) hs s = Inr s' \<Longrightarrow>
     inv s' \<and> lifecycle_run (view s) (map snd hs) (view s')"
proof (induction hs arbitrary: s)
  case (Cons h hs)
  obtain env c v where h: "h = (env, c, v)" by (cases h)
  then obtain s1 where s1: "exec env c v s = Inr s1" and rest: "rfold (\<lambda>s (env, c, v). exec env c v s) hs s1 = Inr s'"
    using Cons.prems(2) by auto
  have "inv s1" and "lifecycle_step (view s) (c, v) (view s1)"
    using Cons.prems(1) s1 exec_inv exec_step by blast+
  then show ?case using Cons.IH [OF _ rest] by (auto simp: h)
qed simp

lemma history_one_effective:
  "inv s \<Longrightarrow> rfold (\<lambda>s (env, c, v). exec env c v s) hs s = Inr s' \<Longrightarrow> one_effective (view s')"
  by (auto dest: history_run intro: inv_one_effective)

lemma history_terminal:
  "inv s \<Longrightarrow> rfold (\<lambda>s (env, c, v). exec env c v s) hs s = Inr s' \<Longrightarrow>
     view s v = Some (p, st) \<Longrightarrow> st \<in> {Superseded, Withdrawn} \<Longrightarrow> view s' v = Some (p, st)"
  by (blast dest: history_run intro: run_terminal)

lemma history_effective_approved:
  "inv s \<Longrightarrow> rfold (\<lambda>s (env, c, v). exec env c v s) hs s = Inr s' \<Longrightarrow>
     view s' v = Some (p, Effective) \<Longrightarrow> view s v \<noteq> Some (p, Effective) \<Longrightarrow> view s v \<noteq> Some (p, Approved) \<Longrightarrow>
     \<exists>c xs ys. map snd hs = xs @ (Make_effective, v) # ys \<and> (Review ''approved'' c, v) \<in> set xs"
  by (blast dest: history_run intro: run_effective_cause)

lemma not_allowed_raises:
  "inv s \<Longrightarrow> (\<And>m'. \<not> lifecycle_step (view s) (c, v) m') \<Longrightarrow> \<exists>e. exec env c v s = Inl e"
  by (cases "exec env c v s") (simp_all, blast dest: exec_step)

end

end
