(* ===== verification/Policy_Lifecycle.thy ===== *)
theory Policy_Lifecycle
  imports Lifecycle
begin

text \<open>
  \<open>src/app/policy_lifecycle.py\<close>: the projectors over the lifecycle columns of
  \<open>PolicyVersion\<close>, the reset and the rebuild, and the commands that submit, review, make
  effective and withdraw a version; and the upload of a new version of
  \<open>src/app/routers/policies.py\<close>. A command takes the clock readings and row ids of the events
  it appends as ticks. The module interprets \<open>projection\<close> (the columns are a projection of the
  events) and \<open>version_lifecycle\<close> (the commands refine the approval machine).

  No projector flushes: the partial unique index and the foreign key of
  \<open>superseded_by_version_id\<close> are checked by the explicit flush of \<open>make_version_effective\<close>.
\<close>

section \<open>Projectors\<close>

definition upd_policy_version :: "string \<Rightarrow> (lifecycle \<Rightarrow> lifecycle) \<Rightarrow> db \<Rightarrow> db" where
  "upd_policy_version v f s =
     s\<lparr>policy_versions := row_upd pv_id v (\<lambda>r. r\<lparr>pv_lc := f (pv_lc r)\<rparr>) (policy_versions s)\<rparr>"

definition policy_project_submitted_for_review :: "db projector" where
  "policy_project_submitted_for_review s e =
     rbind (row_of pv_id (ev_aggregate_id e) (policy_versions s)) (\<lambda>_.
       Inr (upd_policy_version (ev_aggregate_id e) (lc_submitted e) s))"

definition policy_project_reviewed :: "db projector" where
  "policy_project_reviewed s e =
     rbind (row_of pv_id (ev_aggregate_id e) (policy_versions s)) (\<lambda>_.
     rbind (req_str ''decision'' (ev_payload e)) (\<lambda>decision.
     rbind (str_or [] ''comment'' (ev_payload e)) (\<lambda>comment.
       Inr (upd_policy_version (ev_aggregate_id e) (lc_reviewed e decision comment) s))))"

definition policy_project_made_effective :: "db projector" where
  "policy_project_made_effective s e =
     rbind (row_of pv_id (ev_aggregate_id e) (policy_versions s)) (\<lambda>_.
       Inr (upd_policy_version (ev_aggregate_id e) (lc_made_effective e) s))"

definition policy_project_superseded :: "db projector" where
  "policy_project_superseded s e =
     rbind (row_of pv_id (ev_aggregate_id e) (policy_versions s)) (\<lambda>_.
     rbind (req_str ''superseded_by_version_id'' (ev_payload e)) (\<lambda>by_id.
       Inr (upd_policy_version (ev_aggregate_id e) (lc_superseded e by_id) s)))"

definition policy_project_withdrawn :: "db projector" where
  "policy_project_withdrawn s e =
     rbind (row_of pv_id (ev_aggregate_id e) (policy_versions s)) (\<lambda>_.
     rbind (str_or [] ''reason'' (ev_payload e)) (\<lambda>reason.
       Inr (upd_policy_version (ev_aggregate_id e) (lc_withdrawn e reason) s)))"

definition policy_version_projectors :: "string \<rightharpoonup> db projector" where
  "policy_version_projectors =
     [''PolicyVersionSubmittedForReview'' \<mapsto> policy_project_submitted_for_review,
      ''PolicyVersionReviewed'' \<mapsto> policy_project_reviewed,
      ''PolicyVersionMadeEffective'' \<mapsto> policy_project_made_effective,
      ''PolicyVersionSuperseded'' \<mapsto> policy_project_superseded,
      ''PolicyVersionWithdrawn'' \<mapsto> policy_project_withdrawn]"

text \<open>The reset keeps the rows and puts their lifecycle columns back to the defaults.\<close>

definition clear_policy_version_lifecycle :: "db \<Rightarrow> db" where
  "clear_policy_version_lifecycle s =
     s\<lparr>policy_versions := map (\<lambda>v. v\<lparr>pv_lc := lifecycle_defaults\<rparr>) (policy_versions s)\<rparr>"

definition reset_policy_version_lifecycle :: "db \<Rightarrow> db result" where
  "reset_policy_version_lifecycle s = Inr (clear_policy_version_lifecycle s)"

definition rebuild_policy_version_lifecycle_projection :: "db \<Rightarrow> db result" where
  "rebuild_policy_version_lifecycle_projection s =
     rebuild_projection policy_version_projectors ''policy_version'' reset_policy_version_lifecycle s"

section \<open>Commands\<close>

definition policy_append :: "tick \<Rightarrow> event_cmd \<Rightarrow> db \<Rightarrow> db result" where
  "policy_append t c s = rbind (append_and_project [] t policy_version_projectors c s) (\<lambda>(_, s'). Inr s')"

definition policy_submit_for_review :: "tick \<Rightarrow> string \<Rightarrow> string option \<Rightarrow> string \<Rightarrow> db \<Rightarrow> db result" where
  "policy_submit_for_review t actor_type actor_id v s =
     rbind (row_of pv_id v (policy_versions s)) (\<lambda>version.
       if lc_status (pv_lc version) \<noteq> Draft then Inl (ValueError ''Cannot submit for review'')
       else policy_append t
         (event_command ''policy_version'' v ''PolicyVersionSubmittedForReview'' [] actor_type actor_id) s)"

definition policy_review_version ::
  "tick \<Rightarrow> string \<Rightarrow> string \<Rightarrow> string \<Rightarrow> string option \<Rightarrow> string \<Rightarrow> db \<Rightarrow> db result" where
  "policy_review_version t decision comment actor_type actor_id v s =
     rbind (row_of pv_id v (policy_versions s)) (\<lambda>version.
       if lc_status (pv_lc version) \<noteq> In_review then Inl (ValueError ''Cannot review'')
       else if decision \<notin> {''approved'', ''rejected''} then Inl (ValueError ''Invalid review decision'')
       else if decision = ''rejected'' \<and> blank comment then Inl (ValueError ''A comment explaining the rejection is required'')
       else policy_append t
         (event_command ''policy_version'' v ''PolicyVersionReviewed''
            [(''decision'', JStr decision), (''comment'', JStr comment)] actor_type actor_id) s)"

text \<open>\<open>Policy.versions\<close>: the versions of a policy, the highest number first.\<close>

definition policy_versions_desc :: "string \<Rightarrow> db \<Rightarrow> policy_version list" where
  "policy_versions_desc p s =
     rev (sort_key pv_version_number (filter (\<lambda>v. pv_policy_id v = p) (policy_versions s)))"

definition policy_latest_version :: "string \<Rightarrow> db \<Rightarrow> policy_version option" where
  "policy_latest_version p s = (case policy_versions_desc p s of [] \<Rightarrow> None | v # _ \<Rightarrow> Some v)"

definition policy_effective_version :: "string \<Rightarrow> db \<Rightarrow> policy_version option" where
  "policy_effective_version p s = find (\<lambda>v. lc_status (pv_lc v) = Effective) (policy_versions_desc p s)"

definition policy_flush :: "db \<Rightarrow> db result" where
  "policy_flush s =
     (if one_effective_index pv_policy_id pv_lc (policy_versions s) \<and>
         list_all (\<lambda>v. fk_ok pv_id (lc_superseded_by_version_id (pv_lc v)) (policy_versions s)) (policy_versions s)
      then Inr s else Inl IntegrityError)"

definition policy_make_version_effective ::
  "tick \<Rightarrow> tick \<Rightarrow> string \<Rightarrow> string option \<Rightarrow> string \<Rightarrow> db \<Rightarrow> db result" where
  "policy_make_version_effective t1 t2 actor_type actor_id v s =
     rbind (row_of pv_id v (policy_versions s)) (\<lambda>version.
       if lc_status (pv_lc version) \<noteq> Approved then Inl (ValueError ''Cannot make effective'')
       else
         let previous_effective =
           find (\<lambda>w. lc_status (pv_lc w) = Effective \<and> pv_id w \<noteq> v) (policy_versions_desc (pv_policy_id version) s)
         in rbind
           (case previous_effective of None \<Rightarrow> Inr s
            | Some w \<Rightarrow> policy_append t1
                (event_command ''policy_version'' (pv_id w) ''PolicyVersionSuperseded''
                   [(''superseded_by_version_id'', JStr v)] actor_type actor_id) s) (\<lambda>s1.
         rbind
           (policy_append t2
              (event_command ''policy_version'' v ''PolicyVersionMadeEffective'' [] actor_type actor_id) s1)
           policy_flush))"

definition policy_withdraw_version ::
  "tick \<Rightarrow> string \<Rightarrow> datetime option \<Rightarrow> string \<Rightarrow> string option \<Rightarrow> string \<Rightarrow> db \<Rightarrow> db result" where
  "policy_withdraw_version t reason occurred_at actor_type actor_id v s =
     rbind (row_of pv_id v (policy_versions s)) (\<lambda>version.
       if lc_status (pv_lc version) \<notin> {Draft, In_review, Approved, Effective}
       then Inl (ValueError ''Cannot withdraw a version that is already terminal'')
       else policy_append t
         ((event_command ''policy_version'' v ''PolicyVersionWithdrawn'' [(''reason'', JStr reason)]
             actor_type actor_id)\<lparr>c_occurred_at := occurred_at\<rparr>) s)"

section \<open>Uploading a version\<close>

text \<open>
  The stored file is the result of \<open>save_policy_version_upload\<close>, \<open>None\<close> when the upload was
  refused, in which case the handler redirects with the message and changes nothing.
\<close>

record stored_upload =
  st_original_filename :: string
  st_stored_filename :: string
  st_media_type :: string
  st_byte_size :: int
  st_sha256 :: string

definition insert_policy_version :: "policy_version \<Rightarrow> db \<Rightarrow> db result" where
  "insert_policy_version r s =
     (if has_row pv_id (pv_id r) (policy_versions s) \<or>
         list_ex (\<lambda>x. pv_policy_id x = pv_policy_id r \<and> pv_version_number x = pv_version_number r) (policy_versions s) \<or>
         \<not> has_row po_id (pv_policy_id r) (policies s)
      then Inl IntegrityError else Inr (s\<lparr>policy_versions := policy_versions s @ [r]\<rparr>))"

definition uploaded_version :: "tick \<Rightarrow> string \<Rightarrow> int \<Rightarrow> stored_upload \<Rightarrow> string \<Rightarrow> string \<Rightarrow> policy_version" where
  "uploaded_version t policy_id n f change_note user_email =
     \<lparr>pv_id = t_id t, pv_policy_id = policy_id, pv_version_number = n,
      pv_original_filename = st_original_filename f, pv_stored_filename = st_stored_filename f,
      pv_media_type = st_media_type f, pv_byte_size = st_byte_size f, pv_sha256 = st_sha256 f,
      pv_uploader = user_email, pv_change_note = change_note, pv_created_at = t_now t,
      pv_source_type = ''manual'', pv_source_file_id = None, pv_source_revision_id = None,
      pv_source_modified_at = None, pv_captured_at = t_now t, pv_lc = lifecycle_defaults\<rparr>"

definition next_version_number :: "string \<Rightarrow> db \<Rightarrow> int" where
  "next_version_number policy_id s =
     (case policy_latest_version policy_id s of Some v \<Rightarrow> pv_version_number v + 1 | None \<Rightarrow> 1)"

definition upload_policy_version ::
  "tick \<Rightarrow> string \<Rightarrow> stored_upload option \<Rightarrow> string \<Rightarrow> string \<Rightarrow> db \<Rightarrow> db result" where
  "upload_policy_version t policy_id stored change_note user_email s =
     (case row_get po_id policy_id (policies s) of
        None \<Rightarrow> Inl (HTTPException 404)
      | Some policy \<Rightarrow>
          (case stored of
             None \<Rightarrow> Inr s
           | Some f \<Rightarrow>
               rbind (insert_policy_version
                   (uploaded_version t policy_id (next_version_number policy_id s) f change_note user_email) s)
                 (\<lambda>s1. Inr (record_audit_event ''policy'' policy_id ''upload_version''
                             (''Uploaded version ('' @ st_original_filename f @ '')'') user_email s1))))"

lemma uploaded_version_simps [simp]:
  "pv_id (uploaded_version t p n f c u) = t_id t" "pv_policy_id (uploaded_version t p n f c u) = p"
  "pv_version_number (uploaded_version t p n f c u) = n" "pv_lc (uploaded_version t p n f c u) = lifecycle_defaults"
  by (simp_all add: uploaded_version_def)

lemma upload_Inr:
  "upload_policy_version t p (Some f) note mail s = Inr s' \<Longrightarrow>
     \<not> has_row pv_id (t_id t) (policy_versions s) \<and>
     (\<exists>as. s' = s\<lparr>policy_versions := policy_versions s @ [uploaded_version t p (next_version_number p s) f note mail],
                 audit_events := audit_events s @ as\<rparr>)"
  by (auto simp: upload_policy_version_def insert_policy_version_def record_audit_event_def split: option.splits if_splits)

section \<open>The projection contract\<close>

lemma upd_policy_version_events [simp]:
  "domain_events (upd_policy_version v f s) = domain_events s"
  "upd_policy_version v f (s\<lparr>domain_events := es\<rparr>) = (upd_policy_version v f s)\<lparr>domain_events := es\<rparr>"
  by (simp_all add: upd_policy_version_def)

lemma upd_policy_version_clear [simp]:
  "clear_policy_version_lifecycle (upd_policy_version v f s) = clear_policy_version_lifecycle s"
  by (simp add: upd_policy_version_def clear_policy_version_lifecycle_def row_upd_def o_def if_distrib cong: if_cong)

lemmas policy_projector_defs =
  policy_project_submitted_for_review_def policy_project_reviewed_def policy_project_made_effective_def
  policy_project_superseded_def policy_project_withdrawn_def

lemma policy_projector_cases:
  assumes "policy_version_projectors k = Some p" and "p s e = Inr s'"
  obtains f where "s' = upd_policy_version (ev_aggregate_id e) f s"
    and "\<And>es. p (s\<lparr>domain_events := es\<rparr>) e = Inr (upd_policy_version (ev_aggregate_id e) f (s\<lparr>domain_events := es\<rparr>))"
  using assms by (auto simp: policy_version_projectors_def policy_projector_defs split: if_splits)

interpretation policy: projection policy_version_projectors "''policy_version''" clear_policy_version_lifecycle
proof
  show "clear_policy_version_lifecycle (s\<lparr>domain_events := es\<rparr>) = (clear_policy_version_lifecycle s)\<lparr>domain_events := es\<rparr>"
    for s es by (simp add: clear_policy_version_lifecycle_def)
qed (auto elim!: policy_projector_cases)

section \<open>Refinement of the approval machine\<close>

definition policy_view :: "db \<Rightarrow> version_view" where
  "policy_view s = table_view pv_id pv_policy_id pv_lc (policy_versions s)"

text \<open>Primary keys are unique and at most one version of a policy is effective.\<close>

definition policy_inv :: "db \<Rightarrow> bool" where
  "policy_inv s = (unique_by pv_id (policy_versions s) \<and> one_effective_index pv_policy_id pv_lc (policy_versions s))"

text \<open>The inputs of one request beside the version: clock, actor and, for an upload, the file.\<close>

record policy_env =
  px_t1 :: tick
  px_t2 :: tick
  px_actor_type :: string
  px_actor_id :: "string option"
  px_upload :: stored_upload
  px_note :: string
  px_email :: string

definition policy_exec :: "policy_env \<Rightarrow> lifecycle_command \<Rightarrow> string \<Rightarrow> db \<Rightarrow> db result" where
  "policy_exec env c v s =
     (case c of
        New_version p \<Rightarrow>
          upload_policy_version ((px_t1 env)\<lparr>t_id := v\<rparr>) p (Some (px_upload env)) (px_note env) (px_email env) s
      | Submit \<Rightarrow> policy_submit_for_review (px_t1 env) (px_actor_type env) (px_actor_id env) v s
      | Review d m \<Rightarrow> policy_review_version (px_t1 env) d m (px_actor_type env) (px_actor_id env) v s
      | Make_effective \<Rightarrow>
          policy_make_version_effective (px_t1 env) (px_t2 env) (px_actor_type env) (px_actor_id env) v s
      | Withdraw r at \<Rightarrow> policy_withdraw_version (px_t1 env) r at (px_actor_type env) (px_actor_id env) v s)"

lemma policy_view_simps [simp]:
  "policy_view (s\<lparr>domain_events := es\<rparr>) = policy_view s"
  "policy_view (record_audit_event a b c d e s) = policy_view s"
  by (simp_all add: policy_view_def record_audit_event_def)

lemma policy_view_upd:
  "row_get pv_id v (policy_versions s) = Some r \<Longrightarrow>
     policy_view (upd_policy_version v f s) = (policy_view s)(v \<mapsto> (pv_policy_id r, lc_status (f (pv_lc r))))"
  unfolding policy_view_def upd_policy_version_def by (simp add: table_view_upd [where g = f])

lemma policy_view_get:
  "row_get pv_id v (policy_versions s) = Some r \<Longrightarrow> policy_view s v = Some (pv_policy_id r, lc_status (pv_lc r))"
  by (simp add: policy_view_def table_view_def)

lemma policy_keys_simps [simp]:
  "unique_by pv_id (policy_versions (upd_policy_version v f s)) = unique_by pv_id (policy_versions s)"
  "map pv_id (policy_versions (upd_policy_version v f s)) = map pv_id (policy_versions s)"
  by (simp_all add: upd_policy_version_def)

lemma policy_inv_view: "policy_inv s \<longleftrightarrow> unique_by pv_id (policy_versions s) \<and> one_effective (policy_view s)"
  by (auto simp: policy_inv_def policy_view_def one_effective_index_iff)

text \<open>What one append does to the tables, by event type.\<close>

lemma policy_append_Inr:
  assumes "policy_append t c s = Inr s'" and "c_idempotency_key c = None"
  shows "\<exists>e. ev_event_type e = c_event_type c \<and> ev_aggregate_id e = c_aggregate_id c \<and>
             ev_payload e = c_payload c \<and>
             run_projector policy_version_projectors (s\<lparr>domain_events := domain_events s @ [e]\<rparr>) e = Inr s'"
proof -
  obtain e where "append_and_project [] t policy_version_projectors c s = Inr (e, s')"
    using assms(1) by (auto simp: policy_append_def)
  then show ?thesis using assms(2) by (intro exI [of _ e]) (auto simp: append_key_free_iff)
qed

lemmas policy_run_simps = run_projector_def policy_version_projectors_def policy_projector_defs json_simps

lemma policy_submit_view:
  assumes "policy_submit_for_review t a i v s = Inr s'"
  shows "\<exists>p. policy_view s v = Some (p, Draft) \<and> policy_view s' = (policy_view s)(v \<mapsto> (p, In_review)) \<and>
             unique_by pv_id (policy_versions s') = unique_by pv_id (policy_versions s)"
proof -
  obtain r where r: "row_get pv_id v (policy_versions s) = Some r" "lc_status (pv_lc r) = Draft"
    and app: "policy_append t (event_command ''policy_version'' v ''PolicyVersionSubmittedForReview'' [] a i) s = Inr s'"
    using assms by (auto simp: policy_submit_for_review_def split: if_splits)
  show ?thesis using policy_append_Inr [OF app] r
    by (auto simp: policy_run_simps policy_view_upd policy_view_get)
qed

lemma policy_review_view:
  assumes "policy_review_version t d m a i v s = Inr s'"
  shows "\<exists>p. policy_view s v = Some (p, In_review) \<and>
             policy_view s' = (policy_view s)(v \<mapsto> (p, if d = ''approved'' then Approved else Draft)) \<and>
             (d = ''approved'' \<or> d = ''rejected'' \<and> \<not> blank m) \<and>
             unique_by pv_id (policy_versions s') = unique_by pv_id (policy_versions s)"
proof -
  obtain r where r: "row_get pv_id v (policy_versions s) = Some r" "lc_status (pv_lc r) = In_review"
    and d: "d = ''approved'' \<or> d = ''rejected'' \<and> \<not> blank m"
    and app: "policy_append t (event_command ''policy_version'' v ''PolicyVersionReviewed''
        [(''decision'', JStr d), (''comment'', JStr m)] a i) s = Inr s'"
    using assms by (auto simp: policy_review_version_def split: if_splits)
  show ?thesis using policy_append_Inr [OF app] r d
    by (auto simp: policy_run_simps policy_view_upd policy_view_get)
qed

lemma policy_withdraw_view:
  assumes "policy_withdraw_version t reason at a i v s = Inr s'"
  shows "\<exists>p st. policy_view s v = Some (p, st) \<and> st \<in> {Draft, In_review, Approved, Effective} \<and>
             policy_view s' = (policy_view s)(v \<mapsto> (p, Withdrawn)) \<and>
             unique_by pv_id (policy_versions s') = unique_by pv_id (policy_versions s)"
proof -
  obtain r where r: "row_get pv_id v (policy_versions s) = Some r"
      "lc_status (pv_lc r) \<in> {Draft, In_review, Approved, Effective}"
    and app: "policy_append t ((event_command ''policy_version'' v ''PolicyVersionWithdrawn''
        [(''reason'', JStr reason)] a i)\<lparr>c_occurred_at := at\<rparr>) s = Inr s'"
    using assms by (auto simp: policy_withdraw_version_def split: if_splits)
  show ?thesis using policy_append_Inr [OF app] r
    by (auto simp: policy_run_simps policy_view_upd policy_view_get)
qed

lemma set_policy_versions_desc [simp]:
  "set (policy_versions_desc p s) = {v \<in> set (policy_versions s). pv_policy_id v = p}"
  by (auto simp: policy_versions_desc_def)

lemma policy_make_effective_view:
  assumes inv: "policy_inv s" and ok: "policy_make_version_effective t1 t2 a i v s = Inr s'"
  shows "\<exists>p. policy_view s v = Some (p, Approved) \<and>
             policy_view s' = (supersede_effective p (policy_view s))(v \<mapsto> (p, Effective)) \<and>
             unique_by pv_id (policy_versions s')"
proof -
  define prev :: "policy_version \<Rightarrow> policy_version option" where
    "prev = (\<lambda>r. find (\<lambda>w. lc_status (pv_lc w) = Effective \<and> pv_id w \<noteq> v)
      (policy_versions_desc (pv_policy_id r) s))"
  obtain r s1 where r: "row_get pv_id v (policy_versions s) = Some r" "lc_status (pv_lc r) = Approved"
    and s1: "(case prev r of None \<Rightarrow> Inr s
            | Some w \<Rightarrow> policy_append t1 (event_command ''policy_version'' (pv_id w) ''PolicyVersionSuperseded''
                   [(''superseded_by_version_id'', JStr v)] a i) s) = Inr s1"
    and s': "policy_append t2 (event_command ''policy_version'' v ''PolicyVersionMadeEffective'' [] a i) s1 = Inr s'"
    using ok by (auto simp: policy_make_version_effective_def prev_def Let_def policy_flush_def split: if_splits)
  let ?p = "pv_policy_id r"
  have v: "policy_view s v = Some (?p, Approved)" using policy_view_get [OF r(1)] r(2) by simp
  have "unique_by pv_id (policy_versions s)" "one_effective (policy_view s)"
    using inv by (simp_all add: policy_inv_view)
  note prev = table_previous [OF this [unfolded policy_view_def] v [unfolded policy_view_def]
      set_policy_versions_desc, OF prev_def [THEN fun_cong, symmetric], folded policy_view_def]
  have view1: "policy_view s1 = supersede_effective ?p (policy_view s) \<and> unique_by pv_id (policy_versions s1)"
  proof (cases "prev r")
    case None
    then show ?thesis using s1 prev inv by (simp add: policy_inv_def)
  next
    case (Some w)
    then have "policy_append t1 (event_command ''policy_version'' (pv_id w) ''PolicyVersionSuperseded''
                   [(''superseded_by_version_id'', JStr v)] a i) s = Inr s1" using s1 by simp
    from policy_append_Inr [OF this] show ?thesis using Some prev inv
      by (auto simp: policy_run_simps policy_view_upd policy_inv_def)
  qed
  have v1: "policy_view s1 v = Some (?p, Approved)"
    using view1 v by (simp add: supersede_effective_def)
  then obtain r1 where r1: "row_get pv_id v (policy_versions s1) = Some r1" "pv_policy_id r1 = ?p"
    by (auto simp: policy_view_def table_view_def)
  show ?thesis using policy_append_Inr [OF s'] r1 v view1
    by (auto simp: policy_run_simps policy_view_upd)
qed

lemma policy_upload_view:
  assumes "upload_policy_version t p (Some f) note mail s = Inr s'"
  shows "policy_view s (t_id t) = None \<and> policy_view s' = (policy_view s)(t_id t \<mapsto> (p, Draft)) \<and>
         unique_by pv_id (policy_versions s') = unique_by pv_id (policy_versions s)"
  using upload_Inr [OF assms]
  by (auto simp: policy_view_def table_view_snoc table_view_def row_get_None_iff)
     (simp add: lifecycle_defaults_def)

lemma policy_exec_step:
  assumes inv: "policy_inv s" and ok: "policy_exec env c v s = Inr s'"
  shows "lifecycle_step (policy_view s) (c, v) (policy_view s') \<and> unique_by pv_id (policy_versions s')"
proof (cases c)
  case (New_version p)
  then show ?thesis using ok inv by (auto simp: policy_exec_def policy_inv_def dest!: policy_upload_view intro: lifecycle_step.intros)
next
  case Submit
  then show ?thesis using ok inv by (auto simp: policy_exec_def policy_inv_def dest!: policy_submit_view intro: lifecycle_step.intros)
next
  case (Review d m)
  then show ?thesis using ok inv by (auto simp: policy_exec_def policy_inv_def dest!: policy_review_view intro: lifecycle_step.intros)
next
  case Make_effective
  then show ?thesis using ok inv by (auto simp: policy_exec_def dest!: policy_make_effective_view intro: lifecycle_step.intros)
next
  case (Withdraw r at)
  then show ?thesis using ok inv
    by (auto simp: policy_exec_def policy_inv_def dest!: policy_withdraw_view intro: lifecycle_step.withdraw)
qed

interpretation policy_lc: version_lifecycle policy_inv policy_view policy_exec
proof
  show "one_effective (policy_view s)" if "policy_inv s" for s using that by (simp add: policy_inv_view)
  show "lifecycle_step (policy_view s) (c, v) (policy_view s')"
    if "policy_inv s" "policy_exec env c v s = Inr s'" for s env c v s'
    using policy_exec_step [OF that] by blast
  show "policy_inv s'" if "policy_inv s" "policy_exec env c v s = Inr s'" for s env c v s'
    using policy_exec_step [OF that] that(1) by (auto simp: policy_inv_view intro: step_one_effective)
qed

section \<open>Requests keep the columns in sync with the events\<close>

text \<open>A freshly uploaded version has no events yet: replay ignores its row.\<close>

definition add_version :: "policy_version \<Rightarrow> audit_event list \<Rightarrow> db \<Rightarrow> db" where
  "add_version r as s =
     (if has_row pv_id (pv_id r) (policy_versions s) then s
      else s\<lparr>policy_versions := policy_versions s @ [r], audit_events := audit_events s @ as\<rparr>)"

lemma add_version_run:
  assumes "run_projector policy_version_projectors s e = Inr s'"
  shows "run_projector policy_version_projectors (add_version r as s) e = Inr (add_version r as s')"
proof -
  let ?v = "ev_aggregate_id e"
  have upd: "add_version r as (upd_policy_version ?v f s) = upd_policy_version ?v f (add_version r as s)"
    if "row_get pv_id ?v (policy_versions s) = Some x" for f x
    using row_get_Some_has_row [OF that] by (auto simp: add_version_def upd_policy_version_def)
  have get: "row_get pv_id ?v (policy_versions (add_version r as s)) = Some x"
    if "row_get pv_id ?v (policy_versions s) = Some x" for x
    using that by (simp add: add_version_def row_get_append)
  show ?thesis using assms by (auto simp: policy_run_simps upd get split: if_splits)
qed

lemma policy_append_sync:
  "in_sync policy_version_projectors ''policy_version'' clear_policy_version_lifecycle s \<Longrightarrow>
     recorded_by ''policy_version'' seen (domain_events s) \<Longrightarrow> seen < t_now t \<Longrightarrow>
     policy_append t c s = Inr s' \<Longrightarrow> c_aggregate_type c = ''policy_version'' \<Longrightarrow>
     in_sync policy_version_projectors ''policy_version'' clear_policy_version_lifecycle s' \<and>
     recorded_by ''policy_version'' (t_now t) (domain_events s')"
  by (auto simp: policy_append_def dest: policy.sync_append)

lemma upload_sync:
  assumes sync: "in_sync policy_version_projectors ''policy_version'' clear_policy_version_lifecycle s"
    and up: "upload_policy_version t p (Some f) note mail s = Inr s'"
  shows "in_sync policy_version_projectors ''policy_version'' clear_policy_version_lifecycle s' \<and>
         domain_events s' = domain_events s"
proof -
  define r where "r = uploaded_version t p (next_version_number p s) f note mail"
  obtain as where fresh: "\<not> has_row pv_id (pv_id r) (policy_versions s)" and lc: "pv_lc r = lifecycle_defaults"
    and s': "s' = s\<lparr>policy_versions := policy_versions s @ [r], audit_events := audit_events s @ as\<rparr>"
    using upload_Inr [OF up] by (auto simp: r_def)
  then have add: "s' = add_version r as s" by (simp add: add_version_def)
  have "clear_policy_version_lifecycle s' = add_version r as (clear_policy_version_lifecycle s)"
    using fresh lc by (auto simp: s' add_version_def clear_policy_version_lifecycle_def has_row_iff)
  then show ?thesis
    using rfold_commute [where f = "run_projector policy_version_projectors" and u = "add_version r as",
        OF add_version_run sync [unfolded in_sync_def]]
    by (simp add: in_sync_def add [symmetric] s')
qed

type_synonym policy_request = "policy_env \<times> lifecycle_command \<times> string"

definition policy_request_exec :: "policy_request \<Rightarrow> db \<Rightarrow> db result" where
  "policy_request_exec = (\<lambda>(env, c, v). policy_exec env c v)"

definition policy_ticking :: "policy_request \<Rightarrow> bool" where
  "policy_ticking r = (t_now (px_t1 (fst r)) < t_now (px_t2 (fst r)))"

lemma policy_make_effective_sync:
  assumes sync: "in_sync policy_version_projectors ''policy_version'' clear_policy_version_lifecycle s"
    and rec: "recorded_by ''policy_version'' seen (domain_events s)" "seen < t_now t1" "t_now t1 < t_now t2"
    and ok: "policy_make_version_effective t1 t2 a i v s = Inr s'"
  shows "in_sync policy_version_projectors ''policy_version'' clear_policy_version_lifecycle s' \<and>
         recorded_by ''policy_version'' (t_now t2) (domain_events s')"
proof -
  obtain s1 w where s1: "s1 = s \<or> policy_append t1 (event_command ''policy_version'' w ''PolicyVersionSuperseded''
          [(''superseded_by_version_id'', JStr v)] a i) s = Inr s1"
    and s': "policy_append t2 (event_command ''policy_version'' v ''PolicyVersionMadeEffective'' [] a i) s1 = Inr s'"
    using ok by (auto simp: policy_make_version_effective_def Let_def policy_flush_def split: if_splits option.splits)
  have "in_sync policy_version_projectors ''policy_version'' clear_policy_version_lifecycle s1 \<and>
      recorded_by ''policy_version'' (t_now t1) (domain_events s1)"
    using s1 sync rec policy_append_sync [OF sync rec(1,2)] by (auto intro: recorded_by_mono)
  then show ?thesis using policy_append_sync [OF _ _ rec(3) s'] by simp
qed

lemma policy_request_sync:
  assumes sync: "in_sync policy_version_projectors ''policy_version'' clear_policy_version_lifecycle s"
    and rec: "recorded_by ''policy_version'' seen (domain_events s)"
    and clock: "seen < t_now (px_t1 (fst r))" "policy_ticking r"
    and ok: "policy_request_exec r s = Inr s'"
  shows "in_sync policy_version_projectors ''policy_version'' clear_policy_version_lifecycle s' \<and>
         recorded_by ''policy_version'' (t_now (px_t2 (fst r))) (domain_events s')"
proof -
  obtain env c v where r: "r = (env, c, v)" by (cases r)
  have le: "t_now (px_t1 env) \<le> t_now (px_t2 env)" "seen \<le> t_now (px_t2 env)"
    using clock by (auto simp: policy_ticking_def r)
  have "in_sync policy_version_projectors ''policy_version'' clear_policy_version_lifecycle s' \<and>
      (recorded_by ''policy_version'' (t_now (px_t1 env)) (domain_events s') \<or>
       recorded_by ''policy_version'' seen (domain_events s') \<or>
       recorded_by ''policy_version'' (t_now (px_t2 env)) (domain_events s'))"
  proof (cases c)
    case Make_effective
    then show ?thesis using policy_make_effective_sync [OF sync rec] clock ok
      by (simp add: policy_request_exec_def policy_exec_def policy_ticking_def r)
  next
    case (New_version p)
    then show ?thesis using upload_sync [OF sync] ok rec
      by (fastforce simp: policy_request_exec_def policy_exec_def r)
  qed (use ok clock policy_append_sync [OF sync rec] in
      \<open>auto simp: policy_request_exec_def policy_exec_def r policy_submit_for_review_def policy_review_version_def
        policy_withdraw_version_def split: if_splits\<close>)
  then show ?thesis using le by (auto simp: r intro: recorded_by_mono)
qed

interpretation policy_domain: projected_domain policy_version_projectors "''policy_version''"
  clear_policy_version_lifecycle policy_request_exec "\<lambda>r. t_now (px_t1 (fst r))" "\<lambda>r. t_now (px_t2 (fst r))"
  policy_ticking reset_policy_version_lifecycle "\<lambda>_. True" "\<lambda>s. s"
  by unfold_locales (auto simp: reset_policy_version_lifecycle_def dest: policy_request_sync)

section \<open>Properties of the policy lifecycle\<close>

text \<open>A database with one policy, and the requests that take its first two versions to effective.\<close>

definition demo_policy_db :: db where
  "demo_policy_db = empty_db\<lparr>policies :=
     [\<lparr>po_id = ''p'', po_title = ''Access control'', po_description = [], po_owner = [], po_status = ''active'',
       po_effective_date = None, po_next_review_date = None, po_archived = False, po_source_type = ''manual'',
       po_drive_file_id = None, po_drive_web_url = None, po_drive_mime_type = None,
       po_drive_last_seen_revision_id = None, po_drive_last_synced_at = None\<rparr>]\<rparr>"

definition demo_policy_env :: "int \<Rightarrow> policy_env" where
  "demo_policy_env n =
     \<lparr>px_t1 = \<lparr>t_now = Datetime (Date 2026 8 20) (2 * n), t_id = map (\<lambda>_. CHR ''a'') [1..n]\<rparr>,
      px_t2 = \<lparr>t_now = Datetime (Date 2026 8 20) (2 * n + 1), t_id = map (\<lambda>_. CHR ''b'') [1..n]\<rparr>,
      px_actor_type = ''user'', px_actor_id = Some ''u'',
      px_upload = \<lparr>st_original_filename = ''policy.pdf'', st_stored_filename = ''document.pdf'',
        st_media_type = ''application/pdf'', st_byte_size = 10, st_sha256 = ''00''\<rparr>,
      px_note = [], px_email = ''u@example.com''\<rparr>"

definition demo_policy_requests :: "policy_request list" where
  "demo_policy_requests =
     [(demo_policy_env 1, New_version ''p'', ''v1''), (demo_policy_env 2, Submit, ''v1''),
      (demo_policy_env 3, Review ''approved'' [], ''v1''), (demo_policy_env 4, Make_effective, ''v1''),
      (demo_policy_env 5, New_version ''p'', ''v2''), (demo_policy_env 6, Submit, ''v2''),
      (demo_policy_env 7, Review ''approved'' [], ''v2''), (demo_policy_env 8, Make_effective, ''v2'')]"

lemma demo_policy_history:
  "case rfold (\<lambda>s r. policy_request_exec r s) demo_policy_requests demo_policy_db of
     Inl _ \<Rightarrow> False
   | Inr s \<Rightarrow> policy_view s ''v1'' = Some (''p'', Superseded) \<and> policy_view s ''v2'' = Some (''p'', Effective)"
  by code_simp

lemma policy_history_eq:
  "rfold (\<lambda>s (env, c, v). policy_exec env c v s) rs s = rfold (\<lambda>s r. policy_request_exec r s) rs s"
  by (simp add: policy_request_exec_def split_def)

lemmas policy_histories =
  policy_lc.history_one_effective [unfolded policy_history_eq]
  policy_lc.history_terminal [unfolded policy_history_eq]
  policy_lc.history_effective_approved [unfolded policy_history_eq]

text \<open>
  C3. At most one effective version, and terminal statuses. After any history of uploads,
  submissions, reviews, publications and withdrawals, no policy has two effective versions,
  and a version that was superseded or withdrawn before it is still so.
\<close>

theorem policy_one_effective:
  assumes "policy_inv s" and "rfold (\<lambda>s r. policy_request_exec r s) rs s = Inr s'"
  shows "one_effective_index pv_policy_id pv_lc (policy_versions s') \<and>
         (\<forall>v p st. policy_view s v = Some (p, st) \<and> st \<in> {Superseded, Withdrawn} \<longrightarrow>
            policy_view s' v = Some (p, st))"
proof -
  have "policy_inv s'" using policy_lc.history_run [unfolded policy_history_eq] assms by blast
  then show ?thesis using policy_histories(2) [OF assms] by (auto simp: policy_inv_def)
qed

lemma policy_one_effective_witness:
  "\<exists>s'. rfold (\<lambda>s r. policy_request_exec r s) demo_policy_requests demo_policy_db = Inr s' \<and>
        one_effective_index pv_policy_id pv_lc (policy_versions s')"
proof -
  have inv: "policy_inv demo_policy_db" by code_simp
  obtain s' where "rfold (\<lambda>s r. policy_request_exec r s) demo_policy_requests demo_policy_db = Inr s'"
    using demo_policy_history by (auto split: sum.splits)
  with policy_one_effective [OF inv this] show ?thesis by blast
qed

text \<open>
  C4. Nothing becomes effective unreviewed. A version that is effective after a history, and
  was neither effective nor already approved before it, was approved by a review and later
  made effective by requests of that history, in this order.
\<close>

theorem policy_effective_was_approved:
  assumes "policy_inv s" and "rfold (\<lambda>s r. policy_request_exec r s) rs s = Inr s'"
    and "policy_view s' v = Some (p, Effective)"
    and "policy_view s v \<notin> {Some (p, Effective), Some (p, Approved)}"
  shows "\<exists>c xs ys. map snd rs = xs @ (Make_effective, v) # ys \<and> (Review ''approved'' c, v) \<in> set xs"
  using policy_histories(3) [OF assms(1-3)] assms(4) by auto

lemma policy_effective_was_approved_witness:
  "\<exists>c xs ys. map snd demo_policy_requests = xs @ (Make_effective, ''v2'') # ys \<and>
     (Review ''approved'' c, ''v2'') \<in> set xs"
proof -
  have inv: "policy_inv demo_policy_db" by code_simp
  obtain s' where "rfold (\<lambda>s r. policy_request_exec r s) demo_policy_requests demo_policy_db = Inr s'"
    "policy_view s' ''v2'' = Some (''p'', Effective)"
    using demo_policy_history by (auto split: sum.splits)
  from policy_effective_was_approved [OF inv this] show ?thesis
    by (simp add: policy_view_def table_view_def demo_policy_db_def empty_db_def)
qed

text \<open>
  C5. The columns are a projection. From a database whose lifecycle columns agree with the
  events, any history of requests under a clock that moves forward ends in a database that
  \<open>rebuild_policy_version_lifecycle_projection\<close> leaves exactly as it is.
\<close>

theorem policy_rebuild_identity:
  assumes "in_sync policy_version_projectors ''policy_version'' clear_policy_version_lifecycle s"
    and "recorded_by ''policy_version'' seen (domain_events s)"
    and "clock_runs (\<lambda>r. t_now (px_t1 (fst r))) (\<lambda>r. t_now (px_t2 (fst r))) policy_ticking seen rs"
    and "rfold (\<lambda>s r. policy_request_exec r s) rs s = Inr s'"
  shows "rebuild_policy_version_lifecycle_projection s' = Inr s'"
  unfolding rebuild_policy_version_lifecycle_projection_def
  by (rule policy_domain.rebuild_after_history [OF assms]) simp

lemma policy_rebuild_identity_witness:
  "\<exists>s'. rfold (\<lambda>s r. policy_request_exec r s) demo_policy_requests demo_policy_db = Inr s' \<and>
        policy_view s' ''v2'' = Some (''p'', Effective) \<and>
        rebuild_policy_version_lifecycle_projection s' = Inr s'"
proof -
  let ?t0 = "Datetime (Date 2026 8 20) 0"
  have sync: "in_sync policy_version_projectors ''policy_version'' clear_policy_version_lifecycle demo_policy_db"
    by (simp add: in_sync_def demo_policy_db_def empty_db_def clear_policy_version_lifecycle_def events_of_def)
  have rec: "recorded_by ''policy_version'' ?t0 (domain_events demo_policy_db)"
    by (simp add: recorded_by_def demo_policy_db_def empty_db_def)
  have clock: "clock_runs (\<lambda>r. t_now (px_t1 (fst r))) (\<lambda>r. t_now (px_t2 (fst r))) policy_ticking ?t0 demo_policy_requests"
    by code_simp
  obtain s' where run: "rfold (\<lambda>s r. policy_request_exec r s) demo_policy_requests demo_policy_db = Inr s'"
    "policy_view s' ''v2'' = Some (''p'', Effective)"
    using demo_policy_history by (auto split: sum.splits)
  then show ?thesis using policy_rebuild_identity [OF sync rec clock run(1)] by blast
qed

lemma policy_append_ok:
  assumes "wf_events (domain_events s)" "\<not> has_row ev_id (t_id t) (domain_events s)"
    "c_idempotency_key c = None"
  shows "\<exists>e. ev_event_type e = c_event_type c \<and> ev_aggregate_id e = c_aggregate_id c \<and> ev_payload e = c_payload c \<and>
             ev_id e = t_id t \<and> wf_events (domain_events s @ [e]) \<and>
             policy_append t c s = run_projector policy_version_projectors (s\<lparr>domain_events := domain_events s @ [e]\<rparr>) e"
proof -
  obtain n where "append_and_project [] t policy_version_projectors c s =
      rbind (run_projector policy_version_projectors (s\<lparr>domain_events := domain_events s @ [candidate t c n]\<rparr>)
        (candidate t c n)) (\<lambda>s'. Inr (candidate t c n, s'))" "wf_events (domain_events s @ [candidate t c n])"
    using append_ok [OF assms] by blast
  then show ?thesis
    by (intro exI [of _ "candidate t c n"]) (simp add: policy_append_def rbind_def split: sum.splits)
qed

definition policy_fks :: "db \<Rightarrow> bool" where
  "policy_fks s = list_all (\<lambda>v. fk_ok pv_id (lc_superseded_by_version_id (pv_lc v)) (policy_versions s)) (policy_versions s)"

lemma has_row_upd_policy_version [simp]:
  "has_row pv_id k (policy_versions (upd_policy_version w f s)) = has_row pv_id k (policy_versions s)"
  by (simp add: upd_policy_version_def)

lemma policy_fks_upd:
  assumes "policy_fks s" and "\<And>l. lc_superseded_by_version_id (f l) \<in> {lc_superseded_by_version_id l, Some b}"
    and "has_row pv_id b (policy_versions s)"
  shows "policy_fks (upd_policy_version w f s)"
  unfolding policy_fks_def list_all_iff
proof
  fix v assume "v \<in> set (policy_versions (upd_policy_version w f s))"
  then obtain u where u: "u \<in> set (policy_versions s)" "v = u \<or> v = u\<lparr>pv_lc := f (pv_lc u)\<rparr>"
    by (auto simp: upd_policy_version_def set_row_upd)
  then have "lc_superseded_by_version_id (pv_lc v) \<in> {lc_superseded_by_version_id (pv_lc u), Some b}"
    using assms(2) [of "pv_lc u"] by auto
  then show "fk_ok pv_id (lc_superseded_by_version_id (pv_lc v)) (policy_versions (upd_policy_version w f s))"
    using assms(1,3) u(1) by (auto simp: policy_fks_def list_all_iff fk_ok_def split: option.splits)
qed

lemma policy_supersede_ok:
  assumes "wf_events (domain_events s)" and "\<not> has_row ev_id (t_id t) (domain_events s)"
    and "row_get pv_id w (policy_versions s) = Some x"
  shows "\<exists>e. ev_id e = t_id t \<and> wf_events (domain_events s @ [e]) \<and>
           policy_append t (event_command ''policy_version'' w ''PolicyVersionSuperseded''
             [(''superseded_by_version_id'', JStr v)] a i) s =
           Inr (upd_policy_version w (lc_superseded e v) (s\<lparr>domain_events := domain_events s @ [e]\<rparr>))"
  using policy_append_ok [OF assms(1,2), of "event_command ''policy_version'' w ''PolicyVersionSuperseded''
      [(''superseded_by_version_id'', JStr v)] a i"] assms(3)
  by (auto simp: policy_run_simps)

lemma policy_made_effective_ok:
  assumes "wf_events (domain_events s)" and "\<not> has_row ev_id (t_id t) (domain_events s)"
    and "row_get pv_id w (policy_versions s) = Some x"
  shows "\<exists>e. policy_append t (event_command ''policy_version'' w ''PolicyVersionMadeEffective'' [] a i) s =
           Inr (upd_policy_version w (lc_made_effective e) (s\<lparr>domain_events := domain_events s @ [e]\<rparr>))"
  using policy_append_ok [OF assms(1,2), of "event_command ''policy_version'' w ''PolicyVersionMadeEffective'' [] a i"]
    assms(3)
  by (auto simp: policy_run_simps)

text \<open>The first half of a publication: the previous effective version, if any, is superseded.\<close>

lemma policy_supersede_previous:
  assumes inv: "policy_inv s" and wf: "wf_events (domain_events s)" and fk: "policy_fks s"
    and ids: "\<not> has_row ev_id (t_id t1) (domain_events s)" "\<not> has_row ev_id (t_id t2) (domain_events s)" "t_id t1 \<noteq> t_id t2"
    and v: "policy_view s v = Some (p, Approved)"
  shows "\<exists>s1. (case find (\<lambda>w. lc_status (pv_lc w) = Effective \<and> pv_id w \<noteq> v) (policy_versions_desc p s) of
         None \<Rightarrow> Inr s
       | Some w \<Rightarrow> policy_append t1 (event_command ''policy_version'' (pv_id w) ''PolicyVersionSuperseded''
            [(''superseded_by_version_id'', JStr v)] a i) s) = Inr s1 \<and>
      policy_view s1 = supersede_effective p (policy_view s) \<and> unique_by pv_id (policy_versions s1) \<and>
      policy_fks s1 \<and> wf_events (domain_events s1) \<and> \<not> has_row ev_id (t_id t2) (domain_events s1)"
proof -
  have one: "unique_by pv_id (policy_versions s)" "one_effective (policy_view s)"
    using inv by (simp_all add: policy_inv_view)
  note prev = table_previous [OF one [unfolded policy_view_def] v [unfolded policy_view_def]
      set_policy_versions_desc refl, folded policy_view_def]
  show ?thesis
  proof (cases "find (\<lambda>w. lc_status (pv_lc w) = Effective \<and> pv_id w \<noteq> v) (policy_versions_desc p s)")
    case None
    then show ?thesis using prev one wf ids fk by simp
  next
    case (Some w)
    then obtain e where e: "ev_id e = t_id t1" "wf_events (domain_events s @ [e])"
      "policy_append t1 (event_command ''policy_version'' (pv_id w) ''PolicyVersionSuperseded''
             [(''superseded_by_version_id'', JStr v)] a i) s =
       Inr (upd_policy_version (pv_id w) (lc_superseded e v) (s\<lparr>domain_events := domain_events s @ [e]\<rparr>))"
      using policy_supersede_ok [OF wf ids(1)] prev by fastforce
    have "has_row pv_id v (policy_versions s)"
      using v by (auto simp: policy_view_def table_view_def intro: row_get_Some_has_row)
    then have "policy_fks (upd_policy_version (pv_id w) (lc_superseded e v) s)"
      by (intro policy_fks_upd [OF fk, where b = v]) simp_all
    then show ?thesis using Some e prev one ids by (simp add: policy_view_upd policy_fks_def)
  qed
qed

text \<open>
  C6. Publication succeeds. On a well-formed database, making an approved version effective
  returns: the previous effective version of the policy is superseded by it, the version is
  effective, and every other version keeps its status.
\<close>

theorem policy_publication_succeeds:
  assumes inv: "policy_inv s" and wf: "wf_events (domain_events s)" and fk: "policy_fks s"
    and ids: "\<not> has_row ev_id (t_id t1) (domain_events s)" "\<not> has_row ev_id (t_id t2) (domain_events s)" "t_id t1 \<noteq> t_id t2"
    and v: "policy_view s v = Some (p, Approved)"
  shows "\<exists>s'. policy_make_version_effective t1 t2 a i v s = Inr s' \<and>
              policy_view s' = (\<lambda>w. if w = v then Some (p, Effective)
                                    else if policy_view s w = Some (p, Effective) then Some (p, Superseded)
                                    else policy_view s w)"
proof -
  obtain r where r: "row_get pv_id v (policy_versions s) = Some r" "lc_status (pv_lc r) = Approved" "pv_policy_id r = p"
    using v by (auto simp: policy_view_def table_view_def)
  from policy_supersede_previous [OF assms] obtain s1 where s1:
      "(case find (\<lambda>w. lc_status (pv_lc w) = Effective \<and> pv_id w \<noteq> v) (policy_versions_desc p s) of None \<Rightarrow> Inr s
        | Some w \<Rightarrow> policy_append t1 (event_command ''policy_version'' (pv_id w) ''PolicyVersionSuperseded''
            [(''superseded_by_version_id'', JStr v)] a i) s) = Inr s1"
    and view1: "policy_view s1 = supersede_effective p (policy_view s)" and uniq: "unique_by pv_id (policy_versions s1)"
    and ok1: "policy_fks s1" "wf_events (domain_events s1)" "\<not> has_row ev_id (t_id t2) (domain_events s1)"
    by blast
  have "policy_view s1 v = Some (p, Approved)" using view1 v by (simp add: supersede_effective_def)
  then obtain r1 where r1: "row_get pv_id v (policy_versions s1) = Some r1" "pv_policy_id r1 = p"
    by (auto simp: policy_view_def table_view_def)
  obtain e where e: "policy_append t2 (event_command ''policy_version'' v ''PolicyVersionMadeEffective'' [] a i) s1 =
      Inr (upd_policy_version v (lc_made_effective e) (s1\<lparr>domain_events := domain_events s1 @ [e]\<rparr>))" (is "_ = Inr ?s2")
    using policy_made_effective_ok [OF ok1(2,3) r1(1)] by blast
  have view2: "policy_view ?s2 = (supersede_effective p (policy_view s))(v \<mapsto> (p, Effective))"
    using r1 view1 by (simp add: policy_view_upd)
  moreover have "lifecycle_step (policy_view s) (Make_effective, v) (policy_view ?s2)"
    unfolding view2 using v by (rule lifecycle_step.make_effective)
  then have "one_effective (policy_view ?s2)"
    using step_one_effective inv by (auto simp: policy_inv_view)
  then have "one_effective_index pv_policy_id pv_lc (policy_versions ?s2)"
    using uniq one_effective_index_iff [of pv_id "policy_versions ?s2"] by (simp add: policy_view_def)
  moreover have "policy_fks ?s2"
    using policy_fks_upd [OF ok1(1), of "lc_made_effective e" v v] row_get_Some_has_row [OF r1(1)]
    by (simp add: policy_fks_def)
  ultimately show ?thesis using s1 e r
    by (auto simp: policy_make_version_effective_def policy_flush_def policy_fks_def Let_def supersede_effective_def fun_eq_iff)
qed

lemma policy_publication_succeeds_witness:
  "\<exists>s s'. policy_view s ''v1'' = Some (''p'', Effective) \<and> policy_view s ''v2'' = Some (''p'', Approved) \<and>
     policy_make_version_effective \<lparr>t_now = noon, t_id = ''x''\<rparr> \<lparr>t_now = noon, t_id = ''y''\<rparr> ''user'' None ''v2'' s = Inr s' \<and>
     policy_view s' ''v1'' = Some (''p'', Superseded) \<and> policy_view s' ''v2'' = Some (''p'', Effective)"
proof -
  let ?f = "px_upload (demo_policy_env 1)"
  let ?v1 = "(uploaded_version \<lparr>t_now = noon, t_id = ''v1''\<rparr> ''p'' 1 ?f [] [])\<lparr>pv_lc := lifecycle_defaults\<lparr>lc_status := Effective\<rparr>\<rparr>"
  let ?v2 = "(uploaded_version \<lparr>t_now = noon, t_id = ''v2''\<rparr> ''p'' 2 ?f [] [])\<lparr>pv_lc := lifecycle_defaults\<lparr>lc_status := Approved\<rparr>\<rparr>"
  let ?s = "demo_policy_db\<lparr>policy_versions := [?v1, ?v2]\<rparr>"
  have wf: "wf_events (domain_events ?s)" by (simp add: demo_policy_db_def empty_db_def)
  have ids: "\<not> has_row ev_id x (domain_events ?s)" for x by (simp add: demo_policy_db_def empty_db_def)
  have inv: "policy_inv ?s"
    by (simp add: policy_inv_def one_effective_index_def unique_by_def lifecycle_defaults_def)
  have fk: "policy_fks ?s" by (simp add: policy_fks_def lifecycle_defaults_def)
  have v1: "policy_view ?s ''v1'' = Some (''p'', Effective)" and v2: "policy_view ?s ''v2'' = Some (''p'', Approved)"
    by (simp_all add: policy_view_def table_view_def)
  obtain s' where "policy_make_version_effective \<lparr>t_now = noon, t_id = ''x''\<rparr> \<lparr>t_now = noon, t_id = ''y''\<rparr> ''user'' None ''v2'' ?s = Inr s'"
    "policy_view s' ''v1'' = Some (''p'', Superseded)" "policy_view s' ''v2'' = Some (''p'', Effective)"
    using policy_publication_succeeds [OF inv wf fk ids ids _ v2, of "\<lparr>t_now = noon, t_id = ''x''\<rparr>"
        "\<lparr>t_now = noon, t_id = ''y''\<rparr>" "''user''" None] v1 by auto
  with v1 v2 show ?thesis by blast
qed

end
