(* ===== verification/Control_Definition.thy ===== *)
theory Control_Definition
  imports Lifecycle
begin

text \<open>
  \<open>src/app/control_definition_lifecycle.py\<close>: the versions of a control's definition. Unlike a
  policy version, the row itself is created by the projector of the first event, so a rebuild
  deletes and replays the whole table; the projectors that move a version into or out of
  effective flush at once, so the partial unique index is checked there. The module
  interprets \<open>projection\<close>, \<open>version_lifecycle\<close> and \<open>projected_domain\<close>.
\<close>

section \<open>Projectors\<close>

definition insert_internal_control_version :: "internal_control_version \<Rightarrow> db \<Rightarrow> db result" where
  "insert_internal_control_version r s =
     (if has_row icv_id (icv_id r) (internal_control_versions s) \<or>
         list_ex (\<lambda>x. icv_control_id x = icv_control_id r \<and> icv_version_number x = icv_version_number r)
           (internal_control_versions s) \<or>
         \<not> has_row ic_id (icv_control_id r) (internal_controls s)
      then Inl IntegrityError
      else Inr (s\<lparr>internal_control_versions := internal_control_versions s @ [r]\<rparr>))"

definition upd_control_version :: "string \<Rightarrow> (lifecycle \<Rightarrow> lifecycle) \<Rightarrow> db \<Rightarrow> db" where
  "upd_control_version v f s =
     s\<lparr>internal_control_versions := row_upd icv_id v (\<lambda>r. r\<lparr>icv_lc := f (icv_lc r)\<rparr>) (internal_control_versions s)\<rparr>"

text \<open>The flush of a changed version: the partial unique index, and a new \<open>superseded_by_version_id\<close>.\<close>

definition control_version_flush :: "db \<Rightarrow> db result" where
  "control_version_flush s =
     (if one_effective_index icv_control_id icv_lc (internal_control_versions s) then Inr s else Inl IntegrityError)"

definition control_project_drafted :: "db projector" where
  "control_project_drafted s e =
     rbind (req_str ''control_id'' (ev_payload e)) (\<lambda>control_id.
     rbind (req_int ''version_number'' (ev_payload e)) (\<lambda>version_number.
     rbind (req_str ''name'' (ev_payload e)) (\<lambda>name.
     rbind (req_str ''description'' (ev_payload e)) (\<lambda>description.
     rbind (req_str ''status_snapshot'' (ev_payload e)) (\<lambda>status_snapshot.
     rbind (req_str ''review_frequency_snapshot'' (ev_payload e)) (\<lambda>review_frequency_snapshot.
     rbind (jget ''mapped_requirement_ids'' (ev_payload e)) (\<lambda>mapped_requirement_ids.
       insert_internal_control_version
         \<lparr>icv_id = ev_aggregate_id e, icv_control_id = control_id, icv_version_number = version_number,
          icv_name = name, icv_description = description, icv_status_snapshot = status_snapshot,
          icv_review_frequency_snapshot = review_frequency_snapshot,
          icv_mapped_requirement_ids = mapped_requirement_ids, icv_drafted_at = ev_recorded_at e,
          icv_drafted_by = ev_actor_id e, icv_lc = lifecycle_defaults\<rparr> s)))))))"

definition control_project_submitted_for_review :: "db projector" where
  "control_project_submitted_for_review s e =
     rbind (row_of icv_id (ev_aggregate_id e) (internal_control_versions s)) (\<lambda>_.
       Inr (upd_control_version (ev_aggregate_id e) (lc_submitted e) s))"

definition control_project_reviewed :: "db projector" where
  "control_project_reviewed s e =
     rbind (row_of icv_id (ev_aggregate_id e) (internal_control_versions s)) (\<lambda>_.
     rbind (req_str ''decision'' (ev_payload e)) (\<lambda>decision.
     rbind (str_or [] ''comment'' (ev_payload e)) (\<lambda>comment.
       Inr (upd_control_version (ev_aggregate_id e) (lc_reviewed e decision comment) s))))"

definition control_project_made_effective :: "db projector" where
  "control_project_made_effective s e =
     rbind (row_of icv_id (ev_aggregate_id e) (internal_control_versions s)) (\<lambda>_.
       control_version_flush (upd_control_version (ev_aggregate_id e) (lc_made_effective e) s))"

definition control_project_superseded :: "db projector" where
  "control_project_superseded s e =
     rbind (row_of icv_id (ev_aggregate_id e) (internal_control_versions s)) (\<lambda>_.
     rbind (req_str ''superseded_by_version_id'' (ev_payload e)) (\<lambda>by_id.
       if has_row icv_id by_id (internal_control_versions s)
       then control_version_flush (upd_control_version (ev_aggregate_id e) (lc_superseded e by_id) s)
       else Inl IntegrityError))"

definition control_project_withdrawn :: "db projector" where
  "control_project_withdrawn s e =
     rbind (row_of icv_id (ev_aggregate_id e) (internal_control_versions s)) (\<lambda>_.
     rbind (str_or [] ''reason'' (ev_payload e)) (\<lambda>reason.
       Inr (upd_control_version (ev_aggregate_id e) (lc_withdrawn e reason) s)))"

definition internal_control_version_projectors :: "string \<rightharpoonup> db projector" where
  "internal_control_version_projectors =
     [''InternalControlVersionDrafted'' \<mapsto> control_project_drafted,
      ''InternalControlVersionSubmittedForReview'' \<mapsto> control_project_submitted_for_review,
      ''InternalControlVersionReviewed'' \<mapsto> control_project_reviewed,
      ''InternalControlVersionMadeEffective'' \<mapsto> control_project_made_effective,
      ''InternalControlVersionSuperseded'' \<mapsto> control_project_superseded,
      ''InternalControlVersionWithdrawn'' \<mapsto> control_project_withdrawn]"

text \<open>
  The reset first takes every occurrence's reference away (\<open>detach_definitions\<close>), then deletes
  the versions.
\<close>

definition detach_definitions :: "db \<Rightarrow> db" where
  "detach_definitions s =
     s\<lparr>control_occurrences := map (\<lambda>o'. o'\<lparr>oc_control_definition_version_id := None\<rparr>) (control_occurrences s)\<rparr>"

definition clear_internal_control_versions :: "db \<Rightarrow> db" where
  "clear_internal_control_versions s = s\<lparr>internal_control_versions := []\<rparr>"

definition reset_internal_control_versions :: "db \<Rightarrow> db result" where
  "reset_internal_control_versions s =
     (let s1 = detach_definitions s
      in if list_all (\<lambda>o'. oc_control_definition_version_id o' = None) (control_occurrences s1)
         then Inr (clear_internal_control_versions s1) else Inl IntegrityError)"

definition rebuild_internal_control_version_projection :: "db \<Rightarrow> db result" where
  "rebuild_internal_control_version_projection s =
     rebuild_projection internal_control_version_projectors ''internal_control_version''
       reset_internal_control_versions s"

section \<open>Commands\<close>

definition control_append :: "tick \<Rightarrow> event_cmd \<Rightarrow> db \<Rightarrow> db result" where
  "control_append t c s =
     rbind (append_and_project [] t internal_control_version_projectors c s) (\<lambda>(_, s'). Inr s')"

text \<open>\<open>InternalControl.versions\<close>, \<open>.mappings\<close> and \<open>.effective_version\<close>.\<close>

definition control_versions_desc :: "string \<Rightarrow> db \<Rightarrow> internal_control_version list" where
  "control_versions_desc c s =
     rev (sort_key icv_version_number (filter (\<lambda>v. icv_control_id v = c) (internal_control_versions s)))"

definition control_effective_version :: "string \<Rightarrow> db \<Rightarrow> internal_control_version option" where
  "control_effective_version c s = find (\<lambda>v. lc_status (icv_lc v) = Effective) (control_versions_desc c s)"

definition control_mappings :: "string \<Rightarrow> db \<Rightarrow> control_requirement_mapping list" where
  "control_mappings c s = filter (\<lambda>x. crm_control_id x = c) (control_requirement_mappings s)"

text \<open>The keyword overrides of \<open>draft_control_definition_version\<close>, each \<open>None\<close> when omitted.\<close>

record draft_fields =
  df_name :: "string option"
  df_description :: "string option"
  df_status_snapshot :: "string option"
  df_review_frequency_snapshot :: "string option"
  df_mapped_requirement_ids :: "string list option"

definition no_overrides :: draft_fields where
  "no_overrides = \<lparr>df_name = None, df_description = None, df_status_snapshot = None,
     df_review_frequency_snapshot = None, df_mapped_requirement_ids = None\<rparr>"

definition or_else :: "'a \<Rightarrow> 'a option \<Rightarrow> 'a" where
  "or_else d v = (case v of None \<Rightarrow> d | Some x \<Rightarrow> x)"

definition draft_payload :: "draft_fields \<Rightarrow> internal_control \<Rightarrow> db \<Rightarrow> (string \<times> json) list" where
  "draft_payload df control s =
     [(''control_id'', JStr (ic_id control)),
      (''version_number'', JInt (fold max (map icv_version_number (control_versions_desc (ic_id control) s)) 0 + 1)),
      (''name'', JStr (or_else (ic_name control) (df_name df))),
      (''description'', JStr (or_else (ic_description control) (df_description df))),
      (''status_snapshot'', JStr (or_else (ic_status control) (df_status_snapshot df))),
      (''review_frequency_snapshot'', JStr (or_else (ic_review_frequency control) (df_review_frequency_snapshot df))),
      (''mapped_requirement_ids'',
         JArr (map JStr (or_else (map crm_requirement_id (control_mappings (ic_id control) s)) (df_mapped_requirement_ids df))))]"

definition draft_control_definition_version ::
  "tick \<Rightarrow> string \<Rightarrow> draft_fields \<Rightarrow> string \<Rightarrow> string option \<Rightarrow> string \<Rightarrow> db \<Rightarrow> db result" where
  "draft_control_definition_version t new_id df actor_type actor_id c s =
     rbind (row_of ic_id c (internal_controls s)) (\<lambda>control.
       control_append t
         (event_command ''internal_control_version'' new_id ''InternalControlVersionDrafted''
            (draft_payload df control s) actor_type actor_id) s)"

definition control_submit_for_review :: "tick \<Rightarrow> string \<Rightarrow> string option \<Rightarrow> string \<Rightarrow> db \<Rightarrow> db result" where
  "control_submit_for_review t actor_type actor_id v s =
     rbind (row_of icv_id v (internal_control_versions s)) (\<lambda>version.
       if lc_status (icv_lc version) \<noteq> Draft then Inl (ValueError ''Cannot submit for review'')
       else control_append t
         (event_command ''internal_control_version'' v ''InternalControlVersionSubmittedForReview'' []
            actor_type actor_id) s)"

definition control_review_version ::
  "tick \<Rightarrow> string \<Rightarrow> string \<Rightarrow> string \<Rightarrow> string option \<Rightarrow> string \<Rightarrow> db \<Rightarrow> db result" where
  "control_review_version t decision comment actor_type actor_id v s =
     rbind (row_of icv_id v (internal_control_versions s)) (\<lambda>version.
       if lc_status (icv_lc version) \<noteq> In_review then Inl (ValueError ''Cannot review'')
       else if decision \<notin> {''approved'', ''rejected''} then Inl (ValueError ''Invalid review decision'')
       else if decision = ''rejected'' \<and> blank comment then Inl (ValueError ''A comment explaining the rejection is required'')
       else control_append t
         (event_command ''internal_control_version'' v ''InternalControlVersionReviewed''
            [(''decision'', JStr decision), (''comment'', JStr comment)] actor_type actor_id) s)"

definition control_make_version_effective ::
  "tick \<Rightarrow> tick \<Rightarrow> string \<Rightarrow> string option \<Rightarrow> string \<Rightarrow> db \<Rightarrow> db result" where
  "control_make_version_effective t1 t2 actor_type actor_id v s =
     rbind (row_of icv_id v (internal_control_versions s)) (\<lambda>version.
       if lc_status (icv_lc version) \<noteq> Approved then Inl (ValueError ''Cannot make effective'')
       else
         let previous_effective =
           find (\<lambda>w. lc_status (icv_lc w) = Effective \<and> icv_id w \<noteq> v) (control_versions_desc (icv_control_id version) s)
         in rbind
           (case previous_effective of None \<Rightarrow> Inr s
            | Some w \<Rightarrow> control_append t1
                (event_command ''internal_control_version'' (icv_id w) ''InternalControlVersionSuperseded''
                   [(''superseded_by_version_id'', JStr v)] actor_type actor_id) s)
           (control_append t2
              (event_command ''internal_control_version'' v ''InternalControlVersionMadeEffective'' [] actor_type actor_id)))"

definition control_withdraw_version ::
  "tick \<Rightarrow> string \<Rightarrow> datetime option \<Rightarrow> string \<Rightarrow> string option \<Rightarrow> string \<Rightarrow> db \<Rightarrow> db result" where
  "control_withdraw_version t reason occurred_at actor_type actor_id v s =
     rbind (row_of icv_id v (internal_control_versions s)) (\<lambda>version.
       if lc_status (icv_lc version) \<notin> {Draft, In_review, Approved, Effective}
       then Inl (ValueError ''Cannot withdraw a version that is already terminal'')
       else control_append t
         ((event_command ''internal_control_version'' v ''InternalControlVersionWithdrawn'' [(''reason'', JStr reason)]
             actor_type actor_id)\<lparr>c_occurred_at := occurred_at\<rparr>) s)"

text \<open>The ticks of the five appends of a bootstrap (the supersede included).\<close>

record bootstrap_ticks =
  bt_draft :: tick
  bt_submit :: tick
  bt_review :: tick
  bt_supersede :: tick
  bt_effective :: tick

definition bootstrap_initial_effective_version ::
  "bootstrap_ticks \<Rightarrow> string \<Rightarrow> string \<Rightarrow> string option \<Rightarrow> string \<Rightarrow> db \<Rightarrow> db result" where
  "bootstrap_initial_effective_version ts new_id actor_type actor_id c s =
     rbind (draft_control_definition_version (bt_draft ts) new_id no_overrides actor_type actor_id c s) (\<lambda>s1.
     rbind (control_submit_for_review (bt_submit ts) actor_type actor_id new_id s1) (\<lambda>s2.
     rbind (control_review_version (bt_review ts) ''approved'' [] actor_type actor_id new_id s2) (\<lambda>s3.
       control_make_version_effective (bt_supersede ts) (bt_effective ts) actor_type actor_id new_id s3)))"

section \<open>The projection contract\<close>

lemma upd_control_version_events [simp]:
  "domain_events (upd_control_version v f s) = domain_events s"
  "upd_control_version v f (s\<lparr>domain_events := es\<rparr>) = (upd_control_version v f s)\<lparr>domain_events := es\<rparr>"
  by (simp_all add: upd_control_version_def)

lemma upd_control_version_clear [simp]:
  "clear_internal_control_versions (upd_control_version v f s) = clear_internal_control_versions s"
  by (simp add: upd_control_version_def clear_internal_control_versions_def)

lemma control_version_flush_Inr [simp]:
  "control_version_flush s = Inr s' \<longleftrightarrow> s' = s \<and> one_effective_index icv_control_id icv_lc (internal_control_versions s)"
  by (auto simp: control_version_flush_def)

lemma insert_control_version_Inr:
  "insert_internal_control_version r s = Inr s' \<longleftrightarrow>
     s' = s\<lparr>internal_control_versions := internal_control_versions s @ [r]\<rparr> \<and>
     \<not> has_row icv_id (icv_id r) (internal_control_versions s) \<and>
     \<not> list_ex (\<lambda>x. icv_control_id x = icv_control_id r \<and> icv_version_number x = icv_version_number r)
           (internal_control_versions s) \<and>
     has_row ic_id (icv_control_id r) (internal_controls s)"
  by (auto simp: insert_internal_control_version_def)

lemmas control_projector_defs =
  control_project_drafted_def control_project_submitted_for_review_def control_project_reviewed_def
  control_project_made_effective_def control_project_superseded_def control_project_withdrawn_def

text \<open>
  A projector reads and writes the versions only; it also reads the keys of the controls. So it
  commutes with every change elsewhere.
\<close>

lemma control_projector_frame:
  assumes "internal_control_version_projectors k = Some p" and "p s e = Inr s'"
    and "internal_control_versions (u s) = internal_control_versions s" "internal_controls (u s) = internal_controls s"
    and "\<And>g. u (s\<lparr>internal_control_versions := g\<rparr>) = (u s)\<lparr>internal_control_versions := g\<rparr>"
  shows "p (u s) e = Inr (u s')"
  using assms by (auto simp: internal_control_version_projectors_def control_projector_defs upd_control_version_def
      insert_control_version_Inr split: if_splits)

lemma control_projector_only_versions:
  "internal_control_version_projectors k = Some p \<Longrightarrow> p s e = Inr s' \<Longrightarrow>
     \<exists>g. s' = s\<lparr>internal_control_versions := g\<rparr>"
  by (auto simp: internal_control_version_projectors_def control_projector_defs upd_control_version_def
      insert_control_version_Inr split: if_splits)

interpretation control_def: projection internal_control_version_projectors "''internal_control_version''"
  clear_internal_control_versions
proof
  show "clear_internal_control_versions (s\<lparr>domain_events := es\<rparr>) = (clear_internal_control_versions s)\<lparr>domain_events := es\<rparr>"
    for s es by (simp add: clear_internal_control_versions_def)
  show "p (s\<lparr>domain_events := es\<rparr>) e = Inr (s'\<lparr>domain_events := es\<rparr>)"
    if "internal_control_version_projectors k = Some p" "p s e = Inr s'" for k p s e s' es
    by (rule control_projector_frame [OF that, where u = "\<lambda>s. s\<lparr>domain_events := es\<rparr>"]) simp_all
  show "clear_internal_control_versions s' = clear_internal_control_versions s"
    if "internal_control_version_projectors k = Some p" "p s e = Inr s'" for k p s e s'
    using control_projector_only_versions [OF that] by (auto simp: clear_internal_control_versions_def)
qed

section \<open>Refinement of the approval machine\<close>

definition control_view :: "db \<Rightarrow> version_view" where
  "control_view s = table_view icv_id icv_control_id icv_lc (internal_control_versions s)"

definition control_inv :: "db \<Rightarrow> bool" where
  "control_inv s =
     (unique_by icv_id (internal_control_versions s) \<and>
      one_effective_index icv_control_id icv_lc (internal_control_versions s))"

record control_env =
  cx_t1 :: tick
  cx_t2 :: tick
  cx_actor_type :: string
  cx_actor_id :: "string option"
  cx_fields :: draft_fields

definition control_exec :: "control_env \<Rightarrow> lifecycle_command \<Rightarrow> string \<Rightarrow> db \<Rightarrow> db result" where
  "control_exec env c v s =
     (case c of
        New_version p \<Rightarrow>
          draft_control_definition_version (cx_t1 env) v (cx_fields env) (cx_actor_type env) (cx_actor_id env) p s
      | Submit \<Rightarrow> control_submit_for_review (cx_t1 env) (cx_actor_type env) (cx_actor_id env) v s
      | Review d m \<Rightarrow> control_review_version (cx_t1 env) d m (cx_actor_type env) (cx_actor_id env) v s
      | Make_effective \<Rightarrow>
          control_make_version_effective (cx_t1 env) (cx_t2 env) (cx_actor_type env) (cx_actor_id env) v s
      | Withdraw r at \<Rightarrow> control_withdraw_version (cx_t1 env) r at (cx_actor_type env) (cx_actor_id env) v s)"

lemma control_view_events [simp]: "control_view (s\<lparr>domain_events := es\<rparr>) = control_view s"
  by (simp add: control_view_def)

lemma control_view_upd:
  "row_get icv_id v (internal_control_versions s) = Some r \<Longrightarrow>
     control_view (upd_control_version v f s) = (control_view s)(v \<mapsto> (icv_control_id r, lc_status (f (icv_lc r))))"
  unfolding control_view_def upd_control_version_def by (simp add: table_view_upd [where g = f])

lemma control_view_get:
  "row_get icv_id v (internal_control_versions s) = Some r \<Longrightarrow>
     control_view s v = Some (icv_control_id r, lc_status (icv_lc r))"
  by (simp add: control_view_def table_view_def)

lemma control_keys_upd [simp]:
  "unique_by icv_id (internal_control_versions (upd_control_version v f s)) = unique_by icv_id (internal_control_versions s)"
  by (simp add: upd_control_version_def)

lemma control_inv_view:
  "control_inv s \<longleftrightarrow> unique_by icv_id (internal_control_versions s) \<and> one_effective (control_view s)"
  by (auto simp: control_inv_def control_view_def one_effective_index_iff)

lemma control_append_Inr:
  assumes "control_append t c s = Inr s'" and "c_idempotency_key c = None"
  shows "\<exists>e. ev_event_type e = c_event_type c \<and> ev_aggregate_id e = c_aggregate_id c \<and> ev_payload e = c_payload c \<and>
             run_projector internal_control_version_projectors (s\<lparr>domain_events := domain_events s @ [e]\<rparr>) e = Inr s'"
proof -
  obtain e where "append_and_project [] t internal_control_version_projectors c s = Inr (e, s')"
    using assms(1) by (auto simp: control_append_def)
  then show ?thesis using assms(2) by (intro exI [of _ e]) (auto simp: append_key_free_iff)
qed

lemmas control_run_simps =
  run_projector_def internal_control_version_projectors_def control_projector_defs json_simps

lemma control_submit_view:
  assumes "control_submit_for_review t a i v s = Inr s'"
  shows "\<exists>p. control_view s v = Some (p, Draft) \<and> control_view s' = (control_view s)(v \<mapsto> (p, In_review)) \<and>
             unique_by icv_id (internal_control_versions s') = unique_by icv_id (internal_control_versions s)"
proof -
  obtain r where r: "row_get icv_id v (internal_control_versions s) = Some r" "lc_status (icv_lc r) = Draft"
    and app: "control_append t (event_command ''internal_control_version'' v
        ''InternalControlVersionSubmittedForReview'' [] a i) s = Inr s'"
    using assms by (auto simp: control_submit_for_review_def split: if_splits)
  show ?thesis using control_append_Inr [OF app] r
    by (auto simp: control_run_simps control_view_upd control_view_get)
qed

lemma control_review_view:
  assumes "control_review_version t d m a i v s = Inr s'"
  shows "\<exists>p. control_view s v = Some (p, In_review) \<and>
             control_view s' = (control_view s)(v \<mapsto> (p, if d = ''approved'' then Approved else Draft)) \<and>
             (d = ''approved'' \<or> d = ''rejected'' \<and> \<not> blank m) \<and>
             unique_by icv_id (internal_control_versions s') = unique_by icv_id (internal_control_versions s)"
proof -
  obtain r where r: "row_get icv_id v (internal_control_versions s) = Some r" "lc_status (icv_lc r) = In_review"
    and d: "d = ''approved'' \<or> d = ''rejected'' \<and> \<not> blank m"
    and app: "control_append t (event_command ''internal_control_version'' v ''InternalControlVersionReviewed''
        [(''decision'', JStr d), (''comment'', JStr m)] a i) s = Inr s'"
    using assms by (auto simp: control_review_version_def split: if_splits)
  show ?thesis using control_append_Inr [OF app] r d
    by (auto simp: control_run_simps control_view_upd control_view_get)
qed

lemma control_withdraw_view:
  assumes "control_withdraw_version t reason at a i v s = Inr s'"
  shows "\<exists>p st. control_view s v = Some (p, st) \<and> st \<in> {Draft, In_review, Approved, Effective} \<and>
             control_view s' = (control_view s)(v \<mapsto> (p, Withdrawn)) \<and>
             unique_by icv_id (internal_control_versions s') = unique_by icv_id (internal_control_versions s)"
proof -
  obtain r where r: "row_get icv_id v (internal_control_versions s) = Some r"
      "lc_status (icv_lc r) \<in> {Draft, In_review, Approved, Effective}"
    and app: "control_append t ((event_command ''internal_control_version'' v ''InternalControlVersionWithdrawn''
        [(''reason'', JStr reason)] a i)\<lparr>c_occurred_at := at\<rparr>) s = Inr s'"
    using assms by (auto simp: control_withdraw_version_def split: if_splits)
  show ?thesis using control_append_Inr [OF app] r
    by (auto simp: control_run_simps control_view_upd control_view_get)
qed

lemma set_control_versions_desc [simp]:
  "set (control_versions_desc p s) = {v \<in> set (internal_control_versions s). icv_control_id v = p}"
  by (auto simp: control_versions_desc_def)

lemma control_make_effective_view:
  assumes inv: "control_inv s" and ok: "control_make_version_effective t1 t2 a i v s = Inr s'"
  shows "\<exists>p. control_view s v = Some (p, Approved) \<and>
             control_view s' = (supersede_effective p (control_view s))(v \<mapsto> (p, Effective)) \<and>
             unique_by icv_id (internal_control_versions s')"
proof -
  define prev :: "internal_control_version \<Rightarrow> internal_control_version option" where
    "prev = (\<lambda>r. find (\<lambda>w. lc_status (icv_lc w) = Effective \<and> icv_id w \<noteq> v)
      (control_versions_desc (icv_control_id r) s))"
  obtain r s1 where r: "row_get icv_id v (internal_control_versions s) = Some r" "lc_status (icv_lc r) = Approved"
    and s1: "(case prev r of None \<Rightarrow> Inr s
            | Some w \<Rightarrow> control_append t1 (event_command ''internal_control_version'' (icv_id w)
                ''InternalControlVersionSuperseded'' [(''superseded_by_version_id'', JStr v)] a i) s) = Inr s1"
    and s': "control_append t2 (event_command ''internal_control_version'' v ''InternalControlVersionMadeEffective'' [] a i) s1 = Inr s'"
    using ok by (auto simp: control_make_version_effective_def prev_def Let_def split: if_splits)
  let ?p = "icv_control_id r"
  have v: "control_view s v = Some (?p, Approved)" using control_view_get [OF r(1)] r(2) by simp
  have "unique_by icv_id (internal_control_versions s)" "one_effective (control_view s)"
    using inv by (simp_all add: control_inv_view)
  note prev = table_previous [OF this [unfolded control_view_def] v [unfolded control_view_def]
      set_control_versions_desc, OF prev_def [THEN fun_cong, symmetric], folded control_view_def]
  have view1: "control_view s1 = supersede_effective ?p (control_view s) \<and> unique_by icv_id (internal_control_versions s1)"
  proof (cases "prev r")
    case None
    then show ?thesis using s1 prev inv by (simp add: control_inv_def)
  next
    case (Some w)
    then have "control_append t1 (event_command ''internal_control_version'' (icv_id w) ''InternalControlVersionSuperseded''
                   [(''superseded_by_version_id'', JStr v)] a i) s = Inr s1" using s1 by simp
    from control_append_Inr [OF this] show ?thesis using Some prev inv
      by (auto simp: control_run_simps control_view_upd control_inv_def split: if_splits)
  qed
  have v1: "control_view s1 v = Some (?p, Approved)"
    using view1 v by (simp add: supersede_effective_def)
  then obtain r1 where r1: "row_get icv_id v (internal_control_versions s1) = Some r1" "icv_control_id r1 = ?p"
    by (auto simp: control_view_def table_view_def)
  show ?thesis using control_append_Inr [OF s'] r1 v view1
    by (auto simp: control_run_simps control_view_upd)
qed

text \<open>The row the projector makes of a draft command's payload.\<close>

definition drafted_version :: "draft_fields \<Rightarrow> internal_control \<Rightarrow> db \<Rightarrow> domain_event \<Rightarrow> internal_control_version" where
  "drafted_version df c s e =
     \<lparr>icv_id = ev_aggregate_id e, icv_control_id = ic_id c,
      icv_version_number = fold max (map icv_version_number (control_versions_desc (ic_id c) s)) 0 + 1,
      icv_name = or_else (ic_name c) (df_name df),
      icv_description = or_else (ic_description c) (df_description df),
      icv_status_snapshot = or_else (ic_status c) (df_status_snapshot df),
      icv_review_frequency_snapshot = or_else (ic_review_frequency c) (df_review_frequency_snapshot df),
      icv_mapped_requirement_ids =
        JArr (map JStr (or_else (map crm_requirement_id (control_mappings (ic_id c) s)) (df_mapped_requirement_ids df))),
      icv_drafted_at = ev_recorded_at e, icv_drafted_by = ev_actor_id e, icv_lc = lifecycle_defaults\<rparr>"

lemma drafted_version_simps [simp]:
  "icv_id (drafted_version df c s e) = ev_aggregate_id e" "icv_control_id (drafted_version df c s e) = ic_id c"
  "icv_lc (drafted_version df c s e) = lifecycle_defaults"
  "icv_version_number (drafted_version df c s e) =
     fold max (map icv_version_number (control_versions_desc (ic_id c) s)) 0 + 1"
  by (simp_all add: drafted_version_def)

lemma project_draft_payload:
  "ev_payload e = JObj (draft_payload df c s) \<Longrightarrow>
     control_project_drafted s1 e = insert_internal_control_version (drafted_version df c s e) s1"
  by (simp add: control_project_drafted_def draft_payload_def json_simps drafted_version_def)

lemma lifecycle_defaults_status [simp]: "lc_status lifecycle_defaults = Draft"
  by (simp add: lifecycle_defaults_def)

lemma control_draft_view:
  assumes "draft_control_definition_version t v df a i p s = Inr s'"
  shows "control_view s v = None \<and> control_view s' = (control_view s)(v \<mapsto> (p, Draft)) \<and>
         unique_by icv_id (internal_control_versions s') = unique_by icv_id (internal_control_versions s)"
proof -
  obtain c where c: "row_get ic_id p (internal_controls s) = Some c" "ic_id c = p"
    and app: "control_append t (event_command ''internal_control_version'' v ''InternalControlVersionDrafted''
        (draft_payload df c s) a i) s = Inr s'"
    using assms by (auto simp: draft_control_definition_version_def dest: row_get_SomeD)
  obtain e where e: "ev_aggregate_id e = v"
    and ins: "insert_internal_control_version (drafted_version df c s e) (s\<lparr>domain_events := domain_events s @ [e]\<rparr>) = Inr s'"
    using control_append_Inr [OF app]
    by (auto simp: run_projector_def internal_control_version_projectors_def project_draft_payload)
  show ?thesis using ins e c
    by (auto simp: insert_control_version_Inr control_view_def table_view_snoc)
       (simp add: table_view_def row_get_None_iff)
qed

lemma control_exec_step:
  assumes inv: "control_inv s" and ok: "control_exec env c v s = Inr s'"
  shows "lifecycle_step (control_view s) (c, v) (control_view s') \<and> unique_by icv_id (internal_control_versions s')"
proof (cases c)
  case (New_version p)
  then show ?thesis using ok inv
    by (auto simp: control_exec_def control_inv_def dest!: control_draft_view intro: lifecycle_step.intros)
next
  case Submit
  then show ?thesis using ok inv
    by (auto simp: control_exec_def control_inv_def dest!: control_submit_view intro: lifecycle_step.intros)
next
  case (Review d m)
  then show ?thesis using ok inv
    by (auto simp: control_exec_def control_inv_def dest!: control_review_view intro: lifecycle_step.intros)
next
  case Make_effective
  then show ?thesis using ok inv
    by (auto simp: control_exec_def dest!: control_make_effective_view intro: lifecycle_step.intros)
next
  case (Withdraw r at)
  then show ?thesis using ok inv
    by (auto simp: control_exec_def control_inv_def dest!: control_withdraw_view intro: lifecycle_step.withdraw)
qed

interpretation control_lc: version_lifecycle control_inv control_view control_exec
proof
  show "one_effective (control_view s)" if "control_inv s" for s using that by (simp add: control_inv_view)
  show "lifecycle_step (control_view s) (c, v) (control_view s')"
    if "control_inv s" "control_exec env c v s = Inr s'" for s env c v s'
    using control_exec_step [OF that] by blast
  show "control_inv s'" if "control_inv s" "control_exec env c v s = Inr s'" for s env c v s'
    using control_exec_step [OF that] that(1) by (auto simp: control_inv_view intro: step_one_effective)
qed

section \<open>Requests keep the table in sync with the events\<close>

type_synonym control_request = "control_env \<times> lifecycle_command \<times> string"

definition control_request_exec :: "control_request \<Rightarrow> db \<Rightarrow> db result" where
  "control_request_exec = (\<lambda>(env, c, v). control_exec env c v)"

definition control_ticking :: "control_request \<Rightarrow> bool" where
  "control_ticking r = (t_now (cx_t1 (fst r)) < t_now (cx_t2 (fst r)))"

lemma control_append_sync:
  "in_sync internal_control_version_projectors ''internal_control_version'' clear_internal_control_versions s \<Longrightarrow>
     recorded_by ''internal_control_version'' seen (domain_events s) \<Longrightarrow> seen < t_now t \<Longrightarrow>
     control_append t c s = Inr s' \<Longrightarrow> c_aggregate_type c = ''internal_control_version'' \<Longrightarrow>
     in_sync internal_control_version_projectors ''internal_control_version'' clear_internal_control_versions s' \<and>
     recorded_by ''internal_control_version'' (t_now t) (domain_events s')"
  by (auto simp: control_append_def dest: control_def.sync_append)

lemma control_make_effective_sync:
  assumes sync: "in_sync internal_control_version_projectors ''internal_control_version'' clear_internal_control_versions s"
    and rec: "recorded_by ''internal_control_version'' seen (domain_events s)" "seen < t_now t1" "t_now t1 < t_now t2"
    and ok: "control_make_version_effective t1 t2 a i v s = Inr s'"
  shows "in_sync internal_control_version_projectors ''internal_control_version'' clear_internal_control_versions s' \<and>
         recorded_by ''internal_control_version'' (t_now t2) (domain_events s')"
proof -
  obtain s1 w where s1: "s1 = s \<or> control_append t1 (event_command ''internal_control_version'' w
          ''InternalControlVersionSuperseded'' [(''superseded_by_version_id'', JStr v)] a i) s = Inr s1"
    and s': "control_append t2 (event_command ''internal_control_version'' v ''InternalControlVersionMadeEffective'' [] a i) s1 = Inr s'"
    using ok by (auto simp: control_make_version_effective_def Let_def split: if_splits option.splits)
  have "in_sync internal_control_version_projectors ''internal_control_version'' clear_internal_control_versions s1 \<and>
      recorded_by ''internal_control_version'' (t_now t1) (domain_events s1)"
    using s1 sync rec control_append_sync [OF sync rec(1,2)] by (auto intro: recorded_by_mono)
  then show ?thesis using control_append_sync [OF _ _ rec(3) s'] by simp
qed

lemma control_request_sync:
  assumes sync: "in_sync internal_control_version_projectors ''internal_control_version'' clear_internal_control_versions s"
    and rec: "recorded_by ''internal_control_version'' seen (domain_events s)"
    and clock: "seen < t_now (cx_t1 (fst r))" "control_ticking r"
    and ok: "control_request_exec r s = Inr s'"
  shows "in_sync internal_control_version_projectors ''internal_control_version'' clear_internal_control_versions s' \<and>
         recorded_by ''internal_control_version'' (t_now (cx_t2 (fst r))) (domain_events s')"
proof -
  obtain env c v where r: "r = (env, c, v)" by (cases r)
  have le: "t_now (cx_t1 env) \<le> t_now (cx_t2 env)" using clock by (simp add: control_ticking_def r)
  have "in_sync internal_control_version_projectors ''internal_control_version'' clear_internal_control_versions s' \<and>
      (recorded_by ''internal_control_version'' (t_now (cx_t1 env)) (domain_events s') \<or>
       recorded_by ''internal_control_version'' (t_now (cx_t2 env)) (domain_events s'))"
  proof (cases c)
    case Make_effective
    then show ?thesis using control_make_effective_sync [OF sync rec] clock ok
      by (simp add: control_request_exec_def control_exec_def control_ticking_def r)
  qed (use ok clock control_append_sync [OF sync rec] in
      \<open>auto simp: control_request_exec_def control_exec_def r control_submit_for_review_def control_review_version_def
        control_withdraw_version_def draft_control_definition_version_def split: if_splits\<close>)
  then show ?thesis using le by (auto simp: r intro: recorded_by_mono)
qed

lemma detach_definitions_run:
  assumes "run_projector internal_control_version_projectors s e = Inr s'"
  shows "run_projector internal_control_version_projectors (detach_definitions s) e = Inr (detach_definitions s')"
proof -
  obtain p where p: "internal_control_version_projectors (ev_event_type e) = Some p" "p s e = Inr s'"
    using assms by (auto simp: run_projector_def split: option.splits)
  show ?thesis using control_projector_frame [OF p, where u = detach_definitions] p(1)
    by (simp add: run_projector_def detach_definitions_def)
qed

interpretation control_domain: projected_domain internal_control_version_projectors "''internal_control_version''"
  clear_internal_control_versions control_request_exec "\<lambda>r. t_now (cx_t1 (fst r))" "\<lambda>r. t_now (cx_t2 (fst r))"
  control_ticking reset_internal_control_versions "\<lambda>_. True" detach_definitions
proof
  show "reset_internal_control_versions s = Inr (detach_definitions (clear_internal_control_versions s))" for s
    by (simp add: reset_internal_control_versions_def detach_definitions_def clear_internal_control_versions_def
        list_all_iff Let_def)
qed (auto dest: control_request_sync detach_definitions_run simp: detach_definitions_def)

section \<open>Bootstrapping a control\<close>

lemma control_append_ok:
  assumes "wf_events (domain_events s)" "\<not> has_row ev_id (t_id t) (domain_events s)" "c_idempotency_key c = None"
  shows "\<exists>e. ev_event_type e = c_event_type c \<and> ev_aggregate_id e = c_aggregate_id c \<and> ev_payload e = c_payload c \<and>
             ev_id e = t_id t \<and> ev_actor_id e = c_actor_id c \<and> ev_recorded_at e = t_now t \<and> wf_events (domain_events s @ [e]) \<and>
             control_append t c s =
               run_projector internal_control_version_projectors (s\<lparr>domain_events := domain_events s @ [e]\<rparr>) e"
proof -
  obtain n where "append_and_project [] t internal_control_version_projectors c s =
      rbind (run_projector internal_control_version_projectors (s\<lparr>domain_events := domain_events s @ [candidate t c n]\<rparr>)
        (candidate t c n)) (\<lambda>s'. Inr (candidate t c n, s'))" "wf_events (domain_events s @ [candidate t c n])"
    using append_ok [OF assms] by blast
  then show ?thesis
    by (intro exI [of _ "candidate t c n"]) (simp add: control_append_def rbind_def split: sum.splits)
qed

lemma fold_max_ge: "x \<in> set xs \<Longrightarrow> x \<le> fold max xs (m :: int)"
proof (induction xs arbitrary: m)
  case (Cons y ys)
  have "a \<le> fold max zs a" for a :: int and zs by (induction zs arbitrary: a) (auto, metis max.bounded_iff)
  then show ?case using Cons by (auto, metis max.bounded_iff)
qed simp

lemma draft_number_fresh:
  "\<not> list_ex (\<lambda>x. icv_control_id x = ic_id c \<and>
     icv_version_number x = fold max (map icv_version_number (control_versions_desc (ic_id c) s)) 0 + 1)
     (internal_control_versions s)"
proof
  assume "list_ex (\<lambda>x. icv_control_id x = ic_id c \<and>
     icv_version_number x = fold max (map icv_version_number (control_versions_desc (ic_id c) s)) 0 + 1)
     (internal_control_versions s)"
  then obtain x where "x \<in> set (control_versions_desc (ic_id c) s)"
    "icv_version_number x = fold max (map icv_version_number (control_versions_desc (ic_id c) s)) 0 + 1"
    by (auto simp: list_ex_iff)
  moreover from this(1) have "icv_version_number x \<in> set (map icv_version_number (control_versions_desc (ic_id c) s))"
    by (simp only: set_map imageI)
  ultimately show False using fold_max_ge [of "icv_version_number x" _ 0] by fastforce
qed

text \<open>Row ids that the next appends can use, in order.\<close>

definition fresh_ids :: "string list \<Rightarrow> db \<Rightarrow> bool" where
  "fresh_ids ids s =
     (wf_events (domain_events s) \<and> distinct ids \<and> list_all (\<lambda>i. \<not> has_row ev_id i (domain_events s)) ids)"

lemma control_append_fresh:
  assumes "fresh_ids (t_id t # ids) s" and "c_idempotency_key c = None"
  shows "\<exists>e. ev_event_type e = c_event_type c \<and> ev_aggregate_id e = c_aggregate_id c \<and> ev_payload e = c_payload c \<and>
             fresh_ids ids (s\<lparr>domain_events := domain_events s @ [e]\<rparr>) \<and>
             control_append t c s =
               run_projector internal_control_version_projectors (s\<lparr>domain_events := domain_events s @ [e]\<rparr>) e"
proof -
  have "wf_events (domain_events s)" "\<not> has_row ev_id (t_id t) (domain_events s)"
    using assms(1) by (simp_all add: fresh_ids_def)
  from control_append_ok [OF this assms(2)] show ?thesis
    using assms(1) by (fastforce simp: fresh_ids_def list_all_iff)
qed

lemma fresh_ids_versions [simp]:
  "fresh_ids ids (s\<lparr>internal_control_versions := g\<rparr>) = fresh_ids ids s"
  "fresh_ids ids (upd_control_version v f s) = fresh_ids ids s"
  by (simp_all add: fresh_ids_def)

lemma draft_ok:
  assumes "fresh_ids (t_id t # ids) s" and "row_get ic_id c (internal_controls s) = Some ctl"
    and "\<not> has_row icv_id v (internal_control_versions s)"
  shows "\<exists>s1 e. draft_control_definition_version t v df a i c s = Inr s1 \<and> fresh_ids ids s1 \<and> ev_aggregate_id e = v \<and>
           internal_control_versions s1 = internal_control_versions s @ [drafted_version df ctl s e]"
proof -
  let ?c = "event_command ''internal_control_version'' v ''InternalControlVersionDrafted'' (draft_payload df ctl s) a i"
  obtain e where e: "ev_event_type e = ''InternalControlVersionDrafted''" "ev_aggregate_id e = v"
    "ev_payload e = JObj (draft_payload df ctl s)" "fresh_ids ids (s\<lparr>domain_events := domain_events s @ [e]\<rparr>)"
    "control_append t ?c s =
       run_projector internal_control_version_projectors (s\<lparr>domain_events := domain_events s @ [e]\<rparr>) e"
    using control_append_fresh [OF assms(1), of ?c] by auto
  have "has_row ic_id (ic_id ctl) (internal_controls s)"
    using row_get_SomeD [OF assms(2)] row_get_Some_has_row [OF assms(2)] by simp
  then have "control_append t ?c s =
      Inr (s\<lparr>domain_events := domain_events s @ [e],
             internal_control_versions := internal_control_versions s @ [drafted_version df ctl s e]\<rparr>)"
    using e assms(3) draft_number_fresh [of ctl s]
    by (simp add: run_projector_def internal_control_version_projectors_def project_draft_payload
        insert_internal_control_version_def)
  then show ?thesis using e(2,4) assms(2)
    by (intro exI [of _ "s\<lparr>domain_events := domain_events s @ [e],
             internal_control_versions := internal_control_versions s @ [drafted_version df ctl s e]\<rparr>"] exI [of _ e])
       (simp add: draft_control_definition_version_def fresh_ids_def)
qed

text \<open>A step that moves one version to a new status and touches nothing else of the table.\<close>

definition moved :: "string \<Rightarrow> lifecycle_status \<Rightarrow> string list \<Rightarrow> db \<Rightarrow> db \<Rightarrow> bool" where
  "moved v st ids s s' =
     (\<exists>f. (\<forall>l. lc_status (f l) = st) \<and> fresh_ids ids s' \<and>
          internal_control_versions s' =
            row_upd icv_id v (\<lambda>r. r\<lparr>icv_lc := f (icv_lc r)\<rparr>) (internal_control_versions s))"

lemma movedI:
  assumes "\<forall>l. lc_status (f l) = st" and "fresh_ids ids (s\<lparr>domain_events := es\<rparr>)"
  shows "moved v st ids s ((upd_control_version v f s)\<lparr>domain_events := es\<rparr>)"
  unfolding moved_def
proof (intro exI conjI)
  show "fresh_ids ids ((upd_control_version v f s)\<lparr>domain_events := es\<rparr>)"
    using assms(2) by (simp add: fresh_ids_def)
qed (use assms(1) in \<open>simp_all add: upd_control_version_def\<close>)

lemma moved_row:
  assumes "moved v st ids s s'" and "row_get icv_id v (internal_control_versions s) = Some r"
  shows "\<exists>l. row_get icv_id v (internal_control_versions s') = Some (r\<lparr>icv_lc := l\<rparr>) \<and> lc_status l = st"
  using assms by (auto simp: moved_def row_get_upd)

lemma moved_view:
  assumes "moved v st ids s s'" and "control_view s v = Some (p, st0)"
  shows "control_view s' = (control_view s)(v \<mapsto> (p, st))"
proof -
  obtain f where f: "\<forall>l. lc_status (f l) = st"
      "internal_control_versions s' = row_upd icv_id v (\<lambda>r. r\<lparr>icv_lc := f (icv_lc r)\<rparr>) (internal_control_versions s)"
    using assms(1) by (auto simp: moved_def)
  then show ?thesis using assms(2) table_view_upd [of icv_id "\<lambda>r. r\<lparr>icv_lc := f (icv_lc r)\<rparr>" icv_control_id icv_lc f]
    by (auto simp: control_view_def table_view_def fun_eq_iff row_get_upd)
qed

lemma moved_simps:
  "moved v st ids s s' \<Longrightarrow> fresh_ids ids s'"
  "moved v st ids s s' \<Longrightarrow> unique_by icv_id (internal_control_versions s') = unique_by icv_id (internal_control_versions s)"
  "moved v st ids s s' \<Longrightarrow> has_row icv_id k (internal_control_versions s') = has_row icv_id k (internal_control_versions s)"
  by (auto simp: moved_def)

lemma submit_ok:
  assumes "fresh_ids (t_id t # ids) s" and "control_view s v = Some (p, Draft)"
  shows "\<exists>s'. control_submit_for_review t a i v s = Inr s' \<and> moved v In_review ids s s'"
proof -
  let ?c = "event_command ''internal_control_version'' v ''InternalControlVersionSubmittedForReview'' [] a i"
  obtain r where r: "row_get icv_id v (internal_control_versions s) = Some r" "lc_status (icv_lc r) = Draft"
    using assms(2) by (auto simp: control_view_def table_view_def)
  obtain e where "ev_event_type e = ''InternalControlVersionSubmittedForReview''" "ev_aggregate_id e = v"
    "fresh_ids ids (s\<lparr>domain_events := domain_events s @ [e]\<rparr>)" "control_append t ?c s =
       run_projector internal_control_version_projectors (s\<lparr>domain_events := domain_events s @ [e]\<rparr>) e"
    using control_append_fresh [OF assms(1), of ?c] by auto
  then show ?thesis using r
    by (simp add: control_submit_for_review_def control_run_simps movedI)
qed

lemma approve_ok:
  assumes "fresh_ids (t_id t # ids) s" and "control_view s v = Some (p, In_review)"
  shows "\<exists>s'. control_review_version t ''approved'' m a i v s = Inr s' \<and> moved v Approved ids s s'"
proof -
  let ?c = "event_command ''internal_control_version'' v ''InternalControlVersionReviewed''
      [(''decision'', JStr ''approved''), (''comment'', JStr m)] a i"
  obtain r where r: "row_get icv_id v (internal_control_versions s) = Some r" "lc_status (icv_lc r) = In_review"
    using assms(2) by (auto simp: control_view_def table_view_def)
  obtain e where "ev_event_type e = ''InternalControlVersionReviewed''" "ev_aggregate_id e = v"
    "ev_payload e = JObj [(''decision'', JStr ''approved''), (''comment'', JStr m)]"
    "fresh_ids ids (s\<lparr>domain_events := domain_events s @ [e]\<rparr>)" "control_append t ?c s =
       run_projector internal_control_version_projectors (s\<lparr>domain_events := domain_events s @ [e]\<rparr>) e"
    using control_append_fresh [OF assms(1), of ?c] by auto
  then show ?thesis using r
    by (simp add: control_review_version_def control_run_simps movedI)
qed

lemma fresh_ids_tl: "fresh_ids (i # ids) s \<Longrightarrow> fresh_ids ids s"
  by (simp add: fresh_ids_def)

lemma flush_ok:
  assumes "unique_by icv_id (internal_control_versions s)" and "one_effective (control_view s)"
  shows "control_version_flush s = Inr s"
  using assms one_effective_index_iff [OF assms(1)] by (simp add: control_version_flush_def control_view_def)

lemma one_effective_supersede: "one_effective m \<Longrightarrow> one_effective (supersede_effective p m)"
  by (auto simp: one_effective_def supersede_effective_def split: if_splits)

lemma superseded_ok:
  assumes fresh: "fresh_ids (t_id t # ids) s" and inv: "control_inv s"
    and w: "control_view s w = Some (p, Effective)" and v: "has_row icv_id v (internal_control_versions s)"
  shows "\<exists>s'. control_append t (event_command ''internal_control_version'' w ''InternalControlVersionSuperseded''
             [(''superseded_by_version_id'', JStr v)] a i) s = Inr s' \<and> moved w Superseded ids s s'"
proof -
  let ?c = "event_command ''internal_control_version'' w ''InternalControlVersionSuperseded''
             [(''superseded_by_version_id'', JStr v)] a i"
  obtain r where r: "row_get icv_id w (internal_control_versions s) = Some r" "icv_control_id r = p"
    using w by (auto simp: control_view_def table_view_def)
  obtain e where e: "ev_event_type e = ''InternalControlVersionSuperseded''" "ev_aggregate_id e = w"
    "ev_payload e = JObj [(''superseded_by_version_id'', JStr v)]"
    "fresh_ids ids (s\<lparr>domain_events := domain_events s @ [e]\<rparr>)" "control_append t ?c s =
       run_projector internal_control_version_projectors (s\<lparr>domain_events := domain_events s @ [e]\<rparr>) e"
    using control_append_fresh [OF fresh, of ?c] by auto
  let ?s' = "(upd_control_version w (lc_superseded e v) s)\<lparr>domain_events := domain_events s @ [e]\<rparr>"
  have one: "one_effective (control_view s)" using inv by (simp add: control_inv_view)
  have "control_view ?s' = supersede_effective p (control_view s)"
    using r supersede_effective_found [OF one w] by (simp add: control_view_upd)
  then have "control_version_flush ?s' = Inr ?s'"
    using inv one one_effective_supersede by (intro flush_ok) (simp_all add: control_inv_def)
  then show ?thesis using e r v by (simp add: control_run_simps movedI)
qed

lemma made_effective_ok:
  assumes fresh: "fresh_ids (t_id t # ids) s" and uniq: "unique_by icv_id (internal_control_versions s)"
    and v: "control_view s v = Some (p, st)" and one: "one_effective ((control_view s)(v \<mapsto> (p, Effective)))"
  shows "\<exists>s'. control_append t (event_command ''internal_control_version'' v ''InternalControlVersionMadeEffective'' [] a i) s = Inr s' \<and>
              moved v Effective ids s s'"
proof -
  let ?c = "event_command ''internal_control_version'' v ''InternalControlVersionMadeEffective'' [] a i"
  obtain r where r: "row_get icv_id v (internal_control_versions s) = Some r" "icv_control_id r = p"
    using v by (auto simp: control_view_def table_view_def)
  obtain e where e: "ev_event_type e = ''InternalControlVersionMadeEffective''" "ev_aggregate_id e = v"
    "fresh_ids ids (s\<lparr>domain_events := domain_events s @ [e]\<rparr>)" "control_append t ?c s =
       run_projector internal_control_version_projectors (s\<lparr>domain_events := domain_events s @ [e]\<rparr>) e"
    using control_append_fresh [OF fresh, of ?c] by auto
  let ?s' = "(upd_control_version v (lc_made_effective e) s)\<lparr>domain_events := domain_events s @ [e]\<rparr>"
  have "control_version_flush ?s' = Inr ?s'"
    using uniq one r by (intro flush_ok) (simp_all add: control_view_upd)
  then show ?thesis using e r by (simp add: control_run_simps movedI)
qed

lemma effective_ok:
  assumes inv: "control_inv s" and fresh: "fresh_ids (t_id t1 # t_id t2 # ids) s"
    and v: "row_get icv_id v (internal_control_versions s) = Some r" "lc_status (icv_lc r) = Approved"
  shows "\<exists>s' l. control_make_version_effective t1 t2 a i v s = Inr s' \<and>
           control_view s' = (supersede_effective (icv_control_id r) (control_view s))(v \<mapsto> (icv_control_id r, Effective)) \<and>
           row_get icv_id v (internal_control_versions s') = Some (r\<lparr>icv_lc := l\<rparr>)"
proof -
  let ?p = "icv_control_id r" and ?prev = "find (\<lambda>w. lc_status (icv_lc w) = Effective \<and> icv_id w \<noteq> v) (control_versions_desc (icv_control_id r) s)"
  have view: "control_view s v = Some (?p, Approved)" using v by (simp add: control_view_get)
  have one: "unique_by icv_id (internal_control_versions s)" "one_effective (control_view s)"
    using inv by (simp_all add: control_inv_view)
  note prev = table_previous [OF one [unfolded control_view_def] view [unfolded control_view_def]
      set_control_versions_desc refl, folded control_view_def]
  obtain s1 where s1: "(case ?prev of None \<Rightarrow> Inr s
            | Some w \<Rightarrow> control_append t1 (event_command ''internal_control_version'' (icv_id w)
                ''InternalControlVersionSuperseded'' [(''superseded_by_version_id'', JStr v)] a i) s) = Inr s1"
    and f1: "fresh_ids (t_id t2 # ids) s1" and view1: "control_view s1 = supersede_effective ?p (control_view s)"
    and u1: "unique_by icv_id (internal_control_versions s1)"
    and r1: "row_get icv_id v (internal_control_versions s1) = Some r"
  proof (cases ?prev)
    case None
    then show ?thesis using that [of s] prev one fresh v(1) fresh_ids_tl by simp
  next
    case (Some w)
    then have w: "lc_status (icv_lc w) = Effective" "icv_id w \<noteq> v" using find_SomeD [OF Some] by auto
    have w': "control_view s (icv_id w) = Some (?p, Effective)"
      using Some prev w by (auto dest: control_view_get)
    obtain s1 where "control_append t1 (event_command ''internal_control_version'' (icv_id w)
        ''InternalControlVersionSuperseded'' [(''superseded_by_version_id'', JStr v)] a i) s = Inr s1"
      and mv: "moved (icv_id w) Superseded (t_id t2 # ids) s s1"
      using superseded_ok [OF fresh inv w' row_get_Some_has_row [OF v(1)]] by blast
    moreover have "row_get icv_id v (internal_control_versions s1) = Some r"
      using mv v(1) w(2) by (auto simp: moved_def row_get_upd)
    ultimately show ?thesis using that [of s1] Some prev moved_simps [OF mv] moved_view [OF mv w'] one by simp
  qed
  have eff: "one_effective ((control_view s1)(v \<mapsto> (?p, Effective)))"
    using step_one_effective [OF lifecycle_step.make_effective one(2)] view view1 by metis
  have "control_view s1 v = Some (?p, Approved)" using r1 v(2) by (simp add: control_view_get)
  from made_effective_ok [OF f1 u1 this eff] obtain s' where
    "control_append t2 (event_command ''internal_control_version'' v ''InternalControlVersionMadeEffective'' [] a i) s1 = Inr s'"
    and mv: "moved v Effective ids s1 s'" by blast
  then show ?thesis
    using s1 v moved_view [OF mv \<open>control_view s1 v = _\<close>] moved_row [OF mv r1] view1
    by (auto simp: control_make_version_effective_def Let_def)
qed

section \<open>Properties of the control-definition lifecycle\<close>

text \<open>A database with one control, and requests that take two versions of its definition to effective.\<close>

definition demo_control :: internal_control where
  "demo_control =
     \<lparr>ic_id = ''c'', ic_name = ''Backups'', ic_description = ''Nightly'', ic_owner = [], ic_status = ''implemented'',
      ic_review_frequency = ''annual'', ic_cadence_type = Some ''calendar'', ic_cadence_interval_months = Some 1,
      ic_owner_person_id = None\<rparr>"

definition demo_control_db :: db where
  "demo_control_db = empty_db\<lparr>internal_controls := [demo_control]\<rparr>"

definition demo_tick :: "int \<Rightarrow> tick" where
  "demo_tick n = \<lparr>t_now = Datetime (Date 2026 8 20) n, t_id = map (\<lambda>_. CHR ''e'') [1..n]\<rparr>"

definition demo_control_env :: "int \<Rightarrow> control_env" where
  "demo_control_env n = \<lparr>cx_t1 = demo_tick (2 * n), cx_t2 = demo_tick (2 * n + 1), cx_actor_type = ''user'',
     cx_actor_id = Some ''u'', cx_fields = no_overrides\<rparr>"

definition demo_control_requests :: "control_request list" where
  "demo_control_requests =
     [(demo_control_env 1, New_version ''c'', ''v1''), (demo_control_env 2, Submit, ''v1''),
      (demo_control_env 3, Review ''approved'' [], ''v1''), (demo_control_env 4, Make_effective, ''v1''),
      (demo_control_env 5, New_version ''c'', ''v2''), (demo_control_env 6, Submit, ''v2''),
      (demo_control_env 7, Review ''approved'' [], ''v2''), (demo_control_env 8, Make_effective, ''v2'')]"

lemma demo_control_history:
  "case rfold (\<lambda>s r. control_request_exec r s) demo_control_requests demo_control_db of
     Inl _ \<Rightarrow> False
   | Inr s \<Rightarrow> control_view s ''v1'' = Some (''c'', Superseded) \<and> control_view s ''v2'' = Some (''c'', Effective)"
  by code_simp

lemma demo_control_inv: "control_inv demo_control_db"
  by (simp add: demo_control_db_def empty_db_def control_inv_def one_effective_index_def)

lemma control_history_eq:
  "rfold (\<lambda>s (env, c, v). control_exec env c v s) rs s = rfold (\<lambda>s r. control_request_exec r s) rs s"
  by (simp add: control_request_exec_def split_def)

text \<open>
  C7. The definition lifecycle refines the approval machine. After any history of drafts,
  submissions, reviews, publications and withdrawals, every control has at most one effective
  definition, and each definition that became effective was approved by a review of that
  history before it was made effective.
\<close>

theorem control_definition_governed:
  assumes "control_inv s" and "rfold (\<lambda>s r. control_request_exec r s) rs s = Inr s'"
  shows "one_effective_index icv_control_id icv_lc (internal_control_versions s') \<and>
         (\<forall>v p. control_view s' v = Some (p, Effective) \<and> control_view s v \<notin> {Some (p, Effective), Some (p, Approved)} \<longrightarrow>
            (\<exists>c xs ys. map snd rs = xs @ (Make_effective, v) # ys \<and> (Review ''approved'' c, v) \<in> set xs))"
proof -
  have "control_inv s'" using control_lc.history_run [unfolded control_history_eq] assms by blast
  then show ?thesis
    using control_lc.history_effective_approved [unfolded control_history_eq, OF assms] by (auto simp: control_inv_def)
qed

lemma control_definition_governed_witness:
  "\<exists>s'. rfold (\<lambda>s r. control_request_exec r s) demo_control_requests demo_control_db = Inr s' \<and>
        control_view s' ''v2'' = Some (''c'', Effective) \<and>
        one_effective_index icv_control_id icv_lc (internal_control_versions s')"
proof -
  obtain s' where s': "rfold (\<lambda>s r. control_request_exec r s) demo_control_requests demo_control_db = Inr s'"
    "control_view s' ''v2'' = Some (''c'', Effective)"
    using demo_control_history by (auto split: sum.splits)
  with control_definition_governed [OF demo_control_inv s'(1)] show ?thesis by blast
qed

text \<open>
  The definitions are a projection. After any history under a clock that moves forward,
  \<open>rebuild_internal_control_version_projection\<close> gives back the same versions; the only change
  to the database is that occurrences have lost their reference to a version.
\<close>

theorem control_definition_rebuild:
  assumes "in_sync internal_control_version_projectors ''internal_control_version'' clear_internal_control_versions s"
    and "recorded_by ''internal_control_version'' seen (domain_events s)"
    and "clock_runs (\<lambda>r. t_now (cx_t1 (fst r))) (\<lambda>r. t_now (cx_t2 (fst r))) control_ticking seen rs"
    and "rfold (\<lambda>s r. control_request_exec r s) rs s = Inr s'"
  shows "rebuild_internal_control_version_projection s' =
         Inr (s'\<lparr>control_occurrences := map (\<lambda>x. x\<lparr>oc_control_definition_version_id := None\<rparr>) (control_occurrences s')\<rparr>)"
  unfolding rebuild_internal_control_version_projection_def detach_definitions_def [symmetric]
  by (rule control_domain.rebuild_after_history [OF assms]) simp

lemma control_definition_rebuild_witness:
  "\<exists>s'. rfold (\<lambda>s r. control_request_exec r s) demo_control_requests demo_control_db = Inr s' \<and>
        control_view s' ''v2'' = Some (''c'', Effective) \<and>
        rebuild_internal_control_version_projection s' =
          Inr (s'\<lparr>control_occurrences := map (\<lambda>x. x\<lparr>oc_control_definition_version_id := None\<rparr>) (control_occurrences s')\<rparr>)"
proof -
  let ?t0 = "Datetime (Date 2026 8 20) 0"
  have sync: "in_sync internal_control_version_projectors ''internal_control_version'' clear_internal_control_versions demo_control_db"
    by (simp add: in_sync_def demo_control_db_def empty_db_def clear_internal_control_versions_def events_of_def)
  have rec: "recorded_by ''internal_control_version'' ?t0 (domain_events demo_control_db)"
    by (simp add: recorded_by_def demo_control_db_def empty_db_def)
  have clock: "clock_runs (\<lambda>r. t_now (cx_t1 (fst r))) (\<lambda>r. t_now (cx_t2 (fst r))) control_ticking ?t0 demo_control_requests"
    by code_simp
  obtain s' where run: "rfold (\<lambda>s r. control_request_exec r s) demo_control_requests demo_control_db = Inr s'"
    "control_view s' ''v2'' = Some (''c'', Effective)"
    using demo_control_history by (auto split: sum.splits)
  then show ?thesis using control_definition_rebuild [OF sync rec clock run(1)] by blast
qed

text \<open>
  Bootstrap. On a well-formed database, \<open>bootstrap_initial_effective_version\<close> of an existing
  control returns, and afterwards the new version is the control's effective definition, it is
  a snapshot of the control's current columns and mapped requirements, and a previously
  effective definition of the control is superseded.
\<close>

theorem bootstrap_succeeds:
  assumes inv: "control_inv s" and c: "row_get ic_id c (internal_controls s) = Some ctl"
    and new: "\<not> has_row icv_id v (internal_control_versions s)"
    and fresh: "fresh_ids [t_id (bt_draft ts), t_id (bt_submit ts), t_id (bt_review ts), t_id (bt_supersede ts), t_id (bt_effective ts)] s"
  shows "\<exists>s' r. bootstrap_initial_effective_version ts v a i c s = Inr s' \<and>
           control_view s' = (supersede_effective c (control_view s))(v \<mapsto> (c, Effective)) \<and>
           row_get icv_id v (internal_control_versions s') = Some r \<and>
           icv_name r = ic_name ctl \<and> icv_description r = ic_description ctl \<and> icv_status_snapshot r = ic_status ctl \<and>
           icv_review_frequency_snapshot r = ic_review_frequency ctl \<and>
           icv_mapped_requirement_ids r = JArr (map JStr (map crm_requirement_id (control_mappings c s)))"
proof -
  have ctl: "ic_id ctl = c" using row_get_SomeD [OF c] by simp
  obtain s1 e where d: "draft_control_definition_version (bt_draft ts) v no_overrides a i c s = Inr s1"
    and f1: "fresh_ids [t_id (bt_submit ts), t_id (bt_review ts), t_id (bt_supersede ts), t_id (bt_effective ts)] s1"
    and e: "ev_aggregate_id e = v" "internal_control_versions s1 = internal_control_versions s @ [drafted_version no_overrides ctl s e]"
    using draft_ok [OF fresh c new] by blast
  let ?r = "drafted_version no_overrides ctl s e"
  have v1: "control_view s1 = (control_view s)(v \<mapsto> (c, Draft))" and u1: "unique_by icv_id (internal_control_versions s1)"
    and r1: "row_get icv_id v (internal_control_versions s1) = Some ?r"
    using control_draft_view [OF d] inv e new row_get_None_iff [of icv_id v "internal_control_versions s"]
    by (simp_all add: control_inv_def row_get_append)
  have w1: "control_view s1 v = Some (c, Draft)" using v1 by simp
  obtain s2 where sub: "control_submit_for_review (bt_submit ts) a i v s1 = Inr s2"
    and m2: "moved v In_review [t_id (bt_review ts), t_id (bt_supersede ts), t_id (bt_effective ts)] s1 s2"
    using submit_ok [OF f1 w1] by blast
  have v2: "control_view s2 = (control_view s)(v \<mapsto> (c, In_review))" using moved_view [OF m2 w1] v1 by simp
  have w2: "control_view s2 v = Some (c, In_review)" using v2 by simp
  obtain s3 where app: "control_review_version (bt_review ts) ''approved'' [] a i v s2 = Inr s3"
    and m3: "moved v Approved [t_id (bt_supersede ts), t_id (bt_effective ts)] s2 s3"
    using approve_ok [OF moved_simps(1) [OF m2] w2] by blast
  have v3: "control_view s3 = (control_view s)(v \<mapsto> (c, Approved))" using moved_view [OF m3 w2] v2 by simp
  obtain l2 where r2: "row_get icv_id v (internal_control_versions s2) = Some (?r\<lparr>icv_lc := l2\<rparr>)"
    using moved_row [OF m2 r1] by blast
  obtain l where r3: "row_get icv_id v (internal_control_versions s3) = Some (?r\<lparr>icv_lc := l\<rparr>)" "lc_status l = Approved"
    using moved_row [OF m3 r2] by auto
  have none: "control_view s v = None" using new by (simp add: control_view_def table_view_def row_get_None_iff)
  then have "one_effective (control_view s3)" using inv by (auto simp: v3 control_inv_view one_effective_def)
  then have inv3: "control_inv s3" using u1 moved_simps(2) [OF m2] moved_simps(2) [OF m3] by (simp add: control_inv_view)
  obtain s' l' where eff: "control_make_version_effective (bt_supersede ts) (bt_effective ts) a i v s3 = Inr s'"
    and v4: "control_view s' = (supersede_effective c (control_view s3))(v \<mapsto> (c, Effective))"
    and r4: "row_get icv_id v (internal_control_versions s') = Some (?r\<lparr>icv_lc := l'\<rparr>)"
    using effective_ok [OF inv3 moved_simps(1) [OF m3] r3(1), of a i] r3(2) ctl by auto
  have "control_view s' = (supersede_effective c (control_view s))(v \<mapsto> (c, Effective))"
    unfolding v4 v3 by (auto simp: supersede_effective_def fun_eq_iff)
  then show ?thesis using d sub app eff r4 ctl
    by (simp add: bootstrap_initial_effective_version_def drafted_version_def no_overrides_def or_else_def)
qed

lemma bootstrap_succeeds_witness:
  "\<exists>s'. bootstrap_initial_effective_version \<lparr>bt_draft = demo_tick 1, bt_submit = demo_tick 2, bt_review = demo_tick 3,
        bt_supersede = demo_tick 4, bt_effective = demo_tick 5\<rparr> ''v1'' ''system'' None ''c'' demo_control_db = Inr s' \<and>
      control_view s' ''v1'' = Some (''c'', Effective)"
proof -
  let ?ts = "\<lparr>bt_draft = demo_tick 1, bt_submit = demo_tick 2, bt_review = demo_tick 3,
      bt_supersede = demo_tick 4, bt_effective = demo_tick 5\<rparr>"
  have "fresh_ids [t_id (bt_draft ?ts), t_id (bt_submit ?ts), t_id (bt_review ?ts), t_id (bt_supersede ?ts),
      t_id (bt_effective ?ts)] demo_control_db"
    by (simp add: fresh_ids_def demo_control_db_def empty_db_def demo_tick_def upto.simps)
  from bootstrap_succeeds [OF demo_control_inv _ _ this, of "''c''" demo_control "''v1''" "''system''" None]
  show ?thesis by (fastforce simp: demo_control_db_def empty_db_def demo_control_def)
qed

end
