(* ===== verification/Occurrences.thy ===== *)
theory Occurrences
  imports Control_Definition
begin

text \<open>
  \<open>src/app/control_occurrences.py\<close>: the operational history of a control. The projectors over
  \<open>ControlOccurrence\<close> and its two link tables, the reset and rebuild, the calendar arithmetic
  that computes due dates, and the commands that generate, record, perform and link.

  The due-date loop ends only when its interval is positive; it is a partial function whose
  value is \<open>None\<close> when the Python loop runs for ever, and its callers return an option for the
  same reason. A link or a performance claim is flushed by the caller; the constraint it would
  break is checked where the row is written.
\<close>

section \<open>Projectors\<close>

definition occurrence_conflict :: "control_occurrence \<Rightarrow> control_occurrence \<Rightarrow> bool" where
  "occurrence_conflict r x =
     (oc_control_id x = oc_control_id r \<and> oc_control_period_id x = oc_control_period_id r \<and>
      oc_due_at x = oc_due_at r \<and> oc_due_at r \<noteq> None)"

definition insert_control_occurrence :: "control_occurrence \<Rightarrow> db \<Rightarrow> db result" where
  "insert_control_occurrence r s =
     (if has_row oc_id (oc_id r) (control_occurrences s) \<or>
         list_ex (occurrence_conflict r) (control_occurrences s) \<or>
         \<not> has_row ic_id (oc_control_id r) (internal_controls s) \<or>
         \<not> fk_ok cp_id (oc_control_period_id r) (control_periods s) \<or>
         \<not> fk_ok pe_id (oc_responsible_person_id r) (people s) \<or>
         \<not> fk_ok icv_id (oc_control_definition_version_id r) (internal_control_versions s)
      then Inl IntegrityError
      else Inr (s\<lparr>control_occurrences := control_occurrences s @ [r]\<rparr>))"

definition occurrence_project_materialized :: "db projector" where
  "occurrence_project_materialized s e =
     rbind (req_str ''control_id'' (ev_payload e)) (\<lambda>control_id.
     rbind (opt_str ''control_period_id'' (ev_payload e)) (\<lambda>control_period_id.
     rbind (opt_str ''due_at'' (ev_payload e)) (\<lambda>due_text.
     rbind (parse_iso_datetime due_text) (\<lambda>due_at.
     rbind (opt_str ''responsible_person_id'' (ev_payload e)) (\<lambda>responsible_person_id.
     rbind (opt_str ''control_definition_version_id'' (ev_payload e)) (\<lambda>control_definition_version_id.
       insert_control_occurrence
         \<lparr>oc_id = ev_aggregate_id e, oc_control_id = control_id, oc_control_period_id = control_period_id,
          oc_origin = Generated, oc_due_at = due_at, oc_performed_at = None,
          oc_responsible_person_id = responsible_person_id, oc_performed_by_person_id = None,
          oc_scope_note = [], oc_evidence_note = [],
          oc_control_definition_version_id = control_definition_version_id,
          oc_created_at = ev_recorded_at e, oc_updated_at = ev_recorded_at e\<rparr> s))))))"

definition occurrence_project_recorded_manually :: "db projector" where
  "occurrence_project_recorded_manually s e =
     rbind (req_str ''control_id'' (ev_payload e)) (\<lambda>control_id.
     rbind (opt_str ''control_period_id'' (ev_payload e)) (\<lambda>control_period_id.
     rbind (opt_str ''due_at'' (ev_payload e)) (\<lambda>due_text.
     rbind (parse_iso_datetime due_text) (\<lambda>due_at.
     rbind (str_or [] ''scope_note'' (ev_payload e)) (\<lambda>scope_note.
     rbind (opt_str ''control_definition_version_id'' (ev_payload e)) (\<lambda>control_definition_version_id.
       insert_control_occurrence
         \<lparr>oc_id = ev_aggregate_id e, oc_control_id = control_id, oc_control_period_id = control_period_id,
          oc_origin = Manual, oc_due_at = due_at, oc_performed_at = None,
          oc_responsible_person_id = None, oc_performed_by_person_id = None,
          oc_scope_note = scope_note, oc_evidence_note = [],
          oc_control_definition_version_id = control_definition_version_id,
          oc_created_at = ev_recorded_at e, oc_updated_at = ev_recorded_at e\<rparr> s))))))"

definition occurrence_project_performed :: "db projector" where
  "occurrence_project_performed s e =
     rbind (row_of oc_id (ev_aggregate_id e) (control_occurrences s)) (\<lambda>_.
     rbind (opt_str ''performed_by_person_id'' (ev_payload e)) (\<lambda>performed_by.
     rbind (req_str ''scope_note'' (ev_payload e)) (\<lambda>scope_note.
     rbind (str_or [] ''evidence_note'' (ev_payload e)) (\<lambda>evidence_note.
       if \<not> fk_ok pe_id performed_by (people s) then Inl IntegrityError
       else Inr (s\<lparr>control_occurrences :=
         row_upd oc_id (ev_aggregate_id e)
           (\<lambda>r. r\<lparr>oc_performed_at := Some (ev_occurred_at e), oc_performed_by_person_id := performed_by,
                   oc_scope_note := scope_note, oc_evidence_note := evidence_note,
                   oc_updated_at := ev_recorded_at e\<rparr>) (control_occurrences s)\<rparr>)))))"

definition occurrence_project_evidence_linked :: "db projector" where
  "occurrence_project_evidence_linked s e =
     rbind (req_str ''evidence_snapshot_id'' (ev_payload e)) (\<lambda>snapshot_id.
       let r = \<lparr>oe_occurrence_id = ev_aggregate_id e, oe_evidence_snapshot_id = snapshot_id\<rparr>
       in if r \<in> set (control_occurrence_evidence_rows s) \<or>
             \<not> has_row oc_id (ev_aggregate_id e) (control_occurrences s) \<or>
             \<not> has_row es_id snapshot_id (evidence_snapshots s)
          then Inl IntegrityError
          else Inr (s\<lparr>control_occurrence_evidence_rows := control_occurrence_evidence_rows s @ [r]\<rparr>))"

definition occurrence_project_evidence_artifact_linked :: "db projector" where
  "occurrence_project_evidence_artifact_linked s e =
     rbind (req_str ''evidence_artifact_version_id'' (ev_payload e)) (\<lambda>version_id.
       let r = \<lparr>oa_occurrence_id = ev_aggregate_id e, oa_evidence_artifact_version_id = version_id\<rparr>
       in if r \<in> set (control_occurrence_evidence_artifacts s) \<or>
             \<not> has_row oc_id (ev_aggregate_id e) (control_occurrences s) \<or>
             \<not> has_row av_id version_id (evidence_artifact_versions s)
          then Inl IntegrityError
          else Inr (s\<lparr>control_occurrence_evidence_artifacts := control_occurrence_evidence_artifacts s @ [r]\<rparr>))"

definition control_occurrence_projectors :: "string \<rightharpoonup> db projector" where
  "control_occurrence_projectors =
     [''ControlOccurrenceMaterialized'' \<mapsto> occurrence_project_materialized,
      ''ControlOccurrenceRecordedManually'' \<mapsto> occurrence_project_recorded_manually,
      ''ControlOccurrencePerformed'' \<mapsto> occurrence_project_performed,
      ''ControlOccurrenceEvidenceLinked'' \<mapsto> occurrence_project_evidence_linked,
      ''ControlOccurrenceEvidenceArtifactLinked'' \<mapsto> occurrence_project_evidence_artifact_linked]"

definition clear_control_occurrences :: "db \<Rightarrow> db" where
  "clear_control_occurrences s =
     s\<lparr>control_occurrence_evidence_rows := [], control_occurrence_evidence_artifacts := [], control_occurrences := []\<rparr>"

text \<open>
  Deleting the occurrences breaks the foreign key of a test population item that still names
  one of them.
\<close>

definition reset_control_occurrences :: "db \<Rightarrow> db result" where
  "reset_control_occurrences s =
     (if list_ex (\<lambda>i. has_row oc_id (ti_control_occurrence_id i) (control_occurrences s)) (control_test_population_items s)
      then Inl IntegrityError else Inr (clear_control_occurrences s))"

definition rebuild_control_occurrence_projection :: "db \<Rightarrow> db result" where
  "rebuild_control_occurrence_projection s =
     rebuild_projection control_occurrence_projectors ''control_occurrence'' reset_control_occurrences s"

section \<open>Due dates\<close>

definition add_months :: "date \<Rightarrow> int \<Rightarrow> date result" where
  "add_months d months =
     (let month_index = month d - 1 + months;
          y = year d + month_index div 12;
          m = month_index mod 12 + 1
      in mk_date y m (min (day d) (monthrange y m)))"

definition due_at_for_date :: "date \<Rightarrow> datetime" where
  "due_at_for_date d = Datetime d (micros_per_day - 1)"

text \<open>\<open>while current <= end: dates.append(current); current = _add_months(current, interval)\<close>.\<close>

partial_function (option) due_dates_loop :: "int \<Rightarrow> date \<Rightarrow> date \<Rightarrow> date list result option" where
  "due_dates_loop interval end_date current =
     (if current \<le> end_date then
        (case add_months current interval of
           Inl e \<Rightarrow> Some (Inl e)
         | Inr next \<Rightarrow>
             Option.bind (due_dates_loop interval end_date next) (\<lambda>r. Some (map_sum id ((#) current) r)))
      else Some (Inr []))"

declare due_dates_loop.simps [code]

text \<open>\<open>max(due_at)\<close> over the period-less occurrences of a control; a missing due date is ignored.\<close>

definition last_due :: "string \<Rightarrow> db \<Rightarrow> datetime option" where
  "last_due c s =
     (let ds = List.map_filter oc_due_at
                 (filter (\<lambda>r. oc_control_id r = c \<and> oc_control_period_id r = None) (control_occurrences s))
      in if ds = [] then None else Some (Max (set ds)))"

definition compute_due_dates ::
  "date \<Rightarrow> internal_control \<Rightarrow> control_period option \<Rightarrow> int \<Rightarrow> int \<Rightarrow> db \<Rightarrow> date list result option" where
  "compute_due_dates today control period interval horizon_months s =
     (case period of
        Some p \<Rightarrow> due_dates_loop interval (cp_ends_on p) (cp_starts_on p)
      | None \<Rightarrow>
          (case add_months today horizon_months of
             Inl e \<Rightarrow> Some (Inl e)
           | Inr horizon_end \<Rightarrow>
               (case (case last_due (ic_id control) s of
                        Some d \<Rightarrow> add_months (dt_date d) interval | None \<Rightarrow> Inr today) of
                  Inl e \<Rightarrow> Some (Inl e)
                | Inr current \<Rightarrow> due_dates_loop interval horizon_end current)))"

section \<open>Commands\<close>

definition materialize_key :: "string \<Rightarrow> string option \<Rightarrow> date \<Rightarrow> string" where
  "materialize_key c period_id due =
     ''control_occurrence:materialize:'' @ c @ '':'' @
     (if truthy period_id then the period_id else ''none'') @ '':'' @ date_isoformat due"

definition materialize_command ::
  "string \<Rightarrow> internal_control \<Rightarrow> string option \<Rightarrow> string option \<Rightarrow> int \<Rightarrow> string \<Rightarrow> string option \<Rightarrow> date \<Rightarrow> event_cmd" where
  "materialize_command new_id control period_id version_id interval actor_type actor_id due =
     (event_command ''control_occurrence'' new_id ''ControlOccurrenceMaterialized''
        [(''control_id'', JStr (ic_id control)), (''control_period_id'', jopt period_id),
         (''due_at'', JStr (datetime_isoformat (due_at_for_date due))),
         (''responsible_person_id'', jopt (ic_owner_person_id control)),
         (''cadence_interval_months'', JInt interval),
         (''control_definition_version_id'', jopt version_id)] actor_type actor_id)
     \<lparr>c_idempotency_key := Some (materialize_key (ic_id control) period_id due)\<rparr>"

text \<open>
  The loop over the due dates. Iteration \<open>n\<close> takes its clock reading, event id and new aggregate
  id from the feed; the result lists what \<open>session.get\<close> finds for each event.
\<close>

fun materialize_all ::
  "(nat \<Rightarrow> tick \<times> string) \<Rightarrow> (string \<Rightarrow> date \<Rightarrow> event_cmd) \<Rightarrow> date list \<Rightarrow> db \<Rightarrow>
   (control_occurrence option list \<times> db) result"
where
  "materialize_all feed cmd [] s = Inr ([], s)"
| "materialize_all feed cmd (due # dues) s =
     rbind (append_and_project [] (fst (feed 0)) control_occurrence_projectors (cmd (snd (feed 0)) due) s) (\<lambda>(e, s1).
     rbind (materialize_all (\<lambda>n. feed (Suc n)) cmd dues s1) (\<lambda>(os, s2).
       Inr (row_get oc_id (ev_aggregate_id e) (control_occurrences s1) # os, s2)))"

definition effective_version_id :: "string \<Rightarrow> db \<Rightarrow> string option" where
  "effective_version_id c s = map_option icv_id (control_effective_version c s)"

definition generate_occurrences ::
  "(nat \<Rightarrow> tick \<times> string) \<Rightarrow> date \<Rightarrow> internal_control \<Rightarrow> control_period option \<Rightarrow> int \<Rightarrow> string \<Rightarrow> string option \<Rightarrow> db \<Rightarrow>
   (control_occurrence option list \<times> db) result option"
where
  "generate_occurrences feed today control period horizon_months actor_type actor_id s =
     (case ic_cadence_interval_months control of
        None \<Rightarrow> Some (Inr ([], s))
      | Some interval \<Rightarrow>
          if ic_cadence_type control \<noteq> Some ''calendar'' \<or> interval = 0 then Some (Inr ([], s))
          else if interval \<le> 0 then Some (Inr ([], s))
          else if (case period of None \<Rightarrow> False | Some p \<Rightarrow> cp_status p \<noteq> Active)
          then Some (Inl (ValueError ''Cannot generate occurrences for a control period that is not active''))
          else
            (case compute_due_dates today control period interval horizon_months s of
               None \<Rightarrow> None
             | Some (Inl e) \<Rightarrow> Some (Inl e)
             | Some (Inr due_dates) \<Rightarrow>
                 Some (materialize_all feed
                   (\<lambda>new_id. materialize_command new_id control (map_option cp_id period)
                      (effective_version_id (ic_id control) s) interval actor_type actor_id) due_dates s)))"

definition occurrence_append :: "tick \<Rightarrow> event_cmd \<Rightarrow> db \<Rightarrow> db result" where
  "occurrence_append t c s = rbind (append_and_project [] t control_occurrence_projectors c s) (\<lambda>(_, s'). Inr s')"

definition record_occurrence_manually ::
  "tick \<Rightarrow> string \<Rightarrow> string \<Rightarrow> string option \<Rightarrow> datetime option \<Rightarrow> string \<Rightarrow> string \<Rightarrow> string option \<Rightarrow> db \<Rightarrow> db result" where
  "record_occurrence_manually t new_id c control_period_id due_at scope_note actor_type actor_id s =
     rbind (row_of ic_id c (internal_controls s)) (\<lambda>control.
       occurrence_append t
         (event_command ''control_occurrence'' new_id ''ControlOccurrenceRecordedManually''
            [(''control_id'', JStr (ic_id control)), (''control_period_id'', jopt control_period_id),
             (''due_at'', jdatetime due_at), (''scope_note'', JStr scope_note),
             (''control_definition_version_id'', jopt (effective_version_id (ic_id control) s))]
            actor_type actor_id) s)"

definition perform_occurrence ::
  "tick \<Rightarrow> string \<Rightarrow> datetime \<Rightarrow> string option \<Rightarrow> string \<Rightarrow> string \<Rightarrow> string \<Rightarrow> string option \<Rightarrow> db \<Rightarrow> db result" where
  "perform_occurrence t occurrence_id occurred_at performed_by_person_id scope_note evidence_note actor_type actor_id s =
     occurrence_append t
       ((event_command ''control_occurrence'' occurrence_id ''ControlOccurrencePerformed''
          [(''performed_by_person_id'', jopt performed_by_person_id), (''scope_note'', JStr scope_note),
           (''evidence_note'', JStr evidence_note)] actor_type actor_id)\<lparr>c_occurred_at := Some occurred_at\<rparr>) s"

definition link_evidence :: "tick \<Rightarrow> string \<Rightarrow> string \<Rightarrow> string \<Rightarrow> string option \<Rightarrow> db \<Rightarrow> db result" where
  "link_evidence t occurrence_id evidence_snapshot_id actor_type actor_id s =
     occurrence_append t
       (event_command ''control_occurrence'' occurrence_id ''ControlOccurrenceEvidenceLinked''
          [(''evidence_snapshot_id'', JStr evidence_snapshot_id)] actor_type actor_id) s"

definition link_evidence_artifact_version ::
  "tick \<Rightarrow> string \<Rightarrow> string \<Rightarrow> string \<Rightarrow> string option \<Rightarrow> db \<Rightarrow> db result" where
  "link_evidence_artifact_version t occurrence_id evidence_artifact_version_id actor_type actor_id s =
     occurrence_append t
       (event_command ''control_occurrence'' occurrence_id ''ControlOccurrenceEvidenceArtifactLinked''
          [(''evidence_artifact_version_id'', JStr evidence_artifact_version_id)] actor_type actor_id) s"

section \<open>Calendar arithmetic\<close>

text \<open>Months are counted from year 0; the calendar of \<open>datetime.date\<close> is months 12 to 119999.\<close>

definition month_number :: "date \<Rightarrow> int" where
  "month_number d = 12 * year d + (month d - 1)"

lemma month_number_bounds: "valid_date d \<Longrightarrow> 12 \<le> month_number d \<and> month_number d < 120000"
  by (auto simp: valid_date_def month_number_def)

lemma month_number_le: "valid_date d \<Longrightarrow> valid_date d' \<Longrightarrow> d \<le> d' \<Longrightarrow> month_number d \<le> month_number d'"
  by (cases d; cases d') (auto simp: date_le_iff month_number_def valid_date_def)

lemma month_number_less: "valid_date d \<Longrightarrow> valid_date d' \<Longrightarrow> month_number d < month_number d' \<Longrightarrow> d < d'"
  using month_number_le [of d' d] by (meson linorder_not_less)

lemma add_months_eq:
  assumes "valid_date d"
  shows "add_months d n =
     (let y = (month_number d + n) div 12; m = (month_number d + n) mod 12 + 1
      in mk_date y m (min (day d) (monthrange y m)))"
proof -
  have "12 * year d + (month d - 1) + n = (month d - 1 + n) + 12 * year d" by simp
  then have "(month_number d + n) div 12 = year d + (month d - 1 + n) div 12"
    "(month_number d + n) mod 12 = (month d - 1 + n) mod 12"
    unfolding month_number_def by (simp_all only: div_mult_self1 mod_mult_self1) simp_all
  then show ?thesis by (simp add: add_months_def Let_def)
qed

lemma add_months_Inr_iff:
  assumes v: "valid_date d"
  shows "add_months d n = Inr d' \<longleftrightarrow>
    valid_date d' \<and> month_number d' = month_number d + n \<and> day d' = min (day d) (monthrange (year d') (month d'))"
proof
  let ?k = "month_number d + n"
  assume "add_months d n = Inr d'"
  then have "d' = Date (?k div 12) (?k mod 12 + 1) (min (day d) (monthrange (?k div 12) (?k mod 12 + 1)))" "valid_date d'"
    by (auto simp: add_months_eq [OF v] Let_def)
  then show "valid_date d' \<and> month_number d' = ?k \<and> day d' = min (day d) (monthrange (year d') (month d'))"
    by (simp add: month_number_def)
next
  let ?k = "month_number d + n"
  assume r: "valid_date d' \<and> month_number d' = ?k \<and> day d' = min (day d) (monthrange (year d') (month d'))"
  have "?k = 12 * year d' + (month d' - 1)" "0 \<le> month d' - 1" "month d' - 1 < 12"
    using r by (auto simp: month_number_def valid_date_def)
  then have "?k div 12 = year d'" "?k mod 12 = month d' - 1" by simp_all
  then show "add_months d n = Inr d'"
    using r by (cases d') (simp add: add_months_eq [OF v] Let_def)
qed

lemma add_months_defined:
  assumes v: "valid_date d"
  shows "(\<exists>d'. add_months d n = Inr d') \<longleftrightarrow> 12 \<le> month_number d + n \<and> month_number d + n < 120000"
proof -
  let ?k = "month_number d + n"
  have "1 \<le> min (day d) (monthrange y m) \<and> min (day d) (monthrange y m) \<le> monthrange y m" for y m
    using v monthrange_bounds [of y m] by (auto simp: valid_date_def)
  moreover have "1 \<le> ?k mod 12 + 1 \<and> ?k mod 12 + 1 \<le> 12" by (simp add: pos_mod_bound [THEN zless_imp_add1_zle])
  ultimately have "(\<exists>d'. add_months d n = Inr d') \<longleftrightarrow> 1 \<le> ?k div 12 \<and> ?k div 12 \<le> 9999"
    by (auto simp: add_months_eq [OF v] Let_def valid_date_def)
  also have "\<dots> \<longleftrightarrow> 12 \<le> ?k \<and> ?k < 120000" by linarith
  finally show ?thesis .
qed

text \<open>
  The date a number of months later, without reference to how it is computed: the month is the one
  that the count of months gives, the day is kept unless that month is too short for it, and then
  it is the last of the month.
\<close>

definition months_after :: "int \<Rightarrow> date \<Rightarrow> date \<Rightarrow> bool" where
  "months_after n d d' =
     (valid_date d' \<and> month_number d' = month_number d + n \<and>
      day d' = (if day d \<le> monthrange (year d') (month d') then day d else monthrange (year d') (month d')))"

lemma add_months_after: "valid_date d \<Longrightarrow> add_months d n = Inr d' \<longleftrightarrow> months_after n d d'"
  by (auto simp: add_months_Inr_iff months_after_def min_def)

lemma add_months_later:
  "valid_date d \<Longrightarrow> 0 < n \<Longrightarrow> add_months d n = Inr d' \<Longrightarrow> valid_date d' \<and> d < d'"
  by (auto simp: add_months_Inr_iff intro: month_number_less)

section \<open>The due-date loop\<close>

text \<open>The schedule a loop computes: every interval from the start, until it passes the end.\<close>

fun due_schedule :: "int \<Rightarrow> date \<Rightarrow> date \<Rightarrow> date list \<Rightarrow> bool" where
  "due_schedule interval end_date current [] = (end_date < current)"
| "due_schedule interval end_date current (d # ds) =
     (d = current \<and> current \<le> end_date \<and>
      (\<exists>n. add_months current interval = Inr n \<and> due_schedule interval end_date n ds))"

lemma due_loop_returns:
  assumes "0 < interval" and "valid_date end_date"
  shows "valid_date current \<Longrightarrow> nat (month_number end_date - month_number current + 1) \<le> k \<Longrightarrow>
    \<exists>r. due_dates_loop interval end_date current = Some r \<and>
        (\<forall>ds. r = Inr ds \<longrightarrow> due_schedule interval end_date current ds) \<and>
        (month_number end_date + interval < 120000 \<longrightarrow> \<not> isl r)"
proof (induction k arbitrary: current)
  case 0
  have "\<not> current \<le> end_date" using 0 month_number_le [OF 0(1) assms(2)] by auto
  then show ?case by (subst due_dates_loop.simps) auto
next
  case (Suc k)
  show ?case
  proof (cases "current \<le> end_date")
    case True
    note le = month_number_le [OF Suc.prems(1) assms(2) True]
    show ?thesis
    proof (cases "add_months current interval")
      case (Inl e)
      then have "\<not> month_number end_date + interval < 120000"
        using add_months_defined [OF Suc.prems(1), of interval] month_number_bounds [OF Suc.prems(1)] assms(1) le by auto
      then show ?thesis using Inl True by (subst due_dates_loop.simps) simp
    next
      case (Inr n)
      then have n: "valid_date n" "month_number n = month_number current + interval"
        by (simp_all add: add_months_Inr_iff Suc.prems(1))
      then have "nat (month_number end_date - month_number n + 1) \<le> k" using Suc.prems(2) assms(1) le by linarith
      from Suc.IH [OF n(1) this] obtain r where "due_dates_loop interval end_date n = Some r"
        "\<forall>ds. r = Inr ds \<longrightarrow> due_schedule interval end_date n ds"
        "month_number end_date + interval < 120000 \<longrightarrow> \<not> isl r" by blast
      then show ?thesis using Inr True by (subst due_dates_loop.simps) (cases r; auto)
    qed
  qed (subst due_dates_loop.simps, auto)
qed

lemma due_loop_total:
  "0 < interval \<Longrightarrow> valid_date end_date \<Longrightarrow> valid_date current \<Longrightarrow> \<exists>r. due_dates_loop interval end_date current = Some r"
  using due_loop_returns [OF _ _ _ order_refl] by blast

lemma due_schedule_spec:
  assumes "0 < interval"
  shows "due_schedule interval end_date current ds \<Longrightarrow> valid_date current \<Longrightarrow>
    sorted_wrt (<) ds \<and>
    (\<forall>d\<in>set ds. valid_date d \<and> current \<le> d \<and> d \<le> end_date) \<and>
    (\<forall>i<length ds. month_number (ds ! i) = month_number current + int i * interval)"
proof (induction ds arbitrary: current)
  case (Cons d ds)
  then obtain n where d: "d = current" "current \<le> end_date" and n: "add_months current interval = Inr n"
    and rest: "due_schedule interval end_date n ds" by auto
  have n': "valid_date n" "current < n" "month_number n = month_number current + interval"
    using add_months_later [OF Cons.prems(2) assms n] n by (simp_all add: add_months_Inr_iff Cons.prems(2))
  note ih = Cons.IH [OF rest n'(1)]
  have "month_number ((d # ds) ! i) = month_number current + int i * interval" if "i < length (d # ds)" for i
    using ih that d n'(3) by (cases i) (auto simp: algebra_simps)
  then show ?case using ih d n' Cons.prems(2) by (auto intro: order.trans less_imp_le order.strict_trans2)
qed simp

text \<open>Read without the recursion: where the schedule starts, how it goes on, and where it stops.\<close>

lemma due_schedule_steps:
  assumes "0 < interval"
  shows "due_schedule interval end_date current ds \<Longrightarrow> valid_date current \<Longrightarrow>
    (ds = [] \<longleftrightarrow> end_date < current) \<and> (ds \<noteq> [] \<longrightarrow> hd ds = current) \<and>
    (\<forall>i. Suc i < length ds \<longrightarrow> months_after interval (ds ! i) (ds ! Suc i)) \<and>
    (\<forall>d. ds \<noteq> [] \<longrightarrow> months_after interval (last ds) d \<longrightarrow> end_date < d)"
proof (induction ds arbitrary: current)
  case (Cons d ds)
  then obtain n where d: "d = current" "current \<le> end_date" and n: "months_after interval current n"
    and rest: "due_schedule interval end_date n ds" by (auto simp: add_months_after)
  have "valid_date n" using n by (simp add: months_after_def)
  note ih = Cons.IH [OF rest this]
  have "x = n" if "months_after interval current x" for x
    using n that add_months_after [OF Cons.prems(2)] by (metis Inr_inject)
  moreover have "months_after interval ((d # ds) ! i) ((d # ds) ! Suc i)" if "Suc i < length (d # ds)" for i
    using ih n d(1) that by (cases i; cases ds) auto
  ultimately show ?case using ih d by auto
qed simp

section \<open>The projection contract\<close>

lemma insert_occurrence_Inr:
  "insert_control_occurrence r s = Inr s' \<Longrightarrow> s' = s\<lparr>control_occurrences := control_occurrences s @ [r]\<rparr>"
  by (auto simp: insert_control_occurrence_def split: if_splits)

lemmas occurrence_projector_defs =
  occurrence_project_materialized_def occurrence_project_recorded_manually_def occurrence_project_performed_def
  occurrence_project_evidence_linked_def occurrence_project_evidence_artifact_linked_def

text \<open>
  A projector writes the occurrences and their links only, and of the rest of the database it
  reads the tables its foreign keys point to.
\<close>

definition occurrence_reads :: "db \<Rightarrow> db \<Rightarrow> bool" where
  "occurrence_reads s s' =
     (control_occurrences s' = control_occurrences s \<and>
      control_occurrence_evidence_rows s' = control_occurrence_evidence_rows s \<and>
      control_occurrence_evidence_artifacts s' = control_occurrence_evidence_artifacts s \<and>
      internal_controls s' = internal_controls s \<and> control_periods s' = control_periods s \<and>
      people s' = people s \<and> internal_control_versions s' = internal_control_versions s \<and>
      evidence_snapshots s' = evidence_snapshots s \<and> evidence_artifact_versions s' = evidence_artifact_versions s)"

definition occurrence_writes :: "control_occurrence list \<Rightarrow> control_occurrence_evidence list \<Rightarrow>
    control_occurrence_evidence_artifact list \<Rightarrow> db \<Rightarrow> db" where
  "occurrence_writes os es as s =
     s\<lparr>control_occurrences := os, control_occurrence_evidence_rows := es, control_occurrence_evidence_artifacts := as\<rparr>"

lemma insert_occurrence_frame:
  "insert_control_occurrence r s = Inr s' \<Longrightarrow>
     \<exists>os es as. s' = occurrence_writes os es as s \<and>
       (\<forall>s2. occurrence_reads s s2 \<longrightarrow> insert_control_occurrence r s2 = Inr (occurrence_writes os es as s2))"
  by (intro exI [of _ "control_occurrences s @ [r]"] exI [of _ "control_occurrence_evidence_rows s"]
      exI [of _ "control_occurrence_evidence_artifacts s"])
     (auto simp: insert_control_occurrence_def occurrence_reads_def occurrence_writes_def split: if_splits)

lemma performed_frame:
  "occurrence_project_performed s e = Inr s' \<Longrightarrow>
     \<exists>os es as. s' = occurrence_writes os es as s \<and>
       (\<forall>s2. occurrence_reads s s2 \<longrightarrow> occurrence_project_performed s2 e = Inr (occurrence_writes os es as s2))"
  by (intro exI [of _ "control_occurrences s'"] exI [of _ "control_occurrence_evidence_rows s"]
      exI [of _ "control_occurrence_evidence_artifacts s"])
     (auto simp: occurrence_project_performed_def occurrence_reads_def occurrence_writes_def split: if_splits)

lemma linked_frame:
  "occurrence_project_evidence_linked s e = Inr s' \<Longrightarrow>
     \<exists>os es as. s' = occurrence_writes os es as s \<and>
       (\<forall>s2. occurrence_reads s s2 \<longrightarrow> occurrence_project_evidence_linked s2 e = Inr (occurrence_writes os es as s2))"
  by (intro exI [of _ "control_occurrences s"] exI [of _ "control_occurrence_evidence_rows s'"]
      exI [of _ "control_occurrence_evidence_artifacts s"])
     (auto simp: occurrence_project_evidence_linked_def Let_def occurrence_reads_def occurrence_writes_def split: if_splits)

lemma artifact_linked_frame:
  "occurrence_project_evidence_artifact_linked s e = Inr s' \<Longrightarrow>
     \<exists>os es as. s' = occurrence_writes os es as s \<and>
       (\<forall>s2. occurrence_reads s s2 \<longrightarrow> occurrence_project_evidence_artifact_linked s2 e = Inr (occurrence_writes os es as s2))"
  by (intro exI [of _ "control_occurrences s"] exI [of _ "control_occurrence_evidence_rows s"]
      exI [of _ "control_occurrence_evidence_artifacts s'"])
     (auto simp: occurrence_project_evidence_artifact_linked_def Let_def occurrence_reads_def occurrence_writes_def split: if_splits)

lemma materialized_frame:
  assumes "occurrence_project_materialized s e = Inr s'"
  shows "\<exists>os es as. s' = occurrence_writes os es as s \<and>
       (\<forall>s2. occurrence_reads s s2 \<longrightarrow> occurrence_project_materialized s2 e = Inr (occurrence_writes os es as s2))"
proof -
  obtain r where r: "insert_control_occurrence r s = Inr s'"
    "\<And>s2. occurrence_project_materialized s2 e = insert_control_occurrence r s2"
    using assms by (auto simp: occurrence_project_materialized_def)
  then show ?thesis using insert_occurrence_frame [OF r(1)] by simp
qed

lemma recorded_frame:
  assumes "occurrence_project_recorded_manually s e = Inr s'"
  shows "\<exists>os es as. s' = occurrence_writes os es as s \<and>
       (\<forall>s2. occurrence_reads s s2 \<longrightarrow> occurrence_project_recorded_manually s2 e = Inr (occurrence_writes os es as s2))"
proof -
  obtain r where r: "insert_control_occurrence r s = Inr s'"
    "\<And>s2. occurrence_project_recorded_manually s2 e = insert_control_occurrence r s2"
    using assms by (auto simp: occurrence_project_recorded_manually_def)
  then show ?thesis using insert_occurrence_frame [OF r(1)] by simp
qed

lemma occurrence_projector_frame:
  assumes "control_occurrence_projectors k = Some p" and "p s e = Inr s'"
  obtains os es as where "s' = occurrence_writes os es as s"
    and "\<And>s2. occurrence_reads s s2 \<Longrightarrow> p s2 e = Inr (occurrence_writes os es as s2)"
proof -
  have "\<exists>os es as. s' = occurrence_writes os es as s \<and>
      (\<forall>s2. occurrence_reads s s2 \<longrightarrow> p s2 e = Inr (occurrence_writes os es as s2))"
    using assms materialized_frame recorded_frame performed_frame linked_frame artifact_linked_frame
    unfolding control_occurrence_projectors_def by (simp split: if_splits)
  then show ?thesis using that by blast
qed

interpretation occurrence: projection control_occurrence_projectors "''control_occurrence''" clear_control_occurrences
proof
  show "clear_control_occurrences (s\<lparr>domain_events := es\<rparr>) = (clear_control_occurrences s)\<lparr>domain_events := es\<rparr>"
    for s es by (simp add: clear_control_occurrences_def)
  show "p (s\<lparr>domain_events := es\<rparr>) e = Inr (s'\<lparr>domain_events := es\<rparr>)"
    if p: "control_occurrence_projectors k = Some p" "p s e = Inr s'" for k p s e s' es
    by (rule occurrence_projector_frame [OF p]) (simp add: occurrence_reads_def occurrence_writes_def)
  show "clear_control_occurrences s' = clear_control_occurrences s"
    if p: "control_occurrence_projectors k = Some p" "p s e = Inr s'" for k p s e s'
    by (rule occurrence_projector_frame [OF p]) (simp add: occurrence_writes_def clear_control_occurrences_def)
qed

section \<open>Generation\<close>

text \<open>Events stay in the table while later due dates are materialized.\<close>

lemma occurrence_append_extends:
  assumes "append_and_project [] t control_occurrence_projectors c s = Inr (e, s')"
  shows "\<exists>zs. domain_events s' = domain_events s @ zs"
    and "c_idempotency_key c = Some key \<Longrightarrow> lookup_key (domain_events s') (Some key) = Some e"
proof -
  obtain created s1 where a: "append_event_with_created_flag [] t c s = Inr (e, created, s1)"
    and s': "if created then run_projector control_occurrence_projectors s1 e = Inr s' else s' = s1"
    using assms by (auto simp: append_and_project_def split: if_splits)
  have ev: "domain_events s' = domain_events s1"
    using s' occurrence.run_keeps_events by (auto split: if_splits)
  then show "\<exists>zs. domain_events s' = domain_events s @ zs" using append_flag_extends [OF a] by auto
  show "c_idempotency_key c = Some key \<Longrightarrow> lookup_key (domain_events s') (Some key) = Some e"
    using append_flag_records_key [OF a] by (simp add: ev)
qed

lemma materialize_all_extends:
  "materialize_all feed cmd dues s = Inr (os, s') \<Longrightarrow> \<exists>zs. domain_events s' = domain_events s @ zs"
proof (induction dues arbitrary: feed s os)
  case (Cons due dues)
  obtain e s1 os1 where a: "append_and_project [] (fst (feed 0)) control_occurrence_projectors
      (cmd (snd (feed 0)) due) s = Inr (e, s1)"
    and rest: "materialize_all (\<lambda>n. feed (Suc n)) cmd dues s1 = Inr (os1, s')"
    using Cons.prems by auto
  show ?case using occurrence_append_extends(1) [OF a] Cons.IH [OF rest] by auto
qed simp

lemma materialize_all_again:
  assumes "\<And>due. due \<in> set dues \<Longrightarrow> \<exists>e. lookup_key (domain_events s) (Some (key due)) = Some e"
    and "\<And>new_id due. c_idempotency_key (cmd new_id due) = Some (key due)"
  shows "\<exists>os. materialize_all feed cmd dues s = Inr (os, s) \<and> length os = length dues"
  using assms(1)
proof (induction dues arbitrary: feed)
  case (Cons due dues)
  obtain e where "lookup_key (domain_events s) (Some (key due)) = Some e" using Cons.prems by auto
  then have "append_and_project [] (fst (feed 0)) control_occurrence_projectors (cmd (snd (feed 0)) due) s = Inr (e, s)"
    by (intro append_known_key) (simp add: assms(2))
  then show ?case using Cons.IH [of "\<lambda>n. feed (Suc n)"] Cons.prems by auto
qed simp

lemma materialize_all_keys:
  assumes "\<And>new_id due. c_idempotency_key (cmd new_id due) = Some (key due)"
  shows "materialize_all feed cmd dues s = Inr (os, s') \<Longrightarrow>
     length os = length dues \<and> (\<forall>due\<in>set dues. \<exists>e. lookup_key (domain_events s') (Some (key due)) = Some e)"
proof (induction dues arbitrary: feed s os)
  case (Cons due dues)
  obtain e s1 os1 where a: "append_and_project [] (fst (feed 0)) control_occurrence_projectors
      (cmd (snd (feed 0)) due) s = Inr (e, s1)"
    and rest: "materialize_all (\<lambda>n. feed (Suc n)) cmd dues s1 = Inr (os1, s')" and os: "length os = Suc (length os1)"
    using Cons.prems by auto
  have "lookup_key (domain_events s1) (Some (key due)) = Some e"
    using occurrence_append_extends(2) [OF a] assms by blast
  moreover obtain zs where "domain_events s' = domain_events s1 @ zs" using materialize_all_extends [OF rest] by blast
  ultimately show ?case using Cons.IH [OF rest] os by (auto simp: lookup_key_append)
qed simp

lemma materialize_command_simps [simp]:
  "c_idempotency_key (materialize_command n c p v i at ai due) = Some (materialize_key (ic_id c) p due)"
  "c_aggregate_type (materialize_command n c p v i at ai due) = ''control_occurrence''"
  "c_aggregate_id (materialize_command n c p v i at ai due) = n"
  by (simp_all add: materialize_command_def)

section \<open>Requests keep the tables in sync with the events\<close>

datatype occurrence_request =
    Generate_request "nat \<Rightarrow> tick \<times> string" datetime date string "string option" int string "string option"
  | Record_request tick string string "string option" "datetime option" string string "string option"
  | Perform_request tick string datetime "string option" string string string "string option"
  | Link_request tick string string string "string option"
  | Link_artifact_request tick string string string "string option"

text \<open>The caller's lookup of the control and the period, then the command.\<close>

definition find_period :: "string option \<Rightarrow> db \<Rightarrow> control_period option result" where
  "find_period p s =
     (case p of None \<Rightarrow> Inr None
      | Some k \<Rightarrow> rbind (row_of cp_id k (control_periods s)) (\<lambda>r. Inr (Some r)))"

fun occurrence_exec :: "occurrence_request \<Rightarrow> db \<Rightarrow> db result" where
  "occurrence_exec (Generate_request feed _ today c p horizon a i) s =
     rbind (row_of ic_id c (internal_controls s)) (\<lambda>control.
     rbind (find_period p s) (\<lambda>period.
       case generate_occurrences feed today control period horizon a i s of
         None \<Rightarrow> Inl RuntimeError | Some r \<Rightarrow> rbind r (\<lambda>(_, s'). Inr s')))"
| "occurrence_exec (Record_request t new_id c p due note a i) s = record_occurrence_manually t new_id c p due note a i s"
| "occurrence_exec (Perform_request t occ at by scope ev a i) s = perform_occurrence t occ at by scope ev a i s"
| "occurrence_exec (Link_request t occ snap a i) s = link_evidence t occ snap a i s"
| "occurrence_exec (Link_artifact_request t occ ver a i) s = link_evidence_artifact_version t occ ver a i s"

fun occurrence_starts :: "occurrence_request \<Rightarrow> datetime" where
  "occurrence_starts (Generate_request feed _ _ _ _ _ _ _) = t_now (fst (feed 0))"
| "occurrence_starts (Record_request t _ _ _ _ _ _ _) = t_now t"
| "occurrence_starts (Perform_request t _ _ _ _ _ _ _) = t_now t"
| "occurrence_starts (Link_request t _ _ _ _) = t_now t"
| "occurrence_starts (Link_artifact_request t _ _ _ _) = t_now t"

fun occurrence_ends :: "occurrence_request \<Rightarrow> datetime" where
  "occurrence_ends (Generate_request _ until _ _ _ _ _ _) = until"
| "occurrence_ends r = occurrence_starts r"

definition increasing_until :: "(nat \<Rightarrow> tick \<times> string) \<Rightarrow> datetime \<Rightarrow> bool" where
  "increasing_until feed until =
     ((\<forall>n. t_now (fst (feed n)) < t_now (fst (feed (Suc n)))) \<and> (\<forall>n. t_now (fst (feed n)) \<le> until))"

fun occurrence_ticking :: "occurrence_request \<Rightarrow> bool" where
  "occurrence_ticking (Generate_request feed until _ _ _ _ _ _) = increasing_until feed until"
| "occurrence_ticking _ = True"

lemma recorded_until:
  assumes "recorded_by at seen es" and "seen < t_now (fst (feed 0))" and "increasing_until feed until"
  shows "recorded_by at until es"
proof -
  have "seen \<le> until" using assms(2,3) by (auto simp: increasing_until_def intro: order.trans less_imp_le)
  then show ?thesis using assms(1) recorded_by_mono by blast
qed

lemma materialize_all_sync:
  "materialize_all feed cmd dues s = Inr (os, s') \<Longrightarrow>
     (\<And>n d. c_aggregate_type (cmd n d) = ''control_occurrence'') \<Longrightarrow>
     in_sync control_occurrence_projectors ''control_occurrence'' clear_control_occurrences s \<Longrightarrow>
     recorded_by ''control_occurrence'' seen (domain_events s) \<Longrightarrow> seen < t_now (fst (feed 0)) \<Longrightarrow>
     increasing_until feed until \<Longrightarrow>
     in_sync control_occurrence_projectors ''control_occurrence'' clear_control_occurrences s' \<and>
     recorded_by ''control_occurrence'' until (domain_events s')"
proof (induction dues arbitrary: feed s os seen)
  case Nil
  then show ?case using recorded_until by auto
next
  case (Cons due dues)
  obtain e s1 os1 where a: "append_and_project [] (fst (feed 0)) control_occurrence_projectors
      (cmd (snd (feed 0)) due) s = Inr (e, s1)"
    and rest: "materialize_all (\<lambda>n. feed (Suc n)) cmd dues s1 = Inr (os1, s')"
    using Cons.prems(1) by auto
  have "in_sync control_occurrence_projectors ''control_occurrence'' clear_control_occurrences s1 \<and>
      recorded_by ''control_occurrence'' (t_now (fst (feed 0))) (domain_events s1)"
    by (rule occurrence.sync_append [OF Cons.prems(3-5) a Cons.prems(2)])
  then show ?case using Cons.IH [OF rest Cons.prems(2)] Cons.prems(6) by (auto simp: increasing_until_def)
qed

lemma generate_sync:
  assumes ok: "generate_occurrences feed today control period horizon a i s = Some (Inr (os, s'))"
    and sync: "in_sync control_occurrence_projectors ''control_occurrence'' clear_control_occurrences s"
    and rec: "recorded_by ''control_occurrence'' seen (domain_events s)" "seen < t_now (fst (feed 0))"
    and clock: "increasing_until feed until"
  shows "in_sync control_occurrence_projectors ''control_occurrence'' clear_control_occurrences s' \<and>
         recorded_by ''control_occurrence'' until (domain_events s')"
proof -
  consider "s' = s" | interval dues where "materialize_all feed (\<lambda>new_id. materialize_command new_id control
      (map_option cp_id period) (effective_version_id (ic_id control) s) interval a i) dues s = Inr (os, s')"
    using ok by (auto simp: generate_occurrences_def split: option.splits if_splits sum.splits)
  then show ?thesis
  proof cases
    case 1
    then show ?thesis using sync recorded_until [OF rec clock] by simp
  next
    case 2
    show ?thesis by (rule materialize_all_sync [OF 2 _ sync rec clock]) simp
  qed
qed

lemma occurrence_append_sync:
  "in_sync control_occurrence_projectors ''control_occurrence'' clear_control_occurrences s \<Longrightarrow>
     recorded_by ''control_occurrence'' seen (domain_events s) \<Longrightarrow> seen < t_now t \<Longrightarrow>
     occurrence_append t c s = Inr s' \<Longrightarrow> c_aggregate_type c = ''control_occurrence'' \<Longrightarrow>
     in_sync control_occurrence_projectors ''control_occurrence'' clear_control_occurrences s' \<and>
     recorded_by ''control_occurrence'' (t_now t) (domain_events s')"
  by (auto simp: occurrence_append_def dest: occurrence.sync_append)

lemma occurrence_request_sync:
  assumes sync: "in_sync control_occurrence_projectors ''control_occurrence'' clear_control_occurrences s"
    and rec: "recorded_by ''control_occurrence'' seen (domain_events s)"
    and clock: "seen < occurrence_starts r" "occurrence_ticking r"
    and ok: "occurrence_exec r s = Inr s'"
  shows "in_sync control_occurrence_projectors ''control_occurrence'' clear_control_occurrences s' \<and>
         recorded_by ''control_occurrence'' (occurrence_ends r) (domain_events s')"
proof (cases r)
  case (Generate_request feed until today c p horizon a i)
  then show ?thesis using ok clock generate_sync [OF _ sync rec]
    by (fastforce split: option.splits)
qed (use ok clock occurrence_append_sync [OF sync rec] in
    \<open>auto simp: record_occurrence_manually_def perform_occurrence_def link_evidence_def link_evidence_artifact_version_def\<close>)

definition no_population_reference :: "db \<Rightarrow> bool" where
  "no_population_reference s =
     list_all (\<lambda>i. \<not> has_row oc_id (ti_control_occurrence_id i) (control_occurrences s)) (control_test_population_items s)"

interpretation occurrence_domain: projected_domain control_occurrence_projectors "''control_occurrence''"
  clear_control_occurrences occurrence_exec occurrence_starts occurrence_ends occurrence_ticking
  reset_control_occurrences no_population_reference "\<lambda>s. s"
proof
  show "reset_control_occurrences s = Inr (clear_control_occurrences s)" if "no_population_reference s" for s
    using that by (auto simp: reset_control_occurrences_def no_population_reference_def list_all_iff list_ex_iff)
qed (auto dest: occurrence_request_sync)

section \<open>Properties of control operations\<close>

text \<open>
  C8. Due dates. For a positive interval the loop ends, and as long as the last date and an
  interval more stay inside the calendar it returns the due dates: none exactly when the start is
  after the end; otherwise the start first, each next one the interval later in months, on the same
  day of the month as the one before or, when that month is shorter, on its last day, and nothing
  left out at the end, since one more step would pass it. They are calendar dates within the
  bounds, strictly increasing, and the one at position \<open>i\<close> is in the month \<open>i\<close> intervals after
  the start's.
\<close>

theorem due_dates_correct:
  assumes "0 < interval" and "valid_date start" and "valid_date end_date"
    and "month_number end_date + interval < 120000"
  shows "\<exists>ds. due_dates_loop interval end_date start = Some (Inr ds) \<and>
           (ds = [] \<longleftrightarrow> end_date < start) \<and> (ds \<noteq> [] \<longrightarrow> hd ds = start) \<and>
           (\<forall>i. Suc i < length ds \<longrightarrow> months_after interval (ds ! i) (ds ! Suc i)) \<and>
           (\<forall>d. ds \<noteq> [] \<longrightarrow> months_after interval (last ds) d \<longrightarrow> end_date < d) \<and>
           sorted_wrt (<) ds \<and> (\<forall>d\<in>set ds. valid_date d \<and> start \<le> d \<and> d \<le> end_date) \<and>
           (\<forall>i<length ds. month_number (ds ! i) = month_number start + int i * interval)"
proof -
  obtain r where r: "due_dates_loop interval end_date start = Some r" "\<not> isl r"
    "\<forall>ds. r = Inr ds \<longrightarrow> due_schedule interval end_date start ds"
    using due_loop_returns [OF assms(1,3,2) order_refl] assms(4) by blast
  then obtain ds where ds: "r = Inr ds" "due_schedule interval end_date start ds" by (cases r) auto
  show ?thesis
    using r(1) ds(1) due_schedule_steps [OF assms(1) ds(2) assms(2)] due_schedule_spec [OF assms(1) ds(2) assms(2)]
    by blast
qed

lemma due_dates_correct_witness:
  "\<exists>ds. due_dates_loop 1 (Date 2026 4 30) (Date 2026 1 31) = Some (Inr ds) \<and>
        ds \<noteq> [] \<and> hd ds = Date 2026 1 31 \<and> sorted_wrt (<) ds"
proof -
  have "valid_date (Date 2026 1 31)" "valid_date (Date 2026 4 30)" "month_number (Date 2026 4 30) + 1 < 120000"
    "\<not> Date 2026 4 30 < Date 2026 1 31"
    by (simp_all add: valid_date_def monthrange_def month_number_def not_less date_le_iff)
  then show ?thesis using due_dates_correct [of 1 "Date 2026 1 31" "Date 2026 4 30"] by auto
qed

text \<open>
  Month ends drift. The clamped day is carried into the next step, so a monthly schedule
  that starts on 31 January is due on the 28th from February on, never again on a 31st.
\<close>

theorem month_end_drift:
  "due_dates_loop 1 (Date 2026 5 31) (Date 2026 1 31) =
     Some (Inr [Date 2026 1 31, Date 2026 2 28, Date 2026 3 28, Date 2026 4 28, Date 2026 5 28])"
  by (simp add: due_dates_loop.simps add_months_def Let_def mk_date_def valid_date_def monthrange_def is_leap_def
      date_le_iff)

text \<open>
  C9. Generation always returns. Whatever cadence a control carries, \<open>generate_occurrences\<close> does
  not loop for ever, provided that the dates it starts from are calendar dates.
\<close>

theorem generate_terminates:
  assumes "valid_date today" and "\<And>p. period = Some p \<Longrightarrow> valid_date (cp_starts_on p) \<and> valid_date (cp_ends_on p)"
    and "list_all (\<lambda>r. \<forall>t. oc_due_at r = Some t \<longrightarrow> valid_date (dt_date t)) (control_occurrences s)"
  shows "\<exists>r. generate_occurrences feed today control period horizon a i s = Some r"
proof -
  have last: "valid_date (dt_date t)" if "last_due c s = Some t" for c t
  proof -
    let ?ds = "List.map_filter oc_due_at (filter (\<lambda>r. oc_control_id r = c \<and> oc_control_period_id r = None) (control_occurrences s))"
    have "?ds \<noteq> []" "t = Max (set ?ds)" using that by (auto simp: last_due_def Let_def split: if_splits)
    then have "t \<in> set ?ds" by simp
    then show ?thesis using assms(3) by (auto simp: List.map_filter_def list_all_iff)
  qed
  have "\<exists>r. compute_due_dates today control period interval horizon s = Some r" if "0 < interval" for interval
  proof (cases period)
    case None
    have cur: "valid_date cur" if "(case last_due (ic_id control) s of Some d \<Rightarrow> add_months (dt_date d) interval
        | None \<Rightarrow> Inr today) = Inr cur" for cur
      using that assms(1) last by (auto simp: add_months_Inr_iff split: option.splits)
    have hor: "valid_date h" if "add_months today horizon = Inr h" for h
      using that assms(1) by (simp add: add_months_Inr_iff)
    show ?thesis
      using None cur hor due_loop_total [OF that] by (auto simp: compute_due_dates_def split: sum.splits)
  next
    case (Some p)
    then show ?thesis using due_loop_total [OF that] assms(2) by (simp add: compute_due_dates_def)
  qed
  then show ?thesis
    by (auto simp: generate_occurrences_def split: option.splits sum.splits) (metis linorder_not_less option.discI)+
qed

lemma generate_terminates_witness:
  "\<exists>r. generate_occurrences (\<lambda>n. (demo_tick (int n), map (\<lambda>_. CHR ''o'') [1..int n])) (Date 2026 1 31) demo_control
     None 12 ''user'' None demo_control_db = Some r"
  by (rule generate_terminates) (simp_all add: valid_date_def monthrange_def demo_control_db_def empty_db_def)

text \<open>
  C10. Generation for a period is idempotent. When it has returned once, calling it again for
  the same control and period, at any later time and with whatever new ids, appends no event
  and changes no table, although it reports an occurrence for the same number of due dates.
\<close>

theorem generate_idempotent:
  assumes "generate_occurrences feed today control (Some p) horizon a i s = Some (Inr (os, s'))"
  shows "\<exists>os'. generate_occurrences feed' today' control (Some p) horizon' a' i' s' = Some (Inr (os', s')) \<and>
               length os' = length os"
proof (cases "ic_cadence_interval_months control")
  case None
  then show ?thesis using assms by (simp add: generate_occurrences_def)
next
  case (Some interval)
  show ?thesis
  proof (cases "ic_cadence_type control \<noteq> Some ''calendar'' \<or> interval \<le> 0")
    case True
    then show ?thesis using assms Some by (auto simp: generate_occurrences_def)
  next
    case False
    obtain dues where dues: "due_dates_loop interval (cp_ends_on p) (cp_starts_on p) = Some (Inr dues)" "cp_status p = Active"
      and all: "materialize_all feed (\<lambda>new_id. materialize_command new_id control (Some (cp_id p))
          (effective_version_id (ic_id control) s) interval a i) dues s = Inr (os, s')"
      using assms Some False
      by (auto simp: generate_occurrences_def compute_due_dates_def split: if_splits option.splits sum.splits)
    note keys = materialize_all_keys [OF materialize_command_simps(1) all]
    obtain os' where "materialize_all feed' (\<lambda>new_id. materialize_command new_id control (Some (cp_id p))
          (effective_version_id (ic_id control) s') interval a' i') dues s' = Inr (os', s')" "length os' = length dues"
      using materialize_all_again [of dues s' "materialize_key (ic_id control) (Some (cp_id p))"] keys by force
    then show ?thesis using dues keys Some False by (simp add: generate_occurrences_def compute_due_dates_def)
  qed
qed

definition demo_period :: control_period where
  "demo_period = \<lparr>cp_id = ''q1'', cp_name = ''Q1'', cp_starts_on = Date 2026 1 31, cp_ends_on = Date 2026 3 31,
     cp_status = Active, cp_closed_at = None\<rparr>"

definition demo_operation_db :: db where
  "demo_operation_db = demo_control_db\<lparr>control_periods := [demo_period]\<rparr>"

definition demo_feed :: "int \<Rightarrow> nat \<Rightarrow> tick \<times> string" where
  "demo_feed k n = (demo_tick (k + int n), map (\<lambda>_. CHR ''o'') [1..k + int n])"

lemma demo_generate:
  "case generate_occurrences (demo_feed 1) (Date 2026 1 1) demo_control (Some demo_period) 12 ''user'' None demo_operation_db of
     Some (Inr (os, s)) \<Rightarrow> length os = 3 \<and> length (control_occurrences s) = 3 | _ \<Rightarrow> False"
  by code_simp

lemma generate_idempotent_witness:
  "\<exists>os s' os'. generate_occurrences (demo_feed 1) (Date 2026 1 1) demo_control (Some demo_period) 12 ''user'' None demo_operation_db =
        Some (Inr (os, s')) \<and> length os = 3 \<and>
      generate_occurrences (demo_feed 9) (Date 2026 2 1) demo_control (Some demo_period) 12 ''user'' None s' =
        Some (Inr (os', s')) \<and> length os' = 3"
proof -
  obtain os s' where g: "generate_occurrences (demo_feed 1) (Date 2026 1 1) demo_control (Some demo_period) 12 ''user'' None
      demo_operation_db = Some (Inr (os, s'))" "length os = 3"
    using demo_generate by (auto split: option.splits sum.splits)
  with generate_idempotent [OF g(1), of "demo_feed 9" "Date 2026 2 1" 12 "''user''" None] show ?thesis by auto
qed

text \<open>
  The operational history is a projection. After any history of generations, manual
  records, performance claims and evidence links under a clock that moves forward, the rebuild
  of the occurrences gives back exactly the same database, as long as no test population names
  an occurrence.
\<close>

theorem occurrence_rebuild_identity:
  assumes "in_sync control_occurrence_projectors ''control_occurrence'' clear_control_occurrences s"
    and "recorded_by ''control_occurrence'' seen (domain_events s)"
    and "clock_runs occurrence_starts occurrence_ends occurrence_ticking seen rs"
    and "rfold (\<lambda>s r. occurrence_exec r s) rs s = Inr s'"
    and "no_population_reference s'"
  shows "rebuild_control_occurrence_projection s' = Inr s'"
  unfolding rebuild_control_occurrence_projection_def
  by (rule occurrence_domain.rebuild_after_history [OF assms])

definition demo_occurrence_requests :: "occurrence_request list" where
  "demo_occurrence_requests =
     [Generate_request (demo_feed 1) (Datetime (Date 2026 8 21) 0) (Date 2026 1 1) ''c'' (Some ''q1'') 12 ''user'' None,
      Perform_request \<lparr>t_now = Datetime (Date 2026 8 22) 0, t_id = ''p1''\<rparr> ''o'' noon None ''all hosts'' ''log'' ''user'' None]"

lemma demo_feed_increasing: "increasing_until (demo_feed 1) (Datetime (Date 2026 8 21) 0)"
  by (auto simp: increasing_until_def demo_feed_def demo_tick_def less_datetime_def less_eq_datetime_def datetime_key_def date_less_iff less_prod_def less_eq_prod_def)

lemma demo_occurrence_history:
  "case rfold (\<lambda>s r. occurrence_exec r s) demo_occurrence_requests demo_operation_db of
     Inl _ \<Rightarrow> False
   | Inr s \<Rightarrow> map_option oc_performed_at (row_get oc_id ''o'' (control_occurrences s)) = Some (Some noon) \<and> no_population_reference s"
  by code_simp

lemma occurrence_rebuild_identity_witness:
  "\<exists>s'. rfold (\<lambda>s r. occurrence_exec r s) demo_occurrence_requests demo_operation_db = Inr s' \<and>
        rebuild_control_occurrence_projection s' = Inr s'"
proof -
  let ?t0 = "Datetime (Date 2026 8 20) 0"
  have sync: "in_sync control_occurrence_projectors ''control_occurrence'' clear_control_occurrences demo_operation_db"
    by (simp add: in_sync_def demo_operation_db_def demo_control_db_def empty_db_def clear_control_occurrences_def events_of_def)
  have rec: "recorded_by ''control_occurrence'' ?t0 (domain_events demo_operation_db)"
    by (simp add: recorded_by_def demo_operation_db_def demo_control_db_def empty_db_def)
  have "?t0 < occurrence_starts (hd demo_occurrence_requests) \<and>
      Datetime (Date 2026 8 21) 0 < occurrence_starts (last demo_occurrence_requests)" by code_simp
  then have clock: "clock_runs occurrence_starts occurrence_ends occurrence_ticking ?t0 demo_occurrence_requests"
    using demo_feed_increasing by (simp add: demo_occurrence_requests_def)
  obtain s' where run: "rfold (\<lambda>s r. occurrence_exec r s) demo_occurrence_requests demo_operation_db = Inr s'"
    "no_population_reference s'"
    using demo_occurrence_history by (auto split: sum.splits)
  then show ?thesis using occurrence_rebuild_identity [OF sync rec clock run] by blast
qed

text \<open>
  A rebuild with test populations. As soon as one item of a test population names an
  existing occurrence, the documented recovery path of the occurrences fails with the
  database's foreign-key error, whatever the history.
\<close>

theorem occurrence_rebuild_blocked:
  assumes "i \<in> set (control_test_population_items s)"
    and "has_row oc_id (ti_control_occurrence_id i) (control_occurrences s)"
  shows "rebuild_control_occurrence_projection s = Inl IntegrityError"
  using assms by (auto simp: rebuild_control_occurrence_projection_def rebuild_projection_def
      reset_control_occurrences_def list_ex_iff)

lemma occurrence_rebuild_blocked_witness:
  "\<exists>s'. rfold (\<lambda>s r. occurrence_exec r s) demo_occurrence_requests demo_operation_db = Inr s' \<and>
     rebuild_control_occurrence_projection
       (s'\<lparr>control_test_population_items :=
            [\<lparr>ti_id = ''i'', ti_population_id = ''pop'', ti_control_occurrence_id = ''o''\<rparr>]\<rparr>) = Inl IntegrityError"
proof -
  obtain s' where run: "rfold (\<lambda>s r. occurrence_exec r s) demo_occurrence_requests demo_operation_db = Inr s'"
    "map_option oc_performed_at (row_get oc_id ''o'' (control_occurrences s')) = Some (Some noon)"
    using demo_occurrence_history by (auto split: sum.splits)
  let ?i = "\<lparr>ti_id = ''i'', ti_population_id = ''pop'', ti_control_occurrence_id = ''o''\<rparr>"
  have "has_row oc_id ''o'' (control_occurrences s')" using run(2) by (auto intro: row_get_Some_has_row)
  then show ?thesis using run(1) occurrence_rebuild_blocked [of ?i "s'\<lparr>control_test_population_items := [?i]\<rparr>"] by simp
qed

end
