(* ===== verification/Control_Tests.thy ===== *)
theory Control_Tests
  imports Occurrences
begin

text \<open>
  \<open>src/app/control_tests.py\<close>: frozen populations and samples of occurrences (plain rows), and
  the tests themselves (a projection over the \<open>control_test\<close> events). A relationship such as
  \<open>population.items\<close> is the query over the foreign key.
\<close>

section \<open>Populations and samples\<close>

definition population_items :: "string \<Rightarrow> db \<Rightarrow> control_test_population_item list" where
  "population_items p s = filter (\<lambda>i. ti_population_id i = p) (control_test_population_items s)"

definition sample_items :: "string \<Rightarrow> db \<Rightarrow> control_test_sample_item list" where
  "sample_items k s = filter (\<lambda>i. si_sample_id i = k) (control_test_sample_items s)"

definition add_population :: "control_test_population \<Rightarrow> db \<Rightarrow> db result" where
  "add_population r s =
     (if has_row tp_id (tp_id r) (control_test_populations s) \<or>
         \<not> has_row ic_id (tp_control_id r) (internal_controls s) \<or>
         \<not> fk_ok cp_id (tp_control_period_id r) (control_periods s)
      then Inl IntegrityError
      else Inr (s\<lparr>control_test_populations := control_test_populations s @ [r]\<rparr>))"

definition add_population_item :: "db \<Rightarrow> control_test_population_item \<Rightarrow> db result" where
  "add_population_item s r =
     (if has_row ti_id (ti_id r) (control_test_population_items s) \<or>
         list_ex (\<lambda>x. ti_population_id x = ti_population_id r \<and> ti_control_occurrence_id x = ti_control_occurrence_id r)
           (control_test_population_items s) \<or>
         \<not> has_row tp_id (ti_population_id r) (control_test_populations s) \<or>
         \<not> has_row oc_id (ti_control_occurrence_id r) (control_occurrences s)
      then Inl IntegrityError
      else Inr (s\<lparr>control_test_population_items := control_test_population_items s @ [r]\<rparr>))"

text \<open>The occurrences a population is frozen from, in table order.\<close>

definition population_basis :: "string \<Rightarrow> string option \<Rightarrow> db \<Rightarrow> control_occurrence list" where
  "population_basis c period s =
     filter (\<lambda>r. oc_control_id r = c \<and> (period = None \<or> oc_control_period_id r = period)) (control_occurrences s)"

definition freeze_population ::
  "string \<Rightarrow> (nat \<Rightarrow> string) \<Rightarrow> string \<Rightarrow> string option \<Rightarrow> string \<Rightarrow> string \<Rightarrow> string \<Rightarrow> db \<Rightarrow> db result" where
  "freeze_population pop_id item_id c period description criteria_note actor s =
     (let occurrences = population_basis c period s
      in rbind (add_population
           \<lparr>tp_id = pop_id, tp_control_id = c, tp_control_period_id = period, tp_description = description,
            tp_criteria_note = criteria_note, tp_created_by = actor\<rparr> s)
         (rfold add_population_item
           (map (\<lambda>(n, r). \<lparr>ti_id = item_id n, ti_population_id = pop_id, ti_control_occurrence_id = oc_id r\<rparr>)
              (enumerate 0 occurrences))))"

definition add_sample :: "control_test_sample \<Rightarrow> db \<Rightarrow> db result" where
  "add_sample r s =
     (if has_row ts_id (ts_id r) (control_test_samples s) \<or>
         \<not> has_row tp_id (ts_population_id r) (control_test_populations s)
      then Inl IntegrityError
      else Inr (s\<lparr>control_test_samples := control_test_samples s @ [r]\<rparr>))"

definition add_sample_item :: "db \<Rightarrow> control_test_sample_item \<Rightarrow> db result" where
  "add_sample_item s r =
     (if has_row si_id (si_id r) (control_test_sample_items s) \<or>
         list_ex (\<lambda>x. si_sample_id x = si_sample_id r \<and> si_population_item_id x = si_population_item_id r)
           (control_test_sample_items s) \<or>
         \<not> has_row ts_id (si_sample_id r) (control_test_samples s) \<or>
         \<not> has_row ti_id (si_population_item_id r) (control_test_population_items s)
      then Inl IntegrityError
      else Inr (s\<lparr>control_test_sample_items := control_test_sample_items s @ [r]\<rparr>))"

definition draw_sample ::
  "string \<Rightarrow> (nat \<Rightarrow> string) \<Rightarrow> string \<Rightarrow> string list \<Rightarrow> string \<Rightarrow> string \<Rightarrow> string \<Rightarrow> db \<Rightarrow> db result" where
  "draw_sample sample_id item_id pop population_item_ids selection_method selection_rationale actor s =
     (if population_item_ids = [] then Inl (InvalidControlTestError ''A sample must select at least one population item.'')
      else if \<not> set population_item_ids \<subseteq> ti_id ` set (population_items pop s)
      then Inl (InvalidControlTestError ''do not belong to population'')
      else rbind (add_sample
             \<lparr>ts_id = sample_id, ts_population_id = pop, ts_selection_method = selection_method,
              ts_selection_rationale = selection_rationale, ts_created_by = actor\<rparr> s)
           (rfold add_sample_item
             (map (\<lambda>(n, i). \<lparr>si_id = item_id n, si_sample_id = sample_id, si_population_item_id = i\<rparr>)
                (enumerate 0 population_item_ids))))"

section \<open>Projectors\<close>

definition test_results :: "string list" where
  "test_results = [''no_exceptions'', ''exceptions_noted'']"

definition insert_control_test :: "control_test \<Rightarrow> db \<Rightarrow> db result" where
  "insert_control_test r s =
     (if has_row ct_id (ct_id r) (control_tests s) \<or>
         ct_result r \<notin> set test_results \<or> ct_performed_at r = None \<or>
         \<not> has_row ic_id (ct_control_id r) (internal_controls s) \<or>
         \<not> fk_ok cp_id (ct_control_period_id r) (control_periods s) \<or>
         \<not> fk_ok ts_id (ct_sample_id r) (control_test_samples s) \<or>
         \<not> has_row pe_id (ct_tester_person_id r) (people s) \<or>
         \<not> fk_ok ct_id (ct_retest_of_test_id r) (control_tests s @ [r])
      then Inl IntegrityError
      else Inr (s\<lparr>control_tests := control_tests s @ [r]\<rparr>))"

definition add_test_exception :: "string \<Rightarrow> db \<Rightarrow> json \<Rightarrow> db result" where
  "add_test_exception test s x =
     rbind (opt_str ''sample_item_id'' x) (\<lambda>item.
     rbind (str_or [] ''description'' x) (\<lambda>description.
       if \<not> fk_ok si_id item (control_test_sample_items s) then Inl IntegrityError
       else Inr (s\<lparr>control_test_exceptions := control_test_exceptions s @
         [\<lparr>te_test_id = test, te_sample_item_id = item, te_description = description\<rparr>]\<rparr>)))"

definition test_project_recorded :: "db projector" where
  "test_project_recorded s e =
     rbind (req_str ''control_id'' (ev_payload e)) (\<lambda>control_id.
     rbind (opt_str ''control_period_id'' (ev_payload e)) (\<lambda>control_period_id.
     rbind (opt_str ''sample_id'' (ev_payload e)) (\<lambda>sample_id.
     rbind (str_or [] ''procedure_description'' (ev_payload e)) (\<lambda>procedure_description.
     rbind (req_str ''tester_person_id'' (ev_payload e)) (\<lambda>tester_person_id.
     rbind (rbind (jget ''performed_at'' (ev_payload e)) as_str_opt) (\<lambda>performed_text.
     rbind (parse_iso_datetime performed_text) (\<lambda>performed_at.
     rbind (req_str ''result'' (ev_payload e)) (\<lambda>result.
     rbind (str_or [] ''notes'' (ev_payload e)) (\<lambda>notes.
     rbind (opt_str ''retest_of_test_id'' (ev_payload e)) (\<lambda>retest_of_test_id.
     rbind (rbind (jget_or (JArr []) ''exceptions'' (ev_payload e)) as_arr) (\<lambda>exceptions.
       rbind (insert_control_test
         \<lparr>ct_id = ev_aggregate_id e, ct_control_id = control_id, ct_control_period_id = control_period_id,
          ct_sample_id = sample_id, ct_procedure_description = procedure_description,
          ct_tester_person_id = tester_person_id, ct_performed_at = performed_at, ct_result = result,
          ct_notes = notes, ct_retest_of_test_id = retest_of_test_id, ct_created_at = ev_recorded_at e,
          ct_updated_at = ev_recorded_at e\<rparr> s)
       (rfold (add_test_exception (ev_aggregate_id e)) exceptions))))))))))))"

definition test_project_evidence_linked :: "db projector" where
  "test_project_evidence_linked s e =
     rbind (req_str ''evidence_artifact_version_id'' (ev_payload e)) (\<lambda>version_id.
       let r = \<lparr>ta_test_id = ev_aggregate_id e, ta_evidence_artifact_version_id = version_id\<rparr>
       in if r \<in> set (control_test_evidence_artifacts s) \<or>
             \<not> has_row ct_id (ev_aggregate_id e) (control_tests s) \<or>
             \<not> has_row av_id version_id (evidence_artifact_versions s)
          then Inl IntegrityError
          else Inr (s\<lparr>control_test_evidence_artifacts := control_test_evidence_artifacts s @ [r]\<rparr>))"

definition control_test_projectors :: "string \<rightharpoonup> db projector" where
  "control_test_projectors =
     [''ControlTestRecorded'' \<mapsto> test_project_recorded,
      ''ControlTestEvidenceLinked'' \<mapsto> test_project_evidence_linked]"

definition clear_control_tests :: "db \<Rightarrow> db" where
  "clear_control_tests s =
     s\<lparr>control_test_evidence_artifacts := [], control_test_exceptions := [], control_tests := []\<rparr>"

text \<open>Findings and their retests still point at the tests that the reset deletes.\<close>

definition no_finding_reference :: "db \<Rightarrow> bool" where
  "no_finding_reference s =
     (list_all (\<lambda>f. \<forall>t. fi_source_test_id f = Some t \<longrightarrow> \<not> has_row ct_id t (control_tests s)) (findings s) \<and>
      list_all (\<lambda>x. \<not> has_row ct_id (ft_test_id x) (control_tests s)) (finding_retests s))"

definition reset_control_tests :: "db \<Rightarrow> db result" where
  "reset_control_tests s =
     (if list_ex (\<lambda>f. case fi_source_test_id f of None \<Rightarrow> False | Some t \<Rightarrow> has_row ct_id t (control_tests s)) (findings s) \<or>
         list_ex (\<lambda>x. has_row ct_id (ft_test_id x) (control_tests s)) (finding_retests s)
      then Inl IntegrityError else Inr (clear_control_tests s))"

definition rebuild_control_test_projection :: "db \<Rightarrow> db result" where
  "rebuild_control_test_projection s =
     rebuild_projection control_test_projectors ''control_test'' reset_control_tests s"

section \<open>Commands\<close>

definition test_append :: "tick \<Rightarrow> event_cmd \<Rightarrow> db \<Rightarrow> db result" where
  "test_append t c s = rbind (append_and_project [] t control_test_projectors c s) (\<lambda>(_, s'). Inr s')"

text \<open>One entry of the \<open>exceptions\<close> argument, as the caller builds it.\<close>

record test_exception =
  tx_sample_item_id :: "string option"
  tx_description :: string

definition exception_json :: "test_exception \<Rightarrow> json" where
  "exception_json x = JObj [(''sample_item_id'', jopt (tx_sample_item_id x)), (''description'', JStr (tx_description x))]"

record test_args =
  tt_sample :: "control_test_sample option"
  tt_period :: "control_period option"
  tt_procedure_description :: string
  tt_tester_person_id :: string
  tt_performed_at :: datetime
  tt_result :: string
  tt_notes :: string
  tt_exceptions :: "test_exception list"
  tt_retest_of :: "control_test option"

definition check_sample :: "internal_control \<Rightarrow> test_args \<Rightarrow> db \<Rightarrow> unit result" where
  "check_sample control a s =
     (case tt_sample a of
        None \<Rightarrow> Inr ()
      | Some sample \<Rightarrow>
          rbind (row_of tp_id (ts_population_id sample) (control_test_populations s)) (\<lambda>population.
            if tp_control_id population \<noteq> ic_id control
            then Inl (InvalidControlTestError ''sample was drawn from a population of another control'')
            else if list_ex (\<lambda>x. case tx_sample_item_id x of None \<Rightarrow> False
                    | Some i \<Rightarrow> i \<notin> si_id ` set (sample_items (ts_id sample) s)) (tt_exceptions a)
            then Inl (InvalidControlTestError ''sample_item_id does not belong to sample'')
            else Inr ()))"

definition record_test_payload :: "internal_control \<Rightarrow> test_args \<Rightarrow> (string \<times> json) list" where
  "record_test_payload control a =
     [(''control_id'', JStr (ic_id control)), (''control_period_id'', jopt (map_option cp_id (tt_period a))),
      (''sample_id'', jopt (map_option ts_id (tt_sample a))),
      (''procedure_description'', JStr (tt_procedure_description a)),
      (''tester_person_id'', JStr (tt_tester_person_id a)),
      (''performed_at'', JStr (datetime_isoformat (tt_performed_at a))), (''result'', JStr (tt_result a)),
      (''notes'', JStr (tt_notes a)), (''exceptions'', JArr (map exception_json (tt_exceptions a))),
      (''retest_of_test_id'', jopt (map_option ct_id (tt_retest_of a)))]"

definition record_test ::
  "tick \<Rightarrow> string \<Rightarrow> internal_control \<Rightarrow> test_args \<Rightarrow> string \<Rightarrow> string option \<Rightarrow> db \<Rightarrow> db result" where
  "record_test t new_id control a actor_type actor_id s =
     (if tt_result a \<notin> set test_results then Inl (InvalidControlTestError ''result must be one of TEST_RESULTS'')
      else if tt_exceptions a \<noteq> [] \<and> tt_result a \<noteq> ''exceptions_noted''
      then Inl (InvalidControlTestError ''exceptions were given but result is not exceptions_noted'')
      else rbind (check_sample control a s) (\<lambda>_.
        if (case tt_retest_of a of None \<Rightarrow> False | Some r \<Rightarrow> ct_control_id r \<noteq> ic_id control)
        then Inl (InvalidControlTestError ''retest_of must be a prior test of the same control.'')
        else test_append t
          (event_command ''control_test'' new_id ''ControlTestRecorded'' (record_test_payload control a)
             actor_type actor_id) s))"

definition link_test_evidence :: "tick \<Rightarrow> string \<Rightarrow> string \<Rightarrow> string \<Rightarrow> string option \<Rightarrow> db \<Rightarrow> db result" where
  "link_test_evidence t test evidence_artifact_version_id actor_type actor_id s =
     test_append t
       (event_command ''control_test'' test ''ControlTestEvidenceLinked''
          [(''evidence_artifact_version_id'', JStr evidence_artifact_version_id)] actor_type actor_id) s"

section \<open>The projection contract\<close>

definition tests_reads :: "db \<Rightarrow> db \<Rightarrow> bool" where
  "tests_reads s s' =
     (control_tests s' = control_tests s \<and> control_test_exceptions s' = control_test_exceptions s \<and>
      control_test_evidence_artifacts s' = control_test_evidence_artifacts s \<and>
      internal_controls s' = internal_controls s \<and> control_periods s' = control_periods s \<and>
      control_test_samples s' = control_test_samples s \<and> people s' = people s \<and>
      control_test_sample_items s' = control_test_sample_items s \<and>
      evidence_artifact_versions s' = evidence_artifact_versions s)"

definition tests_writes :: "control_test list \<Rightarrow> control_test_exception list \<Rightarrow> control_test_evidence_artifact list \<Rightarrow> db \<Rightarrow> db" where
  "tests_writes ts xs as s =
     s\<lparr>control_tests := ts, control_test_exceptions := xs, control_test_evidence_artifacts := as\<rparr>"

lemma tests_writes_writes [simp]: "tests_writes a b c (tests_writes a' b' c' s) = tests_writes a b c s"
  by (simp add: tests_writes_def)

lemma tests_reads_writes: "tests_reads s s2 \<Longrightarrow> tests_reads (tests_writes a b c s) (tests_writes a b c s2)"
  by (simp add: tests_reads_def tests_writes_def)

lemma insert_test_frame:
  "insert_control_test r s = Inr s' \<Longrightarrow>
     s' = tests_writes (control_tests s @ [r]) (control_test_exceptions s) (control_test_evidence_artifacts s) s \<and>
     (\<forall>s2. tests_reads s s2 \<longrightarrow> insert_control_test r s2 =
        Inr (tests_writes (control_tests s @ [r]) (control_test_exceptions s) (control_test_evidence_artifacts s) s2))"
  by (auto simp: insert_control_test_def tests_reads_def tests_writes_def split: if_splits)

lemma add_exception_frame:
  assumes "add_test_exception k s x = Inr s'"
  shows "\<exists>ts xs as. s' = tests_writes ts xs as s \<and>
       (\<forall>s2. tests_reads s s2 \<longrightarrow> add_test_exception k s2 x = Inr (tests_writes ts xs as s2))"
proof -
  obtain i d where x: "opt_str ''sample_item_id'' x = Inr i" "str_or [] ''description'' x = Inr d"
    "fk_ok si_id i (control_test_sample_items s)"
    and s': "s' = s\<lparr>control_test_exceptions := control_test_exceptions s @
        [\<lparr>te_test_id = k, te_sample_item_id = i, te_description = d\<rparr>]\<rparr>"
    using assms by (auto simp: add_test_exception_def split: if_splits)
  show ?thesis
    by (intro exI [of _ "control_tests s"] exI [of _ "control_test_exceptions s'"] exI [of _ "control_test_evidence_artifacts s"])
       (simp add: x s' add_test_exception_def tests_reads_def tests_writes_def)
qed

lemma add_exceptions_frame:
  "rfold (add_test_exception k) es s = Inr s' \<Longrightarrow>
     \<exists>ts xs as. s' = tests_writes ts xs as s \<and>
       (\<forall>s2. tests_reads s s2 \<longrightarrow> rfold (add_test_exception k) es s2 = Inr (tests_writes ts xs as s2))"
proof (induction es arbitrary: s)
  case Nil
  then show ?case
    by (intro exI [of _ "control_tests s"] exI [of _ "control_test_exceptions s"] exI [of _ "control_test_evidence_artifacts s"])
       (auto simp: tests_reads_def tests_writes_def)
next
  case (Cons e es)
  then obtain s1 where s1: "add_test_exception k s e = Inr s1" and rest: "rfold (add_test_exception k) es s1 = Inr s'" by auto
  obtain a b c where f1: "s1 = tests_writes a b c s"
    "\<forall>s2. tests_reads s s2 \<longrightarrow> add_test_exception k s2 e = Inr (tests_writes a b c s2)"
    using add_exception_frame [OF s1] by blast
  obtain a' b' c' where f2: "s' = tests_writes a' b' c' s1"
    "\<forall>s2. tests_reads s1 s2 \<longrightarrow> rfold (add_test_exception k) es s2 = Inr (tests_writes a' b' c' s2)"
    using Cons.IH [OF rest] by blast
  show ?case using f1 f2 tests_reads_writes by (intro exI [of _ a'] exI [of _ b'] exI [of _ c']) auto
qed

lemma recorded_test_frame:
  assumes "test_project_recorded s e = Inr s'"
  shows "\<exists>ts xs as. s' = tests_writes ts xs as s \<and>
       (\<forall>s2. tests_reads s s2 \<longrightarrow> test_project_recorded s2 e = Inr (tests_writes ts xs as s2))"
proof -
  obtain r es s1 where eq: "\<And>s2. test_project_recorded s2 e =
      rbind (insert_control_test r s2) (rfold (add_test_exception (ev_aggregate_id e)) es)"
    and s1: "insert_control_test r s = Inr s1" and rest: "rfold (add_test_exception (ev_aggregate_id e)) es s1 = Inr s'"
    using assms by (auto simp: test_project_recorded_def)
  note f1 = insert_test_frame [OF s1]
  obtain a b c where f2: "s' = tests_writes a b c s1"
    "\<forall>s2. tests_reads s1 s2 \<longrightarrow> rfold (add_test_exception (ev_aggregate_id e)) es s2 = Inr (tests_writes a b c s2)"
    using add_exceptions_frame [OF rest] by blast
  show ?thesis using f1 f2 tests_reads_writes by (intro exI [of _ a] exI [of _ b] exI [of _ c]) (auto simp: eq)
qed

lemma test_linked_frame:
  "test_project_evidence_linked s e = Inr s' \<Longrightarrow>
     \<exists>ts xs as. s' = tests_writes ts xs as s \<and>
       (\<forall>s2. tests_reads s s2 \<longrightarrow> test_project_evidence_linked s2 e = Inr (tests_writes ts xs as s2))"
  by (intro exI [of _ "control_tests s"] exI [of _ "control_test_exceptions s"] exI [of _ "control_test_evidence_artifacts s'"])
     (auto simp: test_project_evidence_linked_def Let_def tests_reads_def tests_writes_def split: if_splits)

lemma test_projector_frame:
  assumes "control_test_projectors k = Some p" and "p s e = Inr s'"
  obtains ts xs as where "s' = tests_writes ts xs as s"
    and "\<And>s2. tests_reads s s2 \<Longrightarrow> p s2 e = Inr (tests_writes ts xs as s2)"
proof -
  have "\<exists>ts xs as. s' = tests_writes ts xs as s \<and> (\<forall>s2. tests_reads s s2 \<longrightarrow> p s2 e = Inr (tests_writes ts xs as s2))"
    using assms recorded_test_frame test_linked_frame
    unfolding control_test_projectors_def by (simp split: if_splits)
  then show ?thesis using that by blast
qed

interpretation test: projection control_test_projectors "''control_test''" clear_control_tests
proof
  show "clear_control_tests (s\<lparr>domain_events := es\<rparr>) = (clear_control_tests s)\<lparr>domain_events := es\<rparr>"
    for s es by (simp add: clear_control_tests_def)
  show "p (s\<lparr>domain_events := es\<rparr>) e = Inr (s'\<lparr>domain_events := es\<rparr>)"
    if p: "control_test_projectors k = Some p" "p s e = Inr s'" for k p s e s' es
    by (rule test_projector_frame [OF p]) (simp add: tests_reads_def tests_writes_def)
  show "clear_control_tests s' = clear_control_tests s"
    if p: "control_test_projectors k = Some p" "p s e = Inr s'" for k p s e s'
    by (rule test_projector_frame [OF p]) (simp add: tests_writes_def clear_control_tests_def)
qed

section \<open>Requests\<close>

text \<open>A request names rows by id; the caller looks them up before it calls the domain function.\<close>

datatype test_request =
    Freeze string "nat \<Rightarrow> string" string "string option" string string string
  | Draw string "nat \<Rightarrow> string" string "string list" string string string
  | Record_test tick string string "string option" "string option" "string option" test_args string "string option"
  | Link_test tick string string string "string option"

definition lookup_opt :: "('r \<Rightarrow> string) \<Rightarrow> string option \<Rightarrow> 'r list \<Rightarrow> 'r option result" where
  "lookup_opt key k rows =
     (case k of None \<Rightarrow> Inr None | Some i \<Rightarrow> rbind (row_of key i rows) (\<lambda>r. Inr (Some r)))"

fun test_exec :: "test_request \<Rightarrow> db \<Rightarrow> db result" where
  "test_exec (Freeze p f c period d n a) s = freeze_population p f c period d n a s"
| "test_exec (Draw k f p is m r a) s = draw_sample k f p is m r a s"
| "test_exec (Record_test t new_id c sample period retest a at ai) s =
     rbind (row_of ic_id c (internal_controls s)) (\<lambda>control.
     rbind (lookup_opt ts_id sample (control_test_samples s)) (\<lambda>smp.
     rbind (lookup_opt cp_id period (control_periods s)) (\<lambda>per.
     rbind (lookup_opt ct_id retest (control_tests s)) (\<lambda>prior.
       record_test t new_id control (a\<lparr>tt_sample := smp, tt_period := per, tt_retest_of := prior\<rparr>) at ai s))))"
| "test_exec (Link_test t test v at ai) s = link_test_evidence t test v at ai s"

lemma lookup_opt_Inr:
  "lookup_opt key k rows = Inr r \<longleftrightarrow>
     (k = None \<and> r = None \<or> (\<exists>i x. k = Some i \<and> r = Some x \<and> row_get key i rows = Some x))"
  by (auto simp: lookup_opt_def split: option.splits)

text \<open>What a recorded test satisfies, whatever is recorded after it.\<close>

definition test_ok :: "db \<Rightarrow> control_test \<Rightarrow> bool" where
  "test_ok s t =
     (ct_result t \<in> set test_results \<and>
      (\<forall>x\<in>set (control_test_exceptions s). te_test_id x = ct_id t \<longrightarrow>
         ct_result t = ''exceptions_noted'' \<and>
         (\<forall>k i. ct_sample_id t = Some k \<longrightarrow> te_sample_item_id x = Some i \<longrightarrow>
            (\<exists>j\<in>set (control_test_sample_items s). si_id j = i \<and> si_sample_id j = k))) \<and>
      (\<forall>k. ct_sample_id t = Some k \<longrightarrow>
         (\<exists>smp\<in>set (control_test_samples s). ts_id smp = k \<and>
            (\<exists>pop\<in>set (control_test_populations s). tp_id pop = ts_population_id smp \<and> tp_control_id pop = ct_control_id t))) \<and>
      (\<forall>r. ct_retest_of_test_id t = Some r \<longrightarrow>
         (\<exists>t0\<in>set (control_tests s). ct_id t0 = r \<and> ct_control_id t0 = ct_control_id t)))"

definition tests_inv :: "db \<Rightarrow> bool" where
  "tests_inv s =
     ((\<forall>t\<in>set (control_tests s). test_ok s t) \<and>
      (\<forall>x\<in>set (control_test_exceptions s). has_row ct_id (te_test_id x) (control_tests s)))"

text \<open>A request only adds rows to the tables of this component.\<close>

definition test_tables_grow :: "db \<Rightarrow> db \<Rightarrow> bool" where
  "test_tables_grow s s' =
     (set (control_test_populations s) \<subseteq> set (control_test_populations s') \<and>
      set (control_test_samples s) \<subseteq> set (control_test_samples s') \<and>
      set (control_test_sample_items s) \<subseteq> set (control_test_sample_items s') \<and>
      set (control_test_population_items s) \<subseteq> set (control_test_population_items s') \<and>
      set (control_tests s) \<subseteq> set (control_tests s'))"

lemma test_ok_grow:
  assumes "test_ok s t" and "test_tables_grow s s'" and "control_test_exceptions s' = control_test_exceptions s"
  shows "test_ok s' t"
  using assms unfolding test_ok_def test_tables_grow_def by (simp add: subset_iff) blast

lemma add_population_items_only:
  "rfold add_population_item rs s = Inr s' \<Longrightarrow>
     s' = s\<lparr>control_test_population_items := control_test_population_items s @ rs\<rparr>"
proof (induction rs arbitrary: s)
  case (Cons r rs)
  then obtain s1 where s1: "add_population_item s r = Inr s1" "rfold add_population_item rs s1 = Inr s'" by auto
  have "s1 = s\<lparr>control_test_population_items := control_test_population_items s @ [r]\<rparr>"
    using s1(1) by (auto simp: add_population_item_def split: if_splits)
  then show ?case using Cons.IH [OF s1(2)] by simp
qed simp

lemma add_sample_items_only:
  "rfold add_sample_item rs s = Inr s' \<Longrightarrow>
     s' = s\<lparr>control_test_sample_items := control_test_sample_items s @ rs\<rparr>"
proof (induction rs arbitrary: s)
  case (Cons r rs)
  then obtain s1 where s1: "add_sample_item s r = Inr s1" "rfold add_sample_item rs s1 = Inr s'" by auto
  have "s1 = s\<lparr>control_test_sample_items := control_test_sample_items s @ [r]\<rparr>"
    using s1(1) by (auto simp: add_sample_item_def split: if_splits)
  then show ?case using Cons.IH [OF s1(2)] by simp
qed simp

lemma map_enumerate_snd: "map (\<lambda>x. g (snd x)) (enumerate n xs) = map g xs"
proof -
  have "map (\<lambda>x. g (snd x)) (enumerate n xs) = map g (map snd (enumerate n xs))" by (simp only: map_map o_def)
  then show ?thesis by (simp only: map_snd_enumerate)
qed

lemma exception_json_reads [simp]:
  "opt_str ''sample_item_id'' (exception_json x) = Inr (tx_sample_item_id x)"
  "str_or [] ''description'' (exception_json x) = Inr (tx_description x)"
  by (cases "tx_sample_item_id x"; simp add: exception_json_def json_simps)+

lemma add_test_exceptions_only:
  "rfold (add_test_exception k) (map exception_json xs) s = Inr s' \<Longrightarrow>
     s' = s\<lparr>control_test_exceptions := control_test_exceptions s @
       map (\<lambda>x. \<lparr>te_test_id = k, te_sample_item_id = tx_sample_item_id x, te_description = tx_description x\<rparr>) xs\<rparr>"
proof (induction xs arbitrary: s)
  case (Cons x xs)
  then obtain s1 where s1: "add_test_exception k s (exception_json x) = Inr s1"
    "rfold (add_test_exception k) (map exception_json xs) s1 = Inr s'" by auto
  have "s1 = s\<lparr>control_test_exceptions := control_test_exceptions s @
      [\<lparr>te_test_id = k, te_sample_item_id = tx_sample_item_id x, te_description = tx_description x\<rparr>]\<rparr>"
    using s1(1) by (auto simp: add_test_exception_def split: if_splits)
  then show ?case using Cons.IH [OF s1(2)] by simp
qed simp

lemma tests_inv_grow:
  assumes inv: "tests_inv s" and grow: "test_tables_grow s s'" and "control_tests s' = control_tests s"
    "control_test_exceptions s' = control_test_exceptions s"
  shows "tests_inv s'"
  using inv assms(3,4) test_ok_grow [OF _ grow assms(4)] by (auto simp: tests_inv_def)

lemma freeze_Inr:
  assumes "freeze_population p f c period d n a s = Inr s'"
  shows "\<exists>r rs. s' = s\<lparr>control_test_populations := control_test_populations s @ [r],
             control_test_population_items := control_test_population_items s @ rs\<rparr> \<and>
           tp_id r = p \<and> tp_control_id r = c \<and> tp_control_period_id r = period \<and>
           map ti_control_occurrence_id rs = map oc_id (population_basis c period s) \<and>
           (\<forall>i\<in>set rs. ti_population_id i = p) \<and> \<not> has_row tp_id p (control_test_populations s)"
proof -
  let ?r = "\<lparr>tp_id = p, tp_control_id = c, tp_control_period_id = period, tp_description = d, tp_criteria_note = n, tp_created_by = a\<rparr>"
  let ?rs = "map (\<lambda>(k, r). \<lparr>ti_id = f k, ti_population_id = p, ti_control_occurrence_id = oc_id r\<rparr>) (enumerate 0 (population_basis c period s))"
  obtain s1 where s1: "add_population ?r s = Inr s1" and rest: "rfold add_population_item ?rs s1 = Inr s'"
    using assms by (auto simp: freeze_population_def Let_def)
  have "map ti_control_occurrence_id ?rs = map oc_id (population_basis c period s)"
    by (simp add: split_def o_def map_enumerate_snd)
  then show ?thesis using s1 add_population_items_only [OF rest]
    by (intro exI [of _ ?r] exI [of _ ?rs]) (auto simp: add_population_def split: if_splits)
qed

lemma draw_Inr:
  assumes "draw_sample k f p sel m r a s = Inr s'"
  shows "\<exists>x rs. s' = s\<lparr>control_test_samples := control_test_samples s @ [x],
             control_test_sample_items := control_test_sample_items s @ rs\<rparr> \<and>
           ts_id x = k \<and> ts_population_id x = p \<and> sel \<noteq> [] \<and> map si_population_item_id rs = sel \<and>
           set sel \<subseteq> ti_id ` set (population_items p s)"
proof -
  let ?x = "\<lparr>ts_id = k, ts_population_id = p, ts_selection_method = m, ts_selection_rationale = r, ts_created_by = a\<rparr>"
  let ?rs = "map (\<lambda>(n, i). \<lparr>si_id = f n, si_sample_id = k, si_population_item_id = i\<rparr>) (enumerate 0 sel)"
  obtain s1 where s1: "add_sample ?x s = Inr s1" and rest: "rfold add_sample_item ?rs s1 = Inr s'"
    and ne: "sel \<noteq> []" "set sel \<subseteq> ti_id ` set (population_items p s)"
    using assms by (auto simp: draw_sample_def split: if_splits)
  have "map si_population_item_id ?rs = sel" by (simp add: split_def o_def map_enumerate_snd [of "\<lambda>x. x"])
  then show ?thesis using s1 ne add_sample_items_only [OF rest]
    by (intro exI [of _ ?x] exI [of _ ?rs]) (auto simp: add_sample_def split: if_splits)
qed

lemma test_append_Inr:
  assumes "test_append t c s = Inr s'" and "c_idempotency_key c = None"
  shows "\<exists>e. ev_event_type e = c_event_type c \<and> ev_aggregate_id e = c_aggregate_id c \<and> ev_payload e = c_payload c \<and>
             run_projector control_test_projectors (s\<lparr>domain_events := domain_events s @ [e]\<rparr>) e = Inr s'"
proof -
  obtain e where "append_and_project [] t control_test_projectors c s = Inr (e, s')"
    using assms(1) by (auto simp: test_append_def)
  then show ?thesis using assms(2) by (intro exI [of _ e]) (auto simp: append_key_free_iff)
qed

lemma as_str_opt_JStr [simp]: "as_str_opt (JStr x) = Inr (Some x)"
  by (simp add: as_str_opt_def)

text \<open>The row the projector makes of a record command's payload.\<close>

definition recorded_test :: "internal_control \<Rightarrow> test_args \<Rightarrow> domain_event \<Rightarrow> datetime option \<Rightarrow> control_test" where
  "recorded_test control a e performed_at =
     \<lparr>ct_id = ev_aggregate_id e, ct_control_id = ic_id control, ct_control_period_id = map_option cp_id (tt_period a),
      ct_sample_id = map_option ts_id (tt_sample a), ct_procedure_description = tt_procedure_description a,
      ct_tester_person_id = tt_tester_person_id a, ct_performed_at = performed_at, ct_result = tt_result a,
      ct_notes = tt_notes a, ct_retest_of_test_id = map_option ct_id (tt_retest_of a),
      ct_created_at = ev_recorded_at e, ct_updated_at = ev_recorded_at e\<rparr>"

lemma recorded_test_simps [simp]:
  "ct_id (recorded_test control a e p) = ev_aggregate_id e" "ct_control_id (recorded_test control a e p) = ic_id control"
  "ct_result (recorded_test control a e p) = tt_result a"
  "ct_sample_id (recorded_test control a e p) = map_option ts_id (tt_sample a)"
  "ct_retest_of_test_id (recorded_test control a e p) = map_option ct_id (tt_retest_of a)"
  by (simp_all add: recorded_test_def)

lemma record_payload_reads:
  assumes "ev_payload e = JObj (record_test_payload control a)"
  shows "test_project_recorded s e =
    rbind (parse_iso_datetime (Some (datetime_isoformat (tt_performed_at a)))) (\<lambda>performed_at.
      rbind (insert_control_test (recorded_test control a e performed_at) s)
       (rfold (add_test_exception (ev_aggregate_id e)) (map exception_json (tt_exceptions a))))"
  unfolding test_project_recorded_def assms record_test_payload_def recorded_test_def
  by (simp add: jget_def jget_or_def req_str_def opt_str_def str_or_def as_str_def as_arr_def as_str_opt_jopt)

lemma record_Inr:
  assumes "record_test t new_id control a at ai s = Inr s'"
  shows "\<exists>e r. s' = s\<lparr>domain_events := domain_events s @ [e], control_tests := control_tests s @ [r],
             control_test_exceptions := control_test_exceptions s @
               map (\<lambda>x. \<lparr>te_test_id = new_id, te_sample_item_id = tx_sample_item_id x, te_description = tx_description x\<rparr>)
                 (tt_exceptions a)\<rparr> \<and>
           ct_id r = new_id \<and> ct_control_id r = ic_id control \<and> ct_result r = tt_result a \<and>
           ct_sample_id r = map_option ts_id (tt_sample a) \<and> ct_retest_of_test_id r = map_option ct_id (tt_retest_of a) \<and>
           \<not> has_row ct_id new_id (control_tests s)"
proof -
  let ?c = "event_command ''control_test'' new_id ''ControlTestRecorded'' (record_test_payload control a) at ai"
  have "test_append t ?c s = Inr s'"
    using assms by (auto simp: record_test_def split: if_splits)
  then obtain e where e: "ev_aggregate_id e = new_id" "ev_payload e = JObj (record_test_payload control a)"
    "test_project_recorded (s\<lparr>domain_events := domain_events s @ [e]\<rparr>) e = Inr s'"
    using test_append_Inr [of t ?c s s'] by (auto simp: run_projector_def control_test_projectors_def)
  obtain d s1 where ins: "insert_control_test (recorded_test control a e d) (s\<lparr>domain_events := domain_events s @ [e]\<rparr>) = Inr s1"
    and rest: "rfold (add_test_exception new_id) (map exception_json (tt_exceptions a)) s1 = Inr s'"
    using e(3) unfolding record_payload_reads [OF e(2)] e(1) by auto
  have "s1 = s\<lparr>domain_events := domain_events s @ [e], control_tests := control_tests s @ [recorded_test control a e d]\<rparr>"
    "\<not> has_row ct_id new_id (control_tests s)"
    using ins e(1) by (simp_all add: insert_control_test_def split: if_splits)
  then show ?thesis using add_test_exceptions_only [OF rest] e(1)
    by (intro exI [of _ e] exI [of _ "recorded_test control a e d"]) simp
qed

lemma record_checks:
  assumes "record_test t new_id control a at ai s = Inr s'"
  shows "tt_result a \<in> set test_results" "tt_exceptions a \<noteq> [] \<Longrightarrow> tt_result a = ''exceptions_noted''"
    "check_sample control a s = Inr ()"
    "tt_retest_of a = Some r \<Longrightarrow> ct_control_id r = ic_id control"
  using assms by (auto simp: record_test_def split: if_splits)

lemma record_test_inv:
  assumes inv: "tests_inv s" and ok: "record_test t new_id control a at ai s = Inr s'"
    and smp: "\<And>x. tt_sample a = Some x \<Longrightarrow> x \<in> set (control_test_samples s)"
    and prior: "\<And>x. tt_retest_of a = Some x \<Longrightarrow> x \<in> set (control_tests s)"
  shows "tests_inv s'"
proof -
  obtain e r where s': "s' = s\<lparr>domain_events := domain_events s @ [e], control_tests := control_tests s @ [r],
      control_test_exceptions := control_test_exceptions s @
        map (\<lambda>x. \<lparr>te_test_id = new_id, te_sample_item_id = tx_sample_item_id x, te_description = tx_description x\<rparr>) (tt_exceptions a)\<rparr>"
    and r: "ct_id r = new_id" "ct_control_id r = ic_id control" "ct_result r = tt_result a"
      "ct_sample_id r = map_option ts_id (tt_sample a)" "ct_retest_of_test_id r = map_option ct_id (tt_retest_of a)"
    and fresh: "\<not> has_row ct_id new_id (control_tests s)"
    using record_Inr [OF ok] by blast
  note checks = record_checks [OF ok]
  have old: "te_test_id x \<noteq> new_id" if "x \<in> set (control_test_exceptions s)" for x
    using inv that fresh by (auto simp: tests_inv_def)
  have sample: "\<exists>pop\<in>set (control_test_populations s). tp_id pop = ts_population_id x \<and> tp_control_id pop = ic_id control"
    if "tt_sample a = Some x" for x
    using checks(3) that by (auto simp: check_sample_def dest: row_get_SomeD split: if_splits)
  have items: "\<exists>j\<in>set (control_test_sample_items s). si_id j = i \<and> si_sample_id j = ts_id x"
    if "tt_sample a = Some x" "y \<in> set (tt_exceptions a)" "tx_sample_item_id y = Some i" for x y i
    using checks(3) that by (fastforce simp: check_sample_def sample_items_def list_ex_iff split: if_splits)
  have new: "test_ok s' r"
    unfolding test_ok_def s' using r checks(1,2) sample items smp prior checks(4) old by (auto; fastforce)
  have "test_ok s' t0" if "t0 \<in> set (control_tests s)" for t0
  proof -
    have "ct_id t0 \<noteq> new_id" using that fresh by (auto simp: has_row_iff)
    moreover have "test_ok s t0" using inv that by (simp add: tests_inv_def)
    ultimately show ?thesis unfolding test_ok_def s' by auto
  qed
  then show ?thesis using new inv by (auto simp: tests_inv_def s' r)
qed

lemma test_exec_inv:
  assumes inv: "tests_inv s" and ok: "test_exec r s = Inr s'"
  shows "tests_inv s'"
proof (cases r)
  case (Freeze p f c period d n a)
  then have "freeze_population p f c period d n a s = Inr s'" using ok by simp
  from freeze_Inr [OF this] obtain x rs where "s' = s\<lparr>control_test_populations := control_test_populations s @ [x],
      control_test_population_items := control_test_population_items s @ rs\<rparr>" by blast
  then show ?thesis by (intro tests_inv_grow [OF inv]) (auto simp: test_tables_grow_def)
next
  case (Draw k f p sel m r a)
  then have "draw_sample k f p sel m r a s = Inr s'" using ok by simp
  from draw_Inr [OF this] obtain x rs where "s' = s\<lparr>control_test_samples := control_test_samples s @ [x],
      control_test_sample_items := control_test_sample_items s @ rs\<rparr>" by blast
  then show ?thesis by (intro tests_inv_grow [OF inv]) (auto simp: test_tables_grow_def)
next
  case (Record_test t new_id c sample period retest a at ai)
  then obtain control smp per prior where "lookup_opt ts_id sample (control_test_samples s) = Inr smp"
    "lookup_opt ct_id retest (control_tests s) = Inr prior"
    "record_test t new_id control (a\<lparr>tt_sample := smp, tt_period := per, tt_retest_of := prior\<rparr>) at ai s = Inr s'"
    using ok by auto
  then show ?thesis
    by (intro record_test_inv [OF inv]) (auto simp: lookup_opt_Inr dest: row_get_SomeD)
next
  case (Link_test t test v at ai)
  then have "test_append t (event_command ''control_test'' test ''ControlTestEvidenceLinked''
      [(''evidence_artifact_version_id'', JStr v)] at ai) s = Inr s'"
    using ok by (simp add: link_test_evidence_def)
  then obtain e as where "s' = s\<lparr>domain_events := domain_events s @ [e], control_test_evidence_artifacts := as\<rparr>"
    by (auto dest!: test_append_Inr simp: run_projector_def control_test_projectors_def test_project_evidence_linked_def
        Let_def split: if_splits)
  then show ?thesis by (intro tests_inv_grow [OF inv]) (auto simp: test_tables_grow_def)
qed

lemma test_append_sync:
  "in_sync control_test_projectors ''control_test'' clear_control_tests s \<Longrightarrow>
     recorded_by ''control_test'' seen (domain_events s) \<Longrightarrow> seen < t_now t \<Longrightarrow>
     test_append t c s = Inr s' \<Longrightarrow> c_aggregate_type c = ''control_test'' \<Longrightarrow>
     in_sync control_test_projectors ''control_test'' clear_control_tests s' \<and>
     recorded_by ''control_test'' (t_now t) (domain_events s')"
  by (auto simp: test_append_def dest: test.sync_append)

text \<open>Plain rows added by a freeze or a draw: replay does not depend on their absence.\<close>

definition add_plain :: "control_test_population list \<Rightarrow> control_test_population_item list \<Rightarrow> control_test_sample list \<Rightarrow>
    control_test_sample_item list \<Rightarrow> db \<Rightarrow> db" where
  "add_plain ps is ss js s =
     s\<lparr>control_test_populations := control_test_populations s @ ps,
       control_test_population_items := control_test_population_items s @ is,
       control_test_samples := control_test_samples s @ ss, control_test_sample_items := control_test_sample_items s @ js\<rparr>"

lemma fk_ok_append: "fk_ok key v xs \<Longrightarrow> fk_ok key v (xs @ ys)"
  by (cases v) auto

lemma add_plain_insert:
  "insert_control_test r s = Inr s' \<Longrightarrow> insert_control_test r (add_plain ps is ss js s) = Inr (add_plain ps is ss js s')"
  by (auto simp: insert_control_test_def add_plain_def fk_ok_append split: if_splits)

lemma add_plain_exception:
  assumes "add_test_exception k s x = Inr s'"
  shows "add_test_exception k (add_plain ps is ss js s) x = Inr (add_plain ps is ss js s')"
proof -
  obtain i d where x: "opt_str ''sample_item_id'' x = Inr i" "str_or [] ''description'' x = Inr d"
    "fk_ok si_id i (control_test_sample_items s)"
    and s': "s' = s\<lparr>control_test_exceptions := control_test_exceptions s @
        [\<lparr>te_test_id = k, te_sample_item_id = i, te_description = d\<rparr>]\<rparr>"
    using assms by (auto simp: add_test_exception_def split: if_splits)
  then show ?thesis by (simp add: add_test_exception_def add_plain_def fk_ok_append)
qed

lemma add_plain_recorded:
  assumes "test_project_recorded s e = Inr s'"
  shows "test_project_recorded (add_plain ps is ss js s) e = Inr (add_plain ps is ss js s')"
proof -
  obtain r es s1 where eq: "\<And>s2. test_project_recorded s2 e =
      rbind (insert_control_test r s2) (rfold (add_test_exception (ev_aggregate_id e)) es)"
    and s1: "insert_control_test r s = Inr s1" and rest: "rfold (add_test_exception (ev_aggregate_id e)) es s1 = Inr s'"
    using assms by (auto simp: test_project_recorded_def)
  show ?thesis
    using add_plain_insert [OF s1] rfold_commute [OF add_plain_exception rest] by (simp add: eq)
qed

lemma add_plain_linked:
  "test_project_evidence_linked s e = Inr s' \<Longrightarrow>
     test_project_evidence_linked (add_plain ps is ss js s) e = Inr (add_plain ps is ss js s')"
  by (auto simp: test_project_evidence_linked_def Let_def add_plain_def split: if_splits)

lemma add_plain_run:
  "run_projector control_test_projectors s e = Inr s' \<Longrightarrow>
     run_projector control_test_projectors (add_plain ps is ss js s) e = Inr (add_plain ps is ss js s')"
  by (auto simp: run_projector_def control_test_projectors_def add_plain_recorded add_plain_linked split: if_splits)

lemma add_plain_sync:
  assumes "in_sync control_test_projectors ''control_test'' clear_control_tests s"
  shows "in_sync control_test_projectors ''control_test'' clear_control_tests (add_plain ps is ss js s)"
proof -
  have "clear_control_tests (add_plain ps is ss js s) = add_plain ps is ss js (clear_control_tests s)"
    "domain_events (add_plain ps is ss js s) = domain_events s"
    by (simp_all add: clear_control_tests_def add_plain_def)
  then show ?thesis
    using rfold_commute [where f = "run_projector control_test_projectors", OF add_plain_run assms [unfolded in_sync_def]]
    by (simp add: in_sync_def)
qed

fun test_stamp :: "datetime \<times> test_request \<Rightarrow> bool" where
  "test_stamp (now, Record_test t _ _ _ _ _ _ _ _) = (t_now t = now)"
| "test_stamp (now, Link_test t _ _ _ _) = (t_now t = now)"
| "test_stamp (now, _) = True"

lemma test_request_sync:
  assumes sync: "in_sync control_test_projectors ''control_test'' clear_control_tests s"
    and rec: "recorded_by ''control_test'' seen (domain_events s)" and clock: "seen < fst r" "test_stamp r"
    and ok: "test_exec (snd r) s = Inr s'"
  shows "in_sync control_test_projectors ''control_test'' clear_control_tests s' \<and>
         recorded_by ''control_test'' (fst r) (domain_events s')"
proof (cases r)
  case r: (Pair now q)
  have rec': "recorded_by ''control_test'' now (domain_events s)"
    using rec clock(1) r recorded_by_mono by fastforce
  show ?thesis
  proof (cases q)
    case (Freeze p f c period d n a)
    then have "freeze_population p f c period d n a s = Inr s'" using ok r by simp
    from freeze_Inr [OF this] obtain x rs where s': "s' = add_plain [x] rs [] [] s" by (auto simp: add_plain_def)
    then have "domain_events s' = domain_events s" by (simp add: add_plain_def)
    then show ?thesis using add_plain_sync [OF sync, of "[x]" rs "[]" "[]"] rec' r s' by simp
  next
    case (Draw k f p sel m rr a)
    then have "draw_sample k f p sel m rr a s = Inr s'" using ok r by simp
    from draw_Inr [OF this] obtain x rs where s': "s' = add_plain [] [] [x] rs s" by (auto simp: add_plain_def)
    then have "domain_events s' = domain_events s" by (simp add: add_plain_def)
    then show ?thesis using add_plain_sync [OF sync, of "[]" "[]" "[x]" rs] rec' r s' by simp
  qed (use ok clock r test_append_sync [OF sync rec] in
      \<open>auto simp: record_test_def link_test_evidence_def split: if_splits\<close>)
qed

interpretation test_domain: projected_domain control_test_projectors "''control_test''" clear_control_tests
  "\<lambda>r. test_exec (snd r)" fst fst test_stamp reset_control_tests no_finding_reference "\<lambda>s. s"
proof
  show "reset_control_tests s = Inr (clear_control_tests s)" if "no_finding_reference s" for s
    using that by (auto simp: reset_control_tests_def no_finding_reference_def list_all_iff list_ex_iff split: option.splits)
qed (auto dest: test_request_sync)

section \<open>Frozen populations\<close>










section \<open>Properties of assurance testing\<close>

definition demo_person :: person where
  "demo_person = \<lparr>pe_id = ''tester'', pe_email = ''t@example.com'', pe_display_name = ''T'', pe_employment_status = ''active'',
     pe_source = ''manual'', pe_external_id = None, pe_last_synced_at = None, pe_in_scope = True\<rparr>"

definition demo_occurrence :: "string \<Rightarrow> control_occurrence" where
  "demo_occurrence k =
     \<lparr>oc_id = k, oc_control_id = ''c'', oc_control_period_id = None, oc_origin = Manual, oc_due_at = None,
      oc_performed_at = Some noon, oc_responsible_person_id = None, oc_performed_by_person_id = None, oc_scope_note = [],
      oc_evidence_note = [], oc_control_definition_version_id = None, oc_created_at = noon, oc_updated_at = noon\<rparr>"

definition demo_assurance_db :: db where
  "demo_assurance_db = demo_control_db\<lparr>people := [demo_person], control_occurrences := [demo_occurrence ''o1'', demo_occurrence ''o2'']\<rparr>"

definition demo_test_args :: test_args where
  "demo_test_args = \<lparr>tt_sample = None, tt_period = None, tt_procedure_description = ''inspect'', tt_tester_person_id = ''tester'',
     tt_performed_at = noon, tt_result = ''exceptions_noted'', tt_notes = [],
     tt_exceptions = [\<lparr>tx_sample_item_id = Some ''si'', tx_description = ''late''\<rparr>], tt_retest_of = None\<rparr>"

definition demo_test_requests :: "(datetime \<times> test_request) list" where
  "demo_test_requests =
     [(t_now (demo_tick 1), Freeze ''pop'' (\<lambda>n. ''i'' @ replicate n CHR ''x'') ''c'' None [] [] ''u''),
      (t_now (demo_tick 2), Draw ''smp'' (\<lambda>n. ''si'' @ replicate n CHR ''x'') ''pop'' [''ix''] ''haphazard'' [] ''u''),
      (t_now (demo_tick 3), Record_test (demo_tick 3) ''t1'' ''c'' (Some ''smp'') None None demo_test_args ''user'' None)]"

lemma demo_test_history:
  "case rfold (\<lambda>s r. test_exec (snd r) s) demo_test_requests demo_assurance_db of
     Inl _ \<Rightarrow> False
   | Inr s \<Rightarrow> map ct_id (control_tests s) = [''t1''] \<and> map te_test_id (control_test_exceptions s) = [''t1''] \<and>
       findings s = [] \<and> finding_retests s = []"
  by code_simp

text \<open>
  C11. Recorded tests are sound. After any history of freezes, draws, recorded tests and
  evidence links: a test with exceptions has the result that notes them; an exception's item
  belongs to the sample the test names; the sample was drawn from a population of the tested
  control; a retest names a recorded test of the same control.
\<close>

theorem recorded_tests_sound:
  assumes "tests_inv s" and "rfold (\<lambda>s r. test_exec (snd r) s) rs s = Inr s'"
  shows "tests_inv s'"
  using assms(2,1) by (rule rfold_invariant) (auto intro: test_exec_inv)

lemma recorded_tests_sound_witness:
  "\<exists>s'. rfold (\<lambda>s r. test_exec (snd r) s) demo_test_requests demo_assurance_db = Inr s' \<and> tests_inv s' \<and> control_tests s' \<noteq> []"
proof -
  have inv: "tests_inv demo_assurance_db"
    by (simp add: tests_inv_def demo_assurance_db_def demo_control_db_def empty_db_def)
  obtain s' where s': "rfold (\<lambda>s r. test_exec (snd r) s) demo_test_requests demo_assurance_db = Inr s'"
    "map ct_id (control_tests s') = [''t1'']"
    using demo_test_history by (auto split: sum.splits)
  then show ?thesis using recorded_tests_sound [OF inv s'(1)] by auto
qed



text \<open>
  The tests are a projection. After any history under a clock that moves forward the
  rebuild of the tests gives back exactly the same database while no finding points at a test;
  as soon as one does, the rebuild fails with the foreign-key error.
\<close>

theorem test_rebuild:
  assumes "in_sync control_test_projectors ''control_test'' clear_control_tests s"
    and "recorded_by ''control_test'' seen (domain_events s)"
    and "clock_runs fst fst test_stamp seen rs"
    and "rfold (\<lambda>s r. test_exec (snd r) s) rs s = Inr s'"
  shows "rebuild_control_test_projection s' = (if no_finding_reference s' then Inr s' else Inl IntegrityError)"
proof (cases "no_finding_reference s'")
  case True
  then show ?thesis unfolding rebuild_control_test_projection_def
    using test_domain.rebuild_after_history [OF assms True] by simp
next
  case False
  then have "reset_control_tests s' = Inl IntegrityError"
    by (auto simp: reset_control_tests_def no_finding_reference_def list_all_iff list_ex_iff split: option.splits)
  then show ?thesis using False by (simp add: rebuild_control_test_projection_def rebuild_projection_def)
qed

lemma test_rebuild_witness:
  "\<exists>s'. rfold (\<lambda>s r. test_exec (snd r) s) demo_test_requests demo_assurance_db = Inr s' \<and> control_tests s' \<noteq> [] \<and>
        rebuild_control_test_projection s' = Inr s'"
proof -
  let ?t0 = "Datetime (Date 2026 8 20) 0"
  have sync: "in_sync control_test_projectors ''control_test'' clear_control_tests demo_assurance_db"
    by (simp add: in_sync_def demo_assurance_db_def demo_control_db_def empty_db_def clear_control_tests_def events_of_def)
  have rec: "recorded_by ''control_test'' ?t0 (domain_events demo_assurance_db)"
    by (simp add: recorded_by_def demo_assurance_db_def demo_control_db_def empty_db_def)
  have clock: "clock_runs fst fst test_stamp ?t0 demo_test_requests" by code_simp
  obtain s' where s': "rfold (\<lambda>s r. test_exec (snd r) s) demo_test_requests demo_assurance_db = Inr s'"
    "map ct_id (control_tests s') = [''t1'']" "findings s' = []" "finding_retests s' = []"
    using demo_test_history by (auto split: sum.splits)
  then show ?thesis using test_rebuild [OF sync rec clock s'(1)] by (auto simp: no_finding_reference_def)
qed

end
