(* ===== verification/Findings.thy ===== *)
theory Findings
  imports Control_Tests
begin

text \<open>
  \<open>src/app/finding_lifecycle.py\<close>: findings move from open over remediation and retest to closed.
  The tables are a projection over the \<open>finding\<close> events. The state machine the module's
  docstring draws is the inductive relation \<open>finding_step\<close>; every history of requests moves
  every finding along it.
\<close>

section \<open>Projectors\<close>

definition finding_severities :: "string list" where
  "finding_severities = [''low'', ''medium'', ''high'', ''critical'']"

definition finding_closure_decisions :: "string list" where
  "finding_closure_decisions = [''remediated_and_retested'', ''risk_accepted'', ''false_positive'', ''other'']"

definition insert_finding :: "finding \<Rightarrow> db \<Rightarrow> db result" where
  "insert_finding r s =
     (if has_row fi_id (fi_id r) (findings s) \<or> fi_severity r \<notin> set finding_severities \<or>
         \<not> fk_ok ic_id (fi_control_id r) (internal_controls s) \<or>
         \<not> fk_ok ct_id (fi_source_test_id r) (control_tests s) \<or>
         \<not> fk_ok pe_id (fi_owner_person_id r) (people s)
      then Inl IntegrityError else Inr (s\<lparr>findings := findings s @ [r]\<rparr>))"

definition finding_project_opened :: "db projector" where
  "finding_project_opened s e =
     rbind (req_str ''title'' (ev_payload e)) (\<lambda>title.
     rbind (str_or [] ''description'' (ev_payload e)) (\<lambda>description.
     rbind (req_str ''severity'' (ev_payload e)) (\<lambda>severity.
     rbind (opt_str ''control_id'' (ev_payload e)) (\<lambda>control_id.
     rbind (opt_str ''source_test_id'' (ev_payload e)) (\<lambda>source_test_id.
     rbind (opt_str ''owner_person_id'' (ev_payload e)) (\<lambda>owner_person_id.
     rbind (opt_str ''due_date'' (ev_payload e)) (\<lambda>due_text.
     rbind (parse_iso_date due_text) (\<lambda>due_date.
       insert_finding
         \<lparr>fi_id = ev_aggregate_id e, fi_title = title, fi_description = description, fi_severity = severity,
          fi_status = Open, fi_control_id = control_id, fi_source_test_id = source_test_id,
          fi_owner_person_id = owner_person_id, fi_due_date = due_date, fi_closure_decision = None,
          fi_closure_note = [], fi_created_at = ev_recorded_at e, fi_updated_at = ev_recorded_at e\<rparr> s))))))))"

text \<open>\<open>event.actor_id or event.actor_type\<close>\<close>

definition event_actor :: "domain_event \<Rightarrow> string" where
  "event_actor e = (case ev_actor_id e of None \<Rightarrow> ev_actor_type e | Some a \<Rightarrow> if a = [] then ev_actor_type e else a)"

definition finding_project_remediation_update_recorded :: "db projector" where
  "finding_project_remediation_update_recorded s e =
     rbind (row_of fi_id (ev_aggregate_id e) (findings s)) (\<lambda>f.
     rbind (req_str ''note'' (ev_payload e)) (\<lambda>note.
     rbind (opt_str ''linked_evidence_artifact_version_id'' (ev_payload e)) (\<lambda>linked.
       if \<not> fk_ok av_id linked (evidence_artifact_versions s) then Inl IntegrityError
       else Inr (s\<lparr>finding_remediation_updates := finding_remediation_updates s @
           [\<lparr>fu_finding_id = fi_id f, fu_note = note, fu_actor = event_actor e,
             fu_linked_evidence_artifact_version_id = linked, fu_created_at = ev_recorded_at e\<rparr>],
         findings := row_upd fi_id (ev_aggregate_id e)
           (\<lambda>r. r\<lparr>fi_status := (if fi_status r = Open then Remediating else fi_status r),
                 fi_updated_at := ev_recorded_at e\<rparr>) (findings s)\<rparr>))))"

definition finding_project_retest_requested :: "db projector" where
  "finding_project_retest_requested s e =
     rbind (row_of fi_id (ev_aggregate_id e) (findings s)) (\<lambda>f.
       Inr (s\<lparr>findings := row_upd fi_id (ev_aggregate_id e)
         (\<lambda>r. r\<lparr>fi_status := Retesting, fi_updated_at := ev_recorded_at e\<rparr>) (findings s)\<rparr>))"

definition finding_project_retest_recorded :: "db projector" where
  "finding_project_retest_recorded s e =
     rbind (row_of fi_id (ev_aggregate_id e) (findings s)) (\<lambda>f.
     rbind (req_str ''test_id'' (ev_payload e)) (\<lambda>test_id.
     rbind (req_str ''test_result'' (ev_payload e)) (\<lambda>test_result.
       if \<not> has_row ct_id test_id (control_tests s) then Inl IntegrityError
       else Inr (s\<lparr>finding_retests := finding_retests s @ [\<lparr>ft_finding_id = fi_id f, ft_test_id = test_id\<rparr>],
         findings := row_upd fi_id (ev_aggregate_id e)
           (\<lambda>r. r\<lparr>fi_status := (if test_result = ''exceptions_noted'' then Remediating else Retesting),
                 fi_updated_at := ev_recorded_at e\<rparr>) (findings s)\<rparr>))))"

definition finding_project_closed :: "db projector" where
  "finding_project_closed s e =
     rbind (row_of fi_id (ev_aggregate_id e) (findings s)) (\<lambda>f.
     rbind (req_str ''decision'' (ev_payload e)) (\<lambda>decision.
     rbind (str_or [] ''note'' (ev_payload e)) (\<lambda>note.
       Inr (s\<lparr>findings := row_upd fi_id (ev_aggregate_id e)
         (\<lambda>r. r\<lparr>fi_status := FClosed, fi_closure_decision := Some decision, fi_closure_note := note,
               fi_updated_at := ev_recorded_at e\<rparr>) (findings s)\<rparr>))))"

definition finding_projectors :: "string \<rightharpoonup> db projector" where
  "finding_projectors =
     [''FindingOpened'' \<mapsto> finding_project_opened,
      ''FindingRemediationUpdateRecorded'' \<mapsto> finding_project_remediation_update_recorded,
      ''FindingRetestRequested'' \<mapsto> finding_project_retest_requested,
      ''FindingRetestRecorded'' \<mapsto> finding_project_retest_recorded,
      ''FindingClosed'' \<mapsto> finding_project_closed]"

text \<open>Children before parents: no foreign key is left pointing at a deleted row.\<close>

definition reset_findings :: "db \<Rightarrow> db" where
  "reset_findings s = s\<lparr>finding_retests := [], finding_remediation_updates := [], findings := []\<rparr>"

definition rebuild_finding_projection :: "db \<Rightarrow> db result" where
  "rebuild_finding_projection s =
     rebuild_projection finding_projectors ''finding'' (\<lambda>s. Inr (reset_findings s)) s"

section \<open>Commands\<close>

definition finding_append :: "tick \<Rightarrow> event_cmd \<Rightarrow> db \<Rightarrow> db result" where
  "finding_append t c s = rbind (append_and_project [] t finding_projectors c s) (\<lambda>(_, s'). Inr s')"

record finding_args =
  fa_title :: string
  fa_description :: string
  fa_severity :: string
  fa_control_id :: "string option"
  fa_source_test_id :: "string option"
  fa_owner_person_id :: "string option"
  fa_due_date :: "date option"

definition open_finding :: "tick \<Rightarrow> string \<Rightarrow> finding_args \<Rightarrow> string \<Rightarrow> string option \<Rightarrow> db \<Rightarrow> db result" where
  "open_finding t new_id a actor_type actor_id s =
     (if fa_severity a \<notin> set finding_severities then Inl (ValueError ''severity must be one of FINDING_SEVERITIES'')
      else if blank (fa_title a) then Inl (ValueError ''title is required'')
      else finding_append t
        (event_command ''finding'' new_id ''FindingOpened''
          [(''title'', JStr (fa_title a)), (''description'', JStr (fa_description a)),
           (''severity'', JStr (fa_severity a)), (''control_id'', jopt (fa_control_id a)),
           (''source_test_id'', jopt (fa_source_test_id a)), (''owner_person_id'', jopt (fa_owner_person_id a)),
           (''due_date'', jdate (fa_due_date a))] actor_type actor_id) s)"

definition record_remediation_update ::
  "tick \<Rightarrow> finding \<Rightarrow> string \<Rightarrow> string option \<Rightarrow> string \<Rightarrow> string option \<Rightarrow> db \<Rightarrow> db result" where
  "record_remediation_update t f note linked actor_type actor_id s =
     (if fi_status f = FClosed then Inl (ValueError ''Cannot record a remediation update on a closed finding'')
      else if blank note then Inl (ValueError ''note is required'')
      else finding_append t
        (event_command ''finding'' (fi_id f) ''FindingRemediationUpdateRecorded''
          [(''note'', JStr note), (''linked_evidence_artifact_version_id'', jopt linked)] actor_type actor_id) s)"

definition request_retest :: "tick \<Rightarrow> finding \<Rightarrow> string \<Rightarrow> string option \<Rightarrow> db \<Rightarrow> db result" where
  "request_retest t f actor_type actor_id s =
     (if fi_status f \<noteq> Remediating then Inl (ValueError ''Cannot request a retest'')
      else finding_append t (event_command ''finding'' (fi_id f) ''FindingRetestRequested'' [] actor_type actor_id) s)"

definition record_retest :: "tick \<Rightarrow> finding \<Rightarrow> control_test \<Rightarrow> string \<Rightarrow> string option \<Rightarrow> db \<Rightarrow> db result" where
  "record_retest t f test actor_type actor_id s =
     (if fi_status f \<noteq> Retesting then Inl (ValueError ''Cannot record a retest'')
      else if fi_source_test_id f \<noteq> None \<and> ct_retest_of_test_id test \<noteq> fi_source_test_id f
      then Inl (ValueError ''test.retest_of_test_id must reference this finding's source_test_id'')
      else if fi_source_test_id f = None \<and> fi_control_id f \<noteq> None \<and> Some (ct_control_id test) \<noteq> fi_control_id f
      then Inl (ValueError ''test.control_id does not match this finding's control_id'')
      else finding_append t
        (event_command ''finding'' (fi_id f) ''FindingRetestRecorded''
          [(''test_id'', JStr (ct_id test)), (''test_result'', JStr (ct_result test))] actor_type actor_id) s)"

definition close_finding :: "tick \<Rightarrow> finding \<Rightarrow> string \<Rightarrow> string \<Rightarrow> string \<Rightarrow> string option \<Rightarrow> db \<Rightarrow> db result" where
  "close_finding t f decision note actor_type actor_id s =
     (if fi_status f = FClosed then Inl (ValueError ''Finding is already closed'')
      else if decision \<notin> set finding_closure_decisions
      then Inl (ValueError ''decision must be one of FINDING_CLOSURE_DECISIONS'')
      else finding_append t
        (event_command ''finding'' (fi_id f) ''FindingClosed''
          [(''decision'', JStr decision), (''note'', JStr note)] actor_type actor_id) s)"

section \<open>The projection contract\<close>

definition finding_reads :: "db \<Rightarrow> db \<Rightarrow> bool" where
  "finding_reads s s' =
     (findings s' = findings s \<and> finding_remediation_updates s' = finding_remediation_updates s \<and>
      finding_retests s' = finding_retests s \<and> internal_controls s' = internal_controls s \<and>
      control_tests s' = control_tests s \<and> people s' = people s \<and>
      evidence_artifact_versions s' = evidence_artifact_versions s)"

definition finding_writes ::
  "finding list \<Rightarrow> finding_remediation_update list \<Rightarrow> finding_retest list \<Rightarrow> db \<Rightarrow> db" where
  "finding_writes fs us rs s = s\<lparr>findings := fs, finding_remediation_updates := us, finding_retests := rs\<rparr>"

definition finding_framed :: "db projector \<Rightarrow> db \<Rightarrow> domain_event \<Rightarrow> db \<Rightarrow> bool" where
  "finding_framed p s e s' \<longleftrightarrow>
     s' = finding_writes (findings s') (finding_remediation_updates s') (finding_retests s') s \<and>
     (\<forall>s2. finding_reads s s2 \<longrightarrow> p s2 e =
        Inr (finding_writes (findings s') (finding_remediation_updates s') (finding_retests s') s2))"

lemmas finding_frame_defs = finding_framed_def finding_reads_def finding_writes_def

lemma finding_opened_framed:
  assumes "finding_project_opened s e = Inr s'"
  shows "finding_framed finding_project_opened s e s'"
proof -
  obtain r where eq: "\<And>s2. finding_project_opened s2 e = insert_finding r s2" and ins: "insert_finding r s = Inr s'"
    using assms by (auto simp: finding_project_opened_def)
  have s': "s' = s\<lparr>findings := findings s @ [r]\<rparr>"
    using ins by (simp add: insert_finding_def split: if_splits)
  have "insert_finding r s2 = Inr (s2\<lparr>findings := findings s @ [r]\<rparr>)" if "finding_reads s s2" for s2
    using ins that by (simp add: insert_finding_def finding_reads_def split: if_splits)
  then show ?thesis by (simp add: finding_framed_def eq s' finding_writes_def finding_reads_def)
qed

lemma finding_updated_framed:
  assumes "finding_project_remediation_update_recorded s e = Inr s'"
  shows "finding_framed finding_project_remediation_update_recorded s e s'"
proof -
  obtain f n linked where "row_get fi_id (ev_aggregate_id e) (findings s) = Some f"
    "req_str ''note'' (ev_payload e) = Inr n"
    "opt_str ''linked_evidence_artifact_version_id'' (ev_payload e) = Inr linked"
    "fk_ok av_id linked (evidence_artifact_versions s)"
    using assms by (auto simp: finding_project_remediation_update_recorded_def split: if_splits)
  then show ?thesis using assms
    by (simp add: finding_project_remediation_update_recorded_def finding_frame_defs row_of_eq) auto
qed

lemma finding_requested_framed:
  "finding_project_retest_requested s e = Inr s' \<Longrightarrow> finding_framed finding_project_retest_requested s e s'"
  by (clarsimp simp: finding_project_retest_requested_def finding_frame_defs row_of_def split: option.splits)

lemma finding_retested_framed:
  assumes "finding_project_retest_recorded s e = Inr s'"
  shows "finding_framed finding_project_retest_recorded s e s'"
proof -
  obtain f test result where "row_get fi_id (ev_aggregate_id e) (findings s) = Some f"
    "req_str ''test_id'' (ev_payload e) = Inr test" "req_str ''test_result'' (ev_payload e) = Inr result"
    "has_row ct_id test (control_tests s)"
    using assms by (auto simp: finding_project_retest_recorded_def split: if_splits)
  then show ?thesis using assms
    by (simp add: finding_project_retest_recorded_def finding_frame_defs row_of_eq) auto
qed

lemma finding_closed_framed:
  "finding_project_closed s e = Inr s' \<Longrightarrow> finding_framed finding_project_closed s e s'"
  by (clarsimp simp: finding_project_closed_def finding_frame_defs row_of_def split: option.splits)

lemma finding_projector_frame:
  assumes "finding_projectors k = Some p" and "p s e = Inr s'"
  obtains fs us rs where "s' = finding_writes fs us rs s"
    and "\<And>s2. finding_reads s s2 \<Longrightarrow> p s2 e = Inr (finding_writes fs us rs s2)"
proof -
  have "finding_framed p s e s'"
    using assms finding_opened_framed finding_updated_framed finding_requested_framed finding_retested_framed
      finding_closed_framed by (simp add: finding_projectors_def split: if_splits)
  then show ?thesis using that unfolding finding_framed_def by blast
qed

interpretation finding: projection finding_projectors "''finding''" reset_findings
proof
  show "reset_findings (s\<lparr>domain_events := es\<rparr>) = (reset_findings s)\<lparr>domain_events := es\<rparr>"
    for s es by (simp add: reset_findings_def)
  show "p (s\<lparr>domain_events := es\<rparr>) e = Inr (s'\<lparr>domain_events := es\<rparr>)"
    if p: "finding_projectors k = Some p" "p s e = Inr s'" for k p s e s' es
    by (rule finding_projector_frame [OF p]) (simp add: finding_reads_def finding_writes_def)
  show "reset_findings s' = reset_findings s"
    if p: "finding_projectors k = Some p" "p s e = Inr s'" for k p s e s'
    by (rule finding_projector_frame [OF p]) (simp add: finding_writes_def reset_findings_def)
qed

section \<open>The state machine\<close>

text \<open>The status of a finding together with the decision that closed it, and what happens to it.\<close>

type_synonym finding_view = "finding_status \<times> string option"

datatype finding_action =
    Remediation_update
  | Retest_request
  | Retest_result string
  | Closure string

inductive finding_step :: "finding_view \<Rightarrow> finding_action \<Rightarrow> finding_view \<Rightarrow> bool" where
  start: "finding_step (Open, d) Remediation_update (Remediating, d)"
| progress: "st = Remediating \<or> st = Retesting \<Longrightarrow> finding_step (st, d) Remediation_update (st, d)"
| request: "finding_step (Remediating, d) Retest_request (Retesting, d)"
| failed: "finding_step (Retesting, d) (Retest_result ''exceptions_noted'') (Remediating, d)"
| passed: "r \<noteq> ''exceptions_noted'' \<Longrightarrow> finding_step (Retesting, d) (Retest_result r) (Retesting, d)"
| close: "st \<noteq> FClosed \<Longrightarrow> x \<in> set finding_closure_decisions \<Longrightarrow> finding_step (st, d) (Closure x) (FClosed, Some x)"

inductive_cases finding_step_to_closedE: "finding_step v a (FClosed, d)"
inductive_simps finding_step_from_closed: "finding_step (FClosed, d) a v"

inductive finding_run :: "finding_view \<Rightarrow> finding_action list \<Rightarrow> finding_view \<Rightarrow> bool" where
  none: "finding_run v [] v"
| more: "finding_step v a v1 \<Longrightarrow> finding_run v1 as v2 \<Longrightarrow> finding_run v (a # as) v2"

inductive_simps finding_run_Nil [simp]: "finding_run v [] w"
inductive_simps finding_run_Cons: "finding_run v (a # as) w"

definition finding_view :: "finding \<Rightarrow> finding_view" where
  "finding_view f = (fi_status f, fi_closure_decision f)"

text \<open>Nothing leaves the closed state, and the last action of a run into it is the closure.\<close>

lemma finding_run_closed: "finding_run (FClosed, d) as v \<Longrightarrow> as = [] \<and> v = (FClosed, d)"
  by (cases as) (auto simp: finding_run_Cons finding_step_from_closed)

lemma finding_run_into_closed:
  "finding_run v as (FClosed, d) \<Longrightarrow> fst v \<noteq> FClosed \<Longrightarrow>
     \<exists>xs x. as = xs @ [Closure x] \<and> x \<in> set finding_closure_decisions \<and> d = Some x \<and> (\<forall>y. Closure y \<notin> set xs)"
proof (induction v as "(FClosed, d)" rule: finding_run.induct)
  case (more v a v1 as)
  show ?case
  proof (cases "fst v1 = FClosed")
    case True
    then obtain d1 where v1: "v1 = (FClosed, d1)" by (cases v1) auto
    then have "as = []" "d1 = d" using finding_run_closed more.hyps(2) by blast+
    then show ?thesis using more.hyps(1) more.prems v1 by (auto elim: finding_step_to_closedE)
  next
    case False
    obtain xs x where "as = xs @ [Closure x]" "x \<in> set finding_closure_decisions" "d = Some x" "\<forall>y. Closure y \<notin> set xs"
      using more.hyps(3) False by blast
    moreover have "a \<noteq> Closure y" for y using more.hyps(1) False by (auto elim: finding_step.cases)
    ultimately show ?thesis by (intro exI [of _ "a # xs"] exI [of _ x]) auto
  qed
qed simp

section \<open>Requests\<close>

datatype finding_request =
    Open_finding string finding_args
  | Update_finding string string "string option"
  | Request_retest string
  | Record_retest string string
  | Close_finding string string string

text \<open>A call: the clock and the actor of the request; the caller looks the rows up by id.\<close>

type_synonym finding_call = "tick \<times> string \<times> string option \<times> finding_request"

fun finding_exec :: "finding_call \<Rightarrow> db \<Rightarrow> db result" where
  "finding_exec (t, at, ai, Open_finding k a) s = open_finding t k a at ai s"
| "finding_exec (t, at, ai, Update_finding k text linked) s =
     rbind (row_of fi_id k (findings s)) (\<lambda>f. record_remediation_update t f text linked at ai s)"
| "finding_exec (t, at, ai, Request_retest k) s =
     rbind (row_of fi_id k (findings s)) (\<lambda>f. request_retest t f at ai s)"
| "finding_exec (t, at, ai, Record_retest k test_id) s =
     rbind (row_of fi_id k (findings s)) (\<lambda>f.
     rbind (row_of ct_id test_id (control_tests s)) (\<lambda>test. record_retest t f test at ai s))"
| "finding_exec (t, at, ai, Close_finding k decision text) s =
     rbind (row_of fi_id k (findings s)) (\<lambda>f. close_finding t f decision text at ai s)"

text \<open>What a request does to one finding, and the actions of a history on it.\<close>

fun actions_on :: "string \<Rightarrow> finding_request \<Rightarrow> db \<Rightarrow> finding_action list" where
  "actions_on k (Open_finding _ _) s = []"
| "actions_on k (Update_finding j _ _) s = (if j = k then [Remediation_update] else [])"
| "actions_on k (Request_retest j) s = (if j = k then [Retest_request] else [])"
| "actions_on k (Record_retest j test) s =
     (if j = k then (case row_get ct_id test (control_tests s) of None \<Rightarrow> [] | Some t \<Rightarrow> [Retest_result (ct_result t)])
      else [])"
| "actions_on k (Close_finding j d _) s = (if j = k then [Closure d] else [])"

fun finding_trace :: "string \<Rightarrow> finding_call list \<Rightarrow> db \<Rightarrow> finding_action list" where
  "finding_trace k [] s = []"
| "finding_trace k (c # cs) s =
     (case finding_exec c s of Inl _ \<Rightarrow> []
      | Inr s1 \<Rightarrow> actions_on k (snd (snd (snd c))) s @ finding_trace k cs s1)"

definition view_of :: "string \<Rightarrow> db \<Rightarrow> finding_view" where
  "view_of k s = (case row_get fi_id k (findings s) of None \<Rightarrow> (Open, None) | Some f \<Rightarrow> finding_view f)"

lemma finding_append_Inr:
  assumes "finding_append t (event_command ''finding'' k et p at ai) s = Inr s'"
  shows "\<exists>e. ev_event_type e = et \<and> ev_aggregate_id e = k \<and> ev_payload e = JObj p \<and>
             run_projector finding_projectors (s\<lparr>domain_events := domain_events s @ [e]\<rparr>) e = Inr s'"
proof -
  obtain e where "append_and_project [] t finding_projectors (event_command ''finding'' k et p at ai) s = Inr (e, s')"
    using assms by (auto simp: finding_append_def)
  then show ?thesis by (intro exI [of _ e]) (auto simp: append_key_free_iff)
qed

text \<open>The state after a request that returned.\<close>

lemma open_finding_Inr:
  assumes "open_finding t k a at ai s = Inr s'"
  shows "\<exists>e r. s' = s\<lparr>domain_events := domain_events s @ [e], findings := findings s @ [r]\<rparr> \<and>
     fi_id r = k \<and> fi_status r = Open \<and> fi_closure_decision r = None \<and> \<not> has_row fi_id k (findings s)"
proof -
  obtain e where e: "ev_aggregate_id e = k"
    "finding_project_opened (s\<lparr>domain_events := domain_events s @ [e]\<rparr>) e = Inr s'"
    using assms by (auto simp: open_finding_def run_projector_def finding_projectors_def dest!: finding_append_Inr split: if_splits)
  then obtain r where "insert_finding r (s\<lparr>domain_events := domain_events s @ [e]\<rparr>) = Inr s'" "fi_id r = k"
    "fi_status r = Open" "fi_closure_decision r = None"
    by (auto simp: finding_project_opened_def)
  then show ?thesis by (intro exI [of _ e] exI [of _ r]) (auto simp: insert_finding_def split: if_splits)
qed

lemma record_remediation_update_Inr:
  assumes "record_remediation_update t f text linked at ai s = Inr s'"
  shows "(\<exists>now. findings s' = row_upd fi_id (fi_id f) (\<lambda>r. r\<lparr>fi_status := (if fi_status r = Open then Remediating else fi_status r),
         fi_updated_at := now\<rparr>) (findings s)) \<and>
     finding_retests s' = finding_retests s \<and> control_tests s' = control_tests s \<and> fi_status f \<noteq> FClosed"
proof -
  obtain e where e: "ev_aggregate_id e = fi_id f"
    "finding_project_remediation_update_recorded (s\<lparr>domain_events := domain_events s @ [e]\<rparr>) e = Inr s'"
    using assms
    by (auto simp: record_remediation_update_def run_projector_def finding_projectors_def dest!: finding_append_Inr split: if_splits)
  then show ?thesis using assms
    by (intro conjI exI [of _ "ev_recorded_at e"])
       (auto simp: finding_project_remediation_update_recorded_def record_remediation_update_def split: if_splits)
qed

lemma request_retest_Inr:
  assumes "request_retest t f at ai s = Inr s'"
  shows "(\<exists>now. findings s' = row_upd fi_id (fi_id f) (\<lambda>r. r\<lparr>fi_status := Retesting, fi_updated_at := now\<rparr>) (findings s)) \<and>
     finding_retests s' = finding_retests s \<and> control_tests s' = control_tests s \<and> fi_status f = Remediating"
proof -
  obtain e where e: "ev_aggregate_id e = fi_id f"
    "finding_project_retest_requested (s\<lparr>domain_events := domain_events s @ [e]\<rparr>) e = Inr s'"
    using assms by (auto simp: request_retest_def run_projector_def finding_projectors_def dest!: finding_append_Inr split: if_splits)
  then show ?thesis using assms
    by (intro conjI exI [of _ "ev_recorded_at e"]) (auto simp: finding_project_retest_requested_def request_retest_def split: if_splits)
qed

lemma record_retest_Inr:
  assumes "record_retest t f test at ai s = Inr s'"
  shows "(\<exists>now. findings s' = row_upd fi_id (fi_id f)
         (\<lambda>r. r\<lparr>fi_status := (if ct_result test = ''exceptions_noted'' then Remediating else Retesting),
               fi_updated_at := now\<rparr>) (findings s)) \<and>
     finding_retests s' = finding_retests s @ [\<lparr>ft_finding_id = fi_id f, ft_test_id = ct_id test\<rparr>] \<and>
     control_tests s' = control_tests s \<and> fi_status f = Retesting \<and>
     (fi_source_test_id f \<noteq> None \<longrightarrow> ct_retest_of_test_id test = fi_source_test_id f) \<and>
     (fi_source_test_id f = None \<longrightarrow> fi_control_id f \<noteq> None \<longrightarrow> fi_control_id f = Some (ct_control_id test))"
proof -
  obtain e where e: "ev_aggregate_id e = fi_id f"
    "ev_payload e = JObj [(''test_id'', JStr (ct_id test)), (''test_result'', JStr (ct_result test))]"
    "finding_project_retest_recorded (s\<lparr>domain_events := domain_events s @ [e]\<rparr>) e = Inr s'"
    using assms by (auto simp: record_retest_def run_projector_def finding_projectors_def dest!: finding_append_Inr split: if_splits)
  then obtain f' where "row_get fi_id (fi_id f) (findings s) = Some f'" "has_row ct_id (ct_id test) (control_tests s)"
    by (auto simp: finding_project_retest_recorded_def json_simps split: if_splits)
  then show ?thesis using e assms
    by (intro conjI exI [of _ "ev_recorded_at e"])
       (auto simp: finding_project_retest_recorded_def record_retest_def json_simps row_of_eq dest: row_get_SomeD split: if_splits)
qed

lemma close_finding_Inr:
  assumes "close_finding t f decision text at ai s = Inr s'"
  shows "(\<exists>now. findings s' = row_upd fi_id (fi_id f) (\<lambda>r. r\<lparr>fi_status := FClosed, fi_closure_decision := Some decision,
         fi_closure_note := text, fi_updated_at := now\<rparr>) (findings s)) \<and>
     finding_retests s' = finding_retests s \<and> control_tests s' = control_tests s \<and> fi_status f \<noteq> FClosed \<and> decision \<in> set finding_closure_decisions"
proof -
  obtain e where e: "ev_aggregate_id e = fi_id f"
    "ev_payload e = JObj [(''decision'', JStr decision), (''note'', JStr text)]"
    "finding_project_closed (s\<lparr>domain_events := domain_events s @ [e]\<rparr>) e = Inr s'"
    using assms by (auto simp: close_finding_def run_projector_def finding_projectors_def dest!: finding_append_Inr split: if_splits)
  then show ?thesis using assms
    by (intro conjI exI [of _ "ev_recorded_at e"]) (auto simp: finding_project_closed_def close_finding_def json_simps split: if_splits)
qed

section \<open>Histories\<close>

lemma finding_run_append: "finding_run u xs v \<Longrightarrow> finding_run v ys w \<Longrightarrow> finding_run u (xs @ ys) w"
  by (induction rule: finding_run.induct) (auto intro: finding_run.intros)

lemma finding_run_single: "finding_step v a w \<Longrightarrow> finding_run v [a] w"
  by (auto intro: finding_run.intros)

text \<open>An assignment to the row of a finding moves the view of that finding and no other.\<close>

lemma view_of_upd:
  assumes "row_get fi_id j (findings s) = Some f" "findings s' = row_upd fi_id j g (findings s)" "\<And>r. fi_id (g r) = fi_id r"
  shows "view_of k s' = (if j = k then finding_view (g f) else view_of k s) \<and> view_of j s = finding_view f"
  using assms by (auto simp: view_of_def row_get_upd)

lemma row_get_key: "row_get key k rows = Some r \<Longrightarrow> key r = k"
  by (drule row_get_SomeD) simp

lemma finding_exec_step:
  assumes "finding_exec c s = Inr s'"
  shows "finding_run (view_of k s) (actions_on k (snd (snd (snd c))) s) (view_of k s')"
proof (cases c)
  case (fields t at ai r)
  then have ok: "finding_exec (t, at, ai, r) s = Inr s'" using assms by simp
  have "finding_run (view_of k s) (actions_on k r s) (view_of k s')"
  proof (cases r)
    case (Open_finding j a)
    then have "open_finding t j a at ai s = Inr s'" using ok by simp
    from open_finding_Inr [OF this] obtain e x where s': "findings s' = findings s @ [x]" "fi_id x = j" "finding_view x = (Open, None)"
      "row_get fi_id j (findings s) = None"
      by (auto simp: finding_view_def row_get_None_iff)
    then show ?thesis using Open_finding by (auto simp: view_of_def row_get_append split: option.splits)
  next
    case (Update_finding j msg linked)
    then obtain f where f: "row_get fi_id j (findings s) = Some f" "record_remediation_update t f msg linked at ai s = Inr s'"
      using ok by auto
    obtain now where s': "findings s' = row_upd fi_id (fi_id f) (\<lambda>r. r\<lparr>fi_status := (if fi_status r = Open then Remediating else fi_status r),
        fi_updated_at := now\<rparr>) (findings s)" "fi_status f \<noteq> FClosed"
      using record_remediation_update_Inr [OF f(2)] by blast
    show ?thesis using view_of_upd [OF f(1) s'(1) [unfolded row_get_key [OF f(1)]], of k] s'(2) Update_finding
      by (cases "fi_status f") (auto simp: finding_view_def intro!: finding_run_single finding_step.intros)
  next
    case (Request_retest j)
    then obtain f where f: "row_get fi_id j (findings s) = Some f" "request_retest t f at ai s = Inr s'"
      using ok by auto
    obtain now where s': "findings s' = row_upd fi_id (fi_id f) (\<lambda>r. r\<lparr>fi_status := Retesting, fi_updated_at := now\<rparr>) (findings s)"
      "fi_status f = Remediating"
      using request_retest_Inr [OF f(2)] by blast
    show ?thesis using view_of_upd [OF f(1) s'(1) [unfolded row_get_key [OF f(1)]], of k] s'(2) Request_retest
      by (auto simp: finding_view_def intro!: finding_run_single finding_step.intros)
  next
    case (Record_retest j tid)
    then obtain f test where f: "row_get fi_id j (findings s) = Some f" "row_get ct_id tid (control_tests s) = Some test"
      "record_retest t f test at ai s = Inr s'" using ok by auto
    obtain now where s': "findings s' = row_upd fi_id (fi_id f) (\<lambda>r. r\<lparr>fi_status := (if ct_result test = ''exceptions_noted''
        then Remediating else Retesting), fi_updated_at := now\<rparr>) (findings s)" "fi_status f = Retesting"
      using record_retest_Inr [OF f(3)] by blast
    show ?thesis using view_of_upd [OF f(1) s'(1) [unfolded row_get_key [OF f(1)]], of k] s'(2) Record_retest f(2)
      by (auto simp: finding_view_def intro!: finding_run_single finding_step.intros)
  next
    case (Close_finding j d msg)
    then obtain f where f: "row_get fi_id j (findings s) = Some f" "close_finding t f d msg at ai s = Inr s'"
      using ok by auto
    obtain now where s': "findings s' = row_upd fi_id (fi_id f) (\<lambda>r. r\<lparr>fi_status := FClosed, fi_closure_decision := Some d,
        fi_closure_note := msg, fi_updated_at := now\<rparr>) (findings s)" "fi_status f \<noteq> FClosed"
      "d \<in> set finding_closure_decisions"
      using close_finding_Inr [OF f(2)] by blast
    show ?thesis using view_of_upd [OF f(1) s'(1) [unfolded row_get_key [OF f(1)]], of k] s'(2,3) Close_finding
      by (auto simp: finding_view_def intro!: finding_run_single finding_step.intros)
  qed
  then show ?thesis using fields by simp
qed

lemma finding_history_run:
  "rfold (\<lambda>s c. finding_exec c s) cs s = Inr s' \<Longrightarrow> finding_run (view_of k s) (finding_trace k cs s) (view_of k s')"
proof (induction cs arbitrary: s)
  case (Cons c cs)
  then obtain s1 where s1: "finding_exec c s = Inr s1" "rfold (\<lambda>s c. finding_exec c s) cs s1 = Inr s'" by auto
  show ?case using finding_run_append [OF finding_exec_step [OF s1(1)] Cons.IH [OF s1(2)]] s1(1) by simp
qed simp

text \<open>Every request but the opening is an assignment to the row of a finding that is not closed.\<close>

lemma finding_exec_effect:
  assumes ok: "finding_exec c s = Inr s'"
  obtains (opened) r where "findings s' = findings s @ [r]" "finding_retests s' = finding_retests s"
      "\<not> has_row fi_id (fi_id r) (findings s)"
  | (moved) j f g where "row_get fi_id j (findings s) = Some f" "fi_status f \<noteq> FClosed"
      "findings s' = row_upd fi_id j g (findings s)" "\<And>r. fi_id (g r) = fi_id r"
      "\<And>r. fi_source_test_id (g r) = fi_source_test_id r" "\<And>r. fi_control_id (g r) = fi_control_id r"
proof (cases "(c, s)" rule: finding_exec.cases)
  case (1 t at ai k a)
  then have "open_finding t k a at ai s = Inr s'" using ok by simp
  from open_finding_Inr [OF this] opened show ?thesis by auto
next
  case (2 t at ai k msg linked)
  then obtain f where f: "row_get fi_id k (findings s) = Some f" "record_remediation_update t f msg linked at ai s = Inr s'"
    using ok by auto
  from record_remediation_update_Inr [OF f(2), unfolded row_get_key [OF f(1)]] show ?thesis
    by (elim conjE exE) (rule moved [OF f(1)], simp, assumption, simp_all)
next
  case (3 t at ai k)
  then obtain f where f: "row_get fi_id k (findings s) = Some f" "request_retest t f at ai s = Inr s'" using ok by auto
  from request_retest_Inr [OF f(2), unfolded row_get_key [OF f(1)]] show ?thesis
    by (elim conjE exE) (rule moved [OF f(1)], simp, assumption, simp_all)
next
  case (4 t at ai k test_id)
  then obtain f test where f: "row_get fi_id k (findings s) = Some f" "record_retest t f test at ai s = Inr s'" using ok by auto
  from record_retest_Inr [OF f(2), unfolded row_get_key [OF f(1)]] show ?thesis
    by (elim conjE exE) (rule moved [OF f(1)], simp, assumption, simp_all)
next
  case (5 t at ai k d msg)
  then obtain f where f: "row_get fi_id k (findings s) = Some f" "close_finding t f d msg at ai s = Inr s'" using ok by auto
  from close_finding_Inr [OF f(2), unfolded row_get_key [OF f(1)]] show ?thesis
    by (elim conjE exE) (rule moved [OF f(1)], simp, assumption, simp_all)
qed

lemma finding_exec_closed:
  assumes ok: "finding_exec c s = Inr s'" and f: "row_get fi_id k (findings s) = Some f" "fi_status f = FClosed"
  shows "row_get fi_id k (findings s') = Some f"
  using ok
proof (cases rule: finding_exec_effect)
  case (opened r)
  then show ?thesis using f by (simp add: row_get_append)
next
  case (moved j f' g)
  then have "j \<noteq> k" using f by auto
  then show ?thesis using f(1) moved(3,4) by (simp add: row_get_upd)
qed

definition finding_stamp :: "finding_call \<Rightarrow> datetime" where
  "finding_stamp c = t_now (fst c)"

lemma finding_append_sync:
  "in_sync finding_projectors ''finding'' reset_findings s \<Longrightarrow>
     recorded_by ''finding'' seen (domain_events s) \<Longrightarrow> seen < t_now t \<Longrightarrow>
     finding_append t (event_command ''finding'' k et p at ai) s = Inr s' \<Longrightarrow>
     in_sync finding_projectors ''finding'' reset_findings s' \<and> recorded_by ''finding'' (t_now t) (domain_events s')"
  by (auto simp: finding_append_def dest: finding.sync_append)

lemma finding_exec_sync:
  assumes sync: "in_sync finding_projectors ''finding'' reset_findings s"
    and rec: "recorded_by ''finding'' seen (domain_events s)" and clock: "seen < finding_stamp c"
    and ok: "finding_exec c s = Inr s'"
  shows "in_sync finding_projectors ''finding'' reset_findings s' \<and>
         recorded_by ''finding'' (finding_stamp c) (domain_events s')"
  using ok clock finding_append_sync [OF sync rec]
  by (cases "(c, s)" rule: finding_exec.cases)
     (auto simp: open_finding_def record_remediation_update_def request_retest_def record_retest_def close_finding_def
        finding_stamp_def split: if_splits)

interpretation finding_domain: projected_domain finding_projectors "''finding''" reset_findings finding_exec
  finding_stamp finding_stamp "\<lambda>_. True" "\<lambda>s. Inr (reset_findings s)" "\<lambda>_. True" "\<lambda>s. s"
  by unfold_locales (auto dest: finding_exec_sync)

section \<open>Retest lineage\<close>

definition lineage_ok :: "finding \<Rightarrow> control_test \<Rightarrow> bool" where
  "lineage_ok f t =
     (case fi_source_test_id f of
        Some k \<Rightarrow> ct_retest_of_test_id t = Some k
      | None \<Rightarrow> (case fi_control_id f of None \<Rightarrow> True | Some c \<Rightarrow> ct_control_id t = c))"

definition retests_ok :: "db \<Rightarrow> bool" where
  "retests_ok s =
     list_all (\<lambda>x. list_ex (\<lambda>f. fi_id f = ft_finding_id x \<and>
        list_ex (\<lambda>t. ct_id t = ft_test_id x \<and> lineage_ok f t) (control_tests s)) (findings s)) (finding_retests s)"

definition assurance_exec :: "db \<Rightarrow> finding_call + test_request \<Rightarrow> db result" where
  "assurance_exec s r = (case r of Inl c \<Rightarrow> finding_exec c s | Inr q \<Rightarrow> test_exec q s)"

text \<open>Requests only add tests and findings; the assignments to a finding keep what the lineage reads.\<close>

lemma retests_ok_grow:
  assumes ok: "retests_ok s" and "set (control_tests s) \<subseteq> set (control_tests s')"
    and "finding_retests s' = finding_retests s"
    and same: "\<And>f. f \<in> set (findings s) \<Longrightarrow> \<exists>f'\<in>set (findings s'). fi_id f' = fi_id f \<and> (\<forall>t. lineage_ok f' t = lineage_ok f t)"
  shows "retests_ok s'"
  unfolding retests_ok_def list_all_iff list_ex_iff
proof
  fix x assume "x \<in> set (finding_retests s')"
  then have "x \<in> set (finding_retests s)" using assms(3) by simp
  then obtain f t where f: "f \<in> set (findings s)" "fi_id f = ft_finding_id x" and t: "t \<in> set (control_tests s)"
    "ct_id t = ft_test_id x" "lineage_ok f t"
    using ok unfolding retests_ok_def list_all_iff list_ex_iff by blast
  obtain f' where "f' \<in> set (findings s')" "fi_id f' = fi_id f" "lineage_ok f' t" using same [OF f(1)] t(3) by blast
  then show "\<exists>f\<in>set (findings s'). fi_id f = ft_finding_id x \<and> (\<exists>t\<in>set (control_tests s'). ct_id t = ft_test_id x \<and> lineage_ok f t)"
    using f(2) t assms(2) by auto
qed

lemma retests_ok_upd:
  assumes "retests_ok s" "set (control_tests s) \<subseteq> set (control_tests s')" "finding_retests s' = finding_retests s"
    and "findings s' = row_upd fi_id j g (findings s)" "\<And>r. fi_id (g r) = fi_id r" "\<And>r t. lineage_ok (g r) t = lineage_ok r t"
  shows "retests_ok s'"
proof (rule retests_ok_grow [OF assms(1-3)])
  fix f assume "f \<in> set (findings s)"
  then have "(if fi_id f = j then g f else f) \<in> set (findings s')" by (auto simp: assms(4) set_row_upd)
  then show "\<exists>f'\<in>set (findings s'). fi_id f' = fi_id f \<and> (\<forall>t. lineage_ok f' t = lineage_ok f t)"
    by (rule bexI [rotated]) (simp add: assms(5,6))
qed

lemma test_append_findings:
  assumes "test_append t c s = Inr s'"
  shows "findings s' = findings s \<and> finding_retests s' = finding_retests s"
proof -
  obtain e created s1 where a: "append_event_with_created_flag [] t c s = Inr (e, created, s1)"
    and s': "if created then run_projector control_test_projectors s1 e = Inr s' else s' = s1"
    using assms by (auto simp: test_append_def append_and_project_def split: if_splits)
  obtain zs where s1: "s1 = s\<lparr>domain_events := domain_events s @ zs\<rparr>" using append_flag_extends [OF a] by blast
  show ?thesis
  proof (cases created)
    case True
    then obtain p where p: "control_test_projectors (ev_event_type e) = Some p" "p s1 e = Inr s'"
      using s' by (auto simp: run_projector_def split: option.splits)
    show ?thesis by (rule test_projector_frame [OF p]) (simp add: s1 tests_writes_def)
  qed (use s' s1 in simp)
qed

lemma link_keeps_tests:
  assumes "link_test_evidence t test v at ai s = Inr s'"
  shows "control_tests s' = control_tests s"
  using assms
  by (auto simp: link_test_evidence_def run_projector_def control_test_projectors_def test_project_evidence_linked_def
      Let_def dest!: test_append_Inr split: if_splits)

lemma test_exec_lineage:
  assumes ok: "test_exec r s = Inr s'"
  shows "findings s' = findings s \<and> finding_retests s' = finding_retests s \<and> set (control_tests s) \<subseteq> set (control_tests s')"
proof (cases r)
  case (Record_test t new_id c sample period retest a at ai)
  then obtain control b where "record_test t new_id control b at ai s = Inr s'" using ok by auto
  from record_Inr [OF this] show ?thesis by auto
next
  case (Link_test t test v at ai)
  then show ?thesis using ok link_keeps_tests test_append_findings by (auto simp: link_test_evidence_def)
qed (use ok freeze_Inr draw_Inr in \<open>auto dest!: freeze_Inr draw_Inr\<close>)

lemma finding_exec_tests: "finding_exec c s = Inr s' \<Longrightarrow> control_tests s' = control_tests s"
  by (cases "(c, s)" rule: finding_exec.cases)
     (auto dest!: open_finding_Inr record_remediation_update_Inr request_retest_Inr record_retest_Inr close_finding_Inr)

lemma finding_exec_retests:
  assumes "finding_exec c s = Inr s'"
  shows "finding_retests s' = finding_retests s \<or>
    (\<exists>f t. f \<in> set (findings s) \<and> t \<in> set (control_tests s) \<and> lineage_ok f t \<and>
       finding_retests s' = finding_retests s @ [\<lparr>ft_finding_id = fi_id f, ft_test_id = ct_id t\<rparr>])"
proof (cases "(c, s)" rule: finding_exec.cases)
  case (4 t at ai k test_id)
  then obtain f test where f: "row_get fi_id k (findings s) = Some f" "row_get ct_id test_id (control_tests s) = Some test"
    "record_retest t f test at ai s = Inr s'" using assms by auto
  have "lineage_ok f test" using record_retest_Inr [OF f(3)] by (auto simp: lineage_ok_def split: option.splits)
  then show ?thesis using record_retest_Inr [OF f(3)] row_get_SomeD [OF f(1)] row_get_SomeD [OF f(2)] by blast
qed (use assms in \<open>auto dest!: open_finding_Inr record_remediation_update_Inr request_retest_Inr close_finding_Inr\<close>)

lemma finding_exec_keeps:
  assumes "finding_exec c s = Inr s'" and "f \<in> set (findings s)"
  shows "\<exists>f'\<in>set (findings s'). fi_id f' = fi_id f \<and> (\<forall>t. lineage_ok f' t = lineage_ok f t)"
  using assms(1)
proof (cases rule: finding_exec_effect)
  case (moved j f0 g)
  have "(if fi_id f = j then g f else f) \<in> set (findings s')" using assms(2) by (auto simp: moved(3) set_row_upd)
  then show ?thesis by (rule bexI [rotated]) (simp add: moved(4-6) lineage_ok_def split: option.splits)
qed (use assms(2) in auto)

lemma finding_exec_lineage:
  assumes inv: "retests_ok s" and ok: "finding_exec c s = Inr s'"
  shows "retests_ok s'"
proof -
  note keeps = finding_exec_keeps [OF ok] finding_exec_tests [OF ok]
  have old: "retests_ok (s'\<lparr>finding_retests := finding_retests s\<rparr>)"
    by (rule retests_ok_grow [OF inv]) (use keeps in auto)
  from finding_exec_retests [OF ok] show ?thesis
  proof (elim disjE exE conjE)
    assume "finding_retests s' = finding_retests s"
    then show ?thesis using old by (simp add: retests_ok_def)
  next
    fix f t assume new: "f \<in> set (findings s)" "t \<in> set (control_tests s)" "lineage_ok f t"
      "finding_retests s' = finding_retests s @ [\<lparr>ft_finding_id = fi_id f, ft_test_id = ct_id t\<rparr>]"
    obtain f' where "f' \<in> set (findings s')" "fi_id f' = fi_id f" "lineage_ok f' t" using keeps(1) [OF new(1)] new(3) by blast
    then show ?thesis using old new keeps(2) by (auto simp: retests_ok_def list_ex_iff)
  qed
qed

lemma assurance_exec_lineage:
  assumes "assurance_exec s r = Inr s'" and "retests_ok s"
  shows "retests_ok s'"
proof (cases r)
  case (Inl c)
  then show ?thesis using assms by (auto simp: assurance_exec_def intro: finding_exec_lineage)
next
  case (Inr q)
  then have "test_exec q s = Inr s'" using assms(1) by (simp add: assurance_exec_def)
  from test_exec_lineage [OF this] show ?thesis by (intro retests_ok_grow [OF assms(2)]) auto
qed

section \<open>Properties of the finding lifecycle\<close>

definition demo_finding_args :: finding_args where
  "demo_finding_args = \<lparr>fa_title = ''late'', fa_description = [], fa_severity = ''high'', fa_control_id = Some ''c'',
     fa_source_test_id = Some ''t1'', fa_owner_person_id = None, fa_due_date = Some (Date 2026 9 1)\<rparr>"

definition demo_call :: "int \<Rightarrow> finding_request \<Rightarrow> finding_call" where
  "demo_call n r = (demo_tick n, ''user'', None, r)"

definition demo_plain_args :: test_args where
  "demo_plain_args = demo_test_args\<lparr>tt_result := ''no_exceptions'', tt_exceptions := []\<rparr>"

text \<open>A test with exceptions, its passing retest, and the finding between them.\<close>

definition demo_tests :: "test_request list" where
  "demo_tests =
     [Record_test (demo_tick 1) ''t1'' ''c'' None None None (demo_test_args\<lparr>tt_exceptions := []\<rparr>) ''user'' None,
      Record_test (demo_tick 2) ''t2'' ''c'' None None (Some ''t1'') demo_plain_args ''user'' None]"

definition demo_finding_calls :: "finding_call list" where
  "demo_finding_calls =
     [demo_call 3 (Open_finding ''f'' demo_finding_args), demo_call 4 (Update_finding ''f'' ''fixing'' None),
      demo_call 5 (Request_retest ''f''), demo_call 6 (Record_retest ''f'' ''t2''),
      demo_call 7 (Close_finding ''f'' ''remediated_and_retested'' [])]"

definition demo_findings_db :: "db result" where
  "demo_findings_db = rfold (\<lambda>s r. test_exec r s) demo_tests demo_assurance_db"

lemma demo_finding_history:
  "case demo_findings_db of Inl _ \<Rightarrow> False
   | Inr s \<Rightarrow> findings s = [] \<and> finding_retests s = [] \<and> finding_remediation_updates s = [] \<and> in_sync finding_projectors ''finding'' reset_findings s \<and>
      recorded_by ''finding'' (Datetime (Date 2026 8 20) 0) (domain_events s) \<and>
      (case rfold (\<lambda>s c. finding_exec c s) demo_finding_calls s of
         Inl _ \<Rightarrow> False
       | Inr s' \<Rightarrow> map finding_view (findings s') = [(FClosed, Some ''remediated_and_retested'')] \<and>
           finding_trace ''f'' demo_finding_calls s =
             [Remediation_update, Retest_request, Retest_result ''no_exceptions'', Closure ''remediated_and_retested''] \<and>
           map fi_id (findings s') = [''f''] \<and>
           (case rfold (\<lambda>s c. finding_exec c s) [demo_call 8 (Open_finding ''g'' demo_finding_args)] s' of
              Inl _ \<Rightarrow> False | Inr s2 \<Rightarrow> map fi_id (findings s2) = [''f'', ''g'']))"
  by code_simp

lemma demo_finding_states:
  obtains s s' s2 where "demo_findings_db = Inr s" "findings s = []" "finding_retests s = []"
    "in_sync finding_projectors ''finding'' reset_findings s" "recorded_by ''finding'' (Datetime (Date 2026 8 20) 0) (domain_events s)"
    "rfold (\<lambda>s c. finding_exec c s) demo_finding_calls s = Inr s'"
    "map finding_view (findings s') = [(FClosed, Some ''remediated_and_retested'')]" "map fi_id (findings s') = [''f'']"
    "finding_trace ''f'' demo_finding_calls s =
       [Remediation_update, Retest_request, Retest_result ''no_exceptions'', Closure ''remediated_and_retested'']"
    "rfold (\<lambda>s c. finding_exec c s) [demo_call 8 (Open_finding ''g'' demo_finding_args)] s' = Inr s2"
  using demo_finding_history by (auto split: sum.splits simp del: rfold.simps)

text \<open>
  C13. The lifecycle is the documented machine. Whatever history of requests is served, the
  status and the closure decision of every finding are the result of running the machine
  on exactly the actions that were requested for it: remediation starts with the first
  update, a retest is requested only while remediating, a failed retest goes back to
  remediation, and a passed retest stays in retesting.
\<close>

theorem finding_lifecycle:
  assumes "rfold (\<lambda>s c. finding_exec c s) cs s = Inr s'"
  shows "finding_run (view_of k s) (finding_trace k cs s) (view_of k s')"
  by (rule finding_history_run [OF assms])

lemma finding_lifecycle_witness:
  "finding_run (Open, None)
     [Remediation_update, Retest_request, Retest_result ''no_exceptions'', Closure ''remediated_and_retested'']
     (FClosed, Some ''remediated_and_retested'')"
proof -
  obtain s s' where s: "findings s = []" "rfold (\<lambda>s c. finding_exec c s) demo_finding_calls s = Inr s'"
    "map finding_view (findings s') = [(FClosed, Some ''remediated_and_retested'')]" "map fi_id (findings s') = [''f'']"
    "finding_trace ''f'' demo_finding_calls s =
       [Remediation_update, Retest_request, Retest_result ''no_exceptions'', Closure ''remediated_and_retested'']"
    by (rule demo_finding_states)
  then have "view_of ''f'' s = (Open, None)" "view_of ''f'' s' = (FClosed, Some ''remediated_and_retested'')"
    by (auto simp: view_of_def)
  then show ?thesis using finding_lifecycle [OF s(2), of "''f''"] s(5) by simp
qed

text \<open>
  C14. Closure is explicit and final. A finding that was not closed before a history and is
  closed after it was closed by the last request made on it, an explicit closure with one
  of the allowed decisions, which is the decision on its row; no retest result closes it.
  From then on no request of any kind changes its row.
\<close>

theorem finding_closure:
  assumes "fst (view_of k s) \<noteq> FClosed"
    and "rfold (\<lambda>s c. finding_exec c s) cs s = Inr s1" and "row_get fi_id k (findings s1) = Some f" and "fi_status f = FClosed"
    and "rfold (\<lambda>s c. finding_exec c s) ds s1 = Inr s2"
  shows "(\<exists>xs d. finding_trace k cs s = xs @ [Closure d] \<and> (\<forall>y. Closure y \<notin> set xs) \<and>
            d \<in> set finding_closure_decisions \<and> fi_closure_decision f = Some d) \<and>
         row_get fi_id k (findings s2) = Some f"
proof
  have "view_of k s1 = (FClosed, fi_closure_decision f)" using assms(3,4) by (simp add: view_of_def finding_view_def)
  then have "finding_run (view_of k s) (finding_trace k cs s) (FClosed, fi_closure_decision f)"
    using finding_history_run [OF assms(2), of k] by simp
  from finding_run_into_closed [OF this assms(1)]
  show "\<exists>xs d. finding_trace k cs s = xs @ [Closure d] \<and> (\<forall>y. Closure y \<notin> set xs) \<and>
          d \<in> set finding_closure_decisions \<and> fi_closure_decision f = Some d" by blast
  show "row_get fi_id k (findings s2) = Some f"
    by (rule rfold_invariant [OF assms(5)]) (use assms(3,4) in \<open>auto intro: finding_exec_closed\<close>)
qed

lemma finding_closure_witness:
  "\<exists>s s' s2 f. rfold (\<lambda>s c. finding_exec c s) demo_finding_calls s = Inr s' \<and>
     rfold (\<lambda>s c. finding_exec c s) [demo_call 8 (Open_finding ''g'' demo_finding_args)] s' = Inr s2 \<and>
     row_get fi_id ''f'' (findings s2) = Some f \<and> fi_closure_decision f = Some ''remediated_and_retested''"
proof -
  obtain s s' s2 where s: "findings s = []" "rfold (\<lambda>s c. finding_exec c s) demo_finding_calls s = Inr s'"
    "map finding_view (findings s') = [(FClosed, Some ''remediated_and_retested'')]" "map fi_id (findings s') = [''f'']"
    "rfold (\<lambda>s c. finding_exec c s) [demo_call 8 (Open_finding ''g'' demo_finding_args)] s' = Inr s2"
    by (rule demo_finding_states)
  then obtain f where f: "row_get fi_id ''f'' (findings s') = Some f" "fi_status f = FClosed"
    "fi_closure_decision f = Some ''remediated_and_retested''" by (auto simp: finding_view_def)
  have "fst (view_of ''f'' s) \<noteq> FClosed" using s(1) by (simp add: view_of_def)
  then have "row_get fi_id ''f'' (findings s2) = Some f" using finding_closure [OF _ s(2) f(1,2) s(5)] by blast
  then show ?thesis using s(2,5) f(3) by blast
qed

text \<open>
  Retest lineage. In every history of testing and finding requests, interleaved in any
  order, each recorded retest belongs to an existing finding and an existing test, and the
  test is a retest of the very test the finding came from, or, for a finding without a
  source test, a test of the control the finding names.
\<close>

theorem retest_lineage:
  assumes "retests_ok s" and "rfold assurance_exec rs s = Inr s'"
  shows "retests_ok s'"
  using assms(2,1) by (rule rfold_invariant) (auto intro: assurance_exec_lineage)

lemma retest_lineage_witness:
  "\<exists>s'. rfold assurance_exec (map Inr demo_tests @ map Inl demo_finding_calls) demo_assurance_db = Inr s' \<and>
        retests_ok s' \<and> finding_retests s' = [\<lparr>ft_finding_id = ''f'', ft_test_id = ''t2''\<rparr>]"
proof -
  have "case rfold assurance_exec (map Inr demo_tests @ map Inl demo_finding_calls) demo_assurance_db of
      Inl _ \<Rightarrow> False | Inr s' \<Rightarrow> finding_retests s' = [\<lparr>ft_finding_id = ''f'', ft_test_id = ''t2''\<rparr>]" by code_simp
  then obtain s' where s': "rfold assurance_exec (map Inr demo_tests @ map Inl demo_finding_calls) demo_assurance_db = Inr s'"
    "finding_retests s' = [\<lparr>ft_finding_id = ''f'', ft_test_id = ''t2''\<rparr>]"
    by (auto split: sum.splits simp del: rfold.simps)
  have "retests_ok demo_assurance_db"
    by (simp add: retests_ok_def demo_assurance_db_def demo_control_db_def empty_db_def)
  then show ?thesis using retest_lineage [OF _ s'(1)] s' by blast
qed

text \<open>
  The findings are a projection. After any history under a clock that moves forward the
  rebuild of the findings succeeds and gives back exactly the same database.
\<close>

theorem finding_rebuild:
  assumes "in_sync finding_projectors ''finding'' reset_findings s"
    and "recorded_by ''finding'' seen (domain_events s)"
    and "clock_runs finding_stamp finding_stamp (\<lambda>_. True) seen cs"
    and "rfold (\<lambda>s c. finding_exec c s) cs s = Inr s'"
  shows "rebuild_finding_projection s' = Inr s'"
  unfolding rebuild_finding_projection_def
  using finding_domain.rebuild_after_history [OF assms TrueI] by simp

lemma finding_rebuild_witness:
  "\<exists>s s'. rfold (\<lambda>s c. finding_exec c s) demo_finding_calls s = Inr s' \<and> findings s' \<noteq> [] \<and>
        rebuild_finding_projection s' = Inr s'"
proof -
  obtain s s' where s: "in_sync finding_projectors ''finding'' reset_findings s" "recorded_by ''finding'' (Datetime (Date 2026 8 20) 0) (domain_events s)"
    "rfold (\<lambda>s c. finding_exec c s) demo_finding_calls s = Inr s'" "map fi_id (findings s') = [''f'']"
    by (rule demo_finding_states)
  have "clock_runs finding_stamp finding_stamp (\<lambda>_. True) (Datetime (Date 2026 8 20) 0) demo_finding_calls" by code_simp
  then have "rebuild_finding_projection s' = Inr s'" by (rule finding_rebuild [OF s(1,2) _ s(3)])
  moreover have "findings s' \<noteq> []" using s(4) by auto
  ultimately show ?thesis by (intro exI conjI) (rule s(3) | assumption)+
qed

end
