(* ===== verification/File_Storage.thy ===== *)
theory File_Storage
  imports Py_Time
begin

text \<open>
  \<open>src/app/storage.py\<close>, \<open>src/app/uploads.py\<close> and the local half of \<open>src/app/object_storage.py\<close>:
  bounded chunked reads, the staging of an upload in a temporary file, content sniffing, and
  the move of a validated policy document to its immutable place. A file system is a map from
  paths to contents; directories hold nothing of their own. An operation returns its result
  together with the file system it leaves, also when it raises. SHA-256 and the listing of a
  zip archive are parameters.
\<close>

section \<open>Chunks\<close>

type_synonym files = "string \<rightharpoonup> string"

definition chunk_size :: nat where
  "chunk_size = 1024 * 1024"

text \<open>
  \<open>while chunk := upload.file.read(n)\<close>: read until an empty chunk. The size is at least one
  here, as it is in the code; for zero the Python loop ends at once.
\<close>

function iter_upload_chunks :: "nat \<Rightarrow> string \<Rightarrow> string list" where
  "iter_upload_chunks n raw =
     (if n = 0 \<or> raw = [] then [] else take n raw # iter_upload_chunks n (drop n raw))"
  by pat_completeness auto
termination by (relation "measure (\<lambda>(n, raw). length raw)") auto

declare iter_upload_chunks.simps [simp del]

text \<open>\<open>for offset in range(0, len(raw), n)\<close>: the slices at the multiples of the chunk size.\<close>

definition iter_bytes_chunks :: "nat \<Rightarrow> string \<Rightarrow> string list" where
  "iter_bytes_chunks n raw =
     map (\<lambda>i. take n (drop (i * n) raw)) [0 ..< (length raw + n - 1) div n]"

lemma concat_iter_upload_chunks: "0 < n \<Longrightarrow> concat (iter_upload_chunks n raw) = raw"
proof (induction n raw rule: iter_upload_chunks.induct)
  case (1 n raw)
  then show ?case by (cases "raw = []") (simp_all add: iter_upload_chunks.simps [of n raw] iter_upload_chunks.simps [of n "[]"])
qed

lemma ceil_div_step: "0 < (n::nat) \<Longrightarrow> 0 < m \<Longrightarrow> (m + n - 1) div n = Suc ((m - n + n - 1) div n)"
proof (cases "n \<le> m")
  case False
  assume "0 < n" "0 < m"
  with False have "m + n - 1 = n + (m - 1)" "m - 1 < n" by auto
  then have "(m + n - 1) div n = Suc ((m - 1) div n)" "(m - 1) div n = 0" using \<open>0 < n\<close> by (simp_all only: div_add_self1 div_less) 
  then show ?thesis using False \<open>0 < n\<close> by simp
next
  case True
  assume "0 < n" "0 < m"
  with True have eq: "m + n - 1 = n + (m - n + n - 1)" by auto
  have "(n + (m - n + n - 1)) div n = Suc ((m - n + n - 1) div n)" using \<open>0 < n\<close> by (subst div_add_self1) simp_all
  then show ?thesis by (simp only: eq)
qed

lemma iter_bytes_chunks_step:
  assumes "0 < n" "raw \<noteq> []"
  shows "iter_bytes_chunks n raw = take n raw # iter_bytes_chunks n (drop n raw)"
proof -
  let ?k = "(length raw - n + n - 1) div n"
  have "(length raw + n - 1) div n = Suc ?k" using assms by (intro ceil_div_step) auto
  moreover have "[0..<Suc ?k] = 0 # map Suc [0..<?k]" by (simp only: upt_rec [of 0 "Suc ?k"] map_Suc_upt) simp
  ultimately show ?thesis by (simp add: iter_bytes_chunks_def o_def add.commute)
qed

text \<open>Both sources of chunks, the browser's upload and bytes in memory, give the same chunks.\<close>

lemma chunk_sources_agree: "0 < n \<Longrightarrow> iter_bytes_chunks n raw = iter_upload_chunks n raw"
proof (induction n raw rule: iter_upload_chunks.induct)
  case (1 n raw)
  show ?case
  proof (cases "raw = []")
    case True
    then show ?thesis using 1(2) by (simp add: iter_bytes_chunks_def iter_upload_chunks.simps)
  next
    case False
    then show ?thesis using 1 iter_bytes_chunks_step [of n raw] by (simp add: iter_upload_chunks.simps [of n raw])
  qed
qed

section \<open>Bounded reads\<close>

text \<open>
  The loop all three modules share: the size is checked before the chunk is kept, so nothing
  past the bound is ever written. The error carries nothing but the fixed text.
\<close>

fun bounded_write :: "nat \<Rightarrow> nat \<Rightarrow> string list \<Rightarrow> string \<Rightarrow> string result" where
  "bounded_write max_bytes seen [] written = Inr written"
| "bounded_write max_bytes seen (chunk # chunks) written =
     (let seen' = seen + length chunk
      in if seen' > max_bytes then Inl (ValueError ''File exceeds the maximum upload size.'')
         else bounded_write max_bytes seen' chunks (written @ chunk))"

lemma bounded_write_eq:
  "bounded_write m t cs w =
     (if cs = [] \<or> t + length (concat cs) \<le> m then Inr (w @ concat cs)
      else Inl (ValueError ''File exceeds the maximum upload size.''))"
proof (induction cs arbitrary: t w)
  case (Cons c cs)
  then show ?case by (cases "cs = []") (auto simp: Let_def)
qed simp

definition read_upload_bounded :: "nat \<Rightarrow> nat \<Rightarrow> string \<Rightarrow> string result" where
  "read_upload_bounded n max_bytes raw = bounded_write max_bytes 0 (iter_upload_chunks n raw) []"

section \<open>Names\<close>

definition nul :: char where
  "nul = char_of (0 :: nat)"

definition is_alnum :: "char \<Rightarrow> bool" where
  "is_alnum c = (let n = of_char c :: nat in 48 \<le> n \<and> n \<le> 57 \<or> 65 \<le> n \<and> n \<le> 90 \<or> 97 \<le> n \<and> n \<le> 122)"

text \<open>\<open>os.path.basename\<close>: what follows the last slash.\<close>

definition basename :: "string \<Rightarrow> string" where
  "basename p = rev (takeWhile (\<lambda>c. c \<noteq> CHR ''/'') (rev p))"

definition filename_char :: "char \<Rightarrow> bool" where
  "filename_char c = (is_alnum c \<or> c = CHR ''.'' \<or> c = CHR ''_'' \<or> c = CHR '' '' \<or> c = CHR ''-'')"

definition sanitize_original_filename :: "string \<Rightarrow> string" where
  "sanitize_original_filename filename =
     (let base = strip (basename filename);
          base = filter (\<lambda>c. c \<noteq> nul) base;
          base = map (\<lambda>c. if filename_char c then c else CHR ''_'') base;
          cut = take 255 base
      in if cut = [] then ''file'' else cut)"

text \<open>\<open>filename.rpartition('.')[2].lower()\<close>: without a dot, the whole name.\<close>

definition extension_of :: "string \<Rightarrow> string" where
  "extension_of filename = lower (rev (takeWhile (\<lambda>c. c \<noteq> CHR ''.'') (rev filename)))"

text \<open>\<open>str(n)\<close> of an integer.\<close>

function str_nonneg :: "int \<Rightarrow> string" where
  "str_nonneg n = (if n < 10 then [digit_char n] else str_nonneg (n div 10) @ [digit_char n])"
  by pat_completeness auto
termination by (relation "measure nat") auto

declare str_nonneg.simps [simp del]

definition str_int :: "int \<Rightarrow> string" where
  "str_int n = (if n < 0 then ''-'' @ str_nonneg (- n) else str_nonneg n)"

text \<open>\<open>os.path.join\<close> of two parts; more parts join from the left.\<close>

definition path_join :: "string \<Rightarrow> string \<Rightarrow> string" where
  "path_join a b =
     (if b \<noteq> [] \<and> hd b = CHR ''/'' then b
      else if a = [] \<or> last a = CHR ''/'' then a @ b else a @ ''/'' @ b)"

definition policy_version_path :: "string \<Rightarrow> string \<Rightarrow> int \<Rightarrow> string \<Rightarrow> string" where
  "policy_version_path data_dir policy_id version_number stored_filename =
     path_join (path_join (path_join (path_join data_dir ''policies'') policy_id) (str_int version_number)) stored_filename"

definition object_key_for :: "string \<Rightarrow> string \<Rightarrow> string \<Rightarrow> string" where
  "object_key_for artifact_id version_id extension =
     (let alnum = take 16 (filter is_alnum extension)
      in ''evidence/'' @ artifact_id @ ''/'' @ version_id @ ''/content.'' @ (if alnum = [] then ''bin'' else alnum))"

section \<open>Content sniffing\<close>

definition looks_like_pdf :: "string \<Rightarrow> bool" where
  "looks_like_pdf content =
     (let header = dropWhile (\<lambda>c. c = nul) (take 1024 content) in take 5 header = ''%PDF-'')"

definition looks_like_png :: "string \<Rightarrow> bool" where
  "looks_like_png content = (take 8 content = map char_of [137, 80, 78, 71, 13, 10, 26, 10 :: nat])"

definition looks_like_jpeg :: "string \<Rightarrow> bool" where
  "looks_like_jpeg content = (take 3 content = map char_of [255, 216, 255 :: nat])"

text \<open>\<open>zip_names\<close> lists the names of an archive, or is None when the bytes are not a zip file.\<close>

definition looks_like_docx :: "(string \<Rightarrow> string list option) \<Rightarrow> string \<Rightarrow> bool" where
  "looks_like_docx zip_names content =
     (case zip_names content of None \<Rightarrow> False
      | Some names \<Rightarrow> ''word/document.xml'' \<in> set names \<and> ''[Content_Types].xml'' \<in> set names)"

definition policy_extensions :: "string \<rightharpoonup> string" where
  "policy_extensions =
     [''pdf'' \<mapsto> ''application/pdf'',
      ''docx'' \<mapsto> ''application/vnd.openxmlformats-officedocument.wordprocessingml.document'']"

definition validate_content :: "(string \<Rightarrow> string list option) \<Rightarrow> string \<Rightarrow> string \<Rightarrow> unit result" where
  "validate_content zip_names content extension =
     (if extension = ''pdf'' \<and> \<not> looks_like_pdf content
      then Inl (ValueError ''File does not look like a valid PDF.'')
      else if extension = ''docx'' \<and> \<not> looks_like_docx zip_names content
      then Inl (ValueError ''File does not look like a valid DOCX document.'')
      else Inr ())"

definition allowed_evidence_media_types :: "string \<rightharpoonup> string" where
  "allowed_evidence_media_types =
     [''pdf'' \<mapsto> ''application/pdf'',
      ''docx'' \<mapsto> ''application/vnd.openxmlformats-officedocument.wordprocessingml.document'',
      ''png'' \<mapsto> ''image/png'', ''jpg'' \<mapsto> ''image/jpeg'', ''jpeg'' \<mapsto> ''image/jpeg'', ''csv'' \<mapsto> ''text/csv'',
      ''txt'' \<mapsto> ''text/plain'', ''json'' \<mapsto> ''application/json'', ''log'' \<mapsto> ''text/plain'']"

definition sniffers :: "(string \<Rightarrow> string list option) \<Rightarrow> string \<rightharpoonup> (string \<Rightarrow> bool)" where
  "sniffers zip_names =
     [''pdf'' \<mapsto> looks_like_pdf, ''docx'' \<mapsto> looks_like_docx zip_names, ''png'' \<mapsto> looks_like_png,
      ''jpg'' \<mapsto> looks_like_jpeg, ''jpeg'' \<mapsto> looks_like_jpeg]"

definition validate_evidence_content :: "(string \<Rightarrow> string list option) \<Rightarrow> string \<Rightarrow> string \<Rightarrow> unit result" where
  "validate_evidence_content zip_names content extension =
     (case sniffers zip_names extension of
        None \<Rightarrow> Inr ()
      | Some looks_right \<Rightarrow>
          if looks_right content then Inr () else Inl (ObjectStorageError ''File does not look like a valid file.''))"

section \<open>Staging and storing\<close>

record captured_bytes =
  cb_tmp_path :: string
  cb_sha256 :: string
  cb_byte_size :: nat

text \<open>
  The temporary file exists from \<open>mkstemp\<close> on; every way out by an exception removes it.
\<close>

definition capture_chunks_to_temp_file ::
  "(string \<Rightarrow> string) \<Rightarrow> string \<Rightarrow> string list \<Rightarrow> nat \<Rightarrow> files \<Rightarrow> captured_bytes result \<times> files" where
  "capture_chunks_to_temp_file sha256 tmp_path chunks max_bytes fs =
     (case bounded_write max_bytes 0 chunks [] of
        Inl e \<Rightarrow> (Inl (ObjectStorageError ''File exceeds the maximum upload size.''), fs(tmp_path := None))
      | Inr content \<Rightarrow>
          (Inr \<lparr>cb_tmp_path = tmp_path, cb_sha256 = sha256 content, cb_byte_size = length content\<rparr>,
           fs(tmp_path \<mapsto> content)))"

definition capture_upload_bytes ::
  "(string \<Rightarrow> string) \<Rightarrow> nat \<Rightarrow> string \<Rightarrow> string \<Rightarrow> nat \<Rightarrow> files \<Rightarrow> captured_bytes result \<times> files" where
  "capture_upload_bytes sha256 n tmp_path upload max_bytes fs =
     capture_chunks_to_temp_file sha256 tmp_path (iter_upload_chunks n upload) max_bytes fs"

definition capture_raw_bytes ::
  "(string \<Rightarrow> string) \<Rightarrow> nat \<Rightarrow> string \<Rightarrow> string \<Rightarrow> nat \<Rightarrow> files \<Rightarrow> captured_bytes result \<times> files" where
  "capture_raw_bytes sha256 n tmp_path raw max_bytes fs =
     capture_chunks_to_temp_file sha256 tmp_path (iter_bytes_chunks n raw) max_bytes fs"

record stored_upload =
  su_stored_filename :: string
  su_media_type :: string
  su_byte_size :: nat
  su_sha256 :: string
  su_original_filename :: string

definition save_policy_version ::
  "(string \<Rightarrow> string) \<Rightarrow> (string \<Rightarrow> string list option) \<Rightarrow> string \<Rightarrow> string list \<Rightarrow> string \<Rightarrow> string \<Rightarrow> string \<Rightarrow> string \<Rightarrow>
   int \<Rightarrow> nat \<Rightarrow> files \<Rightarrow> stored_upload result \<times> files" where
  "save_policy_version sha256 zip_names tmp_path chunks original_filename extension data_dir policy_id
     version_number max_bytes fs =
     (case bounded_write max_bytes 0 chunks [] of
        Inl e \<Rightarrow> (Inl e, fs(tmp_path := None))
      | Inr content \<Rightarrow>
          (let staged = fs(tmp_path \<mapsto> content);
               stored_filename = ''document.'' @ extension;
               final_path = policy_version_path data_dir policy_id version_number stored_filename
           in case validate_content zip_names content extension of
                Inl e \<Rightarrow> (Inl e, staged(tmp_path := None))
              | Inr _ \<Rightarrow>
                  if staged final_path \<noteq> None
                  then (Inl (ValueError ''This version already has a stored file.''), staged(tmp_path := None))
                  else (case policy_extensions extension of
                          None \<Rightarrow> (Inl (KeyError extension), staged(tmp_path := None, final_path \<mapsto> content))
                        | Some media_type \<Rightarrow>
                            (Inr \<lparr>su_stored_filename = stored_filename, su_media_type = media_type,
                               su_byte_size = length content, su_sha256 = sha256 content,
                               su_original_filename = original_filename\<rparr>,
                             staged(tmp_path := None, final_path \<mapsto> content)))))"


definition save_policy_version_from_bytes ::
  "(string \<Rightarrow> string) \<Rightarrow> (string \<Rightarrow> string list option) \<Rightarrow> nat \<Rightarrow> string \<Rightarrow> string \<Rightarrow> string \<Rightarrow> string \<Rightarrow> string \<Rightarrow>
   int \<Rightarrow> nat \<Rightarrow> files \<Rightarrow> stored_upload result \<times> files" where
  "save_policy_version_from_bytes sha256 zip_names n tmp_path raw filename data_dir policy_id version_number max_bytes fs =
     (let original_filename = sanitize_original_filename filename;
          extension = extension_of original_filename
      in if policy_extensions extension = None then (Inl (ValueError ''Only PDF and DOCX files are accepted.''), fs)
         else save_policy_version sha256 zip_names tmp_path (iter_bytes_chunks n raw) original_filename extension
                data_dir policy_id version_number max_bytes fs)"

section \<open>Names\<close>




lemma takeWhile_until: "takeWhile P (xs @ y # ys) = xs \<longleftrightarrow> (\<forall>x\<in>set xs. P x) \<and> \<not> P y"
proof
  assume eq: "takeWhile P (xs @ y # ys) = xs"
  then have "\<forall>x\<in>set xs. P x" by (metis set_takeWhileD)
  with eq show "(\<forall>x\<in>set xs. P x) \<and> \<not> P y" by (auto simp: takeWhile_append split: if_splits)
qed (simp add: takeWhile_append2)

text \<open>A slash ends an id, so two keys agree only when their ids do.\<close>

lemma split_at_slash:
  assumes "CHR ''/'' \<notin> set a" "CHR ''/'' \<notin> set b" "a @ CHR ''/'' # x = b @ CHR ''/'' # y"
  shows "a = b \<and> x = y"
proof -
  have "takeWhile (\<lambda>c. c \<noteq> CHR ''/'') (a @ CHR ''/'' # x) = a" "takeWhile (\<lambda>c. c \<noteq> CHR ''/'') (b @ CHR ''/'' # y) = b"
    using assms(1,2) by (auto simp: takeWhile_until)
  then show ?thesis using assms(3) by auto
qed

lemma object_key_inject:
  assumes "CHR ''/'' \<notin> set a" "CHR ''/'' \<notin> set v" "CHR ''/'' \<notin> set a'" "CHR ''/'' \<notin> set v'"
    and "object_key_for a v e = object_key_for a' v' e'"
  shows "a = a' \<and> v = v'"
proof -
  have "a @ CHR ''/'' # (v @ CHR ''/'' # drop (Suc (length a) + Suc (length v)) (a @ CHR ''/'' # v @ CHR ''/'' # x)) =
        a @ CHR ''/'' # v @ CHR ''/'' # x" for x by simp
  then show ?thesis using assms(5) split_at_slash [OF assms(1,3)] split_at_slash [OF assms(2,4)]
    unfolding object_key_for_def Let_def by (metis (no_types, lifting) append_Cons append_Nil same_append_eq)
qed

section \<open>Properties of uploads\<close>

lemma bounded_write_chunks:
  assumes "0 < n"
  shows "bounded_write m 0 (iter_upload_chunks n raw) [] =
    (if length raw \<le> m then Inr raw else Inl (ValueError ''File exceeds the maximum upload size.''))"
proof -
  have "iter_upload_chunks n raw = [] \<longleftrightarrow> raw = []"
    using assms by (simp add: iter_upload_chunks.simps [of n raw])
  then show ?thesis using assms by (auto simp: bounded_write_eq concat_iter_upload_chunks)
qed

text \<open>
  C15. Bounded reads. Reading an upload in chunks returns exactly its bytes when they fit the
  limit and raises otherwise; the chunk size does not matter, and bytes in memory are cut
  into the same chunks as an upload.
\<close>

theorem bounded_read_exact:
  assumes "0 < n"
  shows "read_upload_bounded n max_bytes raw =
           (if length raw \<le> max_bytes then Inr raw else Inl (ValueError ''File exceeds the maximum upload size.'')) \<and>
         iter_bytes_chunks n raw = iter_upload_chunks n raw \<and> concat (iter_bytes_chunks n raw) = raw \<and>
         (\<forall>c\<in>set (iter_bytes_chunks n raw). c \<noteq> [] \<and> length c \<le> n)"
proof -
  have "\<forall>c\<in>set (iter_upload_chunks n raw). c \<noteq> [] \<and> length c \<le> n"
    by (induction n raw rule: iter_upload_chunks.induct) (subst iter_upload_chunks.simps, auto)
  then show ?thesis
    using assms by (simp add: read_upload_bounded_def bounded_write_chunks concat_iter_upload_chunks chunk_sources_agree)
qed

lemma bounded_read_exact_witness:
  "read_upload_bounded chunk_size 3 ''abcd'' = Inl (ValueError ''File exceeds the maximum upload size.'')"
  using bounded_read_exact [of chunk_size 3 "''abcd''"] by (simp add: chunk_size_def)



end
