(* ===== verification/Evidence_Repository.thy ===== *)
theory Evidence_Repository
  imports Findings File_Storage
begin

text \<open>
  \<open>src/app/evidence_repository.py\<close>, the S3 half of \<open>src/app/object_storage.py\<close> and the mutating
  routes of \<open>src/app/routers/evidence_artifacts.py\<close>: the capture of immutable evidence versions,
  whose bytes go to an object store before any row is written, and the projection of the
  version rows. The S3 client is a parameter: functions on an opaque store, with the laws the
  code relies on stated by \<open>s3_laws\<close>.
\<close>

section \<open>The object store\<close>

record 's3 s3_client =
  s3_put :: "string \<Rightarrow> string \<Rightarrow> string \<Rightarrow> string \<Rightarrow> 's3 \<Rightarrow> bool \<times> 's3"
  s3_delete :: "string \<Rightarrow> string \<Rightarrow> 's3 \<Rightarrow> bool \<times> 's3"
  s3_get :: "string \<Rightarrow> string \<Rightarrow> 's3 \<Rightarrow> string option"

text \<open>
  Documented behaviour of S3: a put that succeeds makes the object readable, one that fails
  leaves no trace, a delete that succeeds removes the object, and no call touches the
  objects under other keys.
\<close>

definition s3_laws :: "'s3 s3_client \<Rightarrow> string \<Rightarrow> bool" where
  "s3_laws c bucket \<longleftrightarrow>
     (\<forall>k x m b ok b'. s3_put c bucket k x m b = (ok, b') \<longrightarrow>
        s3_get c bucket k b' = (if ok then Some x else s3_get c bucket k b) \<and>
        (\<forall>j. j \<noteq> k \<longrightarrow> s3_get c bucket j b' = s3_get c bucket j b)) \<and>
     (\<forall>k b ok b'. s3_delete c bucket k b = (ok, b') \<longrightarrow>
        s3_get c bucket k b' = (if ok then None else s3_get c bucket k b) \<and>
        (\<forall>j. j \<noteq> k \<longrightarrow> s3_get c bucket j b' = s3_get c bucket j b))"

text \<open>The temporary file is read by the transfer; a client error is reported as an upload failure.\<close>

definition upload_object ::
  "'s3 s3_client \<Rightarrow> string \<Rightarrow> string \<Rightarrow> string \<Rightarrow> string \<Rightarrow> files \<Rightarrow> 's3 \<Rightarrow> unit result \<times> 's3" where
  "upload_object client bucket object_key tmp_path media_type fs b =
     (case fs tmp_path of
        None \<Rightarrow> (Inl OSError, b)
      | Some content \<Rightarrow>
          (case s3_put client bucket object_key content media_type b of
             (ok, b') \<Rightarrow> (if ok then Inr () else Inl (ObjectStorageError ''Evidence upload failed''), b')))"

definition delete_object :: "'s3 s3_client \<Rightarrow> string \<Rightarrow> string \<Rightarrow> 's3 \<Rightarrow> 's3" where
  "delete_object client bucket object_key b = snd (s3_delete client bucket object_key b)"

definition download_object :: "'s3 s3_client \<Rightarrow> string \<Rightarrow> string \<Rightarrow> 's3 \<Rightarrow> string result" where
  "download_object client bucket object_key b =
     (case s3_get client bucket object_key b of
        None \<Rightarrow> Inl (ObjectStorageError ''Evidence download failed'') | Some content \<Rightarrow> Inr content)"

section \<open>The projection\<close>

definition insert_evidence_artifact_version :: "evidence_artifact_version \<Rightarrow> db \<Rightarrow> db result" where
  "insert_evidence_artifact_version r s =
     (if has_row av_id (av_id r) (evidence_artifact_versions s) \<or>
         list_ex (\<lambda>x. av_artifact_id x = av_artifact_id r \<and> av_version_number x = av_version_number r)
           (evidence_artifact_versions s) \<or>
         \<not> has_row ea_id (av_artifact_id r) (evidence_artifacts s) \<or>
         \<not> fk_ok es_id (av_linked_evidence_snapshot_id r) (evidence_snapshots s)
      then Inl IntegrityError
      else Inr (s\<lparr>evidence_artifact_versions := evidence_artifact_versions s @ [r]\<rparr>))"

definition evidence_project_captured :: "db projector" where
  "evidence_project_captured s e =
     rbind (req_str ''artifact_id'' (ev_payload e)) (\<lambda>artifact_id.
     rbind (req_int ''version_number'' (ev_payload e)) (\<lambda>version_number.
     rbind (req_str ''object_key'' (ev_payload e)) (\<lambda>object_key.
     rbind (req_str ''original_filename'' (ev_payload e)) (\<lambda>original_filename.
     rbind (req_str ''media_type'' (ev_payload e)) (\<lambda>media_type.
     rbind (req_int ''byte_size'' (ev_payload e)) (\<lambda>byte_size.
     rbind (req_str ''sha256'' (ev_payload e)) (\<lambda>sha256.
     rbind (req_str ''source_type'' (ev_payload e)) (\<lambda>source_type.
     rbind (opt_str ''source_connection_id'' (ev_payload e)) (\<lambda>source_connection_id.
     rbind (opt_str ''source_object_id'' (ev_payload e)) (\<lambda>source_object_id.
     rbind (opt_str ''source_revision_id'' (ev_payload e)) (\<lambda>source_revision_id.
     rbind (opt_str ''source_modified_at'' (ev_payload e)) (\<lambda>modified_text.
     rbind (parse_iso_datetime modified_text) (\<lambda>source_modified_at.
     rbind (opt_str ''linked_evidence_snapshot_id'' (ev_payload e)) (\<lambda>linked.
       insert_evidence_artifact_version
         \<lparr>av_id = ev_aggregate_id e, av_artifact_id = artifact_id, av_version_number = version_number,
          av_object_key = object_key, av_original_filename = original_filename, av_media_type = media_type,
          av_byte_size = byte_size, av_sha256 = sha256, av_source_type = source_type,
          av_source_connection_id = source_connection_id, av_source_object_id = source_object_id,
          av_source_revision_id = source_revision_id, av_source_modified_at = source_modified_at,
          av_linked_evidence_snapshot_id = linked, av_captured_at = ev_occurred_at e,
          av_actor_type = ev_actor_type e, av_actor_id = ev_actor_id e\<rparr> s))))))))))))))"

definition evidence_artifact_version_projectors :: "string \<rightharpoonup> db projector" where
  "evidence_artifact_version_projectors = [''EvidenceArtifactVersionCaptured'' \<mapsto> evidence_project_captured]"

definition clear_evidence_artifact_versions :: "db \<Rightarrow> db" where
  "clear_evidence_artifact_versions s = s\<lparr>evidence_artifact_versions := []\<rparr>"

text \<open>The links of the occurrences go with the versions; another aggregate's rebuild restores them.\<close>

definition drop_occurrence_links :: "db \<Rightarrow> db" where
  "drop_occurrence_links s = s\<lparr>control_occurrence_evidence_artifacts := []\<rparr>"

definition no_version_reference :: "db \<Rightarrow> bool" where
  "no_version_reference s =
     (list_all (\<lambda>x. \<not> has_row av_id (ta_evidence_artifact_version_id x) (evidence_artifact_versions s))
        (control_test_evidence_artifacts s) \<and>
      list_all (\<lambda>u. case fu_linked_evidence_artifact_version_id u of None \<Rightarrow> True
                  | Some v \<Rightarrow> \<not> has_row av_id v (evidence_artifact_versions s)) (finding_remediation_updates s))"

definition reset_evidence_artifact_versions :: "db \<Rightarrow> db result" where
  "reset_evidence_artifact_versions s =
     (if no_version_reference s then Inr (drop_occurrence_links (clear_evidence_artifact_versions s))
      else Inl IntegrityError)"

definition rebuild_evidence_artifact_version_projection :: "db \<Rightarrow> db result" where
  "rebuild_evidence_artifact_version_projection s =
     rebuild_projection evidence_artifact_version_projectors ''evidence_artifact_version''
       reset_evidence_artifact_versions s"

section \<open>Capture\<close>

record capture_args =
  ca_tmp_path :: string
  ca_sha256 :: string
  ca_byte_size :: int
  ca_media_type :: string
  ca_original_filename :: string
  ca_extension :: string
  ca_source_type :: string
  ca_source_connection_id :: "string option"
  ca_source_object_id :: "string option"
  ca_source_revision_id :: "string option"
  ca_source_modified_at :: "datetime option"
  ca_linked_evidence_snapshot_id :: "string option"
  ca_actor_type :: string
  ca_actor_id :: "string option"
  ca_occurred_at :: "datetime option"

record 's3 evidence_world =
  w_db :: db
  w_files :: files
  w_bucket :: 's3

definition artifact_versions :: "string \<Rightarrow> db \<Rightarrow> evidence_artifact_version list" where
  "artifact_versions artifact s =
     rev (sort_key av_version_number (filter (\<lambda>v. av_artifact_id v = artifact) (evidence_artifact_versions s)))"

definition artifact_latest_version :: "string \<Rightarrow> db \<Rightarrow> evidence_artifact_version option" where
  "artifact_latest_version artifact s = (case artifact_versions artifact s of [] \<Rightarrow> None | v # _ \<Rightarrow> Some v)"

definition next_version_number :: "string \<Rightarrow> db \<Rightarrow> int" where
  "next_version_number artifact s =
     (case artifact_latest_version artifact s of None \<Rightarrow> 1 | Some v \<Rightarrow> av_version_number v + 1)"

definition capture_command :: "string \<Rightarrow> string \<Rightarrow> capture_args \<Rightarrow> db \<Rightarrow> event_cmd" where
  "capture_command version_id artifact a s =
     (event_command ''evidence_artifact_version'' version_id ''EvidenceArtifactVersionCaptured''
       [(''artifact_id'', JStr artifact), (''version_number'', JInt (next_version_number artifact s)),
        (''object_key'', JStr (object_key_for artifact version_id (ca_extension a))),
        (''original_filename'', JStr (ca_original_filename a)), (''media_type'', JStr (ca_media_type a)),
        (''byte_size'', JInt (ca_byte_size a)), (''sha256'', JStr (ca_sha256 a)),
        (''source_type'', JStr (ca_source_type a)), (''source_connection_id'', jopt (ca_source_connection_id a)),
        (''source_object_id'', jopt (ca_source_object_id a)), (''source_revision_id'', jopt (ca_source_revision_id a)),
        (''source_modified_at'', jdatetime (ca_source_modified_at a)),
        (''linked_evidence_snapshot_id'', jopt (ca_linked_evidence_snapshot_id a))]
       (ca_actor_type a) (ca_actor_id a))\<lparr>c_occurred_at := ca_occurred_at a\<rparr>"

definition capture_event :: "tick \<Rightarrow> string \<Rightarrow> string \<Rightarrow> capture_args \<Rightarrow> db \<Rightarrow> db result" where
  "capture_event t version_id artifact a s =
     rbind (append_and_project [] t evidence_artifact_version_projectors (capture_command version_id artifact a s) s)
       (\<lambda>(_, s'). Inr s')"

text \<open>
  The version rows are read before the upload. A failed append deletes the object again; the
  database is left to the caller's rollback.
\<close>

definition capture_evidence_version ::
  "'s3 s3_client \<Rightarrow> string \<Rightarrow> tick \<Rightarrow> string \<Rightarrow> string \<Rightarrow> capture_args \<Rightarrow> 's3 evidence_world \<Rightarrow>
   (evidence_artifact_version option \<times> bool) result \<times> 's3 evidence_world" where
  "capture_evidence_version client bucket t version_id artifact a w =
     (case find (\<lambda>v. av_sha256 v = ca_sha256 a) (artifact_versions artifact (w_db w)) of
        Some existing \<Rightarrow> (Inr (Some existing, False), w\<lparr>w_files := (w_files w)(ca_tmp_path a := None)\<rparr>)
      | None \<Rightarrow>
          (let object_key = object_key_for artifact version_id (ca_extension a)
           in case upload_object client bucket object_key (ca_tmp_path a) (ca_media_type a) (w_files w) (w_bucket w) of
                (uploaded, b) \<Rightarrow>
                  (let w1 = w\<lparr>w_files := (w_files w)(ca_tmp_path a := None), w_bucket := b\<rparr>
                   in case uploaded of
                        Inl e \<Rightarrow> (Inl e, w1)
                      | Inr _ \<Rightarrow>
                          (case capture_event t version_id artifact a (w_db w) of
                             Inl e \<Rightarrow> (Inl e, w1\<lparr>w_bucket := delete_object client bucket object_key b\<rparr>)
                           | Inr s \<Rightarrow> (Inr (row_get av_id version_id (evidence_artifact_versions s), True), w1\<lparr>w_db := s\<rparr>)))))"

section \<open>Routes\<close>

text \<open>A flash redirect (address, message, kind) or a download.\<close>

datatype response = Flash string string string | Download string string string

record 's3 evidence_env =
  ee_client :: "'s3 s3_client"
  ee_bucket :: string
  ee_configured :: bool
  ee_max_upload_bytes :: nat
  ee_chunk :: nat
  ee_sha256 :: "string \<Rightarrow> string"
  ee_zip_names :: "string \<Rightarrow> string list option"

record evidence_upload =
  eu_tick :: tick
  eu_version_id :: string
  eu_tmp_path :: string
  eu_file :: "(string \<times> string) option"
  eu_user_id :: string
  eu_user_email :: string

definition quoted :: "string \<Rightarrow> string" where
  "quoted x = [CHR 0x27] @ x @ [CHR 0x27]"

definition require_configured :: "'s3 evidence_env \<Rightarrow> unit result" where
  "require_configured env = (if ee_configured env then Inr () else Inl (HTTPException 503))"

definition upload_args :: "evidence_upload \<Rightarrow> captured_bytes \<Rightarrow> string \<Rightarrow> string \<Rightarrow> string \<Rightarrow> capture_args" where
  "upload_args u captured media_type original_filename extension =
     \<lparr>ca_tmp_path = cb_tmp_path captured, ca_sha256 = cb_sha256 captured, ca_byte_size = int (cb_byte_size captured),
      ca_media_type = media_type, ca_original_filename = original_filename, ca_extension = extension,
      ca_source_type = ''manual'', ca_source_connection_id = None, ca_source_object_id = None,
      ca_source_revision_id = None, ca_source_modified_at = None, ca_linked_evidence_snapshot_id = None,
      ca_actor_type = ''user'', ca_actor_id = Some (eu_user_id u), ca_occurred_at = None\<rparr>"

definition capture_and_store_version ::
  "'s3 evidence_env \<Rightarrow> evidence_upload \<Rightarrow> evidence_artifact \<Rightarrow> string \<Rightarrow> string \<Rightarrow> 's3 evidence_world \<Rightarrow>
   unit result \<times> 's3 evidence_world" where
  "capture_and_store_version env u artifact filename content w =
     (let original_filename = sanitize_original_filename filename;
          extension = extension_of original_filename
      in case allowed_evidence_media_types extension of
           None \<Rightarrow> (Inl (ObjectStorageError ''Unsupported file type''), w)
         | Some media_type \<Rightarrow>
             (case capture_upload_bytes (ee_sha256 env) (ee_chunk env) (eu_tmp_path u) content (ee_max_upload_bytes env) (w_files w) of
                (Inl e, fs) \<Rightarrow> (Inl e, w\<lparr>w_files := fs\<rparr>)
              | (Inr captured, fs) \<Rightarrow>
                  (case rbind (validate_evidence_content (ee_zip_names env) content extension) (\<lambda>_.
                          if ee_configured env then Inr ()
                          else Inl (ObjectStorageError ''The evidence artifact repository is not configured.'')) of
                     Inl e \<Rightarrow> (Inl e, w\<lparr>w_files := fs(cb_tmp_path captured := None)\<rparr>)
                   | Inr _ \<Rightarrow>
                       (case capture_evidence_version (ee_client env) (ee_bucket env) (eu_tick u) (eu_version_id u) (ea_id artifact)
                               (upload_args u captured media_type original_filename extension) (w\<lparr>w_files := fs\<rparr>) of
                          (Inl e, w1) \<Rightarrow> (Inl e, w1)
                        | (Inr (_, created), w1) \<Rightarrow>
                            (Inr (), w1\<lparr>w_db := record_audit_event ''evidence_artifact'' (ea_id artifact) ''capture_version''
                               (if created then ''Captured version of '' @ quoted (ea_title artifact) @ '' ('' @ original_filename @ '')''
                                else ''Duplicate capture for '' @ quoted (ea_title artifact) @ '' ('' @ original_filename @ '') - no new version'')
                               (eu_user_email u) (w_db w1)\<rparr>)))))"

text \<open>An object-storage error is a flash message after a rollback; any other error propagates, and rolls back too.\<close>

definition answer :: "db \<Rightarrow> string \<Rightarrow> string \<Rightarrow> string \<Rightarrow> unit result \<times> 's3 evidence_world \<Rightarrow> response result \<times> 's3 evidence_world" where
  "answer old ok_url error_url msg r =
     (case r of
        (Inr _, w) \<Rightarrow> (Inr (Flash ok_url msg ''success''), w)
      | (Inl (ObjectStorageError m), w) \<Rightarrow> (Inr (Flash error_url m ''error''), w\<lparr>w_db := old\<rparr>)
      | (Inl e, w) \<Rightarrow> (Inl e, w\<lparr>w_db := old\<rparr>))"

definition create_evidence_artifact ::
  "'s3 evidence_env \<Rightarrow> evidence_upload \<Rightarrow> string \<Rightarrow> string \<Rightarrow> string \<Rightarrow> 's3 evidence_world \<Rightarrow> response result \<times> 's3 evidence_world" where
  "create_evidence_artifact env u new_id title description w =
     (case require_configured env of
        Inl e \<Rightarrow> (Inl e, w)
      | Inr _ \<Rightarrow>
          (let title = strip title
           in if title = [] then (Inr (Flash ''/evidence-artifacts/new'' ''Title is required.'' ''error''), w)
              else (case eu_file u of
                      None \<Rightarrow> (Inr (Flash ''/evidence-artifacts/new'' ''A file is required.'' ''error''), w)
                    | Some (filename, content) \<Rightarrow>
                        if filename = [] then (Inr (Flash ''/evidence-artifacts/new'' ''A file is required.'' ''error''), w)
                        else if has_row ea_id new_id (evidence_artifacts (w_db w)) then (Inl IntegrityError, w)
                        else (let artifact = \<lparr>ea_id = new_id, ea_title = title, ea_description = description\<rparr>;
                                  s = record_audit_event ''evidence_artifact'' new_id ''create''
                                        (''Created evidence artifact '' @ quoted title) (eu_user_email u)
                                        ((w_db w)\<lparr>evidence_artifacts := evidence_artifacts (w_db w) @ [artifact]\<rparr>)
                              in answer (w_db w) (''/evidence-artifacts/'' @ new_id) ''/evidence-artifacts/new''
                                   ''Evidence artifact captured.''
                                   (capture_and_store_version env u artifact filename content (w\<lparr>w_db := s\<rparr>))))))"

definition upload_evidence_artifact_version ::
  "'s3 evidence_env \<Rightarrow> evidence_upload \<Rightarrow> string \<Rightarrow> string \<Rightarrow> string \<Rightarrow> 's3 evidence_world \<Rightarrow> response result \<times> 's3 evidence_world" where
  "upload_evidence_artifact_version env u artifact_id filename content w =
     (case require_configured env of
        Inl e \<Rightarrow> (Inl e, w)
      | Inr _ \<Rightarrow>
          (case row_get ea_id artifact_id (evidence_artifacts (w_db w)) of
             None \<Rightarrow> (Inl (HTTPException 404), w)
           | Some artifact \<Rightarrow>
               answer (w_db w) (''/evidence-artifacts/'' @ artifact_id) (''/evidence-artifacts/'' @ artifact_id) ''Version captured.''
                 (capture_and_store_version env u artifact filename content w)))"

definition download_evidence_artifact_version ::
  "'s3 evidence_env \<Rightarrow> string \<Rightarrow> string \<Rightarrow> 's3 evidence_world \<Rightarrow> response result" where
  "download_evidence_artifact_version env artifact_id version_id w =
     rbind (require_configured env) (\<lambda>_.
       case row_get av_id version_id (evidence_artifact_versions (w_db w)) of
         None \<Rightarrow> Inl (HTTPException 404)
       | Some v \<Rightarrow>
           if av_artifact_id v \<noteq> artifact_id then Inl (HTTPException 404)
           else (case download_object (ee_client env) (ee_bucket env) (av_object_key v) (w_bucket w) of
                   Inl _ \<Rightarrow> Inl (HTTPException 502)
                 | Inr content \<Rightarrow> Inr (Download content (av_media_type v) (av_original_filename v))))"

text \<open>The link runs in a savepoint: a refused row is a flash message and leaves the rest of the request alone.\<close>

definition link_evidence_artifact_version_route ::
  "tick \<Rightarrow> string \<Rightarrow> string \<Rightarrow> string \<Rightarrow> string \<Rightarrow> string \<Rightarrow> db \<Rightarrow> response result \<times> db" where
  "link_evidence_artifact_version_route t artifact_id version_id occurrence_id user_id email s =
     (case row_get av_id version_id (evidence_artifact_versions s) of
        None \<Rightarrow> (Inl (HTTPException 404), s)
      | Some v \<Rightarrow>
          if av_artifact_id v \<noteq> artifact_id then (Inl (HTTPException 404), s)
          else (case row_get oc_id occurrence_id (control_occurrences s) of
                  None \<Rightarrow> (Inl (HTTPException 404), s)
                | Some occurrence \<Rightarrow>
                    (let detail_url = ''/evidence-artifacts/'' @ artifact_id
                     in case link_evidence_artifact_version t occurrence_id version_id ''user'' (Some user_id) s of
                          Inl IntegrityError \<Rightarrow>
                            (Inr (Flash detail_url ''That evidence version is already linked to this occurrence.'' ''error''), s)
                        | Inl e \<Rightarrow> (Inl e, s)
                        | Inr s' \<Rightarrow>
                            (Inr (Flash detail_url ''Evidence linked to occurrence.'' ''success''),
                             record_audit_event ''control_occurrence'' (oc_id occurrence) ''link_evidence_artifact''
                               (''Linked evidence artifact version '' @ str_int (av_version_number v) @ '' to occurrence'') email s'))))"

section \<open>The projection contract\<close>

lemma captured_insert:
  assumes "evidence_project_captured s e = Inr s'"
  obtains r where "\<And>s2. evidence_project_captured s2 e = insert_evidence_artifact_version r s2"
    "insert_evidence_artifact_version r s = Inr s'"
  using assms by (auto simp: evidence_project_captured_def)

lemma insert_version_frame:
  assumes "insert_evidence_artifact_version r s = Inr s'"
    and "evidence_artifact_versions s2 = evidence_artifact_versions s" "evidence_artifacts s2 = evidence_artifacts s"
      "evidence_snapshots s2 = evidence_snapshots s"
  shows "insert_evidence_artifact_version r s2 = Inr (s2\<lparr>evidence_artifact_versions := evidence_artifact_versions s @ [r]\<rparr>)"
  using assms by (simp add: insert_evidence_artifact_version_def split: if_splits)

lemma insert_version_Inr:
  "insert_evidence_artifact_version r s = Inr s' \<Longrightarrow>
     s' = s\<lparr>evidence_artifact_versions := evidence_artifact_versions s @ [r]\<rparr>"
  by (simp add: insert_evidence_artifact_version_def split: if_splits)

lemma captured_frame:
  assumes "evidence_artifact_version_projectors k = Some p" "p s e = Inr s'"
  obtains r where "s' = s\<lparr>evidence_artifact_versions := evidence_artifact_versions s @ [r]\<rparr>"
    and "\<And>s2. evidence_artifact_versions s2 = evidence_artifact_versions s \<Longrightarrow> evidence_artifacts s2 = evidence_artifacts s \<Longrightarrow>
           evidence_snapshots s2 = evidence_snapshots s \<Longrightarrow>
           p s2 e = Inr (s2\<lparr>evidence_artifact_versions := evidence_artifact_versions s @ [r]\<rparr>)"
proof -
  have p: "p = evidence_project_captured" using assms(1) by (simp add: evidence_artifact_version_projectors_def split: if_splits)
  obtain r where r: "\<And>s2. p s2 e = insert_evidence_artifact_version r s2" "insert_evidence_artifact_version r s = Inr s'"
    using captured_insert [OF assms(2) [unfolded p]] p by metis
  show ?thesis using that insert_version_Inr [OF r(2)] insert_version_frame [OF r(2)] r(1) by metis
qed

interpretation evidence: projection evidence_artifact_version_projectors "''evidence_artifact_version''" clear_evidence_artifact_versions
proof
  show "clear_evidence_artifact_versions (s\<lparr>domain_events := es\<rparr>) = (clear_evidence_artifact_versions s)\<lparr>domain_events := es\<rparr>"
    for s es by (simp add: clear_evidence_artifact_versions_def)
  show "p (s\<lparr>domain_events := es\<rparr>) e = Inr (s'\<lparr>domain_events := es\<rparr>)"
    if p: "evidence_artifact_version_projectors k = Some p" "p s e = Inr s'" for k p s e s' es
    by (rule captured_frame [OF p]) simp
  show "clear_evidence_artifact_versions s' = clear_evidence_artifact_versions s"
    if p: "evidence_artifact_version_projectors k = Some p" "p s e = Inr s'" for k p s e s'
    by (rule captured_frame [OF p]) (simp add: clear_evidence_artifact_versions_def)
qed

lemma capture_command_simps [simp]:
  "c_aggregate_type (capture_command v art a s) = ''evidence_artifact_version''"
  "c_aggregate_id (capture_command v art a s) = v"
  "c_event_type (capture_command v art a s) = ''EvidenceArtifactVersionCaptured''"
  "c_idempotency_key (capture_command v art a s) = None"
  by (simp_all add: capture_command_def)

lemma drop_links_run:
  assumes "run_projector evidence_artifact_version_projectors s e = Inr s'"
  shows "run_projector evidence_artifact_version_projectors (drop_occurrence_links s) e = Inr (drop_occurrence_links s')"
proof (cases "evidence_artifact_version_projectors (ev_event_type e)")
  case None
  then show ?thesis using assms by (simp add: run_projector_def)
next
  case (Some p)
  then have "p s e = Inr s'" using assms by (simp add: run_projector_def)
  then obtain r where s': "s' = s\<lparr>evidence_artifact_versions := evidence_artifact_versions s @ [r]\<rparr>"
    and p: "p (drop_occurrence_links s) e =
      Inr ((drop_occurrence_links s)\<lparr>evidence_artifact_versions := evidence_artifact_versions s @ [r]\<rparr>)"
    by (rule captured_frame [OF Some]) (simp add: drop_occurrence_links_def)
  show ?thesis by (simp add: run_projector_def Some p) (simp add: s' drop_occurrence_links_def)
qed

type_synonym capture_call = "tick \<times> string \<times> string \<times> capture_args"

definition capture_exec :: "capture_call \<Rightarrow> db \<Rightarrow> db result" where
  "capture_exec = (\<lambda>(t, v, art, a) s. capture_event t v art a s)"

definition capture_stamp :: "capture_call \<Rightarrow> datetime" where
  "capture_stamp c = t_now (fst c)"

interpretation evidence_domain: projected_domain evidence_artifact_version_projectors "''evidence_artifact_version''"
  clear_evidence_artifact_versions capture_exec capture_stamp capture_stamp "\<lambda>_. True"
  reset_evidence_artifact_versions no_version_reference drop_occurrence_links
proof
  show "in_sync evidence_artifact_version_projectors ''evidence_artifact_version'' clear_evidence_artifact_versions s' \<and>
      recorded_by ''evidence_artifact_version'' (capture_stamp c) (domain_events s')"
    if "in_sync evidence_artifact_version_projectors ''evidence_artifact_version'' clear_evidence_artifact_versions s"
      "recorded_by ''evidence_artifact_version'' seen (domain_events s)" "seen < capture_stamp c" "capture_exec c s = Inr s'"
    for s seen c s'
    using that evidence.sync_append [OF that(1,2)]
    by (auto simp: capture_exec_def capture_event_def capture_stamp_def split: prod.splits)
qed (auto simp: reset_evidence_artifact_versions_def drop_links_run, auto simp: drop_occurrence_links_def)

lemma capture_event_Inr:
  assumes "capture_event t v art a s = Inr s'"
  shows "\<exists>e r. s' = s\<lparr>domain_events := domain_events s @ [e], evidence_artifact_versions := evidence_artifact_versions s @ [r]\<rparr> \<and>
     av_id r = v \<and> av_artifact_id r = art \<and> av_version_number r = next_version_number art s \<and>
     av_object_key r = object_key_for art v (ca_extension a) \<and> av_sha256 r = ca_sha256 a \<and>
     \<not> has_row av_id v (evidence_artifact_versions s)"
proof -
  let ?c = "capture_command v art a s"
  obtain e where "append_and_project [] t evidence_artifact_version_projectors ?c s = Inr (e, s')"
    using assms by (auto simp: capture_event_def)
  then have e: "ev_aggregate_id e = v" "ev_payload e = c_payload ?c"
    "evidence_project_captured (s\<lparr>domain_events := domain_events s @ [e]\<rparr>) e = Inr s'"
    by (auto simp: append_key_free_iff run_projector_def evidence_artifact_version_projectors_def)
  then obtain r where "insert_evidence_artifact_version r (s\<lparr>domain_events := domain_events s @ [e]\<rparr>) = Inr s'"
    "av_id r = v" "av_artifact_id r = art" "av_version_number r = next_version_number art s"
    "av_object_key r = object_key_for art v (ca_extension a)" "av_sha256 r = ca_sha256 a"
    by (auto simp: evidence_project_captured_def capture_command_def json_simps)
  then show ?thesis
    by (intro exI [of _ e] exI [of _ r]) (simp add: insert_evidence_artifact_version_def split: if_splits)
qed

section \<open>Integrity of the repository\<close>

definition no_slash :: "string \<Rightarrow> bool" where
  "no_slash k = (CHR ''/'' \<notin> set k)"

text \<open>Every row's object is in the store and hashes to the row's digest.\<close>

definition rows_stored :: "'s3 evidence_env \<Rightarrow> evidence_artifact_version list \<Rightarrow> 's3 \<Rightarrow> bool" where
  "rows_stored env vs b \<longleftrightarrow>
     (\<forall>v\<in>set vs. map_option (ee_sha256 env) (s3_get (ee_client env) (ee_bucket env) (av_object_key v) b) = Some (av_sha256 v))"

text \<open>Keys are built from slash-free ids, content is captured once per artifact, numbers are consecutive.\<close>

definition numbered :: "evidence_artifact_version list \<Rightarrow> bool" where
  "numbered vs \<longleftrightarrow>
     (\<forall>art. map av_version_number (filter (\<lambda>v. av_artifact_id v = art) vs) =
            map int [1 ..< Suc (length (filter (\<lambda>v. av_artifact_id v = art) vs))])"

definition rows_ok :: "evidence_artifact_version list \<Rightarrow> bool" where
  "rows_ok vs \<longleftrightarrow>
     unique_by av_id vs \<and> unique_by (\<lambda>v. (av_artifact_id v, av_sha256 v)) vs \<and> numbered vs \<and>
     (\<forall>v\<in>set vs. no_slash (av_id v) \<and> no_slash (av_artifact_id v) \<and>
        (\<exists>ext. av_object_key v = object_key_for (av_artifact_id v) (av_id v) ext))"

definition evidence_inv :: "'s3 evidence_env \<Rightarrow> 's3 evidence_world \<Rightarrow> bool" where
  "evidence_inv env w \<longleftrightarrow>
     rows_ok (evidence_artifact_versions (w_db w)) \<and> rows_stored env (evidence_artifact_versions (w_db w)) (w_bucket w)"

lemma sorted_int_upt: "sorted (map int [m ..< n])"
  by (induction n) (auto simp: sorted_append)

lemma artifact_versions_set:
  "set (artifact_versions art s) = {v \<in> set (evidence_artifact_versions s). av_artifact_id v = art}"
  by (auto simp: artifact_versions_def)

lemma next_version_number_eq:
  assumes "numbered (evidence_artifact_versions s)"
  shows "next_version_number art s = int (length (filter (\<lambda>v. av_artifact_id v = art) (evidence_artifact_versions s))) + 1"
proof -
  let ?xs = "filter (\<lambda>v. av_artifact_id v = art) (evidence_artifact_versions s)"
  have nums: "map av_version_number ?xs = map int [1 ..< Suc (length ?xs)]" using assms by (simp add: numbered_def)
  have "sorted (map av_version_number ?xs)" unfolding nums by (rule sorted_int_upt)
  then have vs: "artifact_versions art s = rev ?xs" by (simp add: artifact_versions_def sort_key_id_if_sorted)
  show ?thesis
  proof (cases ?xs rule: rev_cases)
    case (snoc ys y)
    then have "av_version_number y = last (map av_version_number ?xs)" by simp
    also have "\<dots> = int (length ?xs)" unfolding nums using snoc by simp
    finally show ?thesis using vs snoc by (simp add: next_version_number_def artifact_latest_version_def)
  qed (simp add: vs next_version_number_def artifact_latest_version_def)
qed

lemma numbered_snoc:
  assumes "numbered vs" and "av_version_number r = int (length (filter (\<lambda>v. av_artifact_id v = av_artifact_id r) vs)) + 1"
  shows "numbered (vs @ [r])"
  using assms by (auto simp: numbered_def)

lemma rows_ok_snoc:
  assumes ok: "rows_ok (evidence_artifact_versions s)" and ev: "capture_event t v art a s = Inr s'"
    and new: "find (\<lambda>v. av_sha256 v = ca_sha256 a) (artifact_versions art s) = None"
    and ids: "no_slash v" "no_slash art"
  shows "rows_ok (evidence_artifact_versions s')"
proof -
  obtain r where r: "evidence_artifact_versions s' = evidence_artifact_versions s @ [r]"
    "av_id r = v" "av_artifact_id r = art" "av_version_number r = next_version_number art s"
    "av_object_key r = object_key_for art v (ca_extension a)" "av_sha256 r = ca_sha256 a"
    "\<not> has_row av_id v (evidence_artifact_versions s)"
    using capture_event_Inr [OF ev] by auto
  have "numbered (evidence_artifact_versions s @ [r])"
    using ok r(3,4) next_version_number_eq by (intro numbered_snoc) (auto simp: rows_ok_def)
  moreover have "\<not> has_row (\<lambda>v. (av_artifact_id v, av_sha256 v)) (art, ca_sha256 a) (evidence_artifact_versions s)"
    using new artifact_versions_set [of art s] by (auto simp: find_None_iff has_row_iff)
  ultimately show ?thesis using ok r ids by (auto simp: rows_ok_def)
qed

text \<open>A call that changes at most the object of a new version keeps the objects of all rows.\<close>

lemma rows_stored_other:
  assumes "rows_stored env vs b" and "\<And>j. j \<noteq> k \<Longrightarrow> s3_get (ee_client env) (ee_bucket env) j b' = s3_get (ee_client env) (ee_bucket env) j b"
    and "\<And>v. v \<in> set vs \<Longrightarrow> av_object_key v \<noteq> k"
  shows "rows_stored env vs b'"
  using assms by (simp add: rows_stored_def)

lemma fresh_key:
  assumes "rows_ok vs" "x \<in> set vs" "\<not> has_row av_id v vs" "no_slash v" "no_slash art"
  shows "av_object_key x \<noteq> object_key_for art v ext"
proof
  assume eq: "av_object_key x = object_key_for art v ext"
  obtain ext' where "av_object_key x = object_key_for (av_artifact_id x) (av_id x) ext'" "no_slash (av_id x)" "no_slash (av_artifact_id x)"
    using assms(1,2) unfolding rows_ok_def by blast
  then have "av_id x = v" using eq object_key_inject assms(4,5) unfolding no_slash_def by metis
  then show False using assms(2,3) by (auto simp: has_row_iff)
qed

lemma s3_put_law:
  assumes "s3_laws c bk" "s3_put c bk k x m b = (ok, b')"
  shows "s3_get c bk k b' = (if ok then Some x else s3_get c bk k b)"
    and "j \<noteq> k \<Longrightarrow> s3_get c bk j b' = s3_get c bk j b"
  using assms unfolding s3_laws_def by blast+

lemma s3_delete_law:
  assumes "s3_laws c bk" "s3_delete c bk k b = (ok, b')"
  shows "s3_get c bk k b' = (if ok then None else s3_get c bk k b)"
    and "j \<noteq> k \<Longrightarrow> s3_get c bk j b' = s3_get c bk j b"
  using assms unfolding s3_laws_def by blast+

lemma upload_other:
  assumes "s3_laws c bk" "upload_object c bk k tmp m fs b = (r, b')" "j \<noteq> k"
  shows "s3_get c bk j b' = s3_get c bk j b"
  using assms by (auto simp: upload_object_def s3_put_law split: option.splits prod.splits)

lemma upload_stores:
  assumes "s3_laws c bk" "upload_object c bk k tmp m fs b = (r, b')"
  shows "case r of Inl _ \<Rightarrow> s3_get c bk k b' = s3_get c bk k b | Inr _ \<Rightarrow> s3_get c bk k b' = fs tmp"
  using assms by (auto simp: upload_object_def s3_put_law split: option.splits prod.splits)

lemma delete_other: "s3_laws c bk \<Longrightarrow> j \<noteq> k \<Longrightarrow> s3_get c bk j (delete_object c bk k b) = s3_get c bk j b"
  by (cases "s3_delete c bk k b") (simp add: delete_object_def s3_delete_law)

lemma capture_keeps_inv:
  assumes laws: "s3_laws (ee_client env) (ee_bucket env)" and inv: "evidence_inv env w"
    and ids: "no_slash v" "no_slash art" and fresh: "\<not> has_row av_id v (evidence_artifact_versions (w_db w))"
    and sha: "map_option (ee_sha256 env) (w_files w (ca_tmp_path a)) = Some (ca_sha256 a)"
    and run: "capture_evidence_version (ee_client env) (ee_bucket env) t v art a w = (r, w')"
  shows "evidence_inv env w' \<and>
         set (map av_id (evidence_artifact_versions (w_db w'))) \<subseteq> insert v (set (map av_id (evidence_artifact_versions (w_db w))))"
proof (cases "find (\<lambda>v. av_sha256 v = ca_sha256 a) (artifact_versions art (w_db w))")
  case (Some x)
  then have "w' = w\<lparr>w_files := (w_files w)(ca_tmp_path a := None)\<rparr>" using run by (simp add: capture_evidence_version_def)
  then show ?thesis using inv by (auto simp: evidence_inv_def)
next
  case None
  let ?k = "object_key_for art v (ca_extension a)" and ?get = "s3_get (ee_client env) (ee_bucket env)"
  have ok: "rows_ok (evidence_artifact_versions (w_db w))" "rows_stored env (evidence_artifact_versions (w_db w)) (w_bucket w)"
    using inv by (simp_all add: evidence_inv_def)
  obtain up b where up: "upload_object (ee_client env) (ee_bucket env) ?k (ca_tmp_path a) (ca_media_type a) (w_files w) (w_bucket w) = (up, b)"
    by fastforce
  have keep: "rows_stored env (evidence_artifact_versions (w_db w)) b'" if "\<And>j. j \<noteq> ?k \<Longrightarrow> ?get j b' = ?get j (w_bucket w)" for b'
    by (rule rows_stored_other [OF ok(2) that]) (auto dest: fresh_key [OF ok(1) _ fresh ids])
  show ?thesis
  proof (cases up)
    case (Inl e)
    then have "w_db w' = w_db w" "w_bucket w' = b" using run None up by (auto simp: capture_evidence_version_def Let_def)
    then show ?thesis using ok(1) keep [of b] upload_other [OF laws up] by (auto simp: evidence_inv_def)
  next
    case (Inr u)
    show ?thesis
    proof (cases "capture_event t v art a (w_db w)")
      case (Inl e)
      then have "w_db w' = w_db w" "w_bucket w' = delete_object (ee_client env) (ee_bucket env) ?k b"
        using run None up \<open>up = Inr u\<close> by (auto simp: capture_evidence_version_def Let_def)
      then show ?thesis using ok(1) keep [of "w_bucket w'"] upload_other [OF laws up] delete_other [OF laws]
        by (auto simp: evidence_inv_def)
    next
      case ev: (Inr s')
      then have w': "w_db w' = s'" "w_bucket w' = b"
        using run None up \<open>up = Inr u\<close> by (auto simp: capture_evidence_version_def Let_def)
      obtain e y where s': "s' = (w_db w)\<lparr>domain_events := domain_events (w_db w) @ [e],
          evidence_artifact_versions := evidence_artifact_versions (w_db w) @ [y]\<rparr>"
        and y: "av_object_key y = ?k" "av_sha256 y = ca_sha256 a" "av_id y = v" using capture_event_Inr [OF ev] by blast
      have vs: "evidence_artifact_versions s' = evidence_artifact_versions (w_db w) @ [y]" by (simp add: s')
      have "?get ?k b = w_files w (ca_tmp_path a)" using upload_stores [OF laws up] Inr by simp
      then have "rows_stored env (evidence_artifact_versions s') b"
        using keep [of b] upload_other [OF laws up] y sha by (simp add: rows_stored_def vs)
      then show ?thesis using rows_ok_snoc [OF ok(1) ev None ids] y w' by (simp add: evidence_inv_def vs subset_insertI)
    qed
  qed
qed

lemma capture_upload_Inr:
  assumes "0 < n" "capture_upload_bytes sha n tmp content m fs = (Inr c, fs')"
  shows "c = \<lparr>cb_tmp_path = tmp, cb_sha256 = sha content, cb_byte_size = length content\<rparr>" "fs' = fs(tmp \<mapsto> content)"
  using assms by (auto simp: capture_upload_bytes_def capture_chunks_to_temp_file_def bounded_write_chunks split: if_splits)

lemma capture_failed_db:
  "capture_evidence_version c bk t v art a w = (Inl e, w') \<Longrightarrow> w_db w' = w_db w"
  by (auto simp: capture_evidence_version_def Let_def split: option.splits prod.splits sum.splits)

lemma upload_args_simps [simp]:
  "ca_tmp_path (upload_args u c m f x) = cb_tmp_path c" "ca_sha256 (upload_args u c m f x) = cb_sha256 c"
  by (simp_all add: upload_args_def)

lemma audit_versions [simp]: "evidence_artifact_versions (record_audit_event a b c d e s) = evidence_artifact_versions s"
  by (simp add: record_audit_event_def)

lemma evidence_inv_cong:
  "evidence_artifact_versions (w_db w') = evidence_artifact_versions (w_db w) \<Longrightarrow> w_bucket w' = w_bucket w \<Longrightarrow>
     evidence_inv env w' = evidence_inv env w"
  by (simp add: evidence_inv_def)

abbreviation version_ids :: "'s3 evidence_world \<Rightarrow> string set" where
  "version_ids w \<equiv> set (map av_id (evidence_artifact_versions (w_db w)))"

lemma store_keeps_inv:
  assumes laws: "s3_laws (ee_client env) (ee_bucket env)" and chunk: "0 < ee_chunk env" and inv: "evidence_inv env w"
    and ids: "no_slash (eu_version_id u)" "no_slash (ea_id artifact)"
    and fresh: "\<not> has_row av_id (eu_version_id u) (evidence_artifact_versions (w_db w))"
    and run: "capture_and_store_version env u artifact filename content w = (r, w')"
  shows "evidence_inv env w' \<and> version_ids w' \<subseteq> insert (eu_version_id u) (version_ids w) \<and>
         (\<forall>e. r = Inl e \<longrightarrow> w_db w' = w_db w)"
proof -
  have files: "evidence_inv env (w\<lparr>w_files := fs\<rparr>)" for fs using inv by (simp add: evidence_inv_def)
  have trivial: ?thesis if "r = Inl e" "w' = w\<lparr>w_files := fs\<rparr>" for e fs
    using that files by auto
  let ?f = "sanitize_original_filename filename"
  let ?x = "extension_of ?f"
  show ?thesis
  proof (cases "allowed_evidence_media_types ?x")
    case None
    then show ?thesis using run inv by (auto simp: capture_and_store_version_def Let_def)
  next
    case media: (Some m)
    obtain c fs where cap: "capture_upload_bytes (ee_sha256 env) (ee_chunk env) (eu_tmp_path u) content
        (ee_max_upload_bytes env) (w_files w) = (c, fs)" by fastforce
    show ?thesis
    proof (cases c)
      case (Inl e)
      then have "r = Inl e" "w' = w\<lparr>w_files := fs\<rparr>" using run media cap by (simp_all add: capture_and_store_version_def Let_def)
      then show ?thesis by (rule trivial)
    next
      case c: (Inr y)
      note y = capture_upload_Inr [OF chunk cap [unfolded c]]
      let ?v = "rbind (validate_evidence_content (ee_zip_names env) content ?x) (\<lambda>_. if ee_configured env then Inr ()
          else Inl (ObjectStorageError ''The evidence artifact repository is not configured.''))"
      obtain q w1 where q: "capture_evidence_version (ee_client env) (ee_bucket env) (eu_tick u) (eu_version_id u) (ea_id artifact)
          (upload_args u y m ?f ?x) (w\<lparr>w_files := fs\<rparr>) = (q, w1)" by fastforce
      have kept: "evidence_inv env w1 \<and> version_ids w1 \<subseteq> insert (eu_version_id u) (version_ids (w\<lparr>w_files := fs\<rparr>))"
        by (rule capture_keeps_inv [OF laws files ids _ _ q]) (use fresh y in simp_all)
      show ?thesis
      proof (cases ?v)
        case (Inl e)
        then have "r = Inl e" "w' = w\<lparr>w_files := fs(cb_tmp_path y := None)\<rparr>"
          using run media cap c by (simp_all add: capture_and_store_version_def Let_def)
        then show ?thesis by (rule trivial)
      next
        case v: (Inr z)
        show ?thesis
        proof (cases q)
          case (Inl e)
          then have "r = Inl e" "w' = w1" using run media cap c v q by (simp_all add: capture_and_store_version_def Let_def)
          then show ?thesis using kept capture_failed_db [OF q [unfolded Inl]] by simp
        next
          case (Inr p)
          then have "r = Inr ()" "evidence_artifact_versions (w_db w') = evidence_artifact_versions (w_db w1)" "w_bucket w' = w_bucket w1"
            using run media cap c v q by (auto simp: capture_and_store_version_def Let_def split: prod.splits)
          then show ?thesis using kept evidence_inv_cong [of w' w1 env] by simp
        qed
      qed
    qed
  qed
qed

section \<open>Requests to the repository\<close>

datatype evidence_request =
    Create_artifact evidence_upload string string string
  | Add_version evidence_upload string string string

fun evidence_serve :: "'s3 evidence_env \<Rightarrow> evidence_request \<Rightarrow> 's3 evidence_world \<Rightarrow> response result \<times> 's3 evidence_world" where
  "evidence_serve env (Create_artifact u new_id title description) w = create_evidence_artifact env u new_id title description w"
| "evidence_serve env (Add_version u artifact_id filename content) w =
     upload_evidence_artifact_version env u artifact_id filename content w"

text \<open>The world after a sequence of requests, each answered or refused.\<close>

definition evidence_history :: "'s3 evidence_env \<Rightarrow> evidence_request list \<Rightarrow> 's3 evidence_world \<Rightarrow> 's3 evidence_world" where
  "evidence_history env rs w = fold (\<lambda>r w. snd (evidence_serve env r w)) rs w"

fun request_version :: "evidence_request \<Rightarrow> string" where
  "request_version (Create_artifact u _ _ _) = eu_version_id u"
| "request_version (Add_version u _ _ _) = eu_version_id u"

fun request_artifact :: "evidence_request \<Rightarrow> string" where
  "request_artifact (Create_artifact _ k _ _) = k"
| "request_artifact (Add_version _ k _ _) = k"

text \<open>The ids a run hands out are new and, being hexadecimal, free of slashes.\<close>

definition new_version_ids :: "evidence_request list \<Rightarrow> 's3 evidence_world \<Rightarrow> bool" where
  "new_version_ids rs w \<longleftrightarrow>
     distinct (map request_version rs) \<and>
     (\<forall>r\<in>set rs. no_slash (request_version r) \<and> no_slash (request_artifact r) \<and> request_version r \<notin> version_ids w)"

lemma answer_keeps_inv:
  assumes inv: "evidence_inv env w1" and ids: "version_ids w1 \<subseteq> S" and old: "evidence_artifact_versions s = evidence_artifact_versions s0"
    and failed: "\<forall>e. r = Inl e \<longrightarrow> w_db w1 = s0"
  shows "evidence_inv env (snd (answer s ok err msg (r, w1))) \<and> version_ids (snd (answer s ok err msg (r, w1))) \<subseteq> S"
proof (cases r)
  case (Inl e)
  then have "w_db w1 = s0" using failed by simp
  then have "evidence_inv env (w1\<lparr>w_db := s\<rparr>) \<and> version_ids (w1\<lparr>w_db := s\<rparr>) \<subseteq> S"
    using inv ids old by (simp add: evidence_inv_def)
  then show ?thesis using Inl by (cases e) (simp_all add: answer_def)
next
  case (Inr x)
  then show ?thesis using inv ids by (simp add: answer_def)
qed

lemma serve_keeps_inv:
  assumes laws: "s3_laws (ee_client env) (ee_bucket env)" and chunk: "0 < ee_chunk env" and inv: "evidence_inv env w"
    and ids: "no_slash (request_version r)" "no_slash (request_artifact r)" and fresh: "request_version r \<notin> version_ids w"
  shows "evidence_inv env (snd (evidence_serve env r w)) \<and>
         version_ids (snd (evidence_serve env r w)) \<subseteq> insert (request_version r) (version_ids w)"
proof (cases r)
  case (Create_artifact u k title description)
  define P where "P = (\<lambda>w'. evidence_inv env w' \<and> version_ids w' \<subseteq> insert (eu_version_id u) (version_ids w))"
  have keep: "P (snd (answer (w_db w) ok err msg (capture_and_store_version env u artifact f x (w\<lparr>w_db := s\<rparr>))))"
    if "evidence_artifact_versions s = evidence_artifact_versions (w_db w)" "ea_id artifact = k" for s artifact f x ok err msg
  proof -
    obtain q w1 where q: "capture_and_store_version env u artifact f x (w\<lparr>w_db := s\<rparr>) = (q, w1)" by fastforce
    have "evidence_inv env w1 \<and> version_ids w1 \<subseteq> insert (eu_version_id u) (version_ids (w\<lparr>w_db := s\<rparr>)) \<and>
        (\<forall>e. q = Inl e \<longrightarrow> w_db w1 = w_db (w\<lparr>w_db := s\<rparr>))"
      by (rule store_keeps_inv [OF laws chunk _ _ _ _ q])
         (use inv ids fresh that Create_artifact in \<open>auto simp: evidence_inv_def has_row_image\<close>)
    then show ?thesis unfolding q P_def using that(1) by (intro answer_keeps_inv [of env w1 _ "w_db w" s]) auto
  qed
  have "P w" using inv by (auto simp: P_def)
  then have "P (snd (create_evidence_artifact env u k title description w))"
    by (auto simp: create_evidence_artifact_def Let_def split: sum.splits option.splits intro!: keep)
  then show ?thesis using Create_artifact by (simp add: P_def)
next
  case (Add_version u k f x)
  show ?thesis
  proof (cases "row_get ea_id k (evidence_artifacts (w_db w))")
    case (Some artifact)
    obtain q w1 where q: "capture_and_store_version env u artifact f x w = (q, w1)" by fastforce
    have "evidence_inv env w1 \<and> version_ids w1 \<subseteq> insert (eu_version_id u) (version_ids w) \<and> (\<forall>e. q = Inl e \<longrightarrow> w_db w1 = w_db w)"
      by (rule store_keeps_inv [OF laws chunk inv _ _ _ q])
         (use ids fresh Add_version row_get_key [OF Some] in \<open>auto simp: has_row_image\<close>)
    then have "evidence_inv env (snd (answer (w_db w) ok err msg (q, w1))) \<and>
        version_ids (snd (answer (w_db w) ok err msg (q, w1))) \<subseteq> insert (eu_version_id u) (version_ids w)" for ok err msg
      by (intro answer_keeps_inv) auto
    then show ?thesis using inv Add_version Some q
      by (auto simp: upload_evidence_artifact_version_def split: sum.splits)
  qed (use inv Add_version in \<open>auto simp: upload_evidence_artifact_version_def split: sum.splits\<close>)
qed

lemma history_keeps_inv:
  "s3_laws (ee_client env) (ee_bucket env) \<Longrightarrow> 0 < ee_chunk env \<Longrightarrow> evidence_inv env w \<Longrightarrow> new_version_ids rs w \<Longrightarrow>
     evidence_inv env (evidence_history env rs w)"
proof (induction rs arbitrary: w)
  case (Cons r rs)
  let ?w = "snd (evidence_serve env r w)"
  have step: "evidence_inv env ?w \<and> version_ids ?w \<subseteq> insert (request_version r) (version_ids w)"
    by (rule serve_keeps_inv [OF Cons.prems(1-3)]) (use Cons.prems(4) in \<open>simp_all add: new_version_ids_def\<close>)
  have "request_version q \<notin> version_ids ?w" if "q \<in> set rs" for q
  proof -
    have "request_version q \<noteq> request_version r" "request_version q \<notin> version_ids w"
      using that Cons.prems(4) by (auto simp: new_version_ids_def dest: sym)
    then show ?thesis using step by blast
  qed
  then have "new_version_ids rs ?w" using Cons.prems(4) by (simp add: new_version_ids_def)
  then show ?case using Cons.IH [OF Cons.prems(1,2)] step by (simp add: evidence_history_def)
qed (simp add: evidence_history_def)

section \<open>Properties of the repository\<close>

text \<open>A client over a map, a store with one artifact, and uploads of two text files.\<close>

definition demo_s3 :: "(string \<rightharpoonup> string) s3_client" where
  "demo_s3 = \<lparr>s3_put = (\<lambda>bk k x m b. (True, b(k \<mapsto> x))), s3_delete = (\<lambda>bk k b. (True, b(k := None))), s3_get = (\<lambda>bk k b. b k)\<rparr>"

definition demo_evidence_env :: "(string \<rightharpoonup> string) evidence_env" where
  "demo_evidence_env = \<lparr>ee_client = demo_s3, ee_bucket = ''b'', ee_configured = True, ee_max_upload_bytes = 9, ee_chunk = 4,
     ee_sha256 = (\<lambda>x. x), ee_zip_names = (\<lambda>_. None)\<rparr>"

definition demo_upload :: "int \<Rightarrow> string \<Rightarrow> string \<Rightarrow> evidence_upload" where
  "demo_upload n k content = \<lparr>eu_tick = demo_tick n, eu_version_id = k, eu_tmp_path = ''t'', eu_file = Some (''a.txt'', content),
     eu_user_id = ''u'', eu_user_email = ''u@x''\<rparr>"

definition demo_evidence_world :: "(string \<rightharpoonup> string) evidence_world" where
  "demo_evidence_world = \<lparr>w_db = empty_db, w_files = Map.empty, w_bucket = Map.empty\<rparr>"

definition demo_evidence_requests :: "evidence_request list" where
  "demo_evidence_requests =
     [Create_artifact (demo_upload 1 ''v1'' ''one'') ''art'' ''A'' [], Add_version (demo_upload 2 ''v2'' []) ''art'' ''a.txt'' ''two'',
      Add_version (demo_upload 3 ''v3'' []) ''art'' ''b.txt'' ''one'']"

lemma demo_s3_laws: "s3_laws (ee_client demo_evidence_env) (ee_bucket demo_evidence_env)"
  by (simp add: s3_laws_def demo_evidence_env_def demo_s3_def)

lemma empty_repository: "evidence_inv env \<lparr>w_db = empty_db, w_files = fs, w_bucket = b\<rparr>"
  by (simp add: evidence_inv_def rows_ok_def rows_stored_def numbered_def empty_db_def)

text \<open>
  C17. Evidence stays retrievable and intact. Whatever sequence of creations and uploads is
  served, and whether each succeeds, is refused, or fails after its object was already
  uploaded: every version row can be downloaded and its bytes hash to the digest on the row,
  no artifact holds the same content twice, and the versions of an artifact are numbered
  from one without gaps.
\<close>

theorem evidence_integrity:
  assumes "s3_laws (ee_client env) (ee_bucket env)" and "0 < ee_chunk env" and "ee_configured env"
    and "evidence_inv env w" and "new_version_ids rs w"
  defines "w' \<equiv> evidence_history env rs w"
  shows "rows_ok (evidence_artifact_versions (w_db w')) \<and>
         (\<forall>v\<in>set (evidence_artifact_versions (w_db w')). \<exists>content.
            download_evidence_artifact_version env (av_artifact_id v) (av_id v) w' =
              Inr (Download content (av_media_type v) (av_original_filename v)) \<and>
            ee_sha256 env content = av_sha256 v)"
proof (intro conjI ballI)
  have inv: "evidence_inv env w'" unfolding w'_def by (rule history_keeps_inv [OF assms(1,2,4,5)])
  then show ok: "rows_ok (evidence_artifact_versions (w_db w'))" by (simp add: evidence_inv_def)
  fix v assume v: "v \<in> set (evidence_artifact_versions (w_db w'))"
  then obtain content where "s3_get (ee_client env) (ee_bucket env) (av_object_key v) (w_bucket w') = Some content"
    "ee_sha256 env content = av_sha256 v"
    using inv by (auto simp: evidence_inv_def rows_stored_def)
  moreover have "row_get av_id (av_id v) (evidence_artifact_versions (w_db w')) = Some v"
    using ok v by (intro row_get_unique) (simp_all add: rows_ok_def)
  ultimately show "\<exists>content. download_evidence_artifact_version env (av_artifact_id v) (av_id v) w' =
      Inr (Download content (av_media_type v) (av_original_filename v)) \<and> ee_sha256 env content = av_sha256 v"
    using assms(3) by (simp add: download_evidence_artifact_version_def require_configured_def download_object_def)
qed

lemma evidence_integrity_witness:
  "\<exists>content. download_evidence_artifact_version demo_evidence_env ''art'' ''v2''
       (evidence_history demo_evidence_env demo_evidence_requests demo_evidence_world) = Inr (Download content ''text/plain'' ''a.txt'') \<and>
     ee_sha256 demo_evidence_env content = ''two'' \<and>
     map av_version_number (evidence_artifact_versions (w_db (evidence_history demo_evidence_env demo_evidence_requests demo_evidence_world))) = [1, 2]"
proof -
  let ?w = "evidence_history demo_evidence_env demo_evidence_requests demo_evidence_world"
  have run: "map (\<lambda>v. (av_id v, av_artifact_id v, av_media_type v, av_original_filename v, av_sha256 v)) (evidence_artifact_versions (w_db ?w)) =
      [(''v1'', ''art'', ''text/plain'', ''a.txt'', ''one''), (''v2'', ''art'', ''text/plain'', ''a.txt'', ''two'')]"
    "map av_version_number (evidence_artifact_versions (w_db ?w)) = [1, 2]"
    by code_simp+
  then obtain x v where vs: "evidence_artifact_versions (w_db ?w) = [x, v]" and v: "av_id v = ''v2''" "av_artifact_id v = ''art''"
    "av_media_type v = ''text/plain''" "av_original_filename v = ''a.txt''" "av_sha256 v = ''two''"
    by (auto simp: map_eq_Cons_conv)
  have new: "new_version_ids demo_evidence_requests demo_evidence_world" by code_simp
  have env: "0 < ee_chunk demo_evidence_env" "ee_configured demo_evidence_env" by (simp_all add: demo_evidence_env_def)
  have inv: "evidence_inv demo_evidence_env demo_evidence_world"
    unfolding demo_evidence_world_def by (rule empty_repository)
  have "v \<in> set (evidence_artifact_versions (w_db ?w))" by (simp add: vs)
  with evidence_integrity [OF demo_s3_laws env inv new, THEN conjunct2]
  have "\<exists>content. download_evidence_artifact_version demo_evidence_env (av_artifact_id v) (av_id v) ?w =
      Inr (Download content (av_media_type v) (av_original_filename v)) \<and> ee_sha256 demo_evidence_env content = av_sha256 v"
    by (rule bspec)
  then show ?thesis unfolding v by (elim exE conjE) (intro exI conjI, assumption, assumption, rule run(2))
qed

text \<open>
  One capture. The temporary file is gone afterwards in every case. Content the artifact
  already has is not uploaded again: the existing version comes back and nothing changes.
  A new capture uploads first and then records the next version number. A failed capture
  leaves the database as it was, and no object behind when the store can delete.
\<close>

theorem capture_outcome:
  assumes laws: "s3_laws c bk"
    and fresh: "s3_get c bk (object_key_for art v (ca_extension a)) (w_bucket w) = None"
    and run: "capture_evidence_version c bk t v art a w = (r, w')"
  shows "w_files w' = (w_files w)(ca_tmp_path a := None) \<and>
    (case r of
       Inl e \<Rightarrow> w_db w' = w_db w \<and>
         ((\<forall>k b. fst (s3_delete c bk k b)) \<longrightarrow> (\<forall>k. s3_get c bk k (w_bucket w') = s3_get c bk k (w_bucket w)))
     | Inr (x, False) \<Rightarrow> w_db w' = w_db w \<and> w_bucket w' = w_bucket w \<and>
         (\<exists>y\<in>set (evidence_artifact_versions (w_db w)). x = Some y \<and> av_artifact_id y = art \<and> av_sha256 y = ca_sha256 a)
     | Inr (x, True) \<Rightarrow>
         s3_get c bk (object_key_for art v (ca_extension a)) (w_bucket w') = w_files w (ca_tmp_path a) \<and>
         (\<forall>y\<in>set (evidence_artifact_versions (w_db w)). av_artifact_id y = art \<longrightarrow> av_sha256 y \<noteq> ca_sha256 a) \<and>
         (\<exists>y. x = Some y \<and> evidence_artifact_versions (w_db w') = evidence_artifact_versions (w_db w) @ [y] \<and>
              av_sha256 y = ca_sha256 a \<and> av_version_number y = next_version_number art (w_db w)))"
proof (cases "find (\<lambda>v. av_sha256 v = ca_sha256 a) (artifact_versions art (w_db w))")
  case (Some x)
  then have "r = Inr (Some x, False)" "w' = w\<lparr>w_files := (w_files w)(ca_tmp_path a := None)\<rparr>"
    using run by (simp_all add: capture_evidence_version_def)
  then show ?thesis using find_SomeD [OF Some] by (auto simp: artifact_versions_set)
next
  case None
  let ?k = "object_key_for art v (ca_extension a)"
  have new: "\<forall>y\<in>set (evidence_artifact_versions (w_db w)). av_artifact_id y = art \<longrightarrow> av_sha256 y \<noteq> ca_sha256 a"
    using None artifact_versions_set [of art "w_db w"] by (auto simp: find_None_iff)
  obtain up b where up: "upload_object c bk ?k (ca_tmp_path a) (ca_media_type a) (w_files w) (w_bucket w) = (up, b)" by fastforce
  note put = upload_other [OF laws up] upload_stores [OF laws up]
  show ?thesis
  proof (cases up)
    case (Inl e)
    then have eq: "r = Inl e" "w_db w' = w_db w" "w_bucket w' = b" "w_files w' = (w_files w)(ca_tmp_path a := None)"
      using run None up by (auto simp: capture_evidence_version_def Let_def)
    have "s3_get c bk k b = s3_get c bk k (w_bucket w)" for k using put Inl by (cases "k = ?k") simp_all
    then show ?thesis using eq by simp
  next
    case up_ok: (Inr u)
    show ?thesis
    proof (cases "capture_event t v art a (w_db w)")
      case (Inl e)
      then have eq: "r = Inl e" "w_db w' = w_db w" "w_bucket w' = delete_object c bk ?k b" "w_files w' = (w_files w)(ca_tmp_path a := None)"
        using run None up up_ok by (auto simp: capture_evidence_version_def Let_def)
      have "s3_get c bk k (delete_object c bk ?k b) = s3_get c bk k (w_bucket w)" if "\<forall>k b. fst (s3_delete c bk k b)" for k
      proof (cases "k = ?k")
        case True
        obtain ok b' where d: "s3_delete c bk ?k b = (ok, b')" by fastforce
        then have "ok" using that by (metis fst_conv)
        then show ?thesis using s3_delete_law(1) [OF laws d] fresh True d by (simp add: delete_object_def)
      qed (simp add: delete_other [OF laws] put(1))
      then show ?thesis using eq by simp
    next
      case ev: (Inr s')
      then have eq: "r = Inr (row_get av_id v (evidence_artifact_versions s'), True)" "w_db w' = s'" "w_bucket w' = b"
        "w_files w' = (w_files w)(ca_tmp_path a := None)"
        using run None up up_ok by (auto simp: capture_evidence_version_def Let_def)
      obtain e y where s': "s' = (w_db w)\<lparr>domain_events := domain_events (w_db w) @ [e],
          evidence_artifact_versions := evidence_artifact_versions (w_db w) @ [y]\<rparr>"
        and y: "av_sha256 y = ca_sha256 a" "av_id y = v" "av_version_number y = next_version_number art (w_db w)"
          "\<not> has_row av_id v (evidence_artifact_versions (w_db w))" using capture_event_Inr [OF ev] by blast
      have "row_get av_id v (evidence_artifact_versions s') = Some y"
        using y by (simp add: s' row_get_append row_get_None_iff [THEN iffD2])
      moreover have "evidence_artifact_versions s' = evidence_artifact_versions (w_db w) @ [y]" by (simp add: s')
      moreover have "s3_get c bk ?k b = w_files w (ca_tmp_path a)" using put(2) up_ok by simp
      ultimately show ?thesis using eq new y by simp
    qed
  qed
qed

definition demo_capture_args :: "string \<Rightarrow> capture_args" where
  "demo_capture_args digest = upload_args (demo_upload 1 ''v'' []) \<lparr>cb_tmp_path = ''t'', cb_sha256 = digest, cb_byte_size = 3\<rparr> ''text/plain'' ''a.txt'' ''txt''"

lemma capture_outcome_witness:
  "\<exists>r w'. capture_evidence_version demo_s3 ''b'' (demo_tick 1) ''v'' ''missing'' (demo_capture_args ''one'')
       \<lparr>w_db = empty_db, w_files = [''t'' \<mapsto> ''one''], w_bucket = Map.empty\<rparr> = (r, w') \<and>
     (\<exists>e. r = Inl e) \<and> w_db w' = empty_db \<and> w_files w' ''t'' = None \<and> (\<forall>k. s3_get demo_s3 ''b'' k (w_bucket w') = None)"
proof -
  let ?w = "\<lparr>w_db = empty_db, w_files = [''t'' \<mapsto> ''one''], w_bucket = Map.empty\<rparr>"
  obtain r w' where run: "capture_evidence_version demo_s3 ''b'' (demo_tick 1) ''v'' ''missing'' (demo_capture_args ''one'') ?w = (r, w')"
    by fastforce
  have "case fst (capture_evidence_version demo_s3 ''b'' (demo_tick 1) ''v'' ''missing'' (demo_capture_args ''one'') ?w) of
      Inl _ \<Rightarrow> True | Inr _ \<Rightarrow> False" by code_simp
  then obtain e where e: "r = Inl e" using run by (cases r) auto
  have laws: "s3_laws demo_s3 ''b''" using demo_s3_laws by (simp add: demo_evidence_env_def)
  have "s3_get demo_s3 ''b'' (object_key_for ''missing'' ''v'' (ca_extension (demo_capture_args ''one''))) (w_bucket ?w) = None"
    by (simp add: demo_s3_def)
  from capture_outcome [OF laws this run] e
  have "w_db w' = empty_db" "w_files w' ''t'' = None" "\<forall>k. s3_get demo_s3 ''b'' k (w_bucket w') = None"
    by (simp_all add: demo_s3_def demo_capture_args_def)
  then show ?thesis using run e by blast
qed

text \<open>
  The version rows are a projection. After any history of captures under a clock that
  moves forward the rebuild gives back the same rows and drops the links of the occurrences,
  while no test evidence and no remediation update names a version; as soon as one does, the
  rebuild fails with the foreign-key error.
\<close>

theorem evidence_rebuild:
  assumes "in_sync evidence_artifact_version_projectors ''evidence_artifact_version'' clear_evidence_artifact_versions s"
    and "recorded_by ''evidence_artifact_version'' seen (domain_events s)"
    and "clock_runs capture_stamp capture_stamp (\<lambda>_. True) seen cs"
    and "rfold (\<lambda>s c. capture_exec c s) cs s = Inr s'"
  shows "rebuild_evidence_artifact_version_projection s' =
           (if no_version_reference s' then Inr (drop_occurrence_links s') else Inl IntegrityError)"
proof (cases "no_version_reference s'")
  case True
  then show ?thesis unfolding rebuild_evidence_artifact_version_projection_def
    using evidence_domain.rebuild_after_history [OF assms True] by simp
next
  case False
  then show ?thesis
    by (simp add: rebuild_evidence_artifact_version_projection_def rebuild_projection_def reset_evidence_artifact_versions_def)
qed

lemma evidence_rebuild_witness:
  "\<exists>s'. rfold (\<lambda>s c. capture_exec c s) [(demo_tick 1, ''v1'', ''art'', demo_capture_args ''one''), (demo_tick 2, ''v2'', ''art'', demo_capture_args ''two'')]
           (empty_db\<lparr>evidence_artifacts := [\<lparr>ea_id = ''art'', ea_title = ''A'', ea_description = []\<rparr>]\<rparr>) = Inr s' \<and>
        evidence_artifact_versions s' \<noteq> [] \<and> rebuild_evidence_artifact_version_projection s' = Inr (drop_occurrence_links s')"
proof -
  let ?s = "empty_db\<lparr>evidence_artifacts := [\<lparr>ea_id = ''art'', ea_title = ''A'', ea_description = []\<rparr>]\<rparr>"
  let ?cs = "[(demo_tick 1, ''v1'', ''art'', demo_capture_args ''one''), (demo_tick 2, ''v2'', ''art'', demo_capture_args ''two'')]"
  let ?t0 = "Datetime (Date 2026 8 20) 0"
  have sync: "in_sync evidence_artifact_version_projectors ''evidence_artifact_version'' clear_evidence_artifact_versions ?s"
    by (simp add: in_sync_def empty_db_def clear_evidence_artifact_versions_def events_of_def)
  have rec: "recorded_by ''evidence_artifact_version'' ?t0 (domain_events ?s)" by (simp add: recorded_by_def empty_db_def)
  have clock: "clock_runs capture_stamp capture_stamp (\<lambda>_. True) ?t0 ?cs" by code_simp
  have "case rfold (\<lambda>s c. capture_exec c s) ?cs ?s of Inl _ \<Rightarrow> False
      | Inr s' \<Rightarrow> length (evidence_artifact_versions s') = 2 \<and> no_version_reference s'" by code_simp
  then obtain s' where s': "rfold (\<lambda>s c. capture_exec c s) ?cs ?s = Inr s'" "length (evidence_artifact_versions s') = 2"
    "no_version_reference s'" by (auto split: sum.splits simp del: rfold.simps)
  have "rebuild_evidence_artifact_version_projection s' = Inr (drop_occurrence_links s')"
    using evidence_rebuild [OF sync rec clock s'(1)] s'(3) by simp
  moreover have "evidence_artifact_versions s' \<noteq> []" using s'(2) by auto
  ultimately show ?thesis by (intro exI conjI) (rule s'(1) | assumption)+
qed

end
