(* ===== verification/Jobs.thy ===== *)
theory Jobs
  imports Models File_Storage
begin

text \<open>
  \<open>src/app/jobs.py\<close>: the database-backed job queue. An instant is a number of microseconds. The
  handlers are a parameter: a handler reads the payload and may write application data before
  it returns or raises, and what it wrote stays in the session either way. Workers run
  concurrently: the choice of a candidate, the guarded update that claims it and the commit
  of its outcome are separate steps of a transition system, in any interleaving.
\<close>

section \<open>The queue\<close>

datatype job_status = JPending | JRunning | JSucceeded | JFailed

record job =
  jb_id :: string
  jb_job_type :: string
  jb_status :: job_status
  jb_payload :: json
  jb_result :: "json option"
  jb_error_message :: "string option"
  jb_attempts :: int
  jb_max_attempts :: int
  jb_idempotency_key :: "string option"
  jb_available_at :: int
  jb_claimed_by :: "string option"
  jb_claimed_at :: "int option"
  jb_created_by :: string
  jb_created_at :: int

record 'd job_db =
  jobs :: "job list"
  job_audit :: "audit_event list"
  app_data :: 'd

text \<open>A handler's outcome: the text of its exception or its result, and the data it leaves.\<close>

type_synonym 'd handlers = "string \<rightharpoonup> (json \<Rightarrow> 'd \<Rightarrow> (string + json) \<times> 'd)"

definition second :: int where
  "second = 1000000"

definition stale_running_threshold :: int where
  "stale_running_threshold = 120 * second"

definition backoff_base_seconds :: int where
  "backoff_base_seconds = 5"

definition audit_job :: "string \<Rightarrow> string \<Rightarrow> string \<Rightarrow> string \<Rightarrow> 'd job_db \<Rightarrow> 'd job_db" where
  "audit_job job_id action detail actor s =
     s\<lparr>job_audit := job_audit s @
        [\<lparr>ae_entity_type = ''job'', ae_entity_id = job_id, ae_action = action, ae_detail = detail, ae_actor = actor\<rparr>]\<rparr>"

definition find_job_by_key :: "string option \<Rightarrow> 'd job_db \<Rightarrow> job option" where
  "find_job_by_key key s =
     (case key of None \<Rightarrow> None | Some k \<Rightarrow> find (\<lambda>j. jb_idempotency_key j = Some k) (jobs s))"

definition enqueue_job ::
  "string \<Rightarrow> int \<Rightarrow> string \<Rightarrow> json \<Rightarrow> string \<Rightarrow> string option \<Rightarrow> int \<Rightarrow> 'd job_db \<Rightarrow> (job \<times> 'd job_db) result" where
  "enqueue_job new_id now job_type payload actor idempotency_key max_attempts s =
     (case find_job_by_key idempotency_key s of
        Some existing \<Rightarrow> Inr (existing, s)
      | None \<Rightarrow>
          if has_row jb_id new_id (jobs s) then Inl IntegrityError
          else (let job = \<lparr>jb_id = new_id, jb_job_type = job_type, jb_status = JPending, jb_payload = payload,
                      jb_result = None, jb_error_message = None, jb_attempts = 0, jb_max_attempts = max_attempts,
                      jb_idempotency_key = idempotency_key, jb_available_at = now, jb_claimed_by = None,
                      jb_claimed_at = None, jb_created_by = actor, jb_created_at = now\<rparr>
                in Inr (job, audit_job new_id ''enqueue'' (''Enqueued '' @ job_type @ '' job'') actor
                               (s\<lparr>jobs := jobs s @ [job]\<rparr>))))"

definition candidate_predicate :: "int \<Rightarrow> int \<Rightarrow> job \<Rightarrow> bool" where
  "candidate_predicate now stale_before j =
     (jb_status j = JPending \<and> jb_available_at j \<le> now \<or>
      jb_status j = JRunning \<and> (case jb_claimed_at j of None \<Rightarrow> False | Some t \<Rightarrow> t \<le> stale_before))"

text \<open>The guarded update and its row count; the row is read back when exactly one matched.\<close>

definition try_claim :: "string \<Rightarrow> string \<Rightarrow> int \<Rightarrow> int \<Rightarrow> 'd job_db \<Rightarrow> job option \<times> 'd job_db" where
  "try_claim job_id worker_id now stale_before s =
     (let hit = (\<lambda>j. jb_id j = job_id \<and> candidate_predicate now stale_before j);
          s' = s\<lparr>jobs := map (\<lambda>j. if hit j
                 then j\<lparr>jb_status := JRunning, jb_claimed_by := Some worker_id, jb_claimed_at := Some now\<rparr> else j) (jobs s)\<rparr>
      in if length (filter hit (jobs s)) \<noteq> 1 then (None, s') else (row_get jb_id job_id (jobs s'), s'))"

definition candidate_id :: "int \<Rightarrow> 'd job_db \<Rightarrow> string option" where
  "candidate_id now s =
     (case sort_key jb_created_at (filter (candidate_predicate now (now - stale_running_threshold)) (jobs s)) of
        [] \<Rightarrow> None | j # _ \<Rightarrow> Some (jb_id j))"

definition claim_job :: "string \<Rightarrow> int \<Rightarrow> 'd job_db \<Rightarrow> job option \<times> 'd job_db" where
  "claim_job worker_id now s =
     (case candidate_id now s of
        None \<Rightarrow> (None, s)
      | Some k \<Rightarrow> try_claim k worker_id now (now - stale_running_threshold) s)"

definition claim_specific_job :: "string \<Rightarrow> string \<Rightarrow> int \<Rightarrow> 'd job_db \<Rightarrow> job option \<times> 'd job_db" where
  "claim_specific_job job_id worker_id now s =
     (let hit = (\<lambda>j. jb_id j = job_id \<and> jb_status j = JPending);
          s' = s\<lparr>jobs := map (\<lambda>j. if hit j
                 then j\<lparr>jb_status := JRunning, jb_claimed_by := Some worker_id, jb_claimed_at := Some now\<rparr> else j) (jobs s)\<rparr>
      in if length (filter hit (jobs s)) \<noteq> 1 then (None, s') else (row_get jb_id job_id (jobs s'), s'))"

text \<open>
  The columns a run writes, from the row as it was read: \<open>job.attempts += 1\<close> is the value read
  plus one. A missing handler is a failed attempt.
\<close>

definition handler_outcome :: "'d handlers \<Rightarrow> job \<Rightarrow> 'd \<Rightarrow> (string + json) \<times> 'd" where
  "handler_outcome handlers job d =
     (case handlers (jb_job_type job) of
        None \<Rightarrow> (Inl (''no handler registered for job_type '' @ jb_job_type job), d)
      | Some h \<Rightarrow> h (jb_payload job) d)"

definition finished_row :: "int \<Rightarrow> job \<Rightarrow> string + json \<Rightarrow> job \<Rightarrow> job" where
  "finished_row now job outcome r =
     (let attempts = jb_attempts job + 1
      in case outcome of
           Inr result \<Rightarrow>
             r\<lparr>jb_attempts := attempts, jb_status := JSucceeded, jb_result := Some result, jb_error_message := None\<rparr>
         | Inl msg \<Rightarrow>
             if attempts \<ge> jb_max_attempts job
             then r\<lparr>jb_attempts := attempts, jb_error_message := Some (take 2000 msg), jb_status := JFailed\<rparr>
             else r\<lparr>jb_attempts := attempts, jb_error_message := Some (take 2000 msg), jb_status := JPending,
                    jb_available_at := now + backoff_base_seconds * 2 ^ nat (attempts - 1) * second\<rparr>)"

definition run_detail :: "job \<Rightarrow> string + json \<Rightarrow> string" where
  "run_detail job outcome =
     (let attempts = jb_attempts job + 1
      in case outcome of
           Inr _ \<Rightarrow> ''Job '' @ jb_job_type job @ '' succeeded on attempt '' @ str_int attempts
         | Inl msg \<Rightarrow>
             if attempts \<ge> jb_max_attempts job
             then ''Job '' @ jb_job_type job @ '' failed permanently after '' @ str_int attempts @ '' attempts: '' @ msg
             else ''Job '' @ jb_job_type job @ '' attempt '' @ str_int attempts @ '' failed, retrying in '' @
                  str_int (backoff_base_seconds * 2 ^ nat (attempts - 1)) @ ''s: '' @ msg)"

definition run_job :: "'d handlers \<Rightarrow> int \<Rightarrow> job \<Rightarrow> string \<Rightarrow> 'd job_db \<Rightarrow> 'd job_db" where
  "run_job handlers now job actor s =
     (case handler_outcome handlers job (app_data s) of
        (outcome, d) \<Rightarrow>
          audit_job (jb_id job) ''run'' (run_detail job outcome) actor
            (s\<lparr>app_data := d, jobs := row_upd jb_id (jb_id job) (finished_row now job outcome) (jobs s)\<rparr>))"

definition process_next_job :: "'d handlers \<Rightarrow> string \<Rightarrow> string \<Rightarrow> int \<Rightarrow> int \<Rightarrow> 'd job_db \<Rightarrow> bool \<times> 'd job_db" where
  "process_next_job handlers worker_id actor now later s =
     (case claim_job worker_id now s of
        (None, s') \<Rightarrow> (False, s')
      | (Some job, s') \<Rightarrow> (True, run_job handlers later job actor s'))"

section \<open>Workers\<close>

datatype worker_state = Idle | Chosen string int | Holding job

record worker =
  wk_id :: string
  wk_state :: worker_state

record 'd job_system =
  sys_db :: "'d job_db"
  sys_workers :: "worker list"

datatype job_event =
    Enqueue string string json string "string option" int
  | Choose string
  | Claim string
  | Finish string
  | Crash string

text \<open>One step at an instant; None when the worker is not in the state the step needs.\<close>

definition set_worker :: "string \<Rightarrow> worker_state \<Rightarrow> 'd job_system \<Rightarrow> 'd job_system" where
  "set_worker w st sys = sys\<lparr>sys_workers := row_upd wk_id w (\<lambda>r. r\<lparr>wk_state := st\<rparr>) (sys_workers sys)\<rparr>"

definition worker_state_of :: "string \<Rightarrow> 'd job_system \<Rightarrow> worker_state option" where
  "worker_state_of w sys = map_option wk_state (row_get wk_id w (sys_workers sys))"

fun job_step :: "'d handlers \<Rightarrow> int \<Rightarrow> job_event \<Rightarrow> 'd job_system \<Rightarrow> 'd job_system option" where
  "job_step h now (Enqueue new_id job_type payload actor key max_attempts) sys =
     (case enqueue_job new_id now job_type payload actor key max_attempts (sys_db sys) of
        Inl _ \<Rightarrow> None | Inr (_, s) \<Rightarrow> Some (sys\<lparr>sys_db := s\<rparr>))"
| "job_step h now (Choose w) sys =
     (if worker_state_of w sys \<noteq> Some Idle then None
      else Some (case candidate_id now (sys_db sys) of None \<Rightarrow> sys | Some k \<Rightarrow> set_worker w (Chosen k now) sys))"
| "job_step h now (Claim w) sys =
     (case worker_state_of w sys of
        Some (Chosen k t) \<Rightarrow>
          (case try_claim k w t (t - stale_running_threshold) (sys_db sys) of
             (None, s) \<Rightarrow> Some (set_worker w Idle (sys\<lparr>sys_db := s\<rparr>))
           | (Some job, s) \<Rightarrow> Some (set_worker w (Holding job) (sys\<lparr>sys_db := s\<rparr>)))
      | _ \<Rightarrow> None)"
| "job_step h now (Finish w) sys =
     (case worker_state_of w sys of
        Some (Holding job) \<Rightarrow> Some (set_worker w Idle (sys\<lparr>sys_db := run_job h now job w (sys_db sys)\<rparr>))
      | _ \<Rightarrow> None)"
| "job_step h now (Crash w) sys =
     (case worker_state_of w sys of None \<Rightarrow> None | Some _ \<Rightarrow> Some (set_worker w Idle sys))"

fun job_run :: "'d handlers \<Rightarrow> (int \<times> job_event) list \<Rightarrow> 'd job_system \<Rightarrow> 'd job_system option" where
  "job_run h [] sys = Some sys"
| "job_run h ((now, e) # es) sys = (case job_step h now e sys of None \<Rightarrow> None | Some sys' \<Rightarrow> job_run h es sys')"

text \<open>A run is prompt when time does not go back and no worker holds a claim past the threshold.\<close>

definition prompt_at :: "int \<Rightarrow> 'd job_system \<Rightarrow> bool" where
  "prompt_at now sys =
     list_all (\<lambda>w. case wk_state w of
         Holding j \<Rightarrow> (case jb_claimed_at j of None \<Rightarrow> True | Some t \<Rightarrow> now < t + stale_running_threshold)
       | _ \<Rightarrow> True) (sys_workers sys)"

fun prompt_run :: "'d handlers \<Rightarrow> int \<Rightarrow> (int \<times> job_event) list \<Rightarrow> 'd job_system \<Rightarrow> bool" where
  "prompt_run h clock [] sys = True"
| "prompt_run h clock ((now, e) # es) sys =
     (clock \<le> now \<and> prompt_at now sys \<and>
      (case job_step h now e sys of None \<Rightarrow> False | Some sys' \<Rightarrow> prompt_run h now es sys'))"

section \<open>Claims\<close>

lemma filter_unique_key: "unique_by key xs \<Longrightarrow> r \<in> set xs \<Longrightarrow> filter (\<lambda>j. key j = key r) xs = [r]"
  by (induction xs) (auto simp: unique_by_def filter_empty_conv image_iff)

lemma try_claim_hit:
  assumes "unique_by jb_id (jobs s)" "r \<in> set (jobs s)" "candidate_predicate now stale r"
  shows "try_claim (jb_id r) w now stale s =
    (Some (r\<lparr>jb_status := JRunning, jb_claimed_by := Some w, jb_claimed_at := Some now\<rparr>),
     s\<lparr>jobs := row_upd jb_id (jb_id r) (\<lambda>j. j\<lparr>jb_status := JRunning, jb_claimed_by := Some w, jb_claimed_at := Some now\<rparr>) (jobs s)\<rparr>)"
proof -
  let ?hit = "\<lambda>j. jb_id j = jb_id r \<and> candidate_predicate now stale j"
  let ?f = "\<lambda>j. j\<lparr>jb_status := JRunning, jb_claimed_by := Some w, jb_claimed_at := Some now\<rparr>"
  have hit: "?hit j \<longleftrightarrow> jb_id j = jb_id r" if "j \<in> set (jobs s)" for j
    using assms that unique_by_eqD by metis
  have "filter ?hit (jobs s) = filter (\<lambda>j. jb_id j = jb_id r) (jobs s)" using hit by (rule filter_cong [OF refl])
  moreover have "length (filter (\<lambda>j. jb_id j = jb_id r) (jobs s)) = 1"
    using filter_unique_key [OF assms(1,2)] by simp
  moreover have "map (\<lambda>j. if ?hit j then ?f j else j) (jobs s) = row_upd jb_id (jb_id r) ?f (jobs s)"
    unfolding row_upd_def by (rule map_cong [OF refl]) (use hit in auto)
  moreover have "row_get jb_id (jb_id r) (jobs s) = Some r" using assms(1,2) by (rule row_get_unique)
  ultimately show ?thesis by (simp add: try_claim_def Let_def row_get_upd)
qed

lemma try_claim_miss:
  assumes "\<And>r. r \<in> set (jobs s) \<Longrightarrow> jb_id r = k \<Longrightarrow> \<not> candidate_predicate now stale r"
  shows "try_claim k w now stale s = (None, s)"
proof -
  let ?hit = "\<lambda>j. jb_id j = k \<and> candidate_predicate now stale j"
  have "filter ?hit (jobs s) = []" using assms by (auto simp: filter_empty_conv)
  moreover have "map (\<lambda>j. if ?hit j then g j else j) (jobs s) = jobs s" for g
    by (rule map_idI) (use assms in auto)
  ultimately show ?thesis by (simp add: try_claim_def Let_def)
qed

lemma candidate_id_Some:
  assumes "candidate_id now s = Some k"
  shows "\<exists>r\<in>set (jobs s). jb_id r = k \<and> candidate_predicate now (now - stale_running_threshold) r"
proof -
  let ?xs = "filter (candidate_predicate now (now - stale_running_threshold)) (jobs s)"
  obtain r rs where "sort_key jb_created_at ?xs = r # rs" "jb_id r = k"
    using assms by (auto simp: candidate_id_def split: list.splits)
  then have "r \<in> set ?xs" by (metis list.set_intros(1) set_sort)
  then show ?thesis using \<open>jb_id r = k\<close> by auto
qed

lemma candidate_id_None_iff:
  "candidate_id now s = None \<longleftrightarrow> (\<forall>r\<in>set (jobs s). \<not> candidate_predicate now (now - stale_running_threshold) r)"
proof -
  have "candidate_id now s = None \<longleftrightarrow> filter (candidate_predicate now (now - stale_running_threshold)) (jobs s) = []"
    by (auto simp: candidate_id_def split: list.splits) (metis set_empty set_sort)
  then show ?thesis by (simp add: filter_empty_conv)
qed

text \<open>Alone, a worker's three steps are one call of \<open>process_next_job\<close>.\<close>

lemma steps_are_process_next_job:
  assumes "worker_state_of w sys = Some Idle" and "unique_by wk_id (sys_workers sys)"
    and "process_next_job h w w now later (sys_db sys) = (True, s')"
  shows "\<exists>sys'. job_run h [(now, Choose w), (now, Claim w), (later, Finish w)] sys = Some sys' \<and> sys_db sys' = s'"
proof -
  obtain k job s1 where k: "candidate_id now (sys_db sys) = Some k"
    and c: "try_claim k w now (now - stale_running_threshold) (sys_db sys) = (Some job, s1)" "s' = run_job h later job w s1"
    using assms(3) by (auto simp: process_next_job_def claim_job_def split: option.splits prod.splits)
  obtain r where r: "row_get wk_id w (sys_workers sys) = Some r" using assms(1) by (auto simp: worker_state_of_def)
  then have st: "worker_state_of w (set_worker w x sys1) = Some x" if "has_row wk_id w (sys_workers sys1)" for x and sys1 :: "'a job_system"
    using has_row_get [OF that] by (auto simp: worker_state_of_def set_worker_def row_get_upd)
  have "has_row wk_id w (sys_workers sys)" using r by (rule row_get_Some_has_row)
  then show ?thesis using assms(1) k c by (simp add: st set_worker_def [of w "Holding job"] set_worker_def [of w Idle]) (simp add: set_worker_def worker_state_of_def row_get_upd r)
qed

section \<open>Exclusive claims\<close>

text \<open>The limit on runs of a job; a limit below one still allows the first run.\<close>

definition run_limit :: "job \<Rightarrow> int" where
  "run_limit j = max 1 (jb_max_attempts j)"

definition attempts_ok :: "job \<Rightarrow> bool" where
  "attempts_ok j \<longleftrightarrow>
     0 \<le> jb_attempts j \<and> jb_attempts j \<le> run_limit j \<and>
     (jb_status j = JPending \<or> jb_status j = JRunning \<longrightarrow> jb_attempts j < run_limit j)"

text \<open>
  A held job is exactly the row in the table, running and claimed by its holder; a choice
  was made in the past.
\<close>

definition worker_ok :: "int \<Rightarrow> job list \<Rightarrow> worker \<Rightarrow> bool" where
  "worker_ok clock js w \<longleftrightarrow>
     (case wk_state w of
        Idle \<Rightarrow> True
      | Chosen k t \<Rightarrow> t \<le> clock
      | Holding j \<Rightarrow> j \<in> set js \<and> jb_status j = JRunning \<and> jb_claimed_by j = Some (wk_id w) \<and> jb_claimed_at j \<noteq> None)"

definition job_inv :: "int \<Rightarrow> 'd job_system \<Rightarrow> bool" where
  "job_inv clock sys \<longleftrightarrow>
     unique_by jb_id (jobs (sys_db sys)) \<and> unique_by wk_id (sys_workers sys) \<and>
     (\<forall>j\<in>set (jobs (sys_db sys)). attempts_ok j) \<and>
     (\<forall>w\<in>set (sys_workers sys). worker_ok clock (jobs (sys_db sys)) w)"

lemma worker_ok_upd: "worker_ok c js (x\<lparr>wk_state := st\<rparr>) = worker_ok c js \<lparr>wk_id = wk_id x, wk_state = st\<rparr>"
  by (simp add: worker_ok_def split: worker_state.splits)

lemma worker_ok_mono: "worker_ok c js w \<Longrightarrow> c \<le> c' \<Longrightarrow> worker_ok c' js w"
  by (auto simp: worker_ok_def split: worker_state.splits)

lemma job_inv_mono: "job_inv c sys \<Longrightarrow> c \<le> c' \<Longrightarrow> job_inv c' sys"
  using worker_ok_mono by (auto simp: job_inv_def)

lemma job_inv_set_worker:
  assumes "job_inv c sys" and "worker_ok c (jobs (sys_db sys)) \<lparr>wk_id = w, wk_state = st\<rparr>"
  shows "job_inv c (set_worker w st sys)"
  using assms by (auto simp: job_inv_def set_worker_def set_row_upd worker_ok_def split: worker_state.splits)

lemma enqueue_Inr:
  assumes "enqueue_job k now ty p a key m s = Inr (j, s')"
  shows "jobs s' = jobs s \<and> j \<in> set (jobs s) \<or>
         jobs s' = jobs s @ [j] \<and> \<not> has_row jb_id (jb_id j) (jobs s) \<and> attempts_ok j"
proof (cases "find_job_by_key key s")
  case None
  then show ?thesis using assms
    by (auto simp: enqueue_job_def Let_def audit_job_def attempts_ok_def run_limit_def split: if_splits)
next
  case (Some x)
  then have "j = x" "s' = s" using assms by (simp_all add: enqueue_job_def)
  then show ?thesis using Some by (auto simp: find_job_by_key_def dest: find_SomeD split: option.splits)
qed

text \<open>No worker that holds its job within the threshold has it among the candidates of another.\<close>

lemma held_not_candidate:
  assumes "worker_ok c js x" "wk_state x = Holding j" "prompt_at now sys" "x \<in> set (sys_workers sys)" "t \<le> now"
  shows "\<not> candidate_predicate t (t - stale_running_threshold) j"
proof -
  obtain t0 where t0: "jb_claimed_at j = Some t0" "jb_status j = JRunning"
    using assms(1,2) by (auto simp: worker_ok_def)
  then have "now < t0 + stale_running_threshold"
    using assms(2-4) by (auto simp: prompt_at_def list_all_iff split: worker_state.splits option.splits)
  then show ?thesis using t0 assms(5) by (simp add: candidate_predicate_def)
qed

text \<open>A worker that writes the row of a job nobody else holds, and moves to its next state.\<close>

lemma job_inv_update:
  assumes inv: "job_inv c sys" and js: "jobs s' = row_upd jb_id k f (jobs (sys_db sys))" and f: "\<And>r. jb_id (f r) = jb_id r"
    and ok: "\<And>r. r \<in> set (jobs (sys_db sys)) \<Longrightarrow> jb_id r = k \<Longrightarrow> attempts_ok (f r)"
    and free: "\<And>x j. x \<in> set (sys_workers sys) \<Longrightarrow> wk_id x \<noteq> w \<Longrightarrow> wk_state x = Holding j \<Longrightarrow> jb_id j \<noteq> k"
    and st: "worker_ok c (jobs s') \<lparr>wk_id = w, wk_state = st\<rparr>"
  shows "job_inv c (set_worker w st (sys\<lparr>sys_db := s'\<rparr>))"
proof -
  have "worker_ok c (jobs s') x" if "x \<in> set (sys_workers sys)" "wk_id x \<noteq> w" for x
  proof -
    have "worker_ok c (jobs (sys_db sys)) x" using inv that(1) by (simp add: job_inv_def)
    then show ?thesis using free [OF that] by (auto simp: worker_ok_def js set_row_upd split: worker_state.splits)
  qed
  then have "\<forall>x\<in>set (sys_workers (set_worker w st (sys\<lparr>sys_db := s'\<rparr>))). worker_ok c (jobs s') x"
    using st by (auto simp: set_worker_def set_row_upd worker_ok_upd)
  then show ?thesis using inv f ok by (auto simp: job_inv_def set_worker_def js set_row_upd)
qed

lemma worker_of:
  assumes "worker_state_of w sys = Some st"
  shows "\<exists>x\<in>set (sys_workers sys). wk_id x = w \<and> wk_state x = st"
  using assms by (auto simp: worker_state_of_def dest!: row_get_SomeD)

lemma claim_step_inv:
  assumes inv: "job_inv c sys" and c: "c \<le> now" and prompt: "prompt_at now sys"
    and chosen: "worker_state_of w sys = Some (Chosen k t)"
    and step: "job_step h now (Claim w) sys = Some sys'"
  shows "job_inv c sys'"
proof (cases "\<exists>r\<in>set (jobs (sys_db sys)). jb_id r = k \<and> candidate_predicate t (t - stale_running_threshold) r")
  case True
  then obtain r where r: "r \<in> set (jobs (sys_db sys))" "jb_id r = k" "candidate_predicate t (t - stale_running_threshold) r" by blast
  let ?f = "\<lambda>j. j\<lparr>jb_status := JRunning, jb_claimed_by := Some w, jb_claimed_at := Some t\<rparr>"
  let ?s = "(sys_db sys)\<lparr>jobs := row_upd jb_id k ?f (jobs (sys_db sys))\<rparr>"
  have uniq: "unique_by jb_id (jobs (sys_db sys))" using inv by (simp add: job_inv_def)
  have t: "t \<le> now" using worker_of [OF chosen] inv c by (force simp: job_inv_def worker_ok_def)
  have sys': "sys' = set_worker w (Holding (?f r)) (sys\<lparr>sys_db := ?s\<rparr>)"
    using step chosen try_claim_hit [OF uniq r(1,3)] r(2) by simp
  show ?thesis unfolding sys'
  proof (rule job_inv_update [OF inv, where k = k and f = ?f])
    fix x j assume x: "x \<in> set (sys_workers sys)" "wk_id x \<noteq> w" "wk_state x = Holding j"
    then have ok: "worker_ok c (jobs (sys_db sys)) x" using inv by (simp add: job_inv_def)
    then have "\<not> candidate_predicate t (t - stale_running_threshold) j" using held_not_candidate [OF _ x(3) prompt x(1) t] by blast
    then have "j \<noteq> r" using r(3) by auto
    moreover have "j \<in> set (jobs (sys_db sys))" using ok x(3) by (simp add: worker_ok_def)
    ultimately show "jb_id j \<noteq> k" using unique_by_eqD [OF uniq] r(1,2) by metis
  next
    fix r' assume "r' \<in> set (jobs (sys_db sys))" "jb_id r' = k"
    then have "r' = r" using unique_by_eqD [OF uniq] r(1,2) by metis
    moreover have "attempts_ok r" using inv r(1) by (simp add: job_inv_def)
    ultimately show "attempts_ok (?f r')" using r(3) by (auto simp: attempts_ok_def run_limit_def candidate_predicate_def)
  next
    show "worker_ok c (jobs ?s) \<lparr>wk_id = w, wk_state = Holding (?f r)\<rparr>"
      using r(1,2) by (auto simp: worker_ok_def set_row_upd)
  qed simp_all
next
  case False
  then have "try_claim k w t (t - stale_running_threshold) (sys_db sys) = (None, sys_db sys)" by (intro try_claim_miss) auto
  then have "sys' = set_worker w Idle sys" using step chosen by simp
  then show ?thesis using inv by (simp add: job_inv_set_worker worker_ok_def)
qed

lemma finished_row_id [simp]: "jb_id (finished_row now job out r) = jb_id r"
  by (simp add: finished_row_def Let_def split: sum.splits)

lemma finished_attempts:
  "attempts_ok j \<Longrightarrow> jb_status j = JRunning \<Longrightarrow> attempts_ok (finished_row now j out j)"
  by (auto simp: attempts_ok_def finished_row_def run_limit_def Let_def split: sum.splits)

lemma finish_step_inv:
  assumes inv: "job_inv c sys" and held: "worker_state_of w sys = Some (Holding job)"
    and step: "job_step h now (Finish w) sys = Some sys'"
  shows "job_inv c sys'"
proof -
  let ?out = "fst (handler_outcome h job (app_data (sys_db sys)))"
  obtain x where x: "x \<in> set (sys_workers sys)" "wk_id x = w" "wk_state x = Holding job" using worker_of [OF held] by blast
  have uniq: "unique_by jb_id (jobs (sys_db sys))" using inv by (simp add: job_inv_def)
  have job: "job \<in> set (jobs (sys_db sys))" "jb_status job = JRunning" "jb_claimed_by job = Some w"
    using inv x by (auto simp: job_inv_def worker_ok_def)
  have sys': "sys' = set_worker w Idle (sys\<lparr>sys_db := run_job h now job w (sys_db sys)\<rparr>)" using step held by simp
  show ?thesis unfolding sys'
  proof (rule job_inv_update [OF inv, where k = "jb_id job" and f = "finished_row now job ?out"])
    show "jobs (run_job h now job w (sys_db sys)) = row_upd jb_id (jb_id job) (finished_row now job ?out) (jobs (sys_db sys))"
      by (simp add: run_job_def audit_job_def split: prod.splits)
    fix y j assume y: "y \<in> set (sys_workers sys)" "wk_id y \<noteq> w" "wk_state y = Holding j"
    then have "j \<in> set (jobs (sys_db sys))" "jb_claimed_by j = Some (wk_id y)" using inv by (auto simp: job_inv_def worker_ok_def)
    then show "jb_id j \<noteq> jb_id job" using unique_by_eqD [OF uniq] job y(2) by (metis option.inject)
  next
    fix r assume "r \<in> set (jobs (sys_db sys))" "jb_id r = jb_id job"
    then have "r = job" using unique_by_eqD [OF uniq] job(1) by metis
    then show "attempts_ok (finished_row now job ?out r)"
      using inv job(1,2) by (simp add: job_inv_def finished_attempts)
  qed (simp_all add: worker_ok_def)
qed

lemma job_step_inv:
  assumes inv: "job_inv c sys" and c: "c \<le> now" and prompt: "prompt_at now sys"
    and step: "job_step h now e sys = Some sys'"
  shows "job_inv now sys'"
proof (cases e)
  case (Enqueue k ty p a key m)
  then obtain j s where s: "enqueue_job k now ty p a key m (sys_db sys) = Inr (j, s)" "sys' = sys\<lparr>sys_db := s\<rparr>"
    using step by (auto split: sum.splits)
  have "job_inv c sys'" using enqueue_Inr [OF s(1)] inv s(2)
    by (auto simp: job_inv_def worker_ok_def split: worker_state.splits)
  then show ?thesis using c by (rule job_inv_mono)
next
  case (Choose w)
  then have "sys' = sys \<or> (\<exists>k. sys' = set_worker w (Chosen k now) sys)" using step by (auto split: if_splits option.splits)
  then show ?thesis using job_inv_mono [OF inv c] by (auto simp: worker_ok_def intro: job_inv_set_worker)
next
  case (Claim w)
  then obtain k t where "worker_state_of w sys = Some (Chosen k t)" using step by (auto split: option.splits worker_state.splits)
  then show ?thesis using claim_step_inv [OF inv c prompt] step Claim c job_inv_mono by blast
next
  case (Finish w)
  then obtain j where "worker_state_of w sys = Some (Holding j)" using step by (auto split: option.splits worker_state.splits)
  then show ?thesis using finish_step_inv [OF inv] step Finish c job_inv_mono by blast
next
  case (Crash w)
  then have "sys' = set_worker w Idle sys" using step by (auto split: option.splits)
  then show ?thesis using job_inv_mono [OF inv c] by (auto simp: worker_ok_def intro: job_inv_set_worker)
qed

lemma job_run_inv:
  "job_inv c sys \<Longrightarrow> prompt_run h c es sys \<Longrightarrow> job_run h es sys = Some sys' \<Longrightarrow> \<exists>c'. job_inv c' sys'"
proof (induction es arbitrary: c sys)
  case (Cons a es)
  obtain now e where a: "a = (now, e)" by fastforce
  obtain sys1 where "job_step h now e sys = Some sys1" "job_run h es sys1 = Some sys'" "prompt_run h now es sys1"
    "c \<le> now" "prompt_at now sys" using Cons.prems(2,3) a by (auto split: option.splits)
  then show ?case using Cons.IH [of now sys1] job_step_inv [OF Cons.prems(1)] by blast
qed auto

section \<open>Properties of the queue\<close>

text \<open>Three idle workers on an empty queue, and a handler that always fails.\<close>

definition demo_job_system :: "unit job_system" where
  "demo_job_system = \<lparr>sys_db = \<lparr>jobs = [], job_audit = [], app_data = ()\<rparr>,
     sys_workers = map (\<lambda>k. \<lparr>wk_id = k, wk_state = Idle\<rparr>) [''w1'', ''w2'', ''w3'']\<rparr>"

definition demo_handlers :: "unit handlers" where
  "demo_handlers = [''t'' \<mapsto> (\<lambda>_ d. (Inl ''boom'', d))]"

definition held_jobs :: "'d job_system \<Rightarrow> (string \<times> string \<times> int option) list" where
  "held_jobs sys =
     concat (map (\<lambda>w. case wk_state w of Holding j \<Rightarrow> [(wk_id w, jb_id j, jb_claimed_at j)] | _ \<Rightarrow> []) (sys_workers sys))"

lemma demo_job_inv: "job_inv 0 demo_job_system"
  by (simp add: job_inv_def demo_job_system_def worker_ok_def unique_by_def)

text \<open>
  C18. Exclusive claims and bounded retries. In every interleaving of enqueues, choices,
  claims, completions and crashes of any number of workers, as long as time does not go back
  and a worker that is still running finishes within the staleness threshold: no two workers
  hold the same job, a held job is the row in the table with its holder's name on it, and no
  job is run to an end more often than its limit.
\<close>

theorem claims_exclusive:
  assumes "job_inv c sys" and "prompt_run h c es sys" and "job_run h es sys = Some sys'"
  shows "(\<forall>x\<in>set (sys_workers sys'). \<forall>y\<in>set (sys_workers sys'). \<forall>i j.
            wk_state x = Holding i \<longrightarrow> wk_state y = Holding j \<longrightarrow> jb_id i = jb_id j \<longrightarrow> x = y) \<and>
         (\<forall>x\<in>set (sys_workers sys'). \<forall>j. wk_state x = Holding j \<longrightarrow>
            j \<in> set (jobs (sys_db sys')) \<and> jb_claimed_by j = Some (wk_id x)) \<and>
         (\<forall>j\<in>set (jobs (sys_db sys')). 0 \<le> jb_attempts j \<and> jb_attempts j \<le> max 1 (jb_max_attempts j))"
proof -
  obtain c' where inv: "job_inv c' sys'" using job_run_inv [OF assms] by blast
  have held: "j \<in> set (jobs (sys_db sys')) \<and> jb_claimed_by j = Some (wk_id x)"
    if "x \<in> set (sys_workers sys')" "wk_state x = Holding j" for x j
    using inv that by (auto simp: job_inv_def worker_ok_def)
  have "x = y" if x: "x \<in> set (sys_workers sys')" "wk_state x = Holding i" and y: "y \<in> set (sys_workers sys')" "wk_state y = Holding j"
    and "jb_id i = jb_id j" for x y i j
  proof -
    have "i = j" using inv held [OF x] held [OF y] that(5) unfolding job_inv_def by (metis unique_by_eqD)
    then have "wk_id x = wk_id y" using held [OF x] held [OF y] by simp
    then show ?thesis using inv x(1) y(1) unfolding job_inv_def by (metis unique_by_eqD)
  qed
  then show ?thesis using held inv by (auto simp: job_inv_def attempts_ok_def run_limit_def)
qed

definition demo_job_events :: "(int \<times> job_event) list" where
  "demo_job_events =
     [(0, Enqueue ''j'' ''t'' JNull ''u'' None 3), (1, Choose ''w1''), (1, Choose ''w2''), (2, Claim ''w2''), (3, Claim ''w1''),
      (4, Crash ''w2''), (5 + stale_running_threshold, Choose ''w3''), (6 + stale_running_threshold, Claim ''w3'')]"

lemma claims_exclusive_witness:
  "\<exists>sys'. job_run demo_handlers demo_job_events demo_job_system = Some sys' \<and>
     held_jobs sys' = [(''w3'', ''j'', Some (5 + stale_running_threshold))] \<and>
     (\<forall>j\<in>set (jobs (sys_db sys')). 0 \<le> jb_attempts j \<and> jb_attempts j \<le> max 1 (jb_max_attempts j))"
proof -
  have run: "case job_run demo_handlers demo_job_events demo_job_system of None \<Rightarrow> False
      | Some sys' \<Rightarrow> held_jobs sys' = [(''w3'', ''j'', Some (5 + stale_running_threshold))]" by code_simp
  then obtain sys' where sys': "job_run demo_handlers demo_job_events demo_job_system = Some sys'"
    "held_jobs sys' = [(''w3'', ''j'', Some (5 + stale_running_threshold))]" by (auto split: option.splits)
  have "prompt_run demo_handlers 0 demo_job_events demo_job_system" by code_simp
  from claims_exclusive [OF demo_job_inv this sys'(1)] sys' show ?thesis by blast
qed

definition late_events :: "(int \<times> job_event) list" where
  "late_events =
     [(0, Enqueue ''j'' ''t'' JNull ''u'' None 3), (0, Choose ''w1''), (0, Claim ''w1''),
      (120 * second, Choose ''w2''), (120 * second, Claim ''w2''), (125 * second, Finish ''w1''),
      (130 * second, Choose ''w3''), (130 * second, Claim ''w3'')]"

text \<open>
  A late completion breaks exclusion. When a worker outlives the threshold, its job is
  handed to a second worker; the late failure of the first then puts the row back to pending
  although the second still runs it, and a third worker claims it ten seconds after the
  second did: the outcome of a run is written without asking who holds the claim.
\<close>

theorem late_finish_breaks_exclusion:
  "\<exists>sys'. job_run demo_handlers late_events demo_job_system = Some sys' \<and>
     held_jobs sys' = [(''w2'', ''j'', Some (120 * second)), (''w3'', ''j'', Some (130 * second))]"
proof -
  have "case job_run demo_handlers late_events demo_job_system of None \<Rightarrow> False
    | Some sys' \<Rightarrow> held_jobs sys' = [(''w2'', ''j'', Some (120 * second)), (''w3'', ''j'', Some (130 * second))]" by code_simp
  then show ?thesis by (cases "job_run demo_handlers late_events demo_job_system") simp_all
qed

text \<open>
  No due job is left behind. Whenever some job is due, pending with its back-off over or
  running under a claim past the threshold, a claim succeeds: it takes a due job, marks it
  running under the worker's name and the time of the claim, and changes no other row. When
  nothing is due the claim changes nothing.
\<close>

theorem claim_progress:
  assumes "unique_by jb_id (jobs s)"
  shows "if \<exists>r\<in>set (jobs s). candidate_predicate now (now - stale_running_threshold) r
         then \<exists>r\<in>set (jobs s). candidate_predicate now (now - stale_running_threshold) r \<and>
           (let claimed = r\<lparr>jb_status := JRunning, jb_claimed_by := Some w, jb_claimed_at := Some now\<rparr>
            in claim_job w now s = (Some claimed, s\<lparr>jobs := map (\<lambda>j. if j = r then claimed else j) (jobs s)\<rparr>))
         else claim_job w now s = (None, s)"
proof (cases "candidate_id now s")
  case None
  then show ?thesis by (simp add: claim_job_def) (use candidate_id_None_iff [of now s] None in auto)
next
  case (Some k)
  obtain r where r: "r \<in> set (jobs s)" "jb_id r = k" "candidate_predicate now (now - stale_running_threshold) r"
    using candidate_id_Some [OF Some] by blast
  let ?f = "\<lambda>j. j\<lparr>jb_status := JRunning, jb_claimed_by := Some w, jb_claimed_at := Some now\<rparr>"
  have "row_upd jb_id k ?f (jobs s) = map (\<lambda>j. if j = r then ?f r else j) (jobs s)"
    unfolding row_upd_def by (rule map_cong [OF refl]) (use r unique_by_eqD [OF assms] in metis)
  then have "claim_job w now s = (Some (?f r), s\<lparr>jobs := map (\<lambda>j. if j = r then ?f r else j) (jobs s)\<rparr>)"
    using try_claim_hit [OF assms r(1,3), of w] r(2) Some by (simp add: claim_job_def)
  then show ?thesis using r by (auto simp: Let_def)
qed

definition demo_stale_job :: job where
  "demo_stale_job = \<lparr>jb_id = ''j'', jb_job_type = ''t'', jb_status = JRunning, jb_payload = JNull, jb_result = None,
     jb_error_message = None, jb_attempts = 0, jb_max_attempts = 3, jb_idempotency_key = None, jb_available_at = 0,
     jb_claimed_by = Some ''dead'', jb_claimed_at = Some 0, jb_created_by = ''u'', jb_created_at = 0\<rparr>"

lemma claim_progress_witness:
  "fst (claim_job ''w'' stale_running_threshold \<lparr>jobs = [demo_stale_job], job_audit = [], app_data = ()\<rparr>) =
     Some (demo_stale_job\<lparr>jb_status := JRunning, jb_claimed_by := Some ''w'', jb_claimed_at := Some stale_running_threshold\<rparr>)"
proof -
  let ?s = "\<lparr>jobs = [demo_stale_job], job_audit = [], app_data = ()\<rparr>"
  have "candidate_predicate stale_running_threshold (stale_running_threshold - stale_running_threshold) demo_stale_job" by code_simp
  then show ?thesis using claim_progress [of ?s stale_running_threshold "''w''"] by (simp add: Let_def unique_by_def)
qed

end
