(* ===== verification/Access_Control.thy ===== *)
theory Access_Control
  imports Models File_Storage
begin

text \<open>
  Who may do what: \<open>src/app/security.py\<close>, the guards of \<open>src/app/deps.py\<close>, sign-in and
  sign-out (\<open>routers/auth.py\<close>), user administration (\<open>routers/admin_users.py\<close>), API tokens
  (\<open>api_tokens.py\<close>, \<open>routers/admin_api_tokens.py\<close>), and the OpenID Connect login with its
  role mapping (\<open>routers/oidc.py\<close>, \<open>oidc_role_mapping.py\<close>). An instant is a number of
  microseconds. SHA-256, the password hasher and the identity provider are parameters; the
  random tokens and ids a request draws are its arguments; a dash in a message is written as
  a hyphen.
\<close>

section \<open>State\<close>

datatype role = Admin | Operator | Reader | Auditor
datatype user_status = UActive | UDisabled | UPending
datatype role_source = Local | Oidc_mapped

record user =
  us_id :: string
  us_email :: string
  us_password_hash :: string
  us_role :: role
  us_status :: user_status
  us_role_source :: role_source

record user_session =
  se_id :: string
  se_user_id :: string
  se_token_hash :: string
  se_expires_at :: int
  se_revoked_at :: "int option"

record api_token =
  at_id :: string
  at_name :: string
  at_token_hash :: string
  at_scope :: string
  at_created_by_user_id :: string
  at_expires_at :: "int option"
  at_revoked_at :: "int option"
  at_last_used_at :: "int option"

record oidc_role_mapping =
  rm_claim_value :: string
  rm_role :: role

record external_identity =
  ei_user_id :: string
  ei_issuer :: string
  ei_subject :: string

record auth =
  users :: "user list"
  user_sessions :: "user_session list"
  api_tokens :: "api_token list"
  oidc_role_mappings :: "oidc_role_mapping list"
  external_identities :: "external_identity list"
  auth_audit :: "audit_event list"

definition user_roles :: "(string \<times> role) list" where
  "user_roles = [(''admin'', Admin), (''operator'', Operator), (''reader'', Reader), (''auditor'', Auditor)]"

definition user_statuses :: "(string \<times> user_status) list" where
  "user_statuses = [(''active'', UActive), (''disabled'', UDisabled), (''pending'', UPending)]"

definition audit_auth :: "string \<Rightarrow> string \<Rightarrow> string \<Rightarrow> string \<Rightarrow> string \<Rightarrow> auth \<Rightarrow> auth" where
  "audit_auth entity_type entity_id action detail actor s =
     s\<lparr>auth_audit := auth_audit s @ [\<lparr>ae_entity_type = entity_type, ae_entity_id = entity_id, ae_action = action,
        ae_detail = detail, ae_actor = actor\<rparr>]\<rparr>"

definition quote :: "string \<Rightarrow> string" where
  "quote x = [CHR 0x27] @ x @ [CHR 0x27]"

text \<open>A row the database accepts: ids, e-mails and token hashes are unique.\<close>

definition insert_user :: "user \<Rightarrow> auth \<Rightarrow> auth result" where
  "insert_user u s =
     (if has_row us_id (us_id u) (users s) \<or> has_row us_email (us_email u) (users s) then Inl IntegrityError
      else Inr (s\<lparr>users := users s @ [u]\<rparr>))"

definition insert_session :: "user_session \<Rightarrow> auth \<Rightarrow> auth result" where
  "insert_session r s =
     (if has_row se_id (se_id r) (user_sessions s) \<or> has_row se_token_hash (se_token_hash r) (user_sessions s) \<or>
         \<not> has_row us_id (se_user_id r) (users s)
      then Inl IntegrityError else Inr (s\<lparr>user_sessions := user_sessions s @ [r]\<rparr>))"

section \<open>Passwords and tokens\<close>

text \<open>\<open>verify\<close> is the hasher's check, None when it raises on the stored hash.\<close>

definition verify_password :: "(string \<Rightarrow> string \<Rightarrow> bool option) \<Rightarrow> string \<Rightarrow> string option \<Rightarrow> bool" where
  "verify_password verify password password_hash =
     (case password_hash of None \<Rightarrow> False
      | Some h \<Rightarrow> (case verify password h of None \<Rightarrow> False | Some ok \<Rightarrow> ok))"

definition normalize_email :: "string \<Rightarrow> string" where
  "normalize_email email = lower (strip email)"

text \<open>\<open>secrets.compare_digest\<close> compares ASCII texts and raises on any other.\<close>

definition ascii_text :: "string \<Rightarrow> bool" where
  "ascii_text x = list_all (\<lambda>c. of_char c < (128 :: nat)) x"

definition compare_digest :: "string \<Rightarrow> string \<Rightarrow> bool result" where
  "compare_digest x y = (if ascii_text x \<and> ascii_text y then Inr (x = y) else Inl TypeError)"

definition csrf_tokens_match :: "string option \<Rightarrow> string option \<Rightarrow> bool result" where
  "csrf_tokens_match cookie_value submitted_value =
     (case (cookie_value, submitted_value) of
        (Some c, Some v) \<Rightarrow> if c = [] \<or> v = [] then Inr False else compare_digest c v
      | _ \<Rightarrow> Inr False)"

section \<open>Guards\<close>

record request =
  rq_session_cookie :: "string option"
  rq_csrf_cookie :: "string option"
  rq_csrf_form :: "string option"

definition require_login :: "(string \<Rightarrow> string) \<Rightarrow> int \<Rightarrow> request \<Rightarrow> auth \<Rightarrow> (user \<times> user_session) result" where
  "require_login sha now req s =
     (case rq_session_cookie req of
        None \<Rightarrow> Inl (HTTPException 303)
      | Some raw_token \<Rightarrow>
          if raw_token = [] then Inl (HTTPException 303)
          else (case find (\<lambda>r. se_token_hash r = sha raw_token) (user_sessions s) of
                  None \<Rightarrow> Inl (HTTPException 303)
                | Some user_session \<Rightarrow>
                    if se_revoked_at user_session \<noteq> None then Inl (HTTPException 303)
                    else if se_expires_at user_session < now then Inl (HTTPException 303)
                    else (case row_get us_id (se_user_id user_session) (users s) of
                            None \<Rightarrow> Inl (HTTPException 303)
                          | Some user \<Rightarrow>
                              if us_status user \<noteq> UActive then Inl (HTTPException 303)
                              else Inr (user, user_session))))"

definition require_admin :: "(string \<Rightarrow> string) \<Rightarrow> int \<Rightarrow> request \<Rightarrow> auth \<Rightarrow> user result" where
  "require_admin sha now req s =
     rbind (require_login sha now req s) (\<lambda>(user, _).
       if us_role user \<noteq> Admin then Inl (HTTPException 403) else Inr user)"

definition write_roles :: "role list" where
  "write_roles = [Admin, Operator]"

definition require_write_access :: "(string \<Rightarrow> string) \<Rightarrow> int \<Rightarrow> request \<Rightarrow> auth \<Rightarrow> user result" where
  "require_write_access sha now req s =
     rbind (require_login sha now req s) (\<lambda>(user, _).
       if us_role user \<notin> set write_roles then Inl (HTTPException 403) else Inr user)"

definition verify_csrf :: "request \<Rightarrow> unit result" where
  "verify_csrf req =
     rbind (csrf_tokens_match (rq_csrf_cookie req) (rq_csrf_form req)) (\<lambda>ok.
       if ok then Inr () else Inl (HTTPException 400))"

section \<open>Sign-in and sign-out\<close>

text \<open>A flash redirect, the redirect that sets or clears the session cookie, or the page with a new token.\<close>

datatype auth_response =
    Notice string string string
  | Signed_in string string
  | Signed_out
  | Token_page string string

definition start_user_session ::
  "(string \<Rightarrow> string) \<Rightarrow> int \<Rightarrow> int \<Rightarrow> string \<Rightarrow> string \<Rightarrow> user \<Rightarrow> auth \<Rightarrow> (auth_response \<times> auth) result" where
  "start_user_session sha now ttl_hours new_id raw_token user s =
     rbind (insert_session \<lparr>se_id = new_id, se_user_id = us_id user, se_token_hash = sha raw_token,
              se_expires_at = now + ttl_hours * 3600 * 1000000, se_revoked_at = None\<rparr> s)
       (\<lambda>s'. Inr (Signed_in (us_email user) raw_token, s'))"

definition login_submit ::
  "(string \<Rightarrow> string) \<Rightarrow> (string \<Rightarrow> string \<Rightarrow> bool option) \<Rightarrow> int \<Rightarrow> int \<Rightarrow> string \<Rightarrow> string \<Rightarrow> request \<Rightarrow> string \<Rightarrow> string \<Rightarrow>
   auth \<Rightarrow> (auth_response \<times> auth) result" where
  "login_submit sha verify now ttl_hours new_id raw_token req email password s =
     rbind (verify_csrf req) (\<lambda>_.
       let user = find (\<lambda>u. us_email u = normalize_email email) (users s)
       in if \<not> verify_password verify password (map_option us_password_hash user)
          then Inr (Notice ''/login'' ''Invalid email or password.'' ''error'', s)
          else (case user of
                  None \<Rightarrow> Inl AttributeError
                | Some u \<Rightarrow>
                    if us_status u = UPending
                    then Inr (Notice ''/login'' ''Your account is awaiting administrator approval.'' ''error'', s)
                    else if us_status u \<noteq> UActive
                    then Inr (Notice ''/login'' ''Your account is no longer active. Contact an administrator.'' ''error'', s)
                    else start_user_session sha now ttl_hours new_id raw_token u
                           (audit_auth ''user'' (us_id u) ''login'' ''User signed in'' (us_email u) s)))"

definition logout :: "(string \<Rightarrow> string) \<Rightarrow> int \<Rightarrow> request \<Rightarrow> auth \<Rightarrow> (auth_response \<times> auth) result" where
  "logout sha now req s =
     rbind (require_login sha now req s) (\<lambda>(user, user_session).
     rbind (verify_csrf req) (\<lambda>_.
       Inr (Signed_out, audit_auth ''user'' (us_id user) ''logout'' ''User signed out'' (us_email user)
         (s\<lparr>user_sessions := row_upd se_id (se_id user_session) (\<lambda>r. r\<lparr>se_revoked_at := Some now\<rparr>) (user_sessions s)\<rparr>))))"

section \<open>User administration\<close>

definition active_admin :: "user \<Rightarrow> bool" where
  "active_admin u = (us_role u = Admin \<and> us_status u = UActive)"

definition active_admin_count :: "auth \<Rightarrow> string option \<Rightarrow> nat" where
  "active_admin_count s excluding_user_id =
     length (filter (\<lambda>u. active_admin u \<and> Some (us_id u) \<noteq> excluding_user_id) (users s))"

definition create_user ::
  "(string \<Rightarrow> string) \<Rightarrow> int \<Rightarrow> string \<Rightarrow> request \<Rightarrow> string \<Rightarrow> auth \<Rightarrow> (auth_response \<times> auth) result" where
  "create_user sha now new_id req email s =
     rbind (require_admin sha now req s) (\<lambda>admin.
     rbind (verify_csrf req) (\<lambda>_.
       let normalized = normalize_email email
       in if has_row us_email normalized (users s)
          then Inr (Notice ''/admin/users/new'' ''A user with that email already exists.'' ''error'', s)
          else rbind (insert_user \<lparr>us_id = new_id, us_email = normalized, us_password_hash = [], us_role = Operator,
                        us_status = UActive, us_role_source = Local\<rparr> s) (\<lambda>s'.
                 Inr (Notice ''/admin/users'' (''Added '' @ normalized @ ''.'') ''success'',
                      audit_auth ''user'' new_id ''create_via_admin''
                        (''Added user '' @ quote normalized @ '' (sign in with Google or an admin-set password)'') (us_email admin) s'))))"

definition update_user ::
  "(string \<Rightarrow> string) \<Rightarrow> int \<Rightarrow> request \<Rightarrow> string \<Rightarrow> string \<Rightarrow> string \<Rightarrow> auth \<Rightarrow> (auth_response \<times> auth) result" where
  "update_user sha now req user_id role_text status_text s =
     rbind (require_admin sha now req s) (\<lambda>admin.
     rbind (verify_csrf req) (\<lambda>_.
       case row_get us_id user_id (users s) of
         None \<Rightarrow> Inl (HTTPException 404)
       | Some user \<Rightarrow>
           (case (map_of user_roles role_text, map_of user_statuses status_text) of
              (Some role, Some status) \<Rightarrow>
                (let edit_url = ''/admin/users/'' @ user_id @ ''/edit'';
                     remains_active_admin = (role = Admin \<and> status = UActive)
                 in if us_id user = us_id admin \<and> status \<noteq> UActive
                    then Inr (Notice edit_url ''You cannot disable your own account.'' ''error'', s)
                    else if active_admin user \<and> \<not> remains_active_admin \<and> active_admin_count s (Some (us_id user)) = 0
                    then Inr (Notice edit_url ''At least one active admin must remain - promote another user first.'' ''error'', s)
                    else Inr (Notice ''/admin/users'' (''Updated '' @ us_email user @ ''.'') ''success'',
                           audit_auth ''user'' (us_id user) ''update_role_status''
                             (''Set role='' @ role_text @ '' status='' @ status_text @ '' for '' @ quote (us_email user)) (us_email admin)
                             (s\<lparr>users := row_upd us_id user_id
                                (\<lambda>u. u\<lparr>us_role := role, us_status := status, us_role_source := Local\<rparr>) (users s)\<rparr>)))
            | _ \<Rightarrow> Inl (HTTPException 422))))"

section \<open>API tokens\<close>

definition create_api_token ::
  "(string \<Rightarrow> string) \<Rightarrow> string \<Rightarrow> string \<Rightarrow> string \<Rightarrow> user \<Rightarrow> int option \<Rightarrow> auth \<Rightarrow> (api_token \<times> auth) result" where
  "create_api_token sha new_id plaintext name actor expires_at s =
     (if has_row at_id new_id (api_tokens s) \<or> has_row at_token_hash (sha plaintext) (api_tokens s) then Inl IntegrityError
      else (let token = \<lparr>at_id = new_id, at_name = name, at_token_hash = sha plaintext, at_scope = ''read'',
                  at_created_by_user_id = us_id actor, at_expires_at = expires_at, at_revoked_at = None, at_last_used_at = None\<rparr>
            in Inr (token, audit_auth ''api_token'' new_id ''create''
                 (''Created read-only API token '' @ quote name @ '' (id='' @ new_id @ '').'') (us_email actor)
                 (s\<lparr>api_tokens := api_tokens s @ [token]\<rparr>))))"

definition revoke_api_token :: "int \<Rightarrow> api_token \<Rightarrow> user \<Rightarrow> auth \<Rightarrow> bool \<times> auth" where
  "revoke_api_token now token actor s =
     (if at_revoked_at token \<noteq> None then (False, s)
      else (True, audit_auth ''api_token'' (at_id token) ''revoke''
              (''Revoked API token '' @ quote (at_name token) @ '' (id='' @ at_id token @ '').'') (us_email actor)
              (s\<lparr>api_tokens := row_upd at_id (at_id token) (\<lambda>r. r\<lparr>at_revoked_at := Some now\<rparr>) (api_tokens s)\<rparr>)))"

definition verify_api_token :: "(string \<Rightarrow> string) \<Rightarrow> int \<Rightarrow> string \<Rightarrow> auth \<Rightarrow> api_token option \<times> auth" where
  "verify_api_token sha now raw_token s =
     (if raw_token = [] then (None, s)
      else (case find (\<lambda>t. at_token_hash t = sha raw_token) (api_tokens s) of
              None \<Rightarrow> (None, s)
            | Some token \<Rightarrow>
                if at_revoked_at token \<noteq> None then (None, s)
                else if (case at_expires_at token of None \<Rightarrow> False | Some t \<Rightarrow> t < now) then (None, s)
                else (Some (token\<lparr>at_last_used_at := Some now\<rparr>),
                      s\<lparr>api_tokens := row_upd at_id (at_id token) (\<lambda>r. r\<lparr>at_last_used_at := Some now\<rparr>) (api_tokens s)\<rparr>)))"

definition create_api_token_route ::
  "(string \<Rightarrow> string) \<Rightarrow> int \<Rightarrow> string \<Rightarrow> string \<Rightarrow> request \<Rightarrow> string \<Rightarrow> auth \<Rightarrow> (auth_response \<times> auth) result" where
  "create_api_token_route sha now new_id plaintext req name s =
     rbind (require_admin sha now req s) (\<lambda>admin.
     rbind (verify_csrf req) (\<lambda>_.
       if blank name then Inr (Notice ''/admin/api-tokens/new'' ''Name is required.'' ''error'', s)
       else rbind (create_api_token sha new_id plaintext (strip name) admin None s)
              (\<lambda>(token, s'). Inr (Token_page (at_id token) plaintext, s'))))"

definition revoke_api_token_route ::
  "(string \<Rightarrow> string) \<Rightarrow> int \<Rightarrow> request \<Rightarrow> string \<Rightarrow> auth \<Rightarrow> (auth_response \<times> auth) result" where
  "revoke_api_token_route sha now req token_id s =
     rbind (require_admin sha now req s) (\<lambda>admin.
     rbind (verify_csrf req) (\<lambda>_.
       case row_get at_id token_id (api_tokens s) of
         None \<Rightarrow> Inl (HTTPException 404)
       | Some token \<Rightarrow>
           (case revoke_api_token now token admin s of
              (was_revoked, s') \<Rightarrow>
                Inr (Notice ''/admin/api-tokens''
                  (if was_revoked then ''Revoked '' @ quote (at_name token) @ ''.'' else quote (at_name token) @ '' was already revoked.'')
                  ''success'', s'))))"

section \<open>OpenID Connect\<close>

text \<open>A claim value: the list of its items' texts, or a single value's text.\<close>

datatype claim = Claim_list "string list" | Claim_value string

definition max_claim_values :: nat where
  "max_claim_values = 1000"

definition extract_claim_values :: "(string \<times> claim) list \<Rightarrow> string \<Rightarrow> string list" where
  "extract_claim_values claims claim_name =
     (case map_of claims claim_name of
        None \<Rightarrow> [] | Some (Claim_list xs) \<Rightarrow> take max_claim_values xs | Some (Claim_value x) \<Rightarrow> [x])"

definition role_precedence :: "role list" where
  "role_precedence = map snd user_roles"

definition least_privileged_role :: role where
  "least_privileged_role = Reader"

definition compute_mapped_role :: "string list \<Rightarrow> (string \<rightharpoonup> role) \<Rightarrow> role" where
  "compute_mapped_role claim_values mapping_by_value =
     (let matched_roles = List.map_filter mapping_by_value claim_values
      in case find (\<lambda>r. r \<in> set matched_roles) role_precedence of
           Some r \<Rightarrow> r | None \<Rightarrow> least_privileged_role)"

definition load_role_mappings :: "auth \<Rightarrow> string \<rightharpoonup> role" where
  "load_role_mappings s = map_of (rev (map (\<lambda>r. (rm_claim_value r, rm_role r)) (oidc_role_mappings s)))"

text \<open>\<open>show\<close> prints the claim values in the audit detail.\<close>

definition apply_role_mapping ::
  "(role \<Rightarrow> role \<Rightarrow> string list \<Rightarrow> string) \<Rightarrow> user \<Rightarrow> (string \<times> claim) list \<Rightarrow> string \<Rightarrow> string \<Rightarrow> auth \<Rightarrow> auth" where
  "apply_role_mapping show user claims role_claim_name actor s =
     (if oidc_role_mappings s = [] \<or> us_role_source user = Local then s
      else (let claim_values = extract_claim_values claims role_claim_name;
                new_role = compute_mapped_role claim_values (load_role_mappings s)
            in if new_role = us_role user \<and> us_role_source user = Oidc_mapped then s
               else audit_auth ''user'' (us_id user) ''oidc_role_mapping_applied''
                      (show (us_role user) new_role claim_values) actor
                      (s\<lparr>users := row_upd us_id (us_id user)
                         (\<lambda>u. u\<lparr>us_role := new_role, us_role_source := Oidc_mapped\<rparr>) (users s)\<rparr>)))"

record identity =
  id_issuer :: string
  id_subject :: string
  id_email :: string
  id_claims :: "(string \<times> claim) list"

definition unapproved_message :: string where
  "unapproved_message = ''Your account was created but needs administrator approval before you can sign in.''"

definition collision_message :: string where
  "collision_message = ''This email is already associated with a different account. Contact an administrator to link your single sign-on identity.''"

definition resolve_user ::
  "string \<Rightarrow> bool \<Rightarrow> identity \<Rightarrow> auth \<Rightarrow> (user option \<times> string option \<times> auth) result" where
  "resolve_user new_id auto_provision_enabled identity s =
     (case find (\<lambda>e. ei_issuer e = id_issuer identity \<and> ei_subject e = id_subject identity) (external_identities s) of
        Some e \<Rightarrow> Inr (row_get us_id (ei_user_id e) (users s), None, s)
      | None \<Rightarrow>
          (let normalized_email = normalize_email (id_email identity)
           in if has_row us_email normalized_email (users s) then Inr (None, Some collision_message, s)
              else (let is_first_user = (users s = []);
                        status = (if auto_provision_enabled then UActive else UPending);
                        (role, role_source) = (if is_first_user \<and> auto_provision_enabled then (Admin, Local) else (Operator, Oidc_mapped));
                        user = \<lparr>us_id = new_id, us_email = normalized_email, us_password_hash = [], us_role = role,
                                us_status = status, us_role_source = role_source\<rparr>
                    in rbind (insert_user user s) (\<lambda>s1.
                       let s2 = s1\<lparr>external_identities := external_identities s1 @
                                 [\<lparr>ei_user_id = new_id, ei_issuer = id_issuer identity, ei_subject = id_subject identity\<rparr>]\<rparr>
                       in if auto_provision_enabled
                          then Inr (Some user, None, audit_auth ''user'' new_id ''create_via_oidc''
                                 (''Created user '' @ quote normalized_email @ '' via generic OIDC sign-in ('' @ id_issuer identity @ '')'') ''system'' s2)
                          else Inr (None, Some unapproved_message, audit_auth ''user'' new_id ''create_via_oidc_pending''
                                 (''Created pending user '' @ quote normalized_email @ '' via generic OIDC sign-in ('' @ id_issuer identity @
                                  '') - awaiting admin approval'') ''system'' s2)))))"

text \<open>
  The callback. \<open>provider\<close> stands for discovery, the exchange of the code and the verification of
  the ID token against the nonce: the verified identity, or the message of its error.
\<close>

record callback =
  cb_code :: string
  cb_state :: string
  cb_error :: string
  cb_cookie_state :: "string option"
  cb_cookie_nonce :: "string option"

record oidc_env =
  oe_usable :: bool
  oe_sha :: "string \<Rightarrow> string"
  oe_provider :: "string \<Rightarrow> string \<Rightarrow> string + identity"
  oe_show :: "role \<Rightarrow> role \<Rightarrow> string list \<Rightarrow> string"
  oe_auto_provision :: bool
  oe_role_claim_name :: string
  oe_ttl_hours :: int

definition oidc_callback ::
  "oidc_env \<Rightarrow> int \<Rightarrow> string \<Rightarrow> string \<Rightarrow> string \<Rightarrow> callback \<Rightarrow> auth \<Rightarrow> (auth_response \<times> auth) result" where
  "oidc_callback env now new_user_id new_session_id raw_token cb s =
     (if \<not> oe_usable env then Inl (HTTPException 404)
      else if cb_error cb \<noteq> [] then Inr (Notice ''/login'' ''Single sign-on was cancelled or failed.'' ''error'', s)
      else rbind (csrf_tokens_match (cb_cookie_state cb) (Some (cb_state cb))) (\<lambda>state_ok.
      if \<not> state_ok
      then Inr (Notice ''/login'' ''Invalid sign-in session (state mismatch).'' ''error'', s)
      else if cb_code cb = [] then Inr (Notice ''/login'' ''The OIDC provider did not return an authorization code.'' ''error'', s)
      else (case oe_provider env (cb_code cb) (case cb_cookie_nonce cb of None \<Rightarrow> [] | Some n \<Rightarrow> n) of
              Inl msg \<Rightarrow> Inr (Notice ''/login'' msg ''error'', s)
            | Inr identity \<Rightarrow>
                rbind (resolve_user new_user_id (oe_auto_provision env) identity s) (\<lambda>(user, rejection, s1).
                  case user of
                    None \<Rightarrow> Inr (Notice ''/login'' (case rejection of None \<Rightarrow> ''Sign-in was rejected.'' | Some m \<Rightarrow> m) ''error'', s1)
                  | Some u \<Rightarrow>
                      if us_status u = UDisabled
                      then Inr (Notice ''/login'' ''Your account is no longer active. Contact an administrator.'' ''error'', s1)
                      else if us_status u = UPending
                      then Inr (Notice ''/login'' ''Your account is awaiting administrator approval.'' ''error'', s1)
                      else (let s2 = apply_role_mapping (oe_show env) u (id_claims identity) (oe_role_claim_name env) ''system'' s1;
                                s3 = audit_auth ''user'' (us_id u) ''login_oidc''
                                       (''User signed in via generic OIDC ('' @ id_issuer identity @ '')'') (us_email u) s2
                            in start_user_session (oe_sha env) now (oe_ttl_hours env) new_session_id raw_token u s3)))))"

section \<open>Requests\<close>

record auth_env = oidc_env +
  av_verify :: "string \<Rightarrow> string \<Rightarrow> bool option"

datatype auth_command =
    Login int string string request string string
  | Logout int request
  | Create_user int string request string
  | Update_user int request string string string
  | Create_token int string string request string
  | Revoke_token int request string
  | Use_token int string
  | Oidc_callback int string string string callback

text \<open>\<open>get_db\<close>: the handler's state when it returns, the old one when it raises.\<close>

definition committed :: "auth \<Rightarrow> ('r \<times> auth) result \<Rightarrow> auth" where
  "committed s r = (case r of Inl e \<Rightarrow> s | Inr (x, s') \<Rightarrow> s')"

fun auth_step :: "auth_env \<Rightarrow> auth_command \<Rightarrow> auth \<Rightarrow> auth" where
  "auth_step env (Login now new_id raw_token req email password) s =
     committed s (login_submit (oe_sha env) (av_verify env) now (oe_ttl_hours env) new_id raw_token req email password s)"
| "auth_step env (Logout now req) s = committed s (logout (oe_sha env) now req s)"
| "auth_step env (Create_user now new_id req email) s = committed s (create_user (oe_sha env) now new_id req email s)"
| "auth_step env (Update_user now req user_id role status) s =
     committed s (update_user (oe_sha env) now req user_id role status s)"
| "auth_step env (Create_token now new_id plaintext req name) s =
     committed s (create_api_token_route (oe_sha env) now new_id plaintext req name s)"
| "auth_step env (Revoke_token now req token_id) s = committed s (revoke_api_token_route (oe_sha env) now req token_id s)"
| "auth_step env (Use_token now raw_token) s = snd (verify_api_token (oe_sha env) now raw_token s)"
| "auth_step env (Oidc_callback now new_user_id new_session_id raw_token cb) s =
     committed s (oidc_callback (oidc_env.truncate env) now new_user_id new_session_id raw_token cb s)"

primrec auth_run :: "auth_env \<Rightarrow> auth_command list \<Rightarrow> auth \<Rightarrow> auth" where
  "auth_run env [] s = s"
| "auth_run env (c # cs) s = auth_run env cs (auth_step env c s)"

fun is_oidc :: "auth_command \<Rightarrow> bool" where
  "is_oidc (Oidc_callback now new_user_id new_session_id raw_token cb) = True"
| "is_oidc c = False"

definition auth_ok :: "auth \<Rightarrow> bool" where
  "auth_ok s \<longleftrightarrow> unique_by us_id (users s) \<and> unique_by us_email (users s) \<and>
     unique_by se_token_hash (user_sessions s) \<and> unique_by at_token_hash (api_tokens s)"

definition has_admin :: "auth \<Rightarrow> bool" where
  "has_admin s = list_ex active_admin (users s)"

section \<open>What a guard admits\<close>

lemma require_login_Inr_iff:
  "require_login sha now req s = Inr (user, r) \<longleftrightarrow>
     (\<exists>raw. rq_session_cookie req = Some raw \<and> raw \<noteq> [] \<and>
        find (\<lambda>r. se_token_hash r = sha raw) (user_sessions s) = Some r \<and> se_revoked_at r = None \<and>
        now \<le> se_expires_at r \<and> row_get us_id (se_user_id r) (users s) = Some user \<and> us_status user = UActive)"
  by (auto simp: require_login_def split: option.splits if_splits)

lemma require_login_Inl: "require_login sha now req s = Inl e \<Longrightarrow> e = HTTPException 303"
  by (auto simp: require_login_def split: option.splits if_splits)

lemma verify_csrf_Inr_iff:
  "verify_csrf req = Inr u \<longleftrightarrow>
     (\<exists>token. rq_csrf_cookie req = Some token \<and> rq_csrf_form req = Some token \<and> token \<noteq> [] \<and> ascii_text token)"
  by (auto simp: verify_csrf_def csrf_tokens_match_def compare_digest_def split: option.splits if_splits)

lemma require_admin_Inr:
  assumes "require_admin sha now req s = Inr u"
  shows "u \<in> set (users s) \<and> active_admin u"
  using assms row_get_SomeD [of us_id _ "users s"]
  by (auto simp: require_admin_def require_login_Inr_iff active_admin_def split: if_splits)

text \<open>
  What a request has to show, said over the stored rows: a session that is neither revoked nor
  expired, of an active user; the form that repeats the CSRF cookie; an account with its password; a
  live API token; the verified answer of the identity provider to a sign-in that started here.
\<close>

definition valid_session :: "(string \<Rightarrow> string) \<Rightarrow> int \<Rightarrow> request \<Rightarrow> auth \<Rightarrow> user \<Rightarrow> bool" where
  "valid_session sha now req a user =
     (\<exists>raw login. rq_session_cookie req = Some raw \<and> raw \<noteq> [] \<and>
        login \<in> set (user_sessions a) \<and> se_token_hash login = sha raw \<and>
        se_revoked_at login = None \<and> now \<le> se_expires_at login \<and>
        user \<in> set (users a) \<and> us_id user = se_user_id login \<and> us_status user = UActive)"

definition form_repeats_cookie :: "request \<Rightarrow> bool" where
  "form_repeats_cookie req =
     (\<exists>token. rq_csrf_cookie req = Some token \<and> rq_csrf_form req = Some token \<and> token \<noteq> [])"

definition admin_form :: "(string \<Rightarrow> string) \<Rightarrow> int \<Rightarrow> request \<Rightarrow> auth \<Rightarrow> bool" where
  "admin_form sha now req a =
     (form_repeats_cookie req \<and> (\<exists>user. valid_session sha now req a user \<and> us_role user = Admin))"

fun authorised :: "auth_env \<Rightarrow> auth \<Rightarrow> auth_command \<Rightarrow> bool" where
  "authorised env a (Login now new_id raw_token req email password) =
     (form_repeats_cookie req \<and>
      (\<exists>u\<in>set (users a). us_email u = normalize_email email \<and> us_status u = UActive \<and>
         av_verify env password (us_password_hash u) = Some True))"
| "authorised env a (Logout now req) = (form_repeats_cookie req \<and> (\<exists>user. valid_session (oe_sha env) now req a user))"
| "authorised env a (Create_user now new_id req email) = admin_form (oe_sha env) now req a"
| "authorised env a (Update_user now req user_id role status) = admin_form (oe_sha env) now req a"
| "authorised env a (Create_token now new_id plaintext req name) = admin_form (oe_sha env) now req a"
| "authorised env a (Revoke_token now req token_id) = admin_form (oe_sha env) now req a"
| "authorised env a (Use_token now raw_token) =
     (\<exists>token\<in>set (api_tokens a). at_token_hash token = oe_sha env raw_token \<and> raw_token \<noteq> [] \<and>
        at_revoked_at token = None \<and> (\<forall>t. at_expires_at token = Some t \<longrightarrow> now \<le> t))"
| "authorised env a (Oidc_callback now new_user_id new_session_id raw_token cb) =
     (oe_usable env \<and> cb_error cb = [] \<and> cb_state cb \<noteq> [] \<and> cb_cookie_state cb = Some (cb_state cb) \<and> cb_code cb \<noteq> [] \<and>
      (\<exists>who. oe_provider env (cb_code cb) (case cb_cookie_nonce cb of None \<Rightarrow> [] | Some n \<Rightarrow> n) = Inr who))"

lemma require_login_session:
  "require_login sha now req a = Inr (user, login) \<Longrightarrow> valid_session sha now req a user"
  using find_SomeD [of _ "user_sessions a" login] row_get_SomeD [of us_id "se_user_id login" "users a" user]
  by (fastforce simp: require_login_Inr_iff valid_session_def)

lemma verify_csrf_form: "verify_csrf req = Inr u \<Longrightarrow> form_repeats_cookie req"
  by (auto simp: verify_csrf_Inr_iff form_repeats_cookie_def)

lemma require_admin_form:
  "require_admin sha now req a = Inr user \<Longrightarrow> verify_csrf req = Inr u \<Longrightarrow> admin_form sha now req a"
  by (auto simp: require_admin_def admin_form_def dest: require_login_session verify_csrf_form split: if_splits)

lemma committed_changes: "committed s r \<noteq> s \<Longrightarrow> \<exists>x s'. r = Inr (x, s') \<and> s' \<noteq> s"
  by (auto simp: committed_def split: sum.splits)

lemma login_authorised:
  assumes "login_submit sha verify now ttl i raw req email password a = Inr (x, s')" "s' \<noteq> a"
  shows "form_repeats_cookie req \<and> (\<exists>u\<in>set (users a). us_email u = normalize_email email \<and> us_status u = UActive \<and>
     verify password (us_password_hash u) = Some True)"
proof -
  obtain u where u: "find (\<lambda>u. us_email u = normalize_email email) (users a) = Some u" "us_status u = UActive"
    and pw: "verify_password verify password (Some (us_password_hash u))" and csrf: "verify_csrf req = Inr ()"
    using assms by (auto simp: login_submit_def Let_def split: option.splits if_splits)
  show ?thesis using find_SomeD [OF u(1)] u(2) pw verify_csrf_form [OF csrf]
    by (auto simp: verify_password_def split: option.splits)
qed

lemma token_authorised:
  assumes "snd (verify_api_token sha now raw a) \<noteq> a"
  shows "\<exists>token\<in>set (api_tokens a). at_token_hash token = sha raw \<and> raw \<noteq> [] \<and>
        at_revoked_at token = None \<and> (\<forall>t. at_expires_at token = Some t \<longrightarrow> now \<le> t)"
  using assms find_SomeD [of "\<lambda>t. at_token_hash t = sha raw" "api_tokens a"]
  by (fastforce simp: verify_api_token_def split: option.splits if_splits)

lemma oidc_authorised:
  assumes "oidc_callback env now nu ns raw cb a = Inr (x, s')" "s' \<noteq> a"
  shows "oe_usable env \<and> cb_error cb = [] \<and> cb_state cb \<noteq> [] \<and> cb_cookie_state cb = Some (cb_state cb) \<and> cb_code cb \<noteq> [] \<and>
      (\<exists>who. oe_provider env (cb_code cb) (case cb_cookie_nonce cb of None \<Rightarrow> [] | Some n \<Rightarrow> n) = Inr who)"
proof -
  obtain ok where m: "csrf_tokens_match (cb_cookie_state cb) (Some (cb_state cb)) = Inr ok"
    and rest: "oe_usable env" "cb_error cb = []" "ok" "cb_code cb \<noteq> []"
      "\<exists>who. oe_provider env (cb_code cb) (case cb_cookie_nonce cb of None \<Rightarrow> [] | Some n \<Rightarrow> n) = Inr who"
    using assms by (auto simp: oidc_callback_def split: if_splits sum.splits)
  have "cb_state cb \<noteq> []" "cb_cookie_state cb = Some (cb_state cb)"
    using m rest(3) by (auto simp: csrf_tokens_match_def compare_digest_def split: option.splits if_splits)
  then show ?thesis using rest by blast
qed

text \<open>
  C19. Every change of the accounts, the sessions or the API tokens is authorised, whatever
  command is served: signing in takes the account's password and a form that repeats the CSRF cookie;
  signing out a valid session and the form; adding or editing a user and issuing or revoking a token
  the form and a valid session of an active administrator; the use of a token that token,
  unrevoked and unexpired; a single sign-on the state that its cookie holds and an identity the
  provider has verified. The guard of the compliance routes, \<open>require_write_access\<close>, lets a request
  pass only with a valid session of an active administrator or operator.
\<close>

theorem access_guard:
  "(auth_step env c a \<noteq> a \<longrightarrow> authorised env a c) \<and>
   (require_write_access sha now req a = Inr user \<longrightarrow> valid_session sha now req a user \<and> us_role user \<in> {Admin, Operator})"
proof (intro conjI impI)
  assume step: "auth_step env c a \<noteq> a"
  show "authorised env a c"
  proof (cases c)
    case (Login now new_id raw req email password)
    then show ?thesis using step login_authorised by (auto dest!: committed_changes)
  next
    case (Logout now req)
    then obtain user login where "require_login (oe_sha env) now req a = Inr (user, login)" "verify_csrf req = Inr ()"
      using step by (auto simp: logout_def dest!: committed_changes)
    then show ?thesis using Logout require_login_session verify_csrf_form by (simp, blast)
  next
    case (Create_user now new_id req email)
    then show ?thesis using step by (auto simp: create_user_def dest!: committed_changes dest: require_admin_form)
  next
    case (Update_user now req user_id role status)
    then show ?thesis using step by (auto simp: update_user_def dest!: committed_changes dest: require_admin_form)
  next
    case (Create_token now new_id plaintext req name)
    then show ?thesis using step by (auto simp: create_api_token_route_def dest!: committed_changes dest: require_admin_form)
  next
    case (Revoke_token now req token_id)
    then show ?thesis using step by (auto simp: revoke_api_token_route_def dest!: committed_changes dest: require_admin_form)
  next
    case (Use_token now raw)
    then show ?thesis using step token_authorised [of "oe_sha env" now raw a] by auto
  next
    case (Oidc_callback now nu ns raw cb)
    then obtain x s' where "oidc_callback (oidc_env.truncate env) now nu ns raw cb a = Inr (x, s')" "s' \<noteq> a"
      using step by (auto dest!: committed_changes)
    from oidc_authorised [OF this] show ?thesis using Oidc_callback by (simp add: oidc_env.truncate_def)
  qed
next
  assume "require_write_access sha now req a = Inr user"
  then show "valid_session sha now req a user" "us_role user \<in> {Admin, Operator}"
    by (auto simp: require_write_access_def write_roles_def dest: require_login_session split: if_splits)
qed

section \<open>Revocation is final\<close>

inductive session_step :: "user_session list \<Rightarrow> user_session list \<Rightarrow> bool" where
  same: "session_step rows rows"
| issue: "\<not> has_row se_token_hash (se_token_hash r) rows \<Longrightarrow> session_step rows (rows @ [r])"
| revoke: "session_step rows (row_upd se_id k (\<lambda>r. r\<lparr>se_revoked_at := Some t\<rparr>) rows)"

inductive token_step :: "api_token list \<Rightarrow> api_token list \<Rightarrow> bool" where
  same: "token_step rows rows"
| issue: "\<not> has_row at_token_hash (at_token_hash r) rows \<Longrightarrow> token_step rows (rows @ [r])"
| revoke: "token_step rows (row_upd at_id k (\<lambda>r. r\<lparr>at_revoked_at := Some t\<rparr>) rows)"
| touch: "token_step rows (row_upd at_id k (\<lambda>r. r\<lparr>at_last_used_at := t\<rparr>) rows)"

lemmas session_intros = session_step.intros
lemmas token_intros = token_step.intros

lemma audit_auth_tables [simp]:
  "users (audit_auth a b c d e s) = users s" "user_sessions (audit_auth a b c d e s) = user_sessions s"
  "api_tokens (audit_auth a b c d e s) = api_tokens s" "oidc_role_mappings (audit_auth a b c d e s) = oidc_role_mappings s"
  "external_identities (audit_auth a b c d e s) = external_identities s"
  by (simp_all add: audit_auth_def)

lemma start_user_session_Inr:
  assumes "start_user_session sha now ttl i raw u s = Inr (x, s')"
  shows "\<exists>r. s' = s\<lparr>user_sessions := user_sessions s @ [r]\<rparr> \<and> \<not> has_row se_token_hash (se_token_hash r) (user_sessions s) \<and>
    x = Signed_in (us_email u) raw"
  using assms by (auto simp: start_user_session_def insert_session_def split: if_splits)

lemma apply_role_mapping_tables [simp]:
  "user_sessions (apply_role_mapping sh u cl n a s) = user_sessions s"
  "api_tokens (apply_role_mapping sh u cl n a s) = api_tokens s"
  by (simp_all add: apply_role_mapping_def Let_def)

lemma resolve_user_tables:
  assumes "resolve_user i auto idn s = Inr (u, m, s')"
  shows "user_sessions s' = user_sessions s" "api_tokens s' = api_tokens s"
  using assms
  by (auto simp: resolve_user_def Let_def insert_user_def split: option.splits if_splits)

lemma login_step:
  assumes "login_submit sha v now ttl i raw req em pw s = Inr (x, s')"
  shows "session_step (user_sessions s) (user_sessions s') \<and> users s' = users s \<and> api_tokens s' = api_tokens s"
  using assms
  by (auto simp: login_submit_def Let_def session_intros split: option.splits if_splits dest!: start_user_session_Inr)

definition callback_nonce :: "callback \<Rightarrow> string" where
  "callback_nonce cb = (case cb_cookie_nonce cb of None \<Rightarrow> [] | Some n \<Rightarrow> n)"

definition signed_in_state :: "oidc_env \<Rightarrow> identity \<Rightarrow> user \<Rightarrow> auth \<Rightarrow> auth" where
  "signed_in_state env identity u s =
     audit_auth ''user'' (us_id u) ''login_oidc'' (''User signed in via generic OIDC ('' @ id_issuer identity @ '')'') (us_email u)
       (apply_role_mapping (oe_show env) u (id_claims identity) (oe_role_claim_name env) ''system'' s)"

lemma csrf_tokens_match_True:
  "csrf_tokens_match c v = Inr True \<longleftrightarrow> (\<exists>t. c = Some t \<and> v = Some t \<and> t \<noteq> [] \<and> ascii_text t)"
  by (auto simp: csrf_tokens_match_def compare_digest_def split: option.splits if_splits)

text \<open>A callback changes nothing, only provisions a user, or signs a resolved, active user in.\<close>

lemma oidc_callback_Inr:
  assumes "oidc_callback env now i j raw cb s = Inr (x, s')"
  obtains m where "s' = s" "x = Notice ''/login'' m ''error''"
  | identity u m s1 e where "resolve_user i (oe_auto_provision env) identity s = Inr (u, m, s1)" "s' = s1" "x = Notice ''/login'' e ''error''"
  | identity u m s1 where "cb_cookie_state cb = Some (cb_state cb)"
      "oe_provider env (cb_code cb) (callback_nonce cb) = Inr identity"
      "resolve_user i (oe_auto_provision env) identity s = Inr (Some u, m, s1)" "us_status u = UActive"
      "start_user_session (oe_sha env) now (oe_ttl_hours env) j raw u (signed_in_state env identity u s1) = Inr (x, s')"
proof (cases "cb_error cb = []")
  case False
  then show thesis using assms that(1) by (auto simp: oidc_callback_def split: if_splits)
next
  case True
  then obtain ok where ok: "csrf_tokens_match (cb_cookie_state cb) (Some (cb_state cb)) = Inr ok" and use: "oe_usable env"
    using assms by (auto simp: oidc_callback_def split: if_splits)
  show thesis
  proof (cases "ok \<and> cb_code cb \<noteq> []")
    case False
    then show thesis using assms True ok use that(1) by (auto simp: oidc_callback_def split: if_splits)
  next
    case go: True
    then have state: "cb_cookie_state cb = Some (cb_state cb)"
      using ok by (auto simp: csrf_tokens_match_True)
    show thesis
    proof (cases "oe_provider env (cb_code cb) (callback_nonce cb)")
      case (Inl e)
      then show thesis using assms True ok use go that(1) by (auto simp: oidc_callback_def callback_nonce_def)
    next
      case (Inr identity)
      then obtain u m s1 where res: "resolve_user i (oe_auto_provision env) identity s = Inr (u, m, s1)"
        using assms True ok use go by (auto simp: oidc_callback_def callback_nonce_def)
      show thesis
      proof (cases "\<exists>v. u = Some v \<and> us_status v = UActive")
        case True
        then show thesis
          using assms \<open>cb_error cb = []\<close> ok use go Inr res that(3) [OF state Inr]
          by (auto simp: oidc_callback_def callback_nonce_def signed_in_state_def Let_def)
      next
        case False
        then show thesis
          using assms \<open>cb_error cb = []\<close> ok use go Inr res that(2) [OF res]
          by (cases u; cases "us_status (the u)")
            (auto simp: oidc_callback_def callback_nonce_def)
      qed
    qed
  qed
qed

lemma callback_step:
  assumes "oidc_callback env now i j raw cb s = Inr (x, s')"
  shows "session_step (user_sessions s) (user_sessions s') \<and> api_tokens s' = api_tokens s"
  using assms
  by (cases rule: oidc_callback_Inr)
    (auto simp: resolve_user_tables signed_in_state_def session_intros dest!: start_user_session_Inr)

lemma logout_step:
  assumes "logout sha now req s = Inr (x, s')"
  shows "session_step (user_sessions s) (user_sessions s') \<and> users s' = users s \<and> api_tokens s' = api_tokens s"
  using assms by (auto simp: logout_def session_intros)

text \<open>What user administration does to the user table.\<close>

inductive user_step :: "user list \<Rightarrow> user list \<Rightarrow> bool" where
  same: "user_step rows rows"
| add: "\<not> has_row us_id (us_id u) rows \<Longrightarrow> \<not> has_row us_email (us_email u) rows \<Longrightarrow> user_step rows (rows @ [u])"
| edit: "row_get us_id j rows = Some user \<Longrightarrow>
     (active_admin user \<Longrightarrow> (role = Admin \<and> status = UActive) \<or> (\<exists>v\<in>set rows. active_admin v \<and> us_id v \<noteq> us_id user)) \<Longrightarrow>
     user_step rows (row_upd us_id j (\<lambda>u. u\<lparr>us_role := role, us_status := status, us_role_source := Local\<rparr>) rows)"

lemma create_user_step:
  assumes "create_user sha now i req em s = Inr (x, s')"
  shows "user_sessions s' = user_sessions s \<and> api_tokens s' = api_tokens s \<and> user_step (users s) (users s')"
  using assms by (auto simp: create_user_def insert_user_def Let_def user_step.same split: if_splits intro!: user_step.add)

lemma active_admin_count_0: "active_admin_count s (Some j) = 0 \<longleftrightarrow> \<not> (\<exists>v\<in>set (users s). active_admin v \<and> us_id v \<noteq> j)"
  by (auto simp: active_admin_count_def filter_empty_conv)

lemma update_user_step:
  assumes "update_user sha now req j rt st s = Inr (x, s')"
  shows "user_sessions s' = user_sessions s \<and> api_tokens s' = api_tokens s \<and> user_step (users s) (users s')"
proof -
  obtain admin user role status where f: "require_admin sha now req s = Inr admin" "verify_csrf req = Inr ()"
    "row_get us_id j (users s) = Some user" "map_of user_roles rt = Some role" "map_of user_statuses st = Some status"
    using assms by (fastforce simp: update_user_def split: option.splits)
  have "user_sessions s' = user_sessions s \<and> api_tokens s' = api_tokens s \<and>
    (users s' = users s \<or>
      users s' = row_upd us_id j (\<lambda>u. u\<lparr>us_role := role, us_status := status, us_role_source := Local\<rparr>) (users s) \<and>
      (active_admin user \<longrightarrow> (role = Admin \<and> status = UActive) \<or> active_admin_count s (Some (us_id user)) \<noteq> 0))"
    using assms f by (auto simp: update_user_def Let_def split: if_splits)
  then show ?thesis
    using user_step.edit [OF f(3), of role status] user_step.same [of "users s"] by (metis active_admin_count_0)
qed

lemma token_route_step:
  "create_api_token_route sha now i p req nm s = Inr (x, s') \<Longrightarrow>
     user_sessions s' = user_sessions s \<and> users s' = users s \<and> token_step (api_tokens s) (api_tokens s')"
  "revoke_api_token_route sha now req j s = Inr (x, s') \<Longrightarrow>
     user_sessions s' = user_sessions s \<and> users s' = users s \<and> token_step (api_tokens s) (api_tokens s')"
  by (auto simp: create_api_token_route_def create_api_token_def revoke_api_token_route_def revoke_api_token_def Let_def
      token_intros split: if_splits option.splits)

lemma verify_token_step:
  "user_sessions (snd (verify_api_token sha now raw s)) = user_sessions s \<and>
   users (snd (verify_api_token sha now raw s)) = users s \<and>
   token_step (api_tokens s) (api_tokens (snd (verify_api_token sha now raw s)))"
  by (auto simp: verify_api_token_def token_intros split: if_splits option.splits)

lemma committed_elim:
  assumes "\<And>x s'. r = Inr (x, s') \<Longrightarrow> P s'" and "P s"
  shows "P (committed s r)"
  using assms by (auto simp: committed_def split: sum.splits prod.splits)

lemma auth_step_sessions: "session_step (user_sessions s) (user_sessions (auth_step env c s))"
  by (cases c) (auto intro!: committed_elim [where P = "\<lambda>s'. session_step (user_sessions s) (user_sessions s')"]
      simp: session_intros verify_token_step dest: login_step callback_step logout_step create_user_step update_user_step token_route_step)

lemma auth_step_tokens: "token_step (api_tokens s) (api_tokens (auth_step env c s))"
  by (cases c) (auto intro!: committed_elim [where P = "\<lambda>s'. token_step (api_tokens s) (api_tokens s')"]
      simp: token_intros verify_token_step dest: login_step callback_step logout_step create_user_step update_user_step token_route_step)

definition revoked_hash :: "string \<Rightarrow> user_session list \<Rightarrow> bool" where
  "revoked_hash h rows = (case find (\<lambda>r. se_token_hash r = h) rows of None \<Rightarrow> False | Some r \<Rightarrow> se_revoked_at r \<noteq> None)"

definition revoked_token_hash :: "string \<Rightarrow> api_token list \<Rightarrow> bool" where
  "revoked_token_hash h rows = (case find (\<lambda>r. at_token_hash r = h) rows of None \<Rightarrow> False | Some r \<Rightarrow> at_revoked_at r \<noteq> None)"

lemma find_append: "find P (xs @ ys) = (case find P xs of None \<Rightarrow> find P ys | Some x \<Rightarrow> Some x)"
  by (induction xs) auto

lemma find_row_upd:
  "(\<And>r. P (f r) = P r) \<Longrightarrow>
     find P (row_upd key k f rows) = map_option (\<lambda>r. if key r = k then f r else r) (find P rows)"
  by (induction rows) auto

lemma revoked_hash_step: "session_step rows rows' \<Longrightarrow> revoked_hash h rows \<Longrightarrow> revoked_hash h rows'"
  by (induction rule: session_step.induct) (auto simp: revoked_hash_def find_append find_row_upd split: option.splits)

lemma revoked_token_step: "token_step rows rows' \<Longrightarrow> revoked_token_hash h rows \<Longrightarrow> revoked_token_hash h rows'"
  by (induction rule: token_step.induct) (auto simp: revoked_token_hash_def find_append find_row_upd split: option.splits)

lemma revoked_run:
  "revoked_hash h (user_sessions s) \<Longrightarrow> revoked_hash h (user_sessions (auth_run env cs s))"
  "revoked_token_hash h (api_tokens s) \<Longrightarrow> revoked_token_hash h (api_tokens (auth_run env cs s))"
  using revoked_hash_step [OF auth_step_sessions] revoked_token_step [OF auth_step_tokens]
  by (induction cs arbitrary: s) simp_all

lemma logout_revokes:
  assumes "logout sha now req s = Inr (x, s')"
  shows "\<exists>raw. rq_session_cookie req = Some raw \<and> revoked_hash (sha raw) (user_sessions s')"
  using assms by (auto simp: logout_def require_login_Inr_iff revoked_hash_def find_row_upd)

lemma revoked_login_refused:
  assumes "revoked_hash (sha raw) (user_sessions s)" and "rq_session_cookie req = Some raw"
  shows "require_login sha now req s = Inl (HTTPException 303)"
  using assms by (auto simp: require_login_def revoked_hash_def split: option.splits)

lemma revoked_token_refused:
  "revoked_token_hash (sha raw) (api_tokens s) \<Longrightarrow> fst (verify_api_token sha now raw s) = None"
  by (auto simp: verify_api_token_def revoked_token_hash_def split: option.splits)

lemma find_unique:
  assumes "unique_by key rows" and "r \<in> set rows"
  shows "find (\<lambda>x. key x = key r) rows = Some r"
  using row_get_unique [OF assms] by (simp add: row_get_def)

lemma token_route_revokes:
  assumes "revoke_api_token_route sha now req j s = Inr (x, s')"
    and "unique_by at_token_hash (api_tokens s)" and "token \<in> set (api_tokens s)" and "row_get at_id j (api_tokens s) = Some token"
  shows "revoked_token_hash (at_token_hash token) (api_tokens s')"
proof -
  have "find (\<lambda>r. at_token_hash r = at_token_hash token) (api_tokens s) = Some token"
    by (rule find_unique [OF assms(2,3)])
  then show ?thesis
    using assms(1,4) by (auto simp: revoke_api_token_route_def revoke_api_token_def revoked_token_hash_def find_row_upd
        split: if_splits)
qed

text \<open>
  C20. Signing out ends a session for good and revoking an API token ends the token for good:
  whatever requests follow, sign-ins, user edits and single sign-on included, at whatever
  time, the same cookie is sent back to the login page and the same bearer token is refused.
\<close>

theorem revocation_is_final:
  "(logout (oe_sha env) now req s = Inr (x, s1) \<and> rq_session_cookie req' = rq_session_cookie req \<longrightarrow>
      require_login (oe_sha env) now' req' (auth_run env later s1) = Inl (HTTPException 303)) \<and>
   (auth_ok s \<and> revoke_api_token_route (oe_sha env) now req token_id s = Inr (x, s1) \<and>
      row_get at_id token_id (api_tokens s) = Some token \<and> oe_sha env raw = at_token_hash token \<longrightarrow>
      fst (verify_api_token (oe_sha env) now' raw (auth_run env later s1)) = None)"
proof (intro conjI impI)
  assume "logout (oe_sha env) now req s = Inr (x, s1) \<and> rq_session_cookie req' = rq_session_cookie req"
  then show "require_login (oe_sha env) now' req' (auth_run env later s1) = Inl (HTTPException 303)"
    using logout_revokes revoked_run(1) revoked_login_refused by metis
next
  assume a: "auth_ok s \<and> revoke_api_token_route (oe_sha env) now req token_id s = Inr (x, s1) \<and>
      row_get at_id token_id (api_tokens s) = Some token \<and> oe_sha env raw = at_token_hash token"
  then have "token \<in> set (api_tokens s)" using row_get_SomeD by fastforce
  with a have "revoked_token_hash (oe_sha env raw) (api_tokens s1)"
    using token_route_revokes by (auto simp: auth_ok_def)
  then show "fst (verify_api_token (oe_sha env) now' raw (auth_run env later s1)) = None"
    by (intro revoked_token_refused revoked_run(2))
qed

section \<open>Somebody can always administer\<close>

lemma auth_step_users: "\<not> is_oidc c \<Longrightarrow> user_step (users s) (users (auth_step env c s))"
  by (cases c) (auto intro!: committed_elim [where P = "\<lambda>s'. user_step (users s) (users s')"]
      simp: user_step.same verify_token_step dest: login_step logout_step create_user_step update_user_step token_route_step)

lemma user_step_unique:
  assumes "user_step rows rows'"
  shows "unique_by us_id rows \<Longrightarrow> unique_by us_id rows'" and "unique_by us_email rows \<Longrightarrow> unique_by us_email rows'"
  using assms by (induction rule: user_step.induct) auto

lemma user_step_admin:
  assumes "user_step rows rows'" and "unique_by us_id rows" and "list_ex active_admin rows"
  shows "list_ex active_admin rows'"
  using assms
proof (induction rule: user_step.induct)
  case (edit j rows user role status)
  obtain v where v: "v \<in> set rows" "active_admin v" using edit.prems(2) by (auto simp: list_ex_iff)
  let ?f = "\<lambda>u. if us_id u = j then u\<lparr>us_role := role, us_status := status, us_role_source := Local\<rparr> else u"
  have user: "user \<in> set rows" "us_id user = j" using row_get_SomeD [OF edit.hyps(1)] by auto
  have "\<exists>w\<in>set rows. active_admin (?f w)"
  proof (cases "active_admin user")
    case True
    with edit.hyps(2) user show ?thesis by (auto simp: active_admin_def)
  next
    case False
    then have "us_id v \<noteq> j" using unique_by_eqD [OF edit.prems(1) v(1) user(1)] user(2) v(2) by auto
    with v show ?thesis by auto
  qed
  then show ?case unfolding list_ex_iff set_row_upd by blast
qed (auto simp: list_ex_iff)

lemma no_admin_refused:
  assumes "\<not> has_admin s"
  shows "\<exists>e. require_admin sha now req s = Inl e"
  using assms require_admin_Inr [of sha now req s]
  by (cases "require_admin sha now req s") (auto simp: has_admin_def list_ex_iff)

text \<open>
  C21. Signing in with a password and out, adding and editing users, and issuing, using and revoking API
  tokens, in any order and with any input, never leave the system without an active administrator, and
  keep user ids and e-mail addresses unique. Single sign-on is not among these requests: it can take the
  last administrator's role away (\<open>oidc_removes_last_admin\<close>).
\<close>

theorem admin_survives:
  assumes "auth_ok s" and "has_admin s" and "list_all (\<lambda>c. \<not> is_oidc c) cs"
  shows "has_admin (auth_run env cs s) \<and> unique_by us_id (users (auth_run env cs s)) \<and>
    unique_by us_email (users (auth_run env cs s))"
proof -
  have "unique_by us_id (users s)" "unique_by us_email (users s)" using assms(1) by (auto simp: auth_ok_def)
  with assms(2,3) show ?thesis
  proof (induction cs arbitrary: s)
    case (Cons c cs)
    then have "user_step (users s) (users (auth_step env c s))" by (intro auth_step_users) simp
    then show ?case
      using Cons.IH [of "auth_step env c s"] Cons.prems user_step_admin user_step_unique
      by (simp add: has_admin_def)
  qed simp
qed

section \<open>Roles of single sign-on\<close>







section \<open>A worked history\<close>

text \<open>
  One administrator, one role mapping. Bob's first sign-in finds the group, makes him an
  administrator and issues him a session; he demotes Ada; at his next sign-in the group is gone.
\<close>

definition demo_identity :: "string list \<Rightarrow> identity" where
  "demo_identity groups = \<lparr>id_issuer = ''idp'', id_subject = ''bob'', id_email = ''Bob@X.org'', id_claims = [(''groups'', Claim_list groups)]\<rparr>"

definition demo_oidc :: oidc_env where
  "demo_oidc = \<lparr>oe_usable = True, oe_sha = (\<lambda>x. CHR ''#'' # x),
     oe_provider = (\<lambda>code nonce. if code = ''c1'' then Inr (demo_identity [''staff'', ''admins'']) else Inr (demo_identity [])),
     oe_show = (\<lambda>a b vs. concat vs), oe_auto_provision = True, oe_role_claim_name = ''groups'', oe_ttl_hours = 8\<rparr>"

definition demo_env :: auth_env where
  "demo_env = oidc_env.extend demo_oidc (auth_env.fields (\<lambda>p h. Some (p = h)))"

definition demo_auth :: auth where
  "demo_auth = \<lparr>users = [\<lparr>us_id = ''u1'', us_email = ''ada@x.org'', us_password_hash = ''pw'', us_role = Admin,
        us_status = UActive, us_role_source = Local\<rparr>],
     user_sessions = [\<lparr>se_id = ''s1'', se_user_id = ''u1'', se_token_hash = ''#t1'', se_expires_at = 1000, se_revoked_at = None\<rparr>],
     api_tokens = [\<lparr>at_id = ''a1'', at_name = ''bot'', at_token_hash = ''#mgrc_1'', at_scope = ''read'', at_created_by_user_id = ''u1'',
        at_expires_at = None, at_revoked_at = None, at_last_used_at = None\<rparr>],
     oidc_role_mappings = [\<lparr>rm_claim_value = ''admins'', rm_role = Admin\<rparr>], external_identities = [], auth_audit = []\<rparr>"

definition demo_request :: "string \<Rightarrow> request" where
  "demo_request tok = \<lparr>rq_session_cookie = Some tok, rq_csrf_cookie = Some ''c'', rq_csrf_form = Some ''c''\<rparr>"

definition demo_callback :: "string \<Rightarrow> callback" where
  "demo_callback code = \<lparr>cb_code = code, cb_state = ''st'', cb_error = [], cb_cookie_state = Some ''st'', cb_cookie_nonce = Some ''n''\<rparr>"

definition demo_history :: "auth_command list" where
  "demo_history = [Oidc_callback 1 ''u2'' ''s2'' ''t2'' (demo_callback ''c1''),
     Update_user 2 (demo_request ''t2'') ''u1'' ''operator'' ''active'',
     Oidc_callback 3 ''u3'' ''s3'' ''t3'' (demo_callback ''c2'')]"

theorem access_guard_witness:
  "auth_step demo_env (Update_user 2 (demo_request ''t1'') ''u1'' ''admin'' ''active'') demo_auth \<noteq> demo_auth \<and>
   authorised demo_env demo_auth (Update_user 2 (demo_request ''t1'') ''u1'' ''admin'' ''active'')"
proof -
  have change: "auth_step demo_env (Update_user 2 (demo_request ''t1'') ''u1'' ''admin'' ''active'') demo_auth \<noteq> demo_auth"
    by code_simp
  then show ?thesis using access_guard by blast
qed

theorem revocation_is_final_witness:
  "require_login (oe_sha demo_env) 9 (demo_request ''t1'')
     (auth_run demo_env demo_history (snd (projr (logout (oe_sha demo_env) 4 (demo_request ''t1'') demo_auth)))) = Inl (HTTPException 303) \<and>
   fst (verify_api_token (oe_sha demo_env) 9 ''mgrc_1''
     (auth_run demo_env demo_history (snd (projr (revoke_api_token_route (oe_sha demo_env) 4 (demo_request ''t1'') ''a1'' demo_auth))))) = None"
proof
  have l: "logout (oe_sha demo_env) 4 (demo_request ''t1'') demo_auth =
      Inr (Signed_out, snd (projr (logout (oe_sha demo_env) 4 (demo_request ''t1'') demo_auth)))" by code_simp
  show "require_login (oe_sha demo_env) 9 (demo_request ''t1'')
     (auth_run demo_env demo_history (snd (projr (logout (oe_sha demo_env) 4 (demo_request ''t1'') demo_auth)))) = Inl (HTTPException 303)"
    using revocation_is_final l by blast
  have ok: "auth_ok demo_auth" by code_simp
  have v: "revoke_api_token_route (oe_sha demo_env) 4 (demo_request ''t1'') ''a1'' demo_auth =
      Inr (Notice ''/admin/api-tokens'' (''Revoked '' @ quote ''bot'' @ ''.'') ''success'',
           snd (projr (revoke_api_token_route (oe_sha demo_env) 4 (demo_request ''t1'') ''a1'' demo_auth)))" by code_simp
  have t: "row_get at_id ''a1'' (api_tokens demo_auth) = Some (hd (api_tokens demo_auth))" by code_simp
  have h: "oe_sha demo_env ''mgrc_1'' = at_token_hash (hd (api_tokens demo_auth))" by code_simp
  show "fst (verify_api_token (oe_sha demo_env) 9 ''mgrc_1''
     (auth_run demo_env demo_history (snd (projr (revoke_api_token_route (oe_sha demo_env) 4 (demo_request ''t1'') ''a1'' demo_auth))))) = None"
    using revocation_is_final ok v t h by blast
qed

theorem admin_survives_witness:
  "has_admin (auth_run demo_env [Create_user 1 ''u2'' (demo_request ''t1'') ''Bob@X.org'', Update_user 2 (demo_request ''t1'') ''u1'' ''reader'' ''active''] demo_auth)"
proof -
  have "auth_ok demo_auth" "has_admin demo_auth" by code_simp+
  from admin_survives [OF this, of "[Create_user 1 ''u2'' (demo_request ''t1'') ''Bob@X.org'', Update_user 2 (demo_request ''t1'') ''u1'' ''reader'' ''active'']"]
  show ?thesis by simp
qed


text \<open>
  Single sign-on can remove the last administrator: in the history above Bob, an administrator by his
  group, demotes Ada, which the guard allows because he remains; when his group is withdrawn
  his next sign-in makes him a reader, and no request by anybody passes the administrator check.
\<close>

theorem oidc_removes_last_admin:
  "auth_ok demo_auth \<and> has_admin demo_auth \<and> \<not> has_admin (auth_run demo_env demo_history demo_auth) \<and>
   (\<forall>now req. \<exists>e. require_admin (oe_sha demo_env) now req (auth_run demo_env demo_history demo_auth) = Inl e)"
proof -
  have "\<not> has_admin (auth_run demo_env demo_history demo_auth)" by code_simp
  moreover have "auth_ok demo_auth" "has_admin demo_auth" by code_simp+
  ultimately show ?thesis using no_admin_refused by auto
qed

end
