(* ===== verification/Compliance_Scope.thy ===== *)
theory Compliance_Scope
  imports Models
begin

text \<open>
  The declared scope of the compliance programme (\<open>src/app/compliance_scope.py\<close>): one row, the
  projection of the events that defined and revised it. The lemmas show that the row is always
  the last accepted declaration, in canonical form, and that a rebuild gives it back.
\<close>

section \<open>Validation\<close>

definition trust_service_categories :: "string list" where
  "trust_service_categories =
     [''security'', ''availability'', ''confidentiality'', ''processing_integrity'', ''privacy'']"

fun comma_join :: "string list \<Rightarrow> string" where
  "comma_join [] = []"
| "comma_join [x] = x"
| "comma_join (x # y # xs) = x @ '','' @ comma_join (y # xs)"

definition normalize_categories :: "string list \<Rightarrow> string result" where
  "normalize_categories categories =
     (if list_ex (\<lambda>c. c \<notin> set trust_service_categories) categories
      then Inl (InvalidComplianceScopeError ''Unknown Trust Services Category value(s)'')
      else (let selected = insert ''security'' (set categories)
            in Inr (comma_join (filter (\<lambda>c. c \<in> selected) trust_service_categories))))"

definition validate_period :: "date option \<Rightarrow> date option \<Rightarrow> unit result" where
  "validate_period starts_on ends_on =
     (case (starts_on, ends_on) of
        (Some a, Some b) \<Rightarrow>
          if b < a then Inl (InvalidComplianceScopeError ''audit_period_ends_on must not be before audit_period_starts_on'')
          else Inr ()
      | _ \<Rightarrow> Inr ())"

section \<open>The projection\<close>

text \<open>The fields both events carry, as the columns take them.\<close>

definition read_scope :: "json \<Rightarrow> (compliance_scope \<Rightarrow> compliance_scope) result" where
  "read_scope p =
     rbind (req_str ''service_description'' p) (\<lambda>service_description.
     rbind (req_str ''trust_service_categories'' p) (\<lambda>categories.
     rbind (opt_str ''audit_period_starts_on'' p) (\<lambda>starts_text.
     rbind (parse_iso_date starts_text) (\<lambda>starts_on.
     rbind (opt_str ''audit_period_ends_on'' p) (\<lambda>ends_text.
     rbind (parse_iso_date ends_text) (\<lambda>ends_on.
     rbind (req_str ''data_categories'' p) (\<lambda>data_categories.
     rbind (req_str ''locations'' p) (\<lambda>locations.
     rbind (req_str ''exclusions'' p) (\<lambda>exclusions.
     rbind (req_str ''exclusions_rationale'' p) (\<lambda>exclusions_rationale.
       Inr (\<lambda>r. r\<lparr>cs_service_description := service_description, cs_trust_service_categories := categories,
              cs_audit_period_starts_on := starts_on, cs_audit_period_ends_on := ends_on,
              cs_data_categories := data_categories, cs_locations := locations, cs_exclusions := exclusions,
              cs_exclusions_rationale := exclusions_rationale\<rparr>)))))))))))"

definition new_scope :: "domain_event \<Rightarrow> compliance_scope" where
  "new_scope e =
     \<lparr>cs_id = ev_aggregate_id e, cs_service_description = [], cs_trust_service_categories = [],
      cs_audit_period_starts_on = None, cs_audit_period_ends_on = None, cs_data_categories = [], cs_locations = [],
      cs_exclusions = [], cs_exclusions_rationale = [], cs_revision = 1,
      cs_created_at = ev_recorded_at e, cs_updated_at = ev_recorded_at e\<rparr>"

definition scope_project_defined :: "db projector" where
  "scope_project_defined s e =
     rbind (read_scope (ev_payload e)) (\<lambda>fields.
       if has_row cs_id (ev_aggregate_id e) (compliance_scopes s) then Inl IntegrityError
       else Inr (s\<lparr>compliance_scopes := compliance_scopes s @ [fields (new_scope e)]\<rparr>))"

definition scope_project_revised :: "db projector" where
  "scope_project_revised s e =
     rbind (row_of cs_id (ev_aggregate_id e) (compliance_scopes s)) (\<lambda>scope.
     rbind (read_scope (ev_payload e)) (\<lambda>fields.
       Inr (s\<lparr>compliance_scopes := row_upd cs_id (ev_aggregate_id e)
          (\<lambda>r. (fields r)\<lparr>cs_revision := cs_revision r + 1, cs_updated_at := ev_recorded_at e\<rparr>) (compliance_scopes s)\<rparr>)))"

definition compliance_scope_projectors :: "string \<rightharpoonup> db projector" where
  "compliance_scope_projectors =
     [''ComplianceScopeDefined'' \<mapsto> scope_project_defined, ''ComplianceScopeRevised'' \<mapsto> scope_project_revised]"

definition clear_compliance_scopes :: "db \<Rightarrow> db" where
  "clear_compliance_scopes s = s\<lparr>compliance_scopes := []\<rparr>"

definition reset_compliance_scopes :: "db \<Rightarrow> db result" where
  "reset_compliance_scopes s = Inr (clear_compliance_scopes s)"

definition rebuild_compliance_scope_projection :: "db \<Rightarrow> db result" where
  "rebuild_compliance_scope_projection s =
     rebuild_projection compliance_scope_projectors ''compliance_scope'' reset_compliance_scopes s"

section \<open>Declaring the scope\<close>

definition get_compliance_scope :: "db \<Rightarrow> compliance_scope option" where
  "get_compliance_scope s = (case compliance_scopes s of [] \<Rightarrow> None | r # _ \<Rightarrow> Some r)"

record scope_fields =
  sf_service_description :: string
  sf_trust_service_categories :: "string list"
  sf_audit_period_starts_on :: "date option"
  sf_audit_period_ends_on :: "date option"
  sf_data_categories :: string
  sf_locations :: string
  sf_exclusions :: string
  sf_exclusions_rationale :: string

definition scope_payload :: "scope_fields \<Rightarrow> string \<Rightarrow> (string \<times> json) list" where
  "scope_payload f categories =
     [(''service_description'', JStr (sf_service_description f)),
      (''trust_service_categories'', JStr categories),
      (''audit_period_starts_on'', jdate (sf_audit_period_starts_on f)),
      (''audit_period_ends_on'', jdate (sf_audit_period_ends_on f)),
      (''data_categories'', JStr (sf_data_categories f)),
      (''locations'', JStr (sf_locations f)),
      (''exclusions'', JStr (sf_exclusions f)),
      (''exclusions_rationale'', JStr (sf_exclusions_rationale f))]"

definition define_or_revise_scope ::
  "tick \<Rightarrow> string \<Rightarrow> scope_fields \<Rightarrow> string \<Rightarrow> string option \<Rightarrow> db \<Rightarrow> db result" where
  "define_or_revise_scope t new_id f actor_type actor_id s =
     rbind (validate_period (sf_audit_period_starts_on f) (sf_audit_period_ends_on f)) (\<lambda>_.
     rbind (normalize_categories (sf_trust_service_categories f)) (\<lambda>categories.
       let existing = get_compliance_scope s;
           aggregate_id = (case existing of None \<Rightarrow> new_id | Some r \<Rightarrow> cs_id r);
           event_type = (case existing of None \<Rightarrow> ''ComplianceScopeDefined'' | Some _ \<Rightarrow> ''ComplianceScopeRevised'')
       in rbind (append_and_project [] t compliance_scope_projectors
            (event_command ''compliance_scope'' aggregate_id event_type (scope_payload f categories) actor_type actor_id) s)
            (\<lambda>(_, s'). Inr s')))"

text \<open>\<open>set(scope.trust_service_categories.split(","))\<close>, the boxes the form ticks.\<close>

fun split_comma :: "string \<Rightarrow> string list" where
  "split_comma [] = [[]]"
| "split_comma (c # cs) =
     (if c = CHR '','' then [] # split_comma cs
      else (case split_comma cs of [] \<Rightarrow> [[c]] | w # ws \<Rightarrow> (c # w) # ws))"

definition selected_categories :: "db \<Rightarrow> string list" where
  "selected_categories s =
     (case get_compliance_scope s of None \<Rightarrow> [''security''] | Some r \<Rightarrow> split_comma (cs_trust_service_categories r))"

record scope_request =
  sq_tick :: tick
  sq_new_id :: string
  sq_fields :: scope_fields
  sq_actor_type :: string
  sq_actor_id :: "string option"

definition scope_exec :: "scope_request \<Rightarrow> db \<Rightarrow> db result" where
  "scope_exec q s =
     define_or_revise_scope (sq_tick q) (sq_new_id q) (sq_fields q) (sq_actor_type q) (sq_actor_id q) s"

definition scope_stamp :: "scope_request \<Rightarrow> datetime" where
  "scope_stamp q = t_now (sq_tick q)"

text \<open>Dates of the calendar, which every \<open>datetime.date\<close> is.\<close>

definition scope_dates_ok :: "scope_request \<Rightarrow> bool" where
  "scope_dates_ok q =
     (list_all valid_date (case sf_audit_period_starts_on (sq_fields q) of None \<Rightarrow> [] | Some d \<Rightarrow> [d]) \<and>
      list_all valid_date (case sf_audit_period_ends_on (sq_fields q) of None \<Rightarrow> [] | Some d \<Rightarrow> [d]))"

section \<open>The projection contract\<close>

lemmas scope_projector_defs = scope_project_defined_def scope_project_revised_def

lemma scope_projector_frame:
  assumes "compliance_scope_projectors k = Some p" and "p s e = Inr s'"
    and "compliance_scopes (u s) = compliance_scopes s"
    and "\<And>g. u (s\<lparr>compliance_scopes := g\<rparr>) = (u s)\<lparr>compliance_scopes := g\<rparr>"
  shows "p (u s) e = Inr (u s')"
  using assms by (auto simp: compliance_scope_projectors_def scope_projector_defs split: if_splits)

lemma scope_projector_only:
  "compliance_scope_projectors k = Some p \<Longrightarrow> p s e = Inr s' \<Longrightarrow> \<exists>g. s' = s\<lparr>compliance_scopes := g\<rparr>"
  by (auto simp: compliance_scope_projectors_def scope_projector_defs split: if_splits)

interpretation scope: projection compliance_scope_projectors "''compliance_scope''" clear_compliance_scopes
proof
  show "clear_compliance_scopes (s\<lparr>domain_events := es\<rparr>) = (clear_compliance_scopes s)\<lparr>domain_events := es\<rparr>"
    for s es by (simp add: clear_compliance_scopes_def)
  show "p (s\<lparr>domain_events := es\<rparr>) e = Inr (s'\<lparr>domain_events := es\<rparr>)"
    if "compliance_scope_projectors k = Some p" "p s e = Inr s'" for k p s e s' es
    by (rule scope_projector_frame [OF that, where u = "\<lambda>s. s\<lparr>domain_events := es\<rparr>"]) simp_all
  show "clear_compliance_scopes s' = clear_compliance_scopes s"
    if "compliance_scope_projectors k = Some p" "p s e = Inr s'" for k p s e s'
    using scope_projector_only [OF that] by (auto simp: clear_compliance_scopes_def)
qed

interpretation scope_domain: projected_domain compliance_scope_projectors "''compliance_scope''" clear_compliance_scopes
  scope_exec scope_stamp scope_stamp "\<lambda>_. True" reset_compliance_scopes "\<lambda>_. True" id
proof
  show "in_sync compliance_scope_projectors ''compliance_scope'' clear_compliance_scopes s' \<and>
      recorded_by ''compliance_scope'' (scope_stamp q) (domain_events s')"
    if "in_sync compliance_scope_projectors ''compliance_scope'' clear_compliance_scopes s"
      "recorded_by ''compliance_scope'' seen (domain_events s)" "seen < scope_stamp q" "scope_exec q s = Inr s'"
    for s seen q s'
    using that scope.sync_append [OF that(1,2)]
    by (fastforce simp: scope_exec_def define_or_revise_scope_def scope_stamp_def event_command_def Let_def)
qed (simp_all add: reset_compliance_scopes_def)

section \<open>The row is the last declaration\<close>

definition declared :: "scope_fields \<Rightarrow> string \<Rightarrow> compliance_scope \<Rightarrow> compliance_scope" where
  "declared f categories r =
     r\<lparr>cs_service_description := sf_service_description f, cs_trust_service_categories := categories,
       cs_audit_period_starts_on := sf_audit_period_starts_on f, cs_audit_period_ends_on := sf_audit_period_ends_on f,
       cs_data_categories := sf_data_categories f, cs_locations := sf_locations f, cs_exclusions := sf_exclusions f,
       cs_exclusions_rationale := sf_exclusions_rationale f\<rparr>"

lemma read_scope_payload:
  assumes "scope_dates_ok q"
  shows "read_scope (JObj (scope_payload (sq_fields q) c)) = Inr (declared (sq_fields q) c)"
proof -
  have "parse_iso_date (map_option date_isoformat (sf_audit_period_starts_on (sq_fields q))) = Inr (sf_audit_period_starts_on (sq_fields q))"
    "parse_iso_date (map_option date_isoformat (sf_audit_period_ends_on (sq_fields q))) = Inr (sf_audit_period_ends_on (sq_fields q))"
    using assms by (auto simp: scope_dates_ok_def intro!: parse_iso_date_roundtrip)
  then show ?thesis
    by (simp add: read_scope_def scope_payload_def jget_def jget_or_def as_str_def req_str_def opt_str_def as_str_opt_jopt
        jdate_def declared_def fun_eq_iff del: rbind_eq_Inr_iff)
qed

lemma scope_exec_Inr:
  assumes "scope_exec q s = Inr s'" and "scope_dates_ok q"
  obtains c e where "validate_period (sf_audit_period_starts_on (sq_fields q)) (sf_audit_period_ends_on (sq_fields q)) = Inr ()"
    "normalize_categories (sf_trust_service_categories (sq_fields q)) = Inr c"
    "ev_recorded_at e = scope_stamp q"
    "compliance_scopes s = [] \<Longrightarrow> ev_aggregate_id e = sq_new_id q \<and> compliance_scopes s' = [declared (sq_fields q) c (new_scope e)]"
    "\<And>r. compliance_scopes s = [r] \<Longrightarrow>
       compliance_scopes s' = [(declared (sq_fields q) c r)\<lparr>cs_revision := cs_revision r + 1, cs_updated_at := scope_stamp q\<rparr>]"
proof -
  let ?f = "sq_fields q"
  let ?id = "case get_compliance_scope s of None \<Rightarrow> sq_new_id q | Some r \<Rightarrow> cs_id r"
  let ?ty = "case get_compliance_scope s of None \<Rightarrow> ''ComplianceScopeDefined'' | Some _ \<Rightarrow> ''ComplianceScopeRevised''"
  obtain c e where v: "validate_period (sf_audit_period_starts_on ?f) (sf_audit_period_ends_on ?f) = Inr ()"
    and c: "normalize_categories (sf_trust_service_categories ?f) = Inr c"
    and app: "append_and_project [] (sq_tick q) compliance_scope_projectors
      (event_command ''compliance_scope'' ?id ?ty (scope_payload ?f c) (sq_actor_type q) (sq_actor_id q)) s = Inr (e, s')"
    using assms(1) by (auto simp: scope_exec_def define_or_revise_scope_def Let_def)
  then have run: "run_projector compliance_scope_projectors (s\<lparr>domain_events := domain_events s @ [e]\<rparr>) e = Inr s'"
    and e: "ev_event_type e = ?ty" "ev_aggregate_id e = ?id" "ev_payload e = JObj (scope_payload ?f c)" "ev_recorded_at e = scope_stamp q"
    by (auto simp: append_key_free_iff event_command_def scope_stamp_def)
  note read = read_scope_payload [OF assms(2), of c]
  show thesis
  proof (rule that [OF v c e(4)])
    assume "compliance_scopes s = []"
    then show "ev_aggregate_id e = sq_new_id q \<and> compliance_scopes s' = [declared ?f c (new_scope e)]"
      using run e read by (auto simp: get_compliance_scope_def run_projector_def compliance_scope_projectors_def scope_project_defined_def)
  next
    fix r assume "compliance_scopes s = [r]"
    then show "compliance_scopes s' = [(declared ?f c r)\<lparr>cs_revision := cs_revision r + 1, cs_updated_at := scope_stamp q\<rparr>]"
      using run e read by (auto simp: get_compliance_scope_def run_projector_def compliance_scope_projectors_def
          scope_project_revised_def declared_def)
  qed
qed

definition scope_row :: "scope_request list \<Rightarrow> string \<Rightarrow> compliance_scope" where
  "scope_row qs c = declared (sq_fields (last qs)) c
     \<lparr>cs_id = sq_new_id (hd qs), cs_service_description = [], cs_trust_service_categories = [],
      cs_audit_period_starts_on = None, cs_audit_period_ends_on = None, cs_data_categories = [], cs_locations = [],
      cs_exclusions = [], cs_exclusions_rationale = [], cs_revision = int (length qs),
      cs_created_at = scope_stamp (hd qs), cs_updated_at = scope_stamp (last qs)\<rparr>"

lemma scope_history_row:
  assumes "compliance_scopes s = []" and "qs \<noteq> []" and "list_all scope_dates_ok qs"
    and "rfold (\<lambda>s q. scope_exec q s) qs s = Inr s'"
  shows "\<exists>c. normalize_categories (sf_trust_service_categories (sq_fields (last qs))) = Inr c \<and>
    validate_period (sf_audit_period_starts_on (sq_fields (last qs))) (sf_audit_period_ends_on (sq_fields (last qs))) = Inr () \<and>
    compliance_scopes s' = [scope_row qs c]"
  using assms(2-)
proof (induction qs arbitrary: s' rule: rev_induct)
  case (snoc q qs)
  then obtain s1 where s1: "rfold (\<lambda>s q. scope_exec q s) qs s = Inr s1" and q: "scope_exec q s1 = Inr s'" and ok: "scope_dates_ok q"
    by (auto simp: rfold_snoc)
  obtain c e where f: "validate_period (sf_audit_period_starts_on (sq_fields q)) (sf_audit_period_ends_on (sq_fields q)) = Inr ()"
    "normalize_categories (sf_trust_service_categories (sq_fields q)) = Inr c"
    and e: "ev_recorded_at e = scope_stamp q"
    and first: "compliance_scopes s1 = [] \<Longrightarrow> ev_aggregate_id e = sq_new_id q \<and> compliance_scopes s' = [declared (sq_fields q) c (new_scope e)]"
    and more: "\<And>r. compliance_scopes s1 = [r] \<Longrightarrow>
       compliance_scopes s' = [(declared (sq_fields q) c r)\<lparr>cs_revision := cs_revision r + 1, cs_updated_at := scope_stamp q\<rparr>]"
    using scope_exec_Inr [OF q ok] by blast
  have "compliance_scopes s' = [scope_row (qs @ [q]) c]"
  proof (cases "qs = []")
    case True
    then show ?thesis using first e s1 assms(1) by (simp add: scope_row_def new_scope_def)
  next
    case False
    then obtain c' where "compliance_scopes s1 = [scope_row qs c']" using snoc.IH [OF False _ s1] snoc.prems(2) by auto
    from more [OF this] show ?thesis using False by (simp add: scope_row_def declared_def)
  qed
  then show ?case using f by auto
qed simp

section \<open>The categories on the form\<close>

lemma split_comma_nonempty [simp]: "split_comma x \<noteq> []"
  by (induction x) (auto split: list.splits)

lemma split_comma_plain: "CHR '','' \<notin> set x \<Longrightarrow> split_comma (x @ y) = (case split_comma y of [] \<Rightarrow> [x] | w # ws \<Rightarrow> (x @ w) # ws)"
  by (induction x) (auto split: list.splits)

lemma split_comma_join:
  "xs \<noteq> [] \<Longrightarrow> (\<And>x. x \<in> set xs \<Longrightarrow> CHR '','' \<notin> set x) \<Longrightarrow> split_comma (comma_join xs) = xs"
proof (induction xs rule: comma_join.induct)
  case (2 x)
  then show ?case using split_comma_plain [of x "[]"] by simp
next
  case (3 x y xs)
  then show ?case using split_comma_plain [of x "CHR '','' # comma_join (y # xs)"] by simp
qed simp

lemma standard_no_comma: "x \<in> set trust_service_categories \<Longrightarrow> CHR '','' \<notin> set x"
  by (auto simp: trust_service_categories_def)

lemma normalize_categories_split:
  assumes "normalize_categories cats = Inr c"
  shows "split_comma c = filter (\<lambda>x. x \<in> insert ''security'' (set cats)) trust_service_categories"
proof -
  have "c = comma_join (filter (\<lambda>x. x \<in> insert ''security'' (set cats)) trust_service_categories)"
    using assms by (auto simp: normalize_categories_def Let_def split: if_splits)
  moreover have "filter (\<lambda>x. x \<in> insert ''security'' (set cats)) trust_service_categories \<noteq> []"
    by (simp add: trust_service_categories_def)
  ultimately show ?thesis using standard_no_comma split_comma_join by (metis filter_is_subset subsetD)
qed

section \<open>Properties\<close>

lemma events_of_Nil_iff: "events_of at es = [] \<longleftrightarrow> filter (\<lambda>e. ev_aggregate_type e = at) es = []"
proof -
  have "length (events_of at es) = length (filter (\<lambda>e. ev_aggregate_type e = at) es)" by (simp add: events_of_def)
  then show ?thesis by (metis length_0_conv)
qed


text \<open>
  C23. The scope is the last declaration. Starting without a scope, after any sequence of
  accepted declarations there is exactly one row: it carries the id and time of the first, the
  fields of the last, whose period is in order, and as revision their number; rebuilding the
  projection from the events gives the same database.
\<close>

theorem scope_is_last_declaration:
  assumes "compliance_scopes s = []" and "events_of ''compliance_scope'' (domain_events s) = []"
    and "qs \<noteq> []" and "list_all scope_dates_ok qs" and "clock_runs scope_stamp scope_stamp (\<lambda>_. True) seen qs"
    and "rfold (\<lambda>s q. scope_exec q s) qs s = Inr s'"
  shows "\<exists>c. normalize_categories (sf_trust_service_categories (sq_fields (last qs))) = Inr c \<and>
           validate_period (sf_audit_period_starts_on (sq_fields (last qs))) (sf_audit_period_ends_on (sq_fields (last qs))) = Inr () \<and>
           compliance_scopes s' = [scope_row qs c] \<and>
           rebuild_compliance_scope_projection s' = Inr s'"
proof -
  have none: "filter (\<lambda>e. ev_aggregate_type e = ''compliance_scope'') (domain_events s) = []"
    using assms(2) by (simp only: events_of_Nil_iff)
  have "in_sync compliance_scope_projectors ''compliance_scope'' clear_compliance_scopes s"
    using assms(1,2) by (simp add: in_sync_def clear_compliance_scopes_def)
  moreover have "recorded_by ''compliance_scope'' seen (domain_events s)"
    using none by (auto simp: recorded_by_def list_all_iff filter_empty_conv)
  ultimately have "rebuild_compliance_scope_projection s' = Inr s'"
    using scope_domain.rebuild_after_history [OF _ _ assms(5,6)] by (simp add: rebuild_compliance_scope_projection_def)
  then show ?thesis using scope_history_row [OF assms(1,3,4,6)] by blast
qed

text \<open>
  Categories survive the form. The categories that the scope form ticks after a declaration
  are exactly the ones declared and security, in the order of the standard, however they were
  ordered or repeated in the request.
\<close>

theorem scope_form_roundtrip:
  assumes "compliance_scopes s = []" and "qs \<noteq> []" and "list_all scope_dates_ok qs"
    and "rfold (\<lambda>s q. scope_exec q s) qs s = Inr s'"
  defines "cats \<equiv> insert ''security'' (set (sf_trust_service_categories (sq_fields (last qs))))"
  shows "selected_categories s' = filter (\<lambda>x. x \<in> cats) trust_service_categories \<and> set (selected_categories s') = cats"
proof -
  obtain c where c: "normalize_categories (sf_trust_service_categories (sq_fields (last qs))) = Inr c"
    and row: "compliance_scopes s' = [scope_row qs c]"
    using scope_history_row [OF assms(1-4)] by blast
  have sel: "selected_categories s' = filter (\<lambda>x. x \<in> cats) trust_service_categories"
    unfolding cats_def using row normalize_categories_split [OF c]
    by (simp add: selected_categories_def get_compliance_scope_def scope_row_def declared_def)
  have "list_all (\<lambda>x. x \<in> set trust_service_categories) (sf_trust_service_categories (sq_fields (last qs)))"
    using c by (auto simp: normalize_categories_def list_ex_iff list_all_iff split: if_splits)
  moreover have "''security'' \<in> set trust_service_categories" by (simp add: trust_service_categories_def)
  ultimately show ?thesis unfolding sel by (auto simp: list_all_iff cats_def)
qed

section \<open>A worked history\<close>

definition demo_scope :: "int \<Rightarrow> string list \<Rightarrow> scope_request" where
  "demo_scope n cats =
     \<lparr>sq_tick = \<lparr>t_now = Datetime (Date 2026 1 1) n, t_id = pad_digits 3 n\<rparr>, sq_new_id = ''scope'',
      sq_fields = \<lparr>sf_service_description = ''API'', sf_trust_service_categories = cats,
        sf_audit_period_starts_on = Some (Date 2026 1 1), sf_audit_period_ends_on = None, sf_data_categories = [],
        sf_locations = [], sf_exclusions = [], sf_exclusions_rationale = []\<rparr>,
      sq_actor_type = ''user'', sq_actor_id = None\<rparr>"

definition demo_scopes :: "scope_request list" where
  "demo_scopes = [demo_scope 1 [], demo_scope 2 [''privacy'', ''availability'', ''privacy'']]"

lemma demo_scopes_run: "\<exists>s'. rfold (\<lambda>s q. scope_exec q s) demo_scopes empty_db = Inr s'"
proof -
  have "case rfold (\<lambda>s q. scope_exec q s) demo_scopes empty_db of Inl _ \<Rightarrow> False | Inr _ \<Rightarrow> True" by code_simp
  then show ?thesis by (auto split: sum.splits)
qed

lemma demo_scopes_ok:
  "compliance_scopes empty_db = []" "events_of ''compliance_scope'' (domain_events empty_db) = []"
  "demo_scopes \<noteq> []" "list_all scope_dates_ok demo_scopes"
  "clock_runs scope_stamp scope_stamp (\<lambda>_. True) (Datetime (Date 2025 1 1) 0) demo_scopes"
  by code_simp+

theorem scope_is_last_declaration_witness:
  "\<exists>s'. rfold (\<lambda>s q. scope_exec q s) demo_scopes empty_db = Inr s' \<and>
     length (compliance_scopes s') = 1 \<and> rebuild_compliance_scope_projection s' = Inr s'"
proof -
  obtain s' where run: "rfold (\<lambda>s q. scope_exec q s) demo_scopes empty_db = Inr s'" using demo_scopes_run by blast
  from scope_is_last_declaration [OF demo_scopes_ok run] run show ?thesis by auto
qed

theorem scope_form_roundtrip_witness:
  "\<exists>s'. rfold (\<lambda>s q. scope_exec q s) demo_scopes empty_db = Inr s' \<and>
     selected_categories s' = [''security'', ''availability'', ''privacy'']"
proof -
  obtain s' where run: "rfold (\<lambda>s q. scope_exec q s) demo_scopes empty_db = Inr s'" using demo_scopes_run by blast
  have "selected_categories s' = filter (\<lambda>x. x \<in> insert ''security'' (set (sf_trust_service_categories (sq_fields (last demo_scopes)))))
      trust_service_categories"
    using scope_form_roundtrip [OF demo_scopes_ok(1,3,4) run] by blast
  also have "\<dots> = [''security'', ''availability'', ''privacy'']" by code_simp
  finally show ?thesis using run by blast
qed

end
