(* ===== verification/Framework_Adoption.thy ===== *)
theory Framework_Adoption
  imports Models
begin

text \<open>
  Which version of a catalogue family the organisation has adopted
  (\<open>src/app/framework_adoption.py\<close>): a projection of adoption and upgrade events with one row
  per family. The lemmas show that an adoption always points at a framework of its own family,
  that an upgrade is a move between two different versions of it which touches no other
  table, and that a rebuild gives the table back.
\<close>

section \<open>The projection\<close>

definition insert_framework_adoption :: "framework_adoption \<Rightarrow> db \<Rightarrow> db result" where
  "insert_framework_adoption r s =
     (if has_row fa_id (fa_id r) (framework_adoptions s) \<or>
         has_row fa_catalog_family (fa_catalog_family r) (framework_adoptions s) \<or>
         \<not> has_row fw_id (fa_framework_id r) (frameworks s)
      then Inl IntegrityError
      else Inr (s\<lparr>framework_adoptions := framework_adoptions s @ [r]\<rparr>))"

definition adoption_project_adopted :: "db projector" where
  "adoption_project_adopted s e =
     rbind (req_str ''catalog_family'' (ev_payload e)) (\<lambda>catalog_family.
     rbind (req_str ''framework_id'' (ev_payload e)) (\<lambda>framework_id.
       insert_framework_adoption
         \<lparr>fa_id = ev_aggregate_id e, fa_catalog_family = catalog_family, fa_framework_id = framework_id,
          fa_previous_framework_id = None, fa_adopted_at = ev_recorded_at e, fa_upgraded_at = None\<rparr> s))"

definition adoption_project_upgraded :: "db projector" where
  "adoption_project_upgraded s e =
     rbind (row_of fa_id (ev_aggregate_id e) (framework_adoptions s)) (\<lambda>adoption.
     rbind (req_str ''from_framework_id'' (ev_payload e)) (\<lambda>from_framework_id.
     rbind (req_str ''to_framework_id'' (ev_payload e)) (\<lambda>to_framework_id.
       if \<not> has_row fw_id from_framework_id (frameworks s) \<or> \<not> has_row fw_id to_framework_id (frameworks s)
       then Inl IntegrityError
       else Inr (s\<lparr>framework_adoptions := row_upd fa_id (ev_aggregate_id e)
         (\<lambda>a. a\<lparr>fa_previous_framework_id := Some from_framework_id, fa_framework_id := to_framework_id,
                fa_upgraded_at := Some (ev_recorded_at e)\<rparr>) (framework_adoptions s)\<rparr>))))"

definition framework_adoption_projectors :: "string \<rightharpoonup> db projector" where
  "framework_adoption_projectors =
     [''FrameworkAdoptionAdopted'' \<mapsto> adoption_project_adopted, ''FrameworkAdoptionUpgraded'' \<mapsto> adoption_project_upgraded]"

definition clear_framework_adoptions :: "db \<Rightarrow> db" where
  "clear_framework_adoptions s = s\<lparr>framework_adoptions := []\<rparr>"

definition reset_framework_adoptions :: "db \<Rightarrow> db result" where
  "reset_framework_adoptions s = Inr (clear_framework_adoptions s)"

definition rebuild_framework_adoption_projection :: "db \<Rightarrow> db result" where
  "rebuild_framework_adoption_projection s =
     rebuild_projection framework_adoption_projectors ''framework_adoption'' reset_framework_adoptions s"

section \<open>Adopting and upgrading\<close>

definition get_adoption :: "db \<Rightarrow> string \<Rightarrow> framework_adoption option" where
  "get_adoption s catalog_family = row_get fa_catalog_family catalog_family (framework_adoptions s)"

definition adoption_append :: "tick \<Rightarrow> event_cmd \<Rightarrow> db \<Rightarrow> (framework_adoption option \<times> db) result" where
  "adoption_append t c s =
     rbind (append_and_project [] t framework_adoption_projectors c s)
       (\<lambda>(e, s'). Inr (row_get fa_id (ev_aggregate_id e) (framework_adoptions s'), s'))"

text \<open>\<open>rivals\<close>: adoptions other transactions commit after the lookup and before the insert.\<close>

definition adopt_framework ::
  "tick \<Rightarrow> string \<Rightarrow> framework_adoption list \<Rightarrow> framework \<Rightarrow> string \<Rightarrow> string option \<Rightarrow> db \<Rightarrow> (framework_adoption option \<times> db) result" where
  "adopt_framework t new_id rivals framework actor_type actor_id s =
     (case fw_catalog_family framework of
        None \<Rightarrow> Inl (FrameworkAdoptionError ''Cannot adopt framework: it has no catalog_family'')
      | Some family \<Rightarrow>
          (case get_adoption s family of
             Some existing \<Rightarrow>
               if fa_framework_id existing = fw_id framework then Inr (Some existing, s)
               else Inl (FrameworkAdoptionError ''catalog_family is already adopted'')
           | None \<Rightarrow>
               adoption_append t
                 (event_command ''framework_adoption'' new_id ''FrameworkAdoptionAdopted''
                    [(''catalog_family'', JStr family), (''framework_id'', JStr (fw_id framework))] actor_type actor_id)
                 (s\<lparr>framework_adoptions := framework_adoptions s @ rivals\<rparr>)))"

definition upgrade_framework_adoption ::
  "tick \<Rightarrow> framework_adoption \<Rightarrow> framework \<Rightarrow> string \<Rightarrow> string option \<Rightarrow> db \<Rightarrow> (framework_adoption option \<times> db) result" where
  "upgrade_framework_adoption t adoption to_framework actor_type actor_id s =
     (if fw_catalog_family to_framework \<noteq> Some (fa_catalog_family adoption)
      then Inl (FrameworkAdoptionError ''an upgrade must stay within the same catalog family'')
      else if fw_id to_framework = fa_framework_id adoption
      then Inl (FrameworkAdoptionError ''already the adopted version - nothing to upgrade'')
      else if \<not> fw_is_active to_framework
      then Inl (FrameworkAdoptionError ''cannot upgrade to an inactive framework'')
      else adoption_append t
        (event_command ''framework_adoption'' (fa_id adoption) ''FrameworkAdoptionUpgraded''
           [(''catalog_family'', JStr (fa_catalog_family adoption)),
            (''from_framework_id'', JStr (fa_framework_id adoption)),
            (''to_framework_id'', JStr (fw_id to_framework))] actor_type actor_id) s)"

definition list_upgrade_candidates :: "db \<Rightarrow> framework_adoption \<Rightarrow> framework list" where
  "list_upgrade_candidates s adoption =
     sort_key fw_version
       (filter (\<lambda>f. fw_catalog_family f = Some (fa_catalog_family adoption) \<and>
          fw_id f \<noteq> fa_framework_id adoption \<and> fw_is_active f) (frameworks s))"

section \<open>Requests\<close>

text \<open>Adopt a framework, or upgrade the adoption of a family to a framework, each given by its id.\<close>

datatype adoption_request =
    Adopt tick string string
  | Upgrade tick string string

fun adoption_exec :: "adoption_request \<Rightarrow> db \<Rightarrow> db result" where
  "adoption_exec (Adopt t new_id f) s =
     rbind (row_of fw_id f (frameworks s)) (\<lambda>framework.
     rbind (adopt_framework t new_id [] framework ''system'' None s) (\<lambda>(_, s'). Inr s'))"
| "adoption_exec (Upgrade t family f) s =
     rbind (row_of fa_catalog_family family (framework_adoptions s)) (\<lambda>adoption.
     rbind (row_of fw_id f (frameworks s)) (\<lambda>framework.
     rbind (upgrade_framework_adoption t adoption framework ''user'' None s) (\<lambda>(_, s'). Inr s')))"

fun adoption_stamp :: "adoption_request \<Rightarrow> datetime" where
  "adoption_stamp (Adopt t new_id f) = t_now t"
| "adoption_stamp (Upgrade t family f) = t_now t"

section \<open>The projection contract\<close>

lemma insert_framework_adoption_Inr:
  "insert_framework_adoption r s = Inr s' \<longleftrightarrow>
     s' = s\<lparr>framework_adoptions := framework_adoptions s @ [r]\<rparr> \<and>
     \<not> has_row fa_id (fa_id r) (framework_adoptions s) \<and>
     \<not> has_row fa_catalog_family (fa_catalog_family r) (framework_adoptions s) \<and>
     has_row fw_id (fa_framework_id r) (frameworks s)"
  by (auto simp: insert_framework_adoption_def)

lemmas adoption_projector_defs = adoption_project_adopted_def adoption_project_upgraded_def

lemma adoption_projector_frame:
  assumes "framework_adoption_projectors k = Some p" and "p s e = Inr s'"
    and "framework_adoptions (u s) = framework_adoptions s" "frameworks (u s) = frameworks s"
    and "\<And>g. u (s\<lparr>framework_adoptions := g\<rparr>) = (u s)\<lparr>framework_adoptions := g\<rparr>"
  shows "p (u s) e = Inr (u s')"
  using assms by (auto simp: framework_adoption_projectors_def adoption_projector_defs insert_framework_adoption_Inr
      split: if_splits)

lemma adoption_projector_only:
  "framework_adoption_projectors k = Some p \<Longrightarrow> p s e = Inr s' \<Longrightarrow> \<exists>g. s' = s\<lparr>framework_adoptions := g\<rparr>"
  by (auto simp: framework_adoption_projectors_def adoption_projector_defs insert_framework_adoption_Inr split: if_splits)

interpretation adoption: projection framework_adoption_projectors "''framework_adoption''" clear_framework_adoptions
proof
  show "clear_framework_adoptions (s\<lparr>domain_events := es\<rparr>) = (clear_framework_adoptions s)\<lparr>domain_events := es\<rparr>"
    for s es by (simp add: clear_framework_adoptions_def)
  show "p (s\<lparr>domain_events := es\<rparr>) e = Inr (s'\<lparr>domain_events := es\<rparr>)"
    if "framework_adoption_projectors k = Some p" "p s e = Inr s'" for k p s e s' es
    by (rule adoption_projector_frame [OF that, where u = "\<lambda>s. s\<lparr>domain_events := es\<rparr>"]) simp_all
  show "clear_framework_adoptions s' = clear_framework_adoptions s"
    if "framework_adoption_projectors k = Some p" "p s e = Inr s'" for k p s e s'
    using adoption_projector_only [OF that] by (auto simp: clear_framework_adoptions_def)
qed

lemma adopt_Inr:
  "adopt_framework t i [] f ty a s = Inr (x, s') \<Longrightarrow> s' = s \<or>
     (\<exists>family e. fw_catalog_family f = Some family \<and> get_adoption s family = None \<and>
        append_and_project [] t framework_adoption_projectors
          (event_command ''framework_adoption'' i ''FrameworkAdoptionAdopted''
             [(''catalog_family'', JStr family), (''framework_id'', JStr (fw_id f))] ty a) s = Inr (e, s'))"
  by (auto simp: adopt_framework_def adoption_append_def split: option.splits if_splits)

lemma upgrade_Inr:
  "upgrade_framework_adoption t ad f ty a s = Inr (x, s') \<longleftrightarrow>
     fw_catalog_family f = Some (fa_catalog_family ad) \<and> fw_id f \<noteq> fa_framework_id ad \<and> fw_is_active f \<and>
     adoption_append t (event_command ''framework_adoption'' (fa_id ad) ''FrameworkAdoptionUpgraded''
           [(''catalog_family'', JStr (fa_catalog_family ad)), (''from_framework_id'', JStr (fa_framework_id ad)),
            (''to_framework_id'', JStr (fw_id f))] ty a) s = Inr (x, s')"
  by (auto simp: upgrade_framework_adoption_def)

interpretation adoption_domain: projected_domain framework_adoption_projectors "''framework_adoption''" clear_framework_adoptions
  adoption_exec adoption_stamp adoption_stamp "\<lambda>_. True" reset_framework_adoptions "\<lambda>_. True" id
proof
  show "in_sync framework_adoption_projectors ''framework_adoption'' clear_framework_adoptions s' \<and>
      recorded_by ''framework_adoption'' (adoption_stamp q) (domain_events s')"
    if "in_sync framework_adoption_projectors ''framework_adoption'' clear_framework_adoptions s"
      "recorded_by ''framework_adoption'' seen (domain_events s)" "seen < adoption_stamp q" "adoption_exec q s = Inr s'"
    for s seen q s'
    using that adoption.sync_append [OF that(1,2)] recorded_by_mono [OF that(2), of "adoption_stamp q"]
    by (cases q) (fastforce simp: event_command_def adoption_append_def upgrade_Inr dest!: adopt_Inr)+
qed (simp_all add: reset_framework_adoptions_def)

section \<open>What an adoption points at\<close>

definition in_family :: "db \<Rightarrow> string \<Rightarrow> string \<Rightarrow> bool" where
  "in_family s f family = list_ex (\<lambda>x. fw_id x = f \<and> fw_catalog_family x = Some family) (frameworks s)"

definition adoption_ok :: "db \<Rightarrow> framework_adoption \<Rightarrow> bool" where
  "adoption_ok s a =
     (in_family s (fa_framework_id a) (fa_catalog_family a) \<and>
      (case fa_previous_framework_id a of None \<Rightarrow> fa_upgraded_at a = None
       | Some p \<Rightarrow> p \<noteq> fa_framework_id a \<and> in_family s p (fa_catalog_family a) \<and> fa_upgraded_at a \<noteq> None))"

definition adoption_inv :: "db \<Rightarrow> bool" where
  "adoption_inv s = (unique_by fa_id (framework_adoptions s) \<and> unique_by fa_catalog_family (framework_adoptions s) \<and>
     list_all (adoption_ok s) (framework_adoptions s))"

text \<open>The step an accepted request takes on the table.\<close>

inductive adoption_step :: "db \<Rightarrow> framework_adoption list \<Rightarrow> framework_adoption list \<Rightarrow> bool" for s where
  keep: "adoption_step s rows rows"
| adopt: "in_family s f fam \<Longrightarrow> \<not> has_row fa_id i rows \<Longrightarrow> \<not> has_row fa_catalog_family fam rows \<Longrightarrow>
    adoption_step s rows (rows @ [\<lparr>fa_id = i, fa_catalog_family = fam, fa_framework_id = f,
      fa_previous_framework_id = None, fa_adopted_at = t, fa_upgraded_at = None\<rparr>])"
| upgrade: "a \<in> set rows \<Longrightarrow> in_family s f (fa_catalog_family a) \<Longrightarrow> f \<noteq> fa_framework_id a \<Longrightarrow>
    adoption_step s rows (row_upd fa_id (fa_id a) (\<lambda>x. x\<lparr>fa_previous_framework_id := Some (fa_framework_id a),
      fa_framework_id := f, fa_upgraded_at := Some t\<rparr>) rows)"

lemma in_family_row: "row_get fw_id f (frameworks s) = Some x \<Longrightarrow> fw_catalog_family x = Some fam \<Longrightarrow> in_family s f fam"
  using row_get_SomeD [of fw_id f "frameworks s" x] by (auto simp: in_family_def list_ex_iff)

lemma adoption_exec_only:
  assumes "adoption_exec q s = Inr s'"
  shows "\<exists>es g. s' = s\<lparr>domain_events := es, framework_adoptions := g\<rparr>"
proof -
  have self: "\<exists>es g. s = s\<lparr>domain_events := es, framework_adoptions := g\<rparr>"
    by (intro exI [of _ "domain_events s"] exI [of _ "framework_adoptions s"]) simp
  have app: "\<exists>es g. s' = s\<lparr>domain_events := es, framework_adoptions := g\<rparr>"
    if "append_and_project [] t framework_adoption_projectors (event_command a b c d f h) s = Inr (e, s')" for t a b c d f h e
  proof -
    have "run_projector framework_adoption_projectors (s\<lparr>domain_events := domain_events s @ [e]\<rparr>) e = Inr s'"
      using that by (auto simp: append_key_free_iff event_command_def)
    then show ?thesis using adoption_projector_only by (fastforce simp: run_projector_def split: option.splits)
  qed
  show ?thesis using assms self app
    by (cases q) (fastforce simp: adoption_append_def upgrade_Inr dest!: adopt_Inr)+
qed

lemma adopt_step:
  assumes "adoption_exec (Adopt t i f) s = Inr s'"
  shows "adoption_step s (framework_adoptions s) (framework_adoptions s')"
proof -
  obtain fr x where fr: "row_get fw_id f (frameworks s) = Some fr" and a: "adopt_framework t i [] fr ''system'' None s = Inr (x, s')"
    using assms by auto
  have id: "fw_id fr = f" using row_get_SomeD [OF fr] by simp
  from adopt_Inr [OF a] show ?thesis
  proof
    assume "\<exists>family e. fw_catalog_family fr = Some family \<and> get_adoption s family = None \<and>
        append_and_project [] t framework_adoption_projectors
          (event_command ''framework_adoption'' i ''FrameworkAdoptionAdopted''
             [(''catalog_family'', JStr family), (''framework_id'', JStr (fw_id fr))] ''system'' None) s = Inr (e, s')"
    then obtain fam e where fam: "fw_catalog_family fr = Some fam" and
      "append_and_project [] t framework_adoption_projectors
          (event_command ''framework_adoption'' i ''FrameworkAdoptionAdopted''
             [(''catalog_family'', JStr fam), (''framework_id'', JStr f)] ''system'' None) s = Inr (e, s')"
      using id by auto
    then have "run_projector framework_adoption_projectors (s\<lparr>domain_events := domain_events s @ [e]\<rparr>) e = Inr s'"
      "ev_event_type e = ''FrameworkAdoptionAdopted''" "ev_aggregate_id e = i"
      "ev_payload e = JObj [(''catalog_family'', JStr fam), (''framework_id'', JStr f)]" "ev_recorded_at e = t_now t"
      by (auto simp: append_key_free_iff event_command_def)
    then show ?thesis using adoption_step.adopt [OF in_family_row [OF fr fam]]
      by (auto simp: run_projector_def framework_adoption_projectors_def adoption_project_adopted_def json_simps
          insert_framework_adoption_Inr)
  qed (simp add: adoption_step.keep)
qed

lemma upgrade_step:
  assumes "adoption_exec (Upgrade t fam f) s = Inr s'"
  shows "adoption_step s (framework_adoptions s) (framework_adoptions s')"
proof -
  obtain ad fr x where ad: "row_get fa_catalog_family fam (framework_adoptions s) = Some ad"
    and fr: "row_get fw_id f (frameworks s) = Some fr" and u: "upgrade_framework_adoption t ad fr ''user'' None s = Inr (x, s')"
    using assms by auto
  have id: "fw_id fr = f" and mem: "ad \<in> set (framework_adoptions s)" using row_get_SomeD [OF fr] row_get_SomeD [OF ad] by auto
  have f: "in_family s f (fa_catalog_family ad)" "f \<noteq> fa_framework_id ad"
    using u id in_family_row [OF fr] by (auto simp: upgrade_Inr)
  obtain e where "append_and_project [] t framework_adoption_projectors
      (event_command ''framework_adoption'' (fa_id ad) ''FrameworkAdoptionUpgraded''
           [(''catalog_family'', JStr (fa_catalog_family ad)), (''from_framework_id'', JStr (fa_framework_id ad)),
            (''to_framework_id'', JStr f)] ''user'' None) s = Inr (e, s')"
    using u id by (auto simp: upgrade_Inr adoption_append_def)
  then have "run_projector framework_adoption_projectors (s\<lparr>domain_events := domain_events s @ [e]\<rparr>) e = Inr s'"
    "ev_event_type e = ''FrameworkAdoptionUpgraded''" "ev_aggregate_id e = fa_id ad" "ev_recorded_at e = t_now t"
    "ev_payload e = JObj [(''catalog_family'', JStr (fa_catalog_family ad)), (''from_framework_id'', JStr (fa_framework_id ad)),
            (''to_framework_id'', JStr f)]"
    by (auto simp: append_key_free_iff event_command_def)
  then show ?thesis using adoption_step.upgrade [OF mem f]
    by (auto simp: run_projector_def framework_adoption_projectors_def adoption_project_upgraded_def json_simps split: if_splits)
qed

lemma adoption_exec_step: "adoption_exec q s = Inr s' \<Longrightarrow> adoption_step s (framework_adoptions s) (framework_adoptions s')"
  using adopt_step upgrade_step by (cases q) blast+

lemma adoption_step_inv:
  assumes "adoption_step s rows rows'" and "unique_by fa_id rows" and "unique_by fa_catalog_family rows" and "list_all (adoption_ok s) rows"
  shows "unique_by fa_id rows' \<and> unique_by fa_catalog_family rows' \<and> list_all (adoption_ok s) rows'"
  using assms
proof (induction rule: adoption_step.induct)
  case (upgrade a rows f t)
  have "adoption_ok s (a\<lparr>fa_previous_framework_id := Some (fa_framework_id a), fa_framework_id := f, fa_upgraded_at := Some t\<rparr>)"
    using upgrade by (auto simp: adoption_ok_def list_all_iff)
  moreover have "r = a" if "r \<in> set rows" "fa_id r = fa_id a" for r
    using unique_by_eqD [OF upgrade.prems(1) that(1) upgrade.hyps(1) that(2)] .
  ultimately have "list_all (adoption_ok s) (row_upd fa_id (fa_id a) (\<lambda>x. x\<lparr>fa_previous_framework_id := Some (fa_framework_id a),
      fa_framework_id := f, fa_upgraded_at := Some t\<rparr>) rows)"
    using upgrade.prems(3) by (auto simp: list_all_iff set_row_upd)
  then show ?case using upgrade.prems by simp
qed (auto simp: adoption_ok_def)

lemma in_family_frame: "in_family (s\<lparr>domain_events := es, framework_adoptions := g\<rparr>) f fam = in_family s f fam"
  by (simp add: in_family_def)

lemma adoption_ok_frame: "adoption_ok (s\<lparr>domain_events := es, framework_adoptions := g\<rparr>) = adoption_ok s"
  by (simp add: fun_eq_iff adoption_ok_def in_family_frame split: option.splits)

lemma adoption_exec_inv:
  assumes "adoption_exec q s = Inr s'" and "adoption_inv s"
  shows "adoption_inv s'"
proof -
  obtain es g where s': "s' = s\<lparr>domain_events := es, framework_adoptions := g\<rparr>" using adoption_exec_only [OF assms(1)] by blast
  from adoption_step_inv [OF adoption_exec_step [OF assms(1)]] assms(2) have
    "unique_by fa_id (framework_adoptions s') \<and> unique_by fa_catalog_family (framework_adoptions s') \<and>
     list_all (adoption_ok s) (framework_adoptions s')" by (auto simp: adoption_inv_def)
  moreover have "adoption_ok s' = adoption_ok s" unfolding s' by (rule adoption_ok_frame)
  ultimately show ?thesis by (simp add: adoption_inv_def)
qed

lemma adoption_history_only:
  "rfold (\<lambda>s q. adoption_exec q s) qs s = Inr s' \<Longrightarrow> \<exists>es g. s' = s\<lparr>domain_events := es, framework_adoptions := g\<rparr>"
proof (induction qs arbitrary: s)
  case Nil
  then show ?case by (intro exI [of _ "domain_events s"] exI [of _ "framework_adoptions s"]) simp
next
  case (Cons q qs)
  then obtain s1 where s1: "adoption_exec q s = Inr s1" and "rfold (\<lambda>s q. adoption_exec q s) qs s1 = Inr s'" by auto
  with Cons.IH obtain es g where "s' = s1\<lparr>domain_events := es, framework_adoptions := g\<rparr>" by blast
  moreover obtain es1 g1 where "s1 = s\<lparr>domain_events := es1, framework_adoptions := g1\<rparr>" using adoption_exec_only [OF s1] by blast
  ultimately have "s' = s\<lparr>domain_events := es, framework_adoptions := g\<rparr>" by simp
  then show ?case by blast
qed

text \<open>
  C24. Adoptions are pinned. After any history of adoptions and upgrades every catalogue family
  has at most one adoption; it points at a framework of that family, and after an upgrade
  also at a different one it came from. Nothing but the events and the adoptions has changed,
  so requirements, mappings and periods keep the version they were created against; and
  rebuilding the projection gives the database back.
\<close>

theorem adoption_pinned:
  assumes "adoption_inv s" and "in_sync framework_adoption_projectors ''framework_adoption'' clear_framework_adoptions s"
    and "recorded_by ''framework_adoption'' seen (domain_events s)"
    and "clock_runs adoption_stamp adoption_stamp (\<lambda>_. True) seen qs"
    and "rfold (\<lambda>s q. adoption_exec q s) qs s = Inr s'"
  shows "adoption_inv s' \<and> (\<exists>es g. s' = s\<lparr>domain_events := es, framework_adoptions := g\<rparr>) \<and>
    rebuild_framework_adoption_projection s' = Inr s'"
proof (intro conjI)
  show "adoption_inv s'" using assms(5,1) by (rule rfold_invariant) (auto intro: adoption_exec_inv)
  show "\<exists>es g. s' = s\<lparr>domain_events := es, framework_adoptions := g\<rparr>" by (rule adoption_history_only [OF assms(5)])
  show "rebuild_framework_adoption_projection s' = Inr s'"
    using adoption_domain.rebuild_after_history [OF assms(2-5)] by (simp add: rebuild_framework_adoption_projection_def)
qed

definition demo_framework :: "string \<Rightarrow> framework" where
  "demo_framework i = \<lparr>fw_id = i, fw_name = ''SOC 2'', fw_version = i, fw_description = [], fw_is_placeholder_content = True,
     fw_is_active = True, fw_catalog_key = None, fw_is_primary = False, fw_catalog_family = Some ''soc2''\<rparr>"

definition demo_framework_db :: db where
  "demo_framework_db = empty_db\<lparr>frameworks := [demo_framework ''f1'', demo_framework ''f2'']\<rparr>"

definition demo_adoptions :: "adoption_request list" where
  "demo_adoptions = [Adopt \<lparr>t_now = Datetime (Date 2026 1 1) 1, t_id = ''e1''\<rparr> ''a1'' ''f1'',
     Upgrade \<lparr>t_now = Datetime (Date 2026 1 1) 2, t_id = ''e2''\<rparr> ''soc2'' ''f2'']"

theorem adoption_pinned_witness:
  "\<exists>s'. rfold (\<lambda>s q. adoption_exec q s) demo_adoptions demo_framework_db = Inr s' \<and>
     adoption_inv s' \<and> rebuild_framework_adoption_projection s' = Inr s'"
proof -
  have "case rfold (\<lambda>s q. adoption_exec q s) demo_adoptions demo_framework_db of Inl _ \<Rightarrow> False
      | Inr s \<Rightarrow> map fa_framework_id (framework_adoptions s) = [''f2'']" by code_simp
  then obtain s' where run: "rfold (\<lambda>s q. adoption_exec q s) demo_adoptions demo_framework_db = Inr s'" by (auto split: sum.splits)
  have pre: "adoption_inv demo_framework_db" "recorded_by ''framework_adoption'' (Datetime (Date 2025 1 1) 0) (domain_events demo_framework_db)"
    "clock_runs adoption_stamp adoption_stamp (\<lambda>_. True) (Datetime (Date 2025 1 1) 0) demo_adoptions" by code_simp+
  have "in_sync framework_adoption_projectors ''framework_adoption'' clear_framework_adoptions demo_framework_db"
    by (simp add: in_sync_def demo_framework_db_def empty_db_def clear_framework_adoptions_def events_of_def)
  from adoption_pinned [OF pre(1) this pre(2,3) run] run show ?thesis by blast
qed

end
