(* ===== verification/Framework_Catalog.thy ===== *)
theory Framework_Catalog
  imports Framework_Adoption Control_Definition "HOL-Library.Sublist"
begin

text \<open>
  Setting a programme up: the built-in framework catalogues and their reconciliation at start
  (\<open>src/app/framework_catalog.py\<close>, \<open>requirements.py\<close>), the starter controls of the guided
  onboarding (\<open>starter_controls.py\<close>, \<open>onboarding.py\<close>) and the completion figures of a framework
  (\<open>progress.py\<close>). The lemmas show that reconciliation is additive, complete and idempotent
  whatever concurrent creators do, and that starter controls cover every requirement.
\<close>

section \<open>Requirements\<close>

definition insert_framework :: "framework \<Rightarrow> db \<Rightarrow> db result" where
  "insert_framework r s =
     (if has_row fw_id (fw_id r) (frameworks s) \<or>
         (fw_catalog_key r \<noteq> None \<and> has_row fw_catalog_key (fw_catalog_key r) (frameworks s))
      then Inl IntegrityError else Inr (s\<lparr>frameworks := frameworks s @ [r]\<rparr>))"

definition requirement_slot :: "framework_requirement \<Rightarrow> string \<times> string" where
  "requirement_slot r = (fr_framework_id r, fr_reference_code r)"

definition insert_framework_requirement :: "framework_requirement \<Rightarrow> db \<Rightarrow> db result" where
  "insert_framework_requirement r s =
     (if has_row fr_id (fr_id r) (framework_requirements s) \<or>
         has_row requirement_slot (requirement_slot r) (framework_requirements s) \<or>
         \<not> has_row fw_id (fr_framework_id r) (frameworks s)
      then Inl IntegrityError else Inr (s\<lparr>framework_requirements := framework_requirements s @ [r]\<rparr>))"

text \<open>The assessment row takes the column defaults; the unique constraint is its requirement.\<close>

definition default_assessment :: "string \<Rightarrow> requirement_assessment" where
  "default_assessment requirement_id =
     \<lparr>ra_requirement_id = requirement_id, ra_applicable = ''yes'', ra_implementation_state = ''not_started'', ra_owner = []\<rparr>"

definition insert_assessment :: "string \<Rightarrow> db \<Rightarrow> db result" where
  "insert_assessment requirement_id s =
     (if has_row ra_requirement_id requirement_id (requirement_assessments s) then Inl IntegrityError
      else Inr (s\<lparr>requirement_assessments := requirement_assessments s @ [default_assessment requirement_id]\<rparr>))"

definition add_requirement ::
  "string \<Rightarrow> framework \<Rightarrow> string \<Rightarrow> string \<Rightarrow> string \<Rightarrow> int \<Rightarrow> db \<Rightarrow> (framework_requirement \<times> db) result" where
  "add_requirement new_id framework reference_code title summary display_order s =
     (let requirement = \<lparr>fr_id = new_id, fr_framework_id = fw_id framework, fr_reference_code = reference_code,
            fr_title = title, fr_summary = summary, fr_display_order = display_order\<rparr>
      in rbind (insert_framework_requirement requirement s) (\<lambda>s1.
         rbind (insert_assessment new_id s1) (\<lambda>s2. Inr (requirement, s2))))"

section \<open>The built-in catalogues\<close>

datatype catalog_requirement =
  CatalogRequirement (cr_reference_code: string) (cr_title: string) (cr_summary: string) (cr_display_order: int)

record system_catalog =
  sc_catalog_key :: string
  sc_catalog_family :: string
  sc_name :: string
  sc_version :: string
  sc_description :: string
  sc_is_primary :: bool
  sc_requirements :: "catalog_requirement list"

text \<open>The texts of the source, with its dashes written as hyphens.\<close>

definition iso27001_catalog :: system_catalog where
  "iso27001_catalog =
     \<lparr>sc_catalog_key = ''iso27001-2022-sample'', sc_catalog_family = ''iso27001'',
      sc_name = ''ISO/IEC 27001:2022 Annex A (sample catalogue)'', sc_version = ''2022'',
      sc_description = ''Placeholder catalogue for local development and demos. Reference codes follow the public Annex A '' @
        ''theme numbering, but titles and summaries below are paraphrased placeholders written for this '' @
        ''repository - not the licensed normative text of the standard. Replace with your organization'' @ [CHR 0x27] @ ''s own '' @
        ''licensed copy before relying on this for a real audit.'',
      sc_is_primary = False,
      sc_requirements =
         [CatalogRequirement ''A.5.1'' ''Policies for information security''
            (''Top-level direction and topic-specific policies exist, are approved, and communicated.'') 0,
          CatalogRequirement ''A.5.9'' ''Inventory of information and assets''
            (''Assets associated with information and information processing are identified and inventoried.'') 1,
          CatalogRequirement ''A.8.1'' ''User endpoint devices''
            (''Information stored on, processed by, or accessible via endpoint devices is protected.'') 2,
          CatalogRequirement ''A.8.8'' ''Management of technical vulnerabilities''
            (''Information about technical vulnerabilities is obtained and exposure is evaluated.'') 3,
          CatalogRequirement ''A.5.30'' ''ICT readiness for business continuity''
            (''ICT readiness is planned, implemented, maintained, and tested against continuity objectives.'') 4]\<rparr>"

definition soc2_catalog :: system_catalog where
  "soc2_catalog =
     \<lparr>sc_catalog_key = ''soc2-2017-sample'', sc_catalog_family = ''soc2'',
      sc_name = ''SOC 2 Trust Services Criteria - Security (sample catalogue)'', sc_version = ''2017 (2022 revised points of focus)'',
      sc_description = ''Placeholder catalogue for local development and demos, covering only the mandatory Security '' @
        ''category'' @ [CHR 0x27] @ ''s nine Common Criteria (CC) series with one representative reference code per series - not '' @
        ''a full catalogue. Titles and summaries are paraphrased placeholders written for this repository, not '' @
        ''the licensed AICPA Trust Services Criteria text. The four optional categories (Availability, '' @
        ''Processing Integrity, Confidentiality, Privacy) are not seeded; add them via CSV import or the '' @
        ''requirement form once your organization scopes them in. Replace with your own licensed copy before '' @
        ''relying on this for a real audit.'',
      sc_is_primary = True,
      sc_requirements =
         [CatalogRequirement ''CC1.1'' ''Control environment: commitment to integrity and ethical values''
            (''Leadership sets and models expected standards of conduct, and violations are addressed consistently.'') 0,
          CatalogRequirement ''CC2.1'' ''Communication and information: internal communication''
            (''Operational and control-relevant information reaches the people who need it to carry out their '' @
             ''responsibilities.'') 1,
          CatalogRequirement ''CC3.1'' ''Risk assessment: objectives''
            (''Business objectives are documented clearly enough that risks threatening them can be identified and '' @
             ''evaluated.'') 2,
          CatalogRequirement ''CC4.1'' ''Monitoring activities: ongoing and separate evaluations''
            (''Controls are periodically checked to confirm they are actually operating, not just assumed to be.'') 3,
          CatalogRequirement ''CC5.1'' ''Control activities: mitigating risk''
            (''Specific activities are put in place to bring identified risks down to an acceptable level.'') 4,
          CatalogRequirement ''CC6.1'' ''Logical and physical access controls: restricting access''
            (''Access to systems and data is restricted through technical controls so only authorized users can get '' @
             ''in.'') 5,
          CatalogRequirement ''CC7.1'' ''System operations: detecting and monitoring anomalies''
            (''System activity is monitored to catch unusual behavior that could signal an error or a malicious '' @
             ''act.'') 6,
          CatalogRequirement ''CC8.1'' ''Change management: authorizing changes''
            (''Changes to infrastructure and software go through approval and review before release.'') 7,
          CatalogRequirement ''CC9.1'' ''Risk mitigation: identifying and managing business disruption''
            (''Risks that could significantly disrupt the business are identified and actively managed, not merely '' @
             ''noted.'') 8]\<rparr>"

definition system_catalogs :: "system_catalog list" where
  "system_catalogs = [iso27001_catalog, soc2_catalog]"

section \<open>Reconciliation\<close>

text \<open>
  What a run draws and meets: the ids and clock readings of the rows it creates, and the rows
  concurrent creators commit between its lookup and its insert (a requirement with its assessment).
\<close>

record reconcile_env =
  re_framework_id :: "string \<Rightarrow> string"
  re_requirement_id :: "string \<Rightarrow> string \<Rightarrow> string"
  re_adoption_id :: "string \<Rightarrow> string"
  re_tick :: "string \<Rightarrow> tick"
  re_rival_frameworks :: "string \<Rightarrow> framework list"
  re_rival_adoptions :: "string \<Rightarrow> framework_adoption list"
  re_rival_requirements :: "string \<Rightarrow> string \<Rightarrow> framework_requirement list"

definition find_catalog_framework :: "string \<Rightarrow> db \<Rightarrow> framework option" where
  "find_catalog_framework key s = row_get fw_catalog_key (Some key) (frameworks s)"

definition find_or_create_catalog_framework ::
  "reconcile_env \<Rightarrow> system_catalog \<Rightarrow> db \<Rightarrow> (framework \<times> bool \<times> db) result" where
  "find_or_create_catalog_framework env catalog s =
     (case find_catalog_framework (sc_catalog_key catalog) s of
        Some existing \<Rightarrow> Inr (existing, False, s)
      | None \<Rightarrow>
          (let framework = \<lparr>fw_id = re_framework_id env (sc_catalog_key catalog), fw_name = sc_name catalog,
                 fw_version = sc_version catalog, fw_description = sc_description catalog, fw_is_placeholder_content = True,
                 fw_is_active = True, fw_catalog_key = Some (sc_catalog_key catalog), fw_is_primary = sc_is_primary catalog,
                 fw_catalog_family = Some (sc_catalog_family catalog)\<rparr>;
               s1 = s\<lparr>frameworks := frameworks s @ re_rival_frameworks env (sc_catalog_key catalog)\<rparr>
           in case insert_framework framework s1 of
                Inr s2 \<Rightarrow> Inr (framework, True, s2)
              | Inl _ \<Rightarrow>
                  (case find_catalog_framework (sc_catalog_key catalog) s1 of
                     None \<Rightarrow> Inl RuntimeError
                   | Some winner \<Rightarrow> Inr (winner, False, s1))))"

definition find_catalog_requirement :: "framework \<Rightarrow> catalog_requirement \<Rightarrow> db \<Rightarrow> framework_requirement option" where
  "find_catalog_requirement framework requirement s =
     row_get requirement_slot (fw_id framework, cr_reference_code requirement) (framework_requirements s)"

definition find_or_create_catalog_requirement ::
  "reconcile_env \<Rightarrow> string \<Rightarrow> framework \<Rightarrow> catalog_requirement \<Rightarrow> db \<Rightarrow> (bool \<times> db) result" where
  "find_or_create_catalog_requirement env catalog_key framework requirement s =
     (case find_catalog_requirement framework requirement s of
        Some _ \<Rightarrow> Inr (False, s)
      | None \<Rightarrow>
          (let rivals = re_rival_requirements env catalog_key (cr_reference_code requirement);
               s1 = s\<lparr>framework_requirements := framework_requirements s @ rivals,
                      requirement_assessments := requirement_assessments s @ map (\<lambda>r. default_assessment (fr_id r)) rivals\<rparr>
           in case add_requirement (re_requirement_id env catalog_key (cr_reference_code requirement)) framework
                     (cr_reference_code requirement) (cr_title requirement) (cr_summary requirement)
                     (cr_display_order requirement) s1 of
                Inr (_, s2) \<Rightarrow> Inr (True, s2)
              | Inl _ \<Rightarrow>
                  (case find_catalog_requirement framework requirement s1 of
                     None \<Rightarrow> Inl RuntimeError
                   | Some _ \<Rightarrow> Inr (False, s1))))"

definition reconcile_requirement ::
  "reconcile_env \<Rightarrow> system_catalog \<Rightarrow> framework \<Rightarrow> db \<Rightarrow> catalog_requirement \<Rightarrow> db result" where
  "reconcile_requirement env catalog framework s requirement =
     rbind (find_or_create_catalog_requirement env (sc_catalog_key catalog) framework requirement s) (\<lambda>(created, s1).
       Inr (if created then record_audit_event ''framework'' (fw_id framework) ''reconcile_create''
              (''Reconciled requirement '' @ [CHR 0x27] @ cr_reference_code requirement @ [CHR 0x27] @ '' for '' @ sc_catalog_key catalog)
              ''system'' s1
            else s1))"

definition reconcile_catalog :: "reconcile_env \<Rightarrow> system_catalog \<Rightarrow> db \<Rightarrow> (framework \<times> db) result" where
  "reconcile_catalog env catalog s =
     rbind (find_or_create_catalog_framework env catalog s) (\<lambda>(framework, created, s1).
       let s2 = (if created then record_audit_event ''framework'' (fw_id framework) ''reconcile_create''
                   (''Reconciled system catalog framework '' @ [CHR 0x27] @ fw_name framework @ [CHR 0x27] @
                    '' ('' @ sc_catalog_key catalog @ '')'') ''system'' s1 else s1)
       in rbind (rfold (reconcile_requirement env catalog framework) (sc_requirements catalog) s2) (\<lambda>s3.
          if get_adoption s3 (sc_catalog_family catalog) = None
          then rbind (adopt_framework (re_tick env (sc_catalog_key catalog)) (re_adoption_id env (sc_catalog_key catalog))
                 (re_rival_adoptions env (sc_catalog_key catalog)) framework ''system'' None s3) (\<lambda>(_, s4). Inr (framework, s4))
          else Inr (framework, s3)))"

fun reconcile_catalogs :: "reconcile_env \<Rightarrow> system_catalog list \<Rightarrow> db \<Rightarrow> (framework list \<times> db) result" where
  "reconcile_catalogs env [] s = Inr ([], s)"
| "reconcile_catalogs env (catalog # catalogs) s =
     rbind (reconcile_catalog env catalog s) (\<lambda>(framework, s1).
     rbind (reconcile_catalogs env catalogs s1) (\<lambda>(frameworks, s2). Inr (framework # frameworks, s2)))"

definition reconcile_system_catalogs :: "reconcile_env \<Rightarrow> db \<Rightarrow> (framework list \<times> db) result" where
  "reconcile_system_catalogs env s = reconcile_catalogs env system_catalogs s"

section \<open>Starter controls\<close>

definition insert_internal_control :: "internal_control \<Rightarrow> db \<Rightarrow> db result" where
  "insert_internal_control r s =
     (if has_row ic_id (ic_id r) (internal_controls s) then Inl IntegrityError
      else Inr (s\<lparr>internal_controls := internal_controls s @ [r]\<rparr>))"

definition insert_control_requirement_mapping :: "control_requirement_mapping \<Rightarrow> db \<Rightarrow> db result" where
  "insert_control_requirement_mapping r s =
     (if r \<in> set (control_requirement_mappings s) \<or>
         \<not> has_row ic_id (crm_control_id r) (internal_controls s) \<or>
         \<not> has_row fr_id (crm_requirement_id r) (framework_requirements s)
      then Inl IntegrityError
      else Inr (s\<lparr>control_requirement_mappings := control_requirement_mappings s @ [r]\<rparr>))"

text \<open>\<open>Framework.requirements\<close>, in its order.\<close>

definition framework_requirements_of :: "string \<Rightarrow> db \<Rightarrow> framework_requirement list" where
  "framework_requirements_of f s =
     sort_key (\<lambda>r. (fr_display_order r, fr_reference_code r))
       (filter (\<lambda>r. fr_framework_id r = f) (framework_requirements s))"

definition requirement_mapped :: "string \<Rightarrow> db \<Rightarrow> bool" where
  "requirement_mapped r s = has_row crm_requirement_id r (control_requirement_mappings s)"

record starter_env =
  st_control_id :: "string \<Rightarrow> string"
  st_version_id :: "string \<Rightarrow> string"
  st_ticks :: "string \<Rightarrow> bootstrap_ticks"

definition starter_description :: string where
  "starter_description =
     ''Placeholder starter control generated during onboarding. Review, rename, '' @
     ''assign an owner, and replace this description with what your organization '' @
     ''actually does to satisfy this requirement.''"

definition generate_starter_control ::
  "starter_env \<Rightarrow> framework \<Rightarrow> string \<Rightarrow> framework_requirement \<Rightarrow> db \<Rightarrow> (internal_control \<times> db) result" where
  "generate_starter_control env framework actor requirement s =
     (let control = \<lparr>ic_id = st_control_id env (fr_id requirement),
            ic_name = ''Starter control for '' @ fr_reference_code requirement @ '': '' @ fr_title requirement,
            ic_description = starter_description, ic_owner = [], ic_status = ''not_started'', ic_review_frequency = ''annual'',
            ic_cadence_type = None, ic_cadence_interval_months = None, ic_owner_person_id = None\<rparr>
      in rbind (insert_internal_control control s) (\<lambda>s1.
         rbind (insert_control_requirement_mapping
                  \<lparr>crm_control_id = ic_id control, crm_requirement_id = fr_id requirement\<rparr> s1) (\<lambda>s2.
         rbind (bootstrap_initial_effective_version (st_ticks env (fr_id requirement)) (st_version_id env (fr_id requirement))
                  ''system'' None (ic_id control) s2) (\<lambda>s3.
           Inr (control, record_audit_event ''control'' (ic_id control) ''onboarding_generate_starter_control''
             (''Generated starter control for requirement '' @ [CHR 0x27] @ fr_reference_code requirement @ [CHR 0x27] @
              '' ('' @ fw_name framework @ '')'') actor s3)))))"

fun generate_starter_controls ::
  "starter_env \<Rightarrow> framework \<Rightarrow> string \<Rightarrow> string set \<Rightarrow> framework_requirement list \<Rightarrow> db \<Rightarrow> (internal_control list \<times> db) result" where
  "generate_starter_controls env framework actor mapped [] s = Inr ([], s)"
| "generate_starter_controls env framework actor mapped (requirement # requirements) s =
     (if fr_id requirement \<in> mapped then generate_starter_controls env framework actor mapped requirements s
      else rbind (generate_starter_control env framework actor requirement s) (\<lambda>(control, s1).
           rbind (generate_starter_controls env framework actor mapped requirements s1) (\<lambda>(controls, s2).
             Inr (control # controls, s2))))"

definition generate_starter_controls_for_framework ::
  "starter_env \<Rightarrow> framework \<Rightarrow> string \<Rightarrow> db \<Rightarrow> (internal_control list \<times> db) result" where
  "generate_starter_controls_for_framework env framework actor s =
     (let mapped_requirement_ids = crm_requirement_id ` set (filter
            (\<lambda>x. list_ex (\<lambda>r. fr_id r = crm_requirement_id x \<and> fr_framework_id r = fw_id framework) (framework_requirements s))
            (control_requirement_mappings s))
      in generate_starter_controls env framework actor mapped_requirement_ids (framework_requirements_of (fw_id framework) s) s)"

text \<open>What the onboarding checklist reads: the step is complete when no requirement is uncovered.\<close>

definition get_primary_framework :: "db \<Rightarrow> framework option" where
  "get_primary_framework s = find fw_is_primary (frameworks s)"

definition framework_fully_covered :: "framework \<Rightarrow> db \<Rightarrow> bool" where
  "framework_fully_covered framework s =
     (\<not> list_ex (\<lambda>r. fr_framework_id r = fw_id framework \<and> \<not> requirement_mapped (fr_id r) s) (framework_requirements s))"

section \<open>Progress\<close>

record framework_progress =
  fp_total :: int
  fp_applicable :: int
  fp_implemented :: int
  fp_in_progress :: int
  fp_not_started :: int
  fp_not_applicable :: int
  fp_percent :: "int option"

text \<open>\<open>round\<close> of a quotient: to the nearest integer, ties to the even one.\<close>

definition round_div :: "int \<Rightarrow> int \<Rightarrow> int" where
  "round_div n d =
     (let q = n div d; r = n mod d
      in if 2 * r < d then q else if d < 2 * r then q + 1 else if even q then q else q + 1)"

definition compute_progress :: "string \<Rightarrow> db \<Rightarrow> framework_progress" where
  "compute_progress framework s =
     (let assessments = List.map_filter (\<lambda>r. row_get ra_requirement_id (fr_id r) (requirement_assessments s))
            (framework_requirements_of framework s);
          applicable = filter (\<lambda>a. ra_applicable a = ''yes'') assessments;
          implemented = filter (\<lambda>a. ra_implementation_state a = ''implemented'') applicable;
          in_progress = filter (\<lambda>a. ra_implementation_state a = ''in_progress'') applicable;
          not_started = filter (\<lambda>a. ra_implementation_state a = ''not_started'') applicable;
          not_applicable = filter (\<lambda>a. ra_applicable a = ''no'') assessments
      in \<lparr>fp_total = int (length assessments), fp_applicable = int (length applicable),
          fp_implemented = int (length implemented), fp_in_progress = int (length in_progress),
          fp_not_started = int (length not_started), fp_not_applicable = int (length not_applicable),
          fp_percent = (if applicable = [] then None
            else Some (round_div (100 * int (length implemented)) (int (length applicable))))\<rparr>)"

section \<open>Reconciliation only adds\<close>

definition other_tables :: "db \<Rightarrow> db" where
  "other_tables s = s\<lparr>domain_events := [], frameworks := [], framework_requirements := [], requirement_assessments := [],
     framework_adoptions := [], audit_events := []\<rparr>"

definition grows :: "db \<Rightarrow> db \<Rightarrow> bool" where
  "grows s s' \<longleftrightarrow>
     prefix (frameworks s) (frameworks s') \<and> prefix (framework_requirements s) (framework_requirements s') \<and>
     prefix (requirement_assessments s) (requirement_assessments s') \<and> prefix (framework_adoptions s) (framework_adoptions s') \<and>
     prefix (audit_events s) (audit_events s') \<and> prefix (domain_events s) (domain_events s') \<and>
     other_tables s' = other_tables s"

lemma grows_refl [simp]: "grows s s"
  by (simp add: grows_def)

lemma grows_trans [trans]: "grows s s1 \<Longrightarrow> grows s1 s2 \<Longrightarrow> grows s s2"
  unfolding grows_def by (metis prefix_order.trans)

lemma row_get_prefix: "prefix xs ys \<Longrightarrow> row_get key k xs = Some r \<Longrightarrow> row_get key k ys = Some r"
  by (auto simp: prefix_def row_get_append)

lemma grows_prefix:
  assumes "grows s s'"
  shows "prefix (frameworks s) (frameworks s')" "prefix (framework_requirements s) (framework_requirements s')"
    "prefix (framework_adoptions s) (framework_adoptions s')"
  using assms by (simp_all add: grows_def)

lemma grows_finds:
  assumes "grows s s'"
  shows "find_catalog_framework key s = Some f \<Longrightarrow> find_catalog_framework key s' = Some f"
    and "find_catalog_requirement f r s \<noteq> None \<Longrightarrow> find_catalog_requirement f r s' \<noteq> None"
    and "get_adoption s fam = Some a \<Longrightarrow> get_adoption s' fam = Some a"
proof -
  note get = row_get_prefix [OF grows_prefix(1) [OF assms]] row_get_prefix [OF grows_prefix(2) [OF assms]]
    row_get_prefix [OF grows_prefix(3) [OF assms]]
  show "find_catalog_framework key s = Some f \<Longrightarrow> find_catalog_framework key s' = Some f"
    unfolding find_catalog_framework_def by (rule get(1))
  show "find_catalog_requirement f r s \<noteq> None \<Longrightarrow> find_catalog_requirement f r s' \<noteq> None"
    unfolding find_catalog_requirement_def by (auto dest: get(2))
  show "get_adoption s fam = Some a \<Longrightarrow> get_adoption s' fam = Some a"
    unfolding get_adoption_def by (rule get(3))
qed

lemma row_get_snoc_new: "\<not> has_row key (key r) rows \<Longrightarrow> row_get key (key r) (rows @ [r]) = Some r"
  using row_get_None_iff [of key "key r" rows] by (simp add: row_get_append)

lemma catalog_framework_found:
  assumes "find_or_create_catalog_framework env c s = Inr (f, b, s1)"
  shows "grows s s1 \<and> find_catalog_framework (sc_catalog_key c) s1 = Some f"
  using assms row_get_snoc_new [of fw_catalog_key f "frameworks s @ re_rival_frameworks env (sc_catalog_key c)"]
  by (auto simp: find_or_create_catalog_framework_def Let_def insert_framework_def grows_def other_tables_def find_catalog_framework_def
      split: option.splits if_splits sum.splits)

lemma add_requirement_Inr:
  assumes "add_requirement i f code ti su n s = Inr (r, s')"
  shows "grows s s' \<and> row_get requirement_slot (fw_id f, code) (framework_requirements s') \<noteq> None"
proof -
  have slot: "requirement_slot r = (fw_id f, code)" "\<not> has_row requirement_slot (requirement_slot r) (framework_requirements s)"
    and s': "s' = s\<lparr>framework_requirements := framework_requirements s @ [r],
        requirement_assessments := requirement_assessments s @ [default_assessment i]\<rparr>"
    using assms by (auto simp: add_requirement_def insert_framework_requirement_def insert_assessment_def requirement_slot_def
        Let_def split: if_splits)
  then show ?thesis using row_get_snoc_new [OF slot(2)] by (simp add: grows_def other_tables_def)
qed

lemma catalog_requirement_found:
  assumes "find_or_create_catalog_requirement env key f r s = Inr (b, s1)"
  shows "grows s s1 \<and> find_catalog_requirement f r s1 \<noteq> None"
proof (cases "find_catalog_requirement f r s")
  case None
  let ?rivals = "re_rival_requirements env key (cr_reference_code r)"
  let ?s = "s\<lparr>framework_requirements := framework_requirements s @ ?rivals,
              requirement_assessments := requirement_assessments s @ map (\<lambda>r. default_assessment (fr_id r)) ?rivals\<rparr>"
  have g: "grows s ?s" by (simp add: grows_def other_tables_def)
  show ?thesis
  proof (cases "add_requirement (re_requirement_id env key (cr_reference_code r)) f (cr_reference_code r) (cr_title r) (cr_summary r)
      (cr_display_order r) ?s")
    case (Inl e)
    then show ?thesis using assms None g
      by (auto simp: find_or_create_catalog_requirement_def Let_def split: option.splits)
  next
    case (Inr x)
    obtain r' s2 where x: "x = (r', s2)" by (cases x)
    then have "s1 = s2" using assms None Inr by (simp add: find_or_create_catalog_requirement_def Let_def)
    then show ?thesis
      using add_requirement_Inr [OF Inr [unfolded x]] grows_trans [OF g] by (simp add: find_catalog_requirement_def)
  qed
next
  case (Some x)
  then show ?thesis using assms by (simp add: find_or_create_catalog_requirement_def)
qed

lemma grows_audit [simp]: "grows s (record_audit_event a b c d e s)"
  by (simp add: grows_def other_tables_def record_audit_event_def)

lemma reconcile_requirement_found:
  assumes "reconcile_requirement env c f s r = Inr s'"
  shows "grows s s' \<and> find_catalog_requirement f r s' \<noteq> None"
proof -
  obtain b s1 where s1: "find_or_create_catalog_requirement env (sc_catalog_key c) f r s = Inr (b, s1)"
    and "s' = s1 \<or> (\<exists>d. s' = record_audit_event ''framework'' (fw_id f) ''reconcile_create'' d ''system'' s1)"
    using assms by (auto simp: reconcile_requirement_def split: if_splits)
  then have "grows s1 s'" by auto
  with catalog_requirement_found [OF s1] show ?thesis using grows_trans grows_finds(2) by blast
qed

lemma reconcile_requirements_found:
  assumes "rfold (reconcile_requirement env c f) rs s = Inr s'"
  shows "grows s s' \<and> (\<forall>r\<in>set rs. find_catalog_requirement f r s' \<noteq> None)"
  using assms
proof (induction rs arbitrary: s)
  case (Cons r rs)
  then obtain s1 where s1: "reconcile_requirement env c f s r = Inr s1" and rest: "rfold (reconcile_requirement env c f) rs s1 = Inr s'" by auto
  from reconcile_requirement_found [OF s1] Cons.IH [OF rest] show ?case using grows_trans grows_finds(2) by (metis set_ConsD)
qed simp

text \<open>Whatever an adoption run finds or creates, the framework it was given ends up adopted.\<close>

definition adopted :: "framework \<Rightarrow> db \<Rightarrow> bool" where
  "adopted f s = (case fw_catalog_family f of None \<Rightarrow> False
     | Some fam \<Rightarrow> (case get_adoption s fam of None \<Rightarrow> False | Some a \<Rightarrow> fa_framework_id a = fw_id f))"

lemma adopt_grows:
  assumes "adopt_framework t i rivals f ty a s = Inr (x, s')"
  shows "grows s s' \<and> adopted f s'"
proof -
  obtain fam where fam: "fw_catalog_family f = Some fam"
    using assms by (auto simp: adopt_framework_def split: option.splits)
  show ?thesis
  proof (cases "get_adoption s fam")
    case None
    let ?s = "s\<lparr>framework_adoptions := framework_adoptions s @ rivals\<rparr>"
    obtain e where "append_and_project [] t framework_adoption_projectors
        (event_command ''framework_adoption'' i ''FrameworkAdoptionAdopted''
           [(''catalog_family'', JStr fam), (''framework_id'', JStr (fw_id f))] ty a) ?s = Inr (e, s')"
      using assms fam None by (auto simp: adopt_framework_def adoption_append_def)
    then have run: "run_projector framework_adoption_projectors (?s\<lparr>domain_events := domain_events s @ [e]\<rparr>) e = Inr s'"
      "ev_event_type e = ''FrameworkAdoptionAdopted''"
      "ev_payload e = JObj [(''catalog_family'', JStr fam), (''framework_id'', JStr (fw_id f))]"
      by (auto simp: append_key_free_iff event_command_def)
    define r where "r = \<lparr>fa_id = ev_aggregate_id e, fa_catalog_family = fam, fa_framework_id = fw_id f,
          fa_previous_framework_id = None, fa_adopted_at = ev_recorded_at e, fa_upgraded_at = None\<rparr>"
    have "insert_framework_adoption r (?s\<lparr>domain_events := domain_events s @ [e]\<rparr>) = Inr s'"
      using run by (simp add: run_projector_def framework_adoption_projectors_def adoption_project_adopted_def req_str_def jget_def
          as_str_def r_def)
    then have new: "\<not> has_row fa_catalog_family (fa_catalog_family r) (framework_adoptions s @ rivals)"
      and s': "s' = s\<lparr>domain_events := domain_events s @ [e], framework_adoptions := (framework_adoptions s @ rivals) @ [r]\<rparr>"
      by (auto simp: insert_framework_adoption_Inr)
    have r: "fa_catalog_family r = fam" "fa_framework_id r = fw_id f" by (simp_all add: r_def)
    from row_get_snoc_new [OF new] show ?thesis
      using fam r by (simp add: s' grows_def other_tables_def adopted_def get_adoption_def)
  next
    case (Some e)
    then have "s' = s \<and> fa_framework_id e = fw_id f" using assms fam by (simp add: adopt_framework_def split: if_splits)
    then show ?thesis using fam Some by (simp add: adopted_def)
  qed
qed

definition catalog_done :: "db \<Rightarrow> system_catalog \<Rightarrow> framework \<Rightarrow> bool" where
  "catalog_done s c f \<longleftrightarrow>
     find_catalog_framework (sc_catalog_key c) s = Some f \<and>
     list_all (\<lambda>r. find_catalog_requirement f r s \<noteq> None) (sc_requirements c) \<and>
     (get_adoption s (sc_catalog_family c) \<noteq> None \<or> adopted f s)"

lemma grows_done:
  assumes "grows s s'" and "catalog_done s c f"
  shows "catalog_done s' c f"
proof -
  have "adopted f s \<Longrightarrow> adopted f s'"
    using grows_finds(3) [OF assms(1)] by (fastforce simp: adopted_def split: option.splits)
  then show ?thesis using assms grows_finds [OF assms(1)] by (auto simp: catalog_done_def list_all_iff)
qed

lemma reconcile_catalog_done:
  assumes "reconcile_catalog env c s = Inr (f, s')"
  shows "grows s s' \<and> catalog_done s' c f"
proof -
  obtain b s1 s2 s3 where s1: "find_or_create_catalog_framework env c s = Inr (f, b, s1)"
    and s2: "grows s1 s2" and s3: "rfold (reconcile_requirement env c f) (sc_requirements c) s2 = Inr s3"
    and s': "if get_adoption s3 (sc_catalog_family c) = None
      then \<exists>x. adopt_framework (re_tick env (sc_catalog_key c)) (re_adoption_id env (sc_catalog_key c))
             (re_rival_adoptions env (sc_catalog_key c)) f ''system'' None s3 = Inr (x, s') else s' = s3"
  proof -
    obtain f1 b1 t1 where a: "find_or_create_catalog_framework env c s = Inr (f1, b1, t1)"
      using assms by (cases "find_or_create_catalog_framework env c s") (auto simp: reconcile_catalog_def)
    let ?t2 = "if b1 then record_audit_event ''framework'' (fw_id f1) ''reconcile_create''
      (''Reconciled system catalog framework '' @ [CHR 0x27] @ fw_name f1 @ [CHR 0x27] @ '' ('' @ sc_catalog_key c @ '')'') ''system'' t1 else t1"
    obtain t3 where b: "rfold (reconcile_requirement env c f1) (sc_requirements c) ?t2 = Inr t3"
      using assms a by (auto simp: reconcile_catalog_def Let_def)
    have "f1 = f" using assms a b by (auto simp: reconcile_catalog_def Let_def split: if_splits)
    moreover have "if get_adoption t3 (sc_catalog_family c) = None
      then \<exists>x. adopt_framework (re_tick env (sc_catalog_key c)) (re_adoption_id env (sc_catalog_key c))
             (re_rival_adoptions env (sc_catalog_key c)) f1 ''system'' None t3 = Inr (x, s') else s' = t3"
      using assms a b by (auto simp: reconcile_catalog_def Let_def split: if_splits)
    moreover have "grows t1 ?t2" by simp
    ultimately show thesis using that a b by blast
  qed
  have g3: "grows s s3" and f3: "find_catalog_framework (sc_catalog_key c) s3 = Some f"
    and r3: "\<forall>r\<in>set (sc_requirements c). find_catalog_requirement f r s3 \<noteq> None"
    using catalog_framework_found [OF s1] s2 reconcile_requirements_found [OF s3] grows_trans grows_finds(1) by metis+
  have "grows s3 s' \<and> (get_adoption s' (sc_catalog_family c) \<noteq> None \<or> adopted f s')"
    using s' adopt_grows by (auto split: if_splits)
  moreover have "catalog_done s' c f" if g: "grows s3 s'" and ad: "get_adoption s' (sc_catalog_family c) \<noteq> None \<or> adopted f s'"
    unfolding catalog_done_def list_all_iff using grows_finds(1) [OF g f3] grows_finds(2) [OF g] r3 ad by blast
  ultimately show ?thesis using grows_trans [OF g3] by blast
qed

lemma reconcile_done_noop:
  assumes "catalog_done s c f"
  shows "reconcile_catalog env c s = Inr (f, s)"
proof -
  have "rfold (reconcile_requirement env c f) rs s = Inr s" if "list_all (\<lambda>r. find_catalog_requirement f r s \<noteq> None) rs" for rs
    using that
  proof (induction rs)
    case (Cons r rs)
    then obtain y where "find_catalog_requirement f r s = Some y" by auto
    then have "reconcile_requirement env c f s r = Inr s"
      by (simp add: reconcile_requirement_def find_or_create_catalog_requirement_def del: rbind_eq_Inr_iff)
    then show ?case using Cons by simp
  qed simp
  then have reqs: "rfold (reconcile_requirement env c f) (sc_requirements c) s = Inr s" using assms by (simp add: catalog_done_def)
  have fw: "find_or_create_catalog_framework env c s = Inr (f, False, s)"
    using assms by (simp add: catalog_done_def find_or_create_catalog_framework_def)
  have "\<exists>x. adopt_framework t i rivals f ty a s = Inr (x, s)" if "adopted f s" for t i rivals ty a
    using that by (auto simp: adopted_def adopt_framework_def split: option.splits)
  then show ?thesis using assms fw reqs by (fastforce simp: reconcile_catalog_def catalog_done_def)
qed

lemma reconcile_catalogs_done:
  assumes "reconcile_catalogs env cs s = Inr (fs, s')"
  shows "grows s s' \<and> list_all2 (catalog_done s') cs fs"
  using assms
proof (induction cs arbitrary: s fs)
  case (Cons c cs)
  then obtain f s1 fs' where s1: "reconcile_catalog env c s = Inr (f, s1)" and rest: "reconcile_catalogs env cs s1 = Inr (fs', s')"
    and "fs = f # fs'" by auto
  then show ?case using reconcile_catalog_done [OF s1] Cons.IH [OF rest] grows_trans grows_done by (metis list_all2_Cons)
qed simp

lemma reconcile_catalogs_noop:
  "list_all2 (catalog_done s) cs fs \<Longrightarrow> reconcile_catalogs env cs s = Inr (fs, s)"
  by (induction cs fs rule: list_all2_induct) (simp_all add: reconcile_done_noop)

text \<open>
  C25. Reconciliation is additive, complete and idempotent. Whatever rows concurrent creators
  commit while it runs, a reconciliation that returns has changed no existing row and only
  added rows; afterwards every built-in catalogue has its framework, all its requirements and an
  adoption; and any further run, whatever it meets, returns the same frameworks and changes nothing.
\<close>

theorem reconcile_stable:
  assumes "reconcile_system_catalogs env s = Inr (fs, s')"
  shows "grows s s' \<and> list_all2 (catalog_done s') system_catalogs fs \<and>
    reconcile_system_catalogs env' s' = Inr (fs, s')"
  using reconcile_catalogs_done [OF assms [unfolded reconcile_system_catalogs_def]] reconcile_catalogs_noop
  by (auto simp: reconcile_system_catalogs_def)

section \<open>Starter controls cover the framework\<close>

text \<open>A definition-lifecycle command changes the events and the versions only.\<close>

definition but_versions :: "db \<Rightarrow> db" where
  "but_versions s = s\<lparr>domain_events := [], internal_control_versions := []\<rparr>"

lemma control_append_frame:
  assumes "control_append t c s = Inr s'" and "c_idempotency_key c = None"
  shows "but_versions s' = but_versions s"
proof -
  obtain e where "run_projector internal_control_version_projectors (s\<lparr>domain_events := domain_events s @ [e]\<rparr>) e = Inr s'"
    using assms by (auto simp: control_append_def append_key_free_iff)
  then obtain g where "s' = s\<lparr>domain_events := domain_events s @ [e], internal_control_versions := g\<rparr>"
    using control_projector_only_versions by (fastforce simp: run_projector_def split: option.splits)
  then show ?thesis by (simp add: but_versions_def)
qed

lemma bootstrap_frame:
  assumes "bootstrap_initial_effective_version ts v ty a c s = Inr s'"
  shows "but_versions s' = but_versions s"
proof -
  obtain s1 s2 s3 where d: "draft_control_definition_version (bt_draft ts) v no_overrides ty a c s = Inr s1"
    and sub: "control_submit_for_review (bt_submit ts) ty a v s1 = Inr s2"
    and rev: "control_review_version (bt_review ts) ''approved'' [] ty a v s2 = Inr s3"
    and eff: "control_make_version_effective (bt_supersede ts) (bt_effective ts) ty a v s3 = Inr s'"
    using assms by (auto simp: bootstrap_initial_effective_version_def)
  have "but_versions s1 = but_versions s"
    using d by (auto simp: draft_control_definition_version_def event_command_def dest!: control_append_frame)
  moreover have "but_versions s2 = but_versions s1"
    using sub by (auto simp: control_submit_for_review_def event_command_def split: if_splits dest!: control_append_frame)
  moreover have "but_versions s3 = but_versions s2"
    using rev by (auto simp: control_review_version_def event_command_def Let_def split: if_splits dest!: control_append_frame)
  moreover have "but_versions s' = but_versions s3"
    using eff by (auto simp: control_make_version_effective_def event_command_def Let_def split: if_splits option.splits
        dest!: control_append_frame)
  ultimately show ?thesis by simp
qed

lemma but_versions_tables:
  assumes "but_versions s' = but_versions s"
  shows "internal_controls s' = internal_controls s" "control_requirement_mappings s' = control_requirement_mappings s"
    "framework_requirements s' = framework_requirements s"
  using arg_cong [OF assms, of internal_controls] arg_cong [OF assms, of control_requirement_mappings]
    arg_cong [OF assms, of framework_requirements]
  by (simp_all add: but_versions_def)

lemma starter_control_Inr:
  assumes "generate_starter_control env f actor r s = Inr (c, s')"
  shows "internal_controls s' = internal_controls s @ [c] \<and>
    control_requirement_mappings s' = control_requirement_mappings s @ [\<lparr>crm_control_id = ic_id c, crm_requirement_id = fr_id r\<rparr>] \<and>
    framework_requirements s' = framework_requirements s \<and> ic_status c = ''not_started'' \<and> ic_owner c = [] \<and> ic_owner_person_id c = None"
proof -
  obtain s1 s2 s3 d where s1: "insert_internal_control c s = Inr s1"
    and s2: "insert_control_requirement_mapping \<lparr>crm_control_id = ic_id c, crm_requirement_id = fr_id r\<rparr> s1 = Inr s2"
    and s3: "bootstrap_initial_effective_version (st_ticks env (fr_id r)) (st_version_id env (fr_id r)) ''system'' None (ic_id c) s2 = Inr s3"
    and s': "s' = record_audit_event ''control'' (ic_id c) ''onboarding_generate_starter_control'' d actor s3"
    and c: "ic_status c = ''not_started''" "ic_owner c = []" "ic_owner_person_id c = None"
    using assms by (auto simp: generate_starter_control_def Let_def)
  show ?thesis using s1 s2 c but_versions_tables [OF bootstrap_frame [OF s3]]
    by (auto simp: s' record_audit_event_def insert_internal_control_def insert_control_requirement_mapping_def split: if_splits)
qed

lemma starter_controls_Inr:
  assumes "generate_starter_controls env f actor mapped rs s = Inr (cs, s')"
  shows "internal_controls s' = internal_controls s @ cs \<and> framework_requirements s' = framework_requirements s \<and>
    list_all (\<lambda>c. ic_status c = ''not_started'' \<and> ic_owner c = [] \<and> ic_owner_person_id c = None) cs \<and>
    (\<exists>ms. control_requirement_mappings s' = control_requirement_mappings s @ ms \<and>
       map crm_control_id ms = map ic_id cs \<and> map crm_requirement_id ms = map fr_id (filter (\<lambda>r. fr_id r \<notin> mapped) rs))"
  using assms
proof (induction rs arbitrary: s cs)
  case (Cons r rs)
  show ?case
  proof (cases "fr_id r \<in> mapped")
    case True
    then show ?thesis using Cons by simp
  next
    case False
    then obtain c s1 cs1 where one: "generate_starter_control env f actor r s = Inr (c, s1)"
      and rest: "generate_starter_controls env f actor mapped rs s1 = Inr (cs1, s')" and cs: "cs = c # cs1"
      using Cons.prems by auto
    obtain ms where ms: "control_requirement_mappings s' = control_requirement_mappings s1 @ ms"
      "map crm_control_id ms = map ic_id cs1" "map crm_requirement_id ms = map fr_id (filter (\<lambda>r. fr_id r \<notin> mapped) rs)"
      using Cons.IH [OF rest] by blast
    then show ?thesis using Cons.IH [OF rest] starter_control_Inr [OF one] cs False
      by (auto intro!: exI [of _ "\<lparr>crm_control_id = ic_id c, crm_requirement_id = fr_id r\<rparr> # ms"])
  qed
qed simp

lemma covered_noop:
  assumes "framework_fully_covered f s"
  shows "generate_starter_controls_for_framework env f actor s = Inr ([], s)"
proof -
  have "generate_starter_controls env f actor mapped rs s = Inr ([], s)" if "\<forall>r\<in>set rs. fr_id r \<in> mapped" for mapped rs
    using that by (induction rs) simp_all
  moreover have "\<forall>r\<in>set (framework_requirements_of (fw_id f) s). fr_id r \<in> crm_requirement_id ` set (filter
      (\<lambda>x. list_ex (\<lambda>r. fr_id r = crm_requirement_id x \<and> fr_framework_id r = fw_id f) (framework_requirements s))
      (control_requirement_mappings s))"
    using assms unfolding framework_fully_covered_def requirement_mapped_def framework_requirements_of_def has_row_iff
    by (fastforce simp: list_ex_iff image_iff)
  ultimately show ?thesis unfolding generate_starter_controls_for_framework_def Let_def by blast
qed

text \<open>
  Starter controls cover the framework. When generation returns, every requirement of the
  framework is mapped to a control; what was added is one control, without an owner and not
  started, for each requirement that had none, each mapped to its requirement; existing controls
  and mappings are unchanged; and generating again creates nothing.
\<close>

theorem starter_controls_cover:
  assumes "generate_starter_controls_for_framework env f actor s = Inr (cs, s')"
  shows "framework_fully_covered f s' \<and> internal_controls s' = internal_controls s @ cs \<and>
    list_all (\<lambda>c. ic_status c = ''not_started'' \<and> ic_owner c = [] \<and> ic_owner_person_id c = None) cs \<and>
    (\<exists>ms. control_requirement_mappings s' = control_requirement_mappings s @ ms \<and> map crm_control_id ms = map ic_id cs \<and>
       map crm_requirement_id ms = map fr_id (filter (\<lambda>r. \<not> requirement_mapped (fr_id r) s) (framework_requirements_of (fw_id f) s))) \<and>
    generate_starter_controls_for_framework env' f actor' s' = Inr ([], s')"
proof -
  let ?rs = "framework_requirements_of (fw_id f) s"
  define mapped where "mapped = crm_requirement_id ` set (filter
      (\<lambda>x. list_ex (\<lambda>r. fr_id r = crm_requirement_id x \<and> fr_framework_id r = fw_id f) (framework_requirements s))
      (control_requirement_mappings s))"
  have gen: "generate_starter_controls env f actor mapped ?rs s = Inr (cs, s')"
    using assms by (simp add: generate_starter_controls_for_framework_def mapped_def Let_def)
  have rs: "set ?rs = {r \<in> set (framework_requirements s). fr_framework_id r = fw_id f}"
    by (simp add: framework_requirements_of_def)
  have mapped: "fr_id r \<in> mapped \<longleftrightarrow> requirement_mapped (fr_id r) s" if "r \<in> set ?rs" for r
    using that unfolding mapped_def requirement_mapped_def has_row_iff rs by (fastforce simp: list_ex_iff image_iff)
  then have filt: "filter (\<lambda>r. fr_id r \<notin> mapped) ?rs = filter (\<lambda>r. \<not> requirement_mapped (fr_id r) s) ?rs"
    by (auto intro: filter_cong)
  obtain ms where ms: "control_requirement_mappings s' = control_requirement_mappings s @ ms" "map crm_control_id ms = map ic_id cs"
    "map crm_requirement_id ms = map fr_id (filter (\<lambda>r. \<not> requirement_mapped (fr_id r) s) ?rs)"
    using starter_controls_Inr [OF gen] filt by auto
  have frs: "framework_requirements s' = framework_requirements s" using starter_controls_Inr [OF gen] by blast
  have "requirement_mapped (fr_id r) s'" if r: "r \<in> set ?rs" for r
  proof (cases "requirement_mapped (fr_id r) s")
    case False
    then have "fr_id r \<in> set (map crm_requirement_id ms)" unfolding ms(3) using r by auto
    then show ?thesis by (auto simp: requirement_mapped_def ms(1) has_row_iff)
  qed (simp add: requirement_mapped_def ms(1))
  then have "framework_fully_covered f s'" using frs rs by (auto simp: framework_fully_covered_def list_ex_iff)
  then show ?thesis using starter_controls_Inr [OF gen] ms covered_noop by blast
qed

section \<open>Progress is a percentage\<close>

lemma round_div_nearest:
  assumes "0 < d"
  shows "2 * (d * round_div n d) \<le> 2 * n + d \<and> 2 * n \<le> 2 * (d * round_div n d) + d"
proof -
  have step: "2 * (d * k) \<le> 2 * (d * q + r) + d \<and> 2 * (d * q + r) \<le> 2 * (d * k) + d"
    if "0 \<le> r" "r < d" "k = (if 2 * r < d then q else if d < 2 * r then q + 1 else if even q then q else q + 1)" for q r k
    using that by (auto simp: algebra_simps split: if_splits)
  show ?thesis using step [of "n mod d" _ "n div d"] assms by (simp add: round_div_def Let_def)
qed

lemma round_div_bounds:
  assumes "0 < d" and "0 \<le> n" and "n \<le> 100 * d"
  shows "0 \<le> round_div n d \<and> round_div n d \<le> 100"
proof -
  have "\<not> 101 \<le> k" if "2 * (d * k) \<le> 2 * n + d" for k
  proof
    assume "101 \<le> k"
    then have "d * 101 \<le> d * k" using assms(1) by (intro mult_left_mono) simp_all
    then show False using that assms by linarith
  qed
  moreover have "\<not> k \<le> - 1" if "2 * n \<le> 2 * (d * k) + d" for k
  proof
    assume "k \<le> - 1"
    then have "d * k \<le> d * (- 1)" using assms(1) by (intro mult_left_mono) simp_all
    then show False using that assms by linarith
  qed
  ultimately show ?thesis using round_div_nearest [OF assms(1), of n] by force
qed

text \<open>
  The counts are consistent, the percentage is absent exactly when nothing is applicable, lies
  between 0 and 100 and is the nearest integer to the share of implemented requirements.
\<close>

lemma progress_bounds:
  fixes f s
  defines "p \<equiv> compute_progress f s"
  shows "fp_implemented p + fp_in_progress p + fp_not_started p \<le> fp_applicable p"
    and "fp_applicable p + fp_not_applicable p \<le> fp_total p"
    and "fp_percent p = None \<longleftrightarrow> fp_applicable p = 0"
    and "fp_percent p = Some x \<Longrightarrow> 0 \<le> x \<and> x \<le> 100 \<and> 2 * (fp_applicable p * x) \<le> 200 * fp_implemented p + fp_applicable p \<and>
        200 * fp_implemented p \<le> 2 * (fp_applicable p * x) + fp_applicable p"
proof -
  define as where "as = List.map_filter (\<lambda>r. row_get ra_requirement_id (fr_id r) (requirement_assessments s)) (framework_requirements_of f s)"
  define ap where "ap = filter (\<lambda>a. ra_applicable a = ''yes'') as"
  define im where "im = filter (\<lambda>a. ra_implementation_state a = ''implemented'') ap"
  have split3: "length (filter (\<lambda>a. ra_implementation_state a = ''implemented'') xs) +
      length (filter (\<lambda>a. ra_implementation_state a = ''in_progress'') xs) +
      length (filter (\<lambda>a. ra_implementation_state a = ''not_started'') xs) \<le> length xs" for xs
    by (induction xs) auto
  have split2: "length (filter (\<lambda>a. ra_applicable a = ''yes'') xs) + length (filter (\<lambda>a. ra_applicable a = ''no'') xs) \<le> length xs" for xs
    by (induction xs) auto
  have p: "fp_total p = int (length as)" "fp_applicable p = int (length ap)" "fp_implemented p = int (length im)"
    "fp_in_progress p = int (length (filter (\<lambda>a. ra_implementation_state a = ''in_progress'') ap))"
    "fp_not_started p = int (length (filter (\<lambda>a. ra_implementation_state a = ''not_started'') ap))"
    "fp_not_applicable p = int (length (filter (\<lambda>a. ra_applicable a = ''no'') as))"
    "fp_percent p = (if ap = [] then None else Some (round_div (100 * int (length im)) (int (length ap))))"
    by (simp_all add: p_def compute_progress_def as_def ap_def im_def Let_def)
  show "fp_implemented p + fp_in_progress p + fp_not_started p \<le> fp_applicable p"
    using split3 [of ap] by (simp add: p im_def)
  show "fp_applicable p + fp_not_applicable p \<le> fp_total p" using split2 [of as] by (simp add: p ap_def)
  show "fp_percent p = None \<longleftrightarrow> fp_applicable p = 0" by (simp add: p)
  have "length im \<le> length ap" by (simp add: im_def)
  then show "0 \<le> x \<and> x \<le> 100 \<and> 2 * (fp_applicable p * x) \<le> 200 * fp_implemented p + fp_applicable p \<and>
        200 * fp_implemented p \<le> 2 * (fp_applicable p * x) + fp_applicable p" if "fp_percent p = Some x"
    using that round_div_bounds [of "int (length ap)" "100 * int (length im)"] round_div_nearest [of "int (length ap)" "100 * int (length im)"]
    by (auto simp: p split: if_splits)
qed

section \<open>A worked start\<close>

definition demo_reconcile_env :: "framework_adoption list \<Rightarrow> reconcile_env" where
  "demo_reconcile_env rivals =
     \<lparr>re_framework_id = (\<lambda>k. ''f-'' @ k), re_requirement_id = (\<lambda>k c. ''r-'' @ c), re_adoption_id = (\<lambda>k. ''a-'' @ k),
      re_tick = (\<lambda>k. \<lparr>t_now = Datetime (Date 2026 1 1) 0, t_id = ''e-'' @ k\<rparr>),
      re_rival_frameworks = (\<lambda>_. []), re_rival_adoptions = (\<lambda>_. rivals), re_rival_requirements = (\<lambda>_ _. [])\<rparr>"

definition demo_start :: "(framework list \<times> db) result" where
  "demo_start = reconcile_system_catalogs (demo_reconcile_env []) empty_db"

lemma demo_start_ok:
  "case demo_start of Inl _ \<Rightarrow> False
   | Inr (fs, s) \<Rightarrow> length (framework_requirements s) = 14 \<and> map fa_catalog_family (framework_adoptions s) = [''iso27001'', ''soc2'']"
  by code_simp

theorem reconcile_stable_witness:
  "\<exists>fs s'. reconcile_system_catalogs (demo_reconcile_env []) empty_db = Inr (fs, s') \<and> length fs = 2 \<and>
     reconcile_system_catalogs (demo_reconcile_env []) s' = Inr (fs, s')"
proof -
  obtain fs s' where run: "reconcile_system_catalogs (demo_reconcile_env []) empty_db = Inr (fs, s')"
    using demo_start_ok by (auto simp: demo_start_def split: sum.splits)
  have "length system_catalogs = 2" by (simp add: system_catalogs_def)
  with reconcile_stable [OF run, of "demo_reconcile_env []"] run show ?thesis by (auto dest: list_all2_lengthD)
qed

text \<open>
  A database from before adoptions existed has the catalogues and no adoption. When two
  processes start on it, the one that loses the race to adopt fails with a constraint violation
  that nothing catches: its start-up raises, though without a rival the same run returns.
\<close>

definition demo_catalog :: system_catalog where
  "demo_catalog = \<lparr>sc_catalog_key = ''soc2-sample'', sc_catalog_family = ''soc2'', sc_name = ''SOC 2'', sc_version = ''f1'',
     sc_description = [], sc_is_primary = False, sc_requirements = []\<rparr>"

definition demo_unadopted :: db where
  "demo_unadopted = empty_db\<lparr>frameworks := [(demo_framework ''f1'')\<lparr>fw_catalog_key := Some ''soc2-sample''\<rparr>]\<rparr>"

definition demo_rival :: framework_adoption where
  "demo_rival = \<lparr>fa_id = ''rival'', fa_catalog_family = ''soc2'', fa_framework_id = ''f1'',
     fa_previous_framework_id = None, fa_adopted_at = Datetime (Date 2026 1 1) 0, fa_upgraded_at = None\<rparr>"

lemma adoption_race_fails_reconcile:
  "reconcile_catalog (demo_reconcile_env [demo_rival]) demo_catalog demo_unadopted = Inl IntegrityError \<and>
   (case reconcile_catalog (demo_reconcile_env []) demo_catalog demo_unadopted of Inl _ \<Rightarrow> False | Inr _ \<Rightarrow> True)"
  by code_simp

definition demo_starter_env :: starter_env where
  "demo_starter_env =
     \<lparr>st_control_id = (\<lambda>r. ''c-'' @ r), st_version_id = (\<lambda>r. ''v-'' @ r),
      st_ticks = (\<lambda>r. let t = (\<lambda>n. \<lparr>t_now = Datetime (Date 2026 1 2) 0, t_id = n @ r\<rparr>) in
        \<lparr>bt_draft = t ''1'', bt_submit = t ''2'', bt_review = t ''3'', bt_supersede = t ''4'', bt_effective = t ''5''\<rparr>)\<rparr>"

definition demo_programme :: db where
  "demo_programme = empty_db\<lparr>frameworks := [demo_framework ''f1''], framework_requirements :=
     [\<lparr>fr_id = ''r2'', fr_framework_id = ''f1'', fr_reference_code = ''CC2'', fr_title = ''b'', fr_summary = [], fr_display_order = 1\<rparr>,
      \<lparr>fr_id = ''r1'', fr_framework_id = ''f1'', fr_reference_code = ''CC1'', fr_title = ''a'', fr_summary = [], fr_display_order = 0\<rparr>]\<rparr>"

theorem starter_controls_cover_witness:
  "\<exists>cs s'. generate_starter_controls_for_framework demo_starter_env (demo_framework ''f1'') ''ada'' demo_programme = Inr (cs, s') \<and>
     map ic_id cs = [''c-r1'', ''c-r2''] \<and> framework_fully_covered (demo_framework ''f1'') s'"
proof -
  have "case generate_starter_controls_for_framework demo_starter_env (demo_framework ''f1'') ''ada'' demo_programme of
      Inl _ \<Rightarrow> False | Inr (cs, s') \<Rightarrow> map ic_id cs = [''c-r1'', ''c-r2'']" by code_simp
  then obtain cs s' where run: "generate_starter_controls_for_framework demo_starter_env (demo_framework ''f1'') ''ada'' demo_programme = Inr (cs, s')"
    and ids: "map ic_id cs = [''c-r1'', ''c-r2'']" by (auto split: sum.splits)
  have "framework_fully_covered (demo_framework ''f1'') s'" using starter_controls_cover [OF run] by blast
  with run ids show ?thesis by (intro exI conjI) assumption+
qed

end
