(* ===== verification/Connector_Contract.thy ===== *)
theory Connector_Contract
  imports Models File_Storage
begin

text \<open>
  What a connector may hand to the application: manifests (\<open>src/app/connectors/manifest.py\<close>),
  results (\<open>connectors/result.py\<close>) and their ingestion (\<open>connectors/ingestion.py\<close>). A dictionary is
  an association list with distinct keys; the JSON text of a payload is computed by the printer
  below, which follows \<open>json.dumps\<close> with sorted keys on null, booleans, integers, strings, lists
  and dictionaries. SHA-256 is a parameter.
\<close>

section \<open>Patterns\<close>

text \<open>\<open>$\<close> at the end of a pattern also matches before one final line feed.\<close>

definition before_final_newline :: "string \<Rightarrow> string" where
  "before_final_newline s = (if s \<noteq> [] \<and> last s = CHR 0x0A then butlast s else s)"

fun split_dot :: "string \<Rightarrow> string list" where
  "split_dot [] = [[]]"
| "split_dot (c # cs) =
     (if c = CHR ''.'' then [] # split_dot cs
      else (case split_dot cs of [] \<Rightarrow> [[c]] | w # ws \<Rightarrow> (c # w) # ws))"

definition all_digits :: "string \<Rightarrow> bool" where
  "all_digits s = (s \<noteq> [] \<and> list_all is_digit s)"

definition semver_matches :: "string \<Rightarrow> bool" where
  "semver_matches v =
     (case split_dot (before_final_newline v) of
        [a, b, c] \<Rightarrow> all_digits a \<and> all_digits b \<and> all_digits c
      | _ \<Rightarrow> False)"

section \<open>Manifests\<close>

definition core_contract_version :: int where
  "core_contract_version = 1"

definition capabilities :: "(string \<times> string) list" where
  "capabilities =
     [(''file.capture'', ''Capture a specific file'' @ [CHR 0x27] @ ''s bytes/metadata as durable evidence.''),
      (''evidence.collect'', ''Collect a fact/check result as evidence (generic).''),
      (''configuration.snapshot'', ''Snapshot a provider configuration/posture check.''),
      (''identity.population'', ''Sync a population of identities (e.g. directory users).''),
      (''identity.groups'', ''Sync group/role membership for identities.''),
      (''asset.inventory'', ''Enumerate provider-managed assets.''),
      (''vulnerability.findings'', ''Report vulnerability/security findings.''),
      (''notification.send'', ''Send an outbound notification.'')]"

definition config_field_types :: "string list" where
  "config_field_types = [''str'', ''bool'', ''int'']"

record config_field_spec =
  cf_name :: string
  cf_type :: string
  cf_required :: bool
  cf_secret :: bool

record connector_manifest =
  cm_connector_id :: string
  cm_display_name :: string
  cm_publisher :: string
  cm_version :: string
  cm_capabilities :: "string list"
  cm_required_permissions :: "string list"
  cm_supported_auth_methods :: "string list"
  cm_config_schema :: "config_field_spec list"
  cm_min_core_contract_version :: int
  cm_max_core_contract_version :: "int option"

fun check_config_schema :: "string set \<Rightarrow> config_field_spec list \<Rightarrow> unit result" where
  "check_config_schema seen [] = Inr ()"
| "check_config_schema seen (f # fs) =
     (if cf_name f \<in> seen then Inl (ConnectorContractError ''duplicate config field name'')
      else if cf_type f \<notin> set config_field_types then Inl (ConnectorContractError ''config field has unsupported type'')
      else check_config_schema (insert (cf_name f) seen) fs)"

definition validate_manifest :: "connector_manifest \<Rightarrow> unit result" where
  "validate_manifest manifest =
     (if cm_connector_id manifest = [] then Inl (ConnectorContractError ''connector_id is required'')
      else if cm_version manifest = [] \<or> \<not> semver_matches (cm_version manifest)
      then Inl (ConnectorContractError ''version must be a semver string (X.Y.Z)'')
      else if cm_capabilities manifest = []
      then Inl (ConnectorContractError ''a manifest must declare at least one capability'')
      else if list_ex (\<lambda>c. c \<notin> fst ` set capabilities) (cm_capabilities manifest)
      then Inl (ConnectorContractError ''unknown capability/capabilities'')
      else check_config_schema {} (cm_config_schema manifest))"

definition check_compatibility :: "connector_manifest \<Rightarrow> int \<Rightarrow> unit result" where
  "check_compatibility manifest core_version =
     (if core_version < cm_min_core_contract_version manifest
      then Inl (ConnectorContractError ''connector requires a later core contract version'')
      else (case cm_max_core_contract_version manifest of
              None \<Rightarrow> Inr ()
            | Some m \<Rightarrow> if m < core_version then Inl (ConnectorContractError ''connector requires an earlier core contract version'')
                       else Inr ()))"

section \<open>The text of a payload\<close>

text \<open>
  \<open>json.dumps\<close> escapes what is not printable ASCII. A string here holds characters below 256, so
  the escape of a character has two hexadecimal digits that count.
\<close>

definition hex_digit :: "nat \<Rightarrow> char" where
  "hex_digit n = (if n < 10 then char_of (48 + n) else char_of (87 + n))"

definition json_char :: "char \<Rightarrow> string" where
  "json_char c =
     (let n = of_char c :: nat
      in if n = 34 then [CHR 0x5C, CHR 0x22]
         else if n = 92 then [CHR 0x5C, CHR 0x5C]
         else if n = 10 then [CHR 0x5C, CHR ''n'']
         else if n = 13 then [CHR 0x5C, CHR ''r'']
         else if n = 9 then [CHR 0x5C, CHR ''t'']
         else if n = 8 then [CHR 0x5C, CHR ''b'']
         else if n = 12 then [CHR 0x5C, CHR ''f'']
         else if n < 32 \<or> 126 < n
         then [CHR 0x5C, CHR ''u'', CHR ''0'', CHR ''0'', hex_digit (n div 16), hex_digit (n mod 16)]
         else [c])"

definition json_string :: "string \<Rightarrow> string" where
  "json_string s = [CHR 0x22] @ concat (map json_char s) @ [CHR 0x22]"

fun joined :: "string list \<Rightarrow> string" where
  "joined [] = []"
| "joined [x] = x"
| "joined (x # y # xs) = x @ '', '' @ joined (y # xs)"

text \<open>The members are printed first and then sorted by key, which is the same as sorting the dictionary.\<close>

fun json_dumps :: "json \<Rightarrow> string" where
  "json_dumps JNull = ''null''"
| "json_dumps (JBool b) = (if b then ''true'' else ''false'')"
| "json_dumps (JInt i) = str_int i"
| "json_dumps (JStr s) = json_string s"
| "json_dumps (JArr xs) = ''['' @ joined (map json_dumps xs) @ '']''"
| "json_dumps (JObj kvs) =
     ''{'' @ joined (map (\<lambda>(k, v). json_string k @ '': '' @ v) (sort_key fst (map (\<lambda>(k, v). (k, json_dumps v)) kvs))) @ ''}''"

section \<open>Results\<close>

definition max_normalized_payload_chars :: nat where
  "max_normalized_payload_chars = 20000"

definition secret_shaped_key_terms :: "string list" where
  "secret_shaped_key_terms =
     [''token'', ''secret'', ''password'', ''passwd'', ''access_key'', ''private_key'', ''api_key'', ''refresh_token'']"

definition ends_with :: "string \<Rightarrow> string \<Rightarrow> bool" where
  "ends_with suffix s = (length suffix \<le> length s \<and> drop (length s - length suffix) s = suffix)"

text \<open>The final segment of the key is one of the terms, in any case.\<close>

definition secret_shaped :: "string \<Rightarrow> bool" where
  "secret_shaped key =
     (let k = lower (before_final_newline key)
      in list_ex (\<lambda>t. k = t \<or> ends_with (''_'' @ t) k) secret_shaped_key_terms)"

record connector_provenance =
  pr_source_connection_id :: "string option"
  pr_collected_at :: datetime
  pr_source_object_id :: "string option"
  pr_source_revision_id :: "string option"
  pr_source_modified_at :: "datetime option"
  pr_collector_version :: string

record connector_result =
  re_capability :: string
  re_check_key :: string
  re_status :: string
  re_title :: string
  re_summary :: string
  re_provenance :: connector_provenance
  re_normalized_payload :: "(string \<times> json) list"

definition evidence_statuses :: "string list" where
  "evidence_statuses = [''pass'', ''fail'', ''warning'', ''unknown'']"

fun find_secret_shaped_keys :: "string \<Rightarrow> json \<Rightarrow> string list" where
  "find_secret_shaped_keys prefix (JObj kvs) =
     concat (map (\<lambda>(key, value).
       (if secret_shaped key then [prefix @ key] else []) @ find_secret_shaped_keys (prefix @ key @ ''.'') value) kvs)"
| "find_secret_shaped_keys prefix v = []"

definition validate_result :: "connector_result \<Rightarrow> connector_manifest \<Rightarrow> unit result" where
  "validate_result result manifest =
     (if re_capability result \<notin> set (cm_capabilities manifest)
      then Inl (ConnectorContractError ''connector emitted a result for undeclared capability'')
      else if re_status result \<notin> set evidence_statuses
      then Inl (ConnectorContractError ''invalid result status'')
      else if max_normalized_payload_chars < length (json_dumps (JObj (re_normalized_payload result)))
      then Inl (ConnectorContractError ''normalized_payload is too long'')
      else if find_secret_shaped_keys [] (JObj (re_normalized_payload result)) \<noteq> []
      then Inl (ConnectorContractError ''normalized_payload contains secret-shaped key(s)'')
      else Inr ())"

section \<open>Ingestion\<close>

text \<open>
  An ingestion function reads the result and adds rows to the session; the database sees them
  at the next flush. \<open>pending\<close> is what it added.
\<close>

definition ingest_configuration_snapshot ::
  "(string \<Rightarrow> string) \<Rightarrow> string \<Rightarrow> connector_result \<Rightarrow> connector_manifest \<Rightarrow> evidence_snapshot result" where
  "ingest_configuration_snapshot sha256 new_id result manifest =
     rbind (validate_result result manifest) (\<lambda>_.
       let canonical_json = json_dumps (JObj (re_normalized_payload result))
       in Inr \<lparr>es_id = new_id, es_source_type = cm_connector_id manifest,
            es_source_connection_id = pr_source_connection_id (re_provenance result), es_check_key = re_check_key result,
            es_status = re_status result, es_title = re_title result, es_summary = take 2000 (re_summary result),
            es_collected_at = pr_collected_at (re_provenance result), es_expires_at = None,
            es_collector_version = pr_collector_version (re_provenance result),
            es_normalized_payload_json = canonical_json, es_raw_payload_sha256 = sha256 canonical_json\<rparr>)"

record directory_user =
  du_email :: string
  du_suspended :: bool
  du_display_name :: "json option"
  du_external_id :: "json option"

definition json_truthy :: "json \<Rightarrow> bool" where
  "json_truthy v = (case v of JNull \<Rightarrow> False | JBool b \<Rightarrow> b | JInt i \<Rightarrow> i \<noteq> 0 | JStr s \<Rightarrow> s \<noteq> [] | JArr xs \<Rightarrow> xs \<noteq> [] | JObj kvs \<Rightarrow> kvs \<noteq> [])"

text \<open>Iterating over a payload value: only a list yields dictionaries, an empty text or dictionary yields nothing.\<close>

definition json_items :: "json \<Rightarrow> json list result" where
  "json_items v = (case v of JArr xs \<Rightarrow> Inr xs | JStr [] \<Rightarrow> Inr [] | JObj [] \<Rightarrow> Inr [] | _ \<Rightarrow> Inl TypeError)"

definition parse_directory_user :: "json \<Rightarrow> directory_user result" where
  "parse_directory_user v =
     (case v of
        JObj kvs \<Rightarrow>
          (case map_of kvs ''email'' of
             None \<Rightarrow> Inl (KeyError ''email'')
           | Some (JStr email) \<Rightarrow>
               Inr \<lparr>du_email = lower (strip email),
                    du_suspended = (case map_of kvs ''suspended'' of None \<Rightarrow> False | Some x \<Rightarrow> json_truthy x),
                    du_display_name = map_of kvs ''display_name'', du_external_id = map_of kvs ''external_id''\<rparr>
           | Some _ \<Rightarrow> Inl AttributeError)
      | _ \<Rightarrow> Inl TypeError)"

fun rmap :: "('a \<Rightarrow> 'b result) \<Rightarrow> 'a list \<Rightarrow> 'b list result" where
  "rmap f [] = Inr []"
| "rmap f (x # xs) = rbind (f x) (\<lambda>y. rbind (rmap f xs) (\<lambda>ys. Inr (y # ys)))"

definition ingest_identity_population :: "connector_result \<Rightarrow> connector_manifest \<Rightarrow> directory_user list result" where
  "ingest_identity_population result manifest =
     rbind (validate_result result manifest) (\<lambda>_.
     rbind (json_items (case map_of (re_normalized_payload result) ''users'' of None \<Rightarrow> JArr [] | Some v \<Rightarrow> v)) (\<lambda>users.
       rmap parse_directory_user users))"

datatype pending =
    Pending_snapshot evidence_snapshot
  | Pending_people string datetime "directory_user list"

text \<open>
  The upserts of the loop, on the rows the database had (\<open>existing\<close>, which a lookup sees) and the
  rows added to the session (\<open>added\<close>, which it does not see before a flush).
\<close>

definition status_of :: "directory_user \<Rightarrow> string" where
  "status_of u = (if du_suspended u then ''suspended'' else ''active'')"

definition upsert_person ::
  "string \<Rightarrow> datetime \<Rightarrow> string \<Rightarrow> person list \<times> person list \<Rightarrow> directory_user \<Rightarrow> (person list \<times> person list) result" where
  "upsert_person source collected_at new_id rows u =
     (case rows of (existing, added) \<Rightarrow>
       if du_email u = [] then Inr rows
       else rbind (as_str_opt (case du_external_id u of None \<Rightarrow> JNull | Some v \<Rightarrow> v)) (\<lambda>external_id.
         if has_row pe_email (du_email u) existing
         then rbind (case du_display_name u of
                       None \<Rightarrow> Inr None | Some v \<Rightarrow> if json_truthy v then map_sum id Some (as_str v) else Inr None) (\<lambda>display_name.
              Inr (row_upd pe_email (du_email u) (\<lambda>p. p\<lparr>
                     pe_display_name := (case display_name of None \<Rightarrow> pe_display_name p | Some x \<Rightarrow> x),
                     pe_employment_status := status_of u, pe_source := source, pe_external_id := external_id,
                     pe_last_synced_at := Some collected_at\<rparr>) existing, added))
         else rbind (as_str (case du_display_name u of None \<Rightarrow> JStr [] | Some v \<Rightarrow> v)) (\<lambda>display_name.
              Inr (existing, added @ [\<lparr>pe_id = new_id, pe_email = du_email u, pe_display_name = display_name,
                     pe_employment_status = status_of u, pe_source = source, pe_external_id = external_id,
                     pe_last_synced_at = Some collected_at, pe_in_scope = False\<rparr>]))))"

fun upsert_people ::
  "string \<Rightarrow> datetime \<Rightarrow> (nat \<Rightarrow> string) \<Rightarrow> nat \<Rightarrow> directory_user list \<Rightarrow> person list \<times> person list \<Rightarrow> (person list \<times> person list) result" where
  "upsert_people source collected_at new_ids n [] rows = Inr rows"
| "upsert_people source collected_at new_ids n (u # us) rows =
     rbind (upsert_person source collected_at (new_ids n) rows u) (upsert_people source collected_at new_ids (Suc n) us)"

definition insert_people :: "person list \<Rightarrow> person list \<Rightarrow> person list result" where
  "insert_people existing added =
     (if unique_by pe_id (existing @ added) \<and> unique_by pe_email (existing @ added) then Inr (existing @ added)
      else Inl IntegrityError)"

definition flush_pending :: "(nat \<Rightarrow> string) \<Rightarrow> pending \<Rightarrow> db \<Rightarrow> db result" where
  "flush_pending new_ids p s =
     (case p of
        Pending_snapshot r \<Rightarrow>
          if has_row es_id (es_id r) (evidence_snapshots s) then Inl IntegrityError
          else Inr (s\<lparr>evidence_snapshots := evidence_snapshots s @ [r]\<rparr>)
      | Pending_people source collected_at users \<Rightarrow>
          rbind (upsert_people source collected_at new_ids 0 users (people s, [])) (\<lambda>(existing, added).
          rbind (insert_people existing added) (\<lambda>rows. Inr (s\<lparr>people := rows\<rparr>))))"

text \<open>The dispatch by capability, the only way from a validated result into the session.\<close>

definition ingestion_dispatch ::
  "(string \<Rightarrow> string) \<Rightarrow> string \<Rightarrow> string \<Rightarrow> (connector_result \<Rightarrow> connector_manifest \<Rightarrow> pending result) option" where
  "ingestion_dispatch sha256 new_id capability =
     (if capability = ''configuration.snapshot'' \<or> capability = ''evidence.collect''
      then Some (\<lambda>result manifest. map_sum id Pending_snapshot (ingest_configuration_snapshot sha256 new_id result manifest))
      else if capability = ''identity.population''
      then Some (\<lambda>result manifest. map_sum id
             (Pending_people (cm_connector_id manifest) (pr_collected_at (re_provenance result)))
             (ingest_identity_population result manifest))
      else None)"

section \<open>What validation excludes\<close>

text \<open>Every key on a path of dictionaries from the root of a payload.\<close>

inductive dict_key :: "json \<Rightarrow> string \<Rightarrow> bool" where
  here: "(k, v) \<in> set kvs \<Longrightarrow> dict_key (JObj kvs) k"
| below: "(j, v) \<in> set kvs \<Longrightarrow> dict_key v k \<Longrightarrow> dict_key (JObj kvs) k"

lemma secret_keys_found:
  "dict_key p k \<Longrightarrow> secret_shaped k \<Longrightarrow> find_secret_shaped_keys prefix p \<noteq> []"
proof (induction arbitrary: prefix rule: dict_key.induct)
  case (here k v kvs)
  then show ?case by force
next
  case (below j v kvs k)
  then have "find_secret_shaped_keys (prefix @ j @ ''.'') v \<noteq> []" by blast
  with below.hyps(1) show ?case by force
qed

lemma validate_result_Inr:
  assumes "validate_result r m = Inr u"
  shows "re_capability r \<in> set (cm_capabilities m) \<and> re_status r \<in> set evidence_statuses \<and>
    length (json_dumps (JObj (re_normalized_payload r))) \<le> 20000 \<and>
    (\<forall>k. dict_key (JObj (re_normalized_payload r)) k \<longrightarrow> \<not> secret_shaped k)"
  using assms secret_keys_found [of "JObj (re_normalized_payload r)" _ "[]"]
  by (auto simp: validate_result_def max_normalized_payload_chars_def split: if_splits)

lemma upsert_people_ids:
  assumes "upsert_people src t ids n us rows = Inr rows'"
  shows "map pe_id (fst rows') = map pe_id (fst rows) \<and> map pe_email (fst rows') = map pe_email (fst rows)"
  using assms
proof (induction us arbitrary: n rows)
  case (Cons u us)
  then obtain rows1 where s: "upsert_person src t (ids n) rows u = Inr rows1" and rest: "upsert_people src t ids (Suc n) us rows1 = Inr rows'"
    by auto
  have "map pe_id (fst rows1) = map pe_id (fst rows) \<and> map pe_email (fst rows1) = map pe_email (fst rows)"
    using s by (cases rows) (auto simp: upsert_person_def split: if_splits)
  then show ?case using Cons.IH [OF rest] by simp
qed simp

text \<open>
  The scan for secret-shaped keys does not look into lists, so the users of an identity
  population, which are dictionaries in a list, may carry passwords.
\<close>

definition demo_manifest :: connector_manifest where
  "demo_manifest = \<lparr>cm_connector_id = ''okta'', cm_display_name = ''Okta'', cm_publisher = ''acme'', cm_version = ''1.2.0'',
     cm_capabilities = [''identity.population'', ''configuration.snapshot''], cm_required_permissions = [],
     cm_supported_auth_methods = [], cm_config_schema = [\<lparr>cf_name = ''url'', cf_type = ''str'', cf_required = True, cf_secret = False\<rparr>,
       \<lparr>cf_name = ''api_token'', cf_type = ''str'', cf_required = True, cf_secret = True\<rparr>],
     cm_min_core_contract_version = 1, cm_max_core_contract_version = None\<rparr>"

definition demo_result :: "string \<Rightarrow> (string \<times> json) list \<Rightarrow> connector_result" where
  "demo_result capability payload = \<lparr>re_capability = capability, re_check_key = ''users'', re_status = ''pass'', re_title = ''Users'',
     re_summary = [], re_provenance = \<lparr>pr_source_connection_id = None, pr_collected_at = Datetime (Date 2026 1 1) 0,
       pr_source_object_id = None, pr_source_revision_id = None, pr_source_modified_at = None, pr_collector_version = ''1''\<rparr>,
     re_normalized_payload = payload\<rparr>"

lemma secrets_in_lists_pass:
  "validate_result (demo_result ''identity.population'' [(''users'', JArr [JObj [(''email'', JStr ''a@x''), (''password'', JStr ''hunter2'')]])])
     demo_manifest = Inr () \<and>
   (\<exists>e. validate_result (demo_result ''identity.population'' [(''user'', JObj [(''password'', JStr ''hunter2'')])]) demo_manifest = Inl e)"
proof
  show "validate_result (demo_result ''identity.population'' [(''users'', JArr [JObj [(''email'', JStr ''a@x''), (''password'', JStr ''hunter2'')]])])
     demo_manifest = Inr ()" by code_simp
  have "isl (validate_result (demo_result ''identity.population'' [(''user'', JObj [(''password'', JStr ''hunter2'')])]) demo_manifest)"
    by code_simp
  then show "\<exists>e. validate_result (demo_result ''identity.population'' [(''user'', JObj [(''password'', JStr ''hunter2'')])]) demo_manifest = Inl e"
    by (auto simp: isl_def)
qed

end
