(* ===== verification/Py_Text.thy ===== *)
theory Py_Text
  imports File_Storage
begin

text \<open>
  The text functions of Python's standard library that the importers use: \<open>int\<close> on a text,
  decoding with \<open>utf-8-sig\<close>, \<open>csv.reader\<close> and \<open>csv.DictReader\<close> with the default dialect over an
  \<open>io.StringIO\<close>. A decoded text is kept as its UTF-8 bytes; the characters the reader
  treats specially are all below 128, where the two agree.
\<close>

section \<open>Integers\<close>

text \<open>
  \<open>int\<close> on a text: white space around it, a sign, single underscores between the digits, at
  most 4300 of them.
\<close>

fun digits_of :: "string \<Rightarrow> string option" where
  "digits_of [] = None"
| "digits_of [c] = (if is_digit c then Some [c] else None)"
| "digits_of (c # d # cs) =
     (if \<not> is_digit c then None
      else map_option ((#) c) (if d = CHR ''_'' then digits_of cs else digits_of (d # cs)))"

definition py_int :: "string \<Rightarrow> int result" where
  "py_int s =
     (let t = strip s; (sign, u) = (if t \<noteq> [] \<and> hd t = CHR ''-'' then (-1, tl t) else if t \<noteq> [] \<and> hd t = CHR ''+'' then (1, tl t) else (1, t))
      in (case digits_of u of
            None \<Rightarrow> Inl (ValueError ''invalid literal for int()'')
          | Some ds \<Rightarrow> if 4300 < length ds then Inl (ValueError ''Exceeds the limit for integer string conversion'')
                       else Inr (sign * read_digits ds)))"

section \<open>UTF-8\<close>

definition in_range :: "nat \<Rightarrow> nat \<Rightarrow> char \<Rightarrow> bool" where
  "in_range a b c = (a \<le> of_char c \<and> of_char c \<le> b)"

definition continuation :: "char \<Rightarrow> bool" where
  "continuation = in_range 128 191"

fun utf8_valid :: "string \<Rightarrow> bool" where
  "utf8_valid [] = True"
| "utf8_valid (a # s) =
     (if in_range 0 127 a then utf8_valid s
      else (case s of
              [] \<Rightarrow> False
            | b # s1 \<Rightarrow>
                if in_range 194 223 a then continuation b \<and> utf8_valid s1
                else (case s1 of
                        [] \<Rightarrow> False
                      | c # s2 \<Rightarrow>
                          if in_range 224 239 a
                          then (if in_range 224 224 a then in_range 160 191 b
                                else if in_range 237 237 a then in_range 128 159 b else continuation b) \<and>
                               continuation c \<and> utf8_valid s2
                          else (case s2 of
                                  [] \<Rightarrow> False
                                | d # s3 \<Rightarrow>
                                    in_range 240 244 a \<and>
                                    (if in_range 240 240 a then in_range 144 191 b
                                     else if in_range 244 244 a then in_range 128 143 b else continuation b) \<and>
                                    continuation c \<and> continuation d \<and> utf8_valid s3))))"

definition byte_order_mark :: string where
  "byte_order_mark = map char_of [239, 187, 191 :: nat]"

text \<open>None is the \<open>UnicodeDecodeError\<close>.\<close>

definition decode_utf8_sig :: "string \<Rightarrow> string option" where
  "decode_utf8_sig raw =
     (let text = (if take 3 raw = byte_order_mark then drop 3 raw else raw)
      in if utf8_valid text then Some text else None)"

section \<open>The CSV reader\<close>

datatype csv_state = Start_record | Start_field | In_field | In_quoted_field | Quote_in_quoted_field | Eat_crnl

record csv_parser =
  cv_state :: csv_state
  cv_field :: string
  cv_fields :: "string list"

definition csv_start :: csv_parser where
  "csv_start = \<lparr>cv_state = Start_record, cv_field = [], cv_fields = []\<rparr>"

definition field_limit :: int where
  "field_limit = 131072"

definition line_feed :: char where
  "line_feed = char_of (10 :: nat)"

definition carriage_return :: char where
  "carriage_return = char_of (13 :: nat)"

definition add_char :: "char \<Rightarrow> csv_state \<Rightarrow> csv_parser \<Rightarrow> csv_parser result" where
  "add_char c st p =
     (if field_limit \<le> int (length (cv_field p)) then Inl (CsvError ''field larger than field limit (131072)'')
      else Inr (p\<lparr>cv_field := cv_field p @ [c], cv_state := st\<rparr>))"

definition save_field :: "csv_state \<Rightarrow> csv_parser \<Rightarrow> csv_parser" where
  "save_field st p = p\<lparr>cv_fields := cv_fields p @ [cv_field p], cv_field := [], cv_state := st\<rparr>"

definition line_end :: "char option \<Rightarrow> bool" where
  "line_end c = (case c of None \<Rightarrow> True | Some x \<Rightarrow> x = line_feed \<or> x = carriage_return)"

definition after_record :: "char option \<Rightarrow> csv_state" where
  "after_record c = (if c = None then Start_record else Eat_crnl)"

definition start_field :: "char option \<Rightarrow> csv_parser \<Rightarrow> csv_parser result" where
  "start_field c p =
     (case c of
        None \<Rightarrow> Inr (save_field Start_record p)
      | Some x \<Rightarrow>
          if line_end c then Inr (save_field Eat_crnl p)
          else if x = CHR 0x22 then Inr (p\<lparr>cv_state := In_quoted_field\<rparr>)
          else if x = CHR '','' then Inr (save_field Start_field p)
          else add_char x In_field p)"

text \<open>One character of a line, None after its last one.\<close>

definition csv_step :: "csv_parser \<Rightarrow> char option \<Rightarrow> csv_parser result" where
  "csv_step p c =
     (case cv_state p of
        Start_record \<Rightarrow>
          (if c = None then Inr p
           else if line_end c then Inr (p\<lparr>cv_state := Eat_crnl\<rparr>)
           else start_field c p)
      | Start_field \<Rightarrow> start_field c p
      | In_field \<Rightarrow>
          (if line_end c then Inr (save_field (after_record c) p)
           else if c = Some (CHR '','') then Inr (save_field Start_field p)
           else add_char (the c) In_field p)
      | In_quoted_field \<Rightarrow>
          (case c of
             None \<Rightarrow> Inr p
           | Some x \<Rightarrow> if x = CHR 0x22 then Inr (p\<lparr>cv_state := Quote_in_quoted_field\<rparr>) else add_char x In_quoted_field p)
      | Quote_in_quoted_field \<Rightarrow>
          (if c = Some (CHR 0x22) then add_char (CHR 0x22) In_quoted_field p
           else if c = Some (CHR '','') then Inr (save_field Start_field p)
           else if line_end c then Inr (save_field (after_record c) p)
           else add_char (the c) In_field p)
      | Eat_crnl \<Rightarrow>
          (if c = None then Inr (p\<lparr>cv_state := Start_record\<rparr>)
           else if line_end c then Inr p
           else Inl (CsvError ''new-line character seen in unquoted field'')))"

definition csv_line :: "string \<Rightarrow> csv_parser \<Rightarrow> csv_parser result" where
  "csv_line l p = rfold csv_step (map Some l @ [None]) p"

text \<open>The lines of an \<open>io.StringIO\<close>: each ends after its line feed.\<close>

fun split_lines :: "string \<Rightarrow> string list" where
  "split_lines [] = []"
| "split_lines (c # s) =
     (if c = line_feed then [c] # split_lines s
      else (case split_lines s of [] \<Rightarrow> [[c]] | l # ls \<Rightarrow> (c # l) # ls))"

text \<open>
  The rows the reader yields and the exception that ends them, if one does: the loops over a
  reader see the rows before the exception.
\<close>

fun csv_records :: "string list \<Rightarrow> csv_parser \<Rightarrow> string list list \<times> error option" where
  "csv_records [] p =
     (if cv_field p \<noteq> [] \<or> cv_state p = In_quoted_field then ([cv_fields p @ [cv_field p]], None) else ([], None))"
| "csv_records (l # ls) p =
     (case csv_line l p of
        Inl e \<Rightarrow> ([], Some e)
      | Inr p' \<Rightarrow>
          if cv_state p' = Start_record
          then (case csv_records ls csv_start of (rows, e) \<Rightarrow> (cv_fields p' # rows, e))
          else csv_records ls p')"

definition csv_reader :: "string \<Rightarrow> string list list \<times> error option" where
  "csv_reader text = csv_records (split_lines text) csv_start"

section \<open>Rows as dictionaries\<close>

text \<open>
  \<open>DictReader\<close>: the first row names the fields, empty rows are skipped, a later column of the
  same name wins and a missing one is None.
\<close>

type_synonym dict_row = "string \<Rightarrow> string option"

definition dict_row :: "string list \<Rightarrow> string list \<Rightarrow> dict_row" where
  "dict_row fieldnames row key =
     (if key \<in> set (drop (length row) fieldnames) then None else map_of (rev (zip fieldnames row)) key)"

definition dict_reader :: "string \<Rightarrow> (string list \<times> dict_row list \<times> error option) result" where
  "dict_reader text =
     (case csv_reader text of
        ([], Some e) \<Rightarrow> Inl e
      | ([], None) \<Rightarrow> Inr ([], [], None)
      | (fieldnames # rows, e) \<Rightarrow> Inr (fieldnames, map (dict_row fieldnames) (filter (\<lambda>row. row \<noteq> []) rows), e))"

text \<open>\<open>(row.get(key) or default).strip()\<close>\<close>

definition cell_or :: "string \<Rightarrow> dict_row \<Rightarrow> string \<Rightarrow> string" where
  "cell_or dflt row key =
     strip (case row key of None \<Rightarrow> dflt | Some v \<Rightarrow> if v = [] then dflt else v)"

fun join_with :: "string \<Rightarrow> string list \<Rightarrow> string" where
  "join_with sep [] = []"
| "join_with sep [x] = x"
| "join_with sep (x # y # xs) = x @ sep @ join_with sep (y # xs)"

text \<open>The names missing from a header, in the order of \<open>sorted\<close>, as the messages list them.\<close>

definition missing_columns :: "string list \<Rightarrow> string list \<Rightarrow> string list" where
  "missing_columns required fieldnames = filter (\<lambda>c. c \<notin> set fieldnames) (sort required)"

end
