(* ===== verification/Connector_Lifecycle.thy ===== *)
theory Connector_Lifecycle
  imports Connector_Contract Py_Text
begin

text \<open>
  Installed connectors (\<open>src/app/connector_lifecycle.py\<close>), the secrets they use
  (\<open>secrets.py\<close>) and the registry they are installed from (\<open>connector_registry.py\<close>). Encryption,
  the process environment and the connector's own code are parameters. The stored
  configuration is the dictionary its JSON text parses to, in the order of its sorted keys.
\<close>

section \<open>State\<close>

datatype secret_value = Encrypted string | Env_ref string

record secret =
  sk_id :: string
  sk_name :: string
  sk_value :: secret_value
  sk_created_by :: string

record connector_instance =
  ci_id :: string
  ci_connector_id :: string
  ci_manifest_version :: string
  ci_display_name :: string
  ci_enabled :: bool
  ci_config :: "(string \<times> json) list"
  ci_secret_ref :: "(string \<times> string) list"
  ci_last_test_at :: "datetime option"
  ci_last_test_status :: "string option"
  ci_last_test_error :: string
  ci_last_success_at :: "datetime option"
  ci_last_failure_at :: "datetime option"
  ci_last_error_summary :: string
  ci_created_by_user_id :: string

record connector_execution =
  ce_id :: string
  ce_connector_instance_id :: string
  ce_idempotency_key :: string
  ce_status :: string
  ce_result_summary :: string
  ce_error_summary :: string
  ce_triggered_by :: string
  ce_actor_id :: "string option"
  ce_started_at :: datetime
  ce_finished_at :: datetime

record connector_state =
  cn_db :: db
  cn_secrets :: "secret list"
  cn_instances :: "connector_instance list"
  cn_executions :: "connector_execution list"

text \<open>The actor of an operation: the id and e-mail address of a user.\<close>

record actor =
  ac_id :: string
  ac_email :: string

text \<open>
  Encryption and decryption under the configured key (None when they raise), the environment,
  and SHA-256.
\<close>

record crypto =
  cy_encrypt :: "string \<Rightarrow> string option"
  cy_decrypt :: "string \<Rightarrow> string option"
  cy_environ :: "string \<Rightarrow> string option"
  cy_sha256 :: "string \<Rightarrow> string"

definition audit_cn :: "string \<Rightarrow> string \<Rightarrow> string \<Rightarrow> string \<Rightarrow> string \<Rightarrow> connector_state \<Rightarrow> connector_state" where
  "audit_cn entity_type entity_id action detail actor st =
     st\<lparr>cn_db := record_audit_event entity_type entity_id action detail actor (cn_db st)\<rparr>"

definition in_quotes :: "string \<Rightarrow> string" where
  "in_quotes s = [CHR 0x27] @ s @ [CHR 0x27]"

text \<open>\<open>d[k] = v\<close> on a dictionary, and \<open>json.dumps\<close> with sorted keys read back.\<close>

fun dict_put :: "string \<Rightarrow> 'v \<Rightarrow> (string \<times> 'v) list \<Rightarrow> (string \<times> 'v) list" where
  "dict_put k v [] = [(k, v)]"
| "dict_put k v ((j, w) # xs) = (if j = k then (k, v) # xs else (j, w) # dict_put k v xs)"

definition dict_update :: "(string \<times> 'v) list \<Rightarrow> (string \<times> 'v) list \<Rightarrow> (string \<times> 'v) list" where
  "dict_update old new = fold (\<lambda>(k, v). dict_put k v) new old"

definition stored :: "(string \<times> 'v) list \<Rightarrow> (string \<times> 'v) list" where
  "stored d = sort_key fst d"

section \<open>Secrets\<close>

definition insert_secret :: "secret \<Rightarrow> connector_state \<Rightarrow> connector_state result" where
  "insert_secret r st =
     (if has_row sk_id (sk_id r) (cn_secrets st) \<or> has_row sk_name (sk_name r) (cn_secrets st) then Inl IntegrityError
      else Inr (st\<lparr>cn_secrets := cn_secrets st @ [r]\<rparr>))"

definition create_encrypted_secret ::
  "crypto \<Rightarrow> string \<Rightarrow> string \<Rightarrow> string \<Rightarrow> string \<Rightarrow> connector_state \<Rightarrow> (secret \<times> connector_state) result" where
  "create_encrypted_secret crypt new_id name plaintext actor st =
     (case cy_encrypt crypt plaintext of
        None \<Rightarrow> Inl RuntimeError
      | Some ciphertext \<Rightarrow>
          (let secret = \<lparr>sk_id = new_id, sk_name = name, sk_value = Encrypted ciphertext, sk_created_by = actor\<rparr>
           in rbind (insert_secret secret st) (\<lambda>st1.
                Inr (secret, audit_cn ''secret'' new_id ''create'' (''Created encrypted secret '' @ in_quotes name) actor st1))))"

definition create_env_ref_secret ::
  "string \<Rightarrow> string \<Rightarrow> string \<Rightarrow> string \<Rightarrow> connector_state \<Rightarrow> (secret \<times> connector_state) result" where
  "create_env_ref_secret new_id name env_var_name actor st =
     (let secret = \<lparr>sk_id = new_id, sk_name = name, sk_value = Env_ref env_var_name, sk_created_by = actor\<rparr>
      in rbind (insert_secret secret st) (\<lambda>st1.
           Inr (secret, audit_cn ''secret'' new_id ''create''
             (''Created env-ref secret '' @ in_quotes name @ '' -> $'' @ env_var_name) actor st1)))"

definition resolve_secret :: "crypto \<Rightarrow> secret \<Rightarrow> string option" where
  "resolve_secret crypt secret =
     (case sk_value secret of Encrypted c \<Rightarrow> cy_decrypt crypt c | Env_ref v \<Rightarrow> cy_environ crypt v)"

section \<open>Installation and configuration\<close>

definition get_secret_value :: "(string \<times> string) list \<Rightarrow> string \<Rightarrow> string" where
  "get_secret_value secret_values name = (case map_of secret_values name of None \<Rightarrow> [] | Some v \<Rightarrow> v)"

fun validate_config_against_schema ::
  "config_field_spec list \<Rightarrow> (string \<times> json) list \<Rightarrow> (string \<times> string) list \<Rightarrow> string set \<Rightarrow> unit result" where
  "validate_config_against_schema [] config secret_values existing_secret_fields = Inr ()"
| "validate_config_against_schema (f # fs) config secret_values existing_secret_fields =
     (if cf_secret f
      then (let has_value = (get_secret_value secret_values (cf_name f) \<noteq> [] \<or> cf_name f \<in> existing_secret_fields)
            in if cf_required f \<and> \<not> has_value then Inl (ConnectorLifecycleError ''missing required secret config field'')
               else validate_config_against_schema fs config secret_values existing_secret_fields)
      else if cf_required f \<and> \<not> (case map_of config (cf_name f) of None \<Rightarrow> False | Some v \<Rightarrow> json_truthy v)
      then Inl (ConnectorLifecycleError ''missing required config field'')
      else validate_config_against_schema fs config secret_values existing_secret_fields)"

text \<open>\<open>new_ids\<close> draws, for each secret field, the nonce of its name and the id of its row.\<close>

fun store_secret_refs ::
  "crypto \<Rightarrow> (string \<Rightarrow> string \<times> string) \<Rightarrow> string \<Rightarrow> config_field_spec list \<Rightarrow> (string \<times> string) list \<Rightarrow> actor \<Rightarrow>
   connector_state \<Rightarrow> ((string \<times> string) list \<times> connector_state) result" where
  "store_secret_refs crypt new_ids connector_id [] secret_values actor st = Inr ([], st)"
| "store_secret_refs crypt new_ids connector_id (f # fs) secret_values actor st =
     (if cf_secret f \<and> get_secret_value secret_values (cf_name f) \<noteq> []
      then rbind (create_encrypted_secret crypt (snd (new_ids (cf_name f)))
             (''connector:'' @ connector_id @ '':'' @ cf_name f @ '':'' @ fst (new_ids (cf_name f)))
             (get_secret_value secret_values (cf_name f)) (ac_email actor) st) (\<lambda>(secret, st1).
           rbind (store_secret_refs crypt new_ids connector_id fs secret_values actor st1) (\<lambda>(refs, st2).
             Inr ((cf_name f, sk_id secret) # refs, st2)))
      else store_secret_refs crypt new_ids connector_id fs secret_values actor st)"

definition insert_connector_instance :: "connector_instance \<Rightarrow> connector_state \<Rightarrow> connector_state result" where
  "insert_connector_instance r st =
     (if has_row ci_id (ci_id r) (cn_instances st) then Inl IntegrityError
      else Inr (st\<lparr>cn_instances := cn_instances st @ [r]\<rparr>))"

definition install_connector_instance ::
  "crypto \<Rightarrow> (string \<Rightarrow> string \<times> string) \<Rightarrow> string \<Rightarrow> connector_manifest \<Rightarrow> string \<Rightarrow> (string \<times> json) list \<Rightarrow> (string \<times> string) list \<Rightarrow>
   actor \<Rightarrow> connector_state \<Rightarrow> (connector_instance \<times> connector_state) result" where
  "install_connector_instance crypt new_ids new_id manifest display_name config secret_values actor st =
     rbind (validate_manifest manifest) (\<lambda>_.
     rbind (check_compatibility manifest core_contract_version) (\<lambda>_.
     rbind (validate_config_against_schema (cm_config_schema manifest) config secret_values {}) (\<lambda>_.
     rbind (store_secret_refs crypt new_ids (cm_connector_id manifest) (cm_config_schema manifest) secret_values actor st) (\<lambda>(secret_ref, st1).
       let inst = \<lparr>ci_id = new_id, ci_connector_id = cm_connector_id manifest, ci_manifest_version = cm_version manifest,
             ci_display_name = display_name, ci_enabled = False, ci_config = stored config, ci_secret_ref = stored secret_ref,
             ci_last_test_at = None, ci_last_test_status = None, ci_last_test_error = [], ci_last_success_at = None,
             ci_last_failure_at = None, ci_last_error_summary = [], ci_created_by_user_id = ac_id actor\<rparr>
       in rbind (insert_connector_instance inst st1) (\<lambda>st2.
            Inr (inst, audit_cn ''connector_instance'' new_id ''install''
              (''Installed connector '' @ in_quotes (cm_connector_id manifest) @ '' as '' @ in_quotes display_name) (ac_email actor) st2))))))"

definition update_instance :: "string \<Rightarrow> (connector_instance \<Rightarrow> connector_instance) \<Rightarrow> connector_state \<Rightarrow> connector_state" where
  "update_instance i f st = st\<lparr>cn_instances := row_upd ci_id i f (cn_instances st)\<rparr>"

definition update_connector_instance_config ::
  "crypto \<Rightarrow> (string \<Rightarrow> string \<times> string) \<Rightarrow> connector_instance \<Rightarrow> connector_manifest \<Rightarrow> (string \<times> json) list \<Rightarrow> (string \<times> string) list \<Rightarrow>
   actor \<Rightarrow> connector_state \<Rightarrow> connector_state result" where
  "update_connector_instance_config crypt new_ids inst manifest config secret_values actor st =
     rbind (validate_config_against_schema (cm_config_schema manifest) config secret_values (fst ` set (ci_secret_ref inst))) (\<lambda>_.
     rbind (store_secret_refs crypt new_ids (cm_connector_id manifest) (cm_config_schema manifest) secret_values actor st) (\<lambda>(new_secret_ref, st1).
       Inr (audit_cn ''connector_instance'' (ci_id inst) ''update_config''
         (''Updated configuration for connector instance '' @ in_quotes (ci_display_name inst)) (ac_email actor)
         (update_instance (ci_id inst) (\<lambda>r. r\<lparr>ci_config := stored config,
            ci_secret_ref := stored (dict_update (ci_secret_ref inst) new_secret_ref)\<rparr>) st1))))"

definition set_connector_instance_enabled :: "connector_instance \<Rightarrow> bool \<Rightarrow> actor \<Rightarrow> connector_state \<Rightarrow> connector_state" where
  "set_connector_instance_enabled inst enabled actor st =
     audit_cn ''connector_instance'' (ci_id inst) (if enabled then ''enable'' else ''disable'')
       ((if enabled then ''Enabled'' else ''Disabled'') @ '' connector instance '' @ in_quotes (ci_display_name inst)) (ac_email actor)
       (update_instance (ci_id inst) (\<lambda>r. r\<lparr>ci_enabled := enabled\<rparr>) st)"

definition remove_connector_instance :: "connector_instance \<Rightarrow> actor \<Rightarrow> connector_state \<Rightarrow> connector_state" where
  "remove_connector_instance inst actor st =
     audit_cn ''connector_instance'' (ci_id inst) ''remove''
       (''Removed connector instance '' @ in_quotes (ci_display_name inst) @ '' ('' @ ci_connector_id inst @ '')'') (ac_email actor)
       (st\<lparr>cn_executions := filter (\<lambda>e. ce_connector_instance_id e \<noteq> ci_id inst) (cn_executions st),
           cn_instances := filter (\<lambda>r. ci_id r \<noteq> ci_id inst) (cn_instances st)\<rparr>)"

definition resolve_connector_config :: "crypto \<Rightarrow> connector_instance \<Rightarrow> connector_state \<Rightarrow> (string \<times> json) list" where
  "resolve_connector_config crypt inst st =
     fold (\<lambda>(field_name, secret_id) config.
         case row_get sk_id secret_id (cn_secrets st) of
           None \<Rightarrow> config
         | Some secret \<Rightarrow> dict_put field_name (case resolve_secret crypt secret of None \<Rightarrow> JNull | Some v \<Rightarrow> JStr v) config)
       (ci_secret_ref inst) (ci_config inst)"

text \<open>\<open>test_callable\<close> returns None, or the text of the exception it raised.\<close>

definition test_connector_instance ::
  "crypto \<Rightarrow> datetime \<Rightarrow> connector_instance \<Rightarrow> ((string \<times> json) list \<Rightarrow> string option) \<Rightarrow> actor \<Rightarrow> connector_state \<Rightarrow>
   bool \<times> connector_state" where
  "test_connector_instance crypt now inst test_callable actor st =
     (let outcome = test_callable (resolve_connector_config crypt inst st);
          success = (outcome = None)
      in (success, audit_cn ''connector_instance'' (ci_id inst) ''test_connection''
            (''Connection test '' @ (if success then ''succeeded'' else ''failed'') @ '' for '' @ in_quotes (ci_display_name inst)) (ac_email actor)
            (update_instance (ci_id inst) (\<lambda>r. r\<lparr>ci_last_test_at := Some now,
               ci_last_test_status := Some (if success then ''success'' else ''failure''),
               ci_last_test_error := (case outcome of None \<Rightarrow> [] | Some e \<Rightarrow> take 2000 e)\<rparr>) st)))"

section \<open>Execution\<close>

definition execution_slot :: "connector_execution \<Rightarrow> string \<times> string" where
  "execution_slot e = (ce_connector_instance_id e, ce_idempotency_key e)"

definition execution_triggers :: "string list" where
  "execution_triggers = [''manual'', ''system'']"

definition insert_connector_execution :: "connector_execution \<Rightarrow> connector_state \<Rightarrow> connector_state result" where
  "insert_connector_execution r st =
     (if has_row ce_id (ce_id r) (cn_executions st) \<or> has_row execution_slot (execution_slot r) (cn_executions st) \<or>
         \<not> has_row ci_id (ce_connector_instance_id r) (cn_instances st) \<or> ce_triggered_by r \<notin> set execution_triggers
      then Inl IntegrityError else Inr (st\<lparr>cn_executions := cn_executions st @ [r]\<rparr>))"

text \<open>
  What one run draws: the two clock readings, the ids of its rows; who asked for it; the text of
  an exception; and the committed state that a rollback returns the session to.
\<close>

record run_env =
  rn_crypto :: crypto
  rn_started_at :: datetime
  rn_finished_at :: datetime
  rn_execution_id :: string
  rn_snapshot_id :: string
  rn_person_ids :: "nat \<Rightarrow> string"
  rn_triggered_by :: string
  rn_actor_id :: "string option"
  rn_str :: "error \<Rightarrow> string"

definition contract_error :: "error \<Rightarrow> bool" where
  "contract_error e = (case e of ConnectorLifecycleError _ \<Rightarrow> True | ConnectorContractError _ \<Rightarrow> True | _ \<Rightarrow> False)"

definition collect ::
  "run_env \<Rightarrow> connector_manifest \<Rightarrow> ((string \<times> json) list \<Rightarrow> connector_result result) \<Rightarrow> (string \<times> json) list \<Rightarrow>
   (connector_result \<times> pending) result" where
  "collect env manifest connector_callable config =
     rbind (connector_callable config) (\<lambda>result.
     rbind (validate_result result manifest) (\<lambda>_.
       case ingestion_dispatch (cy_sha256 (rn_crypto env)) (rn_snapshot_id env) (re_capability result) of
         None \<Rightarrow> Inl (ConnectorLifecycleError ''no ingestion path registered for capability'')
       | Some ingest \<Rightarrow> rbind (ingest result manifest) (\<lambda>p. Inr (result, p))))"

definition new_execution :: "run_env \<Rightarrow> string \<Rightarrow> string \<Rightarrow> connector_execution" where
  "new_execution env i idempotency_key =
     \<lparr>ce_id = rn_execution_id env, ce_connector_instance_id = i, ce_idempotency_key = idempotency_key, ce_status = [],
      ce_result_summary = [], ce_error_summary = [], ce_triggered_by = rn_triggered_by env, ce_actor_id = rn_actor_id env,
      ce_started_at = rn_started_at env, ce_finished_at = rn_finished_at env\<rparr>"

definition run_connector_instance ::
  "run_env \<Rightarrow> connector_instance \<Rightarrow> connector_manifest \<Rightarrow> ((string \<times> json) list \<Rightarrow> connector_result result) \<Rightarrow> string \<Rightarrow>
   connector_state \<Rightarrow> connector_state \<Rightarrow> (connector_execution \<times> connector_state) result" where
  "run_connector_instance env inst manifest connector_callable idempotency_key committed st =
     (if \<not> ci_enabled inst then Inl (ConnectorLifecycleError ''connector instance is disabled'')
      else (case row_get execution_slot (ci_id inst, idempotency_key) (cn_executions st) of
              Some existing \<Rightarrow> Inr (existing, st)
            | None \<Rightarrow>
                (case collect env manifest connector_callable (resolve_connector_config (rn_crypto env) inst st) of
                   Inl e \<Rightarrow>
                     (let execution = (new_execution env (ci_id inst) idempotency_key)\<lparr>
                            ce_status := (if contract_error e then ''error'' else ''failure''),
                            ce_error_summary := take 2000 (rn_str env e)\<rparr>
                      in rbind (insert_connector_execution execution committed) (\<lambda>st1.
                         Inr (execution, update_instance (ci_id inst) (\<lambda>r. r\<lparr>ci_last_failure_at := Some (rn_finished_at env),
                                ci_last_error_summary := ce_error_summary execution\<rparr>) st1)))
                 | Inr (result, p) \<Rightarrow>
                     (let execution = (new_execution env (ci_id inst) idempotency_key)\<lparr>ce_status := ''success'',
                            ce_result_summary := take 2000 (re_capability result @ '': '' @ re_title result)\<rparr>
                      in rbind (flush_pending (rn_person_ids env) p (cn_db st)) (\<lambda>db1.
                         rbind (insert_connector_execution execution (st\<lparr>cn_db := db1\<rparr>)) (\<lambda>st1.
                         Inr (execution, update_instance (ci_id inst) (\<lambda>r. r\<lparr>ci_last_success_at := Some (rn_finished_at env)\<rparr>) st1)))))))"

section \<open>Upgrades\<close>

definition semver_tuple :: "string \<Rightarrow> (int \<times> int \<times> int) result" where
  "semver_tuple version =
     (case split_dot version of
        [major, minor, patch] \<Rightarrow>
          rbind (py_int major) (\<lambda>a. rbind (py_int minor) (\<lambda>b. rbind (py_int patch) (\<lambda>c. Inr (a, b, c))))
      | _ \<Rightarrow> Inl (ValueError ''unpacking''))"

datatype direction = Upgrade_direction | Downgrade | Same

record connector_upgrade_plan =
  up_connector_id :: string
  up_from_version :: string
  up_to_version :: string
  up_direction :: direction
  up_new_capabilities :: "string list"
  up_new_required_permissions :: "string list"
  up_to_capabilities :: "string list"
  up_to_required_permissions :: "string list"

definition plan_connector_instance_upgrade ::
  "connector_instance \<Rightarrow> connector_manifest \<Rightarrow> connector_manifest \<Rightarrow> connector_upgrade_plan result" where
  "plan_connector_instance_upgrade inst from_manifest to_manifest =
     (if cm_connector_id to_manifest \<noteq> ci_connector_id inst
      then Inl (ConnectorLifecycleError ''cannot upgrade connector instance: identity confusion'')
      else rbind (validate_manifest to_manifest) (\<lambda>_.
           rbind (check_compatibility to_manifest core_contract_version) (\<lambda>_.
           rbind (semver_tuple (cm_version from_manifest)) (\<lambda>from_version.
           rbind (semver_tuple (cm_version to_manifest)) (\<lambda>to_version.
             Inr \<lparr>up_connector_id = ci_connector_id inst, up_from_version = cm_version from_manifest,
                  up_to_version = cm_version to_manifest,
                  up_direction = (if from_version < to_version then Upgrade_direction
                                  else if to_version < from_version then Downgrade else Same),
                  up_new_capabilities = filter (\<lambda>c. c \<notin> set (cm_capabilities from_manifest)) (cm_capabilities to_manifest),
                  up_new_required_permissions =
                    filter (\<lambda>x. x \<notin> set (cm_required_permissions from_manifest)) (cm_required_permissions to_manifest),
                  up_to_capabilities = cm_capabilities to_manifest,
                  up_to_required_permissions = cm_required_permissions to_manifest\<rparr>)))))"

text \<open>\<open>show\<close> prints a list in the audit detail.\<close>

definition apply_connector_instance_upgrade ::
  "(string list \<Rightarrow> string) \<Rightarrow> connector_instance \<Rightarrow> connector_upgrade_plan \<Rightarrow> connector_manifest \<Rightarrow> actor \<Rightarrow> bool \<Rightarrow> connector_state \<Rightarrow>
   connector_state result" where
  "apply_connector_instance_upgrade show inst plan to_manifest actor allow_downgrade st =
     (if ci_manifest_version inst \<noteq> up_from_version plan
      then Inl (ConnectorLifecycleError ''instance is not at the expected version - reload and re-plan before applying'')
      else if up_direction plan = Downgrade \<and> \<not> allow_downgrade
      then Inl (ConnectorLifecycleError ''refusing to silently downgrade connector instance'')
      else if up_connector_id plan \<noteq> ci_connector_id inst \<or> cm_connector_id to_manifest \<noteq> ci_connector_id inst
      then Inl (ConnectorLifecycleError ''upgrade plan/manifest do not match this connector instance'')
      else if cm_version to_manifest \<noteq> up_to_version plan \<or> cm_capabilities to_manifest \<noteq> up_to_capabilities plan \<or>
              cm_required_permissions to_manifest \<noteq> up_to_required_permissions plan
      then Inl (ConnectorLifecycleError ''to_manifest does not match the plan'')
      else Inr (audit_cn ''connector_instance'' (ci_id inst) (if up_direction plan = Downgrade then ''rollback'' else ''upgrade'')
             ((if up_direction plan = Downgrade then ''Rollbackd'' else ''Upgraded'') @ '' connector instance '' @
              in_quotes (ci_display_name inst) @ '' from '' @ up_from_version plan @ '' to '' @ up_to_version plan @
              ''; new capabilities: '' @ show (up_new_capabilities plan) @ ''; new required permissions: '' @
              show (up_new_required_permissions plan)) (ac_email actor)
             (update_instance (ci_id inst) (\<lambda>r. r\<lparr>ci_manifest_version := cm_version to_manifest\<rparr>) st)))"

section \<open>The registry\<close>

record registry_entry = connector_manifest +
  rg_verification_status :: string
  rg_package_location :: string
  rg_checksum_sha256 :: "string option"
  rg_deprecated :: bool

text \<open>The checks of \<open>load_registry\<close> over the parsed entries.\<close>

fun check_registry :: "(string \<times> string) set \<Rightarrow> (string \<rightharpoonup> string) \<Rightarrow> registry_entry list \<Rightarrow> unit result" where
  "check_registry seen publisher_by_connector_id [] = Inr ()"
| "check_registry seen publisher_by_connector_id (entry # entries) =
     (if (cm_connector_id entry, cm_version entry) \<in> seen then Inl (RegistryError ''duplicate registry entry'')
      else (case publisher_by_connector_id (cm_connector_id entry) of
              None \<Rightarrow> check_registry (insert (cm_connector_id entry, cm_version entry) seen)
                        (publisher_by_connector_id(cm_connector_id entry \<mapsto> cm_publisher entry)) entries
            | Some known_publisher \<Rightarrow>
                if known_publisher \<noteq> cm_publisher entry
                then Inl (RegistryError ''connector_id is claimed by more than one publisher - possible identity confusion'')
                else check_registry (insert (cm_connector_id entry, cm_version entry) seen) publisher_by_connector_id entries))"

definition to_manifest :: "registry_entry \<Rightarrow> connector_manifest" where
  "to_manifest entry = connector_manifest.truncate entry"

definition filter_by_capability :: "registry_entry list \<Rightarrow> string \<Rightarrow> registry_entry list" where
  "filter_by_capability entries capability =
     filter (\<lambda>entry. capability \<in> set (cm_capabilities entry) \<and> \<not> rg_deprecated entry) entries"

definition filter_compatible :: "registry_entry list \<Rightarrow> int \<Rightarrow> registry_entry list" where
  "filter_compatible entries core_version =
     filter (\<lambda>entry. case check_compatibility (to_manifest entry) core_version of Inl _ \<Rightarrow> False | Inr _ \<Rightarrow> True) entries"

definition install_from_registry ::
  "crypto \<Rightarrow> (string \<Rightarrow> string \<times> string) \<Rightarrow> string \<Rightarrow> registry_entry \<Rightarrow> string \<Rightarrow> (string \<times> json) list \<Rightarrow> (string \<times> string) list \<Rightarrow>
   actor \<Rightarrow> connector_state \<Rightarrow> (connector_instance \<times> connector_state) result" where
  "install_from_registry crypt new_ids new_id entry display_name config secret_values actor st =
     install_connector_instance crypt new_ids new_id (to_manifest entry) display_name config secret_values actor st"

definition broad_permission_markers :: "string list" where
  "broad_permission_markers = [''admin'', ''root'', ''owner'', ''full_access'', ''generatecredentialreport'']"

fun occurs_in :: "string \<Rightarrow> string \<Rightarrow> bool" where
  "occurs_in m [] = (m = [])"
| "occurs_in m (c # cs) = (take (length m) (c # cs) = m \<or> occurs_in m cs)"

definition flag_broad_permissions :: "string list \<Rightarrow> string list" where
  "flag_broad_permissions required_permissions =
     filter (\<lambda>permission. list_ex (\<lambda>m. occurs_in m (lower permission)) broad_permission_markers) required_permissions"

record permission_review =
  pw_connector_id :: string
  pw_display_name :: string
  pw_verification_status :: string
  pw_deprecated :: bool
  pw_capabilities :: "(string \<times> string) list"
  pw_required_permissions :: "string list"
  pw_broad_permission_warnings :: "string list"
  pw_supported_auth_methods :: "string list"

definition build_permission_review :: "registry_entry \<Rightarrow> permission_review" where
  "build_permission_review entry =
     \<lparr>pw_connector_id = cm_connector_id entry, pw_display_name = cm_display_name entry,
      pw_verification_status = rg_verification_status entry, pw_deprecated = rg_deprecated entry,
      pw_capabilities = map (\<lambda>c. (c, case map_of capabilities c of None \<Rightarrow> [] | Some d \<Rightarrow> d)) (cm_capabilities entry),
      pw_required_permissions = cm_required_permissions entry,
      pw_broad_permission_warnings = flag_broad_permissions (cm_required_permissions entry),
      pw_supported_auth_methods = cm_supported_auth_methods entry\<rparr>"

definition list_deprecated_installed_instances :: "connector_state \<Rightarrow> registry_entry list \<Rightarrow> connector_instance list" where
  "list_deprecated_installed_instances st entries =
     filter (\<lambda>inst. list_ex (\<lambda>entry. rg_deprecated entry \<and> cm_connector_id entry = ci_connector_id inst \<and>
         cm_version entry = ci_manifest_version inst) entries) (cn_instances st)"

section \<open>Histories\<close>

text \<open>One operation on the installed connectors, each in a transaction of its own.\<close>

inductive connector_step :: "crypto \<Rightarrow> connector_state \<Rightarrow> connector_state \<Rightarrow> bool" for crypt where
  create_secret: "create_encrypted_secret crypt i name plaintext by st = Inr (r, st') \<Longrightarrow> connector_step crypt st st'"
| create_env_ref: "create_env_ref_secret i name v by st = Inr (r, st') \<Longrightarrow> connector_step crypt st st'"
| install: "install_connector_instance crypt ids i m name config secrets actor st = Inr (r, st') \<Longrightarrow> connector_step crypt st st'"
| configure: "row_get ci_id i (cn_instances st) = Some inst \<Longrightarrow>
    update_connector_instance_config crypt ids inst m config secrets actor st = Inr st' \<Longrightarrow> connector_step crypt st st'"
| enable: "row_get ci_id i (cn_instances st) = Some inst \<Longrightarrow>
    connector_step crypt st (set_connector_instance_enabled inst b actor st)"
| remove: "row_get ci_id i (cn_instances st) = Some inst \<Longrightarrow>
    connector_step crypt st (remove_connector_instance inst actor st)"
| test: "row_get ci_id i (cn_instances st) = Some inst \<Longrightarrow>
    test_connector_instance crypt now inst f actor st = (ok, st') \<Longrightarrow> connector_step crypt st st'"
| run: "row_get ci_id i (cn_instances st) = Some inst \<Longrightarrow> rn_crypto env = crypt \<Longrightarrow>
    run_connector_instance env inst m f key st st = Inr (r, st') \<Longrightarrow> connector_step crypt st st'"
| upgrade: "row_get ci_id i (cn_instances st) = Some inst \<Longrightarrow> plan_connector_instance_upgrade inst0 m0 m1 = Inr plan \<Longrightarrow>
    apply_connector_instance_upgrade show inst plan m actor allow st = Inr st' \<Longrightarrow> connector_step crypt st st'"

text \<open>
  The state is well formed: ids, secret names and idempotency keys are unique, an execution
  belongs to an installed instance and has one of the three outcomes, every secret a
  configuration refers to exists, and the installed version is a version number.
\<close>

definition execution_statuses :: "string list" where
  "execution_statuses = [''success'', ''failure'', ''error'']"

definition wf_connectors :: "connector_state \<Rightarrow> bool" where
  "wf_connectors st \<longleftrightarrow>
     unique_by sk_id (cn_secrets st) \<and> unique_by sk_name (cn_secrets st) \<and>
     unique_by ci_id (cn_instances st) \<and> unique_by ce_id (cn_executions st) \<and> unique_by execution_slot (cn_executions st) \<and>
     (\<forall>e\<in>set (cn_executions st). has_row ci_id (ce_connector_instance_id e) (cn_instances st) \<and>
        ce_triggered_by e \<in> set execution_triggers \<and> ce_status e \<in> set execution_statuses) \<and>
     (\<forall>r\<in>set (cn_instances st). semver_matches (ci_manifest_version r) \<and>
        (\<forall>sid\<in>snd ` set (ci_secret_ref r). has_row sk_id sid (cn_secrets st)))"

lemma audit_cn_simps [simp]:
  "cn_secrets (audit_cn t i a d by st) = cn_secrets st"
  "cn_instances (audit_cn t i a d by st) = cn_instances st"
  "cn_executions (audit_cn t i a d by st) = cn_executions st"
  "cn_db (audit_cn t i a d by st) = record_audit_event t i a d by (cn_db st)"
  by (simp_all add: audit_cn_def)

lemma update_instance_simps [simp]:
  "cn_secrets (update_instance i f st) = cn_secrets st"
  "cn_instances (update_instance i f st) = row_upd ci_id i f (cn_instances st)"
  "cn_executions (update_instance i f st) = cn_executions st"
  "cn_db (update_instance i f st) = cn_db st"
  by (simp_all add: update_instance_def)

lemma wf_audit [simp]: "wf_connectors (audit_cn t i a d by st) = wf_connectors st"
  by (simp add: wf_connectors_def)

text \<open>An update of an instance that keeps its id keeps the state well formed if the new row is.\<close>

lemma wf_update_instance:
  assumes "wf_connectors st" and "\<And>r. ci_id (f r) = ci_id r"
    and "\<And>r. r \<in> set (cn_instances st) \<Longrightarrow> ci_id r = i \<Longrightarrow> semver_matches (ci_manifest_version (f r)) \<and>
      (\<forall>sid\<in>snd ` set (ci_secret_ref (f r)). has_row sk_id sid (cn_secrets st))"
  shows "wf_connectors (update_instance i f st)"
  using assms by (auto simp: wf_connectors_def set_row_upd)

lemma create_encrypted_secret_Inr:
  assumes "create_encrypted_secret crypt i name plaintext by st = Inr (r, st')"
  shows "st' = audit_cn ''secret'' i ''create'' (''Created encrypted secret '' @ in_quotes name) by (st\<lparr>cn_secrets := cn_secrets st @ [r]\<rparr>) \<and>
    sk_id r = i \<and> sk_name r = name \<and> \<not> has_row sk_id i (cn_secrets st) \<and> \<not> has_row sk_name name (cn_secrets st) \<and>
    (\<exists>c. cy_encrypt crypt plaintext = Some c \<and> sk_value r = Encrypted c)"
  using assms by (auto simp: create_encrypted_secret_def insert_secret_def Let_def split: option.splits if_splits)

lemma wf_add_secret:
  assumes "wf_connectors st" and "\<not> has_row sk_id (sk_id r) (cn_secrets st)" and "\<not> has_row sk_name (sk_name r) (cn_secrets st)"
  shows "wf_connectors (st\<lparr>cn_secrets := cn_secrets st @ [r]\<rparr>)"
  using assms by (auto simp: wf_connectors_def)

lemma store_secret_refs_wf:
  assumes "store_secret_refs crypt ids c fs vs actor st = Inr (refs, st')" and "wf_connectors st"
  shows "wf_connectors st' \<and> (\<exists>added. cn_secrets st' = cn_secrets st @ added) \<and> cn_instances st' = cn_instances st \<and>
    cn_executions st' = cn_executions st \<and> (\<forall>sid\<in>snd ` set refs. has_row sk_id sid (cn_secrets st'))"
  using assms
proof (induction fs arbitrary: st refs)
  case (Cons f fs)
  show ?case
  proof (cases "cf_secret f \<and> get_secret_value vs (cf_name f) \<noteq> []")
    case True
    with Cons.prems obtain r st1 refs1 where
        new: "create_encrypted_secret crypt (snd (ids (cf_name f))) (''connector:'' @ c @ '':'' @ cf_name f @ '':'' @ fst (ids (cf_name f)))
          (get_secret_value vs (cf_name f)) (ac_email actor) st = Inr (r, st1)"
      and rest: "store_secret_refs crypt ids c fs vs actor st1 = Inr (refs1, st')" and refs: "refs = (cf_name f, sk_id r) # refs1"
      by auto
    note n = create_encrypted_secret_Inr [OF new]
    have "wf_connectors st1"
      using n wf_add_secret [OF Cons.prems(2), of r] by simp
    from Cons.IH [OF rest this] show ?thesis
      using n refs by auto
  next
    case False
    with Cons show ?thesis by auto
  qed
qed simp

lemma snd_dict_put: "snd ` set (dict_put k v d) \<subseteq> insert v (snd ` set d)"
  by (induction k v d rule: dict_put.induct) auto

lemma snd_dict_update: "snd ` set (dict_update old new) \<subseteq> snd ` set old \<union> snd ` set new"
proof (induction new arbitrary: old)
  case (Cons p new)
  obtain k v where p: "p = (k, v)" by (cases p)
  have "snd ` set (dict_update old (p # new)) = snd ` set (dict_update (dict_put k v old) new)"
    by (simp only: dict_update_def p fold_simps split_conv o_apply)
  also have "\<dots> \<subseteq> snd ` set (dict_put k v old) \<union> snd ` set new" by (rule Cons.IH)
  also have "\<dots> \<subseteq> insert v (snd ` set old) \<union> snd ` set new"
    by (intro Un_mono snd_dict_put order_refl)
  finally show ?case by (simp only: p set_simps image_insert snd_conv Un_insert_left Un_insert_right)
qed (simp add: dict_update_def)

lemma has_row_filter_other: "k \<noteq> j \<Longrightarrow> has_row key k (filter (\<lambda>r. key r \<noteq> j) rows) = has_row key k rows"
  by (auto simp: has_row_iff)

lemma Ball_subset: "A \<subseteq> B \<Longrightarrow> Ball B P \<Longrightarrow> Ball A P"
  by blast

lemma set_stored [simp]: "set (stored d) = set d"
  by (simp add: stored_def)

lemma validate_manifest_semver: "validate_manifest m = Inr u \<Longrightarrow> semver_matches (cm_version m)"
  by (simp add: validate_manifest_def split: if_splits)

text \<open>The three outcomes of a run that does not raise.\<close>

inductive run_outcome ::
  "run_env \<Rightarrow> connector_instance \<Rightarrow> connector_manifest \<Rightarrow> ((string \<times> json) list \<Rightarrow> connector_result result) \<Rightarrow> string \<Rightarrow>
   connector_state \<Rightarrow> connector_state \<Rightarrow> connector_execution \<Rightarrow> connector_state \<Rightarrow> bool"
  for env inst m f key committed st where
  repeated: "row_get execution_slot (ci_id inst, key) (cn_executions st) = Some x \<Longrightarrow>
    run_outcome env inst m f key committed st x st"
| failed: "row_get execution_slot (ci_id inst, key) (cn_executions st) = None \<Longrightarrow>
    collect env m f (resolve_connector_config (rn_crypto env) inst st) = Inl e \<Longrightarrow>
    x = (new_execution env (ci_id inst) key)\<lparr>ce_status := (if contract_error e then ''error'' else ''failure''),
           ce_error_summary := take 2000 (rn_str env e)\<rparr> \<Longrightarrow>
    insert_connector_execution x committed = Inr st1 \<Longrightarrow>
    run_outcome env inst m f key committed st x (update_instance (ci_id inst) (\<lambda>r. r\<lparr>ci_last_failure_at := Some (rn_finished_at env),
      ci_last_error_summary := ce_error_summary x\<rparr>) st1)"
| succeeded: "row_get execution_slot (ci_id inst, key) (cn_executions st) = None \<Longrightarrow>
    collect env m f (resolve_connector_config (rn_crypto env) inst st) = Inr (res, p) \<Longrightarrow>
    x = (new_execution env (ci_id inst) key)\<lparr>ce_status := ''success'',
           ce_result_summary := take 2000 (re_capability res @ '': '' @ re_title res)\<rparr> \<Longrightarrow>
    flush_pending (rn_person_ids env) p (cn_db st) = Inr db1 \<Longrightarrow>
    insert_connector_execution x (st\<lparr>cn_db := db1\<rparr>) = Inr st1 \<Longrightarrow>
    run_outcome env inst m f key committed st x (update_instance (ci_id inst) (\<lambda>r. r\<lparr>ci_last_success_at := Some (rn_finished_at env)\<rparr>) st1)"

lemma run_connector_instance_outcome:
  assumes "run_connector_instance env inst m f key committed st = Inr (x, st')"
  shows "ci_enabled inst \<and> run_outcome env inst m f key committed st x st'"
proof (cases "row_get execution_slot (ci_id inst, key) (cn_executions st)")
  case None
  show ?thesis
  proof (cases "collect env m f (resolve_connector_config (rn_crypto env) inst st)")
    case (Inl e)
    have en: "ci_enabled inst"
      using assms by (simp add: run_connector_instance_def split: if_splits)
    with None Inl assms obtain st1 where
        x: "x = (new_execution env (ci_id inst) key)\<lparr>ce_status := (if contract_error e then ''error'' else ''failure''),
           ce_error_summary := take 2000 (rn_str env e)\<rparr>" and ins: "insert_connector_execution x committed = Inr st1"
      and st': "st' = update_instance (ci_id inst) (\<lambda>r. r\<lparr>ci_last_failure_at := Some (rn_finished_at env),
           ci_last_error_summary := ce_error_summary x\<rparr>) st1"
      by (auto simp: run_connector_instance_def Let_def)
    show ?thesis using en run_outcome.failed [OF None Inl x ins] st' by simp
  next
    case (Inr a)
    obtain res p where "a = (res, p)" by (cases a)
    with None Inr assms show ?thesis
      by (auto simp: run_connector_instance_def Let_def split: if_splits intro!: run_outcome.succeeded)
  qed
qed (use assms in \<open>auto simp: run_connector_instance_def split: if_splits intro!: run_outcome.repeated\<close>)

lemma insert_connector_execution_Inr:
  "insert_connector_execution x st = Inr st' \<Longrightarrow>
     st' = st\<lparr>cn_executions := cn_executions st @ [x]\<rparr> \<and> \<not> has_row ce_id (ce_id x) (cn_executions st) \<and>
     \<not> has_row execution_slot (execution_slot x) (cn_executions st) \<and>
     has_row ci_id (ce_connector_instance_id x) (cn_instances st) \<and> ce_triggered_by x \<in> set execution_triggers"
  by (auto simp: insert_connector_execution_def split: if_splits)

lemma wf_add_execution:
  assumes "insert_connector_execution x st = Inr st'" and "wf_connectors st" and "ce_status x \<in> set execution_statuses"
  shows "wf_connectors st'"
  using insert_connector_execution_Inr [OF assms(1)] assms(2,3) by (auto simp: wf_connectors_def)

lemma run_wf:
  assumes "run_connector_instance env inst m f key committed st = Inr (x, st')" and "wf_connectors committed" and "wf_connectors st"
  shows "wf_connectors st'"
proof -
  have "run_outcome env inst m f key committed st x st'"
    using run_connector_instance_outcome [OF assms(1)] by simp
  then show ?thesis
  proof cases
    case (failed e st1)
    then have "wf_connectors st1"
      using assms(2) by (intro wf_add_execution [OF failed(5)]) (auto simp: execution_statuses_def)
    then show ?thesis unfolding failed(1) by (intro wf_update_instance) (auto simp: wf_connectors_def)
  next
    case (succeeded res p db1 st1)
    have "wf_connectors (st\<lparr>cn_db := db1\<rparr>)" using assms(3) by (simp add: wf_connectors_def)
    then have "wf_connectors st1"
      using succeeded by (intro wf_add_execution [OF succeeded(6)]) (auto simp: execution_statuses_def)
    then show ?thesis unfolding succeeded(1) by (intro wf_update_instance) (auto simp: wf_connectors_def)
  qed (use assms in simp)
qed

lemma install_connector_instance_Inr:
  assumes "install_connector_instance crypt ids i m name config vs actor st = Inr (r, st')"
  shows "\<exists>refs st1. validate_manifest m = Inr () \<and> validate_config_against_schema (cm_config_schema m) config vs {} = Inr () \<and>
    store_secret_refs crypt ids (cm_connector_id m) (cm_config_schema m) vs actor st = Inr (refs, st1) \<and>
    \<not> has_row ci_id i (cn_instances st1) \<and>
    cn_secrets st' = cn_secrets st1 \<and> cn_executions st' = cn_executions st1 \<and> cn_instances st' = cn_instances st1 @ [r] \<and>
    ci_id r = i \<and> ci_manifest_version r = cm_version m \<and> ci_secret_ref r = stored refs \<and> \<not> ci_enabled r"
  using assms by (auto simp: install_connector_instance_def insert_connector_instance_def Let_def split: if_splits)

lemma connector_step_wf:
  assumes "connector_step crypt st st'" and wf: "wf_connectors st"
  shows "wf_connectors st'"
  using assms(1)
proof cases
  case (create_secret i name plaintext "by" r)
  from create_encrypted_secret_Inr [OF this] show ?thesis
    using wf_add_secret [OF wf, of r] by simp
next
  case (create_env_ref i name v "by" r)
  then show ?thesis
    using wf wf_add_secret [OF wf, of r]
    by (auto simp: create_env_ref_secret_def insert_secret_def Let_def split: if_splits)
next
  case (install ids i m name config secrets actor r)
  then obtain refs st1 where v: "validate_manifest m = Inr ()"
      and refs: "store_secret_refs crypt ids (cm_connector_id m) (cm_config_schema m) secrets actor st = Inr (refs, st1)"
      and new: "\<not> has_row ci_id i (cn_instances st1)"
      and st': "cn_secrets st' = cn_secrets st1" "cn_executions st' = cn_executions st1" "cn_instances st' = cn_instances st1 @ [r]"
      and r: "ci_id r = i" "ci_manifest_version r = cm_version m" "ci_secret_ref r = stored refs"
    using install_connector_instance_Inr [OF install] by blast
  have "wf_connectors st1 \<and> (\<forall>sid\<in>snd ` set refs. has_row sk_id sid (cn_secrets st1))"
    using store_secret_refs_wf [OF refs wf] by simp
  then show ?thesis
    using validate_manifest_semver [OF v] new st' r by (auto simp: wf_connectors_def)
next
  case (configure i inst ids m config secrets actor)
  then obtain refs st1 where
      refs: "store_secret_refs crypt ids (cm_connector_id m) (cm_config_schema m) secrets actor st = Inr (refs, st1)"
      and st': "wf_connectors st' = wf_connectors (update_instance (ci_id inst) (\<lambda>r. r\<lparr>ci_config := stored config,
            ci_secret_ref := stored (dict_update (ci_secret_ref inst) refs)\<rparr>) st1)"
    by (auto simp: update_connector_instance_config_def)
  obtain added where wf1: "wf_connectors st1" and s: "cn_secrets st1 = cn_secrets st @ added"
      "\<forall>sid\<in>snd ` set refs. has_row sk_id sid (cn_secrets st1)"
    using store_secret_refs_wf [OF refs wf] by blast
  have "inst \<in> set (cn_instances st)" using configure(1) row_get_SomeD by fast
  then have "\<forall>sid\<in>snd ` set (ci_secret_ref inst). has_row sk_id sid (cn_secrets st)"
    using wf by (simp add: wf_connectors_def)
  then have "\<forall>sid\<in>snd ` set (ci_secret_ref inst). has_row sk_id sid (cn_secrets st1)"
    by (simp only: s(1) has_row_append) blast
  with s(2) have "\<forall>sid\<in>snd ` set (ci_secret_ref inst) \<union> snd ` set refs. has_row sk_id sid (cn_secrets st1)"
    by (simp only: ball_Un simp_thms)
  then have "\<forall>sid\<in>snd ` set (dict_update (ci_secret_ref inst) refs). has_row sk_id sid (cn_secrets st1)"
    by (rule Ball_subset [OF snd_dict_update])
  then have "wf_connectors (update_instance (ci_id inst) (\<lambda>r. r\<lparr>ci_config := stored config,
            ci_secret_ref := stored (dict_update (ci_secret_ref inst) refs)\<rparr>) st1)"
    using wf1 by (intro wf_update_instance) (auto simp: wf_connectors_def)
  then show ?thesis by (simp only: st')
next
  case (enable i inst b actor)
  show ?thesis unfolding enable(1) set_connector_instance_enabled_def wf_audit
    using wf by (intro wf_update_instance) (auto simp: wf_connectors_def)
next
  case (remove i inst actor)
  show ?thesis unfolding remove(1) remove_connector_instance_def wf_audit
    using wf by (auto simp: wf_connectors_def unique_by_def distinct_map_filter has_row_filter_other)
next
  case (test i inst now f actor ok)
  then have "wf_connectors st' = wf_connectors (update_instance (ci_id inst) (\<lambda>r. r\<lparr>ci_last_test_at := Some now,
               ci_last_test_status := Some (if ok then ''success'' else ''failure''),
               ci_last_test_error := (case f (resolve_connector_config crypt inst st) of None \<Rightarrow> [] | Some e \<Rightarrow> take 2000 e)\<rparr>) st)"
    by (auto simp: test_connector_instance_def Let_def)
  also have "\<dots>" using wf by (intro wf_update_instance) (auto simp: wf_connectors_def)
  finally show ?thesis by simp
next
  case (run i inst env m f key r)
  then show ?thesis using run_wf [OF run(3) wf wf] by simp
next
  case (upgrade i inst inst0 m0 m1 plan show' m actor allow)
  then have v: "semver_matches (cm_version m)"
    by (auto simp: plan_connector_instance_upgrade_def apply_connector_instance_upgrade_def
        dest!: validate_manifest_semver split: if_splits)
  have "wf_connectors st' = wf_connectors (update_instance (ci_id inst) (\<lambda>r. r\<lparr>ci_manifest_version := cm_version m\<rparr>) st)"
    using upgrade(3) by (auto simp: apply_connector_instance_upgrade_def split: if_splits)
  also have "\<dots>" using wf v by (intro wf_update_instance) (auto simp: wf_connectors_def)
  finally show ?thesis by simp
qed

section \<open>Secrets reach the connector\<close>

lemma check_config_schema_distinct:
  "check_config_schema seen fs = Inr () \<Longrightarrow> distinct (map cf_name fs) \<and> cf_name ` set fs \<inter> seen = {}"
  by (induction seen fs rule: check_config_schema.induct) (auto split: if_splits)

lemma map_of_dict_put [simp]: "map_of (dict_put k v d) = (map_of d)(k \<mapsto> v)"
  by (induction k v d rule: dict_put.induct) auto

lemma map_of_stored: "distinct (map fst d) \<Longrightarrow> map_of (stored d) = map_of d"
  by (rule map_of_inject_set [THEN iffD2]) (simp_all add: stored_def distinct_map)

definition resolved :: "crypto \<Rightarrow> secret \<Rightarrow> json" where
  "resolved crypt secret = (case resolve_secret crypt secret of None \<Rightarrow> JNull | Some v \<Rightarrow> JStr v)"

lemma map_of_resolved:
  assumes "distinct (map fst refs)"
  shows "map_of (fold (\<lambda>(field_name, secret_id) config.
         case row_get sk_id secret_id secrets of
           None \<Rightarrow> config
         | Some secret \<Rightarrow> dict_put field_name (case resolve_secret crypt secret of None \<Rightarrow> JNull | Some v \<Rightarrow> JStr v) config)
       refs config) k =
     (case map_of refs k of None \<Rightarrow> map_of config k
      | Some sid \<Rightarrow> (case row_get sk_id sid secrets of None \<Rightarrow> map_of config k | Some r \<Rightarrow> Some (resolved crypt r)))"
  using assms
proof (induction refs arbitrary: config)
  case (Cons p refs)
  obtain j sid where p: "p = (j, sid)" by (cases p)
  with Cons.prems have j: "map_of refs j = None" by (simp add: map_of_eq_None_iff)
  show ?case
    using Cons.IH Cons.prems p j by (simp add: resolved_def split: option.split)
qed simp

text \<open>Every secret value that was given is in the row its reference names, encrypted.\<close>

lemma store_secret_refs_lookup:
  assumes "store_secret_refs crypt ids c fs vs actor st = Inr (refs, st')" and "distinct (map cf_name fs)"
  shows "fst ` set refs \<subseteq> cf_name ` set fs \<and> distinct (map fst refs) \<and>
    (\<forall>i r. row_get sk_id i (cn_secrets st) = Some r \<longrightarrow> row_get sk_id i (cn_secrets st') = Some r) \<and>
    (\<forall>f\<in>set fs. cf_secret f \<and> get_secret_value vs (cf_name f) \<noteq> [] \<longrightarrow>
       (\<exists>sid r e. map_of refs (cf_name f) = Some sid \<and> row_get sk_id sid (cn_secrets st') = Some r \<and> sk_value r = Encrypted e \<and>
          cy_encrypt crypt (get_secret_value vs (cf_name f)) = Some e))"
  using assms
proof (induction fs arbitrary: st refs)
  case (Cons f fs)
  show ?case
  proof (cases "cf_secret f \<and> get_secret_value vs (cf_name f) \<noteq> []")
    case True
    with Cons.prems obtain r st1 refs1 where
        new: "create_encrypted_secret crypt (snd (ids (cf_name f))) (''connector:'' @ c @ '':'' @ cf_name f @ '':'' @ fst (ids (cf_name f)))
          (get_secret_value vs (cf_name f)) (ac_email actor) st = Inr (r, st1)"
      and rest: "store_secret_refs crypt ids c fs vs actor st1 = Inr (refs1, st')" and refs: "refs = (cf_name f, sk_id r) # refs1"
      by auto
    note n = create_encrypted_secret_Inr [OF new]
    have dist: "distinct (map cf_name fs)" and fresh: "cf_name f \<notin> cf_name ` set fs" using Cons.prems(2) by auto
    note IH = Cons.IH [OF rest dist]
    have grow: "row_get sk_id i (cn_secrets st1) = Some x" if "row_get sk_id i (cn_secrets st) = Some x" for i x
      using n that by (simp add: row_get_append)
    have "row_get sk_id (sk_id r) (cn_secrets st1) = Some r"
      using n by (simp add: row_get_append row_get_None_iff [THEN iffD2])
    then have r: "row_get sk_id (sk_id r) (cn_secrets st') = Some r" using IH by blast
    have old: "\<forall>g\<in>set fs. cf_secret g \<and> get_secret_value vs (cf_name g) \<noteq> [] \<longrightarrow>
       (\<exists>sid r e. map_of refs (cf_name g) = Some sid \<and> row_get sk_id sid (cn_secrets st') = Some r \<and> sk_value r = Encrypted e \<and>
          cy_encrypt crypt (get_secret_value vs (cf_name g)) = Some e)"
      using IH fresh refs by (metis (no_types, lifting) image_eqI map_of_Cons_code(2))
    show ?thesis
      using IH refs r n grow old fresh by auto
  next
    case False
    then have rest: "store_secret_refs crypt ids c fs vs actor st = Inr (refs, st')" using Cons.prems(1) by auto
    have dist: "distinct (map cf_name fs)" using Cons.prems(2) by simp
    show ?thesis using Cons.IH [OF rest dist] False by auto
  qed
qed simp

section \<open>A small installation\<close>

definition demo_crypto :: crypto where
  "demo_crypto = \<lparr>cy_encrypt = (\<lambda>p. Some (''enc'' @ p)), cy_decrypt = (\<lambda>c. Some (drop 3 c)),
     cy_environ = (\<lambda>v. None), cy_sha256 = (\<lambda>s. ''digest'')\<rparr>"

definition demo_actor :: actor where
  "demo_actor = \<lparr>ac_id = ''u1'', ac_email = ''ann@x''\<rparr>"

definition no_connectors :: connector_state where
  "no_connectors = \<lparr>cn_db = empty_db, cn_secrets = [], cn_instances = [], cn_executions = []\<rparr>"

definition demo_installed :: "(connector_instance \<times> connector_state) result" where
  "demo_installed = install_connector_instance demo_crypto (\<lambda>f. (''n'', ''s_'' @ f)) ''i1'' demo_manifest ''Okta''
     [(''url'', JStr ''https://x'')] [(''api_token'', ''t0k'')] demo_actor no_connectors"

definition demo_instance :: connector_instance where
  "demo_instance = \<lparr>ci_id = ''i1'', ci_connector_id = ''okta'', ci_manifest_version = ''1.2.0'', ci_display_name = ''Okta'',
     ci_enabled = True, ci_config = [(''url'', JStr ''https://x'')], ci_secret_ref = [(''api_token'', ''s_api_token'')],
     ci_last_test_at = None, ci_last_test_status = None, ci_last_test_error = [], ci_last_success_at = None,
     ci_last_failure_at = None, ci_last_error_summary = [], ci_created_by_user_id = ''u1''\<rparr>"

definition demo_connectors :: connector_state where
  "demo_connectors = (case demo_installed of Inl _ \<Rightarrow> no_connectors | Inr (inst, st) \<Rightarrow> set_connector_instance_enabled inst True demo_actor st)"

definition demo_env :: run_env where
  "demo_env = \<lparr>rn_crypto = demo_crypto, rn_started_at = Datetime (Date 2026 1 1) 0, rn_finished_at = Datetime (Date 2026 1 1) 0,
     rn_execution_id = ''e1'', rn_snapshot_id = ''v1'', rn_person_ids = (\<lambda>n. ''p'' @ str_int (int n)),
     rn_triggered_by = ''manual'', rn_actor_id = None, rn_str = (\<lambda>e. ''error'')\<rparr>"

definition demo_connector :: "(string \<times> json) list \<Rightarrow> connector_result result" where
  "demo_connector config =
     (if map_of config ''api_token'' = Some (JStr ''t0k'')
      then Inr (demo_result ''identity.population'' [(''users'', JArr [JObj [(''email'', JStr ''Bob@x ''), (''suspended'', JBool False)]])])
      else Inl (ValueError ''denied''))"

definition demo_run :: "(connector_execution \<times> connector_state) result" where
  "demo_run = run_connector_instance demo_env demo_instance demo_manifest demo_connector ''k1'' demo_connectors demo_connectors"

lemma demo_installed_ok: "\<exists>inst st. demo_installed = Inr (inst, st)"
proof -
  have "case demo_installed of Inl _ \<Rightarrow> False | Inr _ \<Rightarrow> True" by code_simp
  then show ?thesis by (simp split: sum.splits) (metis prod.exhaust)
qed

lemma demo_instance_installed: "row_get ci_id ''i1'' (cn_instances demo_connectors) = Some demo_instance"
  by code_simp

lemma Inr_pairI: "case r of Inl _ \<Rightarrow> False | Inr (x, st) \<Rightarrow> P x st \<Longrightarrow> \<exists>x st. r = Inr (x, st) \<and> P x st"
  by (cases r) auto

lemma demo_run_ok: "\<exists>x st. demo_run = Inr (x, st) \<and> map pe_email (people (cn_db st)) = [''bob@x'']"
proof (rule Inr_pairI)
  show "case demo_run of Inl _ \<Rightarrow> False | Inr (x, st) \<Rightarrow> map pe_email (people (cn_db st)) = [''bob@x'']" by code_simp
qed

section \<open>Properties\<close>

lemma collect_Inr:
  assumes "collect env m f config = Inr (res, p)"
  shows "f config = Inr res \<and> validate_result res m = Inr ()"
proof (cases "f config")
  case (Inl e)
  with assms show ?thesis by (simp add: collect_def)
next
  case (Inr r)
  then have c: "collect env m f config = rbind (validate_result r m) (\<lambda>_.
       case ingestion_dispatch (cy_sha256 (rn_crypto env)) (rn_snapshot_id env) (re_capability r) of
         None \<Rightarrow> Inl (ConnectorLifecycleError ''no ingestion path registered for capability'')
       | Some ingest \<Rightarrow> rbind (ingest r m) (\<lambda>p. Inr (r, p)))"
    by (simp add: collect_def)
  show ?thesis
  proof (cases "validate_result r m")
    case (Inr u)
    with assms c have "r = res"
      by (cases "ingestion_dispatch (cy_sha256 (rn_crypto env)) (rn_snapshot_id env) (re_capability r)") simp_all
    with \<open>f config = Inr r\<close> Inr show ?thesis by simp
  qed (use assms c in simp)
qed

lemma plan_upgrade_Inr:
  assumes "plan_connector_instance_upgrade inst m0 m1 = Inr plan"
  shows "up_from_version plan = cm_version m0 \<and> up_to_version plan = cm_version m1 \<and>
    up_to_capabilities plan = cm_capabilities m1 \<and> up_to_required_permissions plan = cm_required_permissions m1 \<and>
    (\<exists>v w. semver_tuple (cm_version m0) = Inr v \<and> semver_tuple (cm_version m1) = Inr w \<and>
       up_direction plan = (if v < w then Upgrade_direction else if w < v then Downgrade else Same))"
proof -
  have "\<not> cm_connector_id m1 \<noteq> ci_connector_id inst"
    using assms by (cases "cm_connector_id m1 = ci_connector_id inst") (simp_all add: plan_connector_instance_upgrade_def)
  then obtain v w where "semver_tuple (cm_version m0) = Inr v" "semver_tuple (cm_version m1) = Inr w"
      "plan = \<lparr>up_connector_id = ci_connector_id inst, up_from_version = cm_version m0, up_to_version = cm_version m1,
         up_direction = (if v < w then Upgrade_direction else if w < v then Downgrade else Same),
         up_new_capabilities = filter (\<lambda>c. c \<notin> set (cm_capabilities m0)) (cm_capabilities m1),
         up_new_required_permissions = filter (\<lambda>x. x \<notin> set (cm_required_permissions m0)) (cm_required_permissions m1),
         up_to_capabilities = cm_capabilities m1, up_to_required_permissions = cm_required_permissions m1\<rparr>"
    using assms unfolding plan_connector_instance_upgrade_def by (simp only: if_False rbind_eq_Inr_iff sum.inject) blast
  then show ?thesis by (intro conjI exI) simp_all
qed

lemma apply_upgrade_Inr:
  assumes "apply_connector_instance_upgrade show inst plan m actor allow st = Inr st'"
  shows "ci_manifest_version inst = up_from_version plan \<and> (up_direction plan = Downgrade \<longrightarrow> allow) \<and>
    cm_connector_id m = ci_connector_id inst \<and> cm_version m = up_to_version plan \<and> cm_capabilities m = up_to_capabilities plan \<and>
    cm_required_permissions m = up_to_required_permissions plan \<and>
    cn_instances st' = row_upd ci_id (ci_id inst) (\<lambda>r. r\<lparr>ci_manifest_version := cm_version m\<rparr>) (cn_instances st)"
  using assms by (auto simp: apply_connector_instance_upgrade_def split: if_split_asm)

lemma required_secrets_given:
  "validate_config_against_schema fs config vs {} = Inr () \<Longrightarrow>
     \<forall>f\<in>set fs. cf_secret f \<longrightarrow> cf_required f \<longrightarrow> get_secret_value vs (cf_name f) \<noteq> []"
  by (induction fs) (simp_all add: Let_def split: if_split_asm)

text \<open>
  C27. The connector tables stay well formed through any sequence of operations: ids, secret names
  and idempotency keys are unique, every execution belongs to an installed instance and has a
  known trigger and outcome, every secret a configuration refers to is stored, and every installed
  version is a version number.
\<close>

theorem connector_tables_wf:
  assumes "(connector_step crypt)\<^sup>*\<^sup>* st st'" and "wf_connectors st"
  shows "wf_connectors st'"
  using assms by (induction rule: rtranclp_induct) (auto intro: connector_step_wf)

theorem connector_tables_wf_witness: "wf_connectors demo_connectors"
proof -
  obtain inst st where i: "demo_installed = Inr (inst, st)" using demo_installed_ok by blast
  have "connector_step demo_crypto no_connectors st"
    using i unfolding demo_installed_def by (rule connector_step.install)
  moreover have "connector_step demo_crypto st demo_connectors"
  proof -
    have row: "row_get ci_id ''i1'' (cn_instances st) = Some inst"
      using i by (auto simp: demo_installed_def no_connectors_def row_get_append row_get_None_iff [THEN iffD2] dest!: install_connector_instance_Inr)
    have d: "demo_connectors = set_connector_instance_enabled inst True demo_actor st"
      by (simp add: demo_connectors_def i)
    show ?thesis unfolding d by (rule connector_step.enable [OF row])
  qed
  ultimately have "(connector_step demo_crypto)\<^sup>*\<^sup>* no_connectors demo_connectors"
    by (blast intro: converse_rtranclp_into_rtranclp)
  moreover have "wf_connectors no_connectors" by (simp add: wf_connectors_def no_connectors_def)
  ultimately show ?thesis by (rule connector_tables_wf)
qed

text \<open>
  C26. A run of a connector is atomic. Only an enabled instance runs. Under a known idempotency key
  the earlier execution is returned and nothing changes. When the connector, the validation or
  the ingestion fails, the only rows written on the committed state are the failed execution and
  the health of the instance. Otherwise the result has a declared capability, a known status, at most 20000
  characters and no secret-shaped dictionary key, and the database is the one the flush of the
  ingested rows gives.
\<close>

theorem connector_run_atomic:
  assumes "run_connector_instance env inst m f key committed st = Inr (x, st')"
  shows "ci_enabled inst \<and>
    (row_get execution_slot (ci_id inst, key) (cn_executions st) = Some x \<and> st' = st \<or>
     row_get execution_slot (ci_id inst, key) (cn_executions st) = None \<and> execution_slot x = (ci_id inst, key) \<and>
     ((\<exists>e. collect env m f (resolve_connector_config (rn_crypto env) inst st) = Inl e \<and>
         ce_status x \<in> {''error'', ''failure''} \<and> cn_db st' = cn_db committed \<and> cn_secrets st' = cn_secrets committed \<and>
         cn_executions st' = cn_executions committed @ [x] \<and>
         cn_instances st' = row_upd ci_id (ci_id inst) (\<lambda>r. r\<lparr>ci_last_failure_at := Some (rn_finished_at env),
           ci_last_error_summary := take 2000 (rn_str env e)\<rparr>) (cn_instances committed)) \<or>
      (\<exists>res p. f (resolve_connector_config (rn_crypto env) inst st) = Inr res \<and>
         re_capability res \<in> set (cm_capabilities m) \<and> re_status res \<in> set evidence_statuses \<and>
         length (json_dumps (JObj (re_normalized_payload res))) \<le> 20000 \<and>
         (\<forall>k. dict_key (JObj (re_normalized_payload res)) k \<longrightarrow> \<not> secret_shaped k) \<and>
         ce_status x = ''success'' \<and> cn_executions st' = cn_executions st @ [x] \<and> cn_secrets st' = cn_secrets st \<and>
         cn_instances st' = row_upd ci_id (ci_id inst) (\<lambda>r. r\<lparr>ci_last_success_at := Some (rn_finished_at env)\<rparr>) (cn_instances st) \<and>
         collect env m f (resolve_connector_config (rn_crypto env) inst st) = Inr (res, p) \<and>
         flush_pending (rn_person_ids env) p (cn_db st) = Inr (cn_db st'))))"
proof -
  have en: "ci_enabled inst" and out: "run_outcome env inst m f key committed st x st'"
    using run_connector_instance_outcome [OF assms] by simp_all
  from out show ?thesis
  proof cases
    case repeated
    with en show ?thesis by simp
  next
    case (failed e st1)
    have "execution_slot x = (ci_id inst, key) \<and> ce_status x \<in> {''error'', ''failure''} \<and> ce_error_summary x = take 2000 (rn_str env e)"
      by (simp add: failed(4) execution_slot_def new_execution_def)
    then show ?thesis
      using en failed(1-3) insert_connector_execution_Inr [OF failed(5)] by auto
  next
    case (succeeded res p db1 st1)
    have x: "execution_slot x = (ci_id inst, key) \<and> ce_status x = ''success''"
      by (simp add: succeeded(4) execution_slot_def new_execution_def)
    have v: "f (resolve_connector_config (rn_crypto env) inst st) = Inr res" "validate_result res m = Inr ()"
      using collect_Inr [OF succeeded(3)] by simp_all
    show ?thesis
      using en succeeded(1-3,5) x v(1) validate_result_Inr [OF v(2)] insert_connector_execution_Inr [OF succeeded(6)] by simp
  qed
qed

theorem connector_run_atomic_witness:
  "\<exists>x st. demo_run = Inr (x, st) \<and> cn_executions st = [x] \<and> ce_status x = ''success'' \<and> map pe_email (people (cn_db st)) = [''bob@x'']"
proof -
  obtain x st where r: "demo_run = Inr (x, st)" "map pe_email (people (cn_db st)) = [''bob@x'']" using demo_run_ok by (elim exE conjE)
  have d: "people (cn_db demo_connectors) = []" "cn_executions demo_connectors = []" by code_simp+
  have "cn_executions st = [x] \<and> ce_status x = ''success''"
    using connector_run_atomic [OF r(1) [unfolded demo_run_def]] r(2) d by auto
  with r show ?thesis by (metis (no_types))
qed

text \<open>
  A plan that was made and is applied without \<open>allow_downgrade\<close> only moves an instance that is
  still at the planned version, only to the reviewed version, capabilities and permissions of the
  same connector, and never to a lower version.
\<close>

theorem upgrade_no_silent_downgrade:
  assumes "plan_connector_instance_upgrade inst0 m0 m1 = Inr plan"
    and "apply_connector_instance_upgrade show inst plan m actor False st = Inr st'"
  shows "ci_manifest_version inst = cm_version m0 \<and> cm_connector_id m = ci_connector_id inst \<and>
    cm_version m = cm_version m1 \<and> cm_capabilities m = cm_capabilities m1 \<and>
    cm_required_permissions m = cm_required_permissions m1 \<and>
    (\<exists>v w. semver_tuple (ci_manifest_version inst) = Inr v \<and> semver_tuple (cm_version m) = Inr w \<and> v \<le> w) \<and>
    cn_instances st' = row_upd ci_id (ci_id inst) (\<lambda>r. r\<lparr>ci_manifest_version := cm_version m1\<rparr>) (cn_instances st)"
proof -
  obtain v w where vw: "semver_tuple (cm_version m0) = Inr v" "semver_tuple (cm_version m1) = Inr w"
      "up_direction plan = (if v < w then Upgrade_direction else if w < v then Downgrade else Same)"
    using plan_upgrade_Inr [OF assms(1)] by blast
  have "v \<le> w"
  proof (rule ccontr)
    assume "\<not> v \<le> w"
    then have "w < v" "\<not> v < w" by (simp_all only: not_le not_less order_less_imp_le)
    then show False using vw(3) apply_upgrade_Inr [OF assms(2)] by (simp only: if_True if_False simp_thms)
  qed
  moreover have "ci_manifest_version inst = cm_version m0" "cm_version m = cm_version m1"
    using plan_upgrade_Inr [OF assms(1)] apply_upgrade_Inr [OF assms(2)] by simp_all
  ultimately have "\<exists>v w. semver_tuple (ci_manifest_version inst) = Inr v \<and> semver_tuple (cm_version m) = Inr w \<and> v \<le> w"
    using vw(1,2) by simp
  then show ?thesis
    using plan_upgrade_Inr [OF assms(1)] apply_upgrade_Inr [OF assms(2)] by (simp only: simp_thms)
qed

theorem upgrade_no_silent_downgrade_witness:
  "\<exists>plan st'. plan_connector_instance_upgrade demo_instance demo_manifest (demo_manifest\<lparr>cm_version := ''1.10.0''\<rparr>) = Inr plan \<and>
     apply_connector_instance_upgrade concat demo_instance plan (demo_manifest\<lparr>cm_version := ''1.10.0''\<rparr>) demo_actor False demo_connectors = Inr st' \<and>
     map ci_manifest_version (cn_instances st') = [''1.10.0'']"
proof -
  have "case plan_connector_instance_upgrade demo_instance demo_manifest (demo_manifest\<lparr>cm_version := ''1.10.0''\<rparr>) of Inl _ \<Rightarrow> False
     | Inr plan \<Rightarrow> (case apply_connector_instance_upgrade concat demo_instance plan (demo_manifest\<lparr>cm_version := ''1.10.0''\<rparr>) demo_actor False
         demo_connectors of Inl _ \<Rightarrow> False | Inr _ \<Rightarrow> True)" by code_simp
  then obtain plan st' where p: "plan_connector_instance_upgrade demo_instance demo_manifest (demo_manifest\<lparr>cm_version := ''1.10.0''\<rparr>) = Inr plan"
      and a: "apply_connector_instance_upgrade concat demo_instance plan (demo_manifest\<lparr>cm_version := ''1.10.0''\<rparr>) demo_actor False demo_connectors = Inr st'"
    by (auto split: sum.splits)
  have "map (\<lambda>r. (ci_id r, ci_manifest_version r)) (cn_instances demo_connectors) = [(''i1'', ''1.2.0'')]" by code_simp
  then obtain r where "cn_instances demo_connectors = [r]" "ci_id r = ''i1''" by auto
  with upgrade_no_silent_downgrade [OF p a] p a show ?thesis by (simp add: demo_instance_def)
qed

text \<open>
  When decryption inverts encryption, a freshly installed instance is disabled, every secret value it was given
  is what its connector reads, and no required secret is missing.
\<close>

theorem installed_secrets_resolve:
  assumes "install_connector_instance crypt ids i m name config vs actor st = Inr (inst, st')"
    and "\<And>p c. cy_encrypt crypt p = Some c \<Longrightarrow> cy_decrypt crypt c = Some p"
  shows "\<not> ci_enabled inst \<and> (\<forall>f\<in>set (cm_config_schema m). cf_secret f \<longrightarrow>
    (cf_required f \<longrightarrow> get_secret_value vs (cf_name f) \<noteq> []) \<and>
    (get_secret_value vs (cf_name f) \<noteq> [] \<longrightarrow>
       map_of (resolve_connector_config crypt inst st') (cf_name f) = Some (JStr (get_secret_value vs (cf_name f)))))"
proof -
  obtain refs st1 where v: "validate_manifest m = Inr ()" and cfg: "validate_config_against_schema (cm_config_schema m) config vs {} = Inr ()"
      and refs: "store_secret_refs crypt ids (cm_connector_id m) (cm_config_schema m) vs actor st = Inr (refs, st1)"
      and inst: "\<not> ci_enabled inst" "ci_secret_ref inst = stored refs" and st': "cn_secrets st' = cn_secrets st1"
    using install_connector_instance_Inr [OF assms(1)] by blast
  have "distinct (map cf_name (cm_config_schema m))"
    using v check_config_schema_distinct [of "{}" "cm_config_schema m"] by (simp add: validate_manifest_def split: if_splits)
  note l = store_secret_refs_lookup [OF refs this]
  then have d: "distinct (map fst (stored refs))" and s: "map_of (stored refs) = map_of refs"
    by (simp_all add: map_of_stored) (simp add: distinct_map stored_def)
  have "map_of (resolve_connector_config crypt inst st') (cf_name f) = Some (JStr (get_secret_value vs (cf_name f)))"
    if f: "f \<in> set (cm_config_schema m)" "cf_secret f" "get_secret_value vs (cf_name f) \<noteq> []" for f
  proof -
    obtain sid r e where "map_of refs (cf_name f) = Some sid" "row_get sk_id sid (cn_secrets st1) = Some r" "sk_value r = Encrypted e"
        "cy_encrypt crypt (get_secret_value vs (cf_name f)) = Some e"
      using l [THEN conjunct2, THEN conjunct2, THEN conjunct2, rule_format, OF f(1) conjI, OF f(2,3)] by (elim exE conjE)
    then show ?thesis
      by (simp add: resolve_connector_config_def inst st' map_of_resolved [OF d] s resolved_def resolve_secret_def assms(2))
  qed
  then show ?thesis using inst required_secrets_given [OF cfg] by blast
qed

theorem installed_secrets_resolve_witness:
  "\<exists>inst st. demo_installed = Inr (inst, st) \<and> \<not> ci_enabled inst \<and>
     map_of (resolve_connector_config demo_crypto inst st) ''api_token'' = Some (JStr ''t0k'')"
proof -
  obtain inst st where i: "demo_installed = Inr (inst, st)" using demo_installed_ok by blast
  have "\<not> ci_enabled inst \<and> map_of (resolve_connector_config demo_crypto inst st) ''api_token'' = Some (JStr ''t0k'')"
    using installed_secrets_resolve [OF i [unfolded demo_installed_def]]
    by (simp add: demo_crypto_def demo_manifest_def get_secret_value_def)
  with i show ?thesis by blast
qed

end
