(* ===== verification/History.thy ===== *)
theory History
  imports Policy_Lifecycle
begin

text \<open>
  \<open>src/app/history.py\<close>: the event listing of one aggregate and the point-in-time reconstruction
  of the versions of a policy, which replays the events up to a cutoff into snapshots in memory
  with appliers of its own. A snapshot groups its lifecycle fields as the model's versions do.
  The reconstruction is proved to show the columns as they were at the cutoff.
\<close>

section \<open>The event listing\<close>

definition history_key :: "domain_event \<Rightarrow> datetime \<times> int" where
  "history_key e = (ev_recorded_at e, ev_aggregate_sequence e)"

definition get_event_history :: "string \<Rightarrow> string \<Rightarrow> db \<Rightarrow> domain_event list" where
  "get_event_history aggregate_type aggregate_id s =
     sort_key history_key
       (filter (\<lambda>e. ev_aggregate_type e = aggregate_type \<and> ev_aggregate_id e = aggregate_id) (domain_events s))"

section \<open>Snapshots\<close>

record policy_version_snapshot =
  sn_version_id :: string
  sn_version_number :: int
  sn_lc :: lifecycle

type_synonym applier = "policy_version_snapshot \<Rightarrow> domain_event \<Rightarrow> policy_version_snapshot result"

definition apply_submitted_for_review :: applier where
  "apply_submitted_for_review snapshot event =
     Inr (snapshot\<lparr>sn_lc := (sn_lc snapshot)\<lparr>lc_status := In_review, lc_submitted_by := ev_actor_id event,
            lc_submitted_at := Some (ev_occurred_at event)\<rparr>\<rparr>)"

definition apply_reviewed :: applier where
  "apply_reviewed snapshot event =
     rbind (req_str ''decision'' (ev_payload event)) (\<lambda>decision.
     rbind (str_or [] ''comment'' (ev_payload event)) (\<lambda>comment.
       Inr (snapshot\<lparr>sn_lc := (sn_lc snapshot)\<lparr>lc_reviewed_by := ev_actor_id event,
              lc_reviewed_at := Some (ev_occurred_at event), lc_review_decision := Some decision,
              lc_review_comment := comment, lc_status := (if decision = ''approved'' then Approved else Draft)\<rparr>\<rparr>)))"

definition apply_made_effective :: applier where
  "apply_made_effective snapshot event =
     Inr (snapshot\<lparr>sn_lc := (sn_lc snapshot)\<lparr>lc_status := Effective, lc_effective_at := Some (ev_occurred_at event)\<rparr>\<rparr>)"

definition apply_superseded :: applier where
  "apply_superseded snapshot event =
     rbind (req_str ''superseded_by_version_id'' (ev_payload event)) (\<lambda>by_id.
       Inr (snapshot\<lparr>sn_lc := (sn_lc snapshot)\<lparr>lc_status := Superseded, lc_superseded_at := Some (ev_occurred_at event),
              lc_superseded_by_version_id := Some by_id\<rparr>\<rparr>))"

definition apply_withdrawn :: applier where
  "apply_withdrawn snapshot event =
     rbind (str_or [] ''reason'' (ev_payload event)) (\<lambda>reason.
       Inr (snapshot\<lparr>sn_lc := (sn_lc snapshot)\<lparr>lc_status := Withdrawn, lc_withdrawn_at := Some (ev_occurred_at event),
              lc_withdrawn_reason := reason\<rparr>\<rparr>))"

definition snapshot_appliers :: "string \<rightharpoonup> applier" where
  "snapshot_appliers =
     [''PolicyVersionSubmittedForReview'' \<mapsto> apply_submitted_for_review,
      ''PolicyVersionReviewed'' \<mapsto> apply_reviewed,
      ''PolicyVersionMadeEffective'' \<mapsto> apply_made_effective,
      ''PolicyVersionSuperseded'' \<mapsto> apply_superseded,
      ''PolicyVersionWithdrawn'' \<mapsto> apply_withdrawn]"

text \<open>One round of the replay loop, on the dictionary of snapshots by version id.\<close>

definition apply_event :: "policy_version_snapshot list \<Rightarrow> domain_event \<Rightarrow> policy_version_snapshot list result" where
  "apply_event snapshots event =
     (case snapshot_appliers (ev_event_type event) of
        None \<Rightarrow> Inl (KeyError (ev_event_type event))
      | Some applier \<Rightarrow>
          (case row_get sn_version_id (ev_aggregate_id event) snapshots of
             None \<Rightarrow> Inl (KeyError (ev_aggregate_id event))
           | Some snapshot \<Rightarrow> rbind (applier snapshot event) (\<lambda>snapshot'.
               Inr (row_upd sn_version_id (ev_aggregate_id event) (\<lambda>_. snapshot') snapshots))))"

definition initial_snapshot :: "policy_version \<Rightarrow> policy_version_snapshot" where
  "initial_snapshot v = \<lparr>sn_version_id = pv_id v, sn_version_number = pv_version_number v, sn_lc = lifecycle_defaults\<rparr>"

definition reconstruct_policy_as_of :: "string \<Rightarrow> datetime \<Rightarrow> db \<Rightarrow> policy_version_snapshot list result" where
  "reconstruct_policy_as_of policy_id as_of s =
     (let versions = filter (\<lambda>v. pv_policy_id v = policy_id \<and> pv_created_at v \<le> as_of) (policy_versions s);
          events = sort_key history_key (filter (\<lambda>e. ev_aggregate_type e = ''policy_version'' \<and>
            ev_aggregate_id e \<in> pv_id ` set versions \<and> ev_occurred_at e \<le> as_of) (domain_events s))
      in if versions = [] then Inr []
         else rbind (rfold apply_event events (map initial_snapshot versions)) (\<lambda>snapshots.
                Inr (sort_key sn_version_number snapshots)))"

section \<open>The listing is the append order\<close>

lemma event_history_in_order:
  assumes wf: "wf_events (domain_events s)" and clock: "sorted (map ev_recorded_at (agg_events at aid (domain_events s)))"
  shows "get_event_history at aid s = agg_events at aid (domain_events s)"
proof -
  let ?es = "agg_events at aid (domain_events s)"
  have "sorted (map int [1..<Suc (length ?es)])" unfolding sorted_map by (simp del: upt_Suc)
  moreover have "map ev_aggregate_sequence ?es = map int [1..<Suc (length ?es)]" using wf by (simp add: wf_events_def)
  ultimately have "sorted (map ev_aggregate_sequence ?es)" by (simp only:)
  with clock have "sorted (map history_key ?es)"
    by (auto simp: sorted_iff_nth_mono history_key_def less_eq_prod_def order_le_less)
  then show ?thesis by (simp add: get_event_history_def agg_events_def sorted_sort_id sort_key_id_if_sorted)
qed

section \<open>Replaying in memory follows the projectors\<close>

definition snapshot_of :: "policy_version \<Rightarrow> policy_version_snapshot" where
  "snapshot_of v = \<lparr>sn_version_id = pv_id v, sn_version_number = pv_version_number v, sn_lc = pv_lc v\<rparr>"

lemmas applier_defs =
  apply_submitted_for_review_def apply_reviewed_def apply_made_effective_def apply_superseded_def apply_withdrawn_def

lemma applier_columns:
  "apply_submitted_for_review (snapshot_of v) e = Inr (snapshot_of (v\<lparr>pv_lc := lc_submitted e (pv_lc v)\<rparr>))"
  "apply_made_effective (snapshot_of v) e = Inr (snapshot_of (v\<lparr>pv_lc := lc_made_effective e (pv_lc v)\<rparr>))"
  "apply_reviewed (snapshot_of v) e = rbind (req_str ''decision'' (ev_payload e)) (\<lambda>d. rbind (str_or [] ''comment'' (ev_payload e)) (\<lambda>c.
     Inr (snapshot_of (v\<lparr>pv_lc := lc_reviewed e d c (pv_lc v)\<rparr>))))"
  "apply_superseded (snapshot_of v) e = rbind (req_str ''superseded_by_version_id'' (ev_payload e)) (\<lambda>b.
     Inr (snapshot_of (v\<lparr>pv_lc := lc_superseded e b (pv_lc v)\<rparr>)))"
  "apply_withdrawn (snapshot_of v) e = rbind (str_or [] ''reason'' (ev_payload e)) (\<lambda>r.
     Inr (snapshot_of (v\<lparr>pv_lc := lc_withdrawn e r (pv_lc v)\<rparr>)))"
  by (simp_all add: applier_defs snapshot_of_def lc_submitted_def lc_reviewed_def lc_made_effective_def lc_superseded_def lc_withdrawn_def)

text \<open>Both dictionaries have an entry for an event, and the entries change a version alike.\<close>

inductive changes_alike :: "db \<Rightarrow> domain_event \<Rightarrow> db \<Rightarrow> bool" for s e s' where
  "snapshot_appliers (ev_event_type e) = Some ap \<Longrightarrow> row_get pv_id (ev_aggregate_id e) (policy_versions s) = Some v \<Longrightarrow>
   s' = upd_policy_version (ev_aggregate_id e) f s \<Longrightarrow>
   ap (snapshot_of v) e = Inr (snapshot_of (v\<lparr>pv_lc := f (pv_lc v)\<rparr>)) \<Longrightarrow> changes_alike s e s'"

lemma projector_as_applier:
  assumes "run_projector policy_version_projectors s e = Inr s'"
  shows "changes_alike s e s'"
  using assms
  by (auto simp: run_projector_def policy_version_projectors_def policy_projector_defs applier_columns snapshot_appliers_def
      split: if_splits intro: changes_alike.intros)

text \<open>The rows a reconstruction looks at are chosen by columns that no lifecycle event changes.\<close>

definition version_key :: "policy_version \<Rightarrow> string \<times> string \<times> int \<times> datetime" where
  "version_key v = (pv_id v, pv_policy_id v, pv_version_number v, pv_created_at v)"

definition kept :: "(string \<times> string \<times> int \<times> datetime \<Rightarrow> bool) \<Rightarrow> db \<Rightarrow> policy_version list" where
  "kept Q s = filter (\<lambda>v. Q (version_key v)) (policy_versions s)"

lemma row_upd_kept:
  "kept Q (s\<lparr>policy_versions := row_upd pv_id i (\<lambda>r. r\<lparr>pv_lc := f (pv_lc r)\<rparr>) (policy_versions s)\<rparr>) =
     row_upd pv_id i (\<lambda>r. r\<lparr>pv_lc := f (pv_lc r)\<rparr>) (kept Q s)"
  by (simp add: kept_def row_upd_def filter_map o_def version_key_def if_distrib cong: if_cong filter_cong)

lemma apply_event_projects:
  assumes run: "run_projector policy_version_projectors s e = Inr s'"
    and uniq: "unique_by pv_id (policy_versions s)" and e: "ev_aggregate_id e \<in> pv_id ` set (kept Q s)"
  shows "apply_event (map snapshot_of (kept Q s)) e = Inr (map snapshot_of (kept Q s'))"
proof -
  obtain ap v f where a: "snapshot_appliers (ev_event_type e) = Some ap"
      and v: "row_get pv_id (ev_aggregate_id e) (policy_versions s) = Some v"
      and s': "s' = upd_policy_version (ev_aggregate_id e) f s"
      and ap: "ap (snapshot_of v) e = Inr (snapshot_of (v\<lparr>pv_lc := f (pv_lc v)\<rparr>))"
    using projector_as_applier [OF run] by (elim changes_alike.cases)
  have vin: "v \<in> set (policy_versions s)" "pv_id v = ev_aggregate_id e" using row_get_SomeD [OF v] by simp_all
  have only: "r = v" if "r \<in> set (policy_versions s)" "pv_id r = ev_aggregate_id e" for r
    using unique_by_eqD [OF uniq that(1) vin(1)] that(2) vin(2) by simp
  then have kv: "v \<in> set (kept Q s)" using e by (auto simp: kept_def)
  have "unique_by sn_version_id (map snapshot_of (kept Q s))"
    using uniq by (simp add: unique_by_def kept_def o_def snapshot_of_def distinct_map_filter)
  moreover have "snapshot_of v \<in> set (map snapshot_of (kept Q s))" using kv by simp
  ultimately have "row_get sn_version_id (sn_version_id (snapshot_of v)) (map snapshot_of (kept Q s)) = Some (snapshot_of v)"
    by (rule row_get_unique)
  then have get: "row_get sn_version_id (ev_aggregate_id e) (map snapshot_of (kept Q s)) = Some (snapshot_of v)"
    using vin(2) by (simp add: snapshot_of_def)
  have "kept Q s' = row_upd pv_id (ev_aggregate_id e) (\<lambda>r. r\<lparr>pv_lc := f (pv_lc r)\<rparr>) (kept Q s)"
    using row_upd_kept [of Q "ev_aggregate_id e" f s] by (simp add: kept_def s' upd_policy_version_def)
  moreover have "row_upd sn_version_id (ev_aggregate_id e) (\<lambda>_. snapshot_of (v\<lparr>pv_lc := f (pv_lc v)\<rparr>)) (map snapshot_of (kept Q s)) =
      map snapshot_of (row_upd pv_id (ev_aggregate_id e) (\<lambda>r. r\<lparr>pv_lc := f (pv_lc r)\<rparr>) (kept Q s))"
    using only by (auto simp: row_upd_def kept_def snapshot_of_def)
  ultimately show ?thesis by (simp add: apply_event_def a get ap)
qed

lemma skipped_event:
  assumes run: "run_projector policy_version_projectors s e = Inr s'" and e: "ev_aggregate_id e \<notin> pv_id ` set (kept Q s)"
  shows "kept Q s' = kept Q s"
proof -
  obtain f where "s' = upd_policy_version (ev_aggregate_id e) f s"
    using projector_as_applier [OF run] by (elim changes_alike.cases)
  then have "kept Q s' = row_upd pv_id (ev_aggregate_id e) (\<lambda>r. r\<lparr>pv_lc := f (pv_lc r)\<rparr>) (kept Q s)"
    using row_upd_kept [of Q "ev_aggregate_id e" f s] by (simp add: kept_def upd_policy_version_def)
  also have "\<dots> = kept Q s" using e by (intro row_upd_absent) (simp add: has_row_image)
  finally show ?thesis .
qed

lemma run_keeps_keys:
  "run_projector policy_version_projectors s e = Inr s' \<Longrightarrow> map version_key (policy_versions s') = map version_key (policy_versions s)"
  by (drule projector_as_applier) (auto simp: version_key_def upd_policy_version_def row_upd_def elim: changes_alike.cases)

lemma keys_ids:
  assumes "map version_key (policy_versions s') = map version_key (policy_versions s)"
  shows "map pv_id (policy_versions s') = map pv_id (policy_versions s) \<and> pv_id ` set (kept Q s') = pv_id ` set (kept Q s)"
proof
  have "map pv_id (policy_versions t) = map fst (map version_key (policy_versions t))" for t :: db
    by (simp add: version_key_def)
  with assms show "map pv_id (policy_versions s') = map pv_id (policy_versions s)" by (simp only:)
  have "pv_id ` set (kept Q t) = fst ` {k \<in> set (map version_key (policy_versions t)). Q k}" for t :: db
    by (force simp: kept_def version_key_def)
  with assms show "pv_id ` set (kept Q s') = pv_id ` set (kept Q s)" by (simp only:)
qed

lemma replay_in_memory:
  "rfold (run_projector policy_version_projectors) es s = Inr s' \<Longrightarrow> unique_by pv_id (policy_versions s) \<Longrightarrow>
     rfold apply_event (filter (\<lambda>e. ev_aggregate_id e \<in> pv_id ` set (kept Q s)) es) (map snapshot_of (kept Q s)) =
       Inr (map snapshot_of (kept Q s'))"
proof (induction es arbitrary: s)
  case (Cons e es)
  then obtain s1 where run: "run_projector policy_version_projectors s e = Inr s1"
      and rest: "rfold (run_projector policy_version_projectors) es s1 = Inr s'"
    by auto
  note ids = keys_ids [OF run_keeps_keys [OF run], of Q]
  have "unique_by pv_id (policy_versions s1)" using Cons.prems(2) ids by (simp add: unique_by_def)
  note IH = Cons.IH [OF rest this]
  show ?case
  proof (cases "ev_aggregate_id e \<in> pv_id ` set (kept Q s)")
    case True
    with IH ids apply_event_projects [OF run Cons.prems(2) True] show ?thesis by simp
  next
    case False
    with IH ids skipped_event [OF run False] show ?thesis by simp
  qed
qed simp

section \<open>Two sort keys\<close>

lemma insort_key_agree:
  "(\<And>y. y \<in> set ys \<Longrightarrow> f x \<le> f y \<longleftrightarrow> g x \<le> g y) \<Longrightarrow> insort_key f x ys = insort_key g x ys"
  by (induction ys) auto

lemma sort_key_agree:
  "(\<And>x y. x \<in> set xs \<Longrightarrow> y \<in> set xs \<Longrightarrow> f x \<le> f y \<longleftrightarrow> g x \<le> g y) \<Longrightarrow> sort_key f xs = sort_key g xs"
proof (induction xs)
  case (Cons x xs)
  then have "sort_key f xs = sort_key g xs" by simp
  moreover have "insort_key f x (sort_key g xs) = insort_key g x (sort_key g xs)"
    by (rule insort_key_agree) (simp add: Cons.prems)
  ultimately show ?case by (simp only: sort_key_simps)
qed simp

text \<open>Events with distinct recording times are replayed in the order they are listed.\<close>

lemma history_replay_order:
  assumes "distinct (map ev_recorded_at es)"
  shows "sort_key history_key es = sort_key replay_key es"
proof (rule sort_key_agree)
  fix x y assume "x \<in> set es" "y \<in> set es"
  then have "x = y \<or> ev_recorded_at x \<noteq> ev_recorded_at y" using assms by (auto simp: distinct_map inj_on_def)
  then show "history_key x \<le> history_key y \<longleftrightarrow> replay_key x \<le> replay_key y"
    by (auto simp: history_key_def replay_key_def less_eq_prod_def)
qed

section \<open>Later requests are after the cutoff\<close>

definition dated_after :: "datetime \<Rightarrow> policy_request \<Rightarrow> bool" where
  "dated_after as_of r =
     (as_of < t_now (px_t1 (fst r)) \<and> as_of < t_now (px_t2 (fst r)) \<and>
      (case fst (snd r) of Withdraw reason (Some at) \<Rightarrow> as_of < at | _ \<Rightarrow> True))"

text \<open>What happened from one state to another is dated after the cutoff and leaves the old rows' keys.\<close>

definition extended_after :: "datetime \<Rightarrow> db \<Rightarrow> db \<Rightarrow> bool" where
  "extended_after as_of s s' \<longleftrightarrow>
     (\<exists>es vs. domain_events s' = domain_events s @ es \<and> list_all (\<lambda>e. as_of < ev_occurred_at e) es \<and>
        map version_key (policy_versions s') = map version_key (policy_versions s) @ vs \<and>
        list_all (\<lambda>(_, _, _, created_at). as_of < created_at) vs)"

lemma extended_after_refl: "extended_after as_of s s"
  by (simp add: extended_after_def)

lemma extended_after_trans: "extended_after as_of s s1 \<Longrightarrow> extended_after as_of s1 s2 \<Longrightarrow> extended_after as_of s s2"
  unfolding extended_after_def by (elim exE conjE) (simp add: exI conjI)

lemma policy_append_extends:
  assumes "policy_append t c s = Inr s'" and "as_of < t_now t" and "\<And>at. c_occurred_at c = Some at \<Longrightarrow> as_of < at"
    and "c_idempotency_key c = None"
  shows "extended_after as_of s s'"
proof -
  obtain e where e: "e = candidate t c (next_aggregate_sequence (domain_events s) (c_aggregate_type c) (c_aggregate_id c))"
      and run: "run_projector policy_version_projectors (s\<lparr>domain_events := domain_events s @ [e]\<rparr>) e = Inr s'"
    using assms(1,4) by (auto simp: policy_append_def append_key_free_iff)
  have "as_of < ev_occurred_at e" using assms(2,3) by (auto simp: e candidate_def split: option.splits)
  moreover have "domain_events s' = domain_events s @ [e]" using policy.run_keeps_events [OF run] by simp
  moreover have "map version_key (policy_versions s') = map version_key (policy_versions s)" using run_keeps_keys [OF run] by simp
  ultimately show ?thesis unfolding extended_after_def by (intro exI [of _ "[e]"] exI [of _ "[]"]) simp
qed

lemma policy_request_extends:
  assumes "policy_request_exec r s = Inr s'" and "dated_after as_of r"
  shows "extended_after as_of s s'"
proof -
  obtain env c v where r: "r = (env, c, v)" by (cases r)
  have t: "as_of < t_now (px_t1 env)" "as_of < t_now (px_t2 env)" using assms(2) by (simp_all add: dated_after_def r)
  have ok: "policy_exec env c v s = Inr s'" using assms(1) by (simp add: policy_request_exec_def r)
  show ?thesis
  proof (cases c)
    case (New_version p)
    let ?t = "(px_t1 env)\<lparr>t_id := v\<rparr>"
    let ?r = "uploaded_version ?t p (next_version_number p s) (px_upload env) (px_note env) (px_email env)"
    have "\<exists>as. s' = s\<lparr>policy_versions := policy_versions s @ [?r], audit_events := audit_events s @ as\<rparr>"
      using ok New_version by (auto simp: policy_exec_def dest!: upload_Inr)
    then show ?thesis unfolding extended_after_def using t(1)
      by (intro exI [of _ "[]"] exI [of _ "[version_key ?r]"]) (auto simp: version_key_def uploaded_version_def)
  next
    case Submit
    with ok t show ?thesis
      by (auto simp: policy_exec_def policy_submit_for_review_def intro: policy_append_extends split: if_splits)
  next
    case (Review d m)
    with ok t show ?thesis
      by (auto simp: policy_exec_def policy_review_version_def intro: policy_append_extends split: if_splits)
  next
    case Make_effective
    then obtain s1 w where
        s1: "s1 = s \<or> policy_append (px_t1 env) (event_command ''policy_version'' w ''PolicyVersionSuperseded''
          [(''superseded_by_version_id'', JStr v)] (px_actor_type env) (px_actor_id env)) s = Inr s1"
      and s': "policy_append (px_t2 env) (event_command ''policy_version'' v ''PolicyVersionMadeEffective'' []
          (px_actor_type env) (px_actor_id env)) s1 = Inr s'"
      using ok by (auto simp: policy_exec_def policy_make_version_effective_def Let_def policy_flush_def split: if_splits option.splits)
    have "extended_after as_of s s1" using s1 t(1) by (auto intro: policy_append_extends extended_after_refl)
    moreover have "extended_after as_of s1 s'" using s' t(2) by (auto intro: policy_append_extends)
    ultimately show ?thesis by (rule extended_after_trans)
  next
    case (Withdraw reason at)
    then obtain c' where "policy_append (px_t1 env) c' s = Inr s'" "c_occurred_at c' = at" "c_idempotency_key c' = None"
      using ok by (fastforce simp: policy_exec_def policy_withdraw_version_def event_command_def split: if_splits)
    then show ?thesis using t(1) assms(2) Withdraw
      by (intro policy_append_extends) (auto simp: dated_after_def r split: option.splits)
  qed
qed

lemma policy_history_extends:
  "rfold (\<lambda>s r. policy_request_exec r s) rs s = Inr s' \<Longrightarrow> list_all (dated_after as_of) rs \<Longrightarrow> extended_after as_of s s'"
proof (induction rs arbitrary: s)
  case (Cons r rs)
  then show ?case by (auto intro: extended_after_trans policy_request_extends)
qed (simp add: extended_after_refl)

section \<open>Reconstruction\<close>

definition in_force :: "string \<Rightarrow> datetime \<Rightarrow> string \<times> string \<times> int \<times> datetime \<Rightarrow> bool" where
  "in_force policy_id as_of k = (fst (snd k) = policy_id \<and> snd (snd (snd k)) \<le> as_of)"

lemma reconstruct_kept:
  "reconstruct_policy_as_of p as_of s =
     (if kept (in_force p as_of) s = [] then Inr []
      else rbind (rfold apply_event (sort_key history_key (filter (\<lambda>e. ev_aggregate_type e = ''policy_version'' \<and>
              ev_aggregate_id e \<in> pv_id ` set (kept (in_force p as_of) s) \<and> ev_occurred_at e \<le> as_of) (domain_events s)))
            (map initial_snapshot (kept (in_force p as_of) s)))
          (\<lambda>snapshots. Inr (sort_key sn_version_number snapshots)))"
proof -
  have "filter (\<lambda>v. pv_policy_id v = p \<and> pv_created_at v \<le> as_of) (policy_versions s) = kept (in_force p as_of) s"
    by (simp add: kept_def in_force_def version_key_def)
  then show ?thesis by (simp only: reconstruct_policy_as_of_def Let_def)
qed

lemma kept_columns:
  "(\<And>v. f v = g (version_key v)) \<Longrightarrow> map f (kept Q s) = map g (filter Q (map version_key (policy_versions s)))"
  by (simp add: kept_def filter_map o_def)

text \<open>A reconstruction sees only what happened up to the cutoff.\<close>

lemma reconstruct_ignores_later:
  assumes "extended_after as_of s s'"
  shows "reconstruct_policy_as_of p as_of s' = reconstruct_policy_as_of p as_of s"
proof -
  let ?Q = "in_force p as_of" let ?V = "kept ?Q"
  obtain es vs where es: "domain_events s' = domain_events s @ es" "list_all (\<lambda>e. as_of < ev_occurred_at e) es"
      and vs: "map version_key (policy_versions s') = map version_key (policy_versions s) @ vs"
        "list_all (\<lambda>(_, _, _, created_at). as_of < created_at) vs"
    using assms unfolding extended_after_def by (elim exE conjE)
  have "filter ?Q vs = []" using vs(2) by (auto simp: filter_empty_conv list_all_iff not_le in_force_def)
  then have same: "filter ?Q (map version_key (policy_versions s')) = filter ?Q (map version_key (policy_versions s))"
    by (simp only: vs(1) filter_append append_Nil2)
  have ids: "map pv_id (?V t) = map fst (filter ?Q (map version_key (policy_versions t)))" for t
    by (rule kept_columns) (simp add: version_key_def)
  have init: "map initial_snapshot (?V t) = map (\<lambda>(i, q, n, c). \<lparr>sn_version_id = i, sn_version_number = n, sn_lc = lifecycle_defaults\<rparr>)
      (filter ?Q (map version_key (policy_versions t)))" for t
    by (rule kept_columns) (simp add: version_key_def initial_snapshot_def)
  have "pv_id ` set (?V t) = set (map pv_id (?V t))" for t by simp
  then have set: "pv_id ` set (?V s') = pv_id ` set (?V s)" by (simp only: ids same)
  have nil: "(?V t = []) = (map pv_id (?V t) = [])" for t by simp
  have "filter (\<lambda>e. ev_aggregate_type e = ''policy_version'' \<and> ev_aggregate_id e \<in> I \<and> ev_occurred_at e \<le> as_of) (domain_events s') =
    filter (\<lambda>e. ev_aggregate_type e = ''policy_version'' \<and> ev_aggregate_id e \<in> I \<and> ev_occurred_at e \<le> as_of) (domain_events s)" for I
    using es by (auto simp: filter_empty_conv list_all_iff not_le)
  then show ?thesis by (simp only: reconstruct_kept nil ids init same set)
qed

text \<open>When nothing is later than the cutoff the reconstruction shows the columns.\<close>

lemma initial_snapshots:
  "map snapshot_of (kept Q (clear_policy_version_lifecycle s)) = map initial_snapshot (kept Q s)"
  by (simp add: kept_def clear_policy_version_lifecycle_def filter_map o_def version_key_def snapshot_of_def initial_snapshot_def)

lemma reconstruct_now:
  assumes sync: "in_sync policy_version_projectors ''policy_version'' clear_policy_version_lifecycle s"
    and uniq: "unique_by pv_id (policy_versions s)"
    and order: "distinct (map ev_recorded_at (filter (\<lambda>e. ev_aggregate_type e = ''policy_version'') (domain_events s)))"
    and past: "list_all (\<lambda>v. pv_created_at v \<le> as_of) (policy_versions s)"
      "list_all (\<lambda>e. ev_aggregate_type e = ''policy_version'' \<longrightarrow> ev_occurred_at e \<le> as_of) (domain_events s)"
  shows "reconstruct_policy_as_of p as_of s =
    Inr (sort_key sn_version_number (map snapshot_of (filter (\<lambda>v. pv_policy_id v = p) (policy_versions s))))"
proof -
  let ?V = "kept (in_force p as_of)" let ?c = "clear_policy_version_lifecycle s"
  let ?I = "pv_id ` set (?V s)"
  let ?es = "filter (\<lambda>e. ev_aggregate_type e = ''policy_version'') (domain_events s)"
  have ids: "pv_id ` set (?V ?c) = ?I"
    by (intro conjunct2 [OF keys_ids]) (simp add: clear_policy_version_lifecycle_def version_key_def)
  have "unique_by pv_id (policy_versions ?c)"
    using uniq by (simp add: clear_policy_version_lifecycle_def unique_by_def o_def)
  note replay = replay_in_memory [OF sync [unfolded in_sync_def] this, where Q = "in_force p as_of", unfolded ids initial_snapshots]
  have "distinct (map ev_recorded_at (filter (\<lambda>e. ev_aggregate_id e \<in> ?I) ?es))" by (rule distinct_map_filter [OF order])
  then have keys: "sort_key history_key (filter (\<lambda>e. ev_aggregate_id e \<in> ?I) ?es) = filter (\<lambda>e. ev_aggregate_id e \<in> ?I) (events_of ''policy_version'' (domain_events s))"
    by (simp only: history_replay_order events_of_def filter_sort)
  have "filter (\<lambda>e. ev_aggregate_type e = ''policy_version'' \<and> ev_aggregate_id e \<in> ?I \<and> ev_occurred_at e \<le> as_of) (domain_events s) =
      filter (\<lambda>e. ev_aggregate_id e \<in> ?I) ?es"
    using past(2) unfolding filter_filter by (intro filter_cong) (auto simp: list_all_iff)
  with keys have events: "sort_key history_key (filter (\<lambda>e. ev_aggregate_type e = ''policy_version'' \<and> ev_aggregate_id e \<in> ?I \<and>
      ev_occurred_at e \<le> as_of) (domain_events s)) = filter (\<lambda>e. ev_aggregate_id e \<in> ?I) (events_of ''policy_version'' (domain_events s))"
    by (simp only:)
  have kept: "?V s = filter (\<lambda>v. pv_policy_id v = p) (policy_versions s)"
    using past(1) unfolding kept_def by (intro filter_cong) (auto simp: in_force_def version_key_def list_all_iff)
  show ?thesis
    by (cases "?V s = []") (simp_all add: reconstruct_kept events replay kept [symmetric])
qed

text \<open>
  C28. History does not change. Take a database whose version columns agree with the events, and a
  cutoff that nothing in it is dated after. Whatever requests follow after the cutoff,
  reconstructing a policy as of the cutoff shows exactly the columns its versions had then, in
  the order of their numbers, and none of the versions, decisions or withdrawals made since.
\<close>

theorem history_as_of:
  assumes "in_sync policy_version_projectors ''policy_version'' clear_policy_version_lifecycle s"
    and "unique_by pv_id (policy_versions s)"
    and "distinct (map ev_recorded_at (filter (\<lambda>e. ev_aggregate_type e = ''policy_version'') (domain_events s)))"
    and "list_all (\<lambda>v. pv_created_at v \<le> as_of) (policy_versions s)"
    and "list_all (\<lambda>e. ev_aggregate_type e = ''policy_version'' \<longrightarrow> ev_occurred_at e \<le> as_of) (domain_events s)"
    and "rfold (\<lambda>s r. policy_request_exec r s) rs s = Inr s'" and "list_all (dated_after as_of) rs"
  shows "reconstruct_policy_as_of p as_of s' =
    Inr (sort_key sn_version_number (map snapshot_of (filter (\<lambda>v. pv_policy_id v = p) (policy_versions s))))"
  unfolding reconstruct_ignores_later [OF policy_history_extends [OF assms(6,7)]]
  by (rule reconstruct_now [OF assms(1-5)])

definition demo_cutoff :: datetime where
  "demo_cutoff = Datetime (Date 2026 8 20) 9"

lemma demo_history_states:
  "\<exists>s s'. rfold (\<lambda>s r. policy_request_exec r s) (take 4 demo_policy_requests) demo_policy_db = Inr s \<and>
     rfold (\<lambda>s r. policy_request_exec r s) (drop 4 demo_policy_requests) s = Inr s' \<and>
     unique_by pv_id (policy_versions s) \<and>
     distinct (map ev_recorded_at (filter (\<lambda>e. ev_aggregate_type e = ''policy_version'') (domain_events s))) \<and>
     list_all (\<lambda>v. pv_created_at v \<le> demo_cutoff) (policy_versions s) \<and>
     list_all (\<lambda>e. ev_aggregate_type e = ''policy_version'' \<longrightarrow> ev_occurred_at e \<le> demo_cutoff) (domain_events s) \<and>
     map (\<lambda>v. (pv_id v, lc_status (pv_lc v))) (policy_versions s) = [(''v1'', Effective)] \<and>
     map (\<lambda>v. (pv_id v, lc_status (pv_lc v))) (policy_versions s') = [(''v1'', Superseded), (''v2'', Effective)]"
proof -
  have "case rfold (\<lambda>s r. policy_request_exec r s) (take 4 demo_policy_requests) demo_policy_db of
     Inl _ \<Rightarrow> False
   | Inr s \<Rightarrow> (case rfold (\<lambda>s r. policy_request_exec r s) (drop 4 demo_policy_requests) s of
       Inl _ \<Rightarrow> False
     | Inr s' \<Rightarrow> unique_by pv_id (policy_versions s) \<and>
     distinct (map ev_recorded_at (filter (\<lambda>e. ev_aggregate_type e = ''policy_version'') (domain_events s))) \<and>
     list_all (\<lambda>v. pv_created_at v \<le> demo_cutoff) (policy_versions s) \<and>
     list_all (\<lambda>e. ev_aggregate_type e = ''policy_version'' \<longrightarrow> ev_occurred_at e \<le> demo_cutoff) (domain_events s) \<and>
     map (\<lambda>v. (pv_id v, lc_status (pv_lc v))) (policy_versions s) = [(''v1'', Effective)] \<and>
     map (\<lambda>v. (pv_id v, lc_status (pv_lc v))) (policy_versions s') = [(''v1'', Superseded), (''v2'', Effective)])"
    by code_simp
  then show ?thesis by (auto split: sum.splits)
qed

lemma history_as_of_witness:
  "\<exists>s s'. rfold (\<lambda>s r. policy_request_exec r s) (take 4 demo_policy_requests) demo_policy_db = Inr s \<and>
     rfold (\<lambda>s r. policy_request_exec r s) (drop 4 demo_policy_requests) s = Inr s' \<and>
     map (\<lambda>v. (pv_id v, lc_status (pv_lc v))) (policy_versions s) = [(''v1'', Effective)] \<and>
     map (\<lambda>v. (pv_id v, lc_status (pv_lc v))) (policy_versions s') = [(''v1'', Superseded), (''v2'', Effective)] \<and>
     reconstruct_policy_as_of ''p'' demo_cutoff s' =
       Inr (sort_key sn_version_number (map snapshot_of (filter (\<lambda>v. pv_policy_id v = ''p'') (policy_versions s))))"
proof -
  obtain s s' where run: "rfold (\<lambda>s r. policy_request_exec r s) (take 4 demo_policy_requests) demo_policy_db = Inr s"
      "rfold (\<lambda>s r. policy_request_exec r s) (drop 4 demo_policy_requests) s = Inr s'"
    and hyps: "unique_by pv_id (policy_versions s)"
      "distinct (map ev_recorded_at (filter (\<lambda>e. ev_aggregate_type e = ''policy_version'') (domain_events s)))"
      "list_all (\<lambda>v. pv_created_at v \<le> demo_cutoff) (policy_versions s)"
      "list_all (\<lambda>e. ev_aggregate_type e = ''policy_version'' \<longrightarrow> ev_occurred_at e \<le> demo_cutoff) (domain_events s)"
    and status: "map (\<lambda>v. (pv_id v, lc_status (pv_lc v))) (policy_versions s) = [(''v1'', Effective)]"
      "map (\<lambda>v. (pv_id v, lc_status (pv_lc v))) (policy_versions s') = [(''v1'', Superseded), (''v2'', Effective)]"
    using demo_history_states by (elim exE conjE)
  let ?t0 = "Datetime (Date 2026 8 20) 0"
  have sync: "in_sync policy_version_projectors ''policy_version'' clear_policy_version_lifecycle demo_policy_db"
    by (simp add: in_sync_def demo_policy_db_def empty_db_def clear_policy_version_lifecycle_def events_of_def)
  have rec: "recorded_by ''policy_version'' ?t0 (domain_events demo_policy_db)"
    by (simp add: recorded_by_def demo_policy_db_def empty_db_def)
  have clock: "clock_runs (\<lambda>r. t_now (px_t1 (fst r))) (\<lambda>r. t_now (px_t2 (fst r))) policy_ticking ?t0 (take 4 demo_policy_requests)"
    by code_simp
  have later: "list_all (dated_after demo_cutoff) (drop 4 demo_policy_requests)" by code_simp
  show ?thesis
    using history_as_of [OF policy_domain.history_sync [OF sync rec clock run(1)] hyps run(2) later, of "''p''"] run status
    by (intro exI conjI)
qed

end
