(* ===== verification/Backup.thy ===== *)
theory Backup
  imports Evidence_Repository Framework_Catalog Compliance_Scope Policy_Lifecycle Findings Connector_Lifecycle
begin

text \<open>
  \<open>src/app/backup.py\<close>: a backup of the database, the evidence objects and the non-secret
  settings, its restoration, and the verification after it, which rebuilds every projection in
  the order of \<open>_PROJECTION_REBUILDERS\<close>. SQLite's backup API, \<open>pg_dump\<close> and \<open>pg_restore\<close> copy a
  database as a whole; the S3 client, SHA-256 and decryption are parameters. The backup
  directory is the database copy, the files under their object keys and the manifest; the
  manifest's JSON text is read back by the same library that printed it.
\<close>

section \<open>Settings and manifest\<close>

record settings =
  se_database_url :: string
  se_value :: "string \<Rightarrow> json"
  se_google_oidc_enabled :: bool
  se_oidc_enabled :: bool
  se_google_drive_configured :: bool
  se_evidence_repository_configured :: bool
  se_s3_bucket :: string

definition non_secret_config_fields :: "string list" where
  "non_secret_config_fields =
     [''app_env'', ''log_level'', ''public_base_url'', ''max_upload_mb'', ''max_vendor_roster_rows'', ''session_ttl_hours'',
      ''session_cookie_secure'', ''s3_bucket'', ''s3_region'', ''s3_endpoint_url'', ''oidc_issuer'', ''oidc_display_name'',
      ''oidc_role_claim_name'', ''oidc_allowed_domains'', ''google_oidc_allowed_domains'', ''google_workspace_directory_enabled'']"

definition secret_env_var_names_by_configured_flag :: "(string \<times> string list) list" where
  "secret_env_var_names_by_configured_flag =
     [(''google_oidc_configured'', [''GRC_GOOGLE_OIDC_CLIENT_ID'', ''GRC_GOOGLE_OIDC_CLIENT_SECRET'']),
      (''oidc_configured'', [''GRC_OIDC_CLIENT_ID'', ''GRC_OIDC_CLIENT_SECRET'']),
      (''google_drive_configured'', [''GRC_GOOGLE_DRIVE_CLIENT_ID'', ''GRC_GOOGLE_DRIVE_CLIENT_SECRET'']),
      (''evidence_repository_configured'', [''GRC_S3_ACCESS_KEY_ID'', ''GRC_S3_SECRET_ACCESS_KEY''])]"

definition build_config_snapshot :: "settings \<Rightarrow> (string \<times> json) list \<times> string list" where
  "build_config_snapshot settings =
     (let snapshot = map (\<lambda>field. (field, se_value settings field)) non_secret_config_fields;
          configured_flags =
            [(''google_oidc_configured'', se_google_oidc_enabled settings), (''oidc_configured'', se_oidc_enabled settings),
             (''google_drive_configured'', se_google_drive_configured settings),
             (''evidence_repository_configured'', se_evidence_repository_configured settings)];
          required_env_vars = ''GRC_ENCRYPTION_KEY'' #
            concat (map (\<lambda>(flag_name, was_configured). if was_configured
               then (case map_of secret_env_var_names_by_configured_flag flag_name of None \<Rightarrow> [] | Some names \<Rightarrow> names) else [])
              configured_flags)
      in (snapshot @ map (\<lambda>(flag, b). (flag, JBool b)) configured_flags, required_env_vars))"

record evidence_object_record =
  eo_object_key :: string
  eo_byte_size :: int
  eo_sha256 :: string

datatype backend = Sqlite | Postgresql

record backup_manifest =
  bm_created_at :: datetime
  bm_backend :: backend
  bm_evidence_objects :: "evidence_object_record list"
  bm_config_snapshot :: "(string \<times> json) list"
  bm_required_env_vars_not_included :: "string list"

definition evidence_object_count :: "backup_manifest \<Rightarrow> nat" where
  "evidence_object_count m = length (bm_evidence_objects m)"

definition evidence_total_bytes :: "backup_manifest \<Rightarrow> int" where
  "evidence_total_bytes m = sum_list (map eo_byte_size (bm_evidence_objects m))"

definition is_postgres :: "settings \<Rightarrow> bool" where
  "is_postgres settings = (se_database_url settings \<noteq> [])"

section \<open>Backup and restore\<close>

text \<open>
  A host: its clock, the PostgreSQL tools where they are on the path, the S3 client, the listing of
  the keys under the evidence prefix, and SHA-256. A dump may fail; a restore is given the dump and
  the database it goes into, says whether it succeeded, and leaves that database behind.
\<close>

record ('s3, 'd) host =
  ho_now :: datetime
  ho_pg_dump :: "('d \<Rightarrow> 'd option) option"
  ho_pg_restore :: "('d \<Rightarrow> 'd option \<Rightarrow> bool \<times> 'd option) option"
  ho_client :: "'s3 s3_client"
  ho_list_keys :: "string \<Rightarrow> 's3 \<Rightarrow> string list"
  ho_sha256 :: "string \<Rightarrow> string"

record 'd backup_dir =
  bd_database :: "'d option"
  bd_files :: files
  bd_manifest :: "backup_manifest option"

text \<open>
  The databases an instance can reach: its SQLite file (None when there is none) and the PostgreSQL
  databases by their URL. The application works on the one its settings select.
\<close>

record 'd databases =
  ds_file :: "'d option"
  ds_server :: "string \<Rightarrow> 'd option"

definition active_database :: "settings \<Rightarrow> 'd databases \<Rightarrow> 'd option" where
  "active_database settings dbs =
     (if is_postgres settings then ds_server dbs (se_database_url settings) else ds_file dbs)"

definition backup_sqlite :: "'d databases \<Rightarrow> 'd result" where
  "backup_sqlite dbs =
     (case ds_file dbs of None \<Rightarrow> Inl (BackupError ''SQLite database file not found'') | Some d \<Rightarrow> Inr d)"

definition backup_postgres :: "('s3, 'd) host \<Rightarrow> string \<Rightarrow> 'd databases \<Rightarrow> 'd result" where
  "backup_postgres host database_url dbs =
     (case ho_pg_dump host of
        None \<Rightarrow> Inl (BackupError ''pg_dump is not installed/available on PATH'')
      | Some dump \<Rightarrow> (case Option.bind (ds_server dbs database_url) dump of None \<Rightarrow> Inl RuntimeError | Some d \<Rightarrow> Inr d))"

text \<open>Each listed object is downloaded to its key under the directory and recorded from the file.\<close>

fun download_objects ::
  "('s3, 'd) host \<Rightarrow> string \<Rightarrow> 's3 \<Rightarrow> string list \<Rightarrow> files \<Rightarrow> (evidence_object_record list \<times> files) result" where
  "download_objects host bucket b [] fs = Inr ([], fs)"
| "download_objects host bucket b (object_key # keys) fs =
     (case s3_get (ho_client host) bucket object_key b of
        None \<Rightarrow> Inl RuntimeError
      | Some content \<Rightarrow>
          rbind (download_objects host bucket b keys (fs(object_key \<mapsto> content))) (\<lambda>(records, fs').
            Inr (\<lparr>eo_object_key = object_key, eo_byte_size = int (length content), eo_sha256 = ho_sha256 host content\<rparr> # records, fs')))"

definition create_backup ::
  "('s3, 'd) host \<Rightarrow> settings \<Rightarrow> 'd databases \<Rightarrow> 's3 \<Rightarrow> files \<Rightarrow> (backup_manifest \<times> 'd backup_dir) result" where
  "create_backup host settings dbs b dest_files =
     rbind (if is_postgres settings then backup_postgres host (se_database_url settings) dbs else backup_sqlite dbs) (\<lambda>copy.
     rbind (if se_evidence_repository_configured settings
            then download_objects host (se_s3_bucket settings) b (ho_list_keys host (se_s3_bucket settings) b) dest_files
            else Inr ([], dest_files)) (\<lambda>(evidence_objects, fs).
       let (config_snapshot, required_env_vars) = build_config_snapshot settings;
           manifest = \<lparr>bm_created_at = ho_now host, bm_backend = (if is_postgres settings then Postgresql else Sqlite),
             bm_evidence_objects = evidence_objects, bm_config_snapshot = config_snapshot,
             bm_required_env_vars_not_included = required_env_vars\<rparr>
       in Inr (manifest, \<lparr>bd_database = Some copy, bd_files = fs, bd_manifest = Some manifest\<rparr>)))"

text \<open>
  What the manifest says was backed up decides where the copy goes: into the SQLite file, or into the
  PostgreSQL database of this instance's settings (an empty URL is not one).
\<close>

definition restore_sqlite :: "'d option \<Rightarrow> 'd databases \<Rightarrow> unit result \<times> 'd databases" where
  "restore_sqlite copy dbs = (case copy of None \<Rightarrow> (Inl OSError, dbs) | Some d \<Rightarrow> (Inr (), dbs\<lparr>ds_file := Some d\<rparr>))"

definition restore_postgres ::
  "('s3, 'd) host \<Rightarrow> string \<Rightarrow> 'd option \<Rightarrow> 'd databases \<Rightarrow> unit result \<times> 'd databases" where
  "restore_postgres host database_url copy dbs =
     (case ho_pg_restore host of
        None \<Rightarrow> (Inl (BackupError ''pg_restore is not installed/available on PATH''), dbs)
      | Some restore \<Rightarrow>
          if database_url = [] then (Inl RuntimeError, dbs)
          else (case copy of
                  None \<Rightarrow> (Inl RuntimeError, dbs)
                | Some c \<Rightarrow>
                    (case restore c (ds_server dbs database_url) of
                       (ok, d) \<Rightarrow> (if ok then Inr () else Inl RuntimeError, dbs\<lparr>ds_server := (ds_server dbs)(database_url := d)\<rparr>))))"

definition restore_database ::
  "('s3, 'd) host \<Rightarrow> settings \<Rightarrow> backend \<Rightarrow> 'd option \<Rightarrow> 'd databases \<Rightarrow> unit result \<times> 'd databases" where
  "restore_database host settings backend copy dbs =
     (case backend of Postgresql \<Rightarrow> restore_postgres host (se_database_url settings) copy dbs
      | Sqlite \<Rightarrow> restore_sqlite copy dbs)"

fun upload_objects :: "('s3, 'd) host \<Rightarrow> string \<Rightarrow> files \<Rightarrow> evidence_object_record list \<Rightarrow> 's3 \<Rightarrow> unit result \<times> 's3" where
  "upload_objects host bucket fs [] b = (Inr (), b)"
| "upload_objects host bucket fs (record # records) b =
     (case upload_object (ho_client host) bucket (eo_object_key record) (eo_object_key record) ''application/octet-stream'' fs b of
        (Inl e, b') \<Rightarrow> (Inl e, b')
      | (Inr _, b') \<Rightarrow> upload_objects host bucket fs records b')"

text \<open>The result, and the databases and bucket the call leaves behind, also when it fails half way.\<close>

definition restore_backup ::
  "('s3, 'd) host \<Rightarrow> settings \<Rightarrow> 'd backup_dir \<Rightarrow> 'd databases \<Rightarrow> 's3 \<Rightarrow> backup_manifest result \<times> 'd databases \<times> 's3" where
  "restore_backup host settings dir dbs b =
     (case bd_manifest dir of
        None \<Rightarrow> (Inl (BackupError ''not a backup directory''), dbs, b)
      | Some manifest \<Rightarrow>
          (case restore_database host settings (bm_backend manifest) (bd_database dir) dbs of
             (Inl e, dbs') \<Rightarrow> (Inl e, dbs', b)
           | (Inr _, dbs') \<Rightarrow>
               if bm_evidence_objects manifest = [] then (Inr manifest, dbs', b)
               else if \<not> se_evidence_repository_configured settings
               then (Inl (BackupError ''the evidence repository is not configured on this instance''), dbs', b)
               else (case upload_objects host (se_s3_bucket settings) (bd_files dir) (bm_evidence_objects manifest) b of
                       (Inl e, b') \<Rightarrow> (Inl e, dbs', b')
                     | (Inr _, b') \<Rightarrow> (Inr manifest, dbs', b'))))"

section \<open>Verification\<close>

definition projection_rebuilders :: "(string \<times> (db \<Rightarrow> db result)) list" where
  "projection_rebuilders =
     [(''policy_version_lifecycle'', rebuild_policy_version_lifecycle_projection),
      (''control_occurrence'', rebuild_control_occurrence_projection),
      (''internal_control_version'', rebuild_internal_control_version_projection),
      (''evidence_artifact_version'', rebuild_evidence_artifact_version_projection),
      (''control_test'', rebuild_control_test_projection),
      (''compliance_scope'', rebuild_compliance_scope_projection),
      (''finding'', rebuild_finding_projection),
      (''framework_adoption'', rebuild_framework_adoption_projection)]"

text \<open>Each rebuild is committed when it returns and rolled back when it raises.\<close>

fun rebuild_each :: "(string \<times> (db \<Rightarrow> db result)) list \<Rightarrow> db \<Rightarrow> string list \<times> (string \<times> error) list \<times> db" where
  "rebuild_each [] s = ([], [], s)"
| "rebuild_each ((name, rebuild_fn) # rest) s =
     (case rebuild_fn s of
        Inr s1 \<Rightarrow> (case rebuild_each rest s1 of (rebuilt, errors, s') \<Rightarrow> (name # rebuilt, errors, s'))
      | Inl e \<Rightarrow> (case rebuild_each rest s of (rebuilt, errors, s') \<Rightarrow> (rebuilt, (name, e) # errors, s')))"

definition rebuild_all_projections :: "db \<Rightarrow> string list \<times> (string \<times> error) list \<times> db" where
  "rebuild_all_projections s = rebuild_each projection_rebuilders s"

fun verify_hashes ::
  "('s3, 'd) host \<Rightarrow> string \<Rightarrow> 's3 \<Rightarrow> evidence_artifact_version list \<Rightarrow> nat \<times> string list \<times> string list" where
  "verify_hashes host bucket b [] = (0, [], [])"
| "verify_hashes host bucket b (version # versions) =
     (case verify_hashes host bucket b versions of (verified, mismatched, missing) \<Rightarrow>
        (case download_object (ho_client host) bucket (av_object_key version) b of
           Inl _ \<Rightarrow> (verified, mismatched, av_object_key version # missing)
         | Inr content \<Rightarrow>
             if ho_sha256 host content \<noteq> av_sha256 version then (verified, av_object_key version # mismatched, missing)
             else (Suc verified, mismatched, missing)))"

definition verify_evidence_hashes :: "('s3, 'd) host \<Rightarrow> settings \<Rightarrow> 's3 \<Rightarrow> db \<Rightarrow> nat \<times> string list \<times> string list" where
  "verify_evidence_hashes host settings b s =
     (if \<not> se_evidence_repository_configured settings then (0, [], [])
      else verify_hashes host (se_s3_bucket settings) b (evidence_artifact_versions s))"

datatype decryption_check = Ok | No_encrypted_data_found | Failed

text \<open>
  \<open>refresh_token\<close> is the encrypted token of an unrevoked Drive connection, if there is one.
\<close>

definition check_decryption :: "crypto \<Rightarrow> secret list \<Rightarrow> string option \<Rightarrow> decryption_check" where
  "check_decryption crypt secrets refresh_token =
     (let ciphertext = (case List.map_filter (\<lambda>r. case sk_value r of Encrypted c \<Rightarrow> Some c | _ \<Rightarrow> None) secrets of
            c # _ \<Rightarrow> Some c
          | [] \<Rightarrow> (case refresh_token of None \<Rightarrow> None | Some t \<Rightarrow> if t = [] then None else Some t))
      in (case ciphertext of
            None \<Rightarrow> No_encrypted_data_found
          | Some c \<Rightarrow> (case cy_decrypt crypt c of None \<Rightarrow> Failed | Some _ \<Rightarrow> Ok)))"

record verification_report =
  vr_evidence_verified_count :: nat
  vr_evidence_mismatched_keys :: "string list"
  vr_evidence_missing_keys :: "string list"
  vr_projections_rebuilt :: "string list"
  vr_projection_errors :: "(string \<times> error) list"
  vr_decryption_check :: decryption_check

definition report_passed :: "verification_report \<Rightarrow> bool" where
  "report_passed r =
     (vr_evidence_mismatched_keys r = [] \<and> vr_evidence_missing_keys r = [] \<and> vr_projection_errors r = [] \<and>
      vr_decryption_check r \<noteq> Failed)"

definition verify_restore ::
  "('s3, 'd) host \<Rightarrow> settings \<Rightarrow> crypto \<Rightarrow> secret list \<Rightarrow> string option \<Rightarrow> 's3 \<Rightarrow> db \<Rightarrow> verification_report \<times> db" where
  "verify_restore host settings crypt secrets refresh_token b s =
     (case verify_evidence_hashes host settings b s of (verified, mismatched, missing) \<Rightarrow>
      case rebuild_all_projections s of (rebuilt, projection_errors, s') \<Rightarrow>
        (\<lparr>vr_evidence_verified_count = verified, vr_evidence_mismatched_keys = mismatched, vr_evidence_missing_keys = missing,
          vr_projections_rebuilt = rebuilt, vr_projection_errors = projection_errors,
          vr_decryption_check = check_decryption crypt secrets refresh_token\<rparr>, s'))"

section \<open>What the rebuilds of one domain take from another\<close>

text \<open>
  The rebuild of the definitions clears the occurrences' references to them, the rebuild of the
  evidence versions deletes the occurrences' links to them.
\<close>

definition lost_links :: "db \<Rightarrow> db" where
  "lost_links s = drop_occurrence_links (detach_definitions s)"

lemma lost_links_simps [simp]:
  "domain_events (lost_links s) = domain_events s" "frameworks (lost_links s) = frameworks s"
  "people (lost_links s) = people s" "internal_controls (lost_links s) = internal_controls s"
  "control_periods (lost_links s) = control_periods s" "control_test_samples (lost_links s) = control_test_samples s"
  "control_test_sample_items (lost_links s) = control_test_sample_items s" "control_tests (lost_links s) = control_tests s"
  "control_test_exceptions (lost_links s) = control_test_exceptions s"
  "control_test_evidence_artifacts (lost_links s) = control_test_evidence_artifacts s"
  "evidence_artifact_versions (lost_links s) = evidence_artifact_versions s" "findings (lost_links s) = findings s"
  "finding_remediation_updates (lost_links s) = finding_remediation_updates s" "finding_retests (lost_links s) = finding_retests s"
  "compliance_scopes (lost_links s) = compliance_scopes s" "framework_adoptions (lost_links s) = framework_adoptions s"
  by (simp_all add: lost_links_def drop_occurrence_links_def detach_definitions_def)

lemma lost_links_updates [simp]:
  "lost_links (s\<lparr>control_tests := a\<rparr>) = (lost_links s)\<lparr>control_tests := a\<rparr>"
  "lost_links (s\<lparr>control_test_exceptions := b\<rparr>) = (lost_links s)\<lparr>control_test_exceptions := b\<rparr>"
  "lost_links (s\<lparr>control_test_evidence_artifacts := c\<rparr>) = (lost_links s)\<lparr>control_test_evidence_artifacts := c\<rparr>"
  "lost_links (s\<lparr>findings := d\<rparr>) = (lost_links s)\<lparr>findings := d\<rparr>"
  "lost_links (s\<lparr>finding_remediation_updates := e\<rparr>) = (lost_links s)\<lparr>finding_remediation_updates := e\<rparr>"
  "lost_links (s\<lparr>finding_retests := f\<rparr>) = (lost_links s)\<lparr>finding_retests := f\<rparr>"
  "lost_links (s\<lparr>compliance_scopes := g\<rparr>) = (lost_links s)\<lparr>compliance_scopes := g\<rparr>"
  "lost_links (s\<lparr>framework_adoptions := h\<rparr>) = (lost_links s)\<lparr>framework_adoptions := h\<rparr>"
  by (simp_all add: lost_links_def drop_occurrence_links_def detach_definitions_def)

text \<open>A projector that does not read what was lost computes the same rows without it.\<close>

lemma map_rbind: "map_sum id f (rbind m g) = rbind m (\<lambda>x. map_sum id f (g x))"
  by (cases m) simp_all

lemma map_if: "map_sum id f (if b then x else y) = (if b then map_sum id f x else map_sum id f y)"
  by simp

definition keeps_lost :: "(string \<rightharpoonup> db projector) \<Rightarrow> bool" where
  "keeps_lost ps \<longleftrightarrow> (\<forall>k p s e. ps k = Some p \<longrightarrow> p (lost_links s) e = map_sum id lost_links (p s e))"

lemma keeps_lost_run:
  assumes "keeps_lost ps" "run_projector ps s e = Inr s'"
  shows "run_projector ps (lost_links s) e = Inr (lost_links s')"
proof (cases "ps (ev_event_type e)")
  case (Some p)
  have "p (lost_links s) e = map_sum id lost_links (p s e)"
    using assms(1) Some unfolding keeps_lost_def by blast
  then show ?thesis using assms(2) by (simp add: run_projector_def Some)
qed (use assms(2) in \<open>simp add: run_projector_def\<close>)

text \<open>A rebuild that starts from another state than the one the events produced.\<close>

lemma rebuild_after_loss:
  assumes sync: "in_sync ps agg clear s" and reset: "reset s0 = Inr (u (clear s))"
    and events: "domain_events (u (clear s)) = domain_events s"
    and u: "\<And>s e s'. run_projector ps s e = Inr s' \<Longrightarrow> run_projector ps (u s) e = Inr (u s')"
  shows "rebuild_projection ps agg reset s0 = Inr (u s)"
  using rfold_commute [of "run_projector ps" u, OF u sync [unfolded in_sync_def]] reset events
  by (simp add: rebuild_projection_def)

lemma scope_lost: "keeps_lost compliance_scope_projectors"
proof -
  have "scope_project_defined (lost_links s) e = map_sum id lost_links (scope_project_defined s e)" for s e
    by (simp add: scope_project_defined_def map_rbind map_if cong: if_cong)
  moreover have "scope_project_revised (lost_links s) e = map_sum id lost_links (scope_project_revised s e)" for s e
    by (simp add: scope_project_revised_def row_of_def map_rbind)
  ultimately show ?thesis by (simp add: keeps_lost_def compliance_scope_projectors_def)
qed

lemma adoption_lost: "keeps_lost framework_adoption_projectors"
proof -
  have "adoption_project_adopted (lost_links s) e = map_sum id lost_links (adoption_project_adopted s e)" for s e
    by (simp add: adoption_project_adopted_def insert_framework_adoption_def map_rbind map_if cong: if_cong)
  moreover have "adoption_project_upgraded (lost_links s) e = map_sum id lost_links (adoption_project_upgraded s e)" for s e
    by (simp add: adoption_project_upgraded_def row_of_def map_rbind map_if cong: if_cong)
  ultimately show ?thesis by (simp add: keeps_lost_def framework_adoption_projectors_def)
qed

lemma finding_lost: "keeps_lost finding_projectors"
proof -
  have "finding_project_opened (lost_links s) e = map_sum id lost_links (finding_project_opened s e)" for s e
    by (simp add: finding_project_opened_def insert_finding_def map_rbind map_if cong: if_cong)
  moreover have "finding_project_remediation_update_recorded (lost_links s) e =
      map_sum id lost_links (finding_project_remediation_update_recorded s e)" for s e
    by (simp add: finding_project_remediation_update_recorded_def row_of_def map_rbind map_if cong: if_cong)
  moreover have "finding_project_retest_requested (lost_links s) e = map_sum id lost_links (finding_project_retest_requested s e)" for s e
    by (simp add: finding_project_retest_requested_def row_of_def map_rbind)
  moreover have "finding_project_retest_recorded (lost_links s) e = map_sum id lost_links (finding_project_retest_recorded s e)" for s e
    by (simp add: finding_project_retest_recorded_def row_of_def map_rbind map_if cong: if_cong)
  moreover have "finding_project_closed (lost_links s) e = map_sum id lost_links (finding_project_closed s e)" for s e
    by (simp add: finding_project_closed_def row_of_def map_rbind)
  ultimately show ?thesis by (simp add: keeps_lost_def finding_projectors_def)
qed

lemma test_exceptions_lost:
  "rfold (add_test_exception t) xs (lost_links s) = map_sum id lost_links (rfold (add_test_exception t) xs s)"
proof (induction xs arbitrary: s)
  case (Cons x xs)
  have "add_test_exception t (lost_links s) x = map_sum id lost_links (add_test_exception t s x)"
    by (simp add: add_test_exception_def map_rbind map_if cong: if_cong)
  then show ?case using Cons.IH by (cases "add_test_exception t s x") simp_all
qed simp

lemma test_lost: "keeps_lost control_test_projectors"
proof -
  have ins: "insert_control_test r (lost_links s) = map_sum id lost_links (insert_control_test r s)" for r s
    by (simp add: insert_control_test_def map_if cong: if_cong)
  have "rbind (insert_control_test r (lost_links s)) (rfold (add_test_exception t) xs) =
      map_sum id lost_links (rbind (insert_control_test r s) (rfold (add_test_exception t) xs))" for r s t xs
    unfolding ins by (cases "insert_control_test r s") (simp_all add: test_exceptions_lost)
  then have "test_project_recorded (lost_links s) e = map_sum id lost_links (test_project_recorded s e)" for s e
    by (simp add: test_project_recorded_def map_rbind)
  moreover have "test_project_evidence_linked (lost_links s) e = map_sum id lost_links (test_project_evidence_linked s e)" for s e
    by (simp add: test_project_evidence_linked_def Let_def map_rbind map_if cong: if_cong)
  ultimately show ?thesis by (simp add: keeps_lost_def control_test_projectors_def)
qed

lemma evidence_lost:
  assumes "run_projector evidence_artifact_version_projectors s e = Inr s'"
  shows "run_projector evidence_artifact_version_projectors (lost_links s) e = Inr (lost_links s')"
proof (cases "evidence_artifact_version_projectors (ev_event_type e)")
  case (Some p)
  then have "p s e = Inr s'" using assms by (simp add: run_projector_def)
  then obtain r where s': "s' = s\<lparr>evidence_artifact_versions := evidence_artifact_versions s @ [r]\<rparr>"
    and p: "p (lost_links s) e = Inr ((lost_links s)\<lparr>evidence_artifact_versions := evidence_artifact_versions s @ [r]\<rparr>)"
    by (rule captured_frame [OF Some]) (simp add: lost_links_def drop_occurrence_links_def detach_definitions_def)
  show ?thesis
    by (simp add: run_projector_def Some p) (simp add: s' lost_links_def drop_occurrence_links_def detach_definitions_def)
qed (use assms in \<open>simp add: run_projector_def\<close>)

section \<open>The rebuilds of a verification\<close>

definition all_in_sync :: "db \<Rightarrow> bool" where
  "all_in_sync s =
     (in_sync policy_version_projectors ''policy_version'' clear_policy_version_lifecycle s \<and>
      in_sync control_occurrence_projectors ''control_occurrence'' clear_control_occurrences s \<and>
      in_sync internal_control_version_projectors ''internal_control_version'' clear_internal_control_versions s \<and>
      in_sync evidence_artifact_version_projectors ''evidence_artifact_version'' clear_evidence_artifact_versions s \<and>
      in_sync control_test_projectors ''control_test'' clear_control_tests s \<and>
      in_sync compliance_scope_projectors ''compliance_scope'' clear_compliance_scopes s \<and>
      in_sync finding_projectors ''finding'' reset_findings s \<and>
      in_sync framework_adoption_projectors ''framework_adoption'' clear_framework_adoptions s)"

lemma clear_lost:
  "clear_control_tests (lost_links s) = lost_links (clear_control_tests s)"
  "clear_compliance_scopes (lost_links s) = lost_links (clear_compliance_scopes s)"
  "reset_findings (lost_links s) = lost_links (reset_findings s)"
  "clear_framework_adoptions (lost_links s) = lost_links (clear_framework_adoptions s)"
  by (simp_all add: clear_control_tests_def clear_compliance_scopes_def reset_findings_def clear_framework_adoptions_def)

lemma clear_events:
  "domain_events (clear_control_tests s) = domain_events s" "domain_events (clear_compliance_scopes s) = domain_events s"
  "domain_events (reset_findings s) = domain_events s" "domain_events (clear_framework_adoptions s) = domain_events s"
  "domain_events (clear_evidence_artifact_versions s) = domain_events s"
  "domain_events (clear_control_occurrences s) = domain_events s"
  "domain_events (clear_policy_version_lifecycle s) = domain_events s"
  "domain_events (clear_internal_control_versions s) = domain_events s"
  by (simp_all add: clear_control_tests_def clear_compliance_scopes_def reset_findings_def clear_framework_adoptions_def
      clear_evidence_artifact_versions_def clear_control_occurrences_def clear_policy_version_lifecycle_def
      clear_internal_control_versions_def)

lemma rebuild_lost:
  assumes "in_sync ps agg clear s" "keeps_lost ps" "reset (lost_links s) = Inr (lost_links (clear s))"
    and "domain_events (clear s) = domain_events s"
  shows "rebuild_projection ps agg reset (lost_links s) = Inr (lost_links s)"
  by (rule rebuild_after_loss [where u = lost_links and clear = clear])
     (simp_all add: assms keeps_lost_run [OF assms(2)])

lemma rebuilds_before_loss:
  assumes "all_in_sync s" "no_population_reference s"
  shows "rebuild_policy_version_lifecycle_projection s = Inr s" "rebuild_control_occurrence_projection s = Inr s"
    "rebuild_internal_control_version_projection s = Inr (detach_definitions s)"
proof -
  show "rebuild_policy_version_lifecycle_projection s = Inr s"
    unfolding rebuild_policy_version_lifecycle_projection_def
    by (rule rebuild_after_loss [where u = "\<lambda>s. s" and clear = clear_policy_version_lifecycle])
       (use assms in \<open>simp_all add: all_in_sync_def reset_policy_version_lifecycle_def clear_events\<close>)
  show "rebuild_control_occurrence_projection s = Inr s"
    unfolding rebuild_control_occurrence_projection_def
    by (rule rebuild_after_loss [where u = "\<lambda>s. s" and clear = clear_control_occurrences])
       (use assms in \<open>simp_all add: all_in_sync_def occurrence_domain.reset_clears clear_events\<close>)
  show "rebuild_internal_control_version_projection s = Inr (detach_definitions s)"
    unfolding rebuild_internal_control_version_projection_def
    by (rule rebuild_after_loss [where u = detach_definitions and clear = clear_internal_control_versions])
       (use assms in \<open>simp_all add: all_in_sync_def control_domain.reset_clears control_domain.detach_events clear_events detach_definitions_run\<close>)
qed

lemma rebuild_loses_links:
  assumes "all_in_sync s" "no_version_reference s"
  shows "rebuild_evidence_artifact_version_projection (detach_definitions s) = Inr (lost_links s)"
proof -
  have "no_version_reference (detach_definitions s)"
    using assms(2) unfolding no_version_reference_def by (simp add: detach_definitions_def cong: option.case_cong)
  moreover have "drop_occurrence_links (clear_evidence_artifact_versions (detach_definitions s)) =
      lost_links (clear_evidence_artifact_versions s)"
    by (simp add: lost_links_def drop_occurrence_links_def clear_evidence_artifact_versions_def detach_definitions_def)
  ultimately show ?thesis
    unfolding rebuild_evidence_artifact_version_projection_def
    by (intro rebuild_after_loss [where u = lost_links and clear = clear_evidence_artifact_versions])
       (use assms in \<open>simp_all add: all_in_sync_def evidence_domain.reset_clears clear_events evidence_lost\<close>)
qed

lemma rebuilds_after_loss:
  assumes "all_in_sync s" "no_finding_reference s"
  shows "rebuild_control_test_projection (lost_links s) = Inr (lost_links s)"
    "rebuild_compliance_scope_projection (lost_links s) = Inr (lost_links s)"
    "rebuild_finding_projection (lost_links s) = Inr (lost_links s)"
    "rebuild_framework_adoption_projection (lost_links s) = Inr (lost_links s)"
proof -
  have "no_finding_reference (lost_links s)" using assms(2) by (simp add: no_finding_reference_def)
  then show "rebuild_control_test_projection (lost_links s) = Inr (lost_links s)"
    unfolding rebuild_control_test_projection_def
    by (intro rebuild_lost [where clear = clear_control_tests])
       (use assms in \<open>simp_all add: all_in_sync_def test_lost test_domain.reset_clears clear_lost clear_events\<close>)
  show "rebuild_compliance_scope_projection (lost_links s) = Inr (lost_links s)"
    unfolding rebuild_compliance_scope_projection_def
    by (intro rebuild_lost [where clear = clear_compliance_scopes])
       (use assms in \<open>simp_all add: all_in_sync_def scope_lost reset_compliance_scopes_def clear_lost clear_events\<close>)
  show "rebuild_finding_projection (lost_links s) = Inr (lost_links s)"
    unfolding rebuild_finding_projection_def
    by (intro rebuild_lost [where clear = reset_findings])
       (use assms in \<open>simp_all add: all_in_sync_def finding_lost clear_lost clear_events\<close>)
  show "rebuild_framework_adoption_projection (lost_links s) = Inr (lost_links s)"
    unfolding rebuild_framework_adoption_projection_def
    by (intro rebuild_lost [where clear = clear_framework_adoptions])
       (use assms in \<open>simp_all add: all_in_sync_def adoption_lost reset_framework_adoptions_def clear_lost clear_events\<close>)
qed

lemma rebuild_all_loses_links:
  assumes "all_in_sync s" "no_population_reference s" "no_version_reference s" "no_finding_reference s"
  shows "rebuild_all_projections s = (map fst projection_rebuilders, [], lost_links s)"
  by (simp add: rebuild_all_projections_def projection_rebuilders_def rebuilds_before_loss [OF assms(1,2)]
      rebuild_loses_links [OF assms(1,3)] rebuilds_after_loss [OF assms(1,4)])

text \<open>One more rebuild of the occurrences brings back what was lost.\<close>

lemma rebuild_occurrences_again:
  assumes "all_in_sync s" "no_population_reference s"
  shows "rebuild_control_occurrence_projection (lost_links s) = Inr s"
proof -
  have "no_population_reference (lost_links s)"
    using assms(2) by (simp add: no_population_reference_def lost_links_def drop_occurrence_links_def
        detach_definitions_def has_row_def list_ex_iff)
  then have "reset_control_occurrences (lost_links s) = Inr (clear_control_occurrences (lost_links s))"
    by (rule occurrence_domain.reset_clears)
  moreover have "clear_control_occurrences (lost_links s) = clear_control_occurrences s"
    by (simp add: lost_links_def drop_occurrence_links_def detach_definitions_def clear_control_occurrences_def)
  ultimately show ?thesis
    unfolding rebuild_control_occurrence_projection_def
    by (intro rebuild_after_loss [where u = "\<lambda>s. s" and clear = clear_control_occurrences])
       (use assms in \<open>simp_all add: all_in_sync_def clear_events\<close>)
qed

text \<open>
  A verification loses links. On a database in step with its events, in which no test
  references a version, no population an occurrence and no finding a test, the verification
  after a restore rebuilds all eight projections without an error and passes as soon as the
  objects and the key do, yet it commits a database in which every occurrence has lost its
  definition version and every link to its evidence: the occurrences are rebuilt before the two
  domains whose resets take these away. One more rebuild of the occurrences gives exactly the
  restored database back.
\<close>

theorem verify_restore_loses_links:
  assumes "all_in_sync s" "no_population_reference s" "no_version_reference s" "no_finding_reference s"
    and "verify_evidence_hashes host settings b s = (n, [], [])"
    and "check_decryption crypt secrets refresh_token \<noteq> Failed"
  shows "\<exists>r s'. verify_restore host settings crypt secrets refresh_token b s = (r, s') \<and> report_passed r \<and>
           vr_projections_rebuilt r = map fst projection_rebuilders \<and>
           control_occurrence_evidence_artifacts s' = [] \<and>
           (\<forall>r \<in> set (control_occurrences s'). oc_control_definition_version_id r = None) \<and>
           rebuild_control_occurrence_projection s' = Inr s"
proof -
  let ?r = "\<lparr>vr_evidence_verified_count = n, vr_evidence_mismatched_keys = [], vr_evidence_missing_keys = [],
    vr_projections_rebuilt = map fst projection_rebuilders, vr_projection_errors = [],
    vr_decryption_check = check_decryption crypt secrets refresh_token\<rparr>"
  have "verify_restore host settings crypt secrets refresh_token b s = (?r, lost_links s)"
    by (simp add: verify_restore_def assms(5) rebuild_all_loses_links [OF assms(1-4)])
  moreover have "report_passed ?r" by (simp add: report_passed_def assms(6))
  moreover have "control_occurrence_evidence_artifacts (lost_links s) = [] \<and>
      (\<forall>r \<in> set (control_occurrences (lost_links s)). oc_control_definition_version_id r = None)"
    by (simp add: lost_links_def drop_occurrence_links_def detach_definitions_def)
  ultimately show ?thesis using rebuild_occurrences_again [OF assms(1,2)] by (intro exI conjI) auto
qed

definition demo_settings :: settings where
  "demo_settings = \<lparr>se_database_url = [], se_value = (\<lambda>_. JNull), se_google_oidc_enabled = False, se_oidc_enabled = False,
     se_google_drive_configured = False, se_evidence_repository_configured = False, se_s3_bucket = ''grc''\<rparr>"

text \<open>An occurrence of a control with an effective definition, with one evidence version linked to it.\<close>

definition demo_linked :: "db result" where
  "demo_linked =
     rbind (bootstrap_initial_effective_version \<lparr>bt_draft = demo_tick 1, bt_submit = demo_tick 2, bt_review = demo_tick 3,
        bt_supersede = demo_tick 4, bt_effective = demo_tick 5\<rparr> ''d1'' ''system'' None ''c''
        (demo_operation_db\<lparr>evidence_artifacts := [\<lparr>ea_id = ''art'', ea_title = ''A'', ea_description = []\<rparr>]\<rparr>)) (\<lambda>s1.
     rbind (record_occurrence_manually (demo_tick 6) ''occ'' ''c'' (Some ''q1'') None ''note'' ''user'' None s1) (\<lambda>s2.
     rbind (capture_event (demo_tick 7) ''v1'' ''art'' (demo_capture_args ''one'') s2) (\<lambda>s3.
       link_evidence_artifact_version (demo_tick 8) ''occ'' ''v1'' ''user'' None s3)))"

lemma demo_linked_run:
  "case demo_linked of Inl _ \<Rightarrow> False
   | Inr s \<Rightarrow> all_in_sync s \<and> no_population_reference s \<and> no_version_reference s \<and>
       findings s = [] \<and> finding_retests s = [] \<and>
       map oc_control_definition_version_id (control_occurrences s) = [Some ''d1''] \<and>
       map oa_evidence_artifact_version_id (control_occurrence_evidence_artifacts s) = [''v1'']"
  by code_simp

lemma verify_restore_loses_links_witness:
  "\<forall>host :: (unit, unit) host. \<forall>crypt. \<exists>s r s'.
     map oc_control_definition_version_id (control_occurrences s) = [Some ''d1''] \<and>
     map oa_evidence_artifact_version_id (control_occurrence_evidence_artifacts s) = [''v1''] \<and>
     verify_restore host demo_settings crypt [] None () s = (r, s') \<and> report_passed r \<and>
     control_occurrence_evidence_artifacts s' = [] \<and> rebuild_control_occurrence_projection s' = Inr s"
proof (intro allI)
  fix host :: "(unit, unit) host" and crypt
  obtain s where s: "all_in_sync s" "no_population_reference s" "no_version_reference s" "no_finding_reference s"
    "map oc_control_definition_version_id (control_occurrences s) = [Some ''d1'']"
    "map oa_evidence_artifact_version_id (control_occurrence_evidence_artifacts s) = [''v1'']"
    using demo_linked_run by (auto simp: no_finding_reference_def split: sum.splits)
  have hashes: "verify_evidence_hashes host demo_settings () s = (0, [], [])"
    by (simp add: verify_evidence_hashes_def demo_settings_def)
  have key: "check_decryption crypt [] None \<noteq> Failed" by (simp add: check_decryption_def map_filter_simps)
  obtain r s' where "verify_restore host demo_settings crypt [] None () s = (r, s')" "report_passed r"
    "control_occurrence_evidence_artifacts s' = []" "rebuild_control_occurrence_projection s' = Inr s"
    using verify_restore_loses_links [OF s(1-4) hashes key] by blast
  note r = this
  show "\<exists>s r s'. map oc_control_definition_version_id (control_occurrences s) = [Some ''d1''] \<and>
     map oa_evidence_artifact_version_id (control_occurrence_evidence_artifacts s) = [''v1''] \<and>
     verify_restore host demo_settings crypt [] None () s = (r, s') \<and> report_passed r \<and>
     control_occurrence_evidence_artifacts s' = [] \<and> rebuild_control_occurrence_projection s' = Inr s"
    by (intro exI conjI) (rule s(5,6) r)+
qed

section \<open>Backup and restore\<close>

definition object_record :: "('s3, 'd) host \<Rightarrow> string \<Rightarrow> 's3 \<Rightarrow> string \<Rightarrow> evidence_object_record" where
  "object_record host bucket b k =
     (let content = the (s3_get (ho_client host) bucket k b)
      in \<lparr>eo_object_key = k, eo_byte_size = int (length content), eo_sha256 = ho_sha256 host content\<rparr>)"

lemma download_objects_run:
  "download_objects host bucket b keys fs = Inr (records, fs') \<Longrightarrow>
     records = map (object_record host bucket b) keys \<and>
     (\<forall>k. fs' k = (if k \<in> set keys then s3_get (ho_client host) bucket k b else fs k)) \<and>
     (\<forall>k \<in> set keys. s3_get (ho_client host) bucket k b \<noteq> None)"
proof (induction keys arbitrary: fs records)
  case (Cons k keys)
  then obtain content where c: "s3_get (ho_client host) bucket k b = Some content"
    by (auto split: option.splits)
  then obtain rest where "download_objects host bucket b keys (fs(k \<mapsto> content)) = Inr (rest, fs')"
    and records: "records = object_record host bucket b k # rest"
    using Cons.prems by (auto simp: rbind_eq_Inr_iff object_record_def)
  from Cons.IH [OF this(1)] show ?case by (simp add: records c)
qed simp

text \<open>Puts that never fail: what an upload needs beyond the laws of S3.\<close>

definition puts_succeed :: "'s3 s3_client \<Rightarrow> string \<Rightarrow> bool" where
  "puts_succeed c bucket \<longleftrightarrow> (\<forall>k x m b. fst (s3_put c bucket k x m b))"

lemma upload_objects_run:
  assumes "s3_laws (ho_client host) bucket" "puts_succeed (ho_client host) bucket"
  shows "\<forall>r \<in> set records. fs (eo_object_key r) \<noteq> None \<Longrightarrow>
     \<exists>b'. upload_objects host bucket fs records b = (Inr (), b') \<and>
       (\<forall>k. s3_get (ho_client host) bucket k b' =
          (if k \<in> eo_object_key ` set records then fs k else s3_get (ho_client host) bucket k b))"
proof (induction records arbitrary: b)
  case (Cons r records)
  let ?k = "eo_object_key r"
  obtain content where c: "fs ?k = Some content" using Cons.prems by auto
  obtain b1 where put: "s3_put (ho_client host) bucket ?k content ''application/octet-stream'' b = (True, b1)"
    using assms(2) by (cases "s3_put (ho_client host) bucket ?k content ''application/octet-stream'' b")
      (simp add: puts_succeed_def, metis fst_conv)
  have "\<forall>r \<in> set records. fs (eo_object_key r) \<noteq> None" using Cons.prems by simp
  from Cons.IH [OF this, of b1] obtain b' where
    "upload_objects host bucket fs records b1 = (Inr (), b')"
    "\<forall>k. s3_get (ho_client host) bucket k b' =
       (if k \<in> eo_object_key ` set records then fs k else s3_get (ho_client host) bucket k b1)" by blast
  moreover have "s3_get (ho_client host) bucket k b1 = (if k = ?k then fs k else s3_get (ho_client host) bucket k b)" for k
    using s3_put_law [OF assms(1) put] c by simp
  ultimately show ?case using c put by (auto simp: upload_object_def)
qed simp

text \<open>
  The PostgreSQL tools: the dump that one host makes of a database, restored on the other host into
  what is there, gives that database back.
\<close>

definition dumps_restore :: "('s3, 'd) host \<Rightarrow> ('t3, 'd) host \<Rightarrow> 'd \<Rightarrow> 'd option \<Rightarrow> bool" where
  "dumps_restore source target d old \<longleftrightarrow>
     (\<exists>dump restore. ho_pg_dump source = Some dump \<and> ho_pg_restore target = Some restore \<and>
        (\<forall>c. dump d = Some c \<longrightarrow> restore c old = (True, Some d)))"

text \<open>Every database but the active one is as it was.\<close>

definition others_untouched :: "settings \<Rightarrow> 'd databases \<Rightarrow> 'd databases \<Rightarrow> bool" where
  "others_untouched settings dbs dbs' \<longleftrightarrow>
     (is_postgres settings \<longrightarrow> ds_file dbs' = ds_file dbs) \<and>
     (\<forall>url. is_postgres settings \<and> url = se_database_url settings \<or> ds_server dbs' url = ds_server dbs url)"

lemma created_backup:
  assumes "create_backup source settings dbs b files = Inr (manifest, dir)"
  obtains copy objects fs where
    "(if is_postgres settings then backup_postgres source (se_database_url settings) dbs else backup_sqlite dbs) = Inr copy"
    "(if se_evidence_repository_configured settings
      then download_objects source (se_s3_bucket settings) b (ho_list_keys source (se_s3_bucket settings) b) files
      else Inr ([], files)) = Inr (objects, fs)"
    "bd_manifest dir = Some manifest" "bd_files dir = fs" "bd_database dir = Some copy"
    "bm_evidence_objects manifest = objects" "bm_backend manifest = (if is_postgres settings then Postgresql else Sqlite)"
  using assms by (cases "build_config_snapshot settings") (auto simp: create_backup_def rbind_eq_Inr_iff Let_def)

lemma restored_database:
  assumes copy: "(if is_postgres settings then backup_postgres source (se_database_url settings) dbs else backup_sqlite dbs) = Inr copy"
    and d: "active_database settings dbs = Some d" and same: "is_postgres settings' = is_postgres settings"
    and tools: "is_postgres settings \<Longrightarrow> dumps_restore source target d (active_database settings' dbs')"
  shows "\<exists>dbs''. restore_database target settings' (if is_postgres settings then Postgresql else Sqlite) (Some copy) dbs' = (Inr (), dbs'') \<and>
     active_database settings' dbs'' = Some d \<and> others_untouched settings' dbs' dbs''"
proof (cases "is_postgres settings")
  case True
  then obtain dump restore where t: "ho_pg_dump source = Some dump" "ho_pg_restore target = Some restore"
    "\<And>c. dump d = Some c \<Longrightarrow> restore c (ds_server dbs' (se_database_url settings')) = (True, Some d)"
    using tools same by (auto simp: dumps_restore_def active_database_def)
  moreover have "dump d = Some copy"
    using copy d True t(1) by (auto simp: backup_postgres_def active_database_def split: option.splits)
  moreover have "se_database_url settings' \<noteq> []" using True same by (simp add: is_postgres_def)
  ultimately show ?thesis
    using True same by (simp add: restore_database_def restore_postgres_def active_database_def others_untouched_def)
next
  case False
  then show ?thesis
    using copy d same
    by (auto simp: restore_database_def restore_sqlite_def backup_sqlite_def active_database_def others_untouched_def split: option.splits)
qed

text \<open>
  C29. Backup and restore. Let a backup of an instance whose active database is \<open>d\<close> succeed, and let it
  be restored on an instance with the same kind of database, its own settings and its own bucket, whatever
  is there before. Provided that the PostgreSQL tools, where they are used, give back what they
  dumped and that every put into the bucket succeeds, the restore returns the same manifest; the
  active database of the target is exactly \<open>d\<close> and no other database changed; every evidence object
  that the source listed has the bytes it had at the source, and the objects under all other keys of
  the target are untouched; the records of the manifest give the length and the SHA-256 of each
  object.
\<close>

theorem backup_restore:
  assumes "create_backup source settings dbs b files = Inr (manifest, dir)"
    and "active_database settings dbs = Some d" and "is_postgres settings' = is_postgres settings"
    and "is_postgres settings \<Longrightarrow> dumps_restore source target d (active_database settings' dbs')"
    and "se_evidence_repository_configured settings'"
    and "s3_laws (ho_client target) (se_s3_bucket settings')" "puts_succeed (ho_client target) (se_s3_bucket settings')"
  shows "\<exists>dbs'' b''. restore_backup target settings' dir dbs' b' = (Inr manifest, dbs'', b'') \<and>
     active_database settings' dbs'' = Some d \<and> others_untouched settings' dbs' dbs'' \<and>
     (\<forall>k. s3_get (ho_client target) (se_s3_bucket settings') k b'' =
        (if k \<in> eo_object_key ` set (bm_evidence_objects manifest) then s3_get (ho_client source) (se_s3_bucket settings) k b
         else s3_get (ho_client target) (se_s3_bucket settings') k b')) \<and>
     bm_evidence_objects manifest =
       (if se_evidence_repository_configured settings
        then map (object_record source (se_s3_bucket settings) b) (ho_list_keys source (se_s3_bucket settings) b) else [])"
proof -
  obtain copy objects fs where
    copy: "(if is_postgres settings then backup_postgres source (se_database_url settings) dbs else backup_sqlite dbs) = Inr copy"
    and objects: "(if se_evidence_repository_configured settings
       then download_objects source (se_s3_bucket settings) b (ho_list_keys source (se_s3_bucket settings) b) files
       else Inr ([], files)) = Inr (objects, fs)"
    and dir: "bd_manifest dir = Some manifest" "bd_files dir = fs" "bd_database dir = Some copy"
    and manifest: "bm_evidence_objects manifest = objects" "bm_backend manifest = (if is_postgres settings then Postgresql else Sqlite)"
    by (rule created_backup [OF assms(1)]) blast
  obtain dbs'' where db: "restore_database target settings' (bm_backend manifest) (bd_database dir) dbs' = (Inr (), dbs'')"
    "active_database settings' dbs'' = Some d" "others_untouched settings' dbs' dbs''"
    using restored_database [OF copy assms(2-4)] by (auto simp: manifest dir)
  have records: "objects = (if se_evidence_repository_configured settings
        then map (object_record source (se_s3_bucket settings) b) (ho_list_keys source (se_s3_bucket settings) b) else [])"
    using objects download_objects_run [of source "se_s3_bucket settings" b _ files objects fs]
    by (auto split: if_splits)
  have keys: "eo_object_key (object_record source (se_s3_bucket settings) b k) = k" for k
    by (simp add: object_record_def Let_def)
  have got: "fs k = s3_get (ho_client source) (se_s3_bucket settings) k b \<and> fs k \<noteq> None"
    if "k \<in> eo_object_key ` set objects" for k
  proof (cases "se_evidence_repository_configured settings")
    case True
    then have k: "k \<in> set (ho_list_keys source (se_s3_bucket settings) b)" using that records by (auto simp: keys)
    have "download_objects source (se_s3_bucket settings) b (ho_list_keys source (se_s3_bucket settings) b) files = Inr (objects, fs)"
      using objects True by simp
    from download_objects_run [OF this] show ?thesis using k by auto
  qed (use that records in simp)
  have "\<forall>r \<in> set objects. fs (eo_object_key r) \<noteq> None" using got by blast
  from upload_objects_run [OF assms(6,7) this] obtain b'' where
    up: "upload_objects target (se_s3_bucket settings') fs objects b' = (Inr (), b'')"
    and bytes: "\<forall>k. s3_get (ho_client target) (se_s3_bucket settings') k b'' =
       (if k \<in> eo_object_key ` set objects then fs k else s3_get (ho_client target) (se_s3_bucket settings') k b')"
    by blast
  have "restore_backup target settings' dir dbs' b' = (Inr manifest, dbs'', b'')"
    using up by (cases "objects = []") (simp_all add: restore_backup_def dir(1,2) db(1) manifest(1) assms(5))
  then show ?thesis using bytes got db(2,3) by (intro exI [of _ dbs''] exI [of _ b'']) (simp add: manifest records [symmetric])
qed

text \<open>
  Across kinds nothing of this holds, and nothing says so: a SQLite backup restored on an instance
  that works on PostgreSQL writes the file next to it and returns its manifest, and the
  database in use is as it was.
\<close>

theorem cross_backend_restore_untouched:
  assumes "create_backup source settings dbs b files = Inr (manifest, dir)"
    and "\<not> is_postgres settings" "is_postgres settings'" "bm_evidence_objects manifest = []"
  shows "\<exists>dbs''. restore_backup target settings' dir dbs' b' = (Inr manifest, dbs'', b') \<and>
     active_database settings' dbs'' = active_database settings' dbs'"
proof -
  obtain copy where "bd_manifest dir = Some manifest" "bd_database dir = Some copy" "bm_backend manifest = Sqlite"
    by (rule created_backup [OF assms(1)]) (use assms(2) in auto)
  then show ?thesis
    using assms(3,4) by (simp add: restore_backup_def restore_database_def restore_sqlite_def active_database_def)
qed

text \<open>Both kinds of database: the file, and a server with tools that copy and restore as they should.\<close>

definition demo_host :: "((string \<rightharpoonup> string), string) host" where
  "demo_host = \<lparr>ho_now = Datetime (Date 2026 8 20) 0, ho_pg_dump = Some Some, ho_pg_restore = Some (\<lambda>c old. (True, Some c)),
     ho_client = demo_s3,
     ho_list_keys = (\<lambda>bucket b. filter (\<lambda>k. b k \<noteq> None) [''evidence/a'', ''evidence/z'']), ho_sha256 = (\<lambda>x. x)\<rparr>"

definition demo_instance :: "bool \<Rightarrow> string \<Rightarrow> settings" where
  "demo_instance postgres url =
     demo_settings\<lparr>se_evidence_repository_configured := True, se_database_url := (if postgres then url else [])\<rparr>"

lemma backup_restore_witness:
  "\<forall>postgres. \<exists>manifest dir dbs'' b''.
     create_backup demo_host (demo_instance postgres ''db1'') \<lparr>ds_file = Some ''rows'', ds_server = (\<lambda>_. Some ''rows'')\<rparr>
       [''evidence/a'' \<mapsto> ''one''] Map.empty = Inr (manifest, dir) \<and>
     restore_backup demo_host (demo_instance postgres ''db2'') dir \<lparr>ds_file = None, ds_server = (\<lambda>_. Some ''old rows'')\<rparr>
       [''evidence/a'' \<mapsto> ''old'', ''other'' \<mapsto> ''two''] = (Inr manifest, dbs'', b'') \<and>
     active_database (demo_instance postgres ''db2'') dbs'' = Some ''rows'' \<and>
     b'' ''evidence/a'' = Some ''one'' \<and> b'' ''other'' = Some ''two''"
proof
  fix postgres
  let ?st = "demo_instance postgres ''db1''" and ?st' = "demo_instance postgres ''db2''"
  let ?dbs = "\<lparr>ds_file = Some ''rows'', ds_server = (\<lambda>_. Some ''rows'')\<rparr>"
  let ?dbs' = "\<lparr>ds_file = None, ds_server = (\<lambda>_. Some ''old rows'')\<rparr>"
  let ?b = "[''evidence/a'' \<mapsto> ''one'']" and ?b' = "[''evidence/a'' \<mapsto> ''old'', ''other'' \<mapsto> ''two'']"
  have st: "se_s3_bucket ?st = ''grc''" "se_s3_bucket ?st' = ''grc''" "se_evidence_repository_configured ?st"
    "se_evidence_repository_configured ?st'" "is_postgres ?st' = is_postgres ?st"
    by (simp_all add: demo_instance_def demo_settings_def is_postgres_def)
  have act: "active_database ?st ?dbs = Some ''rows''" by (simp add: active_database_def)
  have tools: "dumps_restore demo_host demo_host ''rows'' x" for x by (simp add: dumps_restore_def demo_host_def)
  have keys: "ho_list_keys demo_host bk ?b = [''evidence/a'']" for bk by (simp add: demo_host_def)
  have get: "s3_get (ho_client demo_host) bk k b = b k" for bk k b by (simp add: demo_host_def demo_s3_def)
  have "case create_backup demo_host ?st ?dbs ?b Map.empty of Inl _ \<Rightarrow> False | Inr _ \<Rightarrow> True"
    by (cases "build_config_snapshot ?st")
       (simp add: create_backup_def keys get backup_sqlite_def backup_postgres_def demo_host_def [THEN arg_cong, of ho_pg_dump] st Let_def)
  then obtain manifest dir where run: "create_backup demo_host ?st ?dbs ?b Map.empty = Inr (manifest, dir)"
    by (auto split: sum.splits)
  have laws: "s3_laws (ho_client demo_host) (se_s3_bucket ?st')" "puts_succeed (ho_client demo_host) (se_s3_bucket ?st')"
    using demo_s3_laws by (simp_all add: s3_laws_def puts_succeed_def demo_host_def demo_s3_def demo_evidence_env_def)
  obtain dbs'' b'' where r: "restore_backup demo_host ?st' dir ?dbs' ?b' = (Inr manifest, dbs'', b'')"
      "active_database ?st' dbs'' = Some ''rows''"
      "\<forall>k. b'' k = (if k \<in> eo_object_key ` set (bm_evidence_objects manifest) then ?b k else ?b' k)"
      "bm_evidence_objects manifest = [object_record demo_host (se_s3_bucket ?st) ?b ''evidence/a'']"
    using backup_restore [OF run act st(5) tools st(4) laws, of ?dbs' ?b'] by (auto simp: keys get st)
  then have "b'' ''evidence/a'' = Some ''one''" "b'' ''other'' = Some ''two''"
    by (simp_all add: object_record_def Let_def)
  then show "\<exists>manifest dir dbs'' b''.
     create_backup demo_host ?st ?dbs ?b Map.empty = Inr (manifest, dir) \<and>
     restore_backup demo_host ?st' dir ?dbs' ?b' = (Inr manifest, dbs'', b'') \<and>
     active_database ?st' dbs'' = Some ''rows'' \<and> b'' ''evidence/a'' = Some ''one'' \<and> b'' ''other'' = Some ''two''"
    using run r(1,2) by blast
qed

text \<open>A verification that passes has seen every version's bytes.\<close>

lemma verified_hashes:
  "verify_hashes host bucket b versions = (n, [], []) \<Longrightarrow>
     n = length versions \<and>
     (\<forall>v \<in> set versions. \<exists>content. download_object (ho_client host) bucket (av_object_key v) b = Inr content \<and>
        ho_sha256 host content = av_sha256 v)"
  by (induction versions arbitrary: n) (auto split: prod.splits sum.splits if_splits)

end
