(* ===== verification/Registers.thy ===== *)
theory Registers
  imports Evidence_Repository Py_Text
begin

text \<open>
  The registers of people, vendor systems and risks. This theory holds their tables from
  \<open>src/app/models.py\<close> beside the database of the compliance domains, the constraints the
  database puts on their rows, and the people directory: \<open>src/app/routers/people.py\<close> and
  the write half of \<open>src/app/google_workspace_directory.py\<close>. Who may call a route is the
  guards' part (\<open>Access_Control\<close>); ids and instants are arguments; the user table enters only
  through the ids a foreign key asks for.
\<close>

section \<open>Tables\<close>

record vendor_system =
  vs_id :: string
  vs_system_name :: string
  vs_vendor_name :: string
  vs_lifecycle_status :: string
  vs_access_url :: string
  vs_admin_console_url :: "string option"
  vs_primary_department :: string
  vs_business_owner_person_id :: "string option"
  vs_in_scope :: bool
  vs_uses_shared_login :: bool
  vs_shared_credential_reference_url :: "string option"
  vs_primary_admin_person_id :: "string option"
  vs_secondary_admin_person_id :: "string option"
  vs_roster_last_confirmed_at :: "datetime option"
  vs_billing_frequency :: string
  vs_billing_amount_minor :: "int option"
  vs_currency :: string
  vs_seat_count :: "int option"
  vs_cost_per_seat_minor :: "int option"
  vs_contract_url :: "string option"
  vs_contract_start_date :: "date option"
  vs_renewal_date :: "date option"
  vs_auto_renew :: string
  vs_cancellation_notice_days :: "int option"
  vs_renewal_owner_person_id :: "string option"
  vs_support_portal_url :: "string option"
  vs_support_email :: "string option"
  vs_support_phone :: "string option"
  vs_account_manager_name :: "string option"
  vs_account_manager_email :: "string option"
  vs_emergency_escalation_instructions :: string
  vs_customer_account_reference :: "string option"

record vendor_user_snapshot =
  sn_id :: string
  sn_vendor_system_id :: string
  sn_imported_at :: datetime
  sn_imported_by_user_id :: string
  sn_original_filename :: string
  sn_sha256 :: string
  sn_row_count :: nat

record vendor_user_snapshot_row =
  sr_id :: string
  sr_snapshot_id :: string
  sr_normalized_email :: string
  sr_imported_email :: string
  sr_imported_name :: string
  sr_imported_role :: string
  sr_imported_status :: string
  sr_imported_last_login_at :: "datetime option"
  sr_matched_person_id :: "string option"

record risk =
  ri_id :: string
  ri_title :: string
  ri_description :: string
  ri_category :: string
  ri_likelihood :: int
  ri_impact :: int
  ri_owner :: string
  ri_status :: string
  ri_treatment_plan :: string

definition risk_score :: "risk \<Rightarrow> int" where
  "risk_score r = ri_likelihood r * ri_impact r"

datatype import_status = Validating | Importing | Completed | Rejected

text \<open>The target is kept as the dictionary whose JSON text the column holds.\<close>

record import_job =
  ij_id :: string
  ij_source :: string
  ij_importer_name :: string
  ij_original_filename :: string
  ij_file_size :: nat
  ij_checksum_sha256 :: string
  ij_status :: import_status
  ij_entity_type :: string
  ij_target :: "(string \<times> string) list"
  ij_records_discovered :: nat
  ij_records_created :: nat
  ij_records_updated :: nat
  ij_records_skipped :: nat
  ij_validation_errors :: "string list option"
  ij_created_by :: string

record registers =
  rg_db :: db
  rg_user_ids :: "string list"
  vendor_systems :: "vendor_system list"
  vendor_user_snapshots :: "vendor_user_snapshot list"
  vendor_user_snapshot_rows :: "vendor_user_snapshot_row list"
  risks :: "risk list"
  import_jobs :: "import_job list"

definition on_db :: "(db \<Rightarrow> db) \<Rightarrow> registers \<Rightarrow> registers" where
  "on_db f s = s\<lparr>rg_db := f (rg_db s)\<rparr>"

definition audit_registers :: "string \<Rightarrow> string \<Rightarrow> string \<Rightarrow> string \<Rightarrow> string \<Rightarrow> registers \<Rightarrow> registers" where
  "audit_registers entity_type entity_id action detail actor =
     on_db (record_audit_event entity_type entity_id action detail actor)"

section \<open>Constraints\<close>

text \<open>SQL's \<open>trim\<close> removes blanks only.\<close>

definition sql_blank :: "string \<Rightarrow> bool" where
  "sql_blank x = list_all (\<lambda>c. c = CHR '' '') x"

text \<open>An integer column holds 64 bits; the driver refuses a larger number.\<close>

definition int_column_ok :: "int option \<Rightarrow> bool" where
  "int_column_ok v = (case v of None \<Rightarrow> True | Some n \<Rightarrow> - (2 ^ 63) \<le> n \<and> n < 2 ^ 63)"

definition upper_char :: "char \<Rightarrow> char" where
  "upper_char c = (let n = of_char c :: nat in if 97 \<le> n \<and> n \<le> 122 then char_of (n - 32) else c)"

definition upper :: "string \<Rightarrow> string" where
  "upper s = map upper_char s"

definition person_refs_ok :: "vendor_system \<Rightarrow> db \<Rightarrow> bool" where
  "person_refs_ok v d =
     (fk_ok pe_id (vs_business_owner_person_id v) (people d) \<and> fk_ok pe_id (vs_primary_admin_person_id v) (people d) \<and>
      fk_ok pe_id (vs_secondary_admin_person_id v) (people d) \<and> fk_ok pe_id (vs_renewal_owner_person_id v) (people d))"

definition vendor_row_ok :: "vendor_system \<Rightarrow> db \<Rightarrow> bool" where
  "vendor_row_ok v d =
     (\<not> sql_blank (vs_system_name v) \<and> \<not> sql_blank (vs_vendor_name v) \<and>
      vs_currency v = upper (vs_currency v) \<and> length (vs_currency v) = 3 \<and> person_refs_ok v d)"

definition insert_vendor :: "vendor_system \<Rightarrow> registers \<Rightarrow> registers result" where
  "insert_vendor v s =
     (if has_row vs_id (vs_id v) (vendor_systems s) \<or> \<not> vendor_row_ok v (rg_db s) then Inl IntegrityError
      else Inr (s\<lparr>vendor_systems := vendor_systems s @ [v]\<rparr>))"

definition insert_snapshot :: "vendor_user_snapshot \<Rightarrow> registers \<Rightarrow> registers result" where
  "insert_snapshot n s =
     (if has_row sn_id (sn_id n) (vendor_user_snapshots s) \<or> \<not> has_row vs_id (sn_vendor_system_id n) (vendor_systems s) \<or>
         sn_imported_by_user_id n \<notin> set (rg_user_ids s)
      then Inl IntegrityError else Inr (s\<lparr>vendor_user_snapshots := vendor_user_snapshots s @ [n]\<rparr>))"

definition row_slot :: "vendor_user_snapshot_row \<Rightarrow> string \<times> string" where
  "row_slot r = (sr_snapshot_id r, sr_normalized_email r)"

definition insert_snapshot_row :: "registers \<Rightarrow> vendor_user_snapshot_row \<Rightarrow> registers result" where
  "insert_snapshot_row s r =
     (if has_row sr_id (sr_id r) (vendor_user_snapshot_rows s) \<or> has_row row_slot (row_slot r) (vendor_user_snapshot_rows s) \<or>
         \<not> has_row sn_id (sr_snapshot_id r) (vendor_user_snapshots s) \<or>
         \<not> fk_ok pe_id (sr_matched_person_id r) (people (rg_db s))
      then Inl IntegrityError else Inr (s\<lparr>vendor_user_snapshot_rows := vendor_user_snapshot_rows s @ [r]\<rparr>))"

definition insert_risk :: "registers \<Rightarrow> risk \<Rightarrow> registers result" where
  "insert_risk s r =
     (if has_row ri_id (ri_id r) (risks s) \<or> \<not> (1 \<le> ri_likelihood r \<and> ri_likelihood r \<le> 5) \<or>
         \<not> (1 \<le> ri_impact r \<and> ri_impact r \<le> 5) \<or> sql_blank (ri_title r)
      then Inl IntegrityError else Inr (s\<lparr>risks := risks s @ [r]\<rparr>))"

definition insert_person :: "db \<Rightarrow> person \<Rightarrow> db result" where
  "insert_person d p =
     (if has_row pe_id (pe_id p) (people d) \<or> has_row pe_email (pe_email p) (people d) then Inl IntegrityError
      else Inr (d\<lparr>people := people d @ [p]\<rparr>))"

section \<open>The people directory\<close>

definition employment_statuses :: "string list" where
  "employment_statuses = [''active'', ''suspended'', ''departed'', ''unknown'']"

text \<open>\<open>normalize_email\<close>; a blank address is refused before any row is written.\<close>

definition normalize_address :: "string \<Rightarrow> string" where
  "normalize_address email = lower (strip email)"

definition in_quotes :: "string \<Rightarrow> string" where
  "in_quotes x = [CHR 0x27] @ x @ [CHR 0x27]"

definition create_person ::
  "string \<Rightarrow> string \<Rightarrow> string \<Rightarrow> string \<Rightarrow> string \<Rightarrow> registers \<Rightarrow> (response \<times> registers) result" where
  "create_person new_id email display_name employment_status actor s =
     (let normalized = normalize_address email
      in if normalized = [] then Inr (Flash ''/people/new'' ''Email is required.'' ''error'', s)
         else (let person = \<lparr>pe_id = new_id, pe_email = normalized, pe_display_name = strip display_name,
                     pe_employment_status = (if employment_status \<in> set employment_statuses then employment_status else ''unknown''),
                     pe_source = ''manual'', pe_external_id = None, pe_last_synced_at = None, pe_in_scope = False\<rparr>
               in case insert_person (rg_db s) person of
                    Inl _ \<Rightarrow> Inr (Flash ''/people/new'' (''A person with email '' @ in_quotes normalized @ '' already exists.'') ''error'', s)
                  | Inr d \<Rightarrow>
                      Inr (Flash (''/people/'' @ new_id) ''Person added.'' ''success'',
                           audit_registers ''person'' new_id ''create'' (''Added person '' @ in_quotes normalized) actor (s\<lparr>rg_db := d\<rparr>))))"

text \<open>The audit detail is the text of two dictionaries; \<open>before\<close> and \<open>after\<close> are its parts.\<close>

definition update_person ::
  "(person \<Rightarrow> string) \<Rightarrow> string \<Rightarrow> string \<Rightarrow> string \<Rightarrow> bool \<Rightarrow> string \<Rightarrow> registers \<Rightarrow> (response \<times> registers) result" where
  "update_person show_person person_id display_name employment_status in_scope actor s =
     (case row_get pe_id person_id (people (rg_db s)) of
        None \<Rightarrow> Inl (HTTPException 404)
      | Some person \<Rightarrow>
          if employment_status \<notin> set employment_statuses
          then Inr (Flash (''/people/'' @ person_id) ''Invalid employment status.'' ''error'', s)
          else (let change = (\<lambda>p. p\<lparr>pe_display_name := strip display_name, pe_employment_status := employment_status,
                       pe_in_scope := in_scope\<rparr>)
                in Inr (Flash (''/people/'' @ person_id) ''Person updated.'' ''success'',
                        audit_registers ''person'' person_id ''update''
                          (''Updated person '' @ in_quotes (pe_email person) @ '': before='' @ show_person person @
                           '' after='' @ show_person (change person)) actor
                          (on_db (\<lambda>d. d\<lparr>people := row_upd pe_id person_id change (people d)\<rparr>) s))))"

text \<open>The list: \<open>ILIKE\<close> with the pattern characters of the needle escaped is a substring test.\<close>

fun is_prefix :: "string \<Rightarrow> string \<Rightarrow> bool" where
  "is_prefix [] ys = True"
| "is_prefix (x # xs) [] = False"
| "is_prefix (x # xs) (y # ys) = (x = y \<and> is_prefix xs ys)"

fun contains :: "string \<Rightarrow> string \<Rightarrow> bool" where
  "contains needle [] = (needle = [])"
| "contains needle (c # s) = (is_prefix needle (c # s) \<or> contains needle s)"

definition list_people :: "string \<Rightarrow> string \<Rightarrow> registers \<Rightarrow> person list" where
  "list_people q status s =
     (let needle = lower (strip q)
      in sort_key (\<lambda>p. (pe_display_name p, pe_email p))
           (filter (\<lambda>p. (status \<in> set employment_statuses \<longrightarrow> pe_employment_status p = status) \<and>
                        (needle \<noteq> [] \<longrightarrow> contains needle (lower (pe_email p)) \<or> contains needle (lower (pe_display_name p))))
             (people (rg_db s))))"

section \<open>The Workspace directory\<close>

record workspace_user =
  wu_external_id :: string
  wu_primary_email :: string
  wu_display_name :: string
  wu_suspended :: bool
  wu_archived :: bool

text \<open>
  The session does not flush on its own: a lookup sees the rows of the database, not the people
  this loop has added. The additions are flushed after the loop.
\<close>

definition directory_status :: "workspace_user \<Rightarrow> string" where
  "directory_status u = (if wu_suspended u \<or> wu_archived u then ''suspended'' else ''active'')"

definition sync_person :: "datetime \<Rightarrow> workspace_user \<Rightarrow> person \<Rightarrow> person" where
  "sync_person now u p =
     p\<lparr>pe_display_name := (if wu_display_name u = [] then pe_display_name p else wu_display_name u),
       pe_employment_status := directory_status u, pe_source := ''google_workspace'',
       pe_external_id := Some (wu_external_id u), pe_last_synced_at := Some now\<rparr>"

fun sync_loop ::
  "(nat \<Rightarrow> string) \<Rightarrow> datetime \<Rightarrow> workspace_user list \<Rightarrow> person list \<Rightarrow> person list \<Rightarrow> nat \<Rightarrow>
   person list \<times> person list \<times> nat" where
  "sync_loop new_ids now [] rows added updated = (rows, added, updated)"
| "sync_loop new_ids now (u # us) rows added updated =
     (let normalized_email = lower (strip (wu_primary_email u))
      in if normalized_email = [] then sync_loop new_ids now us rows added updated
         else (case row_get pe_email normalized_email rows of
                 None \<Rightarrow>
                   sync_loop new_ids now us rows
                     (added @ [\<lparr>pe_id = new_ids (length added), pe_email = normalized_email,
                        pe_display_name = wu_display_name u, pe_employment_status = directory_status u,
                        pe_source = ''google_workspace'', pe_external_id = Some (wu_external_id u),
                        pe_last_synced_at = Some now, pe_in_scope = False\<rparr>]) updated
               | Some p \<Rightarrow>
                   sync_loop new_ids now us (row_upd pe_email normalized_email (sync_person now u) rows) added (Suc updated)))"

definition sync_directory_users ::
  "(nat \<Rightarrow> string) \<Rightarrow> datetime \<Rightarrow> workspace_user list \<Rightarrow> db \<Rightarrow> ((nat \<times> nat \<times> nat) \<times> db) result" where
  "sync_directory_users new_ids now us d =
     (case sync_loop new_ids now us (people d) [] 0 of
        (rows, added, updated) \<Rightarrow>
          rbind (rfold insert_person added (d\<lparr>people := rows\<rparr>)) (\<lambda>d'. Inr ((length added, updated, length us), d')))"

text \<open>
  The route: \<open>fetched\<close> is what the token exchange and the directory returned, with the id of
  the Drive connection, or the message of the error they raised.
\<close>

definition sync_workspace_directory ::
  "bool \<Rightarrow> string + string \<times> workspace_user list \<Rightarrow> (nat \<Rightarrow> string) \<Rightarrow> datetime \<Rightarrow> string \<Rightarrow>
   registers \<Rightarrow> (response \<times> registers) result" where
  "sync_workspace_directory enabled fetched new_ids now actor s =
     (if \<not> enabled then Inr (Flash ''/people'' ''Workspace Directory sync is not enabled.'' ''error'', s)
      else (case fetched of
              Inl message \<Rightarrow> Inr (Flash ''/people'' message ''error'', s)
            | Inr (connection_id, us) \<Rightarrow>
                rbind (sync_directory_users new_ids now us (rg_db s)) (\<lambda>((created, updated, total), d).
                  Inr (Flash ''/people'' (''Synced '' @ str_int (int total) @ '' directory user(s): '' @ str_int (int created) @
                         '' new, '' @ str_int (int updated) @ '' updated.'') ''success'',
                       audit_registers ''google_drive_connection'' connection_id ''sync_workspace_directory''
                         (''Workspace Directory sync: '' @ str_int (int created) @ '' created, '' @ str_int (int updated) @ '' updated'')
                         actor (s\<lparr>rg_db := d\<rparr>)))))"

end
