(* ===== verification/Vendors.thy ===== *)
theory Vendors
  imports Registers
begin

text \<open>
  The vendor register: the form handlers of \<open>src/app/routers/vendor_systems.py\<close>, the
  operational flags of \<open>vendor_flags.py\<close>, and the user-roster snapshots of
  \<open>vendor_roster_import.py\<close> with their comparison. \<open>datetime.fromisoformat\<close>, which accepts many
  more forms than the application writes, is an argument of the roster parser; a form field
  that holds a date is read in the form of a date input.
\<close>

section \<open>Form fields\<close>

text \<open>\<open>Decimal\<close> on a text: underscores and white space around it are ignored.\<close>

datatype decimal = Finite bool nat int | Infinite | Not_a_number

definition split_sign :: "string \<Rightarrow> bool \<times> string" where
  "split_sign s =
     (case s of c # t \<Rightarrow> if c = CHR ''-'' then (True, t) else if c = CHR ''+'' then (False, t) else (False, s) | [] \<Rightarrow> (False, s))"

definition special_decimal :: "string \<Rightarrow> decimal option" where
  "special_decimal l =
     (if l = ''inf'' \<or> l = ''infinity'' then Some Infinite
      else if take 3 l = ''nan'' \<and> list_all is_digit (drop 3 l) \<or> take 4 l = ''snan'' \<and> list_all is_digit (drop 4 l)
      then Some Not_a_number else None)"

definition exponent_of :: "string \<Rightarrow> int option" where
  "exponent_of s =
     (case s of
        [] \<Rightarrow> Some 0
      | c # x \<Rightarrow>
          (case split_sign x of (neg, y) \<Rightarrow>
             if c \<noteq> CHR ''e'' \<and> c \<noteq> CHR ''E'' \<or> y = [] \<or> \<not> list_all is_digit y \<or> 10 ^ 18 < read_digits y then None
             else Some (if neg then - read_digits y else read_digits y)))"

definition decimal_of :: "string \<Rightarrow> decimal option" where
  "decimal_of s =
     (case split_sign (filter (\<lambda>c. c \<noteq> CHR ''_'') (strip s)) of (neg, u) \<Rightarrow>
        case special_decimal (lower u) of
          Some d \<Rightarrow> Some d
        | None \<Rightarrow>
            (let a = takeWhile is_digit u; r = dropWhile is_digit u;
                 point = (r \<noteq> [] \<and> hd r = CHR ''.'');
                 b = (if point then takeWhile is_digit (tl r) else []);
                 rest = (if point then dropWhile is_digit (tl r) else r)
             in if a @ b = [] then None
                else map_option (\<lambda>e. Finite neg (nat (read_digits (a @ b))) (e - int (length b))) (exponent_of rest)))"

definition round_half_even :: "nat \<Rightarrow> nat \<Rightarrow> nat" where
  "round_half_even n d =
     (let q = n div d; r = n mod d
      in if 2 * r < d then q else if 2 * r > d then q + 1 else if even q then q else q + 1)"

fun num_digits :: "nat \<Rightarrow> nat" where
  "num_digits n = (if n < 10 then 1 else Suc (num_digits (n div 10)))"

declare num_digits.simps [simp del]

text \<open>The default context: 28 digits, half-even, and an exception above the largest exponent.\<close>

definition times_100 :: "bool \<Rightarrow> nat \<Rightarrow> int \<Rightarrow> int result" where
  "times_100 neg c e =
     (let c1 = c * 100; k = num_digits c1;
          c2 = (if 28 < k then round_half_even c1 (10 ^ (k - 28)) else c1);
          e2 = (if 28 < k then e + int (k - 28) else e)
      in if c2 \<noteq> 0 \<and> 999999 < e2 + int (num_digits c2) - 1 then Inl OverflowError
         else (let v = int (if 0 \<le> e2 then c2 * 10 ^ nat e2 else round_half_even c2 (10 ^ nat (- e2)))
               in Inr (if neg then - v else v)))"

definition parse_minor_units :: "string \<Rightarrow> int option result" where
  "parse_minor_units value =
     (let value = strip value; invalid = Inl (ValueError (in_quotes value @ '' is not a valid amount''))
      in if value = [] then Inr None
         else (case decimal_of value of
                 None \<Rightarrow> invalid
               | Some Not_a_number \<Rightarrow> invalid
               | Some Infinite \<Rightarrow> Inl OverflowError
               | Some (Finite neg c e) \<Rightarrow> rbind (times_100 neg c e) (\<lambda>v. Inr (Some v))))"

definition parse_date :: "string \<Rightarrow> date option" where
  "parse_date value =
     (if strip value = [] then None
      else (case date_fromisoformat (strip value) of Inl _ \<Rightarrow> None | Inr d \<Rightarrow> Some d))"

definition parse_int :: "string \<Rightarrow> int option" where
  "parse_int value =
     (if strip value = [] then None else (case py_int value of Inl _ \<Rightarrow> None | Inr n \<Rightarrow> Some n))"

section \<open>Creating and editing\<close>

definition vendor_lifecycle_statuses :: "string list" where
  "vendor_lifecycle_statuses = [''trial'', ''active'', ''cancelling'', ''cancelled'']"

definition billing_frequencies :: "string list" where
  "billing_frequencies = [''monthly'', ''annual'', ''other'']"

definition tri_state_values :: "string list" where
  "tri_state_values = [''yes'', ''no'', ''unknown'']"

type_synonym form = "string \<rightharpoonup> string"

definition form_text :: "form \<Rightarrow> string \<Rightarrow> string" where
  "form_text f key = (case f key of None \<Rightarrow> [] | Some v \<Rightarrow> v)"

definition text_or_none :: "form \<Rightarrow> string \<Rightarrow> string option" where
  "text_or_none f key = (let v = strip (form_text f key) in if v = [] then None else Some v)"

definition raw_or_none :: "form \<Rightarrow> string \<Rightarrow> string option" where
  "raw_or_none f key = (let v = form_text f key in if v = [] then None else Some v)"

definition choice :: "form \<Rightarrow> string \<Rightarrow> string list \<Rightarrow> string \<Rightarrow> string" where
  "choice f key options dflt = (case f key of Some v \<Rightarrow> if v \<in> set options then v else dflt | None \<Rightarrow> dflt)"

definition currency_of :: "form \<Rightarrow> string" where
  "currency_of f =
     (let v = (case f ''currency'' of None \<Rightarrow> ''USD'' | Some v \<Rightarrow> v)
      in take 3 (upper (strip (if v = [] then ''USD'' else v))))"

text \<open>What \<open>_extract_vendor_fields\<close> and the two amounts set on a row.\<close>

definition extract_vendor_fields :: "form \<Rightarrow> int option \<Rightarrow> int option \<Rightarrow> vendor_system \<Rightarrow> vendor_system" where
  "extract_vendor_fields f amount cost_per_seat v =
     v\<lparr>vs_system_name := strip (form_text f ''system_name''), vs_vendor_name := strip (form_text f ''vendor_name''),
       vs_lifecycle_status := choice f ''lifecycle_status'' vendor_lifecycle_statuses ''active'',
       vs_access_url := strip (form_text f ''access_url''), vs_admin_console_url := text_or_none f ''admin_console_url'',
       vs_primary_department := strip (form_text f ''primary_department''),
       vs_business_owner_person_id := raw_or_none f ''business_owner_person_id'',
       vs_in_scope := (f ''in_scope'' = Some ''on''), vs_uses_shared_login := (f ''uses_shared_login'' = Some ''on''),
       vs_shared_credential_reference_url := text_or_none f ''shared_credential_reference_url'',
       vs_primary_admin_person_id := raw_or_none f ''primary_admin_person_id'',
       vs_secondary_admin_person_id := raw_or_none f ''secondary_admin_person_id'',
       vs_billing_frequency := choice f ''billing_frequency'' billing_frequencies ''other'',
       vs_currency := currency_of f, vs_seat_count := parse_int (form_text f ''seat_count''),
       vs_contract_url := text_or_none f ''contract_url'',
       vs_contract_start_date := parse_date (form_text f ''contract_start_date''),
       vs_renewal_date := parse_date (form_text f ''renewal_date''),
       vs_auto_renew := choice f ''auto_renew'' tri_state_values ''unknown'',
       vs_cancellation_notice_days := parse_int (form_text f ''cancellation_notice_days''),
       vs_renewal_owner_person_id := raw_or_none f ''renewal_owner_person_id'',
       vs_support_portal_url := text_or_none f ''support_portal_url'', vs_support_email := text_or_none f ''support_email'',
       vs_support_phone := text_or_none f ''support_phone'', vs_account_manager_name := text_or_none f ''account_manager_name'',
       vs_account_manager_email := text_or_none f ''account_manager_email'',
       vs_emergency_escalation_instructions := strip (form_text f ''emergency_escalation_instructions''),
       vs_customer_account_reference := text_or_none f ''customer_account_reference'',
       vs_billing_amount_minor := amount, vs_cost_per_seat_minor := cost_per_seat\<rparr>"

definition blank_vendor :: "string \<Rightarrow> vendor_system" where
  "blank_vendor new_id =
     \<lparr>vs_id = new_id, vs_system_name = [], vs_vendor_name = [], vs_lifecycle_status = ''active'', vs_access_url = [],
      vs_admin_console_url = None, vs_primary_department = [], vs_business_owner_person_id = None, vs_in_scope = False,
      vs_uses_shared_login = False, vs_shared_credential_reference_url = None, vs_primary_admin_person_id = None,
      vs_secondary_admin_person_id = None, vs_roster_last_confirmed_at = None, vs_billing_frequency = ''other'',
      vs_billing_amount_minor = None, vs_currency = ''USD'', vs_seat_count = None, vs_cost_per_seat_minor = None,
      vs_contract_url = None, vs_contract_start_date = None, vs_renewal_date = None, vs_auto_renew = ''unknown'',
      vs_cancellation_notice_days = None, vs_renewal_owner_person_id = None, vs_support_portal_url = None,
      vs_support_email = None, vs_support_phone = None, vs_account_manager_name = None, vs_account_manager_email = None,
      vs_emergency_escalation_instructions = [], vs_customer_account_reference = None\<rparr>"

definition vendor_ints_ok :: "vendor_system \<Rightarrow> bool" where
  "vendor_ints_ok v =
     (int_column_ok (vs_billing_amount_minor v) \<and> int_column_ok (vs_cost_per_seat_minor v) \<and>
      int_column_ok (vs_seat_count v) \<and> int_column_ok (vs_cancellation_notice_days v))"

definition amounts :: "form \<Rightarrow> (int option \<times> int option) result" where
  "amounts f =
     rbind (parse_minor_units (form_text f ''billing_amount'')) (\<lambda>a.
     rbind (parse_minor_units (form_text f ''cost_per_seat'')) (\<lambda>c. Inr (a, c)))"

definition names_missing :: "form \<Rightarrow> bool" where
  "names_missing f = (strip (form_text f ''system_name'') = [] \<or> strip (form_text f ''vendor_name'') = [])"

definition create_vendor :: "string \<Rightarrow> form \<Rightarrow> string \<Rightarrow> registers \<Rightarrow> (response \<times> registers) result" where
  "create_vendor new_id f actor s =
     (if names_missing f
      then Inr (Flash ''/vendors/new'' ''System name and vendor name are required.'' ''error'', s)
      else (case amounts f of
              Inl (ValueError m) \<Rightarrow> Inr (Flash ''/vendors/new'' m ''error'', s)
            | Inl e \<Rightarrow> Inl e
            | Inr (amount, cost_per_seat) \<Rightarrow>
                (let vendor = extract_vendor_fields f amount cost_per_seat (blank_vendor new_id)
                 in if \<not> vendor_ints_ok vendor then Inl OverflowError
                    else rbind (insert_vendor vendor s) (\<lambda>s1.
                      Inr (Flash (''/vendors/'' @ new_id) ''Vendor system added.'' ''success'',
                           audit_registers ''vendor_system'' new_id ''create''
                             (''Added vendor system '' @ in_quotes (vs_system_name vendor) @ '' ('' @ vs_vendor_name vendor @ '')'')
                             actor s1)))))"

text \<open>The changed row is checked when the request's commit flushes it.\<close>

definition update_vendor :: "string \<Rightarrow> form \<Rightarrow> string \<Rightarrow> registers \<Rightarrow> (response \<times> registers) result" where
  "update_vendor vendor_id f actor s =
     (case row_get vs_id vendor_id (vendor_systems s) of
        None \<Rightarrow> Inl (HTTPException 404)
      | Some vendor \<Rightarrow>
          if names_missing f
          then Inr (Flash (''/vendors/'' @ vendor_id @ ''/edit'') ''System name and vendor name are required.'' ''error'', s)
          else (case amounts f of
                  Inl (ValueError m) \<Rightarrow> Inr (Flash (''/vendors/'' @ vendor_id @ ''/edit'') m ''error'', s)
                | Inl e \<Rightarrow> Inl e
                | Inr (amount, cost_per_seat) \<Rightarrow>
                    (let change = extract_vendor_fields f amount cost_per_seat; vendor' = change vendor
                     in if \<not> vendor_ints_ok vendor' then Inl OverflowError
                        else if \<not> vendor_row_ok vendor' (rg_db s) then Inl IntegrityError
                        else Inr (Flash (''/vendors/'' @ vendor_id) ''Vendor system updated.'' ''success'',
                                  audit_registers ''vendor_system'' vendor_id ''update''
                                    (''Updated vendor system '' @ in_quotes (vs_system_name vendor')) actor
                                    (s\<lparr>vendor_systems := row_upd vs_id vendor_id change (vendor_systems s)\<rparr>)))))"

section \<open>Operational flags\<close>

definition annualized_cost_minor :: "vendor_system \<Rightarrow> int option" where
  "annualized_cost_minor v =
     (case vs_billing_amount_minor v of
        None \<Rightarrow> None
      | Some n \<Rightarrow> if vs_billing_frequency v = ''monthly'' then Some (n * 12)
                 else if vs_billing_frequency v = ''annual'' then Some n else None)"

definition max_ordinal :: int where
  "max_ordinal = 3652059"

text \<open>The ordinal of the deadline. \<open>timedelta\<close> and the subtraction raise outside their ranges.\<close>

definition cancellation_deadline :: "vendor_system \<Rightarrow> int option result" where
  "cancellation_deadline v =
     (case (vs_renewal_date v, vs_cancellation_notice_days v) of
        (Some renewal, Some n) \<Rightarrow>
          if 999999999 < \<bar>n\<bar> \<or> toordinal renewal - n < 1 \<or> max_ordinal < toordinal renewal - n then Inl OverflowError
          else Inr (Some (toordinal renewal - n))
      | _ \<Rightarrow> Inr None)"

definition roster_confirmation_stale_days :: int where
  "roster_confirmation_stale_days = 90"

definition renewal_approaching_days :: int where
  "renewal_approaching_days = 60"

definition cancellation_deadline_approaching_days :: int where
  "cancellation_deadline_approaching_days = 30"

definition inactive_employment_statuses :: "string list" where
  "inactive_employment_statuses = [''suspended'', ''departed'']"

definition admin_flags :: "string \<Rightarrow> string option \<Rightarrow> db \<Rightarrow> string list" where
  "admin_flags which person_id d =
     (case person_id of
        None \<Rightarrow> [''Missing '' @ which @ '' admin'']
      | Some k \<Rightarrow>
          (case row_get pe_id k (people d) of
             None \<Rightarrow> []
           | Some p \<Rightarrow> if pe_employment_status p \<in> set inactive_employment_statuses
                       then [(if which = ''primary'' then ''Primary'' else ''Secondary'') @ '' admin is '' @ pe_employment_status p]
                       else []))"

definition flag_if :: "bool \<Rightarrow> string \<Rightarrow> string list" where
  "flag_if b flag = (if b then [flag] else [])"

definition missing_text :: "string option \<Rightarrow> bool" where
  "missing_text v = (\<not> truthy v)"

definition compute_flags :: "date \<Rightarrow> string set \<Rightarrow> db \<Rightarrow> vendor_system \<Rightarrow> string list result" where
  "compute_flags today departed_roster_emails d v =
     rbind (cancellation_deadline v) (\<lambda>deadline.
       Inr (flag_if (vs_uses_shared_login v) ''Shared login in use''
          @ admin_flags ''primary'' (vs_primary_admin_person_id v) d
          @ admin_flags ''secondary'' (vs_secondary_admin_person_id v) d
          @ flag_if (missing_text (vs_contract_url v)) ''Contract missing''
          @ flag_if (case vs_renewal_date v of None \<Rightarrow> False
               | Some r \<Rightarrow> 0 \<le> days_between r today \<and> days_between r today \<le> renewal_approaching_days) ''Renewal approaching''
          @ flag_if (case deadline of None \<Rightarrow> False
               | Some n \<Rightarrow> 0 \<le> n - toordinal today \<and> n - toordinal today \<le> cancellation_deadline_approaching_days)
              ''Cancellation deadline approaching''
          @ flag_if (vs_auto_renew v = ''unknown'') ''Auto-renew status unknown''
          @ flag_if (missing_text (vs_support_portal_url v) \<and> missing_text (vs_support_email v) \<and> missing_text (vs_support_phone v))
              ''Support/escalation path missing''
          @ flag_if (case vs_roster_last_confirmed_at v of
                 None \<Rightarrow> True
               | Some t \<Rightarrow> (toordinal today * micros_per_day - to_micros t) div micros_per_day > roster_confirmation_stale_days)
              ''Roster not confirmed within 90 days''
          @ flag_if (departed_roster_emails \<noteq> {}) ''Former employee appears in latest vendor roster''))"

fun flags_of_all :: "date \<Rightarrow> db \<Rightarrow> vendor_system list \<Rightarrow> (vendor_system \<times> string list) list result" where
  "flags_of_all today d [] = Inr []"
| "flags_of_all today d (v # vs) =
     rbind (compute_flags today {} d v) (\<lambda>flags. rbind (flags_of_all today d vs) (\<lambda>rest. Inr ((v, flags) # rest)))"

fun spend_by_currency :: "vendor_system list \<Rightarrow> (string \<times> int) list" where
  "spend_by_currency [] = []"
| "spend_by_currency (v # vs) =
     (case annualized_cost_minor v of
        None \<Rightarrow> spend_by_currency vs
      | Some n \<Rightarrow> (let rest = spend_by_currency vs; c = vs_currency v
                   in (c, n + (case map_of rest c of None \<Rightarrow> 0 | Some m \<Rightarrow> m)) # filter (\<lambda>(k, _). k \<noteq> c) rest))"

record vendor_filters =
  vf_status :: string
  vf_department :: string
  vf_owner :: string
  vf_flag :: string

definition list_vendors ::
  "date \<Rightarrow> vendor_filters \<Rightarrow> registers \<Rightarrow> ((vendor_system \<times> string list) list \<times> (string \<times> int) list) result" where
  "list_vendors today f s =
     (let selected = filter (\<lambda>v. (vf_status f \<in> set vendor_lifecycle_statuses \<longrightarrow> vs_lifecycle_status v = vf_status f) \<and>
            (vf_department f \<noteq> [] \<longrightarrow> vs_primary_department v = vf_department f) \<and>
            (vf_owner f \<noteq> [] \<longrightarrow> vs_business_owner_person_id v = Some (vf_owner f))) (vendor_systems s)
      in rbind (flags_of_all today (rg_db s) (sort_key vs_system_name selected)) (\<lambda>flagged.
           let shown = (if vf_flag f = [] then flagged else filter (\<lambda>(v, flags). vf_flag f \<in> set flags) flagged)
           in Inr (shown, spend_by_currency (map fst shown))))"

definition upcoming_renewals :: "registers \<Rightarrow> vendor_system list" where
  "upcoming_renewals s =
     sort_key (\<lambda>v. the (vs_renewal_date v)) (filter (\<lambda>v. vs_renewal_date v \<noteq> None) (vendor_systems s))"

section \<open>Flags and the calendar\<close>

lemma deadline_out_of_calendar:
  assumes "vs_renewal_date v = Some renewal" "vs_cancellation_notice_days v = Some n" "toordinal renewal \<le> n"
  shows "compute_flags today emails d v = Inl OverflowError"
  using assms by (simp add: compute_flags_def cancellation_deadline_def)

lemma flags_of_all_stop:
  "v \<in> set vs \<Longrightarrow> compute_flags today {} d v = Inl OverflowError \<Longrightarrow> flags_of_all today d vs = Inl OverflowError"
proof (induction vs)
  case (Cons w vs)
  have only: "compute_flags today {} d w = Inl e \<Longrightarrow> e = OverflowError" for e
    by (auto simp: compute_flags_def cancellation_deadline_def rbind_def split: option.splits sum.splits if_splits)
  show ?case
  proof (cases "compute_flags today {} d w")
    case (Inl e)
    then show ?thesis using only by simp
  next
    case (Inr flags)
    then show ?thesis using Cons by (cases "w = v") auto
  qed
qed simp

text \<open>
  A notice period can take the vendor list down. The form accepts any whole number of 64
  bits as the cancellation notice. Once a vendor with a renewal date is stored with a notice
  that reaches back before the calendar, the vendor list, with no filter or only that of a flag,
  raises instead of answering, on whatever day it is asked for, and stays so until the row is
  changed.
\<close>

theorem notice_period_breaks_list:
  assumes "create_vendor new_id f actor s = Inr (Flash target message ''success'', s')"
    and "parse_date (form_text f ''renewal_date'') = Some renewal"
    and "parse_int (form_text f ''cancellation_notice_days'') = Some n" and "toordinal renewal \<le> n"
  shows "list_vendors today \<lparr>vf_status = [], vf_department = [], vf_owner = [], vf_flag = flag\<rparr> s' = Inl OverflowError"
proof -
  obtain a c s1 where ins: "insert_vendor (extract_vendor_fields f a c (blank_vendor new_id)) s = Inr s1"
    and s': "vendor_systems s' = vendor_systems s1"
    using assms(1) by (auto simp: create_vendor_def audit_registers_def on_db_def Let_def split: if_splits sum.splits error.splits prod.splits)
  let ?v = "extract_vendor_fields f a c (blank_vendor new_id)"
  have "?v \<in> set (vendor_systems s')" using ins by (auto simp: insert_vendor_def s' split: if_splits)
  moreover have "compute_flags today {} (rg_db s') ?v = Inl OverflowError"
    by (rule deadline_out_of_calendar [OF _ _ assms(4)]) (simp_all add: extract_vendor_fields_def assms(2,3))
  ultimately have "flags_of_all today (rg_db s') (sort_key vs_system_name (vendor_systems s')) = Inl OverflowError"
    by (intro flags_of_all_stop) simp
  then show ?thesis by (simp add: list_vendors_def vendor_lifecycle_statuses_def)
qed

definition demo_form :: form where
  "demo_form = [''system_name'' \<mapsto> ''Wiki'', ''vendor_name'' \<mapsto> ''Acme'', ''renewal_date'' \<mapsto> ''2027-01-31'',
     ''cancellation_notice_days'' \<mapsto> ''900000'']"

definition no_registers :: registers where
  "no_registers = \<lparr>rg_db = empty_db, rg_user_ids = [], vendor_systems = [], vendor_user_snapshots = [],
     vendor_user_snapshot_rows = [], risks = [], import_jobs = []\<rparr>"

lemma notice_period_breaks_list_witness:
  "\<exists>target message s'. create_vendor ''v'' demo_form ''admin@x.io'' no_registers = Inr (Flash target message ''success'', s') \<and>
     list_vendors (Date 2026 8 20) \<lparr>vf_status = [], vf_department = [], vf_owner = [], vf_flag = []\<rparr> s' = Inl OverflowError"
proof -
  have "case create_vendor ''v'' demo_form ''admin@x.io'' no_registers of
      Inr (Flash target message kind, s') \<Rightarrow> kind = ''success'' | _ \<Rightarrow> False" by code_simp
  then obtain target message s' where run: "create_vendor ''v'' demo_form ''admin@x.io'' no_registers = Inr (Flash target message ''success'', s')"
    by (auto split: sum.splits prod.splits response.splits)
  have "parse_date (form_text demo_form ''renewal_date'') = Some (Date 2027 1 31)"
    "parse_int (form_text demo_form ''cancellation_notice_days'') = Some 900000"
    "toordinal (Date 2027 1 31) \<le> 900000" by code_simp+
  then show ?thesis using run notice_period_breaks_list [OF run] by blast
qed

end
