(* ===== verification/Vendor_Roster.thy ===== *)
theory Vendor_Roster
  imports Vendors
begin

text \<open>
  \<open>src/app/vendor_roster_import.py\<close> and the roster routes of \<open>routers/vendor_systems.py\<close>: the
  import of a vendor's user list as an immutable snapshot, the comparison of two snapshots,
  and the link of a snapshot row to a person.
\<close>

section \<open>Parsing\<close>

definition roster_columns :: "string list" where
  "roster_columns = [''email'', ''name'', ''role'', ''status'', ''last_login_at'']"

record roster_row =
  ro_normalized_email :: string
  ro_imported_email :: string
  ro_imported_name :: string
  ro_imported_role :: string
  ro_imported_status :: string
  ro_imported_last_login_at :: "datetime option"

text \<open>\<open>value.replace("Z", "+00:00")\<close>\<close>

definition utc_suffix :: "string \<Rightarrow> string" where
  "utc_suffix s = concat (map (\<lambda>c. if c = CHR ''Z'' then ''+00:00'' else [c]) s)"

definition parse_last_login :: "(string \<Rightarrow> datetime option) \<Rightarrow> string \<Rightarrow> datetime option result" where
  "parse_last_login fromisoformat value =
     (let value = strip value
      in if value = [] then Inr None
         else (case fromisoformat (utc_suffix value) of
                 None \<Rightarrow> Inl (VendorRosterImportError (''Invalid last_login_at value: '' @ in_quotes value))
               | Some t \<Rightarrow> Inr (Some t)))"

text \<open>The loop over the rows; \<open>e\<close> is the exception the reader raises after the last of them.\<close>

fun roster_rows ::
  "(string \<Rightarrow> datetime option) \<Rightarrow> nat \<Rightarrow> nat \<Rightarrow> string list \<Rightarrow> dict_row list \<Rightarrow> error option \<Rightarrow> roster_row list result" where
  "roster_rows fromisoformat max_rows line_number seen [] e = (case e of Some x \<Rightarrow> Inl x | None \<Rightarrow> Inr [])"
| "roster_rows fromisoformat max_rows line_number seen (row # rows) e =
     (let email = cell_or [] row ''email''; normalized = normalize_address email
      in if max_rows < line_number - 1
         then Inl (VendorRosterImportError (''CSV file exceeds the maximum of '' @ str_int (int max_rows) @ '' rows.''))
         else if email = []
         then Inl (VendorRosterImportError (''Row '' @ str_int (int line_number) @ '': email is required''))
         else if normalized \<in> set seen
         then Inl (VendorRosterImportError (''Row '' @ str_int (int line_number) @ '': duplicate normalized email '' @ in_quotes normalized))
         else rbind (parse_last_login fromisoformat (case row ''last_login_at'' of None \<Rightarrow> [] | Some v \<Rightarrow> v)) (\<lambda>last_login.
              rbind (roster_rows fromisoformat max_rows (Suc line_number) (normalized # seen) rows e) (\<lambda>rest.
                Inr (\<lparr>ro_normalized_email = normalized, ro_imported_email = email, ro_imported_name = cell_or [] row ''name'',
                      ro_imported_role = cell_or [] row ''role'', ro_imported_status = cell_or [] row ''status'',
                      ro_imported_last_login_at = last_login\<rparr> # rest))))"

definition parse_roster_csv :: "(string \<Rightarrow> datetime option) \<Rightarrow> string \<Rightarrow> nat \<Rightarrow> roster_row list result" where
  "parse_roster_csv fromisoformat raw max_rows =
     (case decode_utf8_sig raw of
        None \<Rightarrow> Inl (VendorRosterImportError ''File is not valid UTF-8 text.'')
      | Some content \<Rightarrow>
          rbind (dict_reader content) (\<lambda>(fieldnames, rows, e).
            let absent = missing_columns roster_columns fieldnames
            in if absent \<noteq> []
               then Inl (VendorRosterImportError (''Missing required column(s): '' @ join_with '', '' absent))
               else rbind (roster_rows fromisoformat max_rows 2 [] rows e) (\<lambda>parsed.
                    if parsed = [] then Inl (VendorRosterImportError ''CSV file contained no data rows.'') else Inr parsed)))"

section \<open>Importing\<close>

record roster_env =
  rv_fromisoformat :: "string \<Rightarrow> datetime option"
  rv_sha256 :: "string \<Rightarrow> string"
  rv_max_rows :: nat
  rv_max_upload_bytes :: nat
  rv_now :: datetime
  rv_snapshot_id :: string
  rv_row_ids :: "nat \<Rightarrow> string"

definition people_by_email :: "person list \<Rightarrow> string \<Rightarrow> string option" where
  "people_by_email ps email = map_option pe_id (row_get pe_email email ps)"

definition snapshot_row :: "string \<Rightarrow> person list \<Rightarrow> string \<Rightarrow> roster_row \<Rightarrow> vendor_user_snapshot_row" where
  "snapshot_row snapshot_id ps row_id r =
     \<lparr>sr_id = row_id, sr_snapshot_id = snapshot_id, sr_normalized_email = ro_normalized_email r,
      sr_imported_email = ro_imported_email r, sr_imported_name = ro_imported_name r, sr_imported_role = ro_imported_role r,
      sr_imported_status = ro_imported_status r, sr_imported_last_login_at = ro_imported_last_login_at r,
      sr_matched_person_id = people_by_email ps (ro_normalized_email r)\<rparr>"

definition import_vendor_roster_snapshot ::
  "roster_env \<Rightarrow> string \<Rightarrow> string \<Rightarrow> string \<Rightarrow> string \<Rightarrow> registers \<Rightarrow> (vendor_user_snapshot \<times> registers) result" where
  "import_vendor_roster_snapshot env vendor_id raw filename user_id s =
     rbind (parse_roster_csv (rv_fromisoformat env) raw (rv_max_rows env)) (\<lambda>rows.
       let snapshot = \<lparr>sn_id = rv_snapshot_id env, sn_vendor_system_id = vendor_id, sn_imported_at = rv_now env,
             sn_imported_by_user_id = user_id, sn_original_filename = filename, sn_sha256 = rv_sha256 env raw,
             sn_row_count = length rows\<rparr>;
           new_rows = map (\<lambda>(i, r). snapshot_row (rv_snapshot_id env) (people (rg_db s)) (rv_row_ids env i) r) (enumerate 0 rows)
       in rbind (insert_snapshot snapshot s) (\<lambda>s1.
          rbind (rfold insert_snapshot_row new_rows s1) (\<lambda>s2.
            Inr (snapshot, s2\<lparr>vendor_systems := row_upd vs_id vendor_id
                   (\<lambda>v. v\<lparr>vs_roster_last_confirmed_at := Some (rv_now env)\<rparr>) (vendor_systems s2)\<rparr>))))"

text \<open>Only the importer's own exception becomes a message; any other leaves the request.\<close>

definition create_roster_snapshot ::
  "roster_env \<Rightarrow> string \<Rightarrow> string \<Rightarrow> string \<Rightarrow> string \<Rightarrow> string \<Rightarrow> registers \<Rightarrow> (response \<times> registers) result" where
  "create_roster_snapshot env vendor_id filename content user_id actor s =
     (case row_get vs_id vendor_id (vendor_systems s) of
        None \<Rightarrow> Inl (HTTPException 404)
      | Some vendor \<Rightarrow>
          (let again = (\<lambda>m. Inr (Flash (''/vendors/'' @ vendor_id @ ''/roster/new'') m ''error'', s))
           in case read_upload_bounded chunk_size (rv_max_upload_bytes env) content of
                Inl (ValueError m) \<Rightarrow> again m
              | Inl e \<Rightarrow> Inl e
              | Inr raw \<Rightarrow>
                  (case import_vendor_roster_snapshot env vendor_id raw (if filename = [] then ''roster.csv'' else filename) user_id s of
                     Inl (VendorRosterImportError m) \<Rightarrow> again m
                   | Inl e \<Rightarrow> Inl e
                   | Inr (snapshot, s') \<Rightarrow>
                       Inr (Flash (''/vendors/'' @ vendor_id @ ''/roster'')
                              (''Imported '' @ str_int (int (sn_row_count snapshot)) @ '' roster row(s).'') ''success'',
                            audit_registers ''vendor_system'' vendor_id ''import_roster_snapshot''
                              (''Imported roster snapshot ('' @ str_int (int (sn_row_count snapshot)) @ '' user(s)) for '' @
                               in_quotes (vs_system_name vendor)) actor s'))))"

section \<open>Comparing snapshots\<close>

text \<open>The newest of a list by time stamp; the first inserted of equal ones.\<close>

definition newest :: "vendor_user_snapshot list \<Rightarrow> vendor_user_snapshot option" where
  "newest xs =
     foldl (\<lambda>best x. case best of None \<Rightarrow> Some x
        | Some b \<Rightarrow> if sn_imported_at b < sn_imported_at x then Some x else Some b) None xs"

definition latest_snapshot :: "registers \<Rightarrow> string \<Rightarrow> vendor_user_snapshot option" where
  "latest_snapshot s vendor_id = newest (filter (\<lambda>n. sn_vendor_system_id n = vendor_id) (vendor_user_snapshots s))"

definition previous_snapshot :: "registers \<Rightarrow> string \<Rightarrow> string \<Rightarrow> vendor_user_snapshot option" where
  "previous_snapshot s vendor_id before_snapshot_id =
     (case row_get sn_id before_snapshot_id (vendor_user_snapshots s) of
        None \<Rightarrow> None
      | Some current \<Rightarrow> newest (filter (\<lambda>n. sn_vendor_system_id n = vendor_id \<and> sn_imported_at n < sn_imported_at current)
                                  (vendor_user_snapshots s)))"

definition snapshot_rows :: "registers \<Rightarrow> string \<Rightarrow> vendor_user_snapshot_row list" where
  "snapshot_rows s snapshot_id = filter (\<lambda>r. sr_snapshot_id r = snapshot_id) (vendor_user_snapshot_rows s)"

record roster_change =
  rc_email :: string
  rc_before :: string
  rc_after :: string

record roster_delta =
  rd_added :: "vendor_user_snapshot_row list"
  rd_removed :: "vendor_user_snapshot_row list"
  rd_role_changes :: "roster_change list"
  rd_status_changes :: "roster_change list"
  rd_newly_assigned_admins :: "vendor_user_snapshot_row list"

text \<open>The dictionary of rows by e-mail: the order of the first occurrence, the row of the last.\<close>

definition by_email :: "vendor_user_snapshot_row list \<Rightarrow> string \<Rightarrow> vendor_user_snapshot_row option" where
  "by_email rows = map_of (rev (map (\<lambda>r. (sr_normalized_email r, r)) rows))"

definition email_items :: "vendor_user_snapshot_row list \<Rightarrow> (string \<times> vendor_user_snapshot_row) list" where
  "email_items rows = map (\<lambda>k. (k, the (by_email rows k))) (rev (remdups (rev (map sr_normalized_email rows))))"

definition changes ::
  "(vendor_user_snapshot_row \<Rightarrow> string) \<Rightarrow> vendor_user_snapshot_row list \<Rightarrow> vendor_user_snapshot_row list \<Rightarrow> roster_change list" where
  "changes f previous current =
     List.map_filter (\<lambda>(email, r). case by_email previous email of
         None \<Rightarrow> None
       | Some p \<Rightarrow> if f p \<noteq> f r then Some \<lparr>rc_email = email, rc_before = f p, rc_after = f r\<rparr> else None) (email_items current)"

definition compute_delta :: "vendor_user_snapshot_row list \<Rightarrow> vendor_user_snapshot_row list \<Rightarrow> roster_delta" where
  "compute_delta previous current =
     \<lparr>rd_added = map snd (filter (\<lambda>(email, r). by_email previous email = None) (email_items current)),
      rd_removed = map snd (filter (\<lambda>(email, r). by_email current email = None) (email_items previous)),
      rd_role_changes = changes sr_imported_role previous current,
      rd_status_changes = changes sr_imported_status previous current,
      rd_newly_assigned_admins = map snd (filter (\<lambda>(email, r). case by_email previous email of
           None \<Rightarrow> False
         | Some p \<Rightarrow> sr_imported_role p \<noteq> sr_imported_role r \<and> lower (sr_imported_role r) = ''admin'' \<and>
                     lower (sr_imported_role p) \<noteq> ''admin'') (email_items current))\<rparr>"

definition flag_inactive_matched_people ::
  "vendor_user_snapshot_row list \<Rightarrow> person list \<Rightarrow> vendor_user_snapshot_row list" where
  "flag_inactive_matched_people rows ps =
     filter (\<lambda>r. case sr_matched_person_id r of
         None \<Rightarrow> False
       | Some k \<Rightarrow> (case row_get pe_id k ps of
             None \<Rightarrow> False | Some p \<Rightarrow> pe_employment_status p \<in> {''departed'', ''suspended''})) rows"

text \<open>What follows the last at sign, the whole text when there is none.\<close>

definition email_domain :: "string \<Rightarrow> string" where
  "email_domain e = rev (takeWhile (\<lambda>c. c \<noteq> CHR ''@'') (rev e))"

definition flag_unmatched_internal_emails ::
  "vendor_user_snapshot_row list \<Rightarrow> string set \<Rightarrow> vendor_user_snapshot_row list" where
  "flag_unmatched_internal_emails rows known_internal_domains =
     filter (\<lambda>r. sr_matched_person_id r = None \<and> email_domain (sr_normalized_email r) \<in> known_internal_domains) rows"

definition known_internal_domains :: "db \<Rightarrow> string set" where
  "known_internal_domains d =
     set (map (\<lambda>p. email_domain (pe_email p)) (filter (\<lambda>p. CHR ''@'' \<in> set (pe_email p)) (people d)))"

definition departed_roster_emails :: "registers \<Rightarrow> string \<Rightarrow> string set" where
  "departed_roster_emails s vendor_id =
     (case latest_snapshot s vendor_id of
        None \<Rightarrow> {}
      | Some n \<Rightarrow> set (map sr_normalized_email (flag_inactive_matched_people (snapshot_rows s (sn_id n)) (people (rg_db s)))))"

definition view_vendor :: "date \<Rightarrow> string \<Rightarrow> registers \<Rightarrow> (vendor_system \<times> string list) result" where
  "view_vendor today vendor_id s =
     (case row_get vs_id vendor_id (vendor_systems s) of
        None \<Rightarrow> Inl (HTTPException 404)
      | Some v \<Rightarrow> rbind (compute_flags today (departed_roster_emails s vendor_id) (rg_db s) v) (\<lambda>flags. Inr (v, flags)))"

record roster_page =
  rp_rows :: "vendor_user_snapshot_row list"
  rp_delta :: roster_delta
  rp_inactive_flagged :: "vendor_user_snapshot_row list"
  rp_unmatched_internal :: "vendor_user_snapshot_row list"

definition view_roster :: "string \<Rightarrow> registers \<Rightarrow> roster_page option result" where
  "view_roster vendor_id s =
     (case row_get vs_id vendor_id (vendor_systems s) of
        None \<Rightarrow> Inl (HTTPException 404)
      | Some _ \<Rightarrow>
          (case latest_snapshot s vendor_id of
             None \<Rightarrow> Inr None
           | Some n \<Rightarrow>
               (let current = snapshot_rows s (sn_id n);
                    previous = (case previous_snapshot s vendor_id (sn_id n) of None \<Rightarrow> [] | Some p \<Rightarrow> snapshot_rows s (sn_id p))
                in Inr (Some \<lparr>rp_rows = current, rp_delta = compute_delta previous current,
                     rp_inactive_flagged = flag_inactive_matched_people current (people (rg_db s)),
                     rp_unmatched_internal = flag_unmatched_internal_emails current (known_internal_domains (rg_db s))\<rparr>))))"

section \<open>Linking a row\<close>

definition link_roster_row :: "string \<Rightarrow> string \<Rightarrow> string \<Rightarrow> string \<Rightarrow> registers \<Rightarrow> (response \<times> registers) result" where
  "link_roster_row vendor_id row_id person_id actor s =
     (case row_get sr_id row_id (vendor_user_snapshot_rows s) of
        None \<Rightarrow> Inl (HTTPException 404)
      | Some row \<Rightarrow>
          if map_option sn_vendor_system_id (row_get sn_id (sr_snapshot_id row) (vendor_user_snapshots s)) \<noteq> Some vendor_id
          then Inl (HTTPException 404)
          else (let person = (if person_id = [] then None else row_get pe_id person_id (people (rg_db s)))
                in if person_id \<noteq> [] \<and> person = None
                   then Inr (Flash (''/vendors/'' @ vendor_id @ ''/roster'') ''Person not found.'' ''error'', s)
                   else Inr (Flash (''/vendors/'' @ vendor_id @ ''/roster'') ''Roster row linked.'' ''success'',
                          audit_registers ''vendor_user_snapshot_row'' row_id ''link_person''
                            (''Linked roster row '' @ in_quotes (sr_imported_email row) @ '' to person '' @
                             in_quotes (case person of None \<Rightarrow> ''none'' | Some p \<Rightarrow> pe_email p) @ '' (imported values unchanged)'') actor
                            (s\<lparr>vendor_user_snapshot_rows := row_upd sr_id row_id
                                 (\<lambda>r. r\<lparr>sr_matched_person_id := map_option pe_id person\<rparr>) (vendor_user_snapshot_rows s)\<rparr>))))"

section \<open>What an import writes\<close>

lemma roster_rows_Inr:
  "roster_rows fromisoformat max_rows n seen rows e = Inr rs \<Longrightarrow>
     length rs = length rows \<and> e = None \<and> distinct (map ro_normalized_email rs) \<and>
     set (map ro_normalized_email rs) \<inter> set seen = {} \<and> (rows \<noteq> [] \<longrightarrow> n + length rows \<le> max_rows + 2)"
proof (induction rows arbitrary: n seen rs)
  case Nil
  then show ?case by (auto split: option.splits)
next
  case (Cons row rows)
  let ?email = "normalize_address (cell_or [] row ''email'')"
  from Cons.prems obtain r rest where rs: "rs = r # rest" "ro_normalized_email r = ?email" "?email \<notin> set seen" "n - 1 \<le> max_rows"
    and rest: "roster_rows fromisoformat max_rows (Suc n) (?email # seen) rows e = Inr rest"
    by (auto simp: Let_def split: if_splits)
  show ?case using Cons.IH [OF rest] rs by (cases rows) auto
qed

lemma parse_roster_csv_Inr:
  assumes "parse_roster_csv fromisoformat raw max_rows = Inr rs"
  shows "rs \<noteq> [] \<and> length rs \<le> max_rows \<and> distinct (map ro_normalized_email rs)"
proof -
  obtain rows e where "roster_rows fromisoformat max_rows 2 [] rows e = Inr rs" "rs \<noteq> []"
    using assms by (auto simp: parse_roster_csv_def Let_def split: option.splits if_splits prod.splits)
  then show ?thesis using roster_rows_Inr [of fromisoformat max_rows 2 "[]" rows e rs] by (cases rows) auto
qed

lemma insert_snapshot_row_Inr:
  "insert_snapshot_row s r = Inr s' \<Longrightarrow>
     s' = s\<lparr>vendor_user_snapshot_rows := vendor_user_snapshot_rows s @ [r]\<rparr> \<and>
     \<not> has_row row_slot (row_slot r) (vendor_user_snapshot_rows s)"
  by (auto simp: insert_snapshot_row_def split: if_splits)

lemma insert_snapshot_rows_Inr:
  "rfold insert_snapshot_row rows s = Inr s' \<Longrightarrow>
     s' = s\<lparr>vendor_user_snapshot_rows := vendor_user_snapshot_rows s @ rows\<rparr> \<and>
     (unique_by row_slot (vendor_user_snapshot_rows s) \<longrightarrow> unique_by row_slot (vendor_user_snapshot_rows s'))"
proof (induction rows arbitrary: s)
  case (Cons r rows)
  then obtain s1 where s1: "insert_snapshot_row s r = Inr s1" and rest: "rfold insert_snapshot_row rows s1 = Inr s'" by auto
  have s1': "s1 = s\<lparr>vendor_user_snapshot_rows := vendor_user_snapshot_rows s @ [r]\<rparr>"
    and "\<not> has_row row_slot (row_slot r) (vendor_user_snapshot_rows s)"
    using insert_snapshot_row_Inr [OF s1] by blast+
  then have "unique_by row_slot (vendor_user_snapshot_rows s) \<longrightarrow> unique_by row_slot (vendor_user_snapshot_rows s1)" by simp
  then show ?case using Cons.IH [OF rest] by (auto simp: s1')
qed simp

definition new_snapshot :: "roster_env \<Rightarrow> string \<Rightarrow> string \<Rightarrow> string \<Rightarrow> string \<Rightarrow> nat \<Rightarrow> vendor_user_snapshot" where
  "new_snapshot env vendor_id raw filename user_id n =
     \<lparr>sn_id = rv_snapshot_id env, sn_vendor_system_id = vendor_id, sn_imported_at = rv_now env,
      sn_imported_by_user_id = user_id, sn_original_filename = filename, sn_sha256 = rv_sha256 env raw, sn_row_count = n\<rparr>"

definition new_rows :: "roster_env \<Rightarrow> person list \<Rightarrow> roster_row list \<Rightarrow> vendor_user_snapshot_row list" where
  "new_rows env ps rows = map (\<lambda>(i, r). snapshot_row (rv_snapshot_id env) ps (rv_row_ids env i) r) (enumerate 0 rows)"

lemma length_new_rows [simp]: "length (new_rows env ps rows) = length rows"
  by (simp add: new_rows_def)

lemma new_rows_columns:
  "map sr_normalized_email (new_rows env ps rows) = map ro_normalized_email rows"
  "r \<in> set (new_rows env ps rows) \<Longrightarrow>
     sr_snapshot_id r = rv_snapshot_id env \<and> sr_matched_person_id r = people_by_email ps (sr_normalized_email r)"
proof -
  have "map sr_normalized_email (map (\<lambda>(i, r). snapshot_row k ps (ids i) r) (enumerate n rows)) = map ro_normalized_email rows" for k ids n
    by (induction rows arbitrary: n) (simp_all add: snapshot_row_def)
  then show "map sr_normalized_email (new_rows env ps rows) = map ro_normalized_email rows" by (simp add: new_rows_def)
qed (auto simp: new_rows_def snapshot_row_def)

lemma import_Inr:
  assumes "import_vendor_roster_snapshot env vendor_id raw filename user_id s = Inr (snapshot, s')"
  obtains rows where "parse_roster_csv (rv_fromisoformat env) raw (rv_max_rows env) = Inr rows"
    "snapshot = new_snapshot env vendor_id raw filename user_id (length rows)"
    "\<not> has_row sn_id (rv_snapshot_id env) (vendor_user_snapshots s)" "has_row vs_id vendor_id (vendor_systems s)"
    "s' = s\<lparr>vendor_user_snapshots := vendor_user_snapshots s @ [snapshot],
            vendor_user_snapshot_rows := vendor_user_snapshot_rows s @ new_rows env (people (rg_db s)) rows,
            vendor_systems := row_upd vs_id vendor_id (\<lambda>v. v\<lparr>vs_roster_last_confirmed_at := Some (rv_now env)\<rparr>) (vendor_systems s)\<rparr>"
    "unique_by row_slot (vendor_user_snapshot_rows s) \<longrightarrow> unique_by row_slot (vendor_user_snapshot_rows s')"
proof -
  obtain rows s1 s2 where rows: "parse_roster_csv (rv_fromisoformat env) raw (rv_max_rows env) = Inr rows"
    and snapshot: "snapshot = new_snapshot env vendor_id raw filename user_id (length rows)"
    and s1: "insert_snapshot snapshot s = Inr s1"
    and s2: "rfold insert_snapshot_row (new_rows env (people (rg_db s)) rows) s1 = Inr s2"
    and s': "s' = s2\<lparr>vendor_systems := row_upd vs_id vendor_id (\<lambda>v. v\<lparr>vs_roster_last_confirmed_at := Some (rv_now env)\<rparr>) (vendor_systems s2)\<rparr>"
    using assms by (auto simp: import_vendor_roster_snapshot_def Let_def new_snapshot_def new_rows_def)
  have *: "s1 = s\<lparr>vendor_user_snapshots := vendor_user_snapshots s @ [snapshot]\<rparr>"
    "\<not> has_row sn_id (rv_snapshot_id env) (vendor_user_snapshots s)" "has_row vs_id vendor_id (vendor_systems s)"
    using s1 by (auto simp: insert_snapshot_def snapshot new_snapshot_def split: if_splits)
  have s2': "s2 = s1\<lparr>vendor_user_snapshot_rows := vendor_user_snapshot_rows s1 @ new_rows env (people (rg_db s)) rows\<rparr>"
    and slots: "unique_by row_slot (vendor_user_snapshot_rows s1) \<longrightarrow> unique_by row_slot (vendor_user_snapshot_rows s2)"
    using insert_snapshot_rows_Inr [OF s2] by blast+
  show ?thesis using slots by (intro that [OF rows snapshot *(2,3)]) (simp_all add: s' s2' *(1))
qed

lemma create_roster_cases:
  assumes "create_roster_snapshot env vendor_id filename content user_id actor s = Inr (resp, s')"
  shows "s' = s \<or> (\<exists>raw name snapshot s1 detail. import_vendor_roster_snapshot env vendor_id raw name user_id s = Inr (snapshot, s1) \<and>
           s' = audit_registers ''vendor_system'' vendor_id ''import_roster_snapshot'' detail actor s1)"
proof (cases "s' = s")
  case False
  obtain v where v: "row_get vs_id vendor_id (vendor_systems s) = Some v"
    using assms by (auto simp: create_roster_snapshot_def split: option.splits)
  obtain raw where raw: "read_upload_bounded chunk_size (rv_max_upload_bytes env) content = Inr raw"
    using assms False by (auto simp: create_roster_snapshot_def Let_def v split: sum.splits error.splits)
  define name where "name = (if filename = [] then ''roster.csv'' else filename)"
  obtain snapshot s1 where run: "import_vendor_roster_snapshot env vendor_id raw name user_id s = Inr (snapshot, s1)"
    using assms False by (auto simp: create_roster_snapshot_def Let_def v raw name_def [symmetric] split: sum.splits error.splits)
  then have "\<exists>detail. s' = audit_registers ''vendor_system'' vendor_id ''import_roster_snapshot'' detail actor s1"
    using assms by (auto simp: create_roster_snapshot_def Let_def v raw name_def [symmetric])
  then show ?thesis using run by blast
qed simp

text \<open>
  A roster import is all or nothing. An upload of a user list that the route answers either
  leaves every table as it was, or adds exactly one snapshot and one row for each user it
  counts: at least one and at most the limit, no two with the same normalised e-mail, each
  matched to the person of the directory with that e-mail if there is one. The rows of the
  earlier snapshots, the people and all other vendors stay as they were.
\<close>

theorem roster_import_all_or_nothing:
  assumes "create_roster_snapshot env vendor_id filename content user_id actor s = Inr (resp, s')"
  shows "s' = s \<or>
    (\<exists>snapshot rows. vendor_user_snapshots s' = vendor_user_snapshots s @ [snapshot] \<and>
       vendor_user_snapshot_rows s' = vendor_user_snapshot_rows s @ rows \<and>
       0 < sn_row_count snapshot \<and> sn_row_count snapshot = length rows \<and> length rows \<le> rv_max_rows env \<and>
       sn_vendor_system_id snapshot = vendor_id \<and> distinct (map sr_normalized_email rows) \<and>
       (\<forall>r \<in> set rows. sr_snapshot_id r = sn_id snapshot \<and>
          sr_matched_person_id r = map_option pe_id (row_get pe_email (sr_normalized_email r) (people (rg_db s)))) \<and>
       people (rg_db s') = people (rg_db s) \<and>
       filter (\<lambda>v. vs_id v \<noteq> vendor_id) (vendor_systems s') = filter (\<lambda>v. vs_id v \<noteq> vendor_id) (vendor_systems s))"
proof (cases "s' = s")
  case False
  then obtain raw name snapshot s1 where run: "import_vendor_roster_snapshot env vendor_id raw name user_id s = Inr (snapshot, s1)"
    and s': "\<exists>detail. s' = audit_registers ''vendor_system'' vendor_id ''import_roster_snapshot'' detail actor s1"
    using create_roster_cases [OF assms] by blast
  from import_Inr [OF run] obtain rows where rows: "parse_roster_csv (rv_fromisoformat env) raw (rv_max_rows env) = Inr rows"
    and snapshot: "snapshot = new_snapshot env vendor_id raw name user_id (length rows)"
    and s1: "s1 = s\<lparr>vendor_user_snapshots := vendor_user_snapshots s @ [snapshot],
            vendor_user_snapshot_rows := vendor_user_snapshot_rows s @ new_rows env (people (rg_db s)) rows,
            vendor_systems := row_upd vs_id vendor_id (\<lambda>v. v\<lparr>vs_roster_last_confirmed_at := Some (rv_now env)\<rparr>) (vendor_systems s)\<rparr>"
    by blast
  have "filter (\<lambda>v. vs_id v \<noteq> vendor_id) (row_upd vs_id vendor_id (\<lambda>v. v\<lparr>vs_roster_last_confirmed_at := Some (rv_now env)\<rparr>) vs) =
      filter (\<lambda>v. vs_id v \<noteq> vendor_id) vs" for vs
    by (induction vs) auto
  moreover have "\<forall>r \<in> set (new_rows env (people (rg_db s)) rows). sr_snapshot_id r = sn_id snapshot \<and>
      sr_matched_person_id r = map_option pe_id (row_get pe_email (sr_normalized_email r) (people (rg_db s)))"
    using new_rows_columns(2) by (auto simp: snapshot new_snapshot_def people_by_email_def)
  ultimately show ?thesis using s' parse_roster_csv_Inr [OF rows]
    by (intro disjI2 exI [of _ snapshot] exI [of _ "new_rows env (people (rg_db s)) rows"])
       (auto simp: s1 snapshot new_snapshot_def audit_registers_def on_db_def record_audit_event_def new_rows_columns(1))
qed simp

definition demo_person_row :: "string \<Rightarrow> string \<Rightarrow> string \<Rightarrow> person" where
  "demo_person_row k email status =
     \<lparr>pe_id = k, pe_email = email, pe_display_name = k, pe_employment_status = status, pe_source = ''manual'',
      pe_external_id = None, pe_last_synced_at = None, pe_in_scope = False\<rparr>"

definition demo_vendor :: "string \<Rightarrow> vendor_system" where
  "demo_vendor k = (blank_vendor k)\<lparr>vs_system_name := ''Wiki'', vs_vendor_name := ''Acme''\<rparr>"

definition demo_registers :: registers where
  "demo_registers =
     \<lparr>rg_db = empty_db\<lparr>people := [demo_person_row ''p'' ''ann@x.io'' ''departed'']\<rparr>, rg_user_ids = [''u''],
      vendor_systems = [demo_vendor ''v''], vendor_user_snapshots = [], vendor_user_snapshot_rows = [], risks = [], import_jobs = []\<rparr>"

definition demo_roster_env :: "string \<Rightarrow> int \<Rightarrow> roster_env" where
  "demo_roster_env k d =
     \<lparr>rv_fromisoformat = (\<lambda>_. None), rv_sha256 = (\<lambda>x. x), rv_max_rows = 2, rv_max_upload_bytes = 1000,
      rv_now = Datetime (Date 2026 8 d) 0, rv_snapshot_id = k, rv_row_ids = (\<lambda>i. k @ str_int (int i))\<rparr>"

definition demo_roster :: "string list \<Rightarrow> string" where
  "demo_roster users = ''email,name,role,status,last_login_at'' @ concat (map (\<lambda>u. line_feed # u) users)"

definition demo_users :: "string list" where
  "demo_users = ['' Ann@x.io,Ann,admin,on,'', ''bob@x.io,Bob,,,'']"

lemma demo_import_run:
  "\<exists>resp s'. create_roster_snapshot (demo_roster_env ''n'' 20) ''v'' ''r.csv'' (demo_roster demo_users) ''u'' ''admin@x.io''
       demo_registers = Inr (resp, s') \<and>
     map (\<lambda>r. (sr_id r, sr_matched_person_id r)) (vendor_user_snapshot_rows s') = [(''n0'', Some ''p''), (''n1'', None)]"
proof -
  have raw: "read_upload_bounded chunk_size (rv_max_upload_bytes (demo_roster_env ''n'' 20)) (demo_roster demo_users) = Inr (demo_roster demo_users)"
    by (simp add: read_upload_bounded_def bounded_write_chunks concat_iter_upload_chunks chunk_size_def demo_roster_env_def
        demo_roster_def demo_users_def)
  have "case import_vendor_roster_snapshot (demo_roster_env ''n'' 20) ''v'' (demo_roster demo_users) ''r.csv'' ''u'' demo_registers of
      Inl _ \<Rightarrow> False | Inr (_, s') \<Rightarrow>
      map (\<lambda>r. (sr_id r, sr_matched_person_id r)) (vendor_user_snapshot_rows s') = [(''n0'', Some ''p''), (''n1'', None)]"
    by code_simp
  then obtain snapshot s1 where run: "import_vendor_roster_snapshot (demo_roster_env ''n'' 20) ''v'' (demo_roster demo_users) ''r.csv'' ''u'' demo_registers = Inr (snapshot, s1)"
    and rows: "map (\<lambda>r. (sr_id r, sr_matched_person_id r)) (vendor_user_snapshot_rows s1) = [(''n0'', Some ''p''), (''n1'', None)]"
    by (auto split: sum.splits prod.splits)
  have "row_get vs_id ''v'' (vendor_systems demo_registers) = Some (demo_vendor ''v'')"
    by (simp add: demo_registers_def demo_vendor_def blank_vendor_def)
  then show ?thesis
    using raw run rows by (auto simp: create_roster_snapshot_def Let_def audit_registers_def on_db_def)
qed

lemma roster_import_all_or_nothing_witness:
  "\<exists>resp s'. create_roster_snapshot (demo_roster_env ''n'' 20) ''v'' ''r.csv'' (demo_roster demo_users) ''u'' ''admin@x.io''
       demo_registers = Inr (resp, s') \<and>
     map (\<lambda>r. (sr_id r, sr_matched_person_id r)) (vendor_user_snapshot_rows s') = [(''n0'', Some ''p''), (''n1'', None)] \<and>
     distinct (map sr_normalized_email (vendor_user_snapshot_rows s'))"
proof -
  obtain resp s' where call: "create_roster_snapshot (demo_roster_env ''n'' 20) ''v'' ''r.csv'' (demo_roster demo_users) ''u'' ''admin@x.io''
       demo_registers = Inr (resp, s')"
    and rows: "map (\<lambda>r. (sr_id r, sr_matched_person_id r)) (vendor_user_snapshot_rows s') = [(''n0'', Some ''p''), (''n1'', None)]"
    using demo_import_run by (elim exE conjE) (rule that)
  have "vendor_user_snapshot_rows demo_registers = []" by (simp add: demo_registers_def)
  then show ?thesis using roster_import_all_or_nothing [OF call] call rows by auto
qed

section \<open>What the comparison says\<close>

lemma remdups_distinct_rev: "distinct xs \<Longrightarrow> rev (remdups (rev xs)) = xs"
  by (simp add: distinct_remdups_id)

lemma by_email_distinct:
  assumes "distinct (map sr_normalized_email rows)"
  shows "by_email rows k = Some r \<longleftrightarrow> r \<in> set rows \<and> sr_normalized_email r = k"
proof -
  have "distinct (map fst (rev (map (\<lambda>r. (sr_normalized_email r, r)) rows)))"
    using assms by (simp add: rev_map [symmetric] comp_def)
  then have "by_email rows k = Some r \<longleftrightarrow> (k, r) \<in> set (rev (map (\<lambda>r. (sr_normalized_email r, r)) rows))"
    unfolding by_email_def by (rule map_of_eq_Some_iff)
  then show ?thesis by auto
qed

lemma by_email_None: "by_email rows k = None \<longleftrightarrow> k \<notin> sr_normalized_email ` set rows"
  by (simp add: by_email_def map_of_eq_None_iff image_image)

lemma email_items_distinct:
  assumes "distinct (map sr_normalized_email rows)"
  shows "email_items rows = map (\<lambda>r. (sr_normalized_email r, r)) rows"
proof -
  have "the (by_email rows (sr_normalized_email r)) = r" if "r \<in> set rows" for r
    using by_email_distinct [OF assms] that by (metis option.sel)
  then show ?thesis by (simp add: email_items_def remdups_distinct_rev [OF assms] comp_def)
qed

definition email_changed :: "(vendor_user_snapshot_row \<Rightarrow> string) \<Rightarrow> vendor_user_snapshot_row list \<Rightarrow> vendor_user_snapshot_row list \<Rightarrow> roster_change set" where
  "email_changed f previous current =
     {\<lparr>rc_email = sr_normalized_email r, rc_before = f p, rc_after = f r\<rparr> | p r.
        p \<in> set previous \<and> r \<in> set current \<and> sr_normalized_email p = sr_normalized_email r \<and> f p \<noteq> f r}"

lemma changes_exact:
  assumes "distinct (map sr_normalized_email previous)" "distinct (map sr_normalized_email current)"
  shows "set (changes f previous current) = email_changed f previous current"
proof -
  have "c \<in> set (changes f previous current) \<longleftrightarrow>
      (\<exists>r \<in> set current. \<exists>p. by_email previous (sr_normalized_email r) = Some p \<and> f p \<noteq> f r \<and>
         c = \<lparr>rc_email = sr_normalized_email r, rc_before = f p, rc_after = f r\<rparr>)" for c
    unfolding changes_def email_items_distinct [OF assms(2)] set_map_filter
    by (auto split: option.splits if_splits)
  then show ?thesis unfolding by_email_distinct [OF assms(1)] email_changed_def by blast
qed

text \<open>
  The roster comparison is exact. Between two snapshots, in each of which an e-mail occurs
  once, the page lists as added exactly the rows whose e-mail the earlier one lacks, as removed
  exactly the earlier rows whose e-mail is gone, as role and status changes exactly the e-mails
  of both with different values, and as new administrators exactly the rows of both that say
  admin now and did not before, whatever the case of the letters.
\<close>

theorem roster_delta_exact:
  assumes "distinct (map sr_normalized_email previous)" "distinct (map sr_normalized_email current)"
  shows "rd_added (compute_delta previous current) =
      filter (\<lambda>r. sr_normalized_email r \<notin> sr_normalized_email ` set previous) current \<and>
    rd_removed (compute_delta previous current) =
      filter (\<lambda>r. sr_normalized_email r \<notin> sr_normalized_email ` set current) previous \<and>
    set (rd_role_changes (compute_delta previous current)) = email_changed sr_imported_role previous current \<and>
    set (rd_status_changes (compute_delta previous current)) = email_changed sr_imported_status previous current \<and>
    set (rd_newly_assigned_admins (compute_delta previous current)) =
      {r \<in> set current. lower (sr_imported_role r) = ''admin'' \<and>
         (\<exists>p \<in> set previous. sr_normalized_email p = sr_normalized_email r \<and> lower (sr_imported_role p) \<noteq> ''admin'')}"
proof (intro conjI)
  show "set (rd_newly_assigned_admins (compute_delta previous current)) =
      {r \<in> set current. lower (sr_imported_role r) = ''admin'' \<and>
         (\<exists>p \<in> set previous. sr_normalized_email p = sr_normalized_email r \<and> lower (sr_imported_role p) \<noteq> ''admin'')}"
  proof -
    have "r \<in> set (rd_newly_assigned_admins (compute_delta previous current)) \<longleftrightarrow>
        r \<in> set current \<and> (\<exists>p. by_email previous (sr_normalized_email r) = Some p \<and> sr_imported_role p \<noteq> sr_imported_role r \<and>
          lower (sr_imported_role r) = ''admin'' \<and> lower (sr_imported_role p) \<noteq> ''admin'')" for r
      by (auto simp: compute_delta_def email_items_distinct [OF assms(2)] filter_map comp_def split: option.splits)
    then have "r \<in> set (rd_newly_assigned_admins (compute_delta previous current)) \<longleftrightarrow>
        r \<in> set current \<and> lower (sr_imported_role r) = ''admin'' \<and>
        (\<exists>p \<in> set previous. sr_normalized_email p = sr_normalized_email r \<and> lower (sr_imported_role p) \<noteq> ''admin'')" for r
      unfolding by_email_distinct [OF assms(1)] by metis
    then show ?thesis by blast
  qed
qed (simp_all add: compute_delta_def changes_exact [OF assms] email_items_distinct [OF assms(1)] email_items_distinct [OF assms(2)]
      by_email_None filter_map comp_def)

definition demo_row :: "string \<Rightarrow> string \<Rightarrow> vendor_user_snapshot_row" where
  "demo_row email user_role =
     \<lparr>sr_id = email, sr_snapshot_id = ''n'', sr_normalized_email = email, sr_imported_email = email, sr_imported_name = [],
      sr_imported_role = user_role, sr_imported_status = [], sr_imported_last_login_at = None, sr_matched_person_id = None\<rparr>"

definition demo_before :: "vendor_user_snapshot_row list" where
  "demo_before = [demo_row ''a'' ''user'', demo_row ''b'' ''user'']"

definition demo_after :: "vendor_user_snapshot_row list" where
  "demo_after = [demo_row ''b'' ''ADMIN'', demo_row ''c'' []]"

lemma roster_delta_exact_witness:
  "map sr_normalized_email (rd_added (compute_delta demo_before demo_after)) = [''c''] \<and>
   map sr_normalized_email (rd_removed (compute_delta demo_before demo_after)) = [''a''] \<and>
   demo_row ''b'' ''ADMIN'' \<in> set (rd_newly_assigned_admins (compute_delta demo_before demo_after))"
proof -
  have "distinct (map sr_normalized_email demo_before)" "distinct (map sr_normalized_email demo_after)"
    by (simp_all add: demo_before_def demo_after_def demo_row_def)
  note exact = roster_delta_exact [OF this]
  have "map sr_normalized_email (filter (\<lambda>r. sr_normalized_email r \<notin> sr_normalized_email ` set demo_before) demo_after) = [''c'']"
    "map sr_normalized_email (filter (\<lambda>r. sr_normalized_email r \<notin> sr_normalized_email ` set demo_after) demo_before) = [''a'']"
    by (simp_all add: demo_before_def demo_after_def demo_row_def)
  moreover have "lower ''ADMIN'' = ''admin''" "lower ''user'' \<noteq> ''admin''" by code_simp+
  then have "demo_row ''b'' ''ADMIN'' \<in> {r \<in> set demo_after. lower (sr_imported_role r) = ''admin'' \<and>
      (\<exists>p \<in> set demo_before. sr_normalized_email p = sr_normalized_email r \<and> lower (sr_imported_role p) \<noteq> ''admin'')}"
    by (simp add: demo_before_def demo_after_def demo_row_def)
  ultimately show ?thesis using exact by metis
qed

end
