(* ===== verification/Register_History.thy ===== *)
theory Register_History
  imports Vendor_Roster
begin

text \<open>
  Histories of requests on the people and vendor registers, what every one of them keeps, and
  the exactness of the roster page.
\<close>

section \<open>Requests\<close>

datatype register_request =
    Create_person string string string string string
  | Update_person string string string bool string
  | Sync_people "string + string \<times> workspace_user list" "nat \<Rightarrow> string" datetime string
  | Create_vendor string form string
  | Update_vendor string form string
  | Import_roster roster_env string string string string string
  | Link_row string string string string

fun register_exec :: "(person \<Rightarrow> string) \<Rightarrow> register_request \<Rightarrow> registers \<Rightarrow> (response \<times> registers) result" where
  "register_exec show_person (Create_person new_id email display_name status actor) s =
     create_person new_id email display_name status actor s"
| "register_exec show_person (Update_person person_id display_name status in_scope actor) s =
     update_person show_person person_id display_name status in_scope actor s"
| "register_exec show_person (Sync_people fetched new_ids now actor) s = sync_workspace_directory True fetched new_ids now actor s"
| "register_exec show_person (Create_vendor new_id f actor) s = create_vendor new_id f actor s"
| "register_exec show_person (Update_vendor vendor_id f actor) s = update_vendor vendor_id f actor s"
| "register_exec show_person (Import_roster env vendor_id filename content user_id actor) s =
     create_roster_snapshot env vendor_id filename content user_id actor s"
| "register_exec show_person (Link_row vendor_id row_id person_id actor) s = link_roster_row vendor_id row_id person_id actor s"

text \<open>The session is committed when the handler returns and rolled back when it raises.\<close>

definition register_step :: "(person \<Rightarrow> string) \<Rightarrow> registers \<Rightarrow> register_request \<Rightarrow> registers" where
  "register_step show_person s q = (case register_exec show_person q s of Inl _ \<Rightarrow> s | Inr (_, s') \<Rightarrow> s')"

section \<open>What every request keeps\<close>

text \<open>What a row says about the vendor's export: everything but the matched person.\<close>

definition imported :: "vendor_user_snapshot_row \<Rightarrow> vendor_user_snapshot_row" where
  "imported r = r\<lparr>sr_matched_person_id := None\<rparr>"

definition kept :: "registers \<Rightarrow> registers \<Rightarrow> bool" where
  "kept s s' \<longleftrightarrow>
     (\<exists>ns. vendor_user_snapshots s' = vendor_user_snapshots s @ ns) \<and>
     (\<exists>rs. map imported (vendor_user_snapshot_rows s') = map imported (vendor_user_snapshot_rows s) @ rs) \<and>
     (\<exists>ks. map pe_id (people (rg_db s')) = map pe_id (people (rg_db s)) @ ks) \<and>
     (\<exists>ks. map pe_email (people (rg_db s')) = map pe_email (people (rg_db s)) @ ks) \<and>
     (\<exists>ks. map vs_id (vendor_systems s') = map vs_id (vendor_systems s) @ ks)"

lemma kept_refl: "kept s s" by (simp add: kept_def)

lemma kept_trans: "kept s s1 \<Longrightarrow> kept s1 s2 \<Longrightarrow> kept s s2"
  unfolding kept_def by (elim conjE exE) (intro conjI; metis append.assoc)

definition registers_ok :: "registers \<Rightarrow> bool" where
  "registers_ok s \<longleftrightarrow>
     unique_by pe_id (people (rg_db s)) \<and> unique_by pe_email (people (rg_db s)) \<and>
     unique_by vs_id (vendor_systems s) \<and> unique_by sn_id (vendor_user_snapshots s) \<and>
     unique_by row_slot (vendor_user_snapshot_rows s) \<and>
     (\<forall>v \<in> set (vendor_systems s). vendor_row_ok v (rg_db s)) \<and>
     (\<forall>r \<in> set (vendor_user_snapshot_rows s). has_row sn_id (sr_snapshot_id r) (vendor_user_snapshots s)) \<and>
     (\<forall>n \<in> set (vendor_user_snapshots s). has_row vs_id (sn_vendor_system_id n) (vendor_systems s) \<and>
        sn_row_count n = length (snapshot_rows s (sn_id n)))"

text \<open>An audit row, and a change that only adds people, keep both.\<close>

lemma vendor_row_ok_mono:
  "(\<And>k. has_row pe_id k (people d) \<Longrightarrow> has_row pe_id k (people d')) \<Longrightarrow> vendor_row_ok v d \<Longrightarrow> vendor_row_ok v d'"
  by (auto simp: vendor_row_ok_def person_refs_ok_def fk_ok_def split: option.splits)

lemma people_change:
  assumes "registers_ok s" "map pe_id (people d) = map pe_id (people (rg_db s)) @ ks"
    "map pe_email (people d) = map pe_email (people (rg_db s)) @ es" "unique_by pe_id (people d)" "unique_by pe_email (people d)"
  shows "registers_ok (s\<lparr>rg_db := d\<rparr>) \<and> kept s (s\<lparr>rg_db := d\<rparr>)"
proof -
  have "has_row pe_id k (people d)" if "has_row pe_id k (people (rg_db s))" for k
    using that assms(2) by (metis Un_iff has_row_image list.set_map set_append)
  then have "vendor_row_ok v d" if "vendor_row_ok v (rg_db s)" for v using vendor_row_ok_mono that by blast
  then show ?thesis using assms by (auto simp: registers_ok_def kept_def snapshot_rows_def)
qed

lemma audit_registers_eq: "audit_registers a b c d e s = s\<lparr>rg_db := record_audit_event a b c d e (rg_db s)\<rparr>"
  by (simp add: audit_registers_def on_db_def)

lemma audit_keeps: "registers_ok s \<Longrightarrow> registers_ok (audit_registers a b c d e s) \<and> kept s (audit_registers a b c d e s)"
  unfolding audit_registers_eq
  by (rule people_change [where ks = "[]" and es = "[]"]) (simp_all add: record_audit_event_def registers_ok_def)

lemma audited:
  assumes "registers_ok s1 \<and> kept s s1"
  shows "registers_ok (audit_registers a b c d e s1) \<and> kept s (audit_registers a b c d e s1)"
  using assms audit_keeps kept_trans by blast

lemma insert_person_Inr:
  "insert_person d p = Inr d' \<Longrightarrow>
     d' = d\<lparr>people := people d @ [p]\<rparr> \<and> \<not> has_row pe_id (pe_id p) (people d) \<and> \<not> has_row pe_email (pe_email p) (people d)"
  by (auto simp: insert_person_def split: if_splits)

lemma insert_persons_Inr:
  assumes "rfold insert_person ps d = Inr d'" "unique_by pe_id (people d)" "unique_by pe_email (people d)"
  shows "people d' = people d @ ps \<and> unique_by pe_id (people d') \<and> unique_by pe_email (people d')"
  using assms
proof (induction ps arbitrary: d)
  case (Cons p ps)
  then obtain d1 where d1: "insert_person d p = Inr d1" and rest: "rfold insert_person ps d1 = Inr d'" by auto
  have d1': "d1 = d\<lparr>people := people d @ [p]\<rparr>" "\<not> has_row pe_id (pe_id p) (people d)" "\<not> has_row pe_email (pe_email p) (people d)"
    using insert_person_Inr [OF d1] by blast+
  then show ?case using Cons.IH [OF rest] Cons.prems(2,3) by auto
qed simp

lemma sync_loop_keys:
  "sync_loop ids now us rows added n = (rows', added', n') \<Longrightarrow>
     map pe_id rows' = map pe_id rows \<and> map pe_email rows' = map pe_email rows"
proof (induction us arbitrary: rows added n)
  case (Cons u us)
  then show ?case by (auto simp: Let_def sync_person_def split: if_splits option.splits)
qed simp

lemma sync_keeps:
  assumes "registers_ok s" "sync_directory_users ids now us (rg_db s) = Inr (counts, d)"
  shows "registers_ok (s\<lparr>rg_db := d\<rparr>) \<and> kept s (s\<lparr>rg_db := d\<rparr>)"
proof -
  obtain rows added n where loop: "sync_loop ids now us (people (rg_db s)) [] 0 = (rows, added, n)"
    and ins: "rfold insert_person added ((rg_db s)\<lparr>people := rows\<rparr>) = Inr d"
    using assms(2) by (auto simp: sync_directory_users_def split: prod.splits)
  note keys = sync_loop_keys [OF loop]
  have "unique_by pe_id rows" "unique_by pe_email rows"
    using assms(1) keys by (simp_all add: registers_ok_def unique_by_def)
  then have d: "people d = rows @ added" "unique_by pe_id (people d)" "unique_by pe_email (people d)"
    using insert_persons_Inr [OF ins] by auto
  show ?thesis by (rule people_change [OF assms(1) _ _ d(2,3)]) (simp_all add: d(1) keys)
qed

text \<open>The vendors.\<close>

lemma vendor_change:
  assumes "registers_ok s" "map vs_id vs = map vs_id (vendor_systems s) @ ks" "distinct (map vs_id vs)"
    "\<forall>v \<in> set vs. vendor_row_ok v (rg_db s)"
  shows "registers_ok (s\<lparr>vendor_systems := vs\<rparr>) \<and> kept s (s\<lparr>vendor_systems := vs\<rparr>)"
proof -
  have "has_row vs_id k vs" if "has_row vs_id k (vendor_systems s)" for k
    using that assms(2) by (metis Un_iff has_row_image list.set_map set_append)
  then show ?thesis using assms by (auto simp: registers_ok_def kept_def snapshot_rows_def unique_by_def)
qed

lemma extract_id [simp]: "vs_id (extract_vendor_fields f a c v) = vs_id v"
  by (simp add: extract_vendor_fields_def)

lemma create_vendor_keeps:
  assumes ok: "registers_ok s" and run: "create_vendor new_id f actor s = Inr (resp, s')"
  shows "registers_ok s' \<and> kept s s'"
proof (cases "s' = s")
  case False
  then obtain v s1 detail where ins: "insert_vendor v s = Inr s1"
    and s': "s' = audit_registers ''vendor_system'' new_id ''create'' detail actor s1"
    using run by (auto simp: create_vendor_def Let_def split: if_splits sum.splits error.splits prod.splits)
  have "s1 = s\<lparr>vendor_systems := vendor_systems s @ [v]\<rparr>" "\<not> has_row vs_id (vs_id v) (vendor_systems s)" "vendor_row_ok v (rg_db s)"
    using ins by (auto simp: insert_vendor_def split: if_splits)
  moreover from this have "registers_ok s1 \<and> kept s s1"
    using ok vendor_change [OF ok, of "vendor_systems s @ [v]" "[vs_id v]"]
    by (auto simp: registers_ok_def unique_by_def has_row_image)
  ultimately show ?thesis unfolding s' by (intro audited)
qed (use ok kept_refl in simp)

lemma update_vendor_keeps:
  assumes ok: "registers_ok s" and run: "update_vendor k f actor s = Inr (resp, s')"
  shows "registers_ok s' \<and> kept s s'"
proof (cases "s' = s")
  case False
  then obtain v a c detail where v: "row_get vs_id k (vendor_systems s) = Some v"
    and row: "vendor_row_ok (extract_vendor_fields f a c v) (rg_db s)"
    and s': "s' = audit_registers ''vendor_system'' k ''update'' detail actor
        (s\<lparr>vendor_systems := row_upd vs_id k (extract_vendor_fields f a c) (vendor_systems s)\<rparr>)"
    using run by (auto simp: update_vendor_def Let_def split: option.splits if_splits sum.splits error.splits prod.splits)
  have "x = v" if "x \<in> set (vendor_systems s)" "vs_id x = k" for x
    using ok that row_get_SomeD [OF v] unique_by_eqD [of vs_id "vendor_systems s" x v] by (simp add: registers_ok_def)
  then have "\<forall>x \<in> set (row_upd vs_id k (extract_vendor_fields f a c) (vendor_systems s)). vendor_row_ok x (rg_db s)"
    using ok row by (auto simp: registers_ok_def set_row_upd)
  then show ?thesis unfolding s'
    using ok by (intro audited vendor_change [where ks = "[]"]) (simp_all add: registers_ok_def unique_by_def)
qed (use ok kept_refl in simp)

text \<open>The roster snapshots.\<close>

lemma import_keeps:
  assumes ok: "registers_ok s" and run: "import_vendor_roster_snapshot env vendor_id raw name user_id s = Inr (snapshot, s')"
  shows "registers_ok s' \<and> kept s s'"
proof -
  from import_Inr [OF run] obtain rows where rows: "parse_roster_csv (rv_fromisoformat env) raw (rv_max_rows env) = Inr rows"
    and snapshot: "snapshot = new_snapshot env vendor_id raw name user_id (length rows)"
    and fresh: "\<not> has_row sn_id (rv_snapshot_id env) (vendor_user_snapshots s)" "has_row vs_id vendor_id (vendor_systems s)"
    and s': "s' = s\<lparr>vendor_user_snapshots := vendor_user_snapshots s @ [snapshot],
            vendor_user_snapshot_rows := vendor_user_snapshot_rows s @ new_rows env (people (rg_db s)) rows,
            vendor_systems := row_upd vs_id vendor_id (\<lambda>v. v\<lparr>vs_roster_last_confirmed_at := Some (rv_now env)\<rparr>) (vendor_systems s)\<rparr>"
    and slots: "unique_by row_slot (vendor_user_snapshot_rows s) \<longrightarrow> unique_by row_slot (vendor_user_snapshot_rows s')"
    by blast
  let ?new = "new_rows env (people (rg_db s)) rows"
  have new: "sr_snapshot_id r = rv_snapshot_id env" if "r \<in> set ?new" for r using new_rows_columns(2) [OF that] by blast
  have old: "sr_snapshot_id r \<noteq> rv_snapshot_id env" if "r \<in> set (vendor_user_snapshot_rows s)" for r
    using ok fresh(1) that by (auto simp: registers_ok_def)
  have keep: "snapshot_rows s' k = snapshot_rows s k" if "k \<noteq> rv_snapshot_id env" for k
    using that new by (auto simp: snapshot_rows_def s' filter_empty_conv)
  have "filter (\<lambda>r. sr_snapshot_id r = rv_snapshot_id env) ?new = ?new"
    "filter (\<lambda>r. sr_snapshot_id r = rv_snapshot_id env) (vendor_user_snapshot_rows s) = []"
    using new old by (simp_all add: filter_id_conv filter_empty_conv)
  then have added: "snapshot_rows s' (rv_snapshot_id env) = ?new" by (simp add: snapshot_rows_def s')
  have "sn_row_count n = length (snapshot_rows s' (sn_id n))" if "n \<in> set (vendor_user_snapshots s')" for n
  proof (cases "sn_id n = rv_snapshot_id env")
    case True
    then have "n = snapshot" using that fresh(1) by (auto simp: s' has_row_iff)
    then show ?thesis by (simp add: snapshot new_snapshot_def added)
  next
    case False
    then have "n \<in> set (vendor_user_snapshots s)" using that by (auto simp: s' snapshot new_snapshot_def)
    then show ?thesis using ok keep [OF False] by (simp add: registers_ok_def)
  qed
  moreover have "vendor_row_ok (v\<lparr>vs_roster_last_confirmed_at := t\<rparr>) d = vendor_row_ok v d" for v t d
    by (simp add: vendor_row_ok_def person_refs_ok_def)
  moreover have "vendor_user_snapshots s' = vendor_user_snapshots s @ [snapshot]" "sn_id snapshot = rv_snapshot_id env"
    "sn_vendor_system_id snapshot = vendor_id" "rg_db s' = rg_db s"
    by (simp_all add: s' snapshot new_snapshot_def)
  moreover have "vendor_systems s' = row_upd vs_id vendor_id (\<lambda>v. v\<lparr>vs_roster_last_confirmed_at := Some (rv_now env)\<rparr>) (vendor_systems s)"
    "vendor_user_snapshot_rows s' = vendor_user_snapshot_rows s @ ?new"
    by (simp_all add: s')
  ultimately show ?thesis using ok slots new fresh by (auto simp: registers_ok_def kept_def set_row_upd)
qed

lemma length_filter_upd:
  "(\<And>r. P (f r) = P r) \<Longrightarrow> length (filter P (row_upd key k f rows)) = length (filter P rows)"
  by (induction rows) auto

lemma link_keeps:
  assumes ok: "registers_ok s" and run: "link_roster_row vendor_id row_id person_id actor s = Inr (resp, s')"
  shows "registers_ok s' \<and> kept s s'"
proof (cases "s' = s")
  case False
  then obtain p detail where s': "s' = audit_registers ''vendor_user_snapshot_row'' row_id ''link_person'' detail actor
      (s\<lparr>vendor_user_snapshot_rows := row_upd sr_id row_id (\<lambda>r. r\<lparr>sr_matched_person_id := p\<rparr>) (vendor_user_snapshot_rows s)\<rparr>)"
    using run by (auto simp: link_roster_row_def Let_def split: option.splits if_splits)
  show ?thesis unfolding s'
    by (intro audited) (use ok in \<open>auto simp: registers_ok_def kept_def snapshot_rows_def imported_def row_slot_def set_row_upd length_filter_upd\<close>)
qed (use ok kept_refl in simp)

lemma register_step_keeps:
  assumes "registers_ok s"
  shows "registers_ok (register_step show_person s q) \<and> kept s (register_step show_person s q)"
proof -
  have "registers_ok s' \<and> kept s s'" if run: "register_exec show_person q s = Inr (resp, s')" for resp s'
  proof (cases "s' = s")
    case changed: False
    show ?thesis
    proof (cases q)
      case (Create_person k email name status actor)
      then obtain d p detail where d: "insert_person (rg_db s) p = Inr d"
        and s': "s' = audit_registers ''person'' k ''create'' detail actor (s\<lparr>rg_db := d\<rparr>)"
        using run changed by (auto simp: create_person_def Let_def split: if_splits sum.splits)
      show ?thesis unfolding s' using insert_person_Inr [OF d] assms
        by (intro audited people_change [where ks = "[pe_id p]" and es = "[pe_email p]"]) (auto simp: registers_ok_def)
    next
      case (Update_person k name status in_scope actor)
      let ?f = "\<lambda>p. p\<lparr>pe_display_name := strip name, pe_employment_status := status, pe_in_scope := in_scope\<rparr>"
      obtain detail where s': "s' = audit_registers ''person'' k ''update'' detail actor
            (s\<lparr>rg_db := (rg_db s)\<lparr>people := row_upd pe_id k ?f (people (rg_db s))\<rparr>\<rparr>)"
        using run changed Update_person by (auto simp: update_person_def Let_def on_db_def split: option.splits if_splits)
      show ?thesis unfolding s' using assms
        by (intro audited people_change [where ks = "[]" and es = "[]"]) (auto simp: registers_ok_def)
    next
      case (Sync_people fetched ids now actor)
      then obtain us counts d k detail where d: "sync_directory_users ids now us (rg_db s) = Inr (counts, d)"
        and s': "s' = audit_registers ''google_drive_connection'' k ''sync_workspace_directory'' detail actor (s\<lparr>rg_db := d\<rparr>)"
        using run changed by (auto simp: sync_workspace_directory_def split: sum.splits)
      show ?thesis unfolding s' by (intro audited sync_keeps [OF assms d])
    next
      case (Import_roster env k name content user_id actor)
      then have call: "create_roster_snapshot env k name content user_id actor s = Inr (resp, s')" using run by simp
      obtain raw name' snapshot s1 detail where s1: "import_vendor_roster_snapshot env k raw name' user_id s = Inr (snapshot, s1)"
        and s': "s' = audit_registers ''vendor_system'' k ''import_roster_snapshot'' detail actor s1"
        using create_roster_cases [OF call] changed by blast
      show ?thesis unfolding s' by (rule audited [OF import_keeps [OF assms s1]])
    next
      case (Create_vendor k f actor)
      then show ?thesis using run by (intro create_vendor_keeps [OF assms]) simp
    next
      case (Update_vendor k f actor)
      then show ?thesis using run by (intro update_vendor_keeps [OF assms]) simp
    next
      case (Link_row k row_id person_id actor)
      then show ?thesis using run by (intro link_keeps [OF assms]) simp
    qed
  qed (use assms kept_refl in simp)
  then show ?thesis using assms kept_refl by (auto simp: register_step_def split: sum.splits prod.splits)
qed

text \<open>
  C32. The registers keep their history. Whatever requests come, committed or failed, the people
  keep their ids and e-mail addresses, no address occurs twice, vendors stay, every vendor
  row keeps the constraints of its table, and the roster snapshots are immutable: the old
  ones are a prefix of the new ones, and no imported column of a snapshot row ever changes
  (an administrator's link only sets the matched person); the count of a snapshot is the
  number of its rows.
\<close>

theorem registers_keep_history:
  assumes "registers_ok s"
  shows "registers_ok (foldl (register_step show_person) s qs) \<and> kept s (foldl (register_step show_person) s qs)"
  using assms
proof (induction qs arbitrary: s)
  case (Cons q qs)
  let ?s1 = "register_step show_person s q"
  have ok: "registers_ok ?s1" and kept: "kept s ?s1" using register_step_keeps [OF Cons.prems] by blast+
  show ?case using Cons.IH [OF ok] kept_trans [OF kept] by simp
qed (simp add: kept_refl)

lemma registers_keep_history_witness:
  "\<exists>s'. foldl (register_step (\<lambda>_. [])) demo_registers
       [Import_roster (demo_roster_env ''n'' 20) ''v'' ''r.csv'' (demo_roster demo_users) ''u'' ''admin@x.io''] = s' \<and>
     length (vendor_user_snapshot_rows s') = 2 \<and> registers_ok s' \<and> kept demo_registers s'"
proof -
  let ?qs = "[Import_roster (demo_roster_env ''n'' 20) ''v'' ''r.csv'' (demo_roster demo_users) ''u'' ''admin@x.io'']"
  have ok: "registers_ok demo_registers"
    by (simp add: registers_ok_def demo_registers_def demo_vendor_def blank_vendor_def vendor_row_ok_def person_refs_ok_def
        sql_blank_def upper_def upper_char_def unique_by_def)
  obtain resp s1 where "create_roster_snapshot (demo_roster_env ''n'' 20) ''v'' ''r.csv'' (demo_roster demo_users) ''u'' ''admin@x.io''
       demo_registers = Inr (resp, s1)"
    and rows: "map (\<lambda>r. (sr_id r, sr_matched_person_id r)) (vendor_user_snapshot_rows s1) = [(''n0'', Some ''p''), (''n1'', None)]"
    using demo_import_run by (elim exE conjE) (rule that)
  then have run: "foldl (register_step (\<lambda>_. [])) demo_registers ?qs = s1" by (simp add: register_step_def)
  have "length (vendor_user_snapshot_rows s1) = 2" using arg_cong [OF rows, of length] by simp
  then show ?thesis using registers_keep_history [OF ok, of "\<lambda>_. []" ?qs] run by blast
qed

end
