(* ===== verification/Imports.thy ===== *)
theory Imports
  imports Registers Framework_Catalog Jobs
begin

text \<open>
  \<open>src/app/imports.py\<close> with \<open>csv_import.py\<close> and \<open>routers/risks.py\<close>: the registry of importers, the
  import of framework requirements and of a risk register from CSV, the run of an import with
  its record, its checksum and its rollback, and the web route that runs it through the job
  queue. SHA-256 is a parameter, as is the text of an exception that is not a \<open>ValueError\<close>.
  A session's rollback returns to the state of its last commit, which is an argument.
\<close>

section \<open>Cells\<close>

definition formula_trigger_chars :: string where
  "formula_trigger_chars = ''=+-@''"

definition neutralize_csv_formula :: "string \<Rightarrow> string" where
  "neutralize_csv_formula value =
     (if value \<noteq> [] \<and> hd value \<in> set formula_trigger_chars then CHR 0x27 # value else value)"

record import_env =
  ie_job_id :: string
  ie_retry_job_id :: string
  ie_row_ids :: "nat \<Rightarrow> string"
  ie_sha256 :: "string \<Rightarrow> string"
  ie_exception_text :: "error \<Rightarrow> string"

definition exception_text :: "import_env \<Rightarrow> error \<Rightarrow> string" where
  "exception_text env e = (case e of ValueError m \<Rightarrow> m | CsvError m \<Rightarrow> m | _ \<Rightarrow> ie_exception_text env e)"

section \<open>Framework requirements\<close>

record requirement_row =
  rq_code :: string
  rq_title :: string
  rq_description :: string
  rq_display_order :: int

definition row_error :: "nat \<Rightarrow> string \<Rightarrow> string" where
  "row_error line_number message = ''Row '' @ str_int (int line_number) @ '': '' @ message"

text \<open>One row of the file: its error, or its fields.\<close>

definition read_requirement :: "string list \<Rightarrow> string list \<Rightarrow> nat \<Rightarrow> dict_row \<Rightarrow> string + requirement_row" where
  "read_requirement existing_codes seen line_number row =
     (let code = cell_or [] row ''reference_code''; title = cell_or [] row ''title'';
          display_order_raw = cell_or [] row ''display_order'';
          parsed = (\<lambda>n. Inr \<lparr>rq_code = code, rq_title = title, rq_description = cell_or [] row ''description'', rq_display_order = n\<rparr>)
      in if code = [] then Inl (row_error line_number ''reference_code is required'')
         else if title = [] then Inl (row_error line_number ''title is required'')
         else if code \<in> set existing_codes
         then Inl (row_error line_number (''reference_code '' @ in_quotes code @ '' already exists in this framework''))
         else if code \<in> set seen
         then Inl (row_error line_number (''duplicate reference_code '' @ in_quotes code @ '' within the file''))
         else if display_order_raw = [] then parsed (int line_number - 1)
         else (case py_int display_order_raw of
                 Inl _ \<Rightarrow> Inl (row_error line_number ''display_order must be an integer'')
               | Inr n \<Rightarrow> parsed n))"

fun requirement_rows :: "string list \<Rightarrow> string list \<Rightarrow> nat \<Rightarrow> dict_row list \<Rightarrow> string list \<times> requirement_row list" where
  "requirement_rows existing_codes seen line_number [] = ([], [])"
| "requirement_rows existing_codes seen line_number (row # rows) =
     (case read_requirement existing_codes seen line_number row of
        Inl m \<Rightarrow> (case requirement_rows existing_codes seen (Suc line_number) rows of (errors, parsed) \<Rightarrow> (m # errors, parsed))
      | Inr r \<Rightarrow> (case requirement_rows existing_codes (rq_code r # seen) (Suc line_number) rows of
                    (errors, parsed) \<Rightarrow> (errors, r # parsed)))"

fun add_requirements :: "(nat \<Rightarrow> string) \<Rightarrow> framework \<Rightarrow> nat \<Rightarrow> requirement_row list \<Rightarrow> db \<Rightarrow> db result" where
  "add_requirements new_ids framework n [] d = Inr d"
| "add_requirements new_ids framework n (r # rows) d =
     (if \<not> int_column_ok (Some (rq_display_order r)) then Inl OverflowError
      else rbind (add_requirement (new_ids n) framework (rq_code r) (rq_title r) (rq_description r) (rq_display_order r) d)
             (\<lambda>(_, d'). add_requirements new_ids framework (Suc n) rows d'))"

definition import_requirements_csv ::
  "(nat \<Rightarrow> string) \<Rightarrow> framework \<Rightarrow> string \<Rightarrow> db \<Rightarrow> ((nat \<times> string list) \<times> db) result" where
  "import_requirements_csv new_ids framework raw d =
     (case decode_utf8_sig raw of
        None \<Rightarrow> Inr ((0, [''File is not valid UTF-8 text.'']), d)
      | Some content \<Rightarrow>
          rbind (dict_reader content) (\<lambda>(fieldnames, rows, e).
            let absent = missing_columns [''reference_code'', ''title''] fieldnames
            in if absent \<noteq> [] then Inr ((0, [''Missing required column(s): '' @ join_with '', '' absent]), d)
               else (case requirement_rows (map fr_reference_code (framework_requirements_of (fw_id framework) d)) [] 2 rows of
                       (errors, parsed) \<Rightarrow>
                         (case e of
                            Some x \<Rightarrow> Inl x
                          | None \<Rightarrow>
                              if errors \<noteq> [] then Inr ((0, errors), d)
                              else if parsed = [] then Inr ((0, [''CSV file contained no data rows.'']), d)
                              else rbind (add_requirements new_ids framework 0 parsed d) (\<lambda>d'.
                                     Inr ((length parsed, []), d'))))))"

section \<open>Importers\<close>

record import_result =
  is_discovered :: nat
  is_created :: nat

type_synonym importer = "import_env \<Rightarrow> string \<Rightarrow> (string \<times> string) list \<Rightarrow> registers \<Rightarrow> (import_result \<times> registers) result"

definition import_framework_requirements :: importer where
  "import_framework_requirements env raw target s =
     (let framework_id = map_of target ''framework_id'';
          missing = Inl (ValueError (''framework '' @ (case framework_id of None \<Rightarrow> ''None'' | Some k \<Rightarrow> k) @ '' not found''))
      in case framework_id of
           None \<Rightarrow> missing
         | Some k \<Rightarrow>
             (case row_get fw_id k (frameworks (rg_db s)) of
                None \<Rightarrow> missing
              | Some framework \<Rightarrow>
                  rbind (import_requirements_csv (ie_row_ids env) framework raw (rg_db s)) (\<lambda>((created, errors), d).
                    if errors \<noteq> [] then Inl (ValueError (join_with ''; '' (take 10 errors)))
                    else Inr (\<lparr>is_discovered = created, is_created = created\<rparr>, s\<lparr>rg_db := d\<rparr>))))"

definition risk_statuses :: "string list" where
  "risk_statuses = [''open'', ''mitigating'', ''accepted'', ''closed'']"

definition read_risk :: "nat \<Rightarrow> dict_row \<Rightarrow> string + risk" where
  "read_risk line_number row =
     (let title = cell_or [] row ''title''; status = cell_or ''open'' row ''status'';
          cell = (\<lambda>dflt key. neutralize_csv_formula (cell_or dflt row key))
      in if title = [] then Inl (row_error line_number ''title is required'')
         else if status \<notin> set risk_statuses
         then Inl (row_error line_number (''status must be one of '' @ join_with '', '' risk_statuses))
         else (case (py_int (cell_or ''1'' row ''likelihood''), py_int (cell_or ''1'' row ''impact'')) of
                 (Inr likelihood, Inr impact) \<Rightarrow>
                   if \<not> (1 \<le> likelihood \<and> likelihood \<le> 5) \<or> \<not> (1 \<le> impact \<and> impact \<le> 5)
                   then Inl (row_error line_number ''likelihood/impact must be between 1 and 5'')
                   else Inr \<lparr>ri_id = [], ri_title = neutralize_csv_formula title, ri_description = cell [] ''description'',
                          ri_category = cell ''general'' ''category'', ri_likelihood = likelihood, ri_impact = impact,
                          ri_owner = cell [] ''owner'', ri_status = status, ri_treatment_plan = cell [] ''treatment_plan''\<rparr>
               | _ \<Rightarrow> Inl (row_error line_number ''likelihood/impact must be integers'')))"

fun risk_rows :: "nat \<Rightarrow> dict_row list \<Rightarrow> string list \<times> risk list" where
  "risk_rows line_number [] = ([], [])"
| "risk_rows line_number (row # rows) =
     (case risk_rows (Suc line_number) rows of (errors, parsed) \<Rightarrow>
        (case read_risk line_number row of Inl m \<Rightarrow> (m # errors, parsed) | Inr r \<Rightarrow> (errors, r # parsed)))"

text \<open>The rows are flushed when the importer has returned; the ids come with that.\<close>

definition import_risk_register :: importer where
  "import_risk_register env raw target s =
     (case decode_utf8_sig raw of
        None \<Rightarrow> Inl (ValueError ''invalid UTF-8'')
      | Some content \<Rightarrow>
          rbind (dict_reader content) (\<lambda>(fieldnames, rows, e).
            let absent = missing_columns [''title''] fieldnames
            in if absent \<noteq> [] then Inl (ValueError (''Missing required column(s): '' @ join_with '', '' absent))
               else (case risk_rows 2 rows of
                       (errors, parsed) \<Rightarrow>
                         (case e of
                            Some x \<Rightarrow> Inl x
                          | None \<Rightarrow>
                              if errors \<noteq> [] then Inl (ValueError (join_with ''; '' (take 10 errors)))
                              else if parsed = [] then Inl (ValueError ''CSV file contained no data rows.'')
                              else rbind (rfold insert_risk (map (\<lambda>(i, r). r\<lparr>ri_id := ie_row_ids env i\<rparr>) (enumerate 0 parsed)) s) (\<lambda>s'.
                                     Inr (\<lparr>is_discovered = length parsed, is_created = length parsed\<rparr>, s'))))))"

definition importers :: "string \<rightharpoonup> string \<times> importer" where
  "importers =
     [''framework_requirements_csv'' \<mapsto> (''framework_requirement'', import_framework_requirements),
      ''risk_register_csv'' \<mapsto> (''risk'', import_risk_register)]"

section \<open>Running an import\<close>

definition import_sources :: "string list" where
  "import_sources = [''web'', ''cli'', ''watched_directory'']"

record import_request =
  iq_importer_name :: string
  iq_raw_bytes :: string
  iq_filename :: string
  iq_target :: "(string \<times> string) list"
  iq_actor :: string
  iq_source :: string

definition default_max_bytes :: nat where
  "default_max_bytes = 25 * 1024 * 1024"

definition new_import_job :: "string \<Rightarrow> import_request \<Rightarrow> import_job" where
  "new_import_job new_id q =
     \<lparr>ij_id = new_id, ij_source = iq_source q, ij_importer_name = iq_importer_name q, ij_original_filename = iq_filename q,
      ij_file_size = length (iq_raw_bytes q), ij_checksum_sha256 = [], ij_status = Validating, ij_entity_type = [],
      ij_target = iq_target q, ij_records_discovered = 0, ij_records_created = 0, ij_records_updated = 0,
      ij_records_skipped = 0, ij_validation_errors = None, ij_created_by = iq_actor q\<rparr>"

definition insert_import_job :: "import_job \<Rightarrow> registers \<Rightarrow> registers result" where
  "insert_import_job j s =
     (if has_row ij_id (ij_id j) (import_jobs s) \<or> ij_source j \<notin> set import_sources then Inl IntegrityError
      else Inr (s\<lparr>import_jobs := import_jobs s @ [j]\<rparr>))"

text \<open>The last assignments to the job row, with the audit row; the row goes out with the commit.\<close>

definition finish_import :: "import_job \<Rightarrow> string \<Rightarrow> string \<Rightarrow> string \<Rightarrow> registers \<Rightarrow> import_job \<times> registers" where
  "finish_import j action detail actor s =
     (j, audit_registers ''import_job'' (ij_id j) action detail actor
           (s\<lparr>import_jobs := row_upd ij_id (ij_id j) (\<lambda>_. j) (import_jobs s)\<rparr>))"

definition reject_import :: "import_job \<Rightarrow> string \<Rightarrow> registers \<Rightarrow> import_job \<times> registers" where
  "reject_import j message s =
     finish_import (j\<lparr>ij_status := Rejected, ij_validation_errors := Some [message]\<rparr>) ''reject''
       (''Import '' @ in_quotes (ij_original_filename j) @ '' rejected: '' @ message) (ij_created_by j) s"

definition find_duplicate :: "import_job \<Rightarrow> registers \<Rightarrow> import_job option" where
  "find_duplicate j s =
     find (\<lambda>k. ij_checksum_sha256 k = ij_checksum_sha256 j \<and> ij_importer_name k = ij_importer_name j \<and>
            ij_target k = ij_target j \<and> ij_status k = Completed \<and> ij_id k \<noteq> ij_id j) (import_jobs s)"

text \<open>
  The job, the state, and whether the session was rolled back to \<open>base\<close> on the way: then the
  job is a new row.
\<close>

definition run_import ::
  "import_env \<Rightarrow> nat \<Rightarrow> registers \<Rightarrow> import_request \<Rightarrow> registers \<Rightarrow> (bool \<times> import_job \<times> registers) result" where
  "run_import env max_bytes base q s =
     (let j0 = new_import_job (ie_job_id env) q; raw = iq_raw_bytes q; actor = iq_actor q
      in rbind (insert_import_job j0 s) (\<lambda>s0.
         if max_bytes < length raw
         then Inr (False, reject_import j0 (''File exceeds the maximum size of '' @ str_int (int (max_bytes div (1024 * 1024))) @ '' MB.'') s0)
         else
           (let j1 = j0\<lparr>ij_checksum_sha256 := ie_sha256 env raw\<rparr>
            in case find_duplicate j1 s0 of
                 Some duplicate \<Rightarrow>
                   Inr (False, finish_import (j1\<lparr>ij_status := Completed, ij_records_skipped := 1,
                       ij_validation_errors := Some [''Duplicate of already-completed import job '' @ ij_id duplicate]\<rparr>) ''skip_duplicate''
                     (''Import '' @ in_quotes (iq_filename q) @ '' skipped - identical to job '' @ ij_id duplicate) actor s0)
               | None \<Rightarrow>
                   (case importers (iq_importer_name q) of
                      None \<Rightarrow> Inr (False, reject_import j1 (''Unknown importer '' @ in_quotes (iq_importer_name q)) s0)
                    | Some (entity_type, fn) \<Rightarrow>
                        (let j2 = j1\<lparr>ij_entity_type := entity_type\<rparr>
                         in if decode_utf8_sig raw = None then Inr (False, reject_import j2 ''File is not valid UTF-8 text.'' s0)
                            else
                              (case fn env raw (iq_target q) s0 of
                                 Inr (result, s1) \<Rightarrow>
                                   Inr (False, finish_import (j2\<lparr>ij_status := Completed, ij_records_discovered := is_discovered result,
                                       ij_records_created := is_created result\<rparr>) ''complete''
                                     (''Import '' @ in_quotes (iq_filename q) @ '' via '' @ iq_importer_name q @ '': created '' @
                                      str_int (int (is_created result))) actor s1)
                               | Inl e \<Rightarrow>
                                   (let j3 = (new_import_job (ie_retry_job_id env) q)\<lparr>ij_checksum_sha256 := ie_sha256 env raw,
                                         ij_status := Rejected, ij_validation_errors := Some [take 2000 (exception_text env e)]\<rparr>
                                    in rbind (insert_import_job j3 base) (\<lambda>s1.
                                         Inr (True, finish_import j3 ''reject''
                                           (''Import '' @ in_quotes (iq_filename q) @ '' rejected: '' @ exception_text env e) actor s1)))))))))"

section \<open>The web route\<close>

text \<open>
  The import runs inline as a job of the queue: enqueued, claimed and run in one session, so
  that a rollback of the import also takes back the job's row and its audit row; what the run
  assigns to the job afterwards reaches no row.
\<close>

definition failed_import :: "import_request \<Rightarrow> job \<Rightarrow> import_job" where
  "failed_import q job =
     (new_import_job [] q)\<lparr>ij_file_size := 0, ij_target := [], ij_status := Rejected,
       ij_validation_errors := Some [case jb_error_message job of None \<Rightarrow> ''Import job failed to run.'' | Some m \<Rightarrow> m]\<rparr>"

definition import_outcome :: "import_env \<Rightarrow> (bool \<times> import_job \<times> registers) result \<Rightarrow> registers \<Rightarrow> (string + json) \<times> registers" where
  "import_outcome env r d =
     (case r of
        Inl e \<Rightarrow> (Inl (exception_text env e), d)
      | Inr (_, j, d') \<Rightarrow>
          (Inr (JObj [(''import_job_id'', JStr (ij_id j)),
                      (''status'', JStr (if ij_status j = Completed then ''completed'' else ''rejected''))]), d'))"

definition enqueue_and_run_import ::
  "import_env \<Rightarrow> string \<Rightarrow> int \<Rightarrow> (import_request \<Rightarrow> json) \<Rightarrow> import_request \<Rightarrow> registers job_db \<Rightarrow>
   (import_job \<times> registers job_db) result" where
  "enqueue_and_run_import env job_id now payload q s =
     rbind (enqueue_job job_id now ''run_import'' (payload q) (iq_actor q) None 3 s) (\<lambda>(job, s1).
       case claim_specific_job job_id ''inline'' now s1 of
         (None, s2) \<Rightarrow> Inr (failed_import q job, s2)
       | (Some claimed, s2) \<Rightarrow>
           (let r = run_import env default_max_bytes (app_data s) q (app_data s2);
                session = (case r of Inr (True, _) \<Rightarrow> s | _ \<Rightarrow> s2);
                s3 = run_job (\<lambda>_. Some (\<lambda>_ d. import_outcome env r d)) now claimed (iq_actor q) session
            in case r of
                 Inr (_, j, _) \<Rightarrow> Inr (j, s3)
               | Inl e \<Rightarrow> Inr (failed_import q (finished_row now claimed (Inl (exception_text env e)) claimed), s3)))"

definition import_risks ::
  "import_env \<Rightarrow> string \<Rightarrow> int \<Rightarrow> (import_request \<Rightarrow> json) \<Rightarrow> nat \<Rightarrow> string \<Rightarrow> string \<Rightarrow> string \<Rightarrow> registers job_db \<Rightarrow>
   (response \<times> registers job_db) result" where
  "import_risks env job_id now payload max_upload_bytes filename content actor s =
     (case read_upload_bounded chunk_size max_upload_bytes content of
        Inl (ValueError m) \<Rightarrow> Inr (Flash ''/risks'' m ''error'', s)
      | Inl e \<Rightarrow> Inl e
      | Inr raw \<Rightarrow>
          rbind (enqueue_and_run_import env job_id now payload
              \<lparr>iq_importer_name = ''risk_register_csv'', iq_raw_bytes = raw,
               iq_filename = (if filename = [] then ''upload.csv'' else filename), iq_target = [], iq_actor = actor,
               iq_source = ''web''\<rparr> s) (\<lambda>(j, s').
            if ij_status j \<noteq> Completed
            then Inr (Flash ''/risks'' (''Import failed: '' @
                   join_with ''; '' (take 5 (case ij_validation_errors j of None \<Rightarrow> [] | Some es \<Rightarrow> es))) ''error'', s')
            else Inr (Flash ''/risks'' (''Imported '' @ str_int (int (ij_records_created j)) @ '' risk(s).'') ''success'', s')))"

definition create_risk ::
  "string \<Rightarrow> string \<Rightarrow> string \<Rightarrow> string \<Rightarrow> int \<Rightarrow> int \<Rightarrow> string \<Rightarrow> string \<Rightarrow> string \<Rightarrow> registers \<Rightarrow> (response \<times> registers) result" where
  "create_risk new_id title description category likelihood impact owner treatment_plan actor s =
     (let title = strip title
      in if title = [] then Inr (Flash ''/risks'' ''Title is required.'' ''error'', s)
         else if \<not> (1 \<le> likelihood \<and> likelihood \<le> 5) \<or> \<not> (1 \<le> impact \<and> impact \<le> 5)
         then Inr (Flash ''/risks'' ''Likelihood and impact must be between 1 and 5.'' ''error'', s)
         else rbind (insert_risk s \<lparr>ri_id = new_id, ri_title = title, ri_description = description, ri_category = category,
                       ri_likelihood = likelihood, ri_impact = impact, ri_owner = owner, ri_status = ''open'',
                       ri_treatment_plan = treatment_plan\<rparr>) (\<lambda>s'.
                Inr (Flash ''/risks'' (''Risk '' @ in_quotes title @ '' created.'') ''success'',
                     audit_registers ''risk'' new_id ''create'' (''Created risk '' @ in_quotes title) actor s')))"

section \<open>What an importer writes\<close>

text \<open>Everything but the import records and the audit trail.\<close>

definition business :: "registers \<Rightarrow> registers" where
  "business s = s\<lparr>import_jobs := [], rg_db := (rg_db s)\<lparr>audit_events := []\<rparr>\<rparr>"

definition starts_formula :: "string \<Rightarrow> bool" where
  "starts_formula x = (x \<noteq> [] \<and> hd x \<in> set formula_trigger_chars)"

definition risk_clean :: "risk \<Rightarrow> bool" where
  "risk_clean r \<longleftrightarrow>
     \<not> starts_formula (ri_title r) \<and> \<not> starts_formula (ri_description r) \<and> \<not> starts_formula (ri_category r) \<and>
     \<not> starts_formula (ri_owner r) \<and> \<not> starts_formula (ri_treatment_plan r) \<and>
     ri_status r \<in> set risk_statuses \<and> 1 \<le> risk_score r \<and> risk_score r \<le> 25"

definition requirement_count :: "registers \<Rightarrow> nat" where
  "requirement_count s = length (framework_requirements (rg_db s))"

text \<open>
  What a successful importer does: it adds clean risks, or requirements with their assessments,
  as many as it reports.
\<close>

definition adds :: "nat \<Rightarrow> registers \<Rightarrow> registers \<Rightarrow> bool" where
  "adds n s s' \<longleftrightarrow>
     (\<exists>rs fs qs. s' = s\<lparr>risks := risks s @ rs, rg_db := (rg_db s)\<lparr>framework_requirements := framework_requirements (rg_db s) @ fs,
         requirement_assessments := requirement_assessments (rg_db s) @ qs\<rparr>\<rparr> \<and>
        n = length rs + length fs \<and> length qs = length fs \<and> (\<forall>r \<in> set rs. risk_clean r))"

lemma neutral_not_formula [simp]: "\<not> starts_formula (neutralize_csv_formula x)"
  by (auto simp: starts_formula_def neutralize_csv_formula_def formula_trigger_chars_def)

lemma score_bounds:
  assumes "1 \<le> (a :: int)" "a \<le> 5" "1 \<le> b" "b \<le> 5"
  shows "1 \<le> a * b \<and> a * b \<le> 25"
proof -
  have "1 * 1 \<le> a * b" "a * b \<le> 5 * 5" using assms by (intro mult_mono; simp)+
  then show ?thesis by simp
qed

lemma read_risk_clean:
  assumes "read_risk n row = Inr r"
  shows "risk_clean r"
proof -
  let ?l = "py_int (cell_or ''1'' row ''likelihood'')" and ?i = "py_int (cell_or ''1'' row ''impact'')"
  obtain l i where "?l = Inr l" "?i = Inr i" using assms by (auto simp: read_risk_def Let_def split: if_splits sum.splits)
  then show ?thesis using assms score_bounds [of l i]
    by (auto simp: read_risk_def Let_def risk_clean_def risk_score_def split: if_splits)
qed

lemma risk_rows_clean: "risk_rows n rows = (errors, parsed) \<Longrightarrow> \<forall>r \<in> set parsed. risk_clean r"
  by (induction rows arbitrary: n errors parsed) (auto split: prod.splits sum.splits dest: read_risk_clean)

lemma insert_risk_Inr: "insert_risk s r = Inr s' \<Longrightarrow> s' = s\<lparr>risks := risks s @ [r]\<rparr>"
  by (auto simp: insert_risk_def split: if_splits)

lemma insert_risks_Inr: "rfold insert_risk rs s = Inr s' \<Longrightarrow> s' = s\<lparr>risks := risks s @ rs\<rparr>"
proof (induction rs arbitrary: s)
  case (Cons r rs)
  then obtain s1 where s1: "insert_risk s r = Inr s1" and rest: "rfold insert_risk rs s1 = Inr s'" by auto
  show ?case using Cons.IH [OF rest] insert_risk_Inr [OF s1] by simp
qed simp

lemma import_risk_register_adds:
  assumes "import_risk_register env raw target s = Inr (result, s')"
  shows "adds (is_created result) s s' \<and> 0 < is_created result"
proof -
  obtain rows parsed where rows: "risk_rows 2 rows = ([], parsed)" "parsed \<noteq> []"
    and ins: "rfold insert_risk (map (\<lambda>(i, r). r\<lparr>ri_id := ie_row_ids env i\<rparr>) (enumerate 0 parsed)) s = Inr s'"
    and result: "is_created result = length parsed"
    using assms by (auto simp: import_risk_register_def Let_def split: option.splits if_splits prod.splits)
  let ?rs = "map (\<lambda>(i, r). r\<lparr>ri_id := ie_row_ids env i\<rparr>) (enumerate 0 parsed)"
  have "\<forall>r \<in> set ?rs. risk_clean r"
    using risk_rows_clean [OF rows(1)] by (auto simp: risk_clean_def risk_score_def in_set_enumerate_eq)
  then show ?thesis unfolding adds_def insert_risks_Inr [OF ins] result
    by (intro conjI exI [of _ ?rs] exI [of _ "[]"]) (simp_all add: rows(2))
qed

lemma add_requirements_Inr:
  "add_requirements ids framework n rows d = Inr d' \<Longrightarrow>
     \<exists>fs qs. d' = d\<lparr>framework_requirements := framework_requirements d @ fs, requirement_assessments := requirement_assessments d @ qs\<rparr> \<and>
       length fs = length rows \<and> length qs = length rows"
proof (induction rows arbitrary: n d)
  case Nil
  then show ?case by (intro exI [of _ "[]"]) simp
next
  case (Cons r rows)
  then obtain q d1 where d1: "add_requirement (ids n) framework (rq_code r) (rq_title r) (rq_description r) (rq_display_order r) d = Inr (q, d1)"
    and rest: "add_requirements ids framework (Suc n) rows d1 = Inr d'"
    by (auto split: if_splits)
  have "d1 = d\<lparr>framework_requirements := framework_requirements d @ [q],
      requirement_assessments := requirement_assessments d @ [default_assessment (ids n)]\<rparr>"
    using d1 by (auto simp: add_requirement_def insert_framework_requirement_def insert_assessment_def Let_def split: if_splits)
  moreover obtain fs qs where "d' = d1\<lparr>framework_requirements := framework_requirements d1 @ fs,
      requirement_assessments := requirement_assessments d1 @ qs\<rparr>" "length fs = length rows" "length qs = length rows"
    using Cons.IH [OF rest] by blast
  ultimately show ?case by (intro exI [of _ "q # fs"] exI [of _ "default_assessment (ids n) # qs"]) simp
qed

lemma import_framework_requirements_adds:
  assumes "import_framework_requirements env raw target s = Inr (result, s')"
  shows "adds (is_created result) s s' \<and> 0 < is_created result"
proof -
  obtain framework created d where csv: "import_requirements_csv (ie_row_ids env) framework raw (rg_db s) = Inr ((created, []), d)"
    and s': "s' = s\<lparr>rg_db := d\<rparr>" "is_created result = created"
    using assms by (auto simp: import_framework_requirements_def Let_def split: option.splits if_splits)
  obtain parsed where ins: "add_requirements (ie_row_ids env) framework 0 parsed (rg_db s) = Inr d" and created: "created = length parsed" "parsed \<noteq> []"
    using csv by (auto simp: import_requirements_csv_def Let_def split: option.splits if_splits prod.splits)
  obtain fs qs where "d = (rg_db s)\<lparr>framework_requirements := framework_requirements (rg_db s) @ fs,
      requirement_assessments := requirement_assessments (rg_db s) @ qs\<rparr>" "length fs = length parsed" "length qs = length parsed"
    using add_requirements_Inr [OF ins] by blast
  then show ?thesis using created unfolding adds_def s'
    by (intro conjI exI [of _ "[]"] exI [of _ fs] exI [of _ qs]) simp_all
qed

lemma importers_add:
  "importers k = Some (entity_type, fn) \<Longrightarrow> fn env raw target s = Inr (result, s') \<Longrightarrow>
     adds (is_created result) s s' \<and> 0 < is_created result"
  by (auto simp: importers_def import_risk_register_adds import_framework_requirements_adds split: if_splits)

section \<open>All or nothing, and once\<close>

lemma business_audit [simp]: "business (audit_registers a b c d e s) = business s"
  by (simp add: business_def audit_registers_def on_db_def record_audit_event_def)

lemma business_jobs [simp]: "business (s\<lparr>import_jobs := js\<rparr>) = business s"
  by (simp add: business_def)

lemma insert_import_job_Inr:
  "insert_import_job j s = Inr s' \<Longrightarrow> s' = s\<lparr>import_jobs := import_jobs s @ [j]\<rparr> \<and> \<not> has_row ij_id (ij_id j) (import_jobs s)"
  by (auto simp: insert_import_job_def split: if_splits)

lemma finish_import_simps [simp]:
  "fst (finish_import j a d x s) = j" "business (snd (finish_import j a d x s)) = business s"
  "has_row ij_id (ij_id j) (import_jobs s) \<Longrightarrow> j \<in> set (import_jobs (snd (finish_import j a d x s)))"
  by (auto simp: finish_import_def business_def audit_registers_def on_db_def record_audit_event_def set_row_upd has_row_iff)

lemma adds_business:
  assumes "adds n s s'" shows "adds n (business s) (business s')"
proof -
  obtain rs fs qs where "s' = s\<lparr>risks := risks s @ rs, rg_db := (rg_db s)\<lparr>framework_requirements := framework_requirements (rg_db s) @ fs,
      requirement_assessments := requirement_assessments (rg_db s) @ qs\<rparr>\<rparr>" "n = length rs + length fs" "length qs = length fs"
    "\<forall>r \<in> set rs. risk_clean r"
    using assms unfolding adds_def by blast
  then show ?thesis unfolding adds_def by (intro exI [of _ rs] exI [of _ fs] exI [of _ qs]) (simp add: business_def)
qed

lemma adds_zero: "adds 0 s s"
  unfolding adds_def by (intro exI [of _ "[]"]) simp

lemma new_import_job_simps [simp]:
  "ij_id (new_import_job k q) = k" "ij_records_created (new_import_job k q) = 0" "ij_target (new_import_job k q) = iq_target q"
  "ij_importer_name (new_import_job k q) = iq_importer_name q"
  by (simp_all add: new_import_job_def)

text \<open>The four ways an import can end, with the job's row in the table in each.\<close>

definition job_key :: "import_job \<Rightarrow> string \<times> string \<times> (string \<times> string) list" where
  "job_key j = (ij_checksum_sha256 j, ij_importer_name j, ij_target j)"

inductive import_end ::
  "string \<times> string \<times> (string \<times> string) list \<Rightarrow> registers \<Rightarrow> registers \<Rightarrow> bool \<Rightarrow> import_job \<Rightarrow> registers \<Rightarrow> bool"
  for key base s where
  refused: "ij_status j = Rejected \<Longrightarrow> ij_records_created j = 0 \<Longrightarrow> business s' = business s \<Longrightarrow> import_end key base s False j s'"
| skipped: "job_key j = key \<Longrightarrow> ij_status j = Completed \<Longrightarrow> ij_records_created j = 0 \<Longrightarrow> ij_records_skipped j = 1 \<Longrightarrow> business s' = business s \<Longrightarrow>
     import_end key base s False j s'"
| imported: "job_key j = key \<Longrightarrow> ij_status j = Completed \<Longrightarrow> 0 < ij_records_created j \<Longrightarrow> adds (ij_records_created j) (business s) (business s') \<Longrightarrow>
     import_end key base s False j s'"
| rolled_back: "ij_status j = Rejected \<Longrightarrow> ij_records_created j = 0 \<Longrightarrow> business s' = business base \<Longrightarrow> import_end key base s True j s'"

lemma finish_import_eqD: "finish_import j a d x s = (j', s') \<Longrightarrow> j' = j \<and> business s' = business s"
  using finish_import_simps(1,2) [of j a d x s] by simp

lemma reject_import_eqD:
  "reject_import j m s = (j', s') \<Longrightarrow> ij_status j' = Rejected \<and> ij_records_created j' = ij_records_created j \<and> business s' = business s"
  by (auto simp: reject_import_def dest!: finish_import_eqD)

lemma run_import_end:
  assumes run: "run_import env m base q s = Inr (rolled, j, s')"
  shows "import_end (ie_sha256 env (iq_raw_bytes q), iq_importer_name q, iq_target q) base s rolled j s'"
proof -
  let ?j0 = "new_import_job (ie_job_id env) q"
  obtain s0 where ins: "insert_import_job ?j0 s = Inr s0" using run by (auto simp: run_import_def Let_def)
  have s0: "business s0 = business s" using insert_import_job_Inr [OF ins] by simp
  let ?raw = "iq_raw_bytes q"
  let ?j1 = "?j0\<lparr>ij_checksum_sha256 := ie_sha256 env ?raw\<rparr>"
  note body = run [unfolded run_import_def Let_def ins rbind_Inr]
  have rejected: ?thesis if "Inr (False, reject_import k msg s0) = (Inr (rolled, j, s') :: (bool \<times> import_job \<times> registers) result)"
    "ij_records_created k = 0" for k msg
    using that reject_import_eqD [of k msg s0 j s'] s0 by (auto intro: refused)
  show ?thesis
  proof (cases "m < length ?raw")
    case True
    then show ?thesis using body by (intro rejected) auto
  next
    case small: False
    show ?thesis
    proof (cases "find_duplicate ?j1 s0")
      case (Some k)
      then show ?thesis using body small s0 by (auto dest!: finish_import_eqD intro!: skipped simp: job_key_def)
    next
      case new: None
      show ?thesis
      proof (cases "importers (iq_importer_name q)")
        case None
        then show ?thesis using body small new by (intro rejected) auto
      next
        case (Some entry)
        then obtain et fn where fn: "importers (iq_importer_name q) = Some (et, fn)" by (cases entry) auto
        show ?thesis
        proof (cases "decode_utf8_sig ?raw = None")
          case True
          then show ?thesis using body small new fn by (intro rejected) auto
        next
          case utf8: False
          show ?thesis
          proof (cases "fn env ?raw (iq_target q) s0")
            case (Inr res)
            then obtain result s1 where res: "fn env ?raw (iq_target q) s0 = Inr (result, s1)" by (cases res) auto
            have "rolled = False" "job_key j = (ie_sha256 env ?raw, iq_importer_name q, iq_target q)" "ij_status j = Completed" "ij_records_created j = is_created result" "business s' = business s1"
              using body small new fn utf8 res by (auto dest!: finish_import_eqD simp: job_key_def)
            then show ?thesis using importers_add [OF fn res] adds_business s0 import_end.imported by metis
          next
            case (Inl e)
            then show ?thesis using body small new fn utf8
              by (auto dest!: finish_import_eqD insert_import_job_Inr intro!: rolled_back)
          qed
        qed
      qed
    qed
  qed
qed

text \<open>
  C30. An import is all or nothing. A run that ends rejected (a file too large, not UTF-8, of
  an unknown importer, with one bad row, or refused by the database half way) reports no
  created record and leaves all data but its own record and the audit trail as they were; one
  that ends completed has added exactly the records it reports: requirements, each with its
  assessment, or risks whose scores are in range and none of whose texts a spreadsheet would
  take for a formula.
\<close>

theorem import_all_or_nothing:
  assumes "run_import env max_bytes base q s = Inr (rolled, j, s')" and "business base = business s"
  shows "(ij_status j = Rejected \<and> ij_records_created j = 0 \<and> business s' = business s) \<or>
         (ij_status j = Completed \<and> adds (ij_records_created j) (business s) (business s'))"
  using run_import_end [OF assms(1)] assms(2) adds_zero by (cases rule: import_end.cases) auto

lemma import_again:
  assumes "run_import env max_bytes base q s = Inr (rolled, j, s')" "ij_status j = Completed" "j \<in> set (import_jobs t)"
    and "ie_sha256 env' = ie_sha256 env" "iq_raw_bytes q' = iq_raw_bytes q" "iq_importer_name q' = iq_importer_name q"
      "iq_target q' = iq_target q" "iq_source q' \<in> set import_sources" "length (iq_raw_bytes q') \<le> max_bytes'"
    and "\<not> has_row ij_id (ie_job_id env') (import_jobs t)"
  shows "\<exists>j' t'. run_import env' max_bytes' base' q' t = Inr (False, j', t') \<and> ij_status j' = Completed \<and>
           ij_records_skipped j' = 1 \<and> ij_records_created j' = 0 \<and> business t' = business t"
proof -
  let ?j0 = "new_import_job (ie_job_id env') q'"
  let ?j1 = "?j0\<lparr>ij_checksum_sha256 := ie_sha256 env' (iq_raw_bytes q')\<rparr>"
  let ?t0 = "t\<lparr>import_jobs := import_jobs t @ [?j0]\<rparr>"
  have key: "job_key j = (ie_sha256 env (iq_raw_bytes q), iq_importer_name q, iq_target q)"
    using run_import_end [OF assms(1)] assms(2) by (cases rule: import_end.cases) auto
  have ins: "insert_import_job ?j0 t = Inr ?t0"
    using assms(8,10) by (simp add: insert_import_job_def new_import_job_def)
  have "ij_id j \<noteq> ie_job_id env'" using assms(3,10) by (auto simp: has_row_iff)
  then have "find_duplicate ?j1 ?t0 \<noteq> None"
    using assms(2-7) key by (auto simp: find_duplicate_def find_None_iff job_key_def intro!: bexI [of _ j])
  then obtain k where "find_duplicate ?j1 ?t0 = Some k" by blast
  then show ?thesis
    using assms(9) unfolding run_import_def Let_def ins rbind_Inr
    by (cases "finish_import (?j1\<lparr>ij_status := Completed, ij_records_skipped := 1,
            ij_validation_errors := Some [''Duplicate of already-completed import job '' @ ij_id k]\<rparr>) ''skip_duplicate''
          (''Import '' @ in_quotes (iq_filename q') @ '' skipped - identical to job '' @ ij_id k) (iq_actor q') ?t0")
       (auto dest: finish_import_eqD)
qed

text \<open>
  C31. An import runs once. When an import has completed, running the same file again with the
  same importer and target, by whatever route, at whatever later state that still has its
  record, returns a completed record with one skipped entry that changes no data at all.
\<close>

theorem import_idempotent:
  assumes "run_import env max_bytes base q s = Inr (rolled, j, s')" "ij_status j = Completed" "j \<in> set (import_jobs t)"
    and "ie_sha256 env' = ie_sha256 env" "iq_raw_bytes q' = iq_raw_bytes q" "iq_importer_name q' = iq_importer_name q"
      "iq_target q' = iq_target q" "iq_source q' \<in> set import_sources" "length (iq_raw_bytes q') \<le> max_bytes'"
    and "\<not> has_row ij_id (ie_job_id env') (import_jobs t)"
  shows "\<exists>j' t'. run_import env' max_bytes' base' q' t = Inr (False, j', t') \<and> ij_status j' = Completed \<and>
           ij_records_skipped j' = 1 \<and> ij_records_created j' = 0 \<and> business t' = business t"
  by (rule import_again [OF assms])

text \<open>
  A rejected web import loses its job. When the importer raises, the rollback inside the
  run takes back the row of the job the import runs in: the queue has exactly the rows it had
  before the request, so the job that the audit trail says has run is in no table.
\<close>

theorem rejected_import_loses_job:
  assumes "\<not> has_row jb_id job_id (jobs s)"
    and "run_import env default_max_bytes (app_data s) q (app_data s) = Inr (True, k, d)"
  shows "\<exists>j s'. enqueue_and_run_import env job_id now payload q s = Inr (j, s') \<and> ij_status j = Rejected \<and>
         jobs s' = jobs s \<and>
         (\<exists>e \<in> set (job_audit s'). ae_entity_type e = ''job'' \<and> ae_entity_id e = job_id \<and> ae_action e = ''run'')"
proof -
  note fresh = assms(1)
  let ?job = "\<lparr>jb_id = job_id, jb_job_type = ''run_import'', jb_status = JPending, jb_payload = payload q,
      jb_result = None, jb_error_message = None, jb_attempts = 0, jb_max_attempts = 3, jb_idempotency_key = None,
      jb_available_at = now, jb_claimed_by = None, jb_claimed_at = None, jb_created_by = iq_actor q, jb_created_at = now\<rparr>"
  obtain s1 where s1: "enqueue_job job_id now ''run_import'' (payload q) (iq_actor q) None 3 s = Inr (?job, s1)"
    "jobs s1 = jobs s @ [?job]" "app_data s1 = app_data s"
    using fresh by (simp add: enqueue_job_def find_job_by_key_def Let_def audit_job_def)
  let ?claimed = "?job\<lparr>jb_status := JRunning, jb_claimed_by := Some ''inline'', jb_claimed_at := Some now\<rparr>"
  have none: "filter (\<lambda>x. jb_id x = job_id \<and> P x) (jobs s) = []" for P
    using fresh by (auto simp: filter_empty_conv has_row_iff)
  have same: "map (\<lambda>x. if jb_id x = job_id \<and> P x then f x else x) (jobs s) = jobs s" for P f
    by (rule map_idI) (use fresh in \<open>auto simp: has_row_iff\<close>)
  have "row_get jb_id job_id (jobs s) = None" using fresh by (simp add: row_get_None_iff)
  then obtain s2 where s2: "claim_specific_job job_id ''inline'' now s1 = (Some ?claimed, s2)" "app_data s2 = app_data s"
    using s1(2,3) none same by (auto simp: claim_specific_job_def Let_def row_get_append)
  have r: "run_import env default_max_bytes (app_data s) q (app_data s2) = Inr (True, k, d)" using assms(2) s2(2) by simp
  let ?s' = "run_job (\<lambda>_. Some (\<lambda>_ d'. import_outcome env (Inr (True, k, d)) d')) now ?claimed (iq_actor q) s"
  have "enqueue_and_run_import env job_id now payload q s = Inr (k, ?s')"
    by (simp add: enqueue_and_run_import_def s1(1) s2(1) r Let_def)
  moreover have "ij_status k = Rejected" using run_import_end [OF assms(2)] by (cases rule: import_end.cases) auto
  moreover have "row_upd jb_id job_id f (jobs s) = jobs s" for f using fresh by (rule row_upd_absent)
  then have "jobs ?s' = jobs s" "\<exists>e \<in> set (job_audit ?s'). ae_entity_type e = ''job'' \<and> ae_entity_id e = job_id \<and> ae_action e = ''run''"
    by (simp_all add: run_job_def handler_outcome_def import_outcome_def audit_job_def)
  ultimately show ?thesis by blast
qed

section \<open>Examples\<close>

definition empty_registers :: registers where
  "empty_registers = \<lparr>rg_db = empty_db, rg_user_ids = [], vendor_systems = [], vendor_user_snapshots = [],
     vendor_user_snapshot_rows = [], risks = [], import_jobs = []\<rparr>"

definition demo_import_env :: "string \<Rightarrow> import_env" where
  "demo_import_env k = \<lparr>ie_job_id = k, ie_retry_job_id = k @ ''r'', ie_row_ids = (\<lambda>i. k @ str_int (int i)),
     ie_sha256 = (\<lambda>x. x), ie_exception_text = (\<lambda>_. ''error'')\<rparr>"

definition demo_import :: "string list \<Rightarrow> import_request" where
  "demo_import rows = \<lparr>iq_importer_name = ''risk_register_csv'',
     iq_raw_bytes = ''title,likelihood'' @ concat (map (\<lambda>u. line_feed # u) rows), iq_filename = ''r.csv'', iq_target = [],
     iq_actor = ''ann@x.io'', iq_source = ''web''\<rparr>"

definition demo_risks :: "string list" where
  "demo_risks = [''=1+1,5'', ''Fire,'']"

lemma demo_import_done:
  "case run_import (demo_import_env ''a'') 99 empty_registers (demo_import demo_risks) empty_registers of
     Inl _ \<Rightarrow> False
   | Inr (rolled, j, s') \<Rightarrow> \<not> rolled \<and> ij_status j = Completed \<and> ij_records_created j = 2 \<and> import_jobs s' = [j] \<and>
       map ri_title (risks s') = [[CHR 0x27] @ ''=1+1'', ''Fire'']"
  by code_simp

lemma demo_import_rejected:
  "case run_import (demo_import_env ''a'') 99 empty_registers (demo_import [''Fire,9'']) empty_registers of
     Inl _ \<Rightarrow> False | Inr (rolled, j, s') \<Rightarrow> rolled"
  by code_simp

lemma import_all_or_nothing_witness:
  "\<exists>j s'. run_import (demo_import_env ''a'') 99 empty_registers (demo_import demo_risks) empty_registers = Inr (False, j, s') \<and>
     map ri_title (risks s') = [[CHR 0x27] @ ''=1+1'', ''Fire''] \<and> adds 2 (business empty_registers) (business s')"
proof -
  obtain j s' where run: "run_import (demo_import_env ''a'') 99 empty_registers (demo_import demo_risks) empty_registers = Inr (False, j, s')"
    and j: "ij_status j = Completed" "ij_records_created j = 2" and rows: "map ri_title (risks s') = [[CHR 0x27] @ ''=1+1'', ''Fire'']"
    using demo_import_done by (auto split: sum.splits prod.splits)
  show ?thesis using import_all_or_nothing [OF run refl] j run rows by auto
qed

lemma import_idempotent_witness:
  "\<exists>j s' k t'. run_import (demo_import_env ''a'') 99 empty_registers (demo_import demo_risks) empty_registers = Inr (False, j, s') \<and>
     run_import (demo_import_env ''b'') 99 s' (demo_import demo_risks) s' = Inr (False, k, t') \<and>
     ij_records_created j = 2 \<and> ij_records_skipped k = 1 \<and> business t' = business s'"
proof -
  obtain j s' where run: "run_import (demo_import_env ''a'') 99 empty_registers (demo_import demo_risks) empty_registers = Inr (False, j, s')"
    and j: "ij_status j = Completed" "ij_records_created j = 2" "import_jobs s' = [j]"
    using demo_import_done by (auto split: sum.splits prod.splits)
  have id: "ij_id j = ''a''"
  proof -
    have "case run_import (demo_import_env ''a'') 99 empty_registers (demo_import demo_risks) empty_registers of
        Inl _ \<Rightarrow> False | Inr (rolled, j, s') \<Rightarrow> ij_id j = ''a''" by code_simp
    then show ?thesis using run by simp
  qed
  have "\<exists>k t'. run_import (demo_import_env ''b'') 99 s' (demo_import demo_risks) s' = Inr (False, k, t') \<and> ij_status k = Completed \<and>
      ij_records_skipped k = 1 \<and> ij_records_created k = 0 \<and> business t' = business s'"
    by (rule import_idempotent [OF run j(1)])
       (simp_all add: j(3) id demo_import_env_def demo_import_def demo_risks_def import_sources_def)
  then show ?thesis using run j by blast
qed

lemma run_import_small:
  "length (iq_raw_bytes q) \<le> m \<Longrightarrow> length (iq_raw_bytes q) \<le> n \<Longrightarrow> run_import env m base q s = run_import env n base q s"
  by (simp add: run_import_def Let_def)

definition demo_queue :: "registers job_db" where
  "demo_queue = \<lparr>jobs = [], job_audit = [], app_data = empty_registers\<rparr>"

lemma rejected_import_loses_job_witness:
  "\<exists>j s'. enqueue_and_run_import (demo_import_env ''a'') ''job'' 0 (\<lambda>_. JNull) (demo_import [''Fire,9'']) demo_queue = Inr (j, s') \<and>
     ij_status j = Rejected \<and> jobs s' = [] \<and> (\<exists>e \<in> set (job_audit s'). ae_entity_id e = ''job'' \<and> ae_action e = ''run'')"
proof -
  have "case run_import (demo_import_env ''a'') 99 empty_registers (demo_import [''Fire,9'']) empty_registers of
      Inl _ \<Rightarrow> False | Inr (rolled, _) \<Rightarrow> rolled" by code_simp
  moreover have "run_import (demo_import_env ''a'') default_max_bytes empty_registers (demo_import [''Fire,9'']) empty_registers =
      run_import (demo_import_env ''a'') 99 empty_registers (demo_import [''Fire,9'']) empty_registers"
    by (rule run_import_small) (simp_all add: demo_import_def default_max_bytes_def)
  ultimately obtain k d where run: "run_import (demo_import_env ''a'') default_max_bytes (app_data demo_queue) (demo_import [''Fire,9'']) (app_data demo_queue) = Inr (True, k, d)"
    by (auto simp: demo_queue_def split: sum.splits prod.splits)
  have "\<not> has_row jb_id ''job'' (jobs demo_queue)" and empty: "jobs demo_queue = []" by (simp_all add: demo_queue_def)
  from rejected_import_loses_job [OF this(1) run, of 0 "\<lambda>_. JNull"] show ?thesis unfolding empty by blast
qed

end
