(* ===== verification/PII_Redaction.thy ===== *)
theory PII_Redaction
  imports Register_History Access_Control
begin

text \<open>
  \<open>src/app/pii_redaction.py\<close>: the redaction of people who left and of disabled users. The
  registry of the ten columns that froze a user's address is a list of the same shape as the
  code's: the tables the development holds are rewritten in place, and for the five columns
  whose table it does not hold the state keeps the values of the column, row by row. When a
  person or a user was redacted is kept beside their row, by id. The redacted address of an id
  and the report's counts are the code's; the instant is an argument.
\<close>

section \<open>State\<close>

record pii_db =
  pd_registers :: registers
  pd_users :: "user list"
  pd_column :: "string \<times> string \<Rightarrow> string list"
  pd_person_redacted_at :: "string \<Rightarrow> datetime option"
  pd_user_redacted_at :: "string \<Rightarrow> datetime option"

definition audit_pii :: "string \<Rightarrow> string \<Rightarrow> string \<Rightarrow> string \<Rightarrow> string \<Rightarrow> pii_db \<Rightarrow> pii_db" where
  "audit_pii entity_type entity_id action detail actor s =
     s\<lparr>pd_registers := audit_registers entity_type entity_id action detail actor (pd_registers s)\<rparr>"

section \<open>The columns\<close>

datatype actor_column = Audit_actor | Policy_uploader | Population_creator | Sample_creator | Import_creator | Other_column string string

text \<open>\<open>_ACTOR_STRING_COLUMNS\<close>, in its order.\<close>

definition actor_string_columns :: "actor_column list" where
  "actor_string_columns =
     [Audit_actor, Policy_uploader, Other_column ''control_periods'' ''created_by'', Population_creator, Sample_creator,
      Other_column ''requirement_assessments'' ''last_reviewed_by'', Other_column ''secrets'' ''created_by'',
      Other_column ''external_connections'' ''created_by'', Other_column ''jobs'' ''created_by'', Import_creator]"

fun tablename :: "actor_column \<Rightarrow> string" where
  "tablename Audit_actor = ''audit_events''"
| "tablename Policy_uploader = ''policy_versions''"
| "tablename Population_creator = ''control_test_populations''"
| "tablename Sample_creator = ''control_test_samples''"
| "tablename Import_creator = ''import_jobs''"
| "tablename (Other_column table column) = table"

fun column_values :: "actor_column \<Rightarrow> pii_db \<Rightarrow> string list" where
  "column_values Audit_actor s = map ae_actor (audit_events (rg_db (pd_registers s)))"
| "column_values Policy_uploader s = map pv_uploader (policy_versions (rg_db (pd_registers s)))"
| "column_values Population_creator s = map tp_created_by (control_test_populations (rg_db (pd_registers s)))"
| "column_values Sample_creator s = map ts_created_by (control_test_samples (rg_db (pd_registers s)))"
| "column_values Import_creator s = map ij_created_by (import_jobs (pd_registers s))"
| "column_values (Other_column table column) s = pd_column s (table, column)"

text \<open>\<open>UPDATE ... SET column = new WHERE column = old\<close>.\<close>

definition replaced :: "string \<Rightarrow> string \<Rightarrow> string \<Rightarrow> string" where
  "replaced old new v = (if v = old then new else v)"

definition on_pii_db :: "(db \<Rightarrow> db) \<Rightarrow> pii_db \<Rightarrow> pii_db" where
  "on_pii_db f s = s\<lparr>pd_registers := on_db f (pd_registers s)\<rparr>"

fun update_column :: "string \<Rightarrow> string \<Rightarrow> actor_column \<Rightarrow> pii_db \<Rightarrow> pii_db" where
  "update_column old new Audit_actor s =
     on_pii_db (\<lambda>d. d\<lparr>audit_events := map (ae_actor_update (replaced old new)) (audit_events d)\<rparr>) s"
| "update_column old new Policy_uploader s =
     on_pii_db (\<lambda>d. d\<lparr>policy_versions := map (pv_uploader_update (replaced old new)) (policy_versions d)\<rparr>) s"
| "update_column old new Population_creator s =
     on_pii_db (\<lambda>d. d\<lparr>control_test_populations := map (tp_created_by_update (replaced old new)) (control_test_populations d)\<rparr>) s"
| "update_column old new Sample_creator s =
     on_pii_db (\<lambda>d. d\<lparr>control_test_samples := map (ts_created_by_update (replaced old new)) (control_test_samples d)\<rparr>) s"
| "update_column old new Import_creator s =
     s\<lparr>pd_registers := pd_registers s\<lparr>import_jobs := map (ij_created_by_update (replaced old new)) (import_jobs (pd_registers s))\<rparr>\<rparr>"
| "update_column old new (Other_column table column) s =
     s\<lparr>pd_column := (pd_column s)((table, column) := map (replaced old new) (pd_column s (table, column)))\<rparr>"

definition rowcount :: "string \<Rightarrow> actor_column \<Rightarrow> pii_db \<Rightarrow> nat" where
  "rowcount old c s = count_list (column_values c s) old"

fun update_columns ::
  "string \<Rightarrow> string \<Rightarrow> actor_column list \<Rightarrow> pii_db \<Rightarrow> (string \<times> nat) list \<times> pii_db" where
  "update_columns old new [] s = ([], s)"
| "update_columns old new (c # cs) s =
     (let n = rowcount old c s; (counts, s') = update_columns old new cs (update_column old new c s)
      in (if n \<noteq> 0 then (tablename c, n) # counts else counts, s'))"

section \<open>Redaction\<close>

definition person_pseudonym :: "string \<Rightarrow> string" where
  "person_pseudonym person_id = ''redacted-person-'' @ person_id @ ''@redacted.invalid''"

definition user_pseudonym :: "string \<Rightarrow> string" where
  "user_pseudonym user_id = ''redacted-user-'' @ user_id @ ''@redacted.invalid''"

text \<open>The report says whether the row was redacted before, and the rows updated in each table.\<close>

record redaction_report =
  rr_id :: string
  rr_already_redacted :: bool
  rr_rows_updated_by_table :: "(string \<times> nat) list"

text \<open>The row is flushed with the transaction; its new address is still unique or the commit fails.\<close>

definition store_person :: "string \<Rightarrow> (person \<Rightarrow> person) \<Rightarrow> pii_db \<Rightarrow> pii_db result" where
  "store_person person_id f s =
     (let rows = row_upd pe_id person_id f (people (rg_db (pd_registers s)))
      in if unique_by pe_email rows then Inr (on_pii_db (\<lambda>d. d\<lparr>people := rows\<rparr>) s) else Inl IntegrityError)"

definition store_user :: "string \<Rightarrow> (user \<Rightarrow> user) \<Rightarrow> pii_db \<Rightarrow> pii_db result" where
  "store_user user_id f s =
     (let rows = row_upd us_id user_id f (pd_users s)
      in if unique_by us_email rows then Inr (s\<lparr>pd_users := rows\<rparr>) else Inl IntegrityError)"

definition redact_person_pii ::
  "datetime \<Rightarrow> string \<Rightarrow> string \<Rightarrow> pii_db \<Rightarrow> (redaction_report \<times> pii_db) result" where
  "redact_person_pii now person_id actor_id s =
     rbind (row_of pe_id person_id (people (rg_db (pd_registers s)))) (\<lambda>person.
       if pd_person_redacted_at s person_id \<noteq> None
       then Inr (\<lparr>rr_id = person_id, rr_already_redacted = True, rr_rows_updated_by_table = []\<rparr>, s)
       else if pe_employment_status person \<noteq> ''departed'' then Inl (ValueError ''Cannot redact PII for person'')
       else rbind (store_person person_id (\<lambda>p. p\<lparr>pe_email := person_pseudonym person_id,
                     pe_display_name := ''Redacted Person'', pe_external_id := None\<rparr>) s) (\<lambda>s1.
              rbind (row_of us_id actor_id (pd_users s1)) (\<lambda>actor.
                Inr (\<lparr>rr_id = person_id, rr_already_redacted = False, rr_rows_updated_by_table = []\<rparr>,
                     audit_pii ''person'' person_id ''redact_pii''
                       (''Redacted PII for departed person '' @ quote person_id @ '' (email/display_name/external_id).'')
                       (us_email actor)
                       (s1\<lparr>pd_person_redacted_at := (pd_person_redacted_at s1)(person_id := Some now)\<rparr>)))))"

definition redact_user_pii ::
  "datetime \<Rightarrow> string \<Rightarrow> string \<Rightarrow> pii_db \<Rightarrow> (redaction_report \<times> pii_db) result" where
  "redact_user_pii now user_id actor_id s =
     rbind (row_of us_id user_id (pd_users s)) (\<lambda>user.
       if pd_user_redacted_at s user_id \<noteq> None
       then Inr (\<lparr>rr_id = user_id, rr_already_redacted = True, rr_rows_updated_by_table = []\<rparr>, s)
       else if us_status user \<noteq> UDisabled then Inl (ValueError ''Cannot redact PII for user'')
       else (let new_email = user_pseudonym user_id;
                 (counts, s1) = update_columns (us_email user) new_email actor_string_columns s
             in rbind (store_user user_id (us_email_update (\<lambda>_. new_email)) s1) (\<lambda>s2.
                  rbind (row_of us_id actor_id (pd_users s2)) (\<lambda>actor.
                    Inr (\<lparr>rr_id = user_id, rr_already_redacted = False, rr_rows_updated_by_table = counts\<rparr>,
                         audit_pii ''user'' user_id ''redact_pii''
                           (''Redacted PII for disabled user '' @ quote user_id @ '' (login email and '' @
                            str_int (int (sum_list (map snd counts))) @ '' historical actor-string reference(s) across '' @
                            str_int (int (length counts)) @ '' table(s)).'') (us_email actor)
                           (s2\<lparr>pd_user_redacted_at := (pd_user_redacted_at s2)(user_id := Some now)\<rparr>))))))"

section \<open>What a redaction changes\<close>

lemma map_field_update: "(\<And>r. g (up h r) = h (g r)) \<Longrightarrow> map g (map (up h) rows) = map h (map g rows)"
  by simp

lemma column_values_update_column:
  "column_values c' (update_column old new c s) =
     (if c' = c then map (replaced old new) (column_values c s) else column_values c' s)"
  by (cases c; cases c') (simp_all add: on_pii_db_def on_db_def)

lemma update_column_frame [simp]:
  "pd_users (update_column old new c s) = pd_users s"
  "pd_person_redacted_at (update_column old new c s) = pd_person_redacted_at s"
  "pd_user_redacted_at (update_column old new c s) = pd_user_redacted_at s"
  "people (rg_db (pd_registers (update_column old new c s))) = people (rg_db (pd_registers s))"
  "domain_events (rg_db (pd_registers (update_column old new c s))) = domain_events (rg_db (pd_registers s))"
  "map ae_detail (audit_events (rg_db (pd_registers (update_column old new c s)))) =
     map ae_detail (audit_events (rg_db (pd_registers s)))"
  by (cases c; simp add: on_pii_db_def on_db_def)+

lemma update_columns_frame [simp]:
  "pd_users (snd (update_columns old new cs s)) = pd_users s"
  "pd_person_redacted_at (snd (update_columns old new cs s)) = pd_person_redacted_at s"
  "pd_user_redacted_at (snd (update_columns old new cs s)) = pd_user_redacted_at s"
  "people (rg_db (pd_registers (snd (update_columns old new cs s)))) = people (rg_db (pd_registers s))"
  "domain_events (rg_db (pd_registers (snd (update_columns old new cs s)))) = domain_events (rg_db (pd_registers s))"
  "map ae_detail (audit_events (rg_db (pd_registers (snd (update_columns old new cs s))))) =
     map ae_detail (audit_events (rg_db (pd_registers s)))"
  by (induction cs arbitrary: s; simp add: Let_def split: prod.splits; metis snd_conv update_column_frame)+

text \<open>The loop over the registry: every listed column is rewritten once, and counted as it was.\<close>

definition counts_of :: "string \<Rightarrow> actor_column list \<Rightarrow> pii_db \<Rightarrow> (string \<times> nat) list" where
  "counts_of old cs s = map (\<lambda>c. (tablename c, rowcount old c s)) (filter (\<lambda>c. rowcount old c s \<noteq> 0) cs)"

lemma rowcount_update_column: "c \<noteq> c' \<Longrightarrow> rowcount old c (update_column old new c' s) = rowcount old c s"
  by (simp add: rowcount_def column_values_update_column)

lemma counts_of_update_column: "c \<notin> set cs \<Longrightarrow> counts_of old cs (update_column old new c s) = counts_of old cs s"
  by (induction cs) (auto simp: counts_of_def rowcount_update_column)

lemma update_columns_exact:
  "distinct cs \<Longrightarrow> update_columns old new cs s = (counts, s') \<Longrightarrow>
     counts = counts_of old cs s \<and>
     (\<forall>c. column_values c s' = (if c \<in> set cs then map (replaced old new) (column_values c s) else column_values c s))"
proof (induction cs arbitrary: s counts s')
  case (Cons c cs)
  obtain counts1 s1 where rest: "update_columns old new cs (update_column old new c s) = (counts1, s1)"
    by (cases "update_columns old new cs (update_column old new c s)")
  have "counts1 = counts_of old cs s"
    using Cons.IH [OF _ rest] Cons.prems(1) by (simp add: counts_of_update_column)
  moreover have "column_values c' s1 =
      (if c' \<in> set cs then map (replaced old new) (column_values c' (update_column old new c s))
       else column_values c' (update_column old new c s))" for c'
    using Cons.IH [OF _ rest] Cons.prems(1) by simp
  ultimately show ?case
    using Cons.prems rest by (auto simp: Let_def counts_of_def column_values_update_column)
qed (auto simp: counts_of_def)

lemma distinct_actor_string_columns: "distinct actor_string_columns"
  by (simp add: actor_string_columns_def)

lemma replaced_gone: "old \<noteq> new \<Longrightarrow> old \<notin> set (map (replaced old new) vs)"
  by (auto simp: replaced_def)

lemma store_user_Inr:
  "store_user u f s = Inr s' \<Longrightarrow> s' = s\<lparr>pd_users := row_upd us_id u f (pd_users s)\<rparr> \<and> unique_by us_email (pd_users s')"
  by (auto simp: store_user_def Let_def split: if_splits)

lemma store_person_Inr:
  "store_person p f s = Inr s' \<Longrightarrow>
     s' = on_pii_db (\<lambda>d. d\<lparr>people := row_upd pe_id p f (people d)\<rparr>) s \<and> unique_by pe_email (people (rg_db (pd_registers s')))"
  by (auto simp: store_person_def Let_def on_pii_db_def on_db_def split: if_splits)

lemma column_values_audit:
  "column_values c (audit_pii et i act det actor s) = column_values c s @ (if c = Audit_actor then [actor] else [])"
  by (cases c) (simp_all add: audit_pii_def audit_registers_def on_db_def record_audit_event_def)

lemma column_values_other [simp]:
  "column_values c (s\<lparr>pd_users := us\<rparr>) = column_values c s"
  "column_values c (s\<lparr>pd_user_redacted_at := ut\<rparr>) = column_values c s"
  "column_values c (s\<lparr>pd_person_redacted_at := pt\<rparr>) = column_values c s"
  "column_values c (on_pii_db (\<lambda>d. d\<lparr>people := ps d\<rparr>) s) = column_values c s"
  by (cases c; simp add: on_pii_db_def on_db_def)+

lemma audit_pii_frame [simp]:
  "pd_users (audit_pii et i act det actor s) = pd_users s"
  "pd_user_redacted_at (audit_pii et i act det actor s) = pd_user_redacted_at s"
  "pd_person_redacted_at (audit_pii et i act det actor s) = pd_person_redacted_at s"
  "people (rg_db (pd_registers (audit_pii et i act det actor s))) = people (rg_db (pd_registers s))"
  "domain_events (rg_db (pd_registers (audit_pii et i act det actor s))) = domain_events (rg_db (pd_registers s))"
  "map ae_detail (audit_events (rg_db (pd_registers (audit_pii et i act det actor s)))) =
     map ae_detail (audit_events (rg_db (pd_registers s))) @ [det]"
  by (simp_all add: audit_pii_def audit_registers_def on_db_def record_audit_event_def)

section \<open>Redaction of a user\<close>

lemma redact_user_Inr:
  assumes "redact_user_pii now u a s = Inr (r, s')" "row_get us_id u (pd_users s) = Some user"
    "pd_user_redacted_at s u = None"
  obtains counts s1 actor detail where "us_status user = UDisabled"
    "update_columns (us_email user) (user_pseudonym u) actor_string_columns s = (counts, s1)"
    "unique_by us_email (row_upd us_id u (us_email_update (\<lambda>_. user_pseudonym u)) (pd_users s))"
    "row_get us_id a (row_upd us_id u (us_email_update (\<lambda>_. user_pseudonym u)) (pd_users s)) = Some actor"
    "r = \<lparr>rr_id = u, rr_already_redacted = False, rr_rows_updated_by_table = counts\<rparr>"
    "s' = audit_pii ''user'' u ''redact_pii'' detail (us_email actor)
       (s1\<lparr>pd_users := row_upd us_id u (us_email_update (\<lambda>_. user_pseudonym u)) (pd_users s),
           pd_user_redacted_at := (pd_user_redacted_at s)(u := Some now)\<rparr>)"
proof -
  obtain counts s1 where cols: "update_columns (us_email user) (user_pseudonym u) actor_string_columns s = (counts, s1)"
    by (cases "update_columns (us_email user) (user_pseudonym u) actor_string_columns s")
  have frame: "pd_users s1 = pd_users s" "pd_user_redacted_at s1 = pd_user_redacted_at s"
    using cols update_columns_frame by (metis snd_conv)+
  have disabled: "us_status user = UDisabled"
    using assms by (auto simp: redact_user_pii_def split: if_splits)
  obtain s2 where s2: "store_user u (us_email_update (\<lambda>_. user_pseudonym u)) s1 = Inr s2"
    using assms disabled cols by (auto simp: redact_user_pii_def Let_def)
  note stored = store_user_Inr [OF s2]
  show thesis
    using assms disabled cols s2 stored frame
    by (auto simp: redact_user_pii_def Let_def intro: that)
qed

lemma user_redaction_facts:
  assumes "redact_user_pii now u a s = Inr (r, s')" "row_get us_id u (pd_users s) = Some user"
    "pd_user_redacted_at s u = None" "unique_by us_email (pd_users s)" "unique_by us_id (pd_users s)"
    "us_email user \<noteq> user_pseudonym u" "c \<in> set actor_string_columns"
  shows "us_status user = UDisabled"
    and "us_email user \<notin> set (column_values c s')" and "us_email user \<notin> us_email ` set (pd_users s')"
    and "\<exists>actor. column_values c s' = map (replaced (us_email user) (user_pseudonym u)) (column_values c s) @
             (if c = Audit_actor then [us_email actor] else []) \<and> row_get us_id a (pd_users s') = Some actor"
    and "rr_rows_updated_by_table r = counts_of (us_email user) actor_string_columns s"
    and "domain_events (rg_db (pd_registers s')) = domain_events (rg_db (pd_registers s))"
    and "redact_user_pii later u b s' = Inr (\<lparr>rr_id = u, rr_already_redacted = True, rr_rows_updated_by_table = []\<rparr>, s')"
proof -
  let ?f = "us_email_update (\<lambda>_. user_pseudonym u)"
  obtain counts s1 actor detail where run: "us_status user = UDisabled"
    "update_columns (us_email user) (user_pseudonym u) actor_string_columns s = (counts, s1)"
    "unique_by us_email (row_upd us_id u ?f (pd_users s))"
    "row_get us_id a (row_upd us_id u ?f (pd_users s)) = Some actor"
    "r = \<lparr>rr_id = u, rr_already_redacted = False, rr_rows_updated_by_table = counts\<rparr>"
    "s' = audit_pii ''user'' u ''redact_pii'' detail (us_email actor)
       (s1\<lparr>pd_users := row_upd us_id u ?f (pd_users s), pd_user_redacted_at := (pd_user_redacted_at s)(u := Some now)\<rparr>)"
    using redact_user_Inr [OF assms(1-3)] by blast
  note exact = update_columns_exact [OF distinct_actor_string_columns run(2)]
  have gone: "us_email user \<notin> us_email ` set (row_upd us_id u ?f (pd_users s))"
  proof
    assume "us_email user \<in> us_email ` set (row_upd us_id u ?f (pd_users s))"
    then obtain x where "x \<in> set (pd_users s)" "us_id x \<noteq> u" "us_email x = us_email user"
      using assms(6) by (auto simp: set_row_upd split: if_splits)
    then show False
      using unique_by_eqD [OF assms(4)] row_get_SomeD [OF assms(2)] by metis
  qed
  have actor: "actor \<in> set (row_upd us_id u ?f (pd_users s))"
    using row_get_SomeD [OF run(4)] by simp
  show "us_status user = UDisabled" by (fact run(1))
  have vals: "column_values c s' = map (replaced (us_email user) (user_pseudonym u)) (column_values c s) @
      (if c = Audit_actor then [us_email actor] else [])"
    using exact assms(7) by (simp add: run(6) column_values_audit)
  then show "\<exists>actor. column_values c s' = map (replaced (us_email user) (user_pseudonym u)) (column_values c s) @
             (if c = Audit_actor then [us_email actor] else []) \<and> row_get us_id a (pd_users s') = Some actor"
    using run(4) by (auto simp: run(6))
  show "us_email user \<notin> set (column_values c s')"
    using replaced_gone [OF assms(6), of "column_values c s"] gone actor
    unfolding vals by (auto split: if_splits)
  show "us_email user \<notin> us_email ` set (pd_users s')"
    using gone by (simp add: run(6))
  show "rr_rows_updated_by_table r = counts_of (us_email user) actor_string_columns s"
    using exact by (simp add: run(5))
  show "domain_events (rg_db (pd_registers s')) = domain_events (rg_db (pd_registers s))"
    using update_columns_frame(5) [of "us_email user" "user_pseudonym u" actor_string_columns s] run(2) by (simp add: run(6))
  have "has_row us_id u (row_upd us_id u ?f (pd_users s))"
    using row_get_Some_has_row [OF assms(2)] by simp
  then obtain x where "row_get us_id u (row_upd us_id u ?f (pd_users s)) = Some x"
    using has_row_get by metis
  then show "redact_user_pii later u b s' = Inr (\<lparr>rr_id = u, rr_already_redacted = True, rr_rows_updated_by_table = []\<rparr>, s')"
    by (simp add: redact_user_pii_def run(6) row_of_def)
qed

text \<open>
  The state a redaction should leave, written without the code's registry and loop: the one
  user's address and mark, the value in ten columns, and one more audit row. Every other table,
  row and field is the old one.
\<close>

definition frozen_columns :: "(string \<times> string) set" where
  "frozen_columns =
     {(''control_periods'', ''created_by''), (''requirement_assessments'', ''last_reviewed_by''), (''secrets'', ''created_by''),
      (''external_connections'', ''created_by''), (''jobs'', ''created_by'')}"

definition addresses_replaced :: "(string \<Rightarrow> string) \<Rightarrow> registers \<Rightarrow> registers" where
  "addresses_replaced h g = g\<lparr>
     rg_db := (rg_db g)\<lparr>
       audit_events := map (ae_actor_update h) (audit_events (rg_db g)),
       policy_versions := map (pv_uploader_update h) (policy_versions (rg_db g)),
       control_test_populations := map (tp_created_by_update h) (control_test_populations (rg_db g)),
       control_test_samples := map (ts_created_by_update h) (control_test_samples (rg_db g))\<rparr>,
     import_jobs := map (ij_created_by_update h) (import_jobs g)\<rparr>"

definition redacted_state :: "datetime \<Rightarrow> user \<Rightarrow> pii_db \<Rightarrow> pii_db" where
  "redacted_state now user s = (let h = (\<lambda>v. if v = us_email user then user_pseudonym (us_id user) else v) in
     \<lparr>pd_registers = addresses_replaced h (pd_registers s),
      pd_users = map (\<lambda>x. if us_id x = us_id user then x\<lparr>us_email := user_pseudonym (us_id user)\<rparr> else x) (pd_users s),
      pd_column = (\<lambda>k. if k \<in> frozen_columns then map h (pd_column s k) else pd_column s k),
      pd_person_redacted_at = pd_person_redacted_at s,
      pd_user_redacted_at = (pd_user_redacted_at s)(us_id user := Some now)\<rparr>)"

lemma replaced_eq: "replaced old new = (\<lambda>v. if v = old then new else v)"
  by (simp add: replaced_def fun_eq_iff)

lemma update_columns_Cons [simp]:
  "snd (update_columns old new (c # cs) s) = snd (update_columns old new cs (update_column old new c s))"
  by (simp add: Let_def split: prod.splits)

lemma other_column_iff: "Other_column t c \<in> set actor_string_columns \<longleftrightarrow> (t, c) \<in> frozen_columns"
  by (simp add: actor_string_columns_def frozen_columns_def)

lemma registers_update_columns:
  "pd_registers (snd (update_columns old new actor_string_columns s)) = addresses_replaced (replaced old new) (pd_registers s)"
  by (simp add: actor_string_columns_def addresses_replaced_def on_pii_db_def on_db_def del: update_columns.simps(2))

lemma columns_update_columns:
  "pd_column (snd (update_columns old new actor_string_columns s)) =
     (\<lambda>k. if k \<in> frozen_columns then map (replaced old new) (pd_column s k) else pd_column s k)"
proof
  fix k :: "string \<times> string"
  obtain t c where k: "k = (t, c)"
    by (cases k)
  obtain counts s' where run: "update_columns old new actor_string_columns s = (counts, s')"
    by (cases "update_columns old new actor_string_columns s")
  then have "column_values (Other_column t c) s' =
      (if Other_column t c \<in> set actor_string_columns then map (replaced old new) (column_values (Other_column t c) s)
       else column_values (Other_column t c) s)"
    using update_columns_exact [OF distinct_actor_string_columns run] by blast
  then show "pd_column (snd (update_columns old new actor_string_columns s)) k =
      (if k \<in> frozen_columns then map (replaced old new) (pd_column s k) else pd_column s k)"
    by (simp add: k run other_column_iff)
qed

lemma update_all_columns:
  "snd (update_columns old new actor_string_columns s) =
     s\<lparr>pd_registers := addresses_replaced (replaced old new) (pd_registers s),
       pd_column := (\<lambda>k. if k \<in> frozen_columns then map (replaced old new) (pd_column s k) else pd_column s k)\<rparr>"
  by (rule pii_db.equality) (simp_all add: registers_update_columns columns_update_columns)

lemma redacted_state_eq:
  "redacted_state now user s =
     (snd (update_columns (us_email user) (user_pseudonym (us_id user)) actor_string_columns s))
       \<lparr>pd_users := row_upd us_id (us_id user) (us_email_update (\<lambda>_. user_pseudonym (us_id user))) (pd_users s),
        pd_user_redacted_at := (pd_user_redacted_at s)(us_id user := Some now)\<rparr>"
  unfolding update_all_columns replaced_eq redacted_state_def Let_def
  by (rule pii_db.equality) (simp_all add: row_upd_def)

lemma redact_user_state:
  assumes "redact_user_pii now u a s = Inr (r, s')" "row_get us_id u (pd_users s) = Some user"
    "pd_user_redacted_at s u = None"
  shows "\<exists>detail actor. row_get us_id a (pd_users s') = Some actor \<and>
     s' = audit_pii ''user'' u ''redact_pii'' detail (us_email actor) (redacted_state now user s)"
proof (rule redact_user_Inr [OF assms])
  fix counts s1 actor detail
  let ?rows = "row_upd us_id u (us_email_update (\<lambda>_. user_pseudonym u)) (pd_users s)"
  assume cols: "update_columns (us_email user) (user_pseudonym u) actor_string_columns s = (counts, s1)"
    and actor: "row_get us_id a ?rows = Some actor"
    and s': "s' = audit_pii ''user'' u ''redact_pii'' detail (us_email actor)
       (s1\<lparr>pd_users := ?rows, pd_user_redacted_at := (pd_user_redacted_at s)(u := Some now)\<rparr>)"
  have u: "us_id user = u"
    using row_get_SomeD [OF assms(2)] by (rule conjunct2)
  have "pd_users s' = ?rows"
    unfolding s' audit_pii_frame(1) by simp
  moreover have "s' = audit_pii ''user'' u ''redact_pii'' detail (us_email actor) (redacted_state now user s)"
    unfolding s' redacted_state_eq u cols snd_conv ..
  ultimately show ?thesis
    using actor by metis
qed

text \<open>
  C33. Redaction removes the address. When a disabled user is redacted, the address no longer
  stands in any of the registered columns nor on any user; every other value of those columns
  is kept, the one new audit row apart, which names the administrator; the report counts exactly
  the rows that held the address; no domain event changes; and the call answers a second time
  without doing anything. Nothing else changes: the whole state after the call is the redacted
  state (the user's address and mark, that value in the ten columns) with one audit row more, so
  no role, password, status, other user or other field is touched.
\<close>

theorem user_redaction:
  assumes "redact_user_pii now u a s = Inr (r, s')" "row_get us_id u (pd_users s) = Some user"
    "pd_user_redacted_at s u = None" "unique_by us_email (pd_users s)" "unique_by us_id (pd_users s)"
    "us_email user \<noteq> user_pseudonym u"
  shows "us_status user = UDisabled \<and> us_email user \<notin> us_email ` set (pd_users s') \<and>
    (\<forall>c \<in> set actor_string_columns. us_email user \<notin> set (column_values c s') \<and>
       (\<exists>actor. row_get us_id a (pd_users s') = Some actor \<and>
          column_values c s' = map (replaced (us_email user) (user_pseudonym u)) (column_values c s) @
            (if c = Audit_actor then [us_email actor] else []))) \<and>
    rr_rows_updated_by_table r = counts_of (us_email user) actor_string_columns s \<and>
    domain_events (rg_db (pd_registers s')) = domain_events (rg_db (pd_registers s)) \<and>
    redact_user_pii later u b s' = Inr (\<lparr>rr_id = u, rr_already_redacted = True, rr_rows_updated_by_table = []\<rparr>, s') \<and>
    (\<exists>detail actor. row_get us_id a (pd_users s') = Some actor \<and>
       s' = audit_pii ''user'' u ''redact_pii'' detail (us_email actor) (redacted_state now user s))"
proof -
  have "Audit_actor \<in> set actor_string_columns"
    by (simp add: actor_string_columns_def)
  note facts = user_redaction_facts [OF assms]
  show ?thesis
    using facts(1,3,5,6,7) [OF \<open>Audit_actor \<in> _\<close>] facts(2,4) redact_user_state [OF assms(1-3)] by blast
qed

definition demo_bo :: user where
  "demo_bo = \<lparr>us_id = ''u2'', us_email = ''bo@x.org'', us_password_hash = [], us_role = Operator,
     us_status = UDisabled, us_role_source = Local\<rparr>"

definition demo_pii :: pii_db where
  "demo_pii =
     \<lparr>pd_registers = on_db (record_audit_event ''policy'' ''p1'' ''create'' [] ''bo@x.org'') demo_registers,
      pd_users =
       [\<lparr>us_id = ''u1'', us_email = ''ann@x.org'', us_password_hash = [], us_role = Admin, us_status = UActive, us_role_source = Local\<rparr>,
        demo_bo],
      pd_column = (\<lambda>k. if k = (''jobs'', ''created_by'') then [''bo@x.org'', ''ann@x.org'', ''bo@x.org''] else []),
      pd_person_redacted_at = (\<lambda>_. None), pd_user_redacted_at = (\<lambda>_. None)\<rparr>"

definition demo_redacted_at :: datetime where
  "demo_redacted_at = Datetime (Date 2026 8 1) 0"

definition demo_redaction :: "redaction_report \<times> pii_db" where
  "demo_redaction = projr (redact_user_pii demo_redacted_at ''u2'' ''u1'' demo_pii)"

lemma demo_redaction_run:
  "redact_user_pii demo_redacted_at ''u2'' ''u1'' demo_pii = Inr (fst demo_redaction, snd demo_redaction)"
proof -
  have "\<not> isl (redact_user_pii demo_redacted_at ''u2'' ''u1'' demo_pii)" by code_simp
  then show ?thesis
    by (cases "redact_user_pii demo_redacted_at ''u2'' ''u1'' demo_pii") (simp_all add: demo_redaction_def)
qed

lemma demo_pii_facts:
  "row_get us_id ''u2'' (pd_users demo_pii) = Some demo_bo" "pd_user_redacted_at demo_pii ''u2'' = None"
  "unique_by us_email (pd_users demo_pii)" "unique_by us_id (pd_users demo_pii)" "us_email demo_bo \<noteq> user_pseudonym ''u2''"
  "us_email demo_bo \<in> set (column_values Audit_actor demo_pii)"
  by code_simp+

theorem user_redaction_witness:
  "\<exists>r s'. redact_user_pii demo_redacted_at ''u2'' ''u1'' demo_pii = Inr (r, s') \<and> us_email demo_bo \<notin> us_email ` set (pd_users s') \<and>
     (\<exists>detail actor. row_get us_id ''u1'' (pd_users s') = Some actor \<and>
        s' = audit_pii ''user'' ''u2'' ''redact_pii'' detail (us_email actor)
        (redacted_state demo_redacted_at demo_bo demo_pii)) \<and>
     us_email demo_bo \<in> set (column_values Audit_actor demo_pii)"
proof -
  have "us_email demo_bo \<notin> us_email ` set (pd_users (snd demo_redaction)) \<and>
      (\<exists>detail actor. row_get us_id ''u1'' (pd_users (snd demo_redaction)) = Some actor \<and>
        snd demo_redaction = audit_pii ''user'' ''u2'' ''redact_pii'' detail (us_email actor)
        (redacted_state demo_redacted_at demo_bo demo_pii))"
    using user_redaction [OF demo_redaction_run demo_pii_facts(1-5), of demo_redacted_at "''u1''"]
    by (elim conjE exE, intro conjI exI) assumption+
  then show ?thesis
    using demo_redaction_run demo_pii_facts(6) by metis
qed

section \<open>Redaction of a person\<close>

text \<open>
  Redacting a person who left replaces the three columns of their row, and nothing else but the
  audit trail and the mark: every other person, every column of the registry and every event
  stays. The same call on another person does not disturb the first.
\<close>

theorem person_redaction:
  assumes "redact_person_pii now p a s = Inr (r, s')" "row_get pe_id p (people (rg_db (pd_registers s))) = Some person"
    "pd_person_redacted_at s p = None"
  shows "pe_employment_status person = ''departed'' \<and>
    row_get pe_id p (people (rg_db (pd_registers s'))) =
      Some (person\<lparr>pe_email := person_pseudonym p, pe_display_name := ''Redacted Person'', pe_external_id := None\<rparr>) \<and>
    (\<forall>q. q \<noteq> p \<longrightarrow> row_get pe_id q (people (rg_db (pd_registers s'))) = row_get pe_id q (people (rg_db (pd_registers s)))) \<and>
    (\<forall>c. \<exists>actor. column_values c s' = column_values c s @ (if c = Audit_actor then [actor] else [])) \<and>
    domain_events (rg_db (pd_registers s')) = domain_events (rg_db (pd_registers s)) \<and>
    redact_person_pii later p b s' = Inr (\<lparr>rr_id = p, rr_already_redacted = True, rr_rows_updated_by_table = []\<rparr>, s')"
proof -
  let ?f = "\<lambda>q. q\<lparr>pe_email := person_pseudonym p, pe_display_name := ''Redacted Person'', pe_external_id := None\<rparr>"
  have departed: "pe_employment_status person = ''departed''"
    using assms by (auto simp: redact_person_pii_def split: if_splits)
  obtain s1 where s1: "store_person p ?f s = Inr s1"
    using assms departed by (auto simp: redact_person_pii_def)
  note stored = store_person_Inr [OF s1]
  obtain actor det where s': "s' = audit_pii ''person'' p ''redact_pii'' det actor
      (s1\<lparr>pd_person_redacted_at := (pd_person_redacted_at s1)(p := Some now)\<rparr>)"
    using assms departed s1 by (auto simp: redact_person_pii_def)
  have rows: "people (rg_db (pd_registers s')) = row_upd pe_id p ?f (people (rg_db (pd_registers s)))"
    using stored by (simp add: s' on_pii_db_def on_db_def)
  moreover have "column_values c s' = column_values c s @ (if c = Audit_actor then [actor] else [])" for c
    using stored column_values_other(4) by (simp add: s' column_values_audit)
  moreover have "domain_events (rg_db (pd_registers s')) = domain_events (rg_db (pd_registers s))"
    using stored by (simp add: s' on_pii_db_def on_db_def)
  moreover have "redact_person_pii later p b s' = Inr (\<lparr>rr_id = p, rr_already_redacted = True, rr_rows_updated_by_table = []\<rparr>, s')"
    unfolding redact_person_pii_def rows row_of_def using assms(2) by (simp add: table_simps s')
  ultimately show ?thesis
    using departed assms(2) by (simp add: table_simps)
qed

section \<open>What a redaction leaves\<close>

text \<open>
  The address of a person added by hand stays in the audit trail: the detail of its \<open>create\<close>
  row quotes the address, and a redaction rewrites the actors of the trail, not its details.
\<close>

lemma is_prefix_append: "is_prefix x (x @ y)"
  by (induction x) simp_all

lemma contains_append: "contains x (u @ x @ v)"
  by (induction u) (cases x; simp add: is_prefix_append; cases v; simp)+

lemma redact_person_details:
  "redact_person_pii now p a s = Inr (r, s') \<Longrightarrow>
     set (map ae_detail (audit_events (rg_db (pd_registers s)))) \<subseteq> set (map ae_detail (audit_events (rg_db (pd_registers s'))))"
  by (auto simp: redact_person_pii_def audit_pii_def audit_registers_def on_db_def on_pii_db_def record_audit_event_def
        dest!: store_person_Inr split: if_splits)

theorem person_address_survives:
  assumes "create_person p email display_name status actor g = Inr (Flash target ''Person added.'' kind, g1)"
    and "set (audit_events (rg_db g1)) \<subseteq> set (audit_events (rg_db (pd_registers s)))"
    and "redact_person_pii now p a s = Inr (r, s')"
  shows "\<exists>row \<in> set (audit_events (rg_db (pd_registers s'))). contains (normalize_address email) (ae_detail row)"
proof -
  have "\<exists>row \<in> set (audit_events (rg_db g1)). ae_detail row = ''Added person '' @ in_quotes (normalize_address email)"
    using assms(1)
    by (auto simp: create_person_def Let_def audit_registers_def on_db_def record_audit_event_def in_quotes_def
        split: if_splits sum.splits)
  then have "''Added person '' @ in_quotes (normalize_address email) \<in> set (map ae_detail (audit_events (rg_db (pd_registers s))))"
    using assms(2) by (metis image_eqI list.set_map subsetD)
  then have "''Added person '' @ in_quotes (normalize_address email) \<in> set (map ae_detail (audit_events (rg_db (pd_registers s'))))"
    using redact_person_details [OF assms(3)] by blast
  then obtain row where "row \<in> set (audit_events (rg_db (pd_registers s')))"
    and "ae_detail row = (''Added person '' @ [CHR 0x27]) @ normalize_address email @ [CHR 0x27]"
    by (auto simp: in_quotes_def)
  then show ?thesis
    by (metis contains_append)
qed

end
