(* ===== verification/Readiness.thy ===== *)
theory Readiness
  imports Compliance_Scope Framework_Catalog Findings Registers
begin

text \<open>
  Where a programme stands: the onboarding steps (\<open>src/app/onboarding.py\<close>), the readiness queue
  and the readiness stage (\<open>src/app/readiness.py\<close>), all computed from the tables of the other
  components. The instant \<open>now\<close> (UTC) and the day \<open>today\<close> of the server's clock are arguments;
  the descriptions of the onboarding steps are left out.
\<close>

section \<open>Onboarding\<close>

record onboarding_step =
  ob_key :: string
  ob_title :: string
  ob_is_complete :: bool
  ob_action_url :: string
  ob_action_label :: string

text \<open>What the settings and the connection tables, which this model does not hold, say.\<close>

record evidence_sources =
  so_evidence_repository_configured :: bool
  so_google_drive_connection :: bool
  so_aws_connection :: bool
  so_external_connection :: bool

definition any_control_missing_owner :: "db \<Rightarrow> bool" where
  "any_control_missing_owner s =
     list_ex (\<lambda>c. ic_owner_person_id c = None \<and> ic_owner c = []) (internal_controls s)"

definition compute_onboarding_steps :: "evidence_sources \<Rightarrow> registers \<Rightarrow> onboarding_step list" where
  "compute_onboarding_steps so g =
     (let s = rg_db g;
          scope = get_compliance_scope s;
          has_scoped_person = list_ex pe_in_scope (people s);
          has_scoped_vendor_system = list_ex vs_in_scope (vendor_systems g);
          starter_controls_done = (case get_primary_framework s of None \<Rightarrow> False | Some f \<Rightarrow> framework_fully_covered f s);
          owners_assigned = (internal_controls s \<noteq> [] \<and> \<not> any_control_missing_owner s);
          evidence_source_configured = (so_evidence_repository_configured so \<or> so_google_drive_connection so \<or>
            so_aws_connection so \<or> so_external_connection so);
          operating_period_started = list_ex (\<lambda>p. cp_status p = Active) (control_periods s)
      in [\<lparr>ob_key = ''define_scope'', ob_title = ''Define compliance scope'', ob_is_complete = (scope \<noteq> None),
           ob_action_url = ''/onboarding/scope'',
           ob_action_label = (if scope = None then ''Define scope'' else ''Review scope'')\<rparr>,
          \<lparr>ob_key = ''scope_people_systems'', ob_title = ''Identify people and systems in scope'',
           ob_is_complete = (has_scoped_person \<or> has_scoped_vendor_system),
           ob_action_url = ''/people'', ob_action_label = ''Review people''\<rparr>,
          \<lparr>ob_key = ''starter_controls'', ob_title = ''Generate starter controls'', ob_is_complete = starter_controls_done,
           ob_action_url = ''/onboarding'', ob_action_label = ''Generate starter controls''\<rparr>,
          \<lparr>ob_key = ''assign_owners'', ob_title = ''Assign control owners'', ob_is_complete = owners_assigned,
           ob_action_url = ''/controls'', ob_action_label = ''Review controls''\<rparr>,
          \<lparr>ob_key = ''evidence_source'', ob_title = ''Configure an evidence source'', ob_is_complete = evidence_source_configured,
           ob_action_url = ''/connections'', ob_action_label = ''Configure a connection''\<rparr>,
          \<lparr>ob_key = ''operating_period'', ob_title = ''Start an operating period'', ob_is_complete = operating_period_started,
           ob_action_url = ''/control-periods'', ob_action_label = ''Manage control periods''\<rparr>])"

section \<open>The queue\<close>

definition readiness_categories :: "(string \<times> string) list" where
  "readiness_categories =
     [(''occurrence_overdue'', ''Missed control occurrence''),
      (''occurrence_upcoming'', ''Upcoming control occurrence''),
      (''occurrence_missing_evidence'', ''Occurrence missing evidence''),
      (''evidence_stale'', ''Stale evidence''),
      (''control_test_failed_no_finding'', ''Test exception without a finding''),
      (''finding_needs_attention'', ''Finding needs attention''),
      (''finding_needs_retest'', ''Finding awaiting retest''),
      (''control_missing_owner'', ''Control missing an owner''),
      (''finding_missing_owner'', ''Finding missing an owner''),
      (''policy_review_overdue'', ''Policy review overdue'')]"

definition upcoming_window_days :: int where
  "upcoming_window_days = 14"

record readiness_item =
  rd_category :: string
  rd_reason :: string
  rd_link :: string
  rd_control_id :: "string option"
  rd_due_on :: "date option"

definition item :: "string \<Rightarrow> string \<Rightarrow> string \<Rightarrow> string option \<Rightarrow> date option \<Rightarrow> readiness_item" where
  "item category reason link control_id due_on =
     \<lparr>rd_category = category, rd_reason = reason, rd_link = link, rd_control_id = control_id, rd_due_on = due_on\<rparr>"

text \<open>\<open>x.date()\<close> of a nullable column: \<open>None\<close> has no \<open>date\<close>.\<close>

definition date_of :: "datetime option \<Rightarrow> date result" where
  "date_of t = (case t of None \<Rightarrow> Inl AttributeError | Some t \<Rightarrow> Inr (dt_date t))"

text \<open>A comprehension whose body may raise.\<close>

fun rmap :: "('a \<Rightarrow> 'b result) \<Rightarrow> 'a list \<Rightarrow> 'b list result" where
  "rmap f [] = Inr []"
| "rmap f (x # xs) = rbind (f x) (\<lambda>y. rbind (rmap f xs) (\<lambda>ys. Inr (y # ys)))"

definition due_item :: "datetime \<Rightarrow> control_occurrence \<Rightarrow> datetime \<Rightarrow> readiness_item list" where
  "due_item now oc due_at =
     (if due_at < now
      then [item ''occurrence_overdue'' (''Due '' @ date_isoformat (dt_date due_at) @ '', not yet performed'')
              (''/occurrences/'' @ oc_id oc) (Some (oc_control_id oc)) (Some (dt_date due_at))]
      else if to_micros due_at \<le> to_micros now + upcoming_window_days * micros_per_day
      then [item ''occurrence_upcoming'' (''Due '' @ date_isoformat (dt_date due_at))
              (''/occurrences/'' @ oc_id oc) (Some (oc_control_id oc)) (Some (dt_date due_at))]
      else [])"

definition compute_occurrence_items :: "datetime \<Rightarrow> db \<Rightarrow> readiness_item list" where
  "compute_occurrence_items now s =
     concat (map (\<lambda>oc. case oc_due_at oc of None \<Rightarrow> [] | Some due_at \<Rightarrow> due_item now oc due_at)
       (filter (\<lambda>oc. oc_performed_at oc = None) (control_occurrences s)))"

definition has_evidence :: "db \<Rightarrow> control_occurrence \<Rightarrow> bool" where
  "has_evidence s oc =
     (has_row oe_occurrence_id (oc_id oc) (control_occurrence_evidence_rows s) \<or>
      has_row oa_occurrence_id (oc_id oc) (control_occurrence_evidence_artifacts s))"

definition compute_occurrence_missing_evidence_items :: "db \<Rightarrow> readiness_item list result" where
  "compute_occurrence_missing_evidence_items s =
     rmap (\<lambda>oc. rbind (date_of (oc_performed_at oc)) (\<lambda>d.
             Inr (item ''occurrence_missing_evidence'' (''Performed '' @ date_isoformat d @ '' with no evidence linked'')
                    (''/occurrences/'' @ oc_id oc) (Some (oc_control_id oc)) None)))
       (filter (\<lambda>oc. oc_performed_at oc \<noteq> None \<and> \<not> has_evidence s oc) (control_occurrences s))"

definition expired :: "datetime \<Rightarrow> evidence_snapshot \<Rightarrow> bool" where
  "expired now e = (case es_expires_at e of None \<Rightarrow> False | Some t \<Rightarrow> t < now)"

definition compute_evidence_stale_items :: "datetime \<Rightarrow> db \<Rightarrow> readiness_item list result" where
  "compute_evidence_stale_items now s =
     rmap (\<lambda>e. rbind (date_of (es_expires_at e)) (\<lambda>d.
             Inr (item ''evidence_stale'' (''Expired '' @ date_isoformat d) (''/evidence/'' @ es_id e) None (Some d))))
       (filter (expired now) (evidence_snapshots s))"

definition has_finding :: "db \<Rightarrow> control_test \<Rightarrow> bool" where
  "has_finding s t = list_ex (\<lambda>f. fi_source_test_id f = Some (ct_id t)) (findings s)"

definition compute_control_test_failed_no_finding_items :: "db \<Rightarrow> readiness_item list result" where
  "compute_control_test_failed_no_finding_items s =
     rmap (\<lambda>t. rbind (date_of (ct_performed_at t)) (\<lambda>d.
             Inr (item ''control_test_failed_no_finding''
                    (''Tested '' @ date_isoformat d @ '' with exceptions noted, no finding opened'')
                    (''/control-tests/'' @ ct_id t) (Some (ct_control_id t)) None)))
       (filter (\<lambda>t. ct_result t = ''exceptions_noted'' \<and> \<not> has_finding s t) (control_tests s))"

definition finding_reason :: "date \<Rightarrow> finding \<Rightarrow> string" where
  "finding_reason today f =
     (case fi_due_date f of None \<Rightarrow> ''No due date set''
      | Some d \<Rightarrow> if d < today then ''Overdue since '' @ date_isoformat d else ''Due '' @ date_isoformat d)"

definition compute_finding_items :: "date \<Rightarrow> db \<Rightarrow> readiness_item list" where
  "compute_finding_items today s =
     map (\<lambda>f. item ''finding_needs_attention'' (finding_reason today f) (''/findings/'' @ fi_id f) (fi_control_id f) (fi_due_date f))
       (filter (\<lambda>f. fi_status f \<in> {Open, Remediating}) (findings s)) @
     map (\<lambda>f. item ''finding_needs_retest'' ''Remediated and awaiting a recorded retest'' (''/findings/'' @ fi_id f)
                (fi_control_id f) (fi_due_date f))
       (filter (\<lambda>f. fi_status f = Retesting) (findings s)) @
     map (\<lambda>f. item ''finding_missing_owner'' ''No owner assigned'' (''/findings/'' @ fi_id f) (fi_control_id f) None)
       (filter (\<lambda>f. fi_status f \<noteq> FClosed \<and> fi_owner_person_id f = None) (findings s))"

definition compute_control_missing_owner_items :: "db \<Rightarrow> readiness_item list" where
  "compute_control_missing_owner_items s =
     map (\<lambda>c. item ''control_missing_owner'' ''No owner assigned'' (''/controls/'' @ ic_id c) (Some (ic_id c)) None)
       (filter (\<lambda>c. ic_owner_person_id c = None \<and> ic_owner c = []) (internal_controls s))"

definition review_overdue :: "date \<Rightarrow> policy \<Rightarrow> bool" where
  "review_overdue today p = (\<not> po_archived p \<and> (case po_next_review_date p of None \<Rightarrow> False | Some d \<Rightarrow> d < today))"

definition compute_policy_review_overdue_items :: "date \<Rightarrow> db \<Rightarrow> readiness_item list" where
  "compute_policy_review_overdue_items today s =
     map (\<lambda>p. item ''policy_review_overdue''
                (''Review was due '' @ (case po_next_review_date p of None \<Rightarrow> ''None'' | Some d \<Rightarrow> date_isoformat d))
                (''/policies/'' @ po_id p) None (po_next_review_date p))
       (filter (review_overdue today) (policies s))"

text \<open>A control maps to a framework when one of its requirements is the framework's.\<close>

definition control_frameworks :: "db \<Rightarrow> string \<Rightarrow> string list" where
  "control_frameworks s control_id =
     concat (map (\<lambda>m. if crm_control_id m = control_id
                      then map fr_framework_id (filter (\<lambda>r. fr_id r = crm_requirement_id m) (framework_requirements s))
                      else []) (control_requirement_mappings s))"

definition matches_framework :: "db \<Rightarrow> string option \<Rightarrow> readiness_item \<Rightarrow> bool" where
  "matches_framework s framework_id i =
     (case framework_id of None \<Rightarrow> True
      | Some f \<Rightarrow> (case rd_control_id i of None \<Rightarrow> True | Some c \<Rightarrow> f \<in> set (control_frameworks s c)))"

definition readiness_sort_key :: "readiness_item \<Rightarrow> bool \<times> date \<times> string" where
  "readiness_sort_key i =
     (rd_due_on i = None, case rd_due_on i of None \<Rightarrow> Date 9999 12 31 | Some d \<Rightarrow> d, rd_category i)"

definition readiness_items :: "datetime \<Rightarrow> date \<Rightarrow> db \<Rightarrow> readiness_item list result" where
  "readiness_items now today s =
     rbind (compute_occurrence_missing_evidence_items s) (\<lambda>missing.
     rbind (compute_evidence_stale_items now s) (\<lambda>stale.
     rbind (compute_control_test_failed_no_finding_items s) (\<lambda>failed.
       Inr (compute_occurrence_items now s @ missing @ stale @ failed @ compute_finding_items today s @
            compute_control_missing_owner_items s @ compute_policy_review_overdue_items today s))))"

definition compute_readiness_queue ::
  "datetime \<Rightarrow> date \<Rightarrow> db \<Rightarrow> string option \<Rightarrow> readiness_item list result" where
  "compute_readiness_queue now today s framework_id =
     rbind (readiness_items now today s) (\<lambda>items.
       Inr (sort_key readiness_sort_key (filter (matches_framework s framework_id) items)))"

section \<open>The stage\<close>

datatype readiness_stage =
    Scope_incomplete
  | Foundation_incomplete
  | Operating_controls
  | Evidence_gaps
  | Testing_remediation_incomplete
  | Audit_package_ready

definition readiness_stage_labels :: "(readiness_stage \<times> string) list" where
  "readiness_stage_labels =
     [(Scope_incomplete, ''Scope incomplete''), (Foundation_incomplete, ''Foundation incomplete''),
      (Operating_controls, ''Operating controls''), (Evidence_gaps, ''Evidence gaps''),
      (Testing_remediation_incomplete, ''Testing/remediation incomplete''), (Audit_package_ready, ''Audit-package ready'')]"

definition evidence_gap_categories :: "string list" where
  "evidence_gap_categories = [''occurrence_overdue'', ''occurrence_missing_evidence'', ''evidence_stale'']"

definition testing_remediation_categories :: "string list" where
  "testing_remediation_categories =
     [''control_test_failed_no_finding'', ''finding_needs_attention'', ''finding_needs_retest'',
      ''control_missing_owner'', ''finding_missing_owner'', ''policy_review_overdue'']"

definition step_complete :: "string \<Rightarrow> onboarding_step list \<Rightarrow> bool result" where
  "step_complete key steps = (case find (\<lambda>x. ob_key x = key) steps of None \<Rightarrow> Inl (KeyError key) | Some x \<Rightarrow> Inr (ob_is_complete x))"

definition categories_hit :: "readiness_item list \<Rightarrow> string list \<Rightarrow> string list" where
  "categories_hit queue categories = filter (\<lambda>c. c \<in> rd_category ` set queue) categories"

definition compute_readiness_stage ::
  "evidence_sources \<Rightarrow> datetime \<Rightarrow> date \<Rightarrow> registers \<Rightarrow> (readiness_stage \<times> string) result" where
  "compute_readiness_stage so now today g =
     (if get_compliance_scope (rg_db g) = None
      then Inr (Scope_incomplete, ''No compliance scope has been defined yet.'')
      else (let steps = compute_onboarding_steps so g in
        rbind (step_complete ''starter_controls'' steps) (\<lambda>starters.
        if \<not> starters then Inr (Foundation_incomplete, ''Starter controls are not generated for every requirement yet.'')
        else rbind (step_complete ''assign_owners'' steps) (\<lambda>owners.
        if \<not> owners then Inr (Foundation_incomplete, ''One or more controls has no owner assigned.'')
        else rbind (step_complete ''operating_period'' steps) (\<lambda>period.
        if \<not> period then Inr (Operating_controls, ''No control period is active yet.'')
        else rbind (compute_readiness_queue now today (rg_db g) None) (\<lambda>queue.
          let evidence_gap_hit = categories_hit queue evidence_gap_categories;
              testing_hit = categories_hit queue testing_remediation_categories
          in if evidence_gap_hit \<noteq> []
             then Inr (Evidence_gaps, str_int (int (length evidence_gap_hit)) @ '' evidence-related gap category(ies) are open.'')
             else if testing_hit \<noteq> []
             then Inr (Testing_remediation_incomplete,
                       str_int (int (length testing_hit)) @ '' testing/remediation gap category(ies) are open.'')
             else Inr (Audit_package_ready, ''No outstanding readiness gaps were found.'')))))))"

section \<open>What the queue holds\<close>

lemma rmap_total: "(\<And>x. x \<in> set xs \<Longrightarrow> f x = Inr (g x)) \<Longrightarrow> rmap f xs = Inr (map g xs)"
  by (induction xs) simp_all

text \<open>A recorded test has its date: the column is not nullable.\<close>

definition tests_dated :: "db \<Rightarrow> bool" where
  "tests_dated s = list_all (\<lambda>t. ct_performed_at t \<noteq> None) (control_tests s)"

definition missing_item :: "control_occurrence \<Rightarrow> readiness_item" where
  "missing_item oc = item ''occurrence_missing_evidence''
     (''Performed '' @ date_isoformat (dt_date (the (oc_performed_at oc))) @ '' with no evidence linked'')
     (''/occurrences/'' @ oc_id oc) (Some (oc_control_id oc)) None"

definition stale_item :: "evidence_snapshot \<Rightarrow> readiness_item" where
  "stale_item e = item ''evidence_stale'' (''Expired '' @ date_isoformat (dt_date (the (es_expires_at e))))
     (''/evidence/'' @ es_id e) None (Some (dt_date (the (es_expires_at e))))"

definition failed_item :: "control_test \<Rightarrow> readiness_item" where
  "failed_item t = item ''control_test_failed_no_finding''
     (''Tested '' @ date_isoformat (dt_date (the (ct_performed_at t))) @ '' with exceptions noted, no finding opened'')
     (''/control-tests/'' @ ct_id t) (Some (ct_control_id t)) None"

definition all_items :: "datetime \<Rightarrow> date \<Rightarrow> db \<Rightarrow> readiness_item list" where
  "all_items now today s =
     compute_occurrence_items now s @
     map missing_item (filter (\<lambda>oc. oc_performed_at oc \<noteq> None \<and> \<not> has_evidence s oc) (control_occurrences s)) @
     map stale_item (filter (expired now) (evidence_snapshots s)) @
     map failed_item (filter (\<lambda>t. ct_result t = ''exceptions_noted'' \<and> \<not> has_finding s t) (control_tests s)) @
     compute_finding_items today s @ compute_control_missing_owner_items s @ compute_policy_review_overdue_items today s"

lemma readiness_items_total: "tests_dated s \<Longrightarrow> readiness_items now today s = Inr (all_items now today s)"
proof -
  assume "tests_dated s"
  have "compute_occurrence_missing_evidence_items s =
      Inr (map missing_item (filter (\<lambda>oc. oc_performed_at oc \<noteq> None \<and> \<not> has_evidence s oc) (control_occurrences s)))"
    unfolding compute_occurrence_missing_evidence_items_def by (rule rmap_total) (auto simp: date_of_def missing_item_def)
  moreover have "compute_evidence_stale_items now s = Inr (map stale_item (filter (expired now) (evidence_snapshots s)))"
    unfolding compute_evidence_stale_items_def
    by (rule rmap_total) (auto simp: date_of_def stale_item_def expired_def split: option.splits)
  moreover have "compute_control_test_failed_no_finding_items s =
      Inr (map failed_item (filter (\<lambda>t. ct_result t = ''exceptions_noted'' \<and> \<not> has_finding s t) (control_tests s)))"
    unfolding compute_control_test_failed_no_finding_items_def using \<open>tests_dated s\<close>
    by (intro rmap_total) (auto simp: date_of_def failed_item_def tests_dated_def list_all_iff)
  ultimately show ?thesis
    by (simp add: readiness_items_def all_items_def)
qed

lemma readiness_queue_total:
  "tests_dated s \<Longrightarrow> compute_readiness_queue now today s fr =
     Inr (sort_key readiness_sort_key (filter (matches_framework s fr) (all_items now today s)))"
  by (simp add: compute_readiness_queue_def readiness_items_total)

lemma matches_all [simp]: "matches_framework s None i"
  by (simp add: matches_framework_def)

text \<open>The names of the items of each part.\<close>

definition item_key :: "readiness_item \<Rightarrow> string \<times> string" where
  "item_key i = (rd_category i, rd_link i)"

lemma item_simps [simp]:
  "rd_category (item c r l k d) = c" "rd_link (item c r l k d) = l"
  "rd_control_id (item c r l k d) = k" "rd_due_on (item c r l k d) = d"
  by (simp_all add: item_def)

lemma derived_item_simps [simp]:
  "rd_category (missing_item oc) = ''occurrence_missing_evidence''" "rd_link (missing_item oc) = ''/occurrences/'' @ oc_id oc"
  "rd_category (stale_item e) = ''evidence_stale''" "rd_link (stale_item e) = ''/evidence/'' @ es_id e"
  "rd_category (failed_item t) = ''control_test_failed_no_finding''" "rd_link (failed_item t) = ''/control-tests/'' @ ct_id t"
  by (simp_all add: missing_item_def stale_item_def failed_item_def)

definition overdue :: "datetime \<Rightarrow> control_occurrence \<Rightarrow> bool" where
  "overdue now oc = (oc_performed_at oc = None \<and> (case oc_due_at oc of None \<Rightarrow> False | Some d \<Rightarrow> d < now))"

lemma occurrence_item_iff:
  "i \<in> set (compute_occurrence_items now s) \<longleftrightarrow>
     (\<exists>oc \<in> set (control_occurrences s). \<exists>d. oc_performed_at oc = None \<and> oc_due_at oc = Some d \<and> i \<in> set (due_item now oc d))"
  by (auto simp: compute_occurrence_items_def split: option.splits) metis

lemma due_item_cases:
  "i \<in> set (due_item now oc d) \<Longrightarrow> rd_category i = ''occurrence_overdue'' \<and> d < now \<or> rd_category i = ''occurrence_upcoming'' \<and> \<not> d < now"
  by (auto simp: due_item_def split: if_splits)

text \<open>Which categories occur, in terms of the rows.\<close>

lemma hit_iff:
  "categories_hit q cs \<noteq> [] \<longleftrightarrow> (\<exists>i \<in> set q. rd_category i \<in> set cs)"
  by (auto simp: categories_hit_def filter_empty_conv)

lemma evidence_gap_iff:
  "(\<exists>i \<in> set (all_items now today s). rd_category i \<in> set evidence_gap_categories) \<longleftrightarrow>
     (\<exists>oc \<in> set (control_occurrences s). overdue now oc \<or> (oc_performed_at oc \<noteq> None \<and> \<not> has_evidence s oc)) \<or>
     (\<exists>e \<in> set (evidence_snapshots s). expired now e)" (is "?l \<longleftrightarrow> ?r")
proof
  assume ?l
  then obtain i where i: "i \<in> set (all_items now today s)" "rd_category i \<in> set evidence_gap_categories" by blast
  show ?r
  proof (cases "i \<in> set (compute_occurrence_items now s)")
    case True
    then obtain oc d where "oc \<in> set (control_occurrences s)" "oc_performed_at oc = None" "oc_due_at oc = Some d" "d < now"
      using i(2) by (auto simp: occurrence_item_iff evidence_gap_categories_def dest: due_item_cases)
    then show ?thesis by (auto simp: overdue_def)
  next
    case False
    then show ?thesis
      using i by (auto simp: all_items_def evidence_gap_categories_def compute_finding_items_def
          compute_control_missing_owner_items_def compute_policy_review_overdue_items_def)
  qed
next
  assume ?r
  then consider oc where "oc \<in> set (control_occurrences s)" "overdue now oc"
    | oc where "oc \<in> set (control_occurrences s)" "oc_performed_at oc \<noteq> None" "\<not> has_evidence s oc"
    | e where "e \<in> set (evidence_snapshots s)" "expired now e" by blast
  then show ?l
  proof cases
    case 1
    then obtain d where "oc_performed_at oc = None" "oc_due_at oc = Some d" "d < now"
      by (auto simp: overdue_def split: option.splits)
    moreover have "\<exists>i \<in> set (due_item now oc d). rd_category i = ''occurrence_overdue''" if "d < now" for d
      using that by (simp add: due_item_def)
    ultimately obtain i where "i \<in> set (compute_occurrence_items now s)" "rd_category i = ''occurrence_overdue''"
      using 1(1) unfolding occurrence_item_iff by blast
    then show ?thesis by (auto simp: all_items_def evidence_gap_categories_def)
  next
    case 2
    then have "missing_item oc \<in> set (all_items now today s)" by (auto simp: all_items_def)
    then show ?thesis by (rule rev_bexI) (simp add: evidence_gap_categories_def)
  next
    case 3
    then have "stale_item e \<in> set (all_items now today s)" by (auto simp: all_items_def)
    then show ?thesis by (rule rev_bexI) (simp add: evidence_gap_categories_def)
  qed
qed

lemma testing_gap_iff:
  "(\<exists>i \<in> set (all_items now today s). rd_category i \<in> set testing_remediation_categories) \<longleftrightarrow>
     (\<exists>t \<in> set (control_tests s). ct_result t = ''exceptions_noted'' \<and> \<not> has_finding s t) \<or>
     (\<exists>f \<in> set (findings s). fi_status f \<noteq> FClosed) \<or>
     any_control_missing_owner s \<or> (\<exists>p \<in> set (policies s). review_overdue today p)" (is "?l \<longleftrightarrow> ?r")
proof -
  let ?hit = "\<lambda>is. \<exists>i \<in> set is. rd_category i \<in> set testing_remediation_categories"
  have "\<not> ?hit (compute_occurrence_items now s)"
    by (auto simp: occurrence_item_iff testing_remediation_categories_def dest!: due_item_cases)
  moreover have "?hit (compute_finding_items today s) \<longleftrightarrow> (\<exists>f \<in> set (findings s). fi_status f \<noteq> FClosed)"
  proof -
    have "fi_status f = FClosed \<or> fi_status f \<in> {Open, Remediating} \<or> fi_status f = Retesting" for f
      by (cases "fi_status f") auto
    moreover have "?hit (compute_finding_items today s) \<longleftrightarrow> (\<exists>f \<in> set (findings s). fi_status f \<in> {Open, Remediating} \<or>
        fi_status f = Retesting \<or> fi_status f \<noteq> FClosed \<and> fi_owner_person_id f = None)"
      by (simp add: compute_finding_items_def testing_remediation_categories_def bex_Un) blast
    ultimately show ?thesis by (metis finding_status.distinct(5) finding_status.distinct(9) finding_status.distinct(11) insertE singletonD)
  qed
  moreover have "?hit (compute_control_missing_owner_items s) \<longleftrightarrow> any_control_missing_owner s"
    by (auto simp: compute_control_missing_owner_items_def testing_remediation_categories_def any_control_missing_owner_def list_ex_iff)
  moreover have "?hit (compute_policy_review_overdue_items today s) \<longleftrightarrow> (\<exists>p \<in> set (policies s). review_overdue today p)"
    by (auto simp: compute_policy_review_overdue_items_def testing_remediation_categories_def)
  moreover have "\<not> ?hit (map missing_item occurrences)" "\<not> ?hit (map stale_item snapshots)" for occurrences snapshots
    by (auto simp: testing_remediation_categories_def)
  moreover have "?hit (map failed_item (filter P tests)) \<longleftrightarrow> (\<exists>t \<in> set tests. P t)" for P tests
    by (auto simp: testing_remediation_categories_def)
  ultimately show ?thesis
    unfolding all_items_def set_append bex_Un by (simp only: simp_thms)
qed

section \<open>What the stage means\<close>

text \<open>The state of a programme with nothing outstanding, in the words of the product.\<close>

definition nothing_outstanding :: "datetime \<Rightarrow> date \<Rightarrow> db \<Rightarrow> bool" where
  "nothing_outstanding now today s \<longleftrightarrow>
     (\<forall>oc \<in> set (control_occurrences s). \<not> overdue now oc \<and> (oc_performed_at oc = None \<or> has_evidence s oc)) \<and>
     (\<forall>e \<in> set (evidence_snapshots s). \<not> expired now e) \<and>
     (\<forall>t \<in> set (control_tests s). ct_result t = ''exceptions_noted'' \<longrightarrow> has_finding s t) \<and>
     (\<forall>f \<in> set (findings s). fi_status f = FClosed) \<and>
     (\<forall>p \<in> set (policies s). \<not> review_overdue today p)"

definition founded :: "db \<Rightarrow> bool" where
  "founded s \<longleftrightarrow>
     compliance_scopes s \<noteq> [] \<and>
     (\<exists>f. get_primary_framework s = Some f \<and> framework_fully_covered f s) \<and>
     internal_controls s \<noteq> [] \<and>
     (\<forall>c \<in> set (internal_controls s). ic_owner_person_id c \<noteq> None \<or> ic_owner c \<noteq> []) \<and>
     (\<exists>p \<in> set (control_periods s). cp_status p = Active)"

text \<open>The two halves of it, and the first thing missing.\<close>

definition evidence_complete :: "datetime \<Rightarrow> db \<Rightarrow> bool" where
  "evidence_complete now s \<longleftrightarrow>
     (\<forall>oc \<in> set (control_occurrences s). \<not> overdue now oc \<and> (oc_performed_at oc = None \<or> has_evidence s oc)) \<and>
     (\<forall>e \<in> set (evidence_snapshots s). \<not> expired now e)"

definition testing_complete :: "date \<Rightarrow> db \<Rightarrow> bool" where
  "testing_complete today s \<longleftrightarrow>
     (\<forall>t \<in> set (control_tests s). ct_result t = ''exceptions_noted'' \<longrightarrow> has_finding s t) \<and>
     (\<forall>f \<in> set (findings s). fi_status f = FClosed) \<and>
     (\<forall>p \<in> set (policies s). \<not> review_overdue today p)"

definition stage_of :: "datetime \<Rightarrow> date \<Rightarrow> db \<Rightarrow> readiness_stage" where
  "stage_of now today s =
     (if compliance_scopes s = [] then Scope_incomplete
      else if \<not> (\<exists>f. get_primary_framework s = Some f \<and> framework_fully_covered f s) then Foundation_incomplete
      else if internal_controls s = [] \<or> (\<exists>c \<in> set (internal_controls s). ic_owner_person_id c = None \<and> ic_owner c = [])
      then Foundation_incomplete
      else if (\<forall>p \<in> set (control_periods s). cp_status p \<noteq> Active) then Operating_controls
      else if \<not> evidence_complete now s then Evidence_gaps
      else if \<not> testing_complete today s then Testing_remediation_incomplete
      else Audit_package_ready)"

lemma nothing_outstanding_split:
  "nothing_outstanding now today s \<longleftrightarrow> evidence_complete now s \<and> testing_complete today s"
  unfolding nothing_outstanding_def evidence_complete_def testing_complete_def by blast

lemma step_complete_onboarding:
  "step_complete ''starter_controls'' (compute_onboarding_steps so g) =
     Inr (\<exists>f. get_primary_framework (rg_db g) = Some f \<and> framework_fully_covered f (rg_db g))"
  "step_complete ''assign_owners'' (compute_onboarding_steps so g) =
     Inr (internal_controls (rg_db g) \<noteq> [] \<and> \<not> any_control_missing_owner (rg_db g))"
  "step_complete ''operating_period'' (compute_onboarding_steps so g) =
     Inr (\<exists>p \<in> set (control_periods (rg_db g)). cp_status p = Active)"
  by (auto simp: step_complete_def compute_onboarding_steps_def Let_def list_ex_iff split: option.splits)

lemma get_compliance_scope_None: "get_compliance_scope s = None \<longleftrightarrow> compliance_scopes s = []"
  by (simp add: get_compliance_scope_def split: list.splits)

lemma owners_iff:
  "(\<forall>c \<in> set (internal_controls s). ic_owner_person_id c \<noteq> None \<or> ic_owner c \<noteq> []) \<longleftrightarrow> \<not> any_control_missing_owner s"
  by (auto simp: any_control_missing_owner_def list_ex_iff)

lemma gaps_iff:
  "nothing_outstanding now today s \<and> \<not> any_control_missing_owner s \<longleftrightarrow>
     \<not> (\<exists>i \<in> set (all_items now today s). rd_category i \<in> set evidence_gap_categories) \<and>
     \<not> (\<exists>i \<in> set (all_items now today s). rd_category i \<in> set testing_remediation_categories)"
  unfolding evidence_gap_iff testing_gap_iff nothing_outstanding_def by auto

lemma gap_parts_iff:
  "(\<exists>i \<in> set (all_items now today s). rd_category i \<in> set evidence_gap_categories) \<longleftrightarrow> \<not> evidence_complete now s"
  "\<not> any_control_missing_owner s \<Longrightarrow>
     (\<exists>i \<in> set (all_items now today s). rd_category i \<in> set testing_remediation_categories) \<longleftrightarrow> \<not> testing_complete today s"
  unfolding evidence_gap_iff testing_gap_iff evidence_complete_def testing_complete_def by auto

text \<open>
  C34. The stage names the first thing missing. Where every test has its date, the stage is
  always computed, and it is: scope incomplete without a declared scope; then foundation
  incomplete while a requirement of the primary framework has no control, or there is no
  control, or one without an owner; then operating controls while no period is active; then
  evidence gaps while an occurrence was missed or performed without evidence or a snapshot has
  expired; then testing and remediation incomplete while a test with exceptions has no finding,
  a finding is not closed or a policy review is overdue; and audit-package ready when nothing of
  all that is missing.
\<close>

theorem readiness_stage_exact:
  assumes "tests_dated (rg_db g)"
  shows "\<exists>stage reason. compute_readiness_stage so now today g = Inr (stage, reason) \<and>
    stage =
      (if compliance_scopes (rg_db g) = [] then Scope_incomplete
       else if \<not> (\<exists>f. get_primary_framework (rg_db g) = Some f \<and> framework_fully_covered f (rg_db g)) then Foundation_incomplete
       else if internal_controls (rg_db g) = [] \<or>
         (\<exists>c \<in> set (internal_controls (rg_db g)). ic_owner_person_id c = None \<and> ic_owner c = []) then Foundation_incomplete
       else if (\<forall>p \<in> set (control_periods (rg_db g)). cp_status p \<noteq> Active) then Operating_controls
       else if \<not> evidence_complete now (rg_db g) then Evidence_gaps
       else if \<not> testing_complete today (rg_db g) then Testing_remediation_incomplete
       else Audit_package_ready) \<and>
    (stage = Audit_package_ready \<longleftrightarrow> founded (rg_db g) \<and> nothing_outstanding now today (rg_db g))"
proof -
  have owners: "any_control_missing_owner (rg_db g) \<longleftrightarrow>
      (\<exists>c \<in> set (internal_controls (rg_db g)). ic_owner_person_id c = None \<and> ic_owner c = [])"
    by (simp add: any_control_missing_owner_def list_ex_iff)
  obtain covered where covered: "covered \<longleftrightarrow> (\<exists>f. get_primary_framework (rg_db g) = Some f \<and> framework_fully_covered f (rg_db g))"
    by blast
  obtain active where active: "active \<longleftrightarrow> (\<exists>p \<in> set (control_periods (rg_db g)). cp_status p = Active)"
    by blast
  have idle: "(\<forall>p \<in> set (control_periods (rg_db g)). cp_status p \<noteq> Active) \<longleftrightarrow> \<not> active"
    using active by blast
  obtain queue where queue: "compute_readiness_queue now today (rg_db g) None = Inr queue"
    and items: "set queue = set (all_items now today (rg_db g))"
    using readiness_queue_total [OF assms] by simp
  have evidence: "categories_hit queue evidence_gap_categories = [] \<longleftrightarrow> evidence_complete now (rg_db g)"
    using hit_iff [of queue evidence_gap_categories] gap_parts_iff(1) [of now today "rg_db g"] items by simp
  have testing: "categories_hit queue testing_remediation_categories = [] \<longleftrightarrow> testing_complete today (rg_db g)"
    if "\<not> any_control_missing_owner (rg_db g)"
    using hit_iff [of queue testing_remediation_categories] gap_parts_iff(2) [OF that, of now today] items by simp
  have exact: "\<exists>stage reason. compute_readiness_stage so now today g = Inr (stage, reason) \<and> stage = stage_of now today (rg_db g)"
    unfolding compute_readiness_stage_def step_complete_onboarding get_compliance_scope_None Let_def queue stage_of_def
      owners [symmetric] covered [symmetric] active [symmetric] idle
    using testing by (cases "any_control_missing_owner (rg_db g)") (simp_all add: evidence)
  moreover have "stage_of now today (rg_db g) = Audit_package_ready \<longleftrightarrow>
      founded (rg_db g) \<and> nothing_outstanding now today (rg_db g)"
    unfolding stage_of_def founded_def nothing_outstanding_split by auto
  ultimately show ?thesis
    unfolding stage_of_def by blast
qed

text \<open>
  A framework filter only narrows. The queue of a framework is the unfiltered queue with
  the items of other frameworks' controls left out, in the same order; both are ordered by due
  date, the undated last.
\<close>

theorem readiness_filter_narrows:
  assumes "compute_readiness_queue now today s None = Inr queue"
  shows "compute_readiness_queue now today s framework_id = Inr (filter (matches_framework s framework_id) queue) \<and>
    sorted (map readiness_sort_key queue)"
proof -
  obtain items where "readiness_items now today s = Inr items" "queue = sort_key readiness_sort_key items"
    using assms by (auto simp: compute_readiness_queue_def)
  then show ?thesis
    by (simp add: compute_readiness_queue_def filter_sort)
qed

text \<open>A programme that has everything.\<close>

definition demo_scope :: compliance_scope where
  "demo_scope =
     \<lparr>cs_id = ''s'', cs_service_description = ''hosting'', cs_trust_service_categories = ''security'',
      cs_audit_period_starts_on = Some (Date 2026 1 1), cs_audit_period_ends_on = Some (Date 2026 12 31), cs_data_categories = [],
      cs_locations = [], cs_exclusions = [], cs_exclusions_rationale = [], cs_revision = 1, cs_created_at = noon, cs_updated_at = noon\<rparr>"

definition demo_founded :: registers where
  "demo_founded = \<lparr>rg_db = empty_db\<lparr>compliance_scopes := [demo_scope],
       frameworks := [(demo_framework ''f1'')\<lparr>fw_is_primary := True\<rparr>],
       framework_requirements := [\<lparr>fr_id = ''r'', fr_framework_id = ''f1'', fr_reference_code = ''CC1'', fr_title = [], fr_summary = [],
         fr_display_order = 0\<rparr>],
       internal_controls := [demo_control\<lparr>ic_owner := ''ada''\<rparr>],
       control_requirement_mappings := [\<lparr>crm_control_id = ''c'', crm_requirement_id = ''r''\<rparr>],
       control_periods := [demo_period],
       control_occurrences := [(demo_occurrence ''o'')\<lparr>oc_performed_at := None, oc_due_at := Some (Datetime (Date 2026 9 1) 0)\<rparr>]\<rparr>,
     rg_user_ids = [], vendor_systems = [], vendor_user_snapshots = [], vendor_user_snapshot_rows = [], risks = [], import_jobs = []\<rparr>"

definition no_sources :: evidence_sources where
  "no_sources = \<lparr>so_evidence_repository_configured = False, so_google_drive_connection = False, so_aws_connection = False,
     so_external_connection = False\<rparr>"

theorem readiness_stage_exact_witness:
  "\<exists>reason. compute_readiness_stage no_sources (Datetime (Date 2026 8 20) 0) (Date 2026 8 20) demo_founded =
     Inr (Audit_package_ready, reason)"
proof -
  have "tests_dated (rg_db demo_founded)"
    by (simp add: tests_dated_def demo_founded_def empty_db_def)
  moreover have "founded (rg_db demo_founded)"
    by (simp add: founded_def demo_founded_def empty_db_def get_primary_framework_def demo_framework_def framework_fully_covered_def
        requirement_mapped_def demo_control_def demo_period_def)
  moreover have "nothing_outstanding (Datetime (Date 2026 8 20) 0) (Date 2026 8 20) (rg_db demo_founded)"
    by (simp add: nothing_outstanding_def demo_founded_def empty_db_def overdue_def demo_occurrence_def datetime_less_iff date_less_iff)
  ultimately show ?thesis
    using readiness_stage_exact [of demo_founded no_sources "Datetime (Date 2026 8 20) 0" "Date 2026 8 20"] by auto
qed

section \<open>One item for one fact\<close>

lemma occurrence_links_aux:
  "map rd_link (concat (map (\<lambda>oc. case oc_due_at oc of None \<Rightarrow> [] | Some due_at \<Rightarrow> due_item now oc due_at) ocs)) =
     map (\<lambda>oc. ''/occurrences/'' @ oc_id oc)
       (filter (\<lambda>oc. case oc_due_at oc of None \<Rightarrow> False | Some d \<Rightarrow> due_item now oc d \<noteq> []) ocs)"
  by (induction ocs) (auto simp: due_item_def split: option.splits)

lemma distinct_links:
  "unique_by key rows \<Longrightarrow> distinct (map (\<lambda>r. pre @ key r) (filter P rows))"
  by (auto simp: unique_by_def distinct_map inj_on_def)

lemma distinct_map_append:
  "distinct (map k xs) \<Longrightarrow> distinct (map k ys) \<Longrightarrow> (\<And>x y. x \<in> set xs \<Longrightarrow> y \<in> set ys \<Longrightarrow> k x \<noteq> k y) \<Longrightarrow> distinct (map k (xs @ ys))"
  by auto

lemma distinct_item_keys: "distinct (map rd_link items) \<Longrightarrow> distinct (map item_key items)"
  by (induction items) (auto simp: item_key_def)

text \<open>
  Where the ids of the rows are unique, no two items of the queue have the same category and
  link: the same fact is not reported twice.
\<close>

lemma item_part_distinct:
  assumes "unique_by key rows" "\<And>x. rd_link (f x) = pre @ key x"
  shows "distinct (map item_key (map f (filter P rows)))"
proof (rule distinct_item_keys)
  show "distinct (map rd_link (map f (filter P rows)))"
    using distinct_links [OF assms(1), of pre P] by (simp add: comp_def assms(2))
qed

theorem readiness_no_duplicates:
  assumes "unique_by oc_id (control_occurrences s)" "unique_by es_id (evidence_snapshots s)" "unique_by ct_id (control_tests s)"
    "unique_by fi_id (findings s)" "unique_by ic_id (internal_controls s)" "unique_by po_id (policies s)" "tests_dated s"
  shows "\<exists>queue. compute_readiness_queue now today s framework_id = Inr queue \<and> distinct (map item_key queue)"
proof -
  note part = item_part_distinct
  have occ: "distinct (map item_key (compute_occurrence_items now s))"
    unfolding compute_occurrence_items_def
    by (rule distinct_item_keys, unfold occurrence_links_aux filter_filter, rule distinct_links [OF assms(1)])
  have find: "distinct (map item_key (compute_finding_items today s))"
    unfolding compute_finding_items_def
    by (intro distinct_map_append part [OF assms(4), where pre = "''/findings/''"]) (auto simp: item_key_def)
  have own: "distinct (map item_key (compute_control_missing_owner_items s))"
    unfolding compute_control_missing_owner_items_def by (intro part [OF assms(5), where pre = "''/controls/''"]) simp
  have pol: "distinct (map item_key (compute_policy_review_overdue_items today s))"
    unfolding compute_policy_review_overdue_items_def by (intro part [OF assms(6), where pre = "''/policies/''"]) simp
  have cats: "i \<in> set (compute_occurrence_items now s) \<Longrightarrow> rd_category i \<in> {''occurrence_overdue'', ''occurrence_upcoming''}"
    "i \<in> set (compute_finding_items today s) \<Longrightarrow> rd_category i \<in> {''finding_needs_attention'', ''finding_needs_retest'', ''finding_missing_owner''}"
    "i \<in> set (compute_control_missing_owner_items s) \<Longrightarrow> rd_category i = ''control_missing_owner''"
    "i \<in> set (compute_policy_review_overdue_items today s) \<Longrightarrow> rd_category i = ''policy_review_overdue''" for i
    by (auto simp: occurrence_item_iff compute_finding_items_def compute_control_missing_owner_items_def
        compute_policy_review_overdue_items_def dest: due_item_cases)
  have all: "distinct (map item_key (all_items now today s))"
    unfolding all_items_def
    by (intro distinct_map_append occ find own pol part [OF assms(1), where pre = "''/occurrences/''"]
        part [OF assms(2), where pre = "''/evidence/''"] part [OF assms(3), where pre = "''/control-tests/''"])
      (auto simp: item_key_def dest!: cats)
  have "distinct (map item_key (sort_key readiness_sort_key (filter P (all_items now today s))))" for P
    using all by (auto simp: distinct_map distinct_filter intro: inj_on_subset)
  then show ?thesis
    by (simp add: readiness_queue_total [OF assms(7)])
qed

section \<open>A failed retest\<close>

text \<open>
  A retest with exceptions is a test with exceptions of its own, and its finding is the one of the
  test it repeats. The queue asks for another: after the finding is closed by a passing retest,
  the failed one still keeps the programme from its last stage.
\<close>

definition demo_retests :: "test_request list" where
  "demo_retests =
     demo_tests @
     [Record_test (demo_tick 3) ''t3'' ''c'' None None (Some ''t1'') (demo_test_args\<lparr>tt_exceptions := []\<rparr>) ''user'' None]"

definition demo_retest_calls :: "finding_call list" where
  "demo_retest_calls =
     [demo_call 4 (Open_finding ''f'' demo_finding_args), demo_call 5 (Update_finding ''f'' ''fixing'' None),
      demo_call 6 (Request_retest ''f''), demo_call 7 (Record_retest ''f'' ''t3''),
      demo_call 8 (Update_finding ''f'' ''fixing again'' None), demo_call 9 (Request_retest ''f''),
      demo_call 10 (Record_retest ''f'' ''t2''), demo_call 11 (Close_finding ''f'' ''remediated_and_retested'' [])]"

lemma failed_retest_blocks:
  "case rbind (rfold (\<lambda>s r. test_exec r s) demo_retests demo_assurance_db) (rfold (\<lambda>s c. finding_exec c s) demo_retest_calls) of
     Inl _ \<Rightarrow> False
   | Inr s \<Rightarrow> map fi_status (findings s) = [FClosed] \<and>
       (case compute_readiness_queue (Datetime (Date 2026 8 20) 0) (Date 2026 8 20) s None of
          Inl _ \<Rightarrow> False
        | Inr queue \<Rightarrow> map (\<lambda>i. (rd_category i, rd_link i)) (filter (\<lambda>i. rd_category i = ''control_test_failed_no_finding'') queue) =
            [(''control_test_failed_no_finding'', ''/control-tests/t3'')])"
  by code_simp

end
