(* ===== verification/Audit_Package.thy ===== *)
theory Audit_Package
  imports Connector_Contract Readiness Policy_Lifecycle
begin

text \<open>
  \<open>src/app/audit_package.py\<close> and \<open>src/app/routers/audit_package.py\<close>: the export of the records of
  an audit period as an archive with a manifest. The archive is the list of its members (what
  \<open>zipfile\<close> makes of them is left out), the object store and SHA-256 are parameters as in
  \<open>Evidence_Repository\<close>, the stored policy files are a map from paths, and the rows of
  \<open>policy_control_mappings\<close> are an argument. Rows come back from the database without a time
  zone, so their instants are printed without an offset.
\<close>

section \<open>The text of a JSON document\<close>

text \<open>\<open>json.dumps(value, indent=2)\<close> at a nesting depth.\<close>

definition newline :: "nat \<Rightarrow> string" where
  "newline depth = CHR 0x0A # replicate (2 * depth) CHR '' ''"

fun joined_with :: "string \<Rightarrow> string list \<Rightarrow> string" where
  "joined_with sep [] = []"
| "joined_with sep [x] = x"
| "joined_with sep (x # y # xs) = x @ sep @ joined_with sep (y # xs)"

fun dumps_indent :: "nat \<Rightarrow> json \<Rightarrow> string" where
  "dumps_indent n JNull = ''null''"
| "dumps_indent n (JBool b) = (if b then ''true'' else ''false'')"
| "dumps_indent n (JInt i) = str_int i"
| "dumps_indent n (JStr s) = json_string s"
| "dumps_indent n (JArr xs) =
     (if xs = [] then ''[]''
      else ''['' @ newline (Suc n) @ joined_with ('','' @ newline (Suc n)) (map (dumps_indent (Suc n)) xs) @ newline n @ '']'')"
| "dumps_indent n (JObj kvs) =
     (if kvs = [] then ''{}''
      else ''{'' @ newline (Suc n) @
           joined_with ('','' @ newline (Suc n)) (map (\<lambda>(k, v). json_string k @ '': '' @ dumps_indent (Suc n) v) kvs) @
           newline n @ ''}'')"

section \<open>The period\<close>

definition in_range :: "date \<Rightarrow> date \<Rightarrow> datetime option \<Rightarrow> bool" where
  "in_range start end_on t = (case t of None \<Rightarrow> False | Some t \<Rightarrow> start \<le> dt_date t \<and> dt_date t \<le> end_on)"

definition occurrence_in_period :: "date \<Rightarrow> date \<Rightarrow> control_occurrence \<Rightarrow> bool" where
  "occurrence_in_period start end_on oc = (in_range start end_on (oc_due_at oc) \<or> in_range start end_on (oc_performed_at oc))"

text \<open>\<open>performed_at\<close> of a test is read without a check; the column is not nullable.\<close>

definition test_in_period :: "date \<Rightarrow> date \<Rightarrow> control_test \<Rightarrow> bool result" where
  "test_in_period start end_on t = rbind (date_of (ct_performed_at t)) (\<lambda>d. Inr (start \<le> d \<and> d \<le> end_on))"

fun rfilter :: "('a \<Rightarrow> bool result) \<Rightarrow> 'a list \<Rightarrow> 'a list result" where
  "rfilter p [] = Inr []"
| "rfilter p (x # xs) = rbind (p x) (\<lambda>keep. rbind (rfilter p xs) (\<lambda>ys. Inr (if keep then x # ys else ys)))"

definition policy_version_in_period :: "date \<Rightarrow> date \<Rightarrow> policy_version \<Rightarrow> bool" where
  "policy_version_in_period start end_on v =
     (case lc_effective_at (pv_lc v) of None \<Rightarrow> False
      | Some e \<Rightarrow> dt_date e \<le> end_on \<and>
          (case lc_superseded_at (pv_lc v) of None \<Rightarrow> True | Some t \<Rightarrow> start \<le> dt_date t))"

definition policy_versions_for_period :: "date \<Rightarrow> date \<Rightarrow> db \<Rightarrow> policy \<Rightarrow> policy_version list" where
  "policy_versions_for_period start end_on s p =
     filter (policy_version_in_period start end_on) (policy_versions_desc (po_id p) s)"

definition finding_in_period :: "date \<Rightarrow> date \<Rightarrow> string set \<Rightarrow> finding \<Rightarrow> bool" where
  "finding_in_period start end_on in_period_test_ids f =
     ((case fi_source_test_id f of None \<Rightarrow> False | Some t \<Rightarrow> t \<in> in_period_test_ids) \<or>
      (start \<le> dt_date (fi_created_at f) \<and> dt_date (fi_created_at f) \<le> end_on) \<or> fi_status f \<noteq> FClosed)"

section \<open>Documents\<close>

definition iso_datetime :: "datetime option \<Rightarrow> json" where
  "iso_datetime v = jopt (map_option (\<lambda>t. date_isoformat (dt_date t) @ ''T'' @ time_isoformat (dt_micros t)) v)"

definition jint_opt :: "int option \<Rightarrow> json" where
  "jint_opt v = (case v of None \<Rightarrow> JNull | Some i \<Rightarrow> JInt i)"

definition jstrs :: "string list \<Rightarrow> json" where
  "jstrs xs = JArr (map JStr xs)"

definition serialize_scope :: "compliance_scope \<Rightarrow> json" where
  "serialize_scope r =
     JObj [(''service_description'', JStr (cs_service_description r)),
       (''trust_service_categories'', jstrs (split_comma (cs_trust_service_categories r))),
       (''audit_period_starts_on'', jdate (cs_audit_period_starts_on r)),
       (''audit_period_ends_on'', jdate (cs_audit_period_ends_on r)),
       (''data_categories'', JStr (cs_data_categories r)), (''locations'', JStr (cs_locations r)),
       (''exclusions'', JStr (cs_exclusions r)), (''exclusions_rationale'', JStr (cs_exclusions_rationale r)),
       (''revision'', JInt (cs_revision r))]"

definition serialize_frameworks :: "db \<Rightarrow> json" where
  "serialize_frameworks s =
     JArr (map (\<lambda>f. JObj [(''id'', JStr (fw_id f)), (''name'', JStr (fw_name f)), (''version'', JStr (fw_version f)),
         (''is_primary'', JBool (fw_is_primary f)), (''catalog_key'', jopt (fw_catalog_key f)),
         (''requirements'', JArr (map (\<lambda>r. JObj [(''id'', JStr (fr_id r)), (''reference_code'', JStr (fr_reference_code r)),
            (''title'', JStr (fr_title r)), (''summary'', JStr (fr_summary r))]) (framework_requirements_of (fw_id f) s)))])
       (filter fw_is_active (frameworks s)))"

definition requirement_ids_of_control :: "string \<Rightarrow> db \<Rightarrow> string list" where
  "requirement_ids_of_control c s =
     map crm_requirement_id (filter (\<lambda>m. crm_control_id m = c) (control_requirement_mappings s))"

definition serialize_controls :: "db \<Rightarrow> json" where
  "serialize_controls s =
     JArr (map (\<lambda>c. JObj [(''id'', JStr (ic_id c)), (''name'', JStr (ic_name c)), (''description'', JStr (ic_description c)),
         (''owner'', JStr (ic_owner c)), (''owner_person_id'', jopt (ic_owner_person_id c)), (''status'', JStr (ic_status c)),
         (''cadence_type'', jopt (ic_cadence_type c)), (''cadence_interval_months'', jint_opt (ic_cadence_interval_months c)),
         (''mapped_requirement_ids'', jstrs (requirement_ids_of_control (ic_id c) s))]) (internal_controls s))"

definition snapshot_links :: "db \<Rightarrow> control_occurrence \<Rightarrow> string list" where
  "snapshot_links s oc =
     map oe_evidence_snapshot_id (filter (\<lambda>l. oe_occurrence_id l = oc_id oc) (control_occurrence_evidence_rows s))"

definition artifact_links :: "db \<Rightarrow> control_occurrence \<Rightarrow> string list" where
  "artifact_links s oc =
     map oa_evidence_artifact_version_id (filter (\<lambda>l. oa_occurrence_id l = oc_id oc) (control_occurrence_evidence_artifacts s))"

definition test_links :: "db \<Rightarrow> control_test \<Rightarrow> string list" where
  "test_links s t =
     map ta_evidence_artifact_version_id (filter (\<lambda>l. ta_test_id l = ct_id t) (control_test_evidence_artifacts s))"

fun origin_text :: "occurrence_origin \<Rightarrow> string" where
  "origin_text Generated = ''generated''"
| "origin_text Manual = ''manual''"

fun finding_status_text :: "finding_status \<Rightarrow> string" where
  "finding_status_text Open = ''open''"
| "finding_status_text Remediating = ''remediating''"
| "finding_status_text Retesting = ''retesting''"
| "finding_status_text FClosed = ''closed''"

fun lifecycle_text :: "lifecycle_status \<Rightarrow> string" where
  "lifecycle_text Draft = ''draft''"
| "lifecycle_text In_review = ''in_review''"
| "lifecycle_text Approved = ''approved''"
| "lifecycle_text Effective = ''effective''"
| "lifecycle_text Superseded = ''superseded''"
| "lifecycle_text Withdrawn = ''withdrawn''"

definition serialize_occurrences :: "control_occurrence list \<Rightarrow> db \<Rightarrow> json" where
  "serialize_occurrences occurrences s =
     JArr (map (\<lambda>oc. JObj [(''id'', JStr (oc_id oc)), (''control_id'', JStr (oc_control_id oc)),
         (''control_period_id'', jopt (oc_control_period_id oc)), (''origin'', JStr (origin_text (oc_origin oc))),
         (''due_at'', iso_datetime (oc_due_at oc)), (''performed_at'', iso_datetime (oc_performed_at oc)),
         (''performed_by_person_id'', jopt (oc_performed_by_person_id oc)), (''scope_note'', JStr (oc_scope_note oc)),
         (''evidence_note'', JStr (oc_evidence_note oc)), (''linked_evidence_snapshot_ids'', jstrs (snapshot_links s oc)),
         (''linked_evidence_artifact_version_ids'', jstrs (artifact_links s oc))]) occurrences)"

definition serialize_tests :: "control_test list \<Rightarrow> db \<Rightarrow> json" where
  "serialize_tests tests s =
     JArr (map (\<lambda>t. JObj [(''id'', JStr (ct_id t)), (''control_id'', JStr (ct_control_id t)),
         (''control_period_id'', jopt (ct_control_period_id t)), (''sample_id'', jopt (ct_sample_id t)),
         (''procedure_description'', JStr (ct_procedure_description t)), (''tester_person_id'', JStr (ct_tester_person_id t)),
         (''performed_at'', iso_datetime (ct_performed_at t)), (''result'', JStr (ct_result t)), (''notes'', JStr (ct_notes t)),
         (''retest_of_test_id'', jopt (ct_retest_of_test_id t)),
         (''exceptions'', JArr (map (\<lambda>e. JObj [(''sample_item_id'', jopt (te_sample_item_id e)),
            (''description'', JStr (te_description e))]) (filter (\<lambda>e. te_test_id e = ct_id t) (control_test_exceptions s)))),
         (''linked_evidence_artifact_version_ids'', jstrs (test_links s t))]) tests)"

definition serialize_findings :: "finding list \<Rightarrow> db \<Rightarrow> json" where
  "serialize_findings fs s =
     JArr (map (\<lambda>f. JObj [(''id'', JStr (fi_id f)), (''title'', JStr (fi_title f)), (''description'', JStr (fi_description f)),
         (''severity'', JStr (fi_severity f)), (''status'', JStr (finding_status_text (fi_status f))),
         (''control_id'', jopt (fi_control_id f)), (''source_test_id'', jopt (fi_source_test_id f)),
         (''owner_person_id'', jopt (fi_owner_person_id f)), (''due_date'', jdate (fi_due_date f)),
         (''closure_decision'', jopt (fi_closure_decision f)), (''closure_note'', JStr (fi_closure_note f)),
         (''created_at'', iso_datetime (Some (fi_created_at f))),
         (''remediation_updates'', JArr (map (\<lambda>u. JObj [(''note'', JStr (fu_note u)), (''actor'', JStr (fu_actor u)),
            (''created_at'', iso_datetime (Some (fu_created_at u)))])
            (sort_key fu_created_at (filter (\<lambda>u. fu_finding_id u = fi_id f) (finding_remediation_updates s))))),
         (''retest_test_ids'', jstrs (map ft_test_id (filter (\<lambda>r. ft_finding_id r = fi_id f) (finding_retests s))))]) fs)"

definition serialize_snapshots :: "evidence_snapshot list \<Rightarrow> json" where
  "serialize_snapshots es =
     JArr (map (\<lambda>e. JObj [(''id'', JStr (es_id e)), (''source_type'', JStr (es_source_type e)), (''check_key'', JStr (es_check_key e)),
         (''status'', JStr (es_status e)), (''title'', JStr (es_title e)), (''summary'', JStr (es_summary e)),
         (''collected_at'', iso_datetime (Some (es_collected_at e))),
         (''raw_payload_sha256'', JStr (es_raw_payload_sha256 e))]) es)"

definition serialize_policy :: "(string \<times> string) list \<Rightarrow> policy \<Rightarrow> policy_version list \<Rightarrow> json" where
  "serialize_policy policy_control_mappings p versions =
     JObj [(''id'', JStr (po_id p)), (''title'', JStr (po_title p)), (''owner'', JStr (po_owner p)),
       (''mapped_control_ids'', jstrs (map snd (filter (\<lambda>m. fst m = po_id p) policy_control_mappings))),
       (''versions'', JArr (map (\<lambda>v. JObj [(''version_number'', JInt (pv_version_number v)),
          (''lifecycle_status'', JStr (lifecycle_text (lc_status (pv_lc v)))),
          (''effective_at'', iso_datetime (lc_effective_at (pv_lc v))),
          (''superseded_at'', iso_datetime (lc_superseded_at (pv_lc v))), (''sha256'', JStr (pv_sha256 v))]) versions))]"

section \<open>The archive\<close>

record manifest_entry =
  me_path :: string
  me_sha256 :: string
  me_byte_size :: nat

record archive =
  ar_members :: "(string \<times> string) list"
  ar_entries :: "manifest_entry list"

record 's3 package_env =
  ak_client :: "'s3 s3_client"
  ak_bucket :: string
  ak_configured :: bool
  ak_files :: files
  ak_data_dir :: string
  ak_sha256 :: "string \<Rightarrow> string"
  ak_policy_control_mappings :: "(string \<times> string) list"
  ak_generated_at :: datetime

definition write_member :: "(string \<Rightarrow> string) \<Rightarrow> string \<Rightarrow> string \<Rightarrow> archive \<Rightarrow> archive" where
  "write_member sha256 path content ar =
     \<lparr>ar_members = ar_members ar @ [(path, content)],
      ar_entries = ar_entries ar @ [\<lparr>me_path = path, me_sha256 = sha256 content, me_byte_size = length content\<rparr>]\<rparr>"

definition write_json :: "(string \<Rightarrow> string) \<Rightarrow> string \<Rightarrow> json \<Rightarrow> archive \<Rightarrow> archive" where
  "write_json sha256 path payload = write_member sha256 path (dumps_indent 0 payload)"

definition evidence_path :: "evidence_artifact_version \<Rightarrow> string" where
  "evidence_path v = ''evidence/'' @ av_artifact_id v @ ''/'' @ av_id v @ ''-'' @ av_original_filename v"

definition policy_path :: "policy \<Rightarrow> policy_version \<Rightarrow> string" where
  "policy_path p v = ''policies/'' @ po_id p @ ''/version-'' @ str_int (pv_version_number v) @ ''-'' @ pv_original_filename v"

definition add_evidence :: "'s3 package_env \<Rightarrow> 's3 \<Rightarrow> archive \<Rightarrow> evidence_artifact_version \<Rightarrow> archive result" where
  "add_evidence env b ar v =
     (case download_object (ak_client env) (ak_bucket env) (av_object_key v) b of
        Inl _ \<Rightarrow> Inl (AuditPackageError ''Evidence artifact version could not be retrieved'')
      | Inr content \<Rightarrow>
          if ak_sha256 env content \<noteq> av_sha256 v
          then Inl (AuditPackageError ''Evidence artifact version failed integrity verification'')
          else Inr (write_member (ak_sha256 env) (evidence_path v) content ar))"

definition add_policy_version :: "'s3 package_env \<Rightarrow> policy \<Rightarrow> archive \<Rightarrow> policy_version \<Rightarrow> archive result" where
  "add_policy_version env p ar v =
     (case ak_files env (policy_version_path (ak_data_dir env) (po_id p) (pv_version_number v) (pv_stored_filename v)) of
        None \<Rightarrow> Inl (AuditPackageError ''Policy version is missing its stored file'')
      | Some content \<Rightarrow>
          if ak_sha256 env content \<noteq> pv_sha256 v
          then Inl (AuditPackageError ''Policy version failed integrity verification'')
          else Inr (write_member (ak_sha256 env) (policy_path p v) content ar))"

text \<open>The evidence versions that the occurrences and tests of the period link.\<close>

definition linked_version_ids :: "db \<Rightarrow> control_occurrence list \<Rightarrow> control_test list \<Rightarrow> string set" where
  "linked_version_ids s occurrences tests =
     set (concat (map (artifact_links s) occurrences)) \<union> set (concat (map (test_links s) tests))"

definition add_evidence_versions ::
  "'s3 package_env \<Rightarrow> 's3 \<Rightarrow> db \<Rightarrow> string set \<Rightarrow> archive \<Rightarrow> archive result" where
  "add_evidence_versions env b s ids ar =
     (if ids = {} then Inr ar
      else if \<not> ak_configured env then Inl (AuditPackageError ''the evidence repository is not configured'')
      else rfold (add_evidence env b) (filter (\<lambda>v. av_id v \<in> ids) (evidence_artifact_versions s)) ar)"

definition add_policies :: "'s3 package_env \<Rightarrow> date \<Rightarrow> date \<Rightarrow> db \<Rightarrow> archive \<Rightarrow> archive result" where
  "add_policies env start end_on s ar =
     rfold (\<lambda>ar p. rfold (add_policy_version env p) (policy_versions_for_period start end_on s p) ar) (policies s) ar"

definition policy_summaries :: "'s3 package_env \<Rightarrow> date \<Rightarrow> date \<Rightarrow> db \<Rightarrow> json" where
  "policy_summaries env start end_on s =
     JArr (map (\<lambda>p. serialize_policy (ak_policy_control_mappings env) p (policy_versions_for_period start end_on s p))
       (filter (\<lambda>p. policy_versions_for_period start end_on s p \<noteq> []) (policies s)))"

definition disclaimer :: string where
  "disclaimer = ''This package is a factual export of miniGRC's authoritative compliance records. It is not an auditor's opinion, attestation, or certification of compliance.''"

definition manifest_json :: "'s3 package_env \<Rightarrow> string \<Rightarrow> date \<Rightarrow> date \<Rightarrow> manifest_entry list \<Rightarrow> json" where
  "manifest_json env actor_email start end_on entries =
     JObj [(''generated_at'', JStr (datetime_isoformat (ak_generated_at env))), (''generated_by'', JStr actor_email),
       (''audit_period_starts_on'', jdate (Some start)), (''audit_period_ends_on'', jdate (Some end_on)),
       (''disclaimer'', JStr disclaimer),
       (''files'', JArr (map (\<lambda>e. JObj [(''path'', JStr (me_path e)), (''sha256'', JStr (me_sha256 e)),
          (''byte_size'', JInt (int (me_byte_size e)))]) (sort_key me_path entries)))]"

definition documents :: "'s3 package_env \<Rightarrow> compliance_scope \<Rightarrow> control_occurrence list \<Rightarrow> control_test list \<Rightarrow> finding list \<Rightarrow> db \<Rightarrow> archive" where
  "documents env scope occurrences tests fs s =
     (let j = write_json (ak_sha256 env);
          snapshot_ids = set (concat (map (snapshot_links s) occurrences))
      in (if snapshot_ids = {} then id
          else j ''evidence_snapshots.json'' (serialize_snapshots (filter (\<lambda>e. es_id e \<in> snapshot_ids) (evidence_snapshots s))))
         (j ''findings.json'' (serialize_findings fs s)
         (j ''control_tests.json'' (serialize_tests tests s)
         (j ''occurrences.json'' (serialize_occurrences occurrences s)
         (j ''controls.json'' (serialize_controls s)
         (j ''frameworks.json'' (serialize_frameworks s)
         (j ''scope.json'' (serialize_scope scope) \<lparr>ar_members = [], ar_entries = []\<rparr>)))))))"

definition generate_audit_package ::
  "'s3 package_env \<Rightarrow> 's3 \<Rightarrow> string \<Rightarrow> db \<Rightarrow> ((string \<times> string) list \<times> string) result" where
  "generate_audit_package env b actor_email s =
     (case get_compliance_scope s of
        None \<Rightarrow> Inl (AuditPackageError ''No compliance scope has been defined yet'')
      | Some scope \<Rightarrow>
          (case (cs_audit_period_starts_on scope, cs_audit_period_ends_on scope) of
             (Some start, Some end_on) \<Rightarrow>
               rbind (rfilter (test_in_period start end_on) (control_tests s)) (\<lambda>tests.
                 let occurrences = filter (occurrence_in_period start end_on) (control_occurrences s);
                     fs = filter (finding_in_period start end_on (set (map ct_id tests))) (findings s)
                 in rbind (add_evidence_versions env b s (linked_version_ids s occurrences tests)
                      (documents env scope occurrences tests fs s)) (\<lambda>ar.
                    rbind (add_policies env start end_on s ar) (\<lambda>ar.
                      let ar = write_json (ak_sha256 env) ''policies.json'' (policy_summaries env start end_on s) ar;
                          manifest = dumps_indent 0 (manifest_json env actor_email start end_on (ar_entries ar))
                      in Inr (ar_members ar @ [(''manifest.json'', manifest)], ak_sha256 env manifest))))
           | _ \<Rightarrow> Inl (AuditPackageError ''The compliance scope has no audit period set'')))"

text \<open>The route: an \<open>AuditPackageError\<close> is a flash message, any other exception leaves the handler.\<close>

datatype package_response = Package_notice string | Package_file string "(string \<times> string) list"

definition create_audit_package ::
  "'s3 package_env \<Rightarrow> 's3 \<Rightarrow> string \<Rightarrow> db \<Rightarrow> (package_response \<times> db) result" where
  "create_audit_package env b admin_email s =
     (case generate_audit_package env b admin_email s of
        Inl (AuditPackageError message) \<Rightarrow> Inr (Package_notice message, s)
      | Inl e \<Rightarrow> Inl e
      | Inr (members, manifest_sha256) \<Rightarrow>
          Inr (Package_file (''audit-package-'' @ take 12 manifest_sha256 @ ''.zip'') members,
               record_audit_event ''audit_package'' (take 32 manifest_sha256) ''generate''
                 (''Generated audit/PBC package (manifest sha256 '' @ manifest_sha256 @ '')'') admin_email s))"

section \<open>What the archive holds\<close>

text \<open>The manifest entry of a member.\<close>

definition entry_of :: "(string \<Rightarrow> string) \<Rightarrow> string \<times> string \<Rightarrow> manifest_entry" where
  "entry_of sha256 m = \<lparr>me_path = fst m, me_sha256 = sha256 (snd m), me_byte_size = length (snd m)\<rparr>"

text \<open>A step of the export: the entries describe the members, and it only adds members.\<close>

definition extends :: "(string \<Rightarrow> string) \<Rightarrow> archive \<Rightarrow> archive \<Rightarrow> bool" where
  "extends sha256 ar ar' \<longleftrightarrow>
     set (ar_members ar) \<subseteq> set (ar_members ar') \<and>
     (ar_entries ar = map (entry_of sha256) (ar_members ar) \<longrightarrow> ar_entries ar' = map (entry_of sha256) (ar_members ar'))"



lemma extends_write [simp]: "extends sha256 ar (write_member sha256 path content ar)"
  by (auto simp: extends_def write_member_def entry_of_def)

























text \<open>
  Withdrawal does not count. A version that was withdrawn is exported with the periods after its
  withdrawal, as a version in force: the selection reads when it became effective and when it was
  superseded.
\<close>

lemma withdrawn_in_period [simp]:
  "policy_version_in_period start end_on (r\<lparr>pv_lc := lc_withdrawn e reason l\<rparr>) =
     policy_version_in_period start end_on (r\<lparr>pv_lc := l\<rparr>)"
  by (simp add: policy_version_in_period_def lc_withdrawn_def split: option.split)

theorem withdrawal_not_seen:
  assumes "policy_withdraw_version t reason at actor_type actor_id v s = Inr s'" "row_get pv_id v (policy_versions s) = Some r"
  shows "\<exists>r'. row_get pv_id v (policy_versions s') = Some r' \<and> lc_status (pv_lc r') = Withdrawn \<and>
    policy_version_in_period start end_on r' = policy_version_in_period start end_on r"
proof -
  have app: "policy_append t ((event_command ''policy_version'' v ''PolicyVersionWithdrawn''
        [(''reason'', JStr reason)] actor_type actor_id)\<lparr>c_occurred_at := at\<rparr>) s = Inr s'"
    using assms by (auto simp: policy_withdraw_version_def split: if_splits)
  show ?thesis
    using policy_append_Inr [OF app] assms(2)
    by (auto simp: policy_run_simps upd_policy_version_def table_simps)
qed

end
