(* ===== verification/Trust_Center.thy ===== *)
theory Trust_Center
  imports Policy_Lifecycle Vendors Access_Control
begin

text \<open>
  The trust centre: its settings, the life of a section and the public pages
  (\<open>src/app/trust_center.py\<close>, \<open>routers/trust_center.py\<close>, \<open>routers/trust_center_public.py\<close>). The
  Markdown renderer is a parameter, stored files are a map from paths; the instants the ORM
  writes on its own are left out. \<open>clean\<close> stands for the Markdown converter and the sanitizer of
  \<open>markdown_render.py\<close>, whose own part, the shift of the headings, is modelled. Sections are created and their title, visibility and order
  edited, and sections deleted, through the register grid (\<open>Register_Grid\<close>, which has its checks
  and its audit rows); here these requests are their effect on the sections.
\<close>

section \<open>State\<close>

record trust_center_settings =
  tcs_id :: string
  tcs_enabled :: bool
  tcs_title :: string
  tcs_intro_markdown :: string
  tcs_contact_email :: string
  tcs_support_url :: string
  tcs_updated_by_user_id :: "string option"

datatype section_status = SDraft | SPublished

record trust_center_section =
  tse_id :: string
  tse_title :: string
  tse_visibility :: string
  tse_status :: section_status
  tse_display_order :: int
  tse_draft_body_markdown :: string
  tse_published_body_markdown :: "string option"
  tse_published_at :: "datetime option"
  tse_published_by_user_id :: "string option"
  tse_review_date :: "date option"
  tse_expiry_date :: "date option"
  tse_linked_framework_id :: "string option"
  tse_linked_policy_id :: "string option"

record trust_center =
  tc_db :: db
  tc_settings :: "trust_center_settings list"
  tc_sections :: "trust_center_section list"

definition trust_center_section_visibility :: "string list" where
  "trust_center_section_visibility = [''public'', ''restricted'', ''internal'']"

definition audit_trust :: "string \<Rightarrow> string \<Rightarrow> string \<Rightarrow> string \<Rightarrow> string \<Rightarrow> trust_center \<Rightarrow> trust_center" where
  "audit_trust entity_type entity_id action detail actor s =
     s\<lparr>tc_db := record_audit_event entity_type entity_id action detail actor (tc_db s)\<rparr>"

definition upd_section :: "string \<Rightarrow> (trust_center_section \<Rightarrow> trust_center_section) \<Rightarrow> trust_center \<Rightarrow> trust_center" where
  "upd_section k f s = s\<lparr>tc_sections := row_upd tse_id k f (tc_sections s)\<rparr>"

section \<open>The service\<close>

text \<open>The first call creates the row with the defaults of its columns.\<close>

definition get_or_create_settings :: "string \<Rightarrow> trust_center \<Rightarrow> trust_center_settings \<times> trust_center" where
  "get_or_create_settings new_id s =
     (case tc_settings s of
        r # _ \<Rightarrow> (r, s)
      | [] \<Rightarrow>
          let r = \<lparr>tcs_id = new_id, tcs_enabled = False, tcs_title = ''Trust Center'', tcs_intro_markdown = [],
                tcs_contact_email = [], tcs_support_url = [], tcs_updated_by_user_id = None\<rparr>
          in (r, s\<lparr>tc_settings := [r]\<rparr>))"

record trust_actor =
  ta_user_id :: string
  ta_user_email :: string

definition publish_section :: "datetime \<Rightarrow> trust_center_section \<Rightarrow> trust_actor \<Rightarrow> trust_center \<Rightarrow> trust_center" where
  "publish_section now section actor s =
     audit_trust ''trust_center_section'' (tse_id section) ''publish''
       (''Published Trust Center section '' @ in_quotes (tse_title section)) (ta_user_email actor)
       (upd_section (tse_id section) (\<lambda>r. r\<lparr>tse_published_body_markdown := Some (tse_draft_body_markdown section),
          tse_published_at := Some now, tse_published_by_user_id := Some (ta_user_id actor), tse_status := SPublished\<rparr>) s)"

definition unpublish_section :: "trust_center_section \<Rightarrow> trust_actor \<Rightarrow> trust_center \<Rightarrow> trust_center" where
  "unpublish_section section actor s =
     audit_trust ''trust_center_section'' (tse_id section) ''unpublish''
       (''Unpublished Trust Center section '' @ in_quotes (tse_title section)) (ta_user_email actor)
       (upd_section (tse_id section) (\<lambda>r. r\<lparr>tse_status := SDraft\<rparr>) s)"

definition is_stale :: "date \<Rightarrow> trust_center_section \<Rightarrow> bool" where
  "is_stale today section =
     (tse_status section = SPublished \<and>
      ((case tse_expiry_date section of None \<Rightarrow> False | Some d \<Rightarrow> d \<le> today) \<or>
       (case tse_review_date section of None \<Rightarrow> False | Some d \<Rightarrow> d \<le> today)))"

section \<open>Administration\<close>

record settings_form =
  sf_enabled :: bool
  sf_title :: string
  sf_intro_markdown :: string
  sf_contact_email :: string
  sf_support_url :: string

definition update_settings :: "string \<Rightarrow> settings_form \<Rightarrow> trust_actor \<Rightarrow> trust_center \<Rightarrow> (response \<times> trust_center) result" where
  "update_settings new_id f actor s =
     (let (settings, s1) = get_or_create_settings new_id s;
          s2 = s1\<lparr>tc_settings := row_upd tcs_id (tcs_id settings) (\<lambda>r. r\<lparr>tcs_enabled := sf_enabled f, tcs_title := sf_title f,
                 tcs_intro_markdown := sf_intro_markdown f, tcs_contact_email := sf_contact_email f,
                 tcs_support_url := sf_support_url f, tcs_updated_by_user_id := Some (ta_user_id actor)\<rparr>) (tc_settings s1)\<rparr>
      in Inr (Flash ''/trust-center/admin'' ''Trust Center settings updated.'' ''success'',
              audit_trust ''trust_center_settings'' (tcs_id settings) ''update''
                (''Updated Trust Center settings (enabled='' @ (if sf_enabled f then ''True'' else ''False'') @ '')'')
                (ta_user_email actor) s2))"

definition get_section_or_404 :: "string \<Rightarrow> trust_center \<Rightarrow> trust_center_section result" where
  "get_section_or_404 section_id s =
     (case row_get tse_id section_id (tc_sections s) of None \<Rightarrow> Inl (HTTPException 404) | Some r \<Rightarrow> Inr r)"

record section_form =
  sc_draft_body_markdown :: string
  sc_review_date :: string
  sc_expiry_date :: string
  sc_linked_framework_id :: string
  sc_linked_policy_id :: string

definition or_none :: "string \<Rightarrow> string option" where
  "or_none x = (if x = [] then None else Some x)"

definition section_address :: "string \<Rightarrow> string" where
  "section_address section_id = ''/trust-center/admin/sections/'' @ section_id"

definition update_section :: "string \<Rightarrow> section_form \<Rightarrow> trust_actor \<Rightarrow> trust_center \<Rightarrow> (response \<times> trust_center) result" where
  "update_section section_id f actor s =
     rbind (get_section_or_404 section_id s) (\<lambda>section.
       if fk_ok fw_id (or_none (sc_linked_framework_id f)) (frameworks (tc_db s)) \<and>
          fk_ok po_id (or_none (sc_linked_policy_id f)) (policies (tc_db s))
       then Inr (Flash (section_address section_id) ''Section updated.'' ''success'',
              audit_trust ''trust_center_section'' section_id ''update''
                (''Updated draft content for Trust Center section '' @ in_quotes (tse_title section)) (ta_user_email actor)
                (upd_section section_id (\<lambda>r. r\<lparr>tse_draft_body_markdown := sc_draft_body_markdown f,
                   tse_review_date := parse_date (sc_review_date f), tse_expiry_date := parse_date (sc_expiry_date f),
                   tse_linked_framework_id := or_none (sc_linked_framework_id f),
                   tse_linked_policy_id := or_none (sc_linked_policy_id f)\<rparr>) s))
       else Inl IntegrityError)"

definition publish_section_route :: "datetime \<Rightarrow> string \<Rightarrow> trust_actor \<Rightarrow> trust_center \<Rightarrow> (response \<times> trust_center) result" where
  "publish_section_route now section_id actor s =
     rbind (get_section_or_404 section_id s) (\<lambda>section.
       Inr (Flash (section_address section_id) ''Section published.'' ''success'', publish_section now section actor s))"

definition unpublish_section_route :: "string \<Rightarrow> trust_actor \<Rightarrow> trust_center \<Rightarrow> (response \<times> trust_center) result" where
  "unpublish_section_route section_id actor s =
     rbind (get_section_or_404 section_id s) (\<lambda>section.
       Inr (Flash (section_address section_id) ''Section unpublished.'' ''success'', unpublish_section section actor s))"

text \<open>
  What the grid does to a section: a new row with the defaults, the edit of its three columns, of
  one row or of several at once, and its deletion.
\<close>

definition section_row_ok :: "trust_center_section \<Rightarrow> bool" where
  "section_row_ok r = (\<not> sql_blank (tse_title r) \<and> tse_visibility r \<in> set trust_center_section_visibility)"

definition new_section :: "string \<Rightarrow> string \<Rightarrow> string \<Rightarrow> int \<Rightarrow> trust_center_section" where
  "new_section new_id title visibility display_order =
     \<lparr>tse_id = new_id, tse_title = title, tse_visibility = visibility, tse_status = SDraft, tse_display_order = display_order,
      tse_draft_body_markdown = [], tse_published_body_markdown = None, tse_published_at = None, tse_published_by_user_id = None,
      tse_review_date = None, tse_expiry_date = None, tse_linked_framework_id = None, tse_linked_policy_id = None\<rparr>"

definition create_section :: "string \<Rightarrow> string \<Rightarrow> string \<Rightarrow> int \<Rightarrow> trust_center \<Rightarrow> trust_center result" where
  "create_section new_id title visibility display_order s =
     (let r = new_section new_id title visibility display_order
      in if \<not> section_row_ok r \<or> has_row tse_id new_id (tc_sections s) then Inl IntegrityError
         else Inr (s\<lparr>tc_sections := tc_sections s @ [r]\<rparr>))"

definition edit_section :: "string \<Rightarrow> string \<Rightarrow> string \<Rightarrow> int \<Rightarrow> trust_center \<Rightarrow> trust_center result" where
  "edit_section section_id title visibility display_order s =
     rbind (get_section_or_404 section_id s) (\<lambda>section.
       let f = (\<lambda>r. r\<lparr>tse_title := title, tse_visibility := visibility, tse_display_order := display_order\<rparr>)
       in if section_row_ok (f section) then Inr (upd_section section_id f s) else Inl IntegrityError)"

fun edit_sections :: "(string \<times> string \<times> string \<times> int) list \<Rightarrow> trust_center \<Rightarrow> trust_center result" where
  "edit_sections [] s = Inr s"
| "edit_sections ((section_id, title, visibility, display_order) # updates) s =
     rbind (edit_section section_id title visibility display_order s) (edit_sections updates)"

definition delete_section :: "string \<Rightarrow> trust_center \<Rightarrow> trust_center result" where
  "delete_section section_id s =
     rbind (get_section_or_404 section_id s) (\<lambda>_.
       Inr (s\<lparr>tc_sections := filter (\<lambda>r. tse_id r \<noteq> section_id) (tc_sections s)\<rparr>))"

section \<open>Rendering\<close>

text \<open>A heading tag at the start of a text, \<open><(/?)h([1-6])([ >])\<close>: its slash, level, separator and the rest.\<close>

definition heading_at :: "string \<Rightarrow> (string \<times> nat \<times> char \<times> string) option" where
  "heading_at s =
     (case s of
        c # r \<Rightarrow>
          if c \<noteq> CHR ''<'' then None
          else (let slash = (if r \<noteq> [] \<and> hd r = CHR ''/'' then ''/'' else []); r = drop (length slash) r
                in case r of
                     h # d # sep # rest \<Rightarrow>
                       let level = of_char d - of_char CHR ''0'' :: nat
                       in if h = CHR ''h'' \<and> 1 \<le> level \<and> level \<le> 6 \<and> (sep = CHR '' '' \<or> sep = CHR ''>'')
                          then Some (slash, level, sep, rest) else None
                   | _ \<Rightarrow> None)
      | [] \<Rightarrow> None)"

lemma heading_at_shorter: "heading_at s = Some (slash, level, sep, rest) \<Longrightarrow> length rest < length s"
  by (auto simp: heading_at_def Let_def dest!: arg_cong [where f = length] split: list.splits if_splits)

function shift_headings :: "nat \<Rightarrow> string \<Rightarrow> string" where
  "shift_headings offset s =
     (case heading_at s of
        Some (slash, level, sep, rest) \<Rightarrow>
          ''<'' @ slash @ ''h'' @ str_int (int (min (level + offset) 6)) @ sep # shift_headings offset rest
      | None \<Rightarrow> (case s of [] \<Rightarrow> [] | c # cs \<Rightarrow> c # shift_headings offset cs))"
  by pat_completeness auto

termination
  by (relation "measure (\<lambda>(_, s). length s)") (auto dest: heading_at_shorter)

declare shift_headings.simps [simp del]

definition render_markdown_safe :: "(string \<Rightarrow> string) \<Rightarrow> nat \<Rightarrow> string option \<Rightarrow> string" where
  "render_markdown_safe clean heading_offset body =
     (case body of None \<Rightarrow> []
      | Some b \<Rightarrow> if b = [] then [] else if heading_offset = 0 then clean b else shift_headings heading_offset (clean b))"

definition preview_section :: "(string \<Rightarrow> string) \<Rightarrow> string \<Rightarrow> trust_center \<Rightarrow> string result" where
  "preview_section clean section_id s =
     rbind (get_section_or_404 section_id s) (\<lambda>section. Inr (render_markdown_safe clean 1 (Some (tse_draft_body_markdown section))))"

section \<open>The public pages\<close>

definition public_published_sections :: "trust_center \<Rightarrow> trust_center_section list" where
  "public_published_sections s =
     sort_key tse_display_order (filter (\<lambda>r. tse_visibility r = ''public'' \<and> tse_status r = SPublished) (tc_sections s))"

record public_section =
  ps_id :: string
  ps_title :: string
  ps_html :: string
  ps_review_date :: "date option"
  ps_expiry_date :: "date option"
  ps_linked_policy :: "policy option"

definition linked_policy :: "trust_center \<Rightarrow> trust_center_section \<Rightarrow> policy option" where
  "linked_policy s r =
     (case tse_linked_policy_id r of None \<Rightarrow> None
      | Some k \<Rightarrow>
          (case row_get po_id k (policies (tc_db s)) of None \<Rightarrow> None
           | Some p \<Rightarrow> if po_status p = ''approved'' then Some p else None))"

definition public_section_of :: "(string \<Rightarrow> string) \<Rightarrow> trust_center \<Rightarrow> trust_center_section \<Rightarrow> public_section" where
  "public_section_of clean s r =
     \<lparr>ps_id = tse_id r, ps_title = tse_title r,
      ps_html = render_markdown_safe clean 2 (tse_published_body_markdown r),
      ps_review_date = tse_review_date r, ps_expiry_date = tse_expiry_date r, ps_linked_policy = linked_policy s r\<rparr>"

definition public_trust_center ::
  "(string \<Rightarrow> string) \<Rightarrow> string \<Rightarrow> trust_center \<Rightarrow> (string \<times> public_section list) result \<times> trust_center" where
  "public_trust_center clean new_id s =
     (let (settings, s1) = get_or_create_settings new_id s
      in if \<not> tcs_enabled settings then (Inl (HTTPException 404), s)
         else (Inr (render_markdown_safe clean 1 (Some (tcs_intro_markdown settings)), map (public_section_of clean s1) (public_published_sections s1)), s1))"

definition public_policy_download ::
  "files \<Rightarrow> string \<Rightarrow> string \<Rightarrow> string \<Rightarrow> trust_center \<Rightarrow> response result" where
  "public_policy_download fs data_dir new_id policy_id s =
     (let (settings, s1) = get_or_create_settings new_id s
      in if \<not> tcs_enabled settings then Inl (HTTPException 404)
         else (case row_get po_id policy_id (policies (tc_db s1)) of
                 None \<Rightarrow> Inl (HTTPException 404)
               | Some policy \<Rightarrow>
                   if po_status policy \<noteq> ''approved'' then Inl (HTTPException 404)
                   else if \<not> list_ex (\<lambda>r. tse_linked_policy_id r = Some policy_id) (public_published_sections s1)
                   then Inl (HTTPException 404)
                   else (case policy_latest_version policy_id (tc_db s1) of
                           None \<Rightarrow> Inl (HTTPException 404)
                         | Some v \<Rightarrow>
                             (case fs (policy_version_path data_dir policy_id (pv_version_number v) (pv_stored_filename v)) of
                                None \<Rightarrow> Inl (HTTPException 404)
                              | Some content \<Rightarrow> Inr (Download content (pv_media_type v) (pv_original_filename v))))))"

section \<open>Histories\<close>

datatype trust_request =
    Create_section string string string int
  | Edit_section string string string int
  | Edit_sections "(string \<times> string \<times> string \<times> int) list"
  | Delete_section string
  | Update_section string section_form trust_actor
  | Publish datetime string trust_actor
  | Unpublish string trust_actor
  | Update_settings string settings_form trust_actor

fun trust_exec :: "trust_request \<Rightarrow> trust_center \<Rightarrow> trust_center result" where
  "trust_exec (Create_section new_id title visibility order) s = create_section new_id title visibility order s"
| "trust_exec (Edit_section k title visibility order) s = edit_section k title visibility order s"
| "trust_exec (Edit_sections updates) s = edit_sections updates s"
| "trust_exec (Delete_section k) s = delete_section k s"
| "trust_exec (Update_section k f actor) s = map_sum id snd (update_section k f actor s)"
| "trust_exec (Publish now k actor) s = map_sum id snd (publish_section_route now k actor s)"
| "trust_exec (Unpublish k actor) s = map_sum id snd (unpublish_section_route k actor s)"
| "trust_exec (Update_settings new_id f actor) s = map_sum id snd (update_settings new_id f actor s)"

definition trust_step :: "trust_center \<Rightarrow> trust_request \<Rightarrow> trust_center" where
  "trust_step s q = (case trust_exec q s of Inl _ \<Rightarrow> s | Inr s' \<Rightarrow> s')"

definition trust_run :: "trust_request list \<Rightarrow> trust_center \<Rightarrow> trust_center" where
  "trust_run qs s = foldl trust_step s qs"

lemma trust_run_simps [simp]: "trust_run [] s = s" "trust_run (qs @ [q]) s = trust_step (trust_run qs s) q"
  by (simp_all add: trust_run_def)

fun switches :: "string \<Rightarrow> trust_request \<Rightarrow> bool" where
  "switches k (Publish now j actor) = (j = k)"
| "switches k (Unpublish j actor) = (j = k)"
| "switches k q = False"

text \<open>An edit keeps what is published.\<close>

lemma edit_section_kept:
  assumes "edit_section k t v n s = Inr s'" "r' \<in> set (tc_sections s')"
  shows "\<exists>r \<in> set (tc_sections s). tse_id r = tse_id r' \<and> tse_status r = tse_status r' \<and>
    tse_published_body_markdown r = tse_published_body_markdown r'"
  using assms
  by (auto simp: edit_section_def get_section_or_404_def upd_section_def set_row_upd Let_def split: if_splits option.splits)
    blast+

lemma edit_sections_kept:
  "edit_sections us s = Inr s' \<Longrightarrow> r' \<in> set (tc_sections s') \<Longrightarrow>
     \<exists>r \<in> set (tc_sections s). tse_id r = tse_id r' \<and> tse_status r = tse_status r' \<and>
       tse_published_body_markdown r = tse_published_body_markdown r'"
proof (induction us s rule: edit_sections.induct)
  case (2 k t v n us s)
  obtain s1 where s1: "edit_section k t v n s = Inr s1" "edit_sections us s1 = Inr s'"
    using "2.prems"(1) by (cases "edit_section k t v n s") simp_all
  then show ?case
    using "2.IH" [OF s1 "2.prems"(2)] edit_section_kept [OF s1(1)] by metis
qed auto

text \<open>What one request does to a section of the resulting state.\<close>

lemma trust_step_section:
  assumes "r' \<in> set (tc_sections (trust_step s q))" "tse_status r' = SPublished"
  obtains (kept) r where "r \<in> set (tc_sections s)" "tse_id r = tse_id r'" "tse_status r = SPublished"
      "tse_published_body_markdown r = tse_published_body_markdown r'" "\<not> switches (tse_id r') q"
  | (published) now actor d where "q = Publish now (tse_id r') actor" "d \<in> set (tc_sections s)" "tse_id d = tse_id r'"
      "tse_published_body_markdown r' = Some (tse_draft_body_markdown d)"
proof (cases "trust_exec q s")
  case (Inl e)
  then have "r' \<in> set (tc_sections s)" using assms(1) by (simp add: trust_step_def)
  moreover have "\<not> switches (tse_id r') q"
    using Inl calculation row_get_None_iff [of tse_id "tse_id r'" "tc_sections s"]
    by (cases q) (auto simp: publish_section_route_def unpublish_section_route_def get_section_or_404_def has_row_iff
        split: option.splits)
  ultimately show thesis using kept assms(2) by blast
next
  case (Inr s')
  then have r': "r' \<in> set (tc_sections s')" using assms(1) by (simp add: trust_step_def)
  show thesis
  proof (cases q)
    case (Publish now k actor)
    then obtain sec where row: "row_get tse_id k (tc_sections s) = Some sec"
      and s': "s' = publish_section now sec actor s"
      using Inr by (auto simp: publish_section_route_def get_section_or_404_def split: option.splits)
    have k: "sec \<in> set (tc_sections s)" "tse_id sec = k" using row_get_SomeD [OF row] by auto
    obtain r where r: "r \<in> set (tc_sections s)" "r' = (if tse_id r = k then r\<lparr>tse_published_body_markdown :=
        Some (tse_draft_body_markdown sec), tse_published_at := Some now, tse_published_by_user_id := Some (ta_user_id actor),
        tse_status := SPublished\<rparr> else r)"
      using r' k by (auto simp: s' publish_section_def audit_trust_def upd_section_def set_row_upd)
    show thesis
    proof (cases "tse_id r = k")
      case True
      then show thesis using published [of now actor sec] Publish r k by auto
    next
      case False
      then show thesis using kept [of r] Publish r assms(2) by auto
    qed
  next
    case (Unpublish k actor)
    then obtain sec where row: "row_get tse_id k (tc_sections s) = Some sec"
      and s': "s' = unpublish_section sec actor s"
      using Inr by (auto simp: unpublish_section_route_def get_section_or_404_def split: option.splits)
    have "tse_id sec = k" using row_get_SomeD [OF row] by auto
    then show thesis
      using r' assms(2) kept [of r'] Unpublish
      by (auto simp: s' unpublish_section_def audit_trust_def upd_section_def set_row_upd split: if_splits)
  next
    case (Create_section k t v n)
    then show thesis
      using Inr r' assms(2) kept [of r'] by (auto simp: create_section_def new_section_def Let_def split: if_splits)
  next
    case (Edit_section k t v n)
    then show thesis
      using Inr edit_section_kept [OF _ r'] assms(2) kept by (metis switches.simps(4) trust_exec.simps(2))
  next
    case (Edit_sections us)
    then show thesis
      using Inr edit_sections_kept [OF _ r'] assms(2) kept by (metis switches.simps(5) trust_exec.simps(3))
  next
    case (Delete_section k)
    then show thesis
      using Inr r' assms(2) kept [of r'] by (auto simp: delete_section_def get_section_or_404_def split: option.splits)
  next
    case (Update_section k f actor)
    then show thesis
      using Inr r' assms(2) kept
      by (auto simp: update_section_def get_section_or_404_def upd_section_def audit_trust_def set_row_upd split: if_splits option.splits)
  next
    case (Update_settings k f actor)
    then show thesis
      using Inr r' assms(2) kept [of r']
      by (auto simp: update_settings_def get_or_create_settings_def audit_trust_def Let_def split: list.splits)
  qed
qed

text \<open>
  C36. The public sees what was published. Whatever requests the administrators send, a section on
  the public page is a public one, its last switch was a publication, and the page shows the
  text that was its draft at that moment, whatever was drafted since.
\<close>

theorem public_page_is_published:
  assumes "tc_sections s = []" "public_trust_center clean new_id (trust_run qs s) = (Inr (intro, page), s')" "x \<in> set page"
  shows "\<exists>before now actor after d. qs = before @ Publish now (ps_id x) actor # after \<and>
    list_all (\<lambda>q. \<not> switches (ps_id x) q) after \<and> d \<in> set (tc_sections (trust_run before s)) \<and> tse_id d = ps_id x \<and>
    ps_html x = render_markdown_safe clean 2 (Some (tse_draft_body_markdown d)) \<and>
    (\<exists>r \<in> set (tc_sections (trust_run qs s)). tse_id r = ps_id x \<and> tse_visibility r = ''public'' \<and> tse_status r = SPublished)"
proof -
  have inv: "\<exists>before now actor after d. qs = before @ Publish now (tse_id r) actor # after \<and>
      list_all (\<lambda>q. \<not> switches (tse_id r) q) after \<and> d \<in> set (tc_sections (trust_run before s)) \<and> tse_id d = tse_id r \<and>
      tse_published_body_markdown r = Some (tse_draft_body_markdown d)"
    if "r \<in> set (tc_sections (trust_run qs s))" "tse_status r = SPublished" for r qs
    using that
  proof (induction qs arbitrary: r rule: rev_induct)
    case Nil
    then show ?case using assms(1) by simp
  next
    case (snoc q qs)
    from snoc.prems have step: "r \<in> set (tc_sections (trust_step (trust_run qs s) q))" by simp
    show ?case
    proof (rule trust_step_section [OF step snoc.prems(2)])
      fix r0 assume kept: "r0 \<in> set (tc_sections (trust_run qs s))" "tse_id r0 = tse_id r" "tse_status r0 = SPublished"
        "tse_published_body_markdown r0 = tse_published_body_markdown r" "\<not> switches (tse_id r) q"
      then obtain before now actor after d where "qs = before @ Publish now (tse_id r) actor # after"
        "list_all (\<lambda>q. \<not> switches (tse_id r) q) after" "d \<in> set (tc_sections (trust_run before s))" "tse_id d = tse_id r"
        "tse_published_body_markdown r = Some (tse_draft_body_markdown d)"
        using snoc.IH [of r0] by metis
      then show ?case
        using kept(5) by (intro exI [of _ before] exI [of _ now] exI [of _ actor] exI [of _ "after @ [q]"] exI [of _ d]) simp
    next
      fix now actor d
      assume "q = Publish now (tse_id r) actor" "d \<in> set (tc_sections (trust_run qs s))" "tse_id d = tse_id r"
        "tse_published_body_markdown r = Some (tse_draft_body_markdown d)"
      then show ?case
        by (intro exI [of _ qs] exI [of _ now] exI [of _ actor] exI [of _ "[]"] exI [of _ d]) simp
    qed
  qed
  have same: "tc_sections (snd (get_or_create_settings new_id t)) = tc_sections t" for t
    by (simp add: get_or_create_settings_def Let_def split: list.splits)
  obtain r t where r: "r \<in> set (tc_sections (trust_run qs s))" "tse_visibility r = ''public''" "tse_status r = SPublished"
    "x = public_section_of clean t r"
    using assms(2,3) same [of "trust_run qs s"]
    by (auto simp: public_trust_center_def Let_def public_published_sections_def split: prod.splits if_splits)
  then have x: "ps_id x = tse_id r" "ps_html x = render_markdown_safe clean 2 (tse_published_body_markdown r)"
    by (simp_all add: public_section_of_def)
  then show ?thesis
    using inv [OF r(1,3)] r by metis
qed

definition demo_clean :: "string \<Rightarrow> string" where
  "demo_clean body = ''<h1>A</h1>'' @ body"

definition no_trust_center :: trust_center where
  "no_trust_center = \<lparr>tc_db = empty_db, tc_settings = [], tc_sections = []\<rparr>"

definition demo_actor :: trust_actor where
  "demo_actor = \<lparr>ta_user_id = ''u1'', ta_user_email = ''ann@x.org''\<rparr>"

definition demo_section_form :: "string \<Rightarrow> section_form" where
  "demo_section_form body = \<lparr>sc_draft_body_markdown = body, sc_review_date = [], sc_expiry_date = ''2020-01-01'',
     sc_linked_framework_id = [], sc_linked_policy_id = []\<rparr>"

definition demo_trust_requests :: "trust_request list" where
  "demo_trust_requests =
     [Update_settings ''t'' \<lparr>sf_enabled = True, sf_title = ''Trust'', sf_intro_markdown = [], sf_contact_email = [], sf_support_url = []\<rparr> demo_actor,
      Create_section ''s'' ''Security'' ''public'' 1, Update_section ''s'' (demo_section_form ''first'') demo_actor,
      Publish (Datetime (Date 2026 8 1) 0) ''s'' demo_actor, Update_section ''s'' (demo_section_form ''second'') demo_actor]"

lemma demo_public_page:
  "map (\<lambda>x. (ps_id x, ps_html x)) (case fst (public_trust_center demo_clean ''t'' (trust_run demo_trust_requests no_trust_center)) of
       Inl _ \<Rightarrow> [] | Inr (intro, page) \<Rightarrow> page) = [(''s'', ''<h3>A</h3>first'')]"
  by code_simp

theorem public_page_is_published_witness:
  "\<exists>intro page s' x. public_trust_center demo_clean ''t'' (trust_run demo_trust_requests no_trust_center) = (Inr (intro, page), s') \<and>
     x \<in> set page \<and> ps_id x = ''s'' \<and> ps_html x = ''<h3>A</h3>first'' \<and>
     (\<exists>before now actor after. demo_trust_requests = before @ Publish now (ps_id x) actor # after \<and>
        list_all (\<lambda>q. \<not> switches (ps_id x) q) after)"
proof -
  obtain r t where run: "public_trust_center demo_clean ''t'' (trust_run demo_trust_requests no_trust_center) = (r, t)"
    by (cases "public_trust_center demo_clean ''t'' (trust_run demo_trust_requests no_trust_center)")
  then obtain intro page where r: "r = Inr (intro, page)" and page: "map (\<lambda>x. (ps_id x, ps_html x)) page = [(''s'', ''<h3>A</h3>first'')]"
    using demo_public_page by (cases r) (auto split: prod.splits)
  then obtain x where x: "x \<in> set page" "ps_id x = ''s''" "ps_html x = ''<h3>A</h3>first''"
    by auto
  have "tc_sections no_trust_center = []" by (simp add: no_trust_center_def)
  with public_page_is_published [OF _ run [unfolded r] x(1)] run r x show ?thesis by blast
qed

section \<open>Downloads\<close>

text \<open>A new version is the latest one: it gets the number after the highest.\<close>

lemma sorted_last_max: "sorted (map f xs) \<Longrightarrow> x \<in> set xs \<Longrightarrow> f x \<le> f (last xs)"
  by (induction xs) auto

lemma version_number_below_next:
  assumes "w \<in> set (policy_versions s)" "pv_policy_id w = p"
  shows "pv_version_number w < Policy_Lifecycle.next_version_number p s"
proof -
  let ?ws = "sort_key pv_version_number (filter (\<lambda>v. pv_policy_id v = p) (policy_versions s))"
  have w: "w \<in> set ?ws" using assms by simp
  then have "pv_version_number w \<le> pv_version_number (last ?ws)"
    by (rule sorted_last_max [OF sorted_sort_key])
  moreover have "policy_latest_version p s = Some (last ?ws)"
    using w by (cases ?ws rule: rev_cases) (simp_all add: policy_latest_version_def policy_versions_desc_def)
  ultimately show ?thesis
    by (simp add: Policy_Lifecycle.next_version_number_def)
qed

lemma latest_version_uploaded:
  assumes "policy_versions s' = policy_versions s @ [v]" "pv_policy_id v = p" "pv_version_number v = Policy_Lifecycle.next_version_number p s"
  shows "policy_latest_version p s' = Some v"
proof -
  have "sort_key pv_version_number (filter (\<lambda>v. pv_policy_id v = p) (policy_versions s) @ [v]) =
      sort_key pv_version_number (filter (\<lambda>v. pv_policy_id v = p) (policy_versions s)) @ [v]"
    using version_number_below_next [of _ s p] assms(3) by (intro sort_key_snoc) (auto intro: less_imp_le)
  then show ?thesis
    using assms(1,2) by (simp add: policy_latest_version_def policy_versions_desc_def)
qed

text \<open>Every answer comes from an approved policy that a public, published section links.\<close>

definition download_offered :: "string \<Rightarrow> trust_center \<Rightarrow> bool" where
  "download_offered p s \<longleftrightarrow>
     (\<exists>r rs. tc_settings s = r # rs \<and> tcs_enabled r) \<and>
     (\<exists>policy. row_get po_id p (policies (tc_db s)) = Some policy \<and> po_status policy = ''approved'') \<and>
     (\<exists>x \<in> set (tc_sections s). tse_visibility x = ''public'' \<and> tse_status x = SPublished \<and> tse_linked_policy_id x = Some p)"

lemma latest_version_highest:
  assumes "policy_latest_version p d = Some v"
  shows "v \<in> set (policy_versions d) \<and> pv_policy_id v = p \<and>
    (\<forall>w \<in> set (policy_versions d). pv_policy_id w = p \<longrightarrow> pv_version_number w \<le> pv_version_number v)"
proof -
  let ?vs = "sort_key pv_version_number (filter (\<lambda>v. pv_policy_id v = p) (policy_versions d))"
  have v: "?vs \<noteq> []" "v = last ?vs"
    using assms by (auto simp: policy_latest_version_def policy_versions_desc_def split: list.splits)
  then have "v \<in> set ?vs"
    using last_in_set by metis
  moreover have "pv_version_number w \<le> pv_version_number v" if "w \<in> set ?vs" for w
    using sorted_last_max [OF sorted_sort_key that] v(2) by simp
  ultimately show ?thesis
    unfolding set_sort set_filter by blast
qed

lemma download_answer:
  assumes "public_policy_download fs data_dir new_id p s = Inr a"
  shows "download_offered p s \<and> (\<exists>v content. policy_latest_version p (tc_db s) = Some v \<and>
    fs (policy_version_path data_dir p (pv_version_number v) (pv_stored_filename v)) = Some content \<and>
    a = Download content (pv_media_type v) (pv_original_filename v))"
proof -
  obtain r rs where r: "tc_settings s = r # rs"
    using assms by (cases "tc_settings s") (simp_all add: public_policy_download_def get_or_create_settings_def Let_def)
  then show ?thesis
    using assms
    by (auto simp: public_policy_download_def get_or_create_settings_def download_offered_def public_published_sections_def
        list_ex_iff split: option.splits if_splits)
qed

lemma download_of:
  assumes "download_offered p s" "policy_latest_version p (tc_db s) = Some v"
    "fs (policy_version_path data_dir p (pv_version_number v) (pv_stored_filename v)) = Some content"
  shows "public_policy_download fs data_dir new_id p s = Inr (Download content (pv_media_type v) (pv_original_filename v))"
proof -
  obtain r rs policy x where "tc_settings s = r # rs" "tcs_enabled r"
    "row_get po_id p (policies (tc_db s)) = Some policy" "po_status policy = ''approved''"
    "x \<in> set (tc_sections s)" "tse_visibility x = ''public''" "tse_status x = SPublished" "tse_linked_policy_id x = Some p"
    using assms(1) unfolding download_offered_def by blast
  then show ?thesis
    using assms(2,3)
    by (auto simp: public_policy_download_def get_or_create_settings_def public_published_sections_def list_ex_iff)
qed

lemma upload_latest:
  assumes "upload_policy_version t p (Some f) note mail d = Inr d'"
  shows "policies d' = policies d \<and>
    policy_latest_version p d' = Some (uploaded_version t p (Policy_Lifecycle.next_version_number p d) f note mail)"
proof -
  let ?v = "uploaded_version t p (Policy_Lifecycle.next_version_number p d) f note mail"
  obtain as where d': "d' = d\<lparr>policy_versions := policy_versions d @ [?v], audit_events := audit_events d @ as\<rparr>"
    using upload_Inr [OF assms] by blast
  then have "policy_latest_version p d' = Some ?v"
    by (intro latest_version_uploaded [where s = d]) simp_all
  then show ?thesis
    by (simp add: d')
qed

text \<open>
  C37. What a visitor can download. The public download answers exactly when the trust centre is
  enabled, the policy is approved, a public, published section links it, and the policy has a
  version whose file is stored; what it serves is the file of the version with the highest
  number, under that version's name and media type. That version need not have been reviewed:
  right after the upload of a new version, still a draft, a policy on offer is served as the
  new file.
\<close>

theorem public_download_serves_drafts:
  "(\<forall>a. public_policy_download fs data_dir new_id p s = Inr a \<longleftrightarrow>
      download_offered p s \<and>
      (\<exists>v content. policy_latest_version p (tc_db s) = Some v \<and>
         fs (policy_version_path data_dir p (pv_version_number v) (pv_stored_filename v)) = Some content \<and>
         a = Download content (pv_media_type v) (pv_original_filename v))) \<and>
   (\<forall>v. policy_latest_version p (tc_db s) = Some v \<longrightarrow>
      v \<in> set (policy_versions (tc_db s)) \<and> pv_policy_id v = p \<and>
      (\<forall>w \<in> set (policy_versions (tc_db s)). pv_policy_id w = p \<longrightarrow> pv_version_number w \<le> pv_version_number v)) \<and>
   (\<forall>t f note mail d' content.
      upload_policy_version t p (Some f) note mail (tc_db s) = Inr d' \<and> download_offered p s \<and>
      fs (policy_version_path data_dir p (Policy_Lifecycle.next_version_number p (tc_db s)) (st_stored_filename f)) = Some content \<longrightarrow>
      public_policy_download fs data_dir new_id p (s\<lparr>tc_db := d'\<rparr>) =
        Inr (Download content (st_media_type f) (st_original_filename f)) \<and>
      (\<exists>v. policy_latest_version p d' = Some v \<and> lc_status (pv_lc v) = Draft))"
proof (intro conjI allI iffI impI)
  fix a
  assume "public_policy_download fs data_dir new_id p s = Inr a"
  then show "download_offered p s"
    and "\<exists>v content. policy_latest_version p (tc_db s) = Some v \<and>
         fs (policy_version_path data_dir p (pv_version_number v) (pv_stored_filename v)) = Some content \<and>
         a = Download content (pv_media_type v) (pv_original_filename v)"
    using download_answer by blast+
next
  fix t f memo mail d' content
  assume up: "upload_policy_version t p (Some f) memo mail (tc_db s) = Inr d' \<and> download_offered p s \<and>
      fs (policy_version_path data_dir p (Policy_Lifecycle.next_version_number p (tc_db s)) (st_stored_filename f)) = Some content"
  let ?v = "uploaded_version t p (Policy_Lifecycle.next_version_number p (tc_db s)) f memo mail"
  have latest: "policies d' = policies (tc_db s)" "policy_latest_version p d' = Some ?v"
    using upload_latest up by blast+
  moreover have "download_offered p (s\<lparr>tc_db := d'\<rparr>)"
    using up latest(1) by (simp add: download_offered_def)
  ultimately show "public_policy_download fs data_dir new_id p (s\<lparr>tc_db := d'\<rparr>) =
      Inr (Download content (st_media_type f) (st_original_filename f))"
    using download_of [of p "s\<lparr>tc_db := d'\<rparr>" ?v fs data_dir content new_id] up
    by (simp add: uploaded_version_def)
  show "\<exists>v. policy_latest_version p d' = Some v \<and> lc_status (pv_lc v) = Draft"
    using latest(2) by (simp add: uploaded_version_def lifecycle_defaults_def)
qed (use download_of latest_version_highest in blast)+

definition demo_stored :: Policy_Lifecycle.stored_upload where
  "demo_stored = \<lparr>st_original_filename = ''new.pdf'', st_stored_filename = ''document.pdf'',
     st_media_type = ''application/pdf'', st_byte_size = 3, st_sha256 = ''00''\<rparr>"

definition demo_policy_row :: policy where
  "demo_policy_row = \<lparr>po_id = ''p'', po_title = ''Access'', po_description = [], po_owner = [], po_status = ''approved'',
     po_effective_date = None, po_next_review_date = None, po_archived = False, po_source_type = ''manual'',
     po_drive_file_id = None, po_drive_web_url = None, po_drive_mime_type = None,
     po_drive_last_seen_revision_id = None, po_drive_last_synced_at = None\<rparr>"

definition demo_public :: trust_center where
  "demo_public = \<lparr>tc_db = empty_db\<lparr>policies := [demo_policy_row]\<rparr>,
     tc_settings = [\<lparr>tcs_id = ''t'', tcs_enabled = True, tcs_title = [], tcs_intro_markdown = [], tcs_contact_email = [],
       tcs_support_url = [], tcs_updated_by_user_id = None\<rparr>],
     tc_sections = [(new_section ''s'' ''Policies'' ''public'' 1)\<lparr>tse_status := SPublished, tse_linked_policy_id := Some ''p''\<rparr>]\<rparr>"

theorem public_download_serves_drafts_witness:
  "\<exists>d'. upload_policy_version \<lparr>t_now = Datetime (Date 2026 8 1) 0, t_id = ''v1''\<rparr> ''p'' (Some demo_stored) [] ''bo'' (tc_db demo_public) = Inr d' \<and>
     public_policy_download [''data/policies/p/1/document.pdf'' \<mapsto> ''new''] ''data'' ''x'' ''p'' (demo_public\<lparr>tc_db := d'\<rparr>) =
       Inr (Download ''new'' ''application/pdf'' ''new.pdf'')"
proof -
  let ?t = "\<lparr>t_now = Datetime (Date 2026 8 1) 0, t_id = ''v1''\<rparr>" and ?fs = "[''data/policies/p/1/document.pdf'' \<mapsto> ''new'']"
  obtain d' where run: "upload_policy_version ?t ''p'' (Some demo_stored) [] ''bo'' (tc_db demo_public) = Inr d'"
    by (simp add: upload_policy_version_def demo_public_def demo_policy_row_def insert_policy_version_def empty_db_def)
  have n: "Policy_Lifecycle.next_version_number ''p'' (tc_db demo_public) = 1"
    by (simp add: Policy_Lifecycle.next_version_number_def policy_latest_version_def policy_versions_desc_def demo_public_def empty_db_def)
  have path: "policy_version_path ''data'' ''p'' 1 (st_stored_filename demo_stored) = ''data/policies/p/1/document.pdf''"
    by code_simp
  have "download_offered ''p'' demo_public"
    by (simp add: download_offered_def demo_public_def demo_policy_row_def new_section_def)
  moreover have "?fs (policy_version_path ''data'' ''p'' (Policy_Lifecycle.next_version_number ''p'' (tc_db demo_public))
      (st_stored_filename demo_stored)) = Some ''new''"
    by (simp add: n path)
  ultimately have "public_policy_download ?fs ''data'' ''x'' ''p'' (demo_public\<lparr>tc_db := d'\<rparr>) =
      Inr (Download ''new'' (st_media_type demo_stored) (st_original_filename demo_stored))"
    using public_download_serves_drafts [of ?fs "''data''" "''x''" "''p''" demo_public] run by blast
  then show ?thesis
    using run by (simp add: demo_stored_def)
qed

section \<open>The administrators' requests\<close>

text \<open>
  The routes of the trust centre ask for an administrator. They do not check the token that the
  forms carry, as the routes of the user administration do (\<open>verify_csrf\<close>).
\<close>

definition trust_write ::
  "(string \<Rightarrow> string) \<Rightarrow> int \<Rightarrow> request \<Rightarrow> auth \<Rightarrow> (user \<Rightarrow> trust_center \<Rightarrow> (response \<times> trust_center) result) \<Rightarrow> trust_center \<Rightarrow>
   response result \<times> trust_center" where
  "trust_write sha now req a handler s =
     (case rbind (require_admin sha now req a) (\<lambda>user. handler user s) of
        Inl e \<Rightarrow> (Inl e, s) | Inr (r, s') \<Rightarrow> (Inr r, s'))"

lemma trust_write_ignores_csrf:
  "trust_write sha now (req\<lparr>rq_csrf_cookie := c, rq_csrf_form := f\<rparr>) a handler s = trust_write sha now req a handler s"
  by (simp add: trust_write_def require_admin_def require_login_def)

theorem forged_request_publishes:
  assumes "require_admin sha now req a = Inr user" "row_get tse_id k (tc_sections s) = Some sec"
    "handler = (\<lambda>user. publish_section_route at k \<lparr>ta_user_id = us_id user, ta_user_email = us_email user\<rparr>)"
  shows "snd (trust_write sha now (req\<lparr>rq_csrf_cookie := None, rq_csrf_form := None\<rparr>) a handler s) =
      publish_section at sec \<lparr>ta_user_id = us_id user, ta_user_email = us_email user\<rparr> s \<and>
    verify_csrf (req\<lparr>rq_csrf_cookie := None, rq_csrf_form := None\<rparr>) = Inl (HTTPException 400)"
proof -
  have "snd (trust_write sha now (req\<lparr>rq_csrf_cookie := None, rq_csrf_form := None\<rparr>) a handler s) =
      publish_section at sec \<lparr>ta_user_id = us_id user, ta_user_email = us_email user\<rparr> s"
    unfolding trust_write_ignores_csrf using assms
    by (simp add: trust_write_def publish_section_route_def get_section_or_404_def)
  moreover have "verify_csrf (req\<lparr>rq_csrf_cookie := None, rq_csrf_form := None\<rparr>) = Inl (HTTPException 400)"
    by (simp add: verify_csrf_def csrf_tokens_match_def)
  ultimately show ?thesis ..
qed

end
