(* ===== verification/Register_Grid.thy ===== *)
theory Register_Grid
  imports Access_Control Json
begin

text \<open>
  The spreadsheet-style registers: \<open>src/app/registers/config.py\<close> and
  \<open>src/app/registers/router.py\<close>, one configuration per table and one router for all of them. A
  row is its id, its stamp and its column values as JSON; the table's own constraints, the
  defaults of its columns and the rows that other tables reference are part of the
  configuration, as they are part of the mapped class. No configuration of the application sets
  \<open>create_fn\<close>, which is left out. Login and CSRF checks are the guards of \<open>Access_Control\<close>; the
  instant of a request is its argument.
\<close>

section \<open>Configuration\<close>

datatype register_action = List_rows | Create_row | Edit_row | Delete_row

record grid_row =
  gr_id :: string
  gr_updated_at :: datetime
  gr_values :: "string \<Rightarrow> json"

record field_spec =
  fs_name :: string
  fs_required :: bool
  fs_max_length :: "nat option"
  fs_choices :: "string list option"
  fs_read_only :: bool
  fs_compute :: "(grid_row \<Rightarrow> json) option"

record register_config =
  rc_name :: string
  rc_entity_type :: string
  rc_fields :: "field_spec list"
  rc_order_by :: "grid_row \<Rightarrow> string"
  rc_require_admin_for :: "register_action list"
  rc_scope_field :: "string option"
  rc_creatable :: bool
  rc_deletable :: bool
  rc_bulk_enabled :: bool
  rc_defaults :: "string \<Rightarrow> json"
  rc_constraints :: "grid_row list \<Rightarrow> bool"
  rc_referenced :: "string \<Rightarrow> bool"

record grid =
  gd_rows :: "grid_row list"
  gd_audit :: "audit_event list"

definition audit_grid :: "string \<Rightarrow> string \<Rightarrow> string \<Rightarrow> string \<Rightarrow> string \<Rightarrow> grid \<Rightarrow> grid" where
  "audit_grid entity_type entity_id action detail actor s =
     s\<lparr>gd_audit := gd_audit s @ [\<lparr>ae_entity_type = entity_type, ae_entity_id = entity_id, ae_action = action,
        ae_detail = detail, ae_actor = actor\<rparr>]\<rparr>"

text \<open>A refusal carries the status and the body of the answer; other exceptions are server errors.\<close>

datatype grid_error =
    Forbidden string
  | Bad_request string
  | Not_found string
  | Conflict "(string \<times> json) list"
  | Unprocessable "(string \<times> string list) list"
  | Method_not_allowed
  | Server_error error

type_synonym 'a answer = "grid_error + 'a"

definition abind :: "'a answer \<Rightarrow> ('a \<Rightarrow> 'b answer) \<Rightarrow> 'b answer" where
  "abind m f = (case m of Inl e \<Rightarrow> Inl e | Inr x \<Rightarrow> f x)"

lemma abind_simps [simp]: "abind (Inl e) f = Inl e" "abind (Inr x) f = f x"
  by (simp_all add: abind_def)

lemma abind_Inr_iff [simp]: "abind m f = Inr y \<longleftrightarrow> (\<exists>x. m = Inr x \<and> f x = Inr y)"
  by (cases m) simp_all

section \<open>Validation\<close>

definition add_error :: "string \<Rightarrow> string \<Rightarrow> (string \<times> string list) list \<Rightarrow> (string \<times> string list) list" where
  "add_error key message errors =
     (if map_of errors key = None then errors @ [(key, [message])]
      else map (\<lambda>(k, ms). if k = key then (k, ms @ [message]) else (k, ms)) errors)"

definition editable_names :: "register_config \<Rightarrow> string list" where
  "editable_names config =
     map fs_name (filter (\<lambda>f. \<not> fs_read_only f) (rc_fields config)) @
     (case rc_scope_field config of None \<Rightarrow> [] | Some f \<Rightarrow> [f])"

definition blank_value :: "json \<Rightarrow> bool" where
  "blank_value v = (case v of JNull \<Rightarrow> True | JStr x \<Rightarrow> blank x | _ \<Rightarrow> False)"

definition too_long :: "nat option \<Rightarrow> json \<Rightarrow> bool" where
  "too_long n v = (case (n, v) of (Some n, JStr x) \<Rightarrow> n < length x | _ \<Rightarrow> False)"

definition not_a_choice :: "string list option \<Rightarrow> json \<Rightarrow> bool" where
  "not_a_choice choices v =
     (case choices of None \<Rightarrow> False
      | Some cs \<Rightarrow> v \<noteq> JNull \<and> \<not> list_ex (\<lambda>c. v = JStr c) cs)"

fun joined_by_comma :: "string list \<Rightarrow> string" where
  "joined_by_comma [] = []"
| "joined_by_comma [x] = x"
| "joined_by_comma (x # y # xs) = x @ '', '' @ joined_by_comma (y # xs)"

definition field_errors :: "field_spec \<Rightarrow> json option \<Rightarrow> bool \<Rightarrow> string list" where
  "field_errors f v0 partial =
     (case v0 of
        None \<Rightarrow> if \<not> partial \<and> fs_required f then [''required''] else []
      | Some v \<Rightarrow>
          (if fs_required f \<and> blank_value v then [''required''] else []) @
          (if too_long (fs_max_length f) v
           then [''must be at most '' @ str_int (case fs_max_length f of None \<Rightarrow> 0 | Some n \<Rightarrow> int n) @ '' characters''] else []) @
          (if not_a_choice (fs_choices f) v
           then [''must be one of '' @ joined_by_comma (case fs_choices f of None \<Rightarrow> [] | Some cs \<Rightarrow> cs)] else []))"

definition validate_fields :: "register_config \<Rightarrow> (string \<times> json) list \<Rightarrow> bool \<Rightarrow> (string \<times> string list) list" where
  "validate_fields config payload partial =
     (let unknown = fold (\<lambda>(k, _) errors. if k \<in> set (editable_names config) then errors
                            else add_error k ''unknown or read-only field'' errors) payload []
      in fold (\<lambda>f errors. if fs_read_only f then errors
                          else fold (add_error (fs_name f)) (field_errors f (map_of payload (fs_name f)) partial) errors)
           (rc_fields config) unknown)"

section \<open>Permission\<close>

definition write_actions :: "register_action list" where
  "write_actions = [Create_row, Edit_row, Delete_row]"

definition check_permission :: "register_config \<Rightarrow> register_action \<Rightarrow> user \<Rightarrow> unit answer" where
  "check_permission config action user =
     (if action \<in> set (rc_require_admin_for config) \<and> us_role user \<noteq> Admin then Inl (Forbidden ''Admin privileges required'')
      else if action \<in> set write_actions \<and> us_role user \<notin> set write_roles then Inl (Forbidden ''Write access required'')
      else Inr ())"

section \<open>Requests\<close>

definition serialize_row :: "register_config \<Rightarrow> grid_row \<Rightarrow> (string \<times> json) list" where
  "serialize_row config row =
     [(''id'', JStr (gr_id row)), (''updated_at'', JStr (datetime_isoformat (gr_updated_at row)))] @
     map (\<lambda>f. (fs_name f, case fs_compute f of None \<Rightarrow> gr_values row (fs_name f) | Some g \<Rightarrow> g row)) (rc_fields config)"

definition list_rows :: "register_config \<Rightarrow> (string \<times> string) list \<Rightarrow> user \<Rightarrow> grid \<Rightarrow> (string \<times> json) list list answer" where
  "list_rows config query_params user s =
     abind (check_permission config List_rows user) (\<lambda>_.
       let rows = sort_key (rc_order_by config) (gd_rows s)
       in case rc_scope_field config of
            None \<Rightarrow> Inr (map (serialize_row config) rows)
          | Some f \<Rightarrow>
              (case map_of query_params f of
                 None \<Rightarrow> Inl (Bad_request (f @ '' query param is required''))
               | Some v \<Rightarrow>
                   if v = [] then Inl (Bad_request (f @ '' query param is required''))
                   else Inr (map (serialize_row config) (filter (\<lambda>r. gr_values r f = JStr v) rows))))"

text \<open>A value that the payload leaves out or sets to null takes the default of its column.\<close>

definition new_row :: "register_config \<Rightarrow> string \<Rightarrow> datetime \<Rightarrow> (string \<times> json) list \<Rightarrow> grid_row" where
  "new_row config new_id now payload =
     \<lparr>gr_id = new_id, gr_updated_at = now,
      gr_values = (\<lambda>k. if k \<in> set (map fs_name (filter (\<lambda>f. \<not> fs_read_only f) (rc_fields config)))
                       then (case map_of payload k of None \<Rightarrow> rc_defaults config k
                             | Some v \<Rightarrow> if v = JNull then rc_defaults config k else v)
                       else rc_defaults config k)\<rparr>"

definition falsy :: "json option \<Rightarrow> bool" where
  "falsy v = (case v of None \<Rightarrow> True | Some JNull \<Rightarrow> True | Some (JBool b) \<Rightarrow> \<not> b | Some (JInt i) \<Rightarrow> i = 0
              | Some (JStr x) \<Rightarrow> x = [] | Some (JArr xs) \<Rightarrow> xs = [] | Some (JObj kvs) \<Rightarrow> kvs = [])"

definition violation :: grid_error where
  "violation = Unprocessable [(''__all__'', [''duplicate or constraint violation''])]"

definition scope_given :: "register_config \<Rightarrow> (string \<times> json) list \<Rightarrow> unit answer" where
  "scope_given config payload =
     (case rc_scope_field config of
        None \<Rightarrow> Inr ()
      | Some f \<Rightarrow> if falsy (map_of payload f) then Inl (Unprocessable [(f, [''required''])]) else Inr ())"

definition create_row ::
  "register_config \<Rightarrow> string \<Rightarrow> datetime \<Rightarrow> (string \<times> json) list \<Rightarrow> user \<Rightarrow> grid \<Rightarrow> ((string \<times> json) list \<times> grid) answer" where
  "create_row config new_id now payload user s =
     (if \<not> rc_creatable config then Inl Method_not_allowed
      else abind (check_permission config Create_row user) (\<lambda>_.
        abind (scope_given config payload) (\<lambda>_.
          let errors = validate_fields config payload False; row = new_row config new_id now payload
          in if errors \<noteq> [] then Inl (Unprocessable errors)
             else if has_row gr_id new_id (gd_rows s) \<or> \<not> rc_constraints config (gd_rows s @ [row]) then Inl violation
             else Inr (serialize_row config row,
                  audit_grid (rc_entity_type config) new_id ''create''
                    (''Created '' @ rc_entity_type config @ '' '' @ quote new_id) (us_email user)
                    (s\<lparr>gd_rows := gd_rows s @ [row]\<rparr>)))))"

text \<open>
  An edit is a check against the row the session loads and a write. The ORM writes the columns
  whose value differs from the loaded one, and stamps the row when there is such a column. The
  stamp is compared as text, in UTC: \<open>datetime_isoformat\<close> of \<open>Py_Time\<close> writes the offset \<open>+00:00\<close>.
\<close>

definition stamp_text :: "grid_row \<Rightarrow> string" where
  "stamp_text row = datetime_isoformat (gr_updated_at row)"

definition check_edit ::
  "register_config \<Rightarrow> user \<Rightarrow> string \<Rightarrow> json option \<Rightarrow> (string \<times> json) list \<Rightarrow> grid \<Rightarrow> grid_row answer" where
  "check_edit config user row_id expected cols s =
     abind (check_permission config Edit_row user) (\<lambda>_.
       case row_get gr_id row_id (gd_rows s) of
         None \<Rightarrow> Inl (Not_found ''Row not found'')
       | Some row \<Rightarrow>
           if expected \<noteq> Some (JStr (stamp_text row)) then Inl (Conflict (serialize_row config row))
           else let errors = validate_fields config cols True
                in if errors \<noteq> [] then Inl (Unprocessable errors) else Inr row)"

definition changed_fields :: "grid_row \<Rightarrow> (string \<times> json) list \<Rightarrow> (string \<times> json) list" where
  "changed_fields row cols = filter (\<lambda>(k, v). gr_values row k \<noteq> v) cols"

definition write_fields :: "datetime \<Rightarrow> (string \<times> json) list \<Rightarrow> grid_row \<Rightarrow> grid_row" where
  "write_fields now changed row =
     (if changed = [] then row
      else row\<lparr>gr_values := fold (\<lambda>(k, v) f. f(k := v)) changed (gr_values row), gr_updated_at := now\<rparr>)"

definition edit_detail :: "register_config \<Rightarrow> string \<Rightarrow> (string \<times> json) list \<Rightarrow> string" where
  "edit_detail config row_id cols =
     ''Updated fields ['' @ joined_by_comma (map quote (sort (map fst cols))) @ ''] on '' @ rc_entity_type config @ '' '' @ quote row_id"

definition apply_edit ::
  "register_config \<Rightarrow> datetime \<Rightarrow> user \<Rightarrow> grid_row \<Rightarrow> (string \<times> json) list \<Rightarrow> grid \<Rightarrow> grid answer" where
  "apply_edit config now user row cols s =
     (let rows = row_upd gr_id (gr_id row) (write_fields now (changed_fields row cols)) (gd_rows s)
      in if \<not> has_row gr_id (gr_id row) (gd_rows s) then Inl (Server_error RuntimeError)
         else if \<not> rc_constraints config rows then Inl violation
         else Inr (audit_grid (rc_entity_type config) (gr_id row) ''update'' (edit_detail config (gr_id row) cols)
                (us_email user) (s\<lparr>gd_rows := rows\<rparr>)))"

definition update_row ::
  "register_config \<Rightarrow> datetime \<Rightarrow> string \<Rightarrow> json option \<Rightarrow> (string \<times> json) list \<Rightarrow> user \<Rightarrow> grid \<Rightarrow>
   ((string \<times> json) list \<times> grid) answer" where
  "update_row config now row_id expected cols user s =
     abind (check_edit config user row_id expected cols s) (\<lambda>row.
     abind (apply_edit config now user row cols s) (\<lambda>s'.
       Inr (serialize_row config (write_fields now (changed_fields row cols) row), s')))"

definition delete_row :: "register_config \<Rightarrow> string \<Rightarrow> user \<Rightarrow> grid \<Rightarrow> grid answer" where
  "delete_row config row_id user s =
     (if \<not> rc_deletable config then Inl Method_not_allowed
      else abind (check_permission config Delete_row user) (\<lambda>_.
        if \<not> has_row gr_id row_id (gd_rows s) then Inl (Not_found ''Row not found'')
        else if rc_referenced config row_id
        then Inl (Unprocessable [(''__all__'', [''cannot delete: other records still reference this row''])])
        else Inr (audit_grid (rc_entity_type config) row_id ''delete''
               (''Deleted '' @ rc_entity_type config @ '' '' @ quote row_id) (us_email user)
               (s\<lparr>gd_rows := filter (\<lambda>r. gr_id r \<noteq> row_id) (gd_rows s)\<rparr>))))"

record grid_update =
  gu_id :: string
  gu_expected_updated_at :: "json option"
  gu_fields :: "(string \<times> json) list"

fun plan_updates :: "register_config \<Rightarrow> grid_update list \<Rightarrow> grid \<Rightarrow> (string \<times> (string \<times> json) list) list answer" where
  "plan_updates config [] s = Inr []"
| "plan_updates config (u # us) s =
     (case row_get gr_id (gu_id u) (gd_rows s) of
        None \<Rightarrow> Inl (Not_found (''Row '' @ gu_id u @ '' not found''))
      | Some row \<Rightarrow>
          if gu_expected_updated_at u \<noteq> Some (JStr (stamp_text row)) then Inl (Conflict (serialize_row config row))
          else let errors = validate_fields config (gu_fields u) True
               in if errors \<noteq> [] then Inl (Unprocessable errors)
                  else abind (plan_updates config us s) (\<lambda>planned. Inr ((gu_id u, gu_fields u) # planned)))"

definition apply_planned :: "datetime \<Rightarrow> (string \<times> (string \<times> json) list) list \<Rightarrow> grid_row list \<Rightarrow> grid_row list" where
  "apply_planned now planned rows =
     fold (\<lambda>(k, cols). row_upd gr_id k (\<lambda>row. write_fields now (changed_fields row cols) row)) planned rows"

text \<open>The flush of a bulk update is not guarded: a violated constraint is a server error.\<close>

definition bulk_update ::
  "register_config \<Rightarrow> datetime \<Rightarrow> grid_update list \<Rightarrow> user \<Rightarrow> grid \<Rightarrow> ((string \<times> json) list list \<times> grid) answer" where
  "bulk_update config now updates user s =
     (if \<not> rc_bulk_enabled config then Inl Method_not_allowed
      else abind (check_permission config Edit_row user) (\<lambda>_.
        abind (plan_updates config updates s) (\<lambda>planned.
          let rows = apply_planned now planned (gd_rows s)
          in if \<not> rc_constraints config rows then Inl (Server_error IntegrityError)
             else Inr (concat (map (\<lambda>(k, _). map (serialize_row config) (filter (\<lambda>r. gr_id r = k) rows)) planned),
                  audit_grid (rc_entity_type config) ''bulk'' ''bulk_update''
                    (''Bulk updated '' @ str_int (int (length planned)) @ '' '' @ rc_entity_type config @ '' rows'') (us_email user)
                    (s\<lparr>gd_rows := rows\<rparr>)))))"

section \<open>Histories\<close>

datatype grid_request =
    Create string datetime "(string \<times> json) list" user
  | Edit datetime string "json option" "(string \<times> json) list" user
  | Delete string user
  | Bulk datetime "grid_update list" user

fun grid_exec :: "register_config \<Rightarrow> grid_request \<Rightarrow> grid \<Rightarrow> grid answer" where
  "grid_exec config (Create new_id now payload user) s = map_sum id snd (create_row config new_id now payload user s)"
| "grid_exec config (Edit now row_id expected cols user) s = map_sum id snd (update_row config now row_id expected cols user s)"
| "grid_exec config (Delete row_id user) s = delete_row config row_id user s"
| "grid_exec config (Bulk now updates user) s = map_sum id snd (bulk_update config now updates user s)"

text \<open>The request's transaction is committed when it is answered and rolled back when it is refused.\<close>

definition grid_step :: "register_config \<Rightarrow> grid \<Rightarrow> grid_request \<Rightarrow> grid" where
  "grid_step config s q = (case grid_exec config q s of Inl _ \<Rightarrow> s | Inr s' \<Rightarrow> s')"

fun grid_user :: "grid_request \<Rightarrow> user" where
  "grid_user (Create new_id now payload user) = user"
| "grid_user (Edit now row_id expected cols user) = user"
| "grid_user (Delete row_id user) = user"
| "grid_user (Bulk now updates user) = user"

fun grid_action :: "grid_request \<Rightarrow> register_action" where
  "grid_action (Create new_id now payload user) = Create_row"
| "grid_action (Edit now row_id expected cols user) = Edit_row"
| "grid_action (Delete row_id user) = Delete_row"
| "grid_action (Bulk now updates user) = Edit_row"

fun grid_instant :: "grid_request \<Rightarrow> datetime option" where
  "grid_instant (Create new_id now payload user) = Some now"
| "grid_instant (Edit now row_id expected cols user) = Some now"
| "grid_instant (Delete row_id user) = None"
| "grid_instant (Bulk now updates user) = Some now"

fun targets :: "grid_request \<Rightarrow> string list" where
  "targets (Create new_id now payload user) = [new_id]"
| "targets (Edit now row_id expected cols user) = [row_id]"
| "targets (Delete row_id user) = [row_id]"
| "targets (Bulk now updates user) = map gu_id updates"

section \<open>What a request may do\<close>

lemma map_sum_id_Inr [simp]: "map_sum id f m = Inr y \<longleftrightarrow> (\<exists>x. m = Inr x \<and> y = f x)"
  by (cases m) auto

lemma check_permission_Inr:
  "check_permission config action user = Inr u \<Longrightarrow> (action \<in> set (rc_require_admin_for config) \<longrightarrow> us_role user = Admin) \<and>
     (action \<in> set write_actions \<longrightarrow> us_role user \<in> set write_roles)"
  by (auto simp: check_permission_def split: if_splits)

lemma grid_exec_permission:
  "grid_exec config q s = Inr s' \<Longrightarrow> us_role (grid_user q) \<in> set write_roles \<and>
     (grid_action q \<in> set (rc_require_admin_for config) \<longrightarrow> us_role (grid_user q) = Admin)"
  by (cases q) (auto simp: create_row_def update_row_def check_edit_def delete_row_def bulk_update_def write_actions_def
      dest!: check_permission_Inr split: if_splits)

lemma add_error_not_Nil [simp]: "add_error k m es \<noteq> []"
  by (auto simp: add_error_def)

lemma fold_add_error_not_Nil: "es \<noteq> [] \<Longrightarrow> fold (add_error k) ms es \<noteq> []"
  by (induction ms arbitrary: es) auto

lemma fold_keeps: "(\<And>x es. es \<noteq> [] \<Longrightarrow> f x es \<noteq> []) \<Longrightarrow> es \<noteq> [] \<Longrightarrow> fold f xs es \<noteq> []"
  by (induction xs arbitrary: es) auto

lemma fold_Nil_step:
  assumes "\<And>x es. es \<noteq> [] \<Longrightarrow> f x es \<noteq> []" "fold f xs es = []" "x \<in> set xs"
  shows "f x [] = []"
  using assms(2,3)
proof (induction xs arbitrary: es)
  case (Cons y xs)
  then show ?case
    using assms(1) fold_keeps [of f, OF assms(1)] by (metis fold_simps(2) set_ConsD)
qed simp

text \<open>An accepted payload names editable columns only, and each of its values passes its column's rules.\<close>

lemma validate_fields_Nil:
  assumes "validate_fields config payload partial = []"
  shows "(k, v) \<in> set payload \<Longrightarrow> k \<in> set (editable_names config)"
    and "f \<in> set (rc_fields config) \<Longrightarrow> \<not> fs_read_only f \<Longrightarrow> field_errors f (map_of payload (fs_name f)) partial = []"
proof -
  let ?g = "\<lambda>(k, _) errors. if k \<in> set (editable_names config) then errors else add_error k ''unknown or read-only field'' errors"
  let ?h = "\<lambda>f errors. if fs_read_only f then errors
     else fold (add_error (fs_name f)) (field_errors f (map_of payload (fs_name f)) partial) errors"
  have g: "es \<noteq> [] \<Longrightarrow> ?g x es \<noteq> []" for x :: "string \<times> json" and es by (cases x) simp
  have h: "es \<noteq> [] \<Longrightarrow> ?h f es \<noteq> []" for f es by (simp add: fold_add_error_not_Nil)
  have eq: "fold ?h (rc_fields config) (fold ?g payload []) = []"
    using assms by (simp add: validate_fields_def)
  have unknown: "fold ?g payload [] = []"
    using fold_keeps [of ?h, OF h] eq by blast
  show "k \<in> set (editable_names config)" if "(k, v) \<in> set payload"
    using fold_Nil_step [of ?g, OF g unknown that] by (auto split: if_splits)
  show "field_errors f (map_of payload (fs_name f)) partial = []" if "f \<in> set (rc_fields config)" "\<not> fs_read_only f"
  proof (rule ccontr)
    assume "field_errors f (map_of payload (fs_name f)) partial \<noteq> []"
    then have "?h f [] \<noteq> []"
      using that(2) fold_add_error_not_Nil by (cases "field_errors f (map_of payload (fs_name f)) partial") auto
    then show False using fold_Nil_step [of ?h, OF h eq that(1)] by simp
  qed
qed

section \<open>Optimistic concurrency\<close>

text \<open>What the writes of a request do to one row: nothing, or new values under the request's stamp.\<close>

lemma write_fields_stamp:
  "write_fields now changed row = row \<or> gr_updated_at (write_fields now changed row) = now"
  by (simp add: write_fields_def)

lemma write_fields_id [simp]: "gr_id (write_fields now changed row) = gr_id row"
  by (simp add: write_fields_def)

lemma fold_upd_frame: "k \<notin> fst ` set cs \<Longrightarrow> fold (\<lambda>(k, v) f. f(k := v)) cs g k = g k"
  by (induction cs arbitrary: g) auto

lemma write_fields_frame: "k \<notin> fst ` set changed \<Longrightarrow> gr_values (write_fields now changed row) k = gr_values row k"
  by (simp add: write_fields_def fold_upd_frame)

lemma changed_fields_names: "fst ` set (changed_fields row cols) \<subseteq> fst ` set cols"
  by (auto simp: changed_fields_def)

text \<open>A relation between a row and what it becomes, that holds of every edit and is transitive.\<close>

definition evolves :: "string list \<Rightarrow> datetime \<Rightarrow> grid_row \<Rightarrow> grid_row \<Rightarrow> bool" where
  "evolves names now r r' \<longleftrightarrow>
     gr_id r' = gr_id r \<and> (r' = r \<or> gr_updated_at r' = now) \<and> (\<forall>k. k \<notin> set names \<longrightarrow> gr_values r' k = gr_values r k)"

lemma evolves_refl [simp]: "evolves names now r r"
  by (simp add: evolves_def)

lemma evolves_trans: "evolves names now r r1 \<Longrightarrow> evolves names now r1 r2 \<Longrightarrow> evolves names now r r2"
  by (auto simp: evolves_def)

text \<open>The payload names only these columns.\<close>

definition only_names :: "string list \<Rightarrow> (string \<times> json) list \<Rightarrow> bool" where
  "only_names names cols = list_all (\<lambda>x. fst x \<in> set names) cols"

lemma validated_names: "validate_fields config cols partial = [] \<Longrightarrow> only_names (editable_names config) cols"
  using validate_fields_Nil(1) by (fastforce simp: only_names_def list_all_iff)

lemma only_names_changed:
  assumes "only_names names cols" "k \<in> fst ` set (changed_fields row cols)"
  shows "k \<in> set names"
proof -
  obtain x where "x \<in> set cols" "fst x = k"
    using assms(2) by (auto simp: changed_fields_def)
  then show ?thesis
    using assms(1) by (auto simp: only_names_def list_all_iff)
qed

lemma evolves_write:
  assumes "only_names names cols"
  shows "evolves names now r (write_fields now (changed_fields row cols) r)"
  unfolding evolves_def
proof (intro conjI allI impI)
  show "gr_values (write_fields now (changed_fields row cols) r) k = gr_values r k" if "k \<notin> set names" for k
    using that only_names_changed [OF assms] by (intro write_fields_frame) metis
qed (simp_all add: write_fields_stamp)

lemma plan_updates_Inr:
  "plan_updates config us s = Inr planned \<Longrightarrow> map fst planned = map gu_id us \<and>
     (\<forall>x \<in> set planned. only_names (editable_names config) (snd x))"
proof (induction us arbitrary: planned)
  case (Cons u us)
  then obtain rest where "plan_updates config us s = Inr rest" "planned = (gu_id u, gu_fields u) # rest"
    "validate_fields config (gu_fields u) True = []"
    by (auto simp: Let_def split: option.splits if_splits)
  moreover have "only_names (editable_names config) (gu_fields u)"
    using calculation(3) by (rule validated_names)
  ultimately show ?case using Cons.IH [of rest] by simp
qed simp

lemma apply_planned_rows:
  assumes "\<forall>x \<in> set planned. only_names names (snd x)"
  shows "list_all2 (\<lambda>r r'. evolves names now r r' \<and> (gr_id r \<notin> fst ` set planned \<longrightarrow> r' = r)) rows (apply_planned now planned rows)"
  using assms
proof (induction planned arbitrary: rows)
  case Nil
  then show ?case by (simp add: apply_planned_def list.rel_refl)
next
  case (Cons p planned)
  obtain k cols where p: "p = (k, cols)" by (cases p)
  let ?rows = "row_upd gr_id k (\<lambda>row. write_fields now (changed_fields row cols) row) rows"
  have one: "list_all2 (\<lambda>r r'. evolves names now r r' \<and> gr_id r' = gr_id r \<and> (gr_id r \<noteq> k \<longrightarrow> r' = r)) rows ?rows"
    using Cons.prems by (auto simp: row_upd_def list_all2_conv_all_nth p intro!: evolves_write)
  have "list_all2 (\<lambda>r r'. evolves names now r r' \<and> (gr_id r \<notin> fst ` set planned \<longrightarrow> r' = r)) ?rows (apply_planned now planned ?rows)"
    using Cons by (intro Cons.IH) auto
  then have "list_all2 (\<lambda>r r'. evolves names now r r' \<and> (gr_id r \<notin> fst ` set (p # planned) \<longrightarrow> r' = r)) rows (apply_planned now planned ?rows)"
    by (rule list_all2_trans [OF _ one, rotated]) (auto simp: p intro: evolves_trans)
  then show ?case by (simp add: apply_planned_def p)
qed

section \<open>The effect of a request\<close>

text \<open>A row after a request: as it was, or a row the request names, under its stamp, with other values in editable columns.\<close>

definition became :: "register_config \<Rightarrow> grid_request \<Rightarrow> grid_row \<Rightarrow> grid_row \<Rightarrow> bool" where
  "became config q r r' \<longleftrightarrow>
     r' = r \<or> (grid_instant q = Some (gr_updated_at r') \<and> gr_id r \<in> set (targets q) \<and> gr_id r' = gr_id r \<and>
       (\<forall>k. k \<notin> set (editable_names config) \<longrightarrow> gr_values r' k = gr_values r k))"

lemma became_evolves:
  "evolves (editable_names config) now r r' \<Longrightarrow> grid_instant q = Some now \<Longrightarrow> (gr_id r \<notin> set (targets q) \<longrightarrow> r' = r) \<Longrightarrow>
     became config q r r'"
  by (auto simp: became_def evolves_def)

lemma list_all2_right: "list_all2 P xs ys \<Longrightarrow> y \<in> set ys \<Longrightarrow> \<exists>x \<in> set xs. P x y"
  by (induction rule: list_all2_induct) auto

lemma grid_exec_rows:
  assumes "grid_exec config q s = Inr s'" "r' \<in> set (gd_rows s')"
  shows "(\<exists>r \<in> set (gd_rows s). became config q r r') \<or>
    (grid_instant q = Some (gr_updated_at r') \<and> \<not> has_row gr_id (gr_id r') (gd_rows s))"
proof (cases q)
  case (Create new_id now payload user)
  then show ?thesis
    using assms by (auto simp: create_row_def audit_grid_def Let_def new_row_def became_def split: if_splits)
next
  case (Edit now k expected cols user)
  then obtain row where row: "check_edit config user k expected cols s = Inr row" "apply_edit config now user row cols s = Inr s'"
    using assms(1) by (auto simp: update_row_def)
  then have "row_get gr_id k (gd_rows s) = Some row" "only_names (editable_names config) cols"
    by (auto simp: check_edit_def Let_def split: option.splits if_splits intro: validated_names)
  then have k: "gr_id row = k" by (auto dest: row_get_SomeD)
  obtain r where "r \<in> set (gd_rows s)" "r' = (if gr_id r = k then write_fields now (changed_fields row cols) r else r)"
    using assms(2) row(2) k by (auto simp: apply_edit_def audit_grid_def set_row_upd Let_def split: if_splits)
  then show ?thesis
    using Edit evolves_write [OF \<open>only_names (editable_names config) cols\<close>, of now r row]
    by (auto simp: became_def evolves_def)
next
  case (Delete k user)
  then show ?thesis
    using assms by (auto simp: delete_row_def audit_grid_def became_def split: if_splits)
next
  case (Bulk now us user)
  then obtain planned where planned: "plan_updates config us s = Inr planned" "gd_rows s' = apply_planned now planned (gd_rows s)"
    using assms(1) by (auto simp: bulk_update_def audit_grid_def Let_def split: if_splits)
  note facts = plan_updates_Inr [OF planned(1)]
  have "fst ` set planned = set (targets q)"
    using facts Bulk by (metis list.set_map targets.simps(4))
  then have "list_all2 (\<lambda>r r'. evolves (editable_names config) now r r' \<and> (gr_id r \<notin> set (targets q) \<longrightarrow> r' = r)) (gd_rows s) (gd_rows s')"
    using apply_planned_rows [of planned "editable_names config" now "gd_rows s"] facts planned(2) by simp
  from list_all2_right [OF this assms(2)] obtain r where "r \<in> set (gd_rows s)" "evolves (editable_names config) now r r'"
    "gr_id r \<notin> set (targets q) \<longrightarrow> r' = r" by blast
  moreover have "grid_instant q = Some now" using Bulk by simp
  ultimately show ?thesis using became_evolves by blast
qed

text \<open>
  What a request may do. A request that is answered comes from an account that may write,
  an administrator where the register asks for one, and every row after it is a new one or an
  old one that is unchanged or is named in the request, and then differs in editable columns only.
\<close>

theorem grid_request_effects:
  assumes "grid_exec config q s = Inr s'"
  shows "us_role (grid_user q) \<in> set write_roles \<and>
    (grid_action q \<in> set (rc_require_admin_for config) \<longrightarrow> us_role (grid_user q) = Admin) \<and>
    (\<forall>r' \<in> set (gd_rows s'). (\<exists>r \<in> set (gd_rows s). became config q r r') \<or>
       (grid_instant q = Some (gr_updated_at r') \<and> \<not> has_row gr_id (gr_id r') (gd_rows s)))"
  using grid_exec_permission [OF assms] grid_exec_rows [OF assms] by blast

lemma stamp_text_eq:
  "valid_datetime (gr_updated_at r) \<Longrightarrow> valid_datetime (gr_updated_at r') \<Longrightarrow>
     stamp_text r = stamp_text r' \<longleftrightarrow> gr_updated_at r = gr_updated_at r'"
  by (metis datetime_isoformat_roundtrip stamp_text_def sum.inject(2))

text \<open>Since a row was read, it is as it was or has a later stamp.\<close>

definition unseen_later :: "grid_row \<Rightarrow> grid \<Rightarrow> bool" where
  "unseen_later r s \<longleftrightarrow> (\<forall>r' \<in> set (gd_rows s). gr_id r' = gr_id r \<longrightarrow>
     r' = r \<or> gr_updated_at r < gr_updated_at r' \<and> valid_datetime (gr_updated_at r'))"

definition requested_after :: "grid_row \<Rightarrow> grid_request \<Rightarrow> bool" where
  "requested_after r q = (case grid_instant q of None \<Rightarrow> True | Some now \<Rightarrow> gr_updated_at r < now \<and> valid_datetime now)"

lemma unseen_later_step:
  assumes "unseen_later r s" "requested_after r q"
  shows "unseen_later r (grid_step config s q)"
proof (cases "grid_exec config q s")
  case (Inr s')
  show ?thesis
    unfolding unseen_later_def
  proof (intro ballI impI)
    fix r' assume "r' \<in> set (gd_rows (grid_step config s q))" "gr_id r' = gr_id r"
    then have r': "r' \<in> set (gd_rows s')" using Inr by (simp add: grid_step_def)
    from grid_exec_rows [OF Inr this] show "r' = r \<or> gr_updated_at r < gr_updated_at r' \<and> valid_datetime (gr_updated_at r')"
      using assms \<open>gr_id r' = gr_id r\<close> by (auto simp: became_def unseen_later_def requested_after_def)
  qed
qed (use assms in \<open>simp add: grid_step_def\<close>)

text \<open>
  C38. No edit is lost. Let a client read a row, and let any requests be served after that. When
  they changed the row, the client's edit with the stamp it read is refused with the current
  row, and changes nothing.
\<close>

theorem stale_edit_refused:
  assumes "row_get gr_id k (gd_rows s) = Some r" "unique_by gr_id (gd_rows s)" "valid_datetime (gr_updated_at r)"
    and "list_all (requested_after r) qs"
    and "row_get gr_id k (gd_rows (foldl (grid_step config) s qs)) = Some r'" "r' \<noteq> r"
    and "check_permission config Edit_row user = Inr ()"
  shows "update_row config now k (Some (JStr (stamp_text r))) cols user (foldl (grid_step config) s qs) =
    Inl (Conflict (serialize_row config r'))"
proof -
  have "unseen_later r (foldl (grid_step config) s qs)" if "unseen_later r s" for s
    using that assms(4) by (induction qs arbitrary: s) (auto intro: unseen_later_step)
  moreover have "unseen_later r s"
    using assms(1,2) row_get_SomeD [OF assms(1)] by (auto simp: unseen_later_def dest: unique_by_eqD)
  ultimately have "gr_updated_at r < gr_updated_at r' \<and> valid_datetime (gr_updated_at r')"
    using row_get_SomeD [OF assms(5)] row_get_SomeD [OF assms(1)] assms(6) by (auto simp: unseen_later_def)
  then have "stamp_text r \<noteq> stamp_text r'"
    using stamp_text_eq [OF assms(3), of r'] by auto
  then show ?thesis
    using assms(5,7) by (simp add: update_row_def check_edit_def)
qed

definition demo_register :: register_config where
  "demo_register =
     \<lparr>rc_name = ''sections'', rc_entity_type = ''section'',
      rc_fields = [\<lparr>fs_name = ''title'', fs_required = True, fs_max_length = Some 9, fs_choices = None, fs_read_only = False, fs_compute = None\<rparr>],
      rc_order_by = gr_id, rc_require_admin_for = [], rc_scope_field = None, rc_creatable = True, rc_deletable = True,
      rc_bulk_enabled = True, rc_defaults = (\<lambda>_. JNull), rc_constraints = (\<lambda>_. True), rc_referenced = (\<lambda>_. False)\<rparr>"

definition demo_grid_row :: grid_row where
  "demo_grid_row = \<lparr>gr_id = ''s'', gr_updated_at = Datetime (Date 2026 8 1) 0, gr_values = (\<lambda>_. JStr ''old'')\<rparr>"

definition demo_operator :: user where
  "demo_operator = \<lparr>us_id = ''u'', us_email = ''u@x'', us_password_hash = [], us_role = Operator, us_status = UActive, us_role_source = Local\<rparr>"

definition demo_edits :: "grid_request list" where
  "demo_edits = [Edit (Datetime (Date 2026 8 2) 0) ''s'' (Some (JStr (stamp_text demo_grid_row))) [(''title'', JStr ''new'')] demo_operator]"

definition demo_grid :: grid where
  "demo_grid = \<lparr>gd_rows = [demo_grid_row], gd_audit = []\<rparr>"

lemma demo_edit_runs:
  "map (\<lambda>r. (gr_id r, gr_values r ''title'')) (gd_rows (foldl (grid_step demo_register) demo_grid demo_edits)) = [(''s'', JStr ''new'')]"
  by code_simp

theorem stale_edit_refused_witness:
  "\<exists>current. update_row demo_register (Datetime (Date 2026 8 3) 0) ''s'' (Some (JStr (stamp_text demo_grid_row))) [(''title'', JStr ''mine'')] demo_operator
     (foldl (grid_step demo_register) demo_grid demo_edits) = Inl (Conflict current)"
proof -
  let ?s = "foldl (grid_step demo_register) demo_grid demo_edits"
  obtain r' where r': "row_get gr_id ''s'' (gd_rows ?s) = Some r'" "gr_values r' ''title'' = JStr ''new''"
    using demo_edit_runs by (auto simp: map_eq_Cons_conv)
  have row: "row_get gr_id ''s'' (gd_rows demo_grid) = Some demo_grid_row" "unique_by gr_id (gd_rows demo_grid)"
    "r' \<noteq> demo_grid_row"
    using r'(2) by (auto simp: demo_grid_def demo_grid_row_def unique_by_def)
  have clock: "valid_datetime (gr_updated_at demo_grid_row)" "list_all (requested_after demo_grid_row) demo_edits"
    "check_permission demo_register Edit_row demo_operator = Inr ()"
    by code_simp+
  show ?thesis
    using stale_edit_refused [OF row(1,2) clock(1,2) r'(1) row(3) clock(3)] by blast
qed

section \<open>Two edits at once\<close>

text \<open>
  The stamp is read and compared, and the row is then written, without a lock or a condition in the
  update. Two edits of one row whose checks both ran before either wrote are both answered, and
  the second overwrites what the first wrote in the columns they share; had the second one been
  checked after the first wrote, it would have been refused.
\<close>

theorem concurrent_edit_lost:
  assumes "check_edit config user1 k expected [(c, v1)] s = Inr row" "check_edit config user2 k expected [(c, v2)] s = Inr row"
    "v1 \<noteq> gr_values row c" "v2 \<noteq> gr_values row c"
    "apply_edit config t1 user1 row [(c, v1)] s = Inr s1" "apply_edit config t2 user2 row [(c, v2)] s1 = Inr s2"
    "gr_updated_at row \<noteq> t1" "valid_datetime (gr_updated_at row)" "valid_datetime t1"
  shows "(\<exists>r. row_get gr_id k (gd_rows s2) = Some r \<and> gr_values r c = v2) \<and>
    (\<exists>current. update_row config t2 k expected [(c, v2)] user2 s1 = Inl (Conflict current))"
proof -
  have row: "row_get gr_id k (gd_rows s) = Some row" and perm: "check_permission config Edit_row user2 = Inr ()"
    and expected: "expected = Some (JStr (stamp_text row))"
    using assms(2) by (auto simp: check_edit_def Let_def split: option.splits if_splits)
  have id: "gr_id row = k" using row_get_SomeD [OF row] by simp
  let ?w = "\<lambda>t v r. r\<lparr>gr_values := (gr_values r)(c := v), gr_updated_at := t\<rparr>"
  have w: "write_fields t (changed_fields row [(c, v)]) = ?w t v" if "v \<noteq> gr_values row c" for t v
    using that by (auto simp: write_fields_def changed_fields_def)
  have s1: "gd_rows s1 = row_upd gr_id k (?w t1 v1) (gd_rows s)"
    using assms(5) id w [OF assms(3)] by (auto simp: apply_edit_def audit_grid_def Let_def split: if_splits)
  have s2: "gd_rows s2 = row_upd gr_id k (?w t2 v2) (gd_rows s1)"
    using assms(6) id w [OF assms(4)] by (auto simp: apply_edit_def audit_grid_def Let_def split: if_splits)
  have get1: "row_get gr_id k (gd_rows s1) = Some (?w t1 v1 row)"
    using row by (simp add: s1 table_simps)
  have "stamp_text row \<noteq> stamp_text (?w t1 v1 row)"
    using stamp_text_eq [of row "?w t1 v1 row"] assms(7-9) by simp
  then have "update_row config t2 k expected [(c, v2)] user2 s1 = Inl (Conflict (serialize_row config (?w t1 v1 row)))"
    using get1 perm by (simp add: update_row_def check_edit_def expected)
  moreover have "row_get gr_id k (gd_rows s2) = Some (?w t2 v2 (?w t1 v1 row))"
    using get1 by (simp add: s2 table_simps)
  ultimately show ?thesis by simp
qed

end
