(* ===== verification/AI_Egress.thy ===== *)
theory AI_Egress
  imports Connector_Contract Evidence_Repository Policy_Lifecycle
begin

text \<open>
  The boundary between the compliance records and a language-model provider:
  \<open>src/app/ai_egress.py\<close>. Its two regular expressions are written as matchers; \<open>\s\<close> is the white
  space of \<open>Prelude\<close>, letters and digits are ASCII, and the categories of \<open>unicodedata\<close> are those
  of ASCII characters.
\<close>

section \<open>Matchers\<close>

definition letter :: "char \<Rightarrow> bool" where
  "letter c = (is_alnum c \<and> \<not> is_digit c)"

text \<open>A text that starts with \<open>p\<close>, and what follows it.\<close>

definition after_prefix :: "string \<Rightarrow> string \<Rightarrow> string option" where
  "after_prefix p s = (if take (length p) s = p then Some (drop (length p) s) else None)"

definition run_of :: "(char \<Rightarrow> bool) \<Rightarrow> nat \<Rightarrow> string \<Rightarrow> bool" where
  "run_of cls n s = (n \<le> length (takeWhile cls s))"

definition prefix_run :: "string \<Rightarrow> (char \<Rightarrow> bool) \<Rightarrow> nat \<Rightarrow> string \<Rightarrow> bool" where
  "prefix_run p cls n s = (case after_prefix p s of None \<Rightarrow> False | Some r \<Rightarrow> run_of cls n r)"

text \<open>\<open>re.search\<close>: a match that starts at some position.\<close>

fun found :: "(string \<Rightarrow> bool) \<Rightarrow> string \<Rightarrow> bool" where
  "found m [] = m []"
| "found m (c # s) = (m (c # s) \<or> found m s)"

definition one_of :: "string \<Rightarrow> char \<Rightarrow> bool" where
  "one_of cs c = (c \<in> set cs)"

text \<open>The alternatives of \<open>_CREDENTIAL_LIKE_RE\<close> on a text in lower case; it ignores case.\<close>

definition openai_key :: "string \<Rightarrow> bool" where
  "openai_key = prefix_run ''sk-'' (\<lambda>c. is_alnum c \<or> one_of ''_-'' c) 10"

definition github_token :: "string \<Rightarrow> bool" where
  "github_token s = (prefix_run ''gho_'' is_alnum 20 s \<or> prefix_run ''ghp_'' is_alnum 20 s)"

definition github_pat :: "string \<Rightarrow> bool" where
  "github_pat = prefix_run ''github_pat_'' (\<lambda>c. is_alnum c \<or> c = CHR ''_'') 20"

definition google_key :: "string \<Rightarrow> bool" where
  "google_key = prefix_run ''aizasy'' (\<lambda>c. is_alnum c \<or> one_of ''_-'' c) 20"

definition slack_token :: "string \<Rightarrow> bool" where
  "slack_token s =
     (case after_prefix ''xox'' s of
        Some (k # d # r) \<Rightarrow> one_of ''baprs'' k \<and> d = CHR ''-'' \<and> run_of (\<lambda>c. is_alnum c \<or> c = CHR ''-'') 10 r
      | _ \<Rightarrow> False)"

definition aws_key :: "string \<Rightarrow> bool" where
  "aws_key = prefix_run ''akia'' is_alnum 16"

definition bearer_token :: "string \<Rightarrow> bool" where
  "bearer_token s =
     (case after_prefix ''bearer'' s of None \<Rightarrow> False
      | Some r \<Rightarrow> run_of is_space 1 r \<and> run_of (\<lambda>c. is_alnum c \<or> one_of ''._-'' c) 1 (dropWhile is_space r))"

definition key_assignment :: "string \<Rightarrow> bool" where
  "key_assignment r =
     (case after_prefix ''key'' r of None \<Rightarrow> False
      | Some r \<Rightarrow>
          (case dropWhile is_space r of
             c # r \<Rightarrow> one_of '':='' c \<and> dropWhile is_space r \<noteq> []
           | [] \<Rightarrow> False))"

definition api_key :: "string \<Rightarrow> bool" where
  "api_key s =
     (case after_prefix ''api'' s of None \<Rightarrow> False
      | Some r \<Rightarrow> key_assignment r \<or> (case r of c # r \<Rightarrow> (is_space c \<or> one_of ''_-'' c) \<and> key_assignment r | [] \<Rightarrow> False))"

definition password_at :: "string \<Rightarrow> bool" where
  "password_at r =
     (let secret = (\<lambda>c. \<not> is_space c \<and> \<not> one_of ''@/'' c)
      in take 1 r = '':'' \<and> run_of secret 1 (drop 1 r) \<and> take 1 (dropWhile secret (drop 1 r)) = ''@'')"

definition user_info :: "string \<Rightarrow> bool" where
  "user_info r =
     (let user = (\<lambda>c. \<not> is_space c \<and> \<not> one_of '':@/'' c)
      in run_of user 1 r \<and> password_at (dropWhile user r))"

definition connection_string :: "string \<Rightarrow> bool" where
  "connection_string s =
     (case s of
        c # r \<Rightarrow>
          letter c \<and>
          (case after_prefix ''://'' (dropWhile (\<lambda>c. is_alnum c \<or> one_of ''+.-'' c) r) of
             None \<Rightarrow> False
           | Some r \<Rightarrow> user_info r)
      | [] \<Rightarrow> False)"

definition credential_like :: "string \<Rightarrow> bool" where
  "credential_like s =
     found (\<lambda>r. openai_key r \<or> github_token r \<or> github_pat r \<or> google_key r \<or> slack_token r \<or> aws_key r \<or>
                bearer_token r \<or> api_key r \<or> connection_string r) (lower s)"

text \<open>
  \<open>_EMAIL_LIKE_RE\<close>: the domain \<open>[A-Za-z0-9.-]+\.[A-Za-z]{2,}\<close> has a dot, not its first character,
  that two letters follow.
\<close>

fun dotted_tail :: "string \<Rightarrow> bool" where
  "dotted_tail (c # a # b # r) = ((c = CHR ''.'' \<and> letter a \<and> letter b) \<or> dotted_tail (a # b # r))"
| "dotted_tail _ = False"

definition email_here :: "string \<Rightarrow> bool" where
  "email_here s =
     (case s of
        c # r \<Rightarrow>
          is_alnum c \<and>
          (case dropWhile (\<lambda>c. is_alnum c \<or> one_of ''._%+-'' c) r of
             d # r \<Rightarrow> d = CHR ''@'' \<and> dotted_tail (drop 1 (takeWhile (\<lambda>c. is_alnum c \<or> one_of ''.-'' c) r))
           | [] \<Rightarrow> False)
      | [] \<Rightarrow> False)"

definition email_like :: "string \<Rightarrow> bool" where
  "email_like s = found email_here s"

definition scrub_string :: "string \<Rightarrow> string" where
  "scrub_string v =
     (if credential_like v then ''[redacted-credential-like-value]''
      else if email_like v then ''[redacted-email-like-value]'' else v)"

section \<open>The context of a prompt\<close>

text \<open>Control characters and separators carry no meaning.\<close>

definition is_meaningless_reason :: "string \<Rightarrow> bool" where
  "is_meaningless_reason reason =
     blank (filter (\<lambda>c. \<not> (of_char c \<le> (32 :: nat) \<or> of_char c = (127 :: nat))) reason)"

record ai_opt_in =
  op_actor :: string
  op_reason :: string

definition new_opt_in :: "string \<Rightarrow> string \<Rightarrow> ai_opt_in result" where
  "new_opt_in actor reason =
     (if is_meaningless_reason reason then Inl (ValueError ''AiEgressOptIn.reason must be a non-empty, deliberate justification'')
      else Inr \<lparr>op_actor = actor, op_reason = reason\<rparr>)"

record ai_prompt_context =
  ap_entity_type :: string
  ap_entity_id :: string
  ap_fields :: "(string \<times> json) list"
  ap_included_free_text :: bool
  ap_opt_in_actor :: "string option"
  ap_opt_in_reason :: "string option"

definition scrub_value :: "json \<Rightarrow> json" where
  "scrub_value v = (case v of JStr x \<Rightarrow> JStr (scrub_string x) | _ \<Rightarrow> v)"

definition prompt_context :: "string \<Rightarrow> string \<Rightarrow> (string \<times> json) list \<Rightarrow> ai_opt_in option \<Rightarrow> ai_prompt_context" where
  "prompt_context entity_type entity_id pairs opt_in =
     \<lparr>ap_entity_type = entity_type, ap_entity_id = entity_id, ap_fields = map (\<lambda>(k, v). (k, scrub_value v)) pairs,
      ap_included_free_text = (opt_in \<noteq> None), ap_opt_in_actor = map_option op_actor opt_in,
      ap_opt_in_reason = map_option op_reason opt_in\<rparr>"

definition free_text :: "ai_opt_in option \<Rightarrow> (string \<times> json) list \<Rightarrow> (string \<times> json) list" where
  "free_text opt_in pairs = (if opt_in = None then [] else pairs)"

text \<open>An instant read back from the database has no time zone.\<close>

definition iso_text :: "datetime option \<Rightarrow> json" where
  "iso_text v = jopt (map_option (\<lambda>t. date_isoformat (dt_date t) @ ''T'' @ time_isoformat (dt_micros t)) v)"

definition project_evidence_artifact :: "db \<Rightarrow> evidence_artifact \<Rightarrow> ai_opt_in option \<Rightarrow> ai_prompt_context" where
  "project_evidence_artifact s a opt_in =
     (let latest = artifact_latest_version (ea_id a) s;
          text_of = (\<lambda>g. case latest of None \<Rightarrow> JNull | Some v \<Rightarrow> JStr (g v));
          int_of = (\<lambda>g. case latest of None \<Rightarrow> JNull | Some v \<Rightarrow> JInt (g v))
      in prompt_context ''evidence_artifact'' (ea_id a)
           ([(''title'', JStr (ea_title a)), (''version_count'', JInt (int (length (artifact_versions (ea_id a) s)))),
             (''latest_version_number'', int_of av_version_number), (''media_type'', text_of av_media_type),
             (''byte_size'', int_of av_byte_size), (''sha256'', text_of av_sha256),
             (''captured_at'', iso_text (map_option av_captured_at latest)), (''source_type'', text_of av_source_type)] @
            free_text opt_in [(''description'', JStr (ea_description a))]) opt_in)"

definition project_control_occurrence :: "db \<Rightarrow> control_occurrence \<Rightarrow> ai_opt_in option \<Rightarrow> ai_prompt_context" where
  "project_control_occurrence s oc opt_in =
     prompt_context ''control_occurrence'' (oc_id oc)
       ([(''control_name'', jopt (map_option ic_name (row_get ic_id (oc_control_id oc) (internal_controls s)))),
         (''origin'', JStr (case oc_origin oc of Generated \<Rightarrow> ''generated'' | Manual \<Rightarrow> ''manual'')),
         (''due_at'', iso_text (oc_due_at oc)), (''performed_at'', iso_text (oc_performed_at oc)),
         (''has_responsible_owner'', JBool (oc_responsible_person_id oc \<noteq> None))] @
        free_text opt_in [(''scope_note'', JStr (oc_scope_note oc)), (''evidence_note'', JStr (oc_evidence_note oc))]) opt_in"

definition project_finding :: "finding \<Rightarrow> ai_opt_in option \<Rightarrow> ai_prompt_context" where
  "project_finding f opt_in =
     prompt_context ''finding'' (fi_id f)
       ([(''title'', JStr (fi_title f)), (''severity'', JStr (fi_severity f)),
         (''status'', JStr (case fi_status f of Open \<Rightarrow> ''open'' | Remediating \<Rightarrow> ''remediating''
                            | Retesting \<Rightarrow> ''retesting'' | FClosed \<Rightarrow> ''closed'')),
         (''due_date'', jdate (fi_due_date f)), (''has_owner'', JBool (fi_owner_person_id f \<noteq> None))] @
        free_text opt_in [(''description'', JStr (fi_description f)), (''closure_note'', JStr (fi_closure_note f))]) opt_in"

definition project_policy :: "policy \<Rightarrow> ai_opt_in option \<Rightarrow> ai_prompt_context" where
  "project_policy p opt_in =
     prompt_context ''policy'' (po_id p)
       ([(''title'', JStr (po_title p)), (''status'', JStr (po_status p)), (''effective_date'', jdate (po_effective_date p)),
         (''next_review_date'', jdate (po_next_review_date p)), (''has_named_owner'', JBool (po_owner p \<noteq> []))] @
        free_text opt_in [(''description'', JStr (po_description p))]) opt_in"

section \<open>The log of what was sent\<close>

definition record_ai_egress :: "ai_prompt_context \<Rightarrow> string \<Rightarrow> string \<Rightarrow> string \<Rightarrow> string \<Rightarrow> db \<Rightarrow> db" where
  "record_ai_egress c task_type provider_name model actor s =
     record_audit_event (''ai_egress:'' @ ap_entity_type c) (ap_entity_id c) ''prompt_sent''
       (json_dumps (JObj [(''task_type'', JStr (scrub_string task_type)), (''provider_name'', JStr (scrub_string provider_name)),
          (''model'', JStr (scrub_string model)), (''included_free_text'', JBool (ap_included_free_text c)),
          (''opt_in_actor'', jopt (ap_opt_in_actor c)), (''opt_in_reason'', jopt (ap_opt_in_reason c)),
          (''fields_sent'', JObj (ap_fields c))])) actor s"

section \<open>What can leave\<close>

text \<open>What every match needs: one of nine openings, or a sign.\<close>

definition opens_with :: "string \<Rightarrow> string \<Rightarrow> bool" where
  "opens_with p = found (\<lambda>r. after_prefix p r \<noteq> None)"

lemma found_mono: "found m s \<Longrightarrow> (\<And>r. m r \<Longrightarrow> k r) \<Longrightarrow> found k s"
  by (induction m s rule: found.induct) auto

lemma found_disj: "found (\<lambda>r. m r \<or> k r) s = (found m s \<or> found k s)"
  by (induction m s rule: found.induct) auto

lemma found_at_sign: "found m s \<Longrightarrow> (\<And>r. m r \<Longrightarrow> CHR ''@'' \<in> set r) \<Longrightarrow> CHR ''@'' \<in> set s"
  by (induction m s rule: found.induct) force+

lemma dropWhile_hd_in: "dropWhile p s = c # r \<Longrightarrow> c \<in> set s"
  by (metis list.set_intros(1) set_dropWhileD)

lemma after_prefix_set: "after_prefix p s = Some r \<Longrightarrow> set r \<subseteq> set s"
  by (auto simp: after_prefix_def split: if_splits dest: in_set_dropD)

lemma password_at_sign: "password_at r \<Longrightarrow> CHR ''@'' \<in> set r"
  unfolding password_at_def Let_def by (metis in_set_dropD in_set_takeD list.set_intros(1) set_dropWhileD)

lemma user_info_at: "user_info r \<Longrightarrow> CHR ''@'' \<in> set r"
  unfolding user_info_def Let_def using password_at_sign set_dropWhileD by metis

lemma connection_string_at: "connection_string s \<Longrightarrow> CHR ''@'' \<in> set s"
  using set_dropWhileD
  by (fastforce simp: connection_string_def split: list.split_asm option.split_asm dest!: user_info_at after_prefix_set)

lemma email_here_at: "email_here s \<Longrightarrow> CHR ''@'' \<in> set s"
  by (auto simp: email_here_def split: list.splits dest!: dropWhile_hd_in)

lemma prefix_run_opens: "prefix_run p cls n r \<Longrightarrow> after_prefix p r \<noteq> None"
  by (auto simp: prefix_run_def split: option.splits)

definition openings :: "string list" where
  "openings = [''sk-'', ''gho_'', ''ghp_'', ''github_pat_'', ''aizasy'', ''xox'', ''akia'', ''bearer'', ''api'']"

lemma credential_needs: "credential_like v \<Longrightarrow> list_ex (\<lambda>p. opens_with p (lower v)) openings \<or> CHR ''@'' \<in> set (lower v)"
proof -
  assume "credential_like v"
  then have "found (\<lambda>r. list_ex (\<lambda>p. after_prefix p r \<noteq> None) openings \<or> CHR ''@'' \<in> set r) (lower v)"
    unfolding credential_like_def
    by (rule found_mono)
      (auto simp: openings_def openai_key_def github_token_def github_pat_def google_key_def slack_token_def aws_key_def
         bearer_token_def api_key_def split: option.splits dest!: prefix_run_opens connection_string_at)
  then show ?thesis
    using found_at_sign [of "\<lambda>r. CHR ''@'' \<in> set r" "lower v"]
    by (auto simp: found_disj openings_def opens_with_def)
qed

definition markers :: "string list" where
  "markers = [''[redacted-credential-like-value]'', ''[redacted-email-like-value]'']"

lemma scrub_string_clean: "\<not> credential_like (scrub_string v) \<and> \<not> email_like (scrub_string v)"
proof -
  have low: "map lower markers = markers" by code_simp
  have "\<not> credential_like m \<and> \<not> email_like m" if "m \<in> set markers" for m
  proof -
    have "lower m = m" using low that by (auto simp: markers_def)
    moreover have "\<not> list_ex (\<lambda>p. opens_with p m) openings"
      using that by (auto simp: markers_def openings_def opens_with_def after_prefix_def)
    moreover have "CHR ''@'' \<notin> set m" using that by (auto simp: markers_def)
    ultimately show ?thesis
      using credential_needs [of m] found_at_sign [of email_here m, OF _ email_here_at] by (auto simp: email_like_def)
  qed
  then show ?thesis by (simp add: scrub_string_def markers_def)
qed

lemma prompt_context_clean:
  "(k, JStr v) \<in> set (ap_fields (prompt_context et i pairs opt_in)) \<Longrightarrow> \<not> credential_like v \<and> \<not> email_like v"
  using scrub_string_clean by (auto simp: prompt_context_def scrub_value_def split: json.splits)

text \<open>The rows a prompt can be built from.\<close>

datatype prompt_source =
    Artifact evidence_artifact
  | Occurrence control_occurrence
  | Finding_row finding
  | Policy_row policy

fun project_source :: "db \<Rightarrow> prompt_source \<Rightarrow> ai_opt_in option \<Rightarrow> ai_prompt_context" where
  "project_source s (Artifact a) opt_in = project_evidence_artifact s a opt_in"
| "project_source s (Occurrence oc) opt_in = project_control_occurrence s oc opt_in"
| "project_source s (Finding_row f) opt_in = project_finding f opt_in"
| "project_source s (Policy_row p) opt_in = project_policy p opt_in"

text \<open>The row's table and id.\<close>

fun source_kind :: "prompt_source \<Rightarrow> string" where
  "source_kind (Artifact a) = ''evidence_artifact''"
| "source_kind (Occurrence oc) = ''control_occurrence''"
| "source_kind (Finding_row f) = ''finding''"
| "source_kind (Policy_row p) = ''policy''"

fun source_id :: "prompt_source \<Rightarrow> string" where
  "source_id (Artifact a) = ea_id a"
| "source_id (Occurrence oc) = oc_id oc"
| "source_id (Finding_row f) = fi_id f"
| "source_id (Policy_row p) = po_id p"

text \<open>
  A row without its people: whether there is an owner stays, who it is goes. And the row without
  its narrative either.
\<close>

definition someone :: "string option \<Rightarrow> string option" where
  "someone v = map_option (\<lambda>_. []) v"

fun nameless :: "prompt_source \<Rightarrow> prompt_source" where
  "nameless (Artifact a) = Artifact a"
| "nameless (Occurrence oc) = Occurrence (oc\<lparr>oc_responsible_person_id := someone (oc_responsible_person_id oc), oc_performed_by_person_id := None\<rparr>)"
| "nameless (Finding_row f) = Finding_row (f\<lparr>fi_owner_person_id := someone (fi_owner_person_id f)\<rparr>)"
| "nameless (Policy_row p) = Policy_row (p\<lparr>po_owner := (if po_owner p = [] then [] else ''x'')\<rparr>)"

fun without_narrative :: "prompt_source \<Rightarrow> prompt_source" where
  "without_narrative (Artifact a) = Artifact (a\<lparr>ea_description := []\<rparr>)"
| "without_narrative (Occurrence oc) = Occurrence (oc\<lparr>oc_scope_note := [], oc_evidence_note := []\<rparr>)"
| "without_narrative (Finding_row f) = Finding_row (f\<lparr>fi_description := [], fi_closure_note := []\<rparr>)"
| "without_narrative (Policy_row p) = Policy_row (p\<lparr>po_description := []\<rparr>)"

lemmas projections = project_evidence_artifact_def project_control_occurrence_def project_finding_def project_policy_def

lemma project_nameless: "project_source s (nameless src) opt_in = project_source s src opt_in"
  by (cases src) (simp_all add: projections someone_def)

lemma project_without_narrative: "project_source s (without_narrative src) None = project_source s src None"
  by (cases src) (simp_all add: projections free_text_def)

lemma project_flat:
  "(k, v) \<in> set (ap_fields (project_source s src opt_in)) \<Longrightarrow>
     v = JNull \<or> (\<exists>b. v = JBool b) \<or> (\<exists>n. v = JInt n) \<or> (\<exists>x. v = JStr x \<and> \<not> credential_like x \<and> \<not> email_like x)"
proof -
  assume field: "(k, v) \<in> set (ap_fields (project_source s src opt_in))"
  obtain et i pairs where ctx: "project_source s src opt_in = prompt_context et i pairs opt_in"
    by (cases src) (auto simp: projections Let_def)
  have "v = JNull \<or> (\<exists>b. v = JBool b) \<or> (\<exists>n. v = JInt n) \<or> (\<exists>x. v = JStr x)"
    using field
    by (cases src) (auto simp: projections prompt_context_def scrub_value_def free_text_def iso_text_def jopt_def jdate_def Let_def
        split: option.splits if_splits)
  then show ?thesis
    using field prompt_context_clean unfolding ctx by metis
qed

text \<open>
  C39. The boundary to the provider. The fields of a context never depend on who a person is, with
  or without an opt-in; without one they do not depend on a word of the narrative either; and
  every field is a number, a truth value, nothing, or a text in which no credential or e-mail
  address can be recognised, whatever was typed into the record. Beside the fields a context holds
  the kind and id of its row, whether narrative was included, and the actor and the reason of the
  opt-in exactly as they were given: these two are not scrubbed.
\<close>

theorem egress_boundary:
  "project_source s (nameless src) opt_in = project_source s src opt_in \<and>
   project_source s (without_narrative (nameless src)) None = project_source s src None \<and>
   (\<forall>k v. (k, JStr v) \<in> set (ap_fields (project_source s src opt_in)) \<longrightarrow> \<not> credential_like v \<and> \<not> email_like v) \<and>
   (\<forall>(k, v) \<in> set (ap_fields (project_source s src opt_in)).
      v = JNull \<or> (\<exists>b. v = JBool b) \<or> (\<exists>n. v = JInt n) \<or> (\<exists>x. v = JStr x)) \<and>
   (ap_included_free_text (project_source s src opt_in) \<longleftrightarrow> opt_in \<noteq> None) \<and>
   ap_opt_in_actor (project_source s src opt_in) = map_option op_actor opt_in \<and>
   ap_opt_in_reason (project_source s src opt_in) = map_option op_reason opt_in \<and>
   ap_entity_type (project_source s src opt_in) = source_kind src \<and>
   ap_entity_id (project_source s src opt_in) = source_id src"
proof -
  obtain et i pairs where ctx: "project_source s src opt_in = prompt_context et i pairs opt_in"
    by (cases src) (auto simp: projections Let_def)
  have "ap_entity_type (project_source s src opt_in) = source_kind src"
    "ap_entity_id (project_source s src opt_in) = source_id src"
    by (cases src; simp add: projections prompt_context_def Let_def)+
  moreover have "ap_included_free_text (project_source s src opt_in) \<longleftrightarrow> opt_in \<noteq> None"
    "ap_opt_in_actor (project_source s src opt_in) = map_option op_actor opt_in"
    "ap_opt_in_reason (project_source s src opt_in) = map_option op_reason opt_in"
    unfolding ctx by (simp_all add: prompt_context_def)
  ultimately show ?thesis
    using project_flat [of _ _ s src opt_in] by (simp add: project_nameless project_without_narrative) blast
qed

lemmas matchers = credential_like_def lower_def lower_char_def openai_key_def github_token_def github_pat_def google_key_def
  slack_token_def aws_key_def bearer_token_def api_key_def key_assignment_def connection_string_def user_info_def
  password_at_def prefix_run_def after_prefix_def run_of_def is_alnum_def is_digit_def letter_def one_of_def is_space_def
  email_like_def email_here_def

definition demo_pasted :: policy where
  "demo_pasted = \<lparr>po_id = ''p'', po_title = ''sk-abcdefghij0'', po_description = [], po_owner = ''ann'', po_status = ''draft'',
     po_effective_date = None, po_next_review_date = None, po_archived = False, po_source_type = ''manual'',
     po_drive_file_id = None, po_drive_web_url = None, po_drive_mime_type = None,
     po_drive_last_seen_revision_id = None, po_drive_last_synced_at = None\<rparr>"

lemma egress_boundary_witness:
  "\<exists>v. (''title'', JStr v) \<in> set (ap_fields (project_source empty_db (Policy_row demo_pasted) None)) \<and>
     \<not> credential_like v \<and> v \<noteq> po_title demo_pasted"
proof -
  have "(''title'', JStr (scrub_string (po_title demo_pasted))) \<in> set (ap_fields (project_source empty_db (Policy_row demo_pasted) None))"
    by (simp add: project_policy_def prompt_context_def scrub_value_def)
  moreover from this have "\<not> credential_like (scrub_string (po_title demo_pasted))"
    using egress_boundary [of empty_db "Policy_row demo_pasted" None] by blast
  moreover have "credential_like (po_title demo_pasted)"
    by (simp add: demo_pasted_def matchers)
  ultimately show ?thesis by metis
qed

text \<open>The patterns at work: a key, an address, a connection string, an assignment, and three harmless texts.\<close>

lemma scrubbing_examples:
  "scrub_string ''now sk-abcdefghij0 on'' = ''[redacted-credential-like-value]''"
  "scrub_string ''db pg://u:pw@h/x'' = ''[redacted-credential-like-value]''"
  "scrub_string ''api key : x'' = ''[redacted-credential-like-value]''"
  "scrub_string ''ann.b@ex.org'' = ''[redacted-email-like-value]''"
  "scrub_string ''risk-based'' = ''risk-based''" "scrub_string ''a@b'' = ''a@b''" "scrub_string ''sk-short'' = ''sk-short''"
  by (simp_all add: scrub_string_def matchers)

text \<open>
  The log line holds the reason of an opt-in as it was typed: a key in the reason is stored in the
  audit trail, though the same text in a field or in the name of the model would be scrubbed.
\<close>

lemma scrub_string_Nil: "scrub_string [] = []"
  by (simp add: scrub_string_def matchers)

lemma demo_reason_taken:
  "new_opt_in ''ann'' ''sk-abcdefghij0'' = Inr \<lparr>op_actor = ''ann'', op_reason = ''sk-abcdefghij0''\<rparr>"
  by (simp add: new_opt_in_def is_meaningless_reason_def blank_def strip_def is_space_def)

lemma opt_in_reason_logged:
  "case new_opt_in ''ann'' ''sk-abcdefghij0'' of Inl _ \<Rightarrow> False
   | Inr opt_in \<Rightarrow>
       op_reason opt_in = ''sk-abcdefghij0'' \<and> credential_like (op_reason opt_in) \<and>
       ae_detail (last (audit_events (record_ai_egress (prompt_context ''policy'' ''p'' pairs (Some opt_in)) [] [] [] ''ann'' s))) =
       json_dumps (JObj [(''task_type'', JStr []), (''provider_name'', JStr []), (''model'', JStr []),
         (''included_free_text'', JBool True), (''opt_in_actor'', JStr ''ann''), (''opt_in_reason'', JStr ''sk-abcdefghij0''),
         (''fields_sent'', JObj (ap_fields (prompt_context ''policy'' ''p'' pairs (Some opt_in))))])"
  by (simp add: jopt_def demo_reason_taken scrub_string_Nil prompt_context_def record_ai_egress_def record_audit_event_def)
    (simp add: matchers)

end
