(* ===== verification/Drive.thy ===== *)
theory Drive
  imports Connector_Lifecycle Evidence_Repository Py_Text
begin

text \<open>
  The Google Drive connector: \<open>src/app/google_drive.py\<close> and the connection of
  \<open>src/app/routers/google_drive.py\<close>. What Google answers to a request is a parameter; building
  the request and reading the answer is the model. A \<open>GoogleDriveError\<close>, which the routes catch,
  is \<open>ValueError\<close>; what no route catches is another error. The address the browser is sent to when
  a connection starts is left out.
\<close>

section \<open>File ids\<close>

definition id_char :: "char \<Rightarrow> bool" where
  "id_char c = (is_alnum c \<or> c = CHR ''_'' \<or> c = CHR ''-'')"

text \<open>\<open>_DRIVE_URL_ID_RE.search\<close>: the run of ten or more after the first \<open>/d/\<close> that has one.\<close>

fun url_id :: "string \<Rightarrow> string option" where
  "url_id [] = None"
| "url_id (c # s) =
     (if take 3 (c # s) = ''/d/'' \<and> 10 \<le> length (takeWhile id_char (drop 3 (c # s)))
      then Some (takeWhile id_char (drop 3 (c # s))) else url_id s)"

text \<open>\<open>_DRIVE_ID_RE.match\<close>: the dollar sign also matches before a final line break.\<close>

definition drive_id_body :: "string \<Rightarrow> string" where
  "drive_id_body v = (if v \<noteq> [] \<and> last v = CHR 0x0A then butlast v else v)"

definition is_drive_id :: "string \<Rightarrow> bool" where
  "is_drive_id v = (10 \<le> length (drive_id_body v) \<and> list_all id_char (drive_id_body v))"

definition parse_drive_file_id :: "string \<Rightarrow> string result" where
  "parse_drive_file_id value =
     (let value = strip value; candidate = (case url_id value of Some m \<Rightarrow> m | None \<Rightarrow> value)
      in if is_drive_id candidate then Inr candidate
         else Inl (ValueError ''Not a recognized Google Drive file ID or URL.''))"

section \<open>Requests\<close>

text \<open>
  The answer to a request: none, a status that is an error, a body that is not JSON, or JSON. A
  stream has the length it declares and its chunks, where the connection may break.
\<close>

datatype http_answer = Unreachable | Status nat | Not_json | Answer json

datatype stream_answer = No_stream | Stream_status nat | Chunks "string option" "string option list"

record drive_api =
  da_get :: "string \<Rightarrow> (string \<times> string) list \<Rightarrow> string \<Rightarrow> http_answer"
  da_stream :: "string \<Rightarrow> (string \<times> string) list \<Rightarrow> string \<Rightarrow> stream_answer"
  da_exchange :: "string \<Rightarrow> http_answer"
  da_refresh :: "string \<Rightarrow> string option"

record drive_file_metadata =
  df_file_id :: string
  df_name :: string
  df_mime_type :: string
  df_web_view_link :: "string option"
  df_current_revision_id :: "string option"

definition drive_api_base :: string where
  "drive_api_base = ''https://www.googleapis.com/drive/v3''"

definition google_workspace_export_mime_types :: "string \<rightharpoonup> string" where
  "google_workspace_export_mime_types =
     [''application/vnd.google-apps.document'' \<mapsto> ''application/pdf'',
      ''application/vnd.google-apps.spreadsheet'' \<mapsto> ''application/pdf'',
      ''application/vnd.google-apps.presentation'' \<mapsto> ''application/pdf'']"

definition drive_status_error :: "nat \<Rightarrow> error" where
  "drive_status_error status =
     (if status = 404 then ValueError ''Drive file not found or not accessible with the current connection.''
      else if status = 403 then ValueError ''Drive denied access to this file with the current connection's permissions.''
      else ValueError (''Google Drive returned an unexpected error ('' @ str_int (int status) @ '').''))"

definition file_url :: "string \<Rightarrow> string" where
  "file_url file_id = drive_api_base @ ''/files/'' @ file_id"

definition get_file_metadata :: "drive_api \<Rightarrow> string \<Rightarrow> string \<Rightarrow> drive_file_metadata result" where
  "get_file_metadata api file_id token =
     (case da_get api (file_url file_id)
        [(''fields'', ''id,name,mimeType,webViewLink,headRevisionId''), (''supportsAllDrives'', ''true'')] token of
        Unreachable \<Rightarrow> Inl (ValueError ''Could not reach Google Drive.'')
      | Status n \<Rightarrow> Inl (drive_status_error n)
      | Not_json \<Rightarrow> Inl RuntimeError
      | Answer payload \<Rightarrow>
          rbind (req_str ''id'' payload) (\<lambda>i.
          rbind (str_or [] ''name'' payload) (\<lambda>name.
          rbind (str_or [] ''mimeType'' payload) (\<lambda>mime.
          rbind (opt_str ''webViewLink'' payload) (\<lambda>link.
          rbind (opt_str ''headRevisionId'' payload) (\<lambda>revision.
            Inr \<lparr>df_file_id = i, df_name = name, df_mime_type = mime, df_web_view_link = link,
                 df_current_revision_id = revision\<rparr>))))))"

definition list_revisions :: "drive_api \<Rightarrow> string \<Rightarrow> string \<Rightarrow> json list result" where
  "list_revisions api file_id token =
     (case da_get api (file_url file_id @ ''/revisions'') [(''fields'', ''revisions(id,modifiedTime,mimeType)'')] token of
        Unreachable \<Rightarrow> Inr [] | Status _ \<Rightarrow> Inr []
      | Not_json \<Rightarrow> Inl RuntimeError
      | Answer payload \<Rightarrow> rbind (jget_or (JArr []) ''revisions'' payload) as_arr)"

definition too_large :: "nat \<Rightarrow> error" where
  "too_large max_bytes =
     ValueError (''Drive file exceeds the configured '' @ str_int (int (max_bytes div (1024 * 1024))) @ '' MB upload limit.'')"

definition broken_download :: error where
  "broken_download = ValueError ''Could not download the Drive file's content.''"

text \<open>The loop over the chunks; \<open>None\<close> is where the connection breaks.\<close>

fun read_chunks :: "nat \<Rightarrow> nat \<Rightarrow> string option list \<Rightarrow> string \<Rightarrow> string result" where
  "read_chunks max_bytes seen [] content = Inr content"
| "read_chunks max_bytes seen (None # chunks) content = Inl broken_download"
| "read_chunks max_bytes seen (Some chunk # chunks) content =
     (if max_bytes < seen + length chunk then Inl (too_large max_bytes)
      else read_chunks max_bytes (seen + length chunk) chunks (content @ chunk))"

definition declared_size :: "string option \<Rightarrow> int option" where
  "declared_size content_length =
     (case content_length of None \<Rightarrow> None
      | Some v \<Rightarrow> if v = [] then None else (case py_int v of Inl _ \<Rightarrow> None | Inr n \<Rightarrow> Some n))"

definition download_file_content :: "drive_api \<Rightarrow> drive_file_metadata \<Rightarrow> string \<Rightarrow> nat \<Rightarrow> string result" where
  "download_file_content api metadata token max_bytes =
     (let url = file_url (df_file_id metadata);
          answer = (case google_workspace_export_mime_types (df_mime_type metadata) of
                      Some mime \<Rightarrow> da_stream api (url @ ''/export'') [(''mimeType'', mime)] token
                    | None \<Rightarrow> da_stream api url [(''alt'', ''media''), (''supportsAllDrives'', ''true'')] token)
      in case answer of
           No_stream \<Rightarrow> Inl broken_download
         | Stream_status n \<Rightarrow> Inl (drive_status_error n)
         | Chunks content_length chunks \<Rightarrow>
             if (case declared_size content_length of Some n \<Rightarrow> int max_bytes < n | None \<Rightarrow> False) then Inl (too_large max_bytes)
             else read_chunks max_bytes 0 chunks [])"

definition blob_mime_type_extensions :: "string \<rightharpoonup> string" where
  "blob_mime_type_extensions =
     [''application/pdf'' \<mapsto> ''pdf'',
      ''application/vnd.openxmlformats-officedocument.wordprocessingml.document'' \<mapsto> ''docx'']"

definition captured_filename :: "drive_file_metadata \<Rightarrow> string" where
  "captured_filename metadata =
     (let name = df_name metadata
      in if google_workspace_export_mime_types (df_mime_type metadata) \<noteq> None
         then (if ends_with ''.pdf'' (lower name) then name else name @ ''.pdf'')
         else (case blob_mime_type_extensions (df_mime_type metadata) of
                 Some extension \<Rightarrow>
                   if ends_with (''.'' @ extension) (lower name) then name else name @ ''.'' @ extension
               | None \<Rightarrow> name))"

section \<open>The connection\<close>

record drive_connection =
  dc_id :: string
  dc_connected_by_user_id :: string
  dc_connected_at :: datetime
  dc_granted_scopes :: string
  dc_encrypted_refresh_token :: string
  dc_last_successful_sync_at :: "datetime option"
  dc_revoked_at :: "datetime option"
  dc_revoked_by_user_id :: "string option"

record drive_state =
  dv_db :: db
  dv_connections :: "drive_connection list"

definition audit_drive :: "string \<Rightarrow> string \<Rightarrow> string \<Rightarrow> string \<Rightarrow> 'a drive_state_scheme \<Rightarrow> 'a drive_state_scheme" where
  "audit_drive entity_id action detail actor s =
     s\<lparr>dv_db := record_audit_event ''google_drive_connection'' entity_id action detail actor (dv_db s)\<rparr>"

definition active_connection :: "'a drive_state_scheme \<Rightarrow> drive_connection option" where
  "active_connection s =
     (case rev (sort_key dc_connected_at (filter (\<lambda>c. dc_revoked_at c = None) (dv_connections s))) of
        [] \<Rightarrow> None | c # _ \<Rightarrow> Some c)"

text \<open>A fresh access token for the active connection, and the connection.\<close>

definition get_access_token_for_active_connection ::
  "crypto \<Rightarrow> drive_api \<Rightarrow> 'a drive_state_scheme \<Rightarrow> (drive_connection \<times> string) result" where
  "get_access_token_for_active_connection crypt api s =
     (case active_connection s of
        None \<Rightarrow> Inl (ValueError ''Connect Google Drive first (Connectors > Google Drive).'')
      | Some c \<Rightarrow>
          (case cy_decrypt crypt (dc_encrypted_refresh_token c) of
             None \<Rightarrow> Inl (ValueError ''Stored credential could not be decrypted with the configured key.'')
           | Some refresh_token \<Rightarrow>
               (case da_refresh api refresh_token of
                  None \<Rightarrow> Inl (ValueError (''Could not refresh the Google Drive connection's access token. '' @
                      ''The connection may have been revoked and should be reconnected.''))
                | Some token \<Rightarrow> Inr (c, token))))"

text \<open>\<open>exchange_code_for_tokens\<close>: the refresh token and the granted scopes.\<close>

definition exchange_code_for_tokens :: "drive_api \<Rightarrow> string \<Rightarrow> (string \<times> string) result" where
  "exchange_code_for_tokens api code =
     (case da_exchange api code of
        Unreachable \<Rightarrow> Inl (ValueError ''Could not reach Google to complete the Drive connection.'')
      | Status _ \<Rightarrow> Inl (ValueError ''Could not reach Google to complete the Drive connection.'')
      | Not_json \<Rightarrow> Inl RuntimeError
      | Answer payload \<Rightarrow>
          rbind (opt_str ''refresh_token'' payload) (\<lambda>token.
          rbind (str_or [] ''scope'' payload) (\<lambda>scope.
            if token = None \<or> token = Some [] then Inl (ValueError (''Google did not return a refresh token. Revoke this app's prior access at '' @
                   ''https://myaccount.google.com/permissions and try connecting again.''))
            else Inr (the token, scope))))"

definition drive_page :: string where
  "drive_page = ''/connectors/google-drive''"

definition ascii :: "string \<Rightarrow> bool" where
  "ascii x = list_all (\<lambda>c. of_char c < (128 :: nat)) x"

text \<open>
  \<open>callback\<close>. The state of the request has to be the one of the cookie; \<open>compare_digest\<close> refuses
  texts that are not ASCII.
\<close>

definition new_connection :: "tick \<Rightarrow> string \<Rightarrow> string \<Rightarrow> string \<Rightarrow> drive_connection" where
  "new_connection t user_id scope ciphertext =
     \<lparr>dc_id = t_id t, dc_connected_by_user_id = user_id, dc_connected_at = t_now t, dc_granted_scopes = scope,
      dc_encrypted_refresh_token = ciphertext, dc_last_successful_sync_at = None, dc_revoked_at = None,
      dc_revoked_by_user_id = None\<rparr>"

definition callback ::
  "crypto \<Rightarrow> drive_api \<Rightarrow> tick \<Rightarrow> bool \<Rightarrow> string option \<Rightarrow> string \<Rightarrow> string \<Rightarrow> string \<Rightarrow> actor \<Rightarrow> drive_state \<Rightarrow>
   (response \<times> drive_state) result" where
  "callback crypt api t configured cookie_state code state error_text admin s =
     (let mismatch = Inr (Flash drive_page ''Invalid connection session (state mismatch).'' ''error'', s)
      in if \<not> configured then Inl (HTTPException 404)
         else if error_text \<noteq> [] then Inr (Flash drive_page ''Google Drive connection was cancelled or failed.'' ''error'', s)
         else (case cookie_state of
                 None \<Rightarrow> mismatch
               | Some cookie \<Rightarrow>
                   if cookie = [] \<or> state = [] then mismatch
                   else if \<not> ascii cookie \<or> \<not> ascii state then Inl TypeError
                   else if cookie \<noteq> state then mismatch
                   else if code = [] then Inr (Flash drive_page ''Google did not return an authorization code.'' ''error'', s)
                   else (case exchange_code_for_tokens api code of
                           Inl (ValueError m) \<Rightarrow> Inr (Flash drive_page m ''error'', s)
                         | Inl e \<Rightarrow> Inl e
                         | Inr (token, scope) \<Rightarrow>
                             (case cy_encrypt crypt token of
                                None \<Rightarrow> Inr (Flash drive_page ''GRC_ENCRYPTION_KEY is not configured'' ''error'', s)
                              | Some ciphertext \<Rightarrow>
                                  if has_row dc_id (t_id t) (dv_connections s) then Inl IntegrityError
                                  else Inr (Flash drive_page ''Google Drive connected.'' ''success'',
                                         audit_drive (t_id t) ''connect'' (''Connected Google Drive (scopes: '' @ scope @ '')'')
                                           (ac_email admin)
                                           (s\<lparr>dv_connections := dv_connections s @
                                              [new_connection t (ac_id admin) scope ciphertext]\<rparr>))))))"

text \<open>
  \<open>disconnect\<close>: the credential of the active connection is erased whether or not Google is
  reached; the row stays.
\<close>

definition revoke_connection :: "datetime \<Rightarrow> string \<Rightarrow> drive_connection \<Rightarrow> drive_connection" where
  "revoke_connection now user_id c =
     c\<lparr>dc_encrypted_refresh_token := [], dc_revoked_at := Some now, dc_revoked_by_user_id := Some user_id\<rparr>"

definition disconnect :: "datetime \<Rightarrow> actor \<Rightarrow> drive_state \<Rightarrow> response \<times> drive_state" where
  "disconnect now admin s =
     (case active_connection s of
        None \<Rightarrow> (Flash drive_page ''No active Google Drive connection.'' ''error'', s)
      | Some c \<Rightarrow>
          (Flash drive_page ''Google Drive disconnected.'' ''success'',
           audit_drive (dc_id c) ''disconnect'' ''Disconnected Google Drive'' (ac_email admin)
             (s\<lparr>dv_connections := row_upd dc_id (dc_id c) (revoke_connection now (ac_id admin)) (dv_connections s)\<rparr>)))"

section \<open>Lemmas\<close>

lemma strip_last: "strip v \<noteq> [] \<Longrightarrow> \<not> is_space (last (strip v))"
  by (simp add: strip_def last_rev hd_dropWhile)

lemma newline_space: "is_space (CHR 0x0A)"
  by (simp add: is_space_def)

lemma url_id_sound: "url_id v = Some m \<Longrightarrow> 10 \<le> length m \<and> list_all id_char m"
  by (induction v) (auto simp: list_all_iff dest: set_takeWhileD split: if_splits)

text \<open>
  An id that was accepted holds only letters, digits, underscores and hyphens: whatever was typed,
  it names a file and cannot lead a request to another host, path or query.
\<close>

lemma parse_drive_file_id_safe:
  assumes "parse_drive_file_id value = Inr i"
  shows "10 \<le> length i \<and> list_all id_char i"
proof (cases "url_id (strip value)")
  case None
  then have i: "i = strip value" "is_drive_id i"
    using assms by (auto simp: parse_drive_file_id_def Let_def split: if_splits)
  have "i = [] \<or> last i \<noteq> CHR 0x0A"
    using strip_last [of "value"] i(1) newline_space by auto
  then show ?thesis using i(2) by (auto simp: is_drive_id_def drive_id_body_def)
next
  case (Some m)
  then show ?thesis
    using assms url_id_sound [OF Some] by (auto simp: parse_drive_file_id_def Let_def split: if_splits)
qed

lemma read_chunks_bound:
  "read_chunks max_bytes (length content) chunks content = Inr c \<Longrightarrow> length content \<le> max_bytes \<Longrightarrow>
     length c \<le> max_bytes \<and> None \<notin> set chunks \<and> c = content @ concat (map the chunks)"
proof (induction chunks arbitrary: content)
  case (Cons chunk chunks)
  show ?case
  proof (cases chunk)
    case (Some x)
    then have "read_chunks max_bytes (length (content @ x)) chunks (content @ x) = Inr c" "length (content @ x) \<le> max_bytes"
      using Cons.prems by (simp_all split: if_splits)
    from Cons.IH [OF this] Some show ?thesis by (metis append.assoc concat.simps(2) list.map(2) list.set_intros(1) option.distinct(1) option.sel set_ConsD)
  qed (use Cons.prems in simp)
qed simp

lemma download_bounded:
  assumes "download_file_content api metadata token max_bytes = Inr c"
  shows "length c \<le> max_bytes"
  using assms read_chunks_bound [of max_bytes "[]"]
  by (auto simp: download_file_content_def Let_def split: option.splits stream_answer.splits if_splits)

text \<open>The connections: one row per id, and a row that was revoked has no credential left.\<close>

definition drive_inv :: "'a drive_state_scheme \<Rightarrow> bool" where
  "drive_inv s =
     (unique_by dc_id (dv_connections s) \<and>
      list_all (\<lambda>c. dc_revoked_at c \<noteq> None \<longrightarrow> dc_encrypted_refresh_token c = [] \<and> dc_revoked_by_user_id c \<noteq> None)
        (dv_connections s))"

definition unrevoked :: "'a drive_state_scheme \<Rightarrow> drive_connection list" where
  "unrevoked s = filter (\<lambda>c. dc_revoked_at c = None) (dv_connections s)"

lemma active_connection_in:
  "active_connection s = Some c \<Longrightarrow> c \<in> set (unrevoked s)"
proof -
  assume "active_connection s = Some c"
  then obtain cs where "rev (sort_key dc_connected_at (unrevoked s)) = c # cs"
    by (auto simp: active_connection_def unrevoked_def split: list.splits)
  then show ?thesis by (metis list.set_intros(1) set_rev set_sort)
qed

lemma active_connection_None: "active_connection s = None \<longleftrightarrow> unrevoked s = []"
proof -
  have "rev (sort_key dc_connected_at (unrevoked s)) = [] \<longleftrightarrow> unrevoked s = []"
    by (metis length_0_conv length_rev length_sort)
  then show ?thesis by (auto simp: active_connection_def unrevoked_def split: list.splits)
qed

lemma disconnect_unrevoked:
  assumes "active_connection s = Some c"
  shows "unrevoked (snd (disconnect now admin s)) = filter (\<lambda>d. dc_id d \<noteq> dc_id c) (unrevoked s)"
proof -
  have "filter (\<lambda>d. dc_revoked_at d = None) (row_upd dc_id k (revoke_connection now u) rows) =
      filter (\<lambda>d. dc_id d \<noteq> k) (filter (\<lambda>d. dc_revoked_at d = None) rows)" for k u rows
    by (induction rows) (auto simp: row_upd_def revoke_connection_def)
  then show ?thesis using assms by (simp add: disconnect_def unrevoked_def audit_drive_def)
qed

lemma only_one:
  assumes "distinct (map f xs)" "c \<in> set xs"
  shows "filter (\<lambda>d. f d \<noteq> f c) xs = [] \<longleftrightarrow> xs = [c]"
proof
  assume none: "filter (\<lambda>d. f d \<noteq> f c) xs = []"
  then have "set (map f xs) = {f c}" unfolding filter_empty_conv set_map using assms(2) by blast
  then have "card (set (map f xs)) = 1" by simp
  then have "length xs = 1" using distinct_card [OF assms(1)] by (metis length_map)
  then show "xs = [c]" using assms(2) by (auto simp: length_Suc_conv)
qed simp

text \<open>
  Disconnecting erases one credential. Drive is disconnected after it exactly when there was one
  connection that had not been revoked: the route connects again without revoking what it had.
\<close>

theorem disconnect_exact:
  assumes "drive_inv s" "active_connection s = Some c"
  shows "active_connection (snd (disconnect now admin s)) = None \<longleftrightarrow> unrevoked s = [c]"
proof -
  have dist: "distinct (map dc_id (unrevoked s))"
    using assms(1) unfolding drive_inv_def unique_by_def unrevoked_def by (auto intro: distinct_map_filter)
  have "c \<in> set (unrevoked s)" by (rule active_connection_in [OF assms(2)])
  then show ?thesis
    by (simp only: active_connection_None disconnect_unrevoked [OF assms(2)] only_one [OF dist])
qed

lemma disconnect_inv: "drive_inv s \<Longrightarrow> drive_inv (snd (disconnect now admin s))"
  by (auto simp: drive_inv_def disconnect_def audit_drive_def list_all_iff row_upd_def revoke_connection_def unique_by_def
      o_def if_distrib split: option.splits cong: if_cong)

lemma audit_drive_simps [simp]:
  "dv_connections (audit_drive i a d u s) = dv_connections s" "dv_db (audit_drive i a d u s) = record_audit_event ''google_drive_connection'' i a d u (dv_db s)"
  by (simp_all add: audit_drive_def)

lemma new_connection_simps [simp]:
  "dc_id (new_connection t u sc ct) = t_id t" "dc_revoked_at (new_connection t u sc ct) = None"
  by (simp_all add: new_connection_def)

lemma drive_inv_add:
  "drive_inv s \<Longrightarrow> \<not> has_row dc_id (t_id t) (dv_connections s) \<Longrightarrow>
     drive_inv (audit_drive i a d u (s\<lparr>dv_connections := dv_connections s @ [new_connection t w sc ct]\<rparr>))"
  by (simp add: drive_inv_def)

lemma callback_inv:
  assumes "drive_inv s" "callback crypt api t configured cookie code state error_text admin s = Inr (r, s')"
  shows "drive_inv s'"
  using assms drive_inv_add [OF assms(1)]
  by (auto simp: callback_def Let_def simp del: append.simps split: if_splits option.splits sum.splits error.splits)

section \<open>Histories\<close>

datatype drive_request =
    Callback tick bool "string option" string string string actor
  | Disconnect datetime actor

fun drive_step :: "crypto \<Rightarrow> drive_api \<Rightarrow> drive_state \<Rightarrow> drive_request \<Rightarrow> drive_state" where
  "drive_step crypt api s (Callback t configured cookie code state error_text admin) =
     (case callback crypt api t configured cookie code state error_text admin s of Inl _ \<Rightarrow> s | Inr (_, s') \<Rightarrow> s')"
| "drive_step crypt api s (Disconnect now admin) = snd (disconnect now admin s)"

definition drive_run :: "crypto \<Rightarrow> drive_api \<Rightarrow> drive_request list \<Rightarrow> drive_state \<Rightarrow> drive_state" where
  "drive_run crypt api qs s = foldl (drive_step crypt api) s qs"

lemma drive_step_inv: "drive_inv s \<Longrightarrow> drive_inv (drive_step crypt api s q)"
  by (cases q) (auto simp: disconnect_inv dest: callback_inv split: sum.splits)

text \<open>
  A credential does not outlive its connection. After any history, a connection that was revoked
  has no stored credential and says who revoked it.
\<close>

theorem revoked_credentials_erased:
  "drive_inv s \<Longrightarrow> drive_inv (drive_run crypt api qs s)"
  unfolding drive_run_def by (induction qs arbitrary: s) (simp_all add: drive_step_inv)

text \<open>Two connections and one disconnection: Drive still answers, with the credential of the first.\<close>

definition demo_drive_crypto :: crypto where
  "demo_drive_crypto = \<lparr>cy_encrypt = Some, cy_decrypt = Some, cy_environ = (\<lambda>_. None), cy_sha256 = id\<rparr>"

definition demo_drive_api :: drive_api where
  "demo_drive_api =
     \<lparr>da_get = (\<lambda>_ _ _. Unreachable), da_stream = (\<lambda>_ _ _. No_stream),
      da_exchange = (\<lambda>code. Answer (JObj [(''refresh_token'', JStr code)])), da_refresh = Some\<rparr>"

definition demo_connect :: "string \<Rightarrow> int \<Rightarrow> drive_request" where
  "demo_connect code hour =
     Callback \<lparr>t_now = Datetime (Date 2026 8 1) hour, t_id = code\<rparr> True (Some ''st'') code ''st'' [] \<lparr>ac_id = ''u'', ac_email = ''ann''\<rparr>"

definition demo_reconnected :: drive_state where
  "demo_reconnected =
     drive_run demo_drive_crypto demo_drive_api
       [demo_connect ''first'' 1, demo_connect ''second'' 2, Disconnect (Datetime (Date 2026 8 1) 3) \<lparr>ac_id = ''u'', ac_email = ''ann''\<rparr>]
       \<lparr>dv_db = empty_db, dv_connections = []\<rparr>"

theorem disconnected_drive_answers:
  "map_sum id snd (get_access_token_for_active_connection demo_drive_crypto demo_drive_api demo_reconnected) = Inr ''first''"
  by code_simp

end
