(* ===== verification/Policy_Routes.thy ===== *)
theory Policy_Routes
  imports Drive Policy_Lifecycle
begin

text \<open>
  The pages of a policy: \<open>src/app/routers/policies.py\<close>, with the approvals that Google Drive keeps
  for a file (\<open>src/app/google_drive_approvals.py\<close>). A handler answers with the redirect and the
  state its transaction commits; a \<open>ValueError\<close> of a command becomes a message. Storing the
  bytes of an upload is \<open>File_Storage\<close>'s part: its outcome is an argument.
\<close>

section \<open>Approvals of Drive\<close>

record parsed_approval =
  pa_external_approval_id :: string
  pa_status :: string
  pa_initiator :: string
  pa_reviewer_responses_json :: string
  pa_create_time :: "datetime option"
  pa_modify_time :: "datetime option"
  pa_complete_time :: "datetime option"
  pa_due_time :: "datetime option"
  pa_file_content_change_behavior :: json
  pa_raw_payload_sha256 :: string

text \<open>\<open>datetime.fromisoformat\<close>, \<open>str\<close> of a list or a dictionary, SHA-256.\<close>

record approval_env =
  ax_fromisoformat :: "string \<Rightarrow> datetime option"
  ax_repr :: "json \<Rightarrow> string"
  ax_sha256 :: "string \<Rightarrow> string"

definition truthy :: "json \<Rightarrow> bool" where
  "truthy v = (case v of JNull \<Rightarrow> False | JBool b \<Rightarrow> b | JInt i \<Rightarrow> i \<noteq> 0 | JStr x \<Rightarrow> x \<noteq> [] | JArr xs \<Rightarrow> xs \<noteq> [] | JObj kvs \<Rightarrow> kvs \<noteq> [])"

text \<open>\<open>a or b or d\<close>.\<close>

definition first_true :: "json list \<Rightarrow> json \<Rightarrow> json" where
  "first_true vs d = (case filter truthy vs of [] \<Rightarrow> d | v # _ \<Rightarrow> v)"

definition member :: "(string \<times> json) list \<Rightarrow> string \<Rightarrow> json" where
  "member kvs k = (case map_of kvs k of None \<Rightarrow> JNull | Some v \<Rightarrow> v)"

definition py_str :: "approval_env \<Rightarrow> json \<Rightarrow> string" where
  "py_str env v =
     (case v of JStr x \<Rightarrow> x | JInt i \<Rightarrow> str_int i | JBool b \<Rightarrow> if b then ''True'' else ''False'' | JNull \<Rightarrow> ''None'' | _ \<Rightarrow> ax_repr env v)"

text \<open>\<open>json.dumps\<close> with the members in their order.\<close>

fun dumps_unsorted :: "json \<Rightarrow> string" where
  "dumps_unsorted (JArr xs) = ''['' @ joined (map dumps_unsorted xs) @ '']''"
| "dumps_unsorted (JObj kvs) = ''{'' @ joined (map (\<lambda>(k, v). json_string k @ '': '' @ dumps_unsorted v) kvs) @ ''}''"
| "dumps_unsorted v = json_dumps v"

definition zulu :: "string \<Rightarrow> string" where
  "zulu x = concat (map (\<lambda>c. if c = CHR ''Z'' then ''+00:00'' else [c]) x)"

definition parse_timestamp :: "approval_env \<Rightarrow> json \<Rightarrow> datetime option" where
  "parse_timestamp env v =
     (case v of
        JStr x \<Rightarrow> if x = [] then None
                  else ax_fromisoformat env (zulu x)
      | _ \<Rightarrow> None)"

text \<open>
  \<open>parse_approval\<close>: \<open>Inr None\<close> is its \<open>ApprovalsUnavailableError\<close>. A record that is not a dictionary,
  or whose initiating user is not one, has no attribute \<open>get\<close>.
\<close>

definition parse_approval :: "approval_env \<Rightarrow> json \<Rightarrow> parsed_approval option result" where
  "parse_approval env raw =
     (case raw of
        JObj kvs \<Rightarrow>
          (let external_id = strip (py_str env (first_true [member kvs ''approvalId'', member kvs ''id''] (JStr [])))
           in if external_id = [] then Inr None
              else (case first_true [member kvs ''initiatingUser''] (JObj []) of
                      JObj ukvs \<Rightarrow>
                        Inr (Some
                          \<lparr>pa_external_approval_id = external_id,
                           pa_status = py_str env (first_true [member kvs ''state'', member kvs ''status''] (JStr [])),
                           pa_initiator = py_str env (first_true [member ukvs ''emailAddress'', member kvs ''initiator''] (JStr [])),
                           pa_reviewer_responses_json = dumps_unsorted (first_true [member kvs ''reviewers'', member kvs ''responses''] (JArr [])),
                           pa_create_time = parse_timestamp env (member kvs ''createTime''),
                           pa_modify_time = parse_timestamp env (member kvs ''modifyTime''),
                           pa_complete_time = parse_timestamp env (member kvs ''completeTime''),
                           pa_due_time = parse_timestamp env (member kvs ''dueTime''),
                           pa_file_content_change_behavior = member kvs ''fileContentChangeBehavior'',
                           pa_raw_payload_sha256 = ax_sha256 env (json_dumps raw)\<rparr>)
                    | _ \<Rightarrow> Inl AttributeError))
      | _ \<Rightarrow> Inl AttributeError)"

text \<open>\<open>fetch_approvals\<close>: \<open>None\<close> is its \<open>ApprovalsUnavailableError\<close>.\<close>

definition fetch_approvals :: "drive_api \<Rightarrow> string \<Rightarrow> string \<Rightarrow> json list option result" where
  "fetch_approvals api file_id token =
     (case da_get api (file_url file_id @ ''/approvals'') [] token of
        Answer (JObj kvs) \<Rightarrow> Inr (case member kvs ''approvals'' of JArr xs \<Rightarrow> Some xs | _ \<Rightarrow> None)
      | Answer _ \<Rightarrow> Inl AttributeError
      | _ \<Rightarrow> Inr None)"

section \<open>State\<close>

record policy_control_mapping =
  pm_id :: string
  pm_policy_id :: string
  pm_control_id :: string

record policy_approval_snapshot =
  pas_id :: string
  pas_policy_version_id :: string
  pas_approval :: parsed_approval
  pas_captured_at :: datetime

record policy_pages = drive_state +
  pp_mappings :: "policy_control_mapping list"
  pp_snapshots :: "policy_approval_snapshot list"

definition policy_statuses :: "string list" where
  "policy_statuses = [''draft'', ''approved'', ''retired'']"

definition audit_policy :: "string \<Rightarrow> string \<Rightarrow> string \<Rightarrow> string \<Rightarrow> string \<Rightarrow> policy_pages \<Rightarrow> policy_pages" where
  "audit_policy entity_type entity_id action detail actor s =
     s\<lparr>dv_db := record_audit_event entity_type entity_id action detail actor (dv_db s)\<rparr>"

definition upd_policy :: "string \<Rightarrow> (policy \<Rightarrow> policy) \<Rightarrow> policy_pages \<Rightarrow> policy_pages" where
  "upd_policy k f s = s\<lparr>dv_db := (dv_db s)\<lparr>policies := row_upd po_id k f (policies (dv_db s))\<rparr>\<rparr>"

definition form_date :: "string \<Rightarrow> date option" where
  "form_date v = (if v = [] then None else (case date_fromisoformat v of Inl _ \<Rightarrow> None | Inr d \<Rightarrow> Some d))"

definition policy_page :: "string \<Rightarrow> string" where
  "policy_page policy_id = ''/policies/'' @ policy_id"

section \<open>Policies\<close>

definition list_policies :: "string \<Rightarrow> string \<Rightarrow> policy_pages \<Rightarrow> policy list \<times> string list" where
  "list_policies status owner s =
     (let all_rows = policies (dv_db s);
          rows = filter (\<lambda>p. \<not> po_archived p \<and> (status = [] \<or> po_status p = status) \<and> (owner = [] \<or> po_owner p = owner)) all_rows
      in (sort_key po_title rows, sort (remdups (filter (\<lambda>x. x \<noteq> []) (map po_owner all_rows)))))"

record policy_form =
  pf_title :: string
  pf_description :: string
  pf_owner :: string
  pf_status :: string
  pf_effective_date :: string
  pf_next_review_date :: string

definition new_policy :: "string \<Rightarrow> string \<Rightarrow> policy_form \<Rightarrow> policy" where
  "new_policy new_id title f =
     \<lparr>po_id = new_id, po_title = title, po_description = pf_description f, po_owner = pf_owner f,
      po_status = (if pf_status f \<in> set policy_statuses then pf_status f else ''draft''),
      po_effective_date = form_date (pf_effective_date f), po_next_review_date = form_date (pf_next_review_date f),
      po_archived = False, po_source_type = ''manual'', po_drive_file_id = None, po_drive_web_url = None,
      po_drive_mime_type = None, po_drive_last_seen_revision_id = None, po_drive_last_synced_at = None\<rparr>"

text \<open>
  \<open>create_policy\<close>. The file, when there is one, was stored or refused with a message; a refusal
  rolls the new policy back.
\<close>

definition create_policy ::
  "string \<Rightarrow> tick \<Rightarrow> policy_form \<Rightarrow> (string + Policy_Lifecycle.stored_upload) option \<Rightarrow> string \<Rightarrow> actor \<Rightarrow> policy_pages \<Rightarrow>
   (response \<times> policy_pages) result" where
  "create_policy new_id t f upload change_note user s =
     (let title = strip (pf_title f); p = new_policy new_id title f;
          created = Flash (policy_page new_id) (''Policy '' @ in_quotes title @ '' created.'') ''success'';
          s1 = audit_policy ''policy'' new_id ''create'' (''Created policy '' @ in_quotes title) (ac_email user)
                 (s\<lparr>dv_db := (dv_db s)\<lparr>policies := policies (dv_db s) @ [p]\<rparr>\<rparr>)
      in if title = [] then Inr (Flash ''/policies/new'' ''Title is required.'' ''error'', s)
         else if has_row po_id new_id (policies (dv_db s)) then Inl IntegrityError
         else (case upload of
                 None \<Rightarrow> Inr (created, s1)
               | Some (Inl message) \<Rightarrow> Inr (Flash ''/policies/new'' message ''error'', s)
               | Some (Inr file) \<Rightarrow>
                   rbind (insert_policy_version (uploaded_version t new_id 1 file change_note (ac_email user)) (dv_db s1)) (\<lambda>d.
                     Inr (created, audit_policy ''policy'' new_id ''upload_version''
                       (''Uploaded version 1 ('' @ st_original_filename file @ '')'') (ac_email user) (s1\<lparr>dv_db := d\<rparr>)))))"

text \<open>\<open>repr\<close> of a text.\<close>

definition repr_char :: "char \<Rightarrow> char \<Rightarrow> string" where
  "repr_char q c =
     (let n = of_char c :: nat
      in if c = q \<or> n = 92 then [CHR 0x5C, c]
         else if n = 10 then [CHR 0x5C, CHR ''n''] else if n = 13 then [CHR 0x5C, CHR ''r''] else if n = 9 then [CHR 0x5C, CHR ''t'']
         else if n < 32 \<or> (127 \<le> n \<and> n \<le> 160) \<or> n = 173 then [CHR 0x5C, CHR ''x'', hex_digit (n div 16), hex_digit (n mod 16)]
         else [c])"

definition py_repr :: "string \<Rightarrow> string" where
  "py_repr x =
     (let q = (if CHR 0x27 \<in> set x \<and> CHR 0x22 \<notin> set x then CHR 0x22 else CHR 0x27)
      in [q] @ concat (map (repr_char q) x) @ [q])"

definition update_detail :: "policy \<Rightarrow> policy \<Rightarrow> string" where
  "update_detail before after =
     ''Updated policy metadata: before={'' @ in_quotes ''title'' @ '': '' @ py_repr (po_title before) @ '', '' @
     in_quotes ''owner'' @ '': '' @ py_repr (po_owner before) @ '', '' @ in_quotes ''status'' @ '': '' @ py_repr (po_status before) @
     ''} after={'' @ in_quotes ''title'' @ '': '' @ in_quotes (po_title after) @ '', '' @ in_quotes ''owner'' @ '': '' @
     in_quotes (po_owner after) @ '', '' @ in_quotes ''status'' @ '': '' @ in_quotes (po_status after) @ ''}''"

definition apply_form :: "string \<Rightarrow> policy_form \<Rightarrow> policy \<Rightarrow> policy" where
  "apply_form title f p =
     p\<lparr>po_title := title, po_description := pf_description f, po_owner := pf_owner f,
       po_status := (if pf_status f \<in> set policy_statuses then pf_status f else po_status p),
       po_effective_date := form_date (pf_effective_date f), po_next_review_date := form_date (pf_next_review_date f)\<rparr>"

definition update_policy :: "string \<Rightarrow> policy_form \<Rightarrow> actor \<Rightarrow> policy_pages \<Rightarrow> (response \<times> policy_pages) result" where
  "update_policy policy_id f user s =
     (case row_get po_id policy_id (policies (dv_db s)) of
        None \<Rightarrow> Inl (HTTPException 404)
      | Some p \<Rightarrow>
          let title = strip (pf_title f)
          in if title = [] then Inr (Flash (policy_page policy_id) ''Title is required.'' ''error'', s)
             else Inr (Flash (policy_page policy_id) ''Policy updated.'' ''success'',
                    audit_policy ''policy'' policy_id ''update'' (update_detail p (apply_form title f p)) (ac_email user)
                      (upd_policy policy_id (apply_form title f) s)))"

text \<open>\<open>retire_policy\<close> withdraws the effective version in the same transaction.\<close>

definition retire_policy :: "tick \<Rightarrow> string \<Rightarrow> actor \<Rightarrow> policy_pages \<Rightarrow> (response \<times> policy_pages) result" where
  "retire_policy t policy_id user s =
     (case row_get po_id policy_id (policies (dv_db s)) of
        None \<Rightarrow> Inl (HTTPException 404)
      | Some p \<Rightarrow>
          let s1 = upd_policy policy_id (\<lambda>p. p\<lparr>po_status := ''retired''\<rparr>) s
          in rbind (case policy_effective_version policy_id (dv_db s1) of
                      None \<Rightarrow> Inr (dv_db s1)
                    | Some v \<Rightarrow> policy_withdraw_version t ''Policy retired'' None ''user'' (Some (ac_id user)) (pv_id v) (dv_db s1)) (\<lambda>d.
               Inr (Flash (policy_page policy_id) ''Policy retired.'' ''success'',
                 audit_policy ''policy'' policy_id ''retire'' (''Retired policy '' @ in_quotes (po_title p)) (ac_email user)
                   (s1\<lparr>dv_db := d\<rparr>))))"

section \<open>Versions\<close>

definition get_version :: "string \<Rightarrow> string \<Rightarrow> policy_pages \<Rightarrow> policy_version result" where
  "get_version policy_id version_id s =
     (case row_get pv_id version_id (policy_versions (dv_db s)) of
        None \<Rightarrow> Inl (HTTPException 404)
      | Some v \<Rightarrow> if pv_policy_id v \<noteq> policy_id then Inl (HTTPException 404) else Inr v)"

text \<open>\<open>version.policy.title\<close>: the foreign key gives the policy.\<close>

definition title_of :: "string \<Rightarrow> policy_pages \<Rightarrow> string" where
  "title_of policy_id s = (case row_get po_id policy_id (policies (dv_db s)) of None \<Rightarrow> [] | Some p \<Rightarrow> po_title p)"

text \<open>A command behind a route: its \<open>ValueError\<close> is the message, and nothing has been written then.\<close>

definition answered :: "string \<Rightarrow> string \<Rightarrow> (db \<Rightarrow> db) \<Rightarrow> db result \<Rightarrow> policy_pages \<Rightarrow> (response \<times> policy_pages) result" where
  "answered url message audit outcome s =
     (case outcome of
        Inl (ValueError m) \<Rightarrow> Inr (Flash url m ''error'', s)
      | Inl e \<Rightarrow> Inl e
      | Inr d \<Rightarrow> Inr (Flash url message ''success'', s\<lparr>dv_db := audit d\<rparr>))"

definition v_number :: "policy_version \<Rightarrow> string" where
  "v_number v = str_int (pv_version_number v)"

definition submit_version_for_review :: "tick \<Rightarrow> string \<Rightarrow> string \<Rightarrow> actor \<Rightarrow> policy_pages \<Rightarrow> (response \<times> policy_pages) result" where
  "submit_version_for_review t policy_id version_id user s =
     rbind (get_version policy_id version_id s) (\<lambda>v.
       answered (policy_page policy_id) (''Version '' @ v_number v @ '' submitted for review.'')
         (record_audit_event ''policy_version'' version_id ''submit_for_review''
            (''Submitted v'' @ v_number v @ '' of '' @ in_quotes (title_of policy_id s) @ '' for review'') (ac_email user))
         (policy_submit_for_review t ''user'' (Some (ac_id user)) version_id (dv_db s)) s)"

definition review_policy_version ::
  "tick \<Rightarrow> string \<Rightarrow> string \<Rightarrow> string \<Rightarrow> string \<Rightarrow> actor \<Rightarrow> policy_pages \<Rightarrow> (response \<times> policy_pages) result" where
  "review_policy_version t policy_id version_id decision comment user s =
     rbind (get_version policy_id version_id s) (\<lambda>v.
       answered (policy_page policy_id) (''Version '' @ v_number v @ '' '' @ decision @ ''.'')
         (record_audit_event ''policy_version'' version_id ''review''
            (''Reviewed v'' @ v_number v @ '' of '' @ in_quotes (title_of policy_id s) @ '': '' @ decision @ '' ('' @ comment @ '')'') (ac_email user))
         (policy_review_version t decision comment ''user'' (Some (ac_id user)) version_id (dv_db s)) s)"

text \<open>A version that became effective at the same time breaks the unique index: rolled back, with a message.\<close>

definition make_policy_version_effective ::
  "tick \<Rightarrow> tick \<Rightarrow> string \<Rightarrow> string \<Rightarrow> actor \<Rightarrow> policy_pages \<Rightarrow> (response \<times> policy_pages) result" where
  "make_policy_version_effective t1 t2 policy_id version_id user s =
     rbind (get_version policy_id version_id s) (\<lambda>v.
       let outcome = policy_make_version_effective t1 t2 ''user'' (Some (ac_id user)) version_id (dv_db s)
       in if outcome = Inl IntegrityError
          then Inr (Flash (policy_page policy_id) ''Another version of this policy just became effective. Refresh and try again.'' ''error'', s)
          else answered (policy_page policy_id) (''Version '' @ v_number v @ '' is now effective.'')
                 (record_audit_event ''policy_version'' version_id ''make_effective''
                    (''Made v'' @ v_number v @ '' of '' @ in_quotes (title_of policy_id s) @ '' effective'') (ac_email user))
                 outcome s)"

definition withdraw_policy_version ::
  "tick \<Rightarrow> string \<Rightarrow> string \<Rightarrow> string \<Rightarrow> actor \<Rightarrow> policy_pages \<Rightarrow> (response \<times> policy_pages) result" where
  "withdraw_policy_version t policy_id version_id reason user s =
     rbind (get_version policy_id version_id s) (\<lambda>v.
       answered (policy_page policy_id) (''Version '' @ v_number v @ '' withdrawn.'')
         (record_audit_event ''policy_version'' version_id ''withdraw''
            (''Withdrew v'' @ v_number v @ '' of '' @ in_quotes (title_of policy_id s) @ '': '' @ reason) (ac_email user))
         (policy_withdraw_version t reason None ''user'' (Some (ac_id user)) version_id (dv_db s)) s)"

definition insert_control_mapping :: "policy_control_mapping \<Rightarrow> policy_pages \<Rightarrow> policy_pages result" where
  "insert_control_mapping r s =
     (if has_row pm_id (pm_id r) (pp_mappings s) \<or>
         has_row (\<lambda>x. (pm_policy_id x, pm_control_id x)) (pm_policy_id r, pm_control_id r) (pp_mappings s)
      then Inl IntegrityError else Inr (s\<lparr>pp_mappings := pp_mappings s @ [r]\<rparr>))"

definition add_control_mapping :: "string \<Rightarrow> string \<Rightarrow> string \<Rightarrow> actor \<Rightarrow> policy_pages \<Rightarrow> (response \<times> policy_pages) result" where
  "add_control_mapping new_id policy_id control_id user s =
     (case (row_get po_id policy_id (policies (dv_db s)), row_get ic_id control_id (internal_controls (dv_db s))) of
        (Some p, Some control) \<Rightarrow>
          (case insert_control_mapping \<lparr>pm_id = new_id, pm_policy_id = policy_id, pm_control_id = control_id\<rparr> s of
             Inl _ \<Rightarrow> Inr (Flash (policy_page policy_id) ''That control is already mapped to this policy.'' ''error'', s)
           | Inr s1 \<Rightarrow>
               Inr (Flash (policy_page policy_id) ''Control mapped.'' ''success'',
                 audit_policy ''policy'' policy_id ''map_control''
                   (''Mapped policy '' @ in_quotes (po_title p) @ '' to control '' @ in_quotes (ic_name control)) (ac_email user) s1))
      | _ \<Rightarrow> Inl (HTTPException 404))"

definition download_policy_version :: "files \<Rightarrow> string \<Rightarrow> string \<Rightarrow> string \<Rightarrow> policy_pages \<Rightarrow> response result" where
  "download_policy_version fs data_dir policy_id version_id s =
     rbind (get_version policy_id version_id s) (\<lambda>v.
       case fs (policy_version_path data_dir policy_id (pv_version_number v) (pv_stored_filename v)) of
         None \<Rightarrow> Inl (HTTPException 404)
       | Some content \<Rightarrow> Inr (Download content (pv_media_type v) (pv_original_filename v)))"

text \<open>\<open>view_policy\<close>: the approvals of all versions, the newest first, and the controls that can still be mapped.\<close>

definition view_policy :: "string \<Rightarrow> policy_pages \<Rightarrow> (policy \<times> policy_approval_snapshot list \<times> internal_control list) result" where
  "view_policy policy_id s =
     (case row_get po_id policy_id (policies (dv_db s)) of
        None \<Rightarrow> Inl (HTTPException 404)
      | Some p \<Rightarrow>
          let version_ids = map pv_id (policy_versions_desc policy_id (dv_db s));
              rows = concat (map (\<lambda>v. filter (\<lambda>r. pas_policy_version_id r = v) (pp_snapshots s)) version_ids);
              mapped = map pm_control_id (filter (\<lambda>m. pm_policy_id m = policy_id) (pp_mappings s))
          in Inr (p, rev (sort_key pas_captured_at (rev rows)),
               filter (\<lambda>c. ic_id c \<notin> set mapped) (internal_controls (dv_db s))))"

section \<open>Drive\<close>

record drive_page_env =
  dx_crypto :: crypto
  dx_api :: drive_api
  dx_approvals :: approval_env
  dx_now :: datetime

definition seen_in_drive :: "datetime \<Rightarrow> drive_file_metadata \<Rightarrow> policy \<Rightarrow> policy" where
  "seen_in_drive now metadata p =
     p\<lparr>po_drive_web_url := df_web_view_link metadata, po_drive_mime_type := Some (df_mime_type metadata),
       po_drive_last_seen_revision_id := df_current_revision_id metadata, po_drive_last_synced_at := Some now\<rparr>"

text \<open>A \<open>GoogleDriveError\<close> is the message of the redirect.\<close>

definition with_drive ::
  "string \<Rightarrow> policy_pages \<Rightarrow> 'a result \<Rightarrow> ('a \<Rightarrow> (response \<times> policy_pages) result) \<Rightarrow> (response \<times> policy_pages) result" where
  "with_drive url s outcome k =
     (case outcome of Inl (ValueError m) \<Rightarrow> Inr (Flash url m ''error'', s) | Inl e \<Rightarrow> Inl e | Inr x \<Rightarrow> k x)"

definition link_drive_file :: "drive_page_env \<Rightarrow> string \<Rightarrow> string \<Rightarrow> actor \<Rightarrow> policy_pages \<Rightarrow> (response \<times> policy_pages) result" where
  "link_drive_file env policy_id drive_url_or_id admin s =
     (case row_get po_id policy_id (policies (dv_db s)) of
        None \<Rightarrow> Inl (HTTPException 404)
      | Some p \<Rightarrow>
          with_drive (policy_page policy_id) s
            (rbind (parse_drive_file_id drive_url_or_id) (\<lambda>file_id.
             rbind (get_access_token_for_active_connection (dx_crypto env) (dx_api env) s) (\<lambda>(_, token).
               get_file_metadata (dx_api env) file_id token))) (\<lambda>metadata.
            Inr (Flash (policy_page policy_id) ''Policy linked to Drive file.'' ''success'',
              audit_policy ''policy'' policy_id ''link_drive_file''
                (''Linked policy '' @ in_quotes (po_title p) @ '' to Drive file '' @ in_quotes (df_name metadata) @ '' ('' @ df_file_id metadata @ '')'')
                (ac_email admin)
                (upd_policy policy_id (\<lambda>p. (seen_in_drive (dx_now env) metadata p)
                   \<lparr>po_source_type := ''drive'', po_drive_file_id := Some (df_file_id metadata)\<rparr>) s))))"

text \<open>The file a policy is linked to: none and an empty text are both no link.\<close>

definition linked_file :: "string \<Rightarrow> policy_pages \<Rightarrow> (policy \<times> string) result" where
  "linked_file policy_id s =
     (case row_get po_id policy_id (policies (dv_db s)) of
        None \<Rightarrow> Inl (HTTPException 404)
      | Some p \<Rightarrow>
          (case po_drive_file_id p of
             None \<Rightarrow> Inl (HTTPException 404)
           | Some file_id \<Rightarrow> if file_id = [] then Inl (HTTPException 404) else Inr (p, file_id)))"

definition refresh_drive_metadata :: "drive_page_env \<Rightarrow> string \<Rightarrow> policy_pages \<Rightarrow> (response \<times> policy_pages) result" where
  "refresh_drive_metadata env policy_id s =
     rbind (linked_file policy_id s) (\<lambda>(p, file_id).
       with_drive (policy_page policy_id) s
         (rbind (get_access_token_for_active_connection (dx_crypto env) (dx_api env) s) (\<lambda>(_, token).
            get_file_metadata (dx_api env) file_id token)) (\<lambda>metadata.
         Inr (Flash (policy_page policy_id) ''Checked Drive for the current revision.'' ''success'',
           upd_policy policy_id (seen_in_drive (dx_now env) metadata) s)))"

text \<open>The capture of a file: where its bytes go, and their hash.\<close>

record store_env =
  sx_zip_names :: "string \<Rightarrow> string list option"
  sx_chunk :: nat
  sx_tmp_path :: string
  sx_data_dir :: string
  sx_max_upload_bytes :: nat
  sx_sha256 :: "string \<Rightarrow> string"

text \<open>When Drive says that the captured revision was modified; \<open>fromisoformat\<close> may raise.\<close>

fun revision_time :: "approval_env \<Rightarrow> string option \<Rightarrow> json list \<Rightarrow> datetime option result" where
  "revision_time env current [] = Inr None"
| "revision_time env current (JObj kvs # revisions) =
     (if member kvs ''id'' = jopt current \<and> truthy (member kvs ''modifiedTime'')
      then (case member kvs ''modifiedTime'' of
              JStr x \<Rightarrow> (case ax_fromisoformat env (zulu x) of None \<Rightarrow> Inl (ValueError ''Invalid isoformat string'') | Some d \<Rightarrow> Inr (Some d))
            | _ \<Rightarrow> Inl AttributeError)
      else revision_time env current revisions)"
| "revision_time env current (_ # revisions) = Inl AttributeError"

definition captured_version ::
  "tick \<Rightarrow> string \<Rightarrow> int \<Rightarrow> File_Storage.stored_upload \<Rightarrow> drive_file_metadata \<Rightarrow> datetime option \<Rightarrow> string \<Rightarrow> string \<Rightarrow> policy_version" where
  "captured_version t policy_id n f metadata modified_at change_note email =
     \<lparr>pv_id = t_id t, pv_policy_id = policy_id, pv_version_number = n, pv_original_filename = su_original_filename f,
      pv_stored_filename = su_stored_filename f, pv_media_type = su_media_type f, pv_byte_size = int (su_byte_size f),
      pv_sha256 = su_sha256 f, pv_uploader = email,
      pv_change_note = (if change_note = [] then ''Captured from Google Drive'' else change_note), pv_created_at = t_now t,
      pv_source_type = ''drive'', pv_source_file_id = Some (df_file_id metadata),
      pv_source_revision_id = df_current_revision_id metadata, pv_source_modified_at = modified_at, pv_captured_at = t_now t,
      pv_lc = lifecycle_defaults\<rparr>"

definition capture_detail :: "int \<Rightarrow> policy \<Rightarrow> drive_file_metadata \<Rightarrow> string" where
  "capture_detail n p metadata =
     ''Captured version '' @ str_int n @ '' of '' @ in_quotes (po_title p) @ '' from Drive file '' @ in_quotes (df_name metadata) @
     '' (revision '' @ (case df_current_revision_id metadata of None \<Rightarrow> ''None'' | Some r \<Rightarrow> r) @ '')''"

text \<open>What the capture writes once the bytes are stored.\<close>

definition record_capture ::
  "drive_page_env \<Rightarrow> tick \<Rightarrow> policy \<Rightarrow> drive_connection \<Rightarrow> drive_file_metadata \<Rightarrow> json list \<Rightarrow> int \<Rightarrow> File_Storage.stored_upload \<Rightarrow>
   string \<Rightarrow> actor \<Rightarrow> policy_pages \<Rightarrow> (response \<times> policy_pages) result" where
  "record_capture env t p connection metadata revisions n f change_note admin s =
     rbind (revision_time (dx_approvals env) (df_current_revision_id metadata) revisions) (\<lambda>modified_at.
     rbind (insert_policy_version (captured_version t (po_id p) n f metadata modified_at change_note (ac_email admin)) (dv_db s)) (\<lambda>d.
       Inr (Flash (policy_page (po_id p)) (''Captured version '' @ str_int n @ '' from Drive.'') ''success'',
         audit_policy ''policy'' (po_id p) ''capture_drive_version'' (capture_detail n p metadata) (ac_email admin)
           (upd_policy (po_id p) (seen_in_drive (dx_now env) metadata)
             (s\<lparr>dv_db := d, dv_connections := row_upd dc_id (dc_id connection)
                (\<lambda>c. c\<lparr>dc_last_successful_sync_at := Some (dx_now env)\<rparr>) (dv_connections s)\<rparr>)))))"

definition fetch_capture ::
  "drive_page_env \<Rightarrow> store_env \<Rightarrow> string \<Rightarrow> policy_pages \<Rightarrow> (drive_connection \<times> drive_file_metadata \<times> json list \<times> string) result" where
  "fetch_capture env store file_id s =
     rbind (get_access_token_for_active_connection (dx_crypto env) (dx_api env) s) (\<lambda>(connection, token).
     rbind (get_file_metadata (dx_api env) file_id token) (\<lambda>metadata.
     rbind (list_revisions (dx_api env) file_id token) (\<lambda>revisions.
     rbind (download_file_content (dx_api env) metadata token (sx_max_upload_bytes store)) (\<lambda>content.
       Inr (connection, metadata, revisions, content)))))"

definition capture_drive_version ::
  "drive_page_env \<Rightarrow> store_env \<Rightarrow> tick \<Rightarrow> string \<Rightarrow> string \<Rightarrow> actor \<Rightarrow> policy_pages \<Rightarrow> files \<Rightarrow>
   (response \<times> policy_pages) result \<times> files" where
  "capture_drive_version env store t policy_id change_note admin s fs =
     (case linked_file policy_id s of
        Inl e \<Rightarrow> (Inl e, fs)
      | Inr (p, file_id) \<Rightarrow>
          (case fetch_capture env store file_id s of
             Inl (ValueError m) \<Rightarrow> (Inr (Flash (policy_page policy_id) m ''error'', s), fs)
           | Inl e \<Rightarrow> (Inl e, fs)
           | Inr (connection, metadata, revisions, content) \<Rightarrow>
               (let n = Policy_Lifecycle.next_version_number policy_id (dv_db s)
                in case save_policy_version_from_bytes (sx_sha256 store) (sx_zip_names store) (sx_chunk store) (sx_tmp_path store)
                     content (captured_filename metadata) (sx_data_dir store) policy_id n (sx_max_upload_bytes store) fs of
                     (Inl (ValueError m), fs') \<Rightarrow> (Inr (Flash (policy_page policy_id) m ''error'', s), fs')
                   | (Inl e, fs') \<Rightarrow> (Inl e, fs')
                   | (Inr f, fs') \<Rightarrow> (record_capture env t p connection metadata revisions n f change_note admin s, fs'))))"

text \<open>
  The loop over the approvals: \<open>seen\<close> are the pairs of this version, \<open>new\<close> the rows added. A record
  without an id is skipped.
\<close>

fun new_snapshots ::
  "approval_env \<Rightarrow> (nat \<Rightarrow> string) \<Rightarrow> datetime \<Rightarrow> string \<Rightarrow> (string \<times> string) set \<Rightarrow> json list \<Rightarrow> policy_approval_snapshot list \<Rightarrow>
   policy_approval_snapshot list result" where
  "new_snapshots env ids now version_id seen [] new = Inr new"
| "new_snapshots env ids now version_id seen (raw # raws) new =
     (case parse_approval env raw of
        Inl e \<Rightarrow> Inl e
      | Inr None \<Rightarrow> new_snapshots env ids now version_id seen raws new
      | Inr (Some a) \<Rightarrow>
          let pair = (pa_external_approval_id a, pa_raw_payload_sha256 a)
          in if pair \<in> seen then new_snapshots env ids now version_id seen raws new
             else new_snapshots env ids now version_id (insert pair seen) raws
                    (new @ [\<lparr>pas_id = ids (length new), pas_policy_version_id = version_id, pas_approval = a, pas_captured_at = now\<rparr>]))"

definition snapshot_pair :: "policy_approval_snapshot \<Rightarrow> string \<times> string" where
  "snapshot_pair r = (pa_external_approval_id (pas_approval r), pa_raw_payload_sha256 (pas_approval r))"

definition version_snapshots :: "string \<Rightarrow> policy_pages \<Rightarrow> policy_approval_snapshot list" where
  "version_snapshots version_id s = filter (\<lambda>r. pas_policy_version_id r = version_id) (pp_snapshots s)"

text \<open>Text columns take texts; a primary key is given once.\<close>

definition snapshot_row_ok :: "policy_approval_snapshot \<Rightarrow> bool" where
  "snapshot_row_ok r = (case pa_file_content_change_behavior (pas_approval r) of JNull \<Rightarrow> True | JStr _ \<Rightarrow> True | _ \<Rightarrow> False)"

definition insert_snapshots :: "policy_approval_snapshot list \<Rightarrow> policy_pages \<Rightarrow> policy_pages result" where
  "insert_snapshots new s =
     (if \<not> list_all snapshot_row_ok new then Inl StatementError
      else if \<not> unique_by pas_id (pp_snapshots s @ new) then Inl IntegrityError
      else Inr (s\<lparr>pp_snapshots := pp_snapshots s @ new\<rparr>))"

definition sync_detail :: "nat \<Rightarrow> policy \<Rightarrow> policy_version \<Rightarrow> string" where
  "sync_detail created_count p v =
     ''Captured '' @ str_int (int created_count) @ '' new approval snapshot(s) for '' @ in_quotes (po_title p) @ '' v'' @ v_number v"

definition store_approvals ::
  "drive_page_env \<Rightarrow> (nat \<Rightarrow> string) \<Rightarrow> policy \<Rightarrow> policy_version \<Rightarrow> json list \<Rightarrow> actor \<Rightarrow> policy_pages \<Rightarrow> (response \<times> policy_pages) result" where
  "store_approvals env ids p v raws admin s =
     rbind (new_snapshots (dx_approvals env) ids (dx_now env) (pv_id v)
              (set (map snapshot_pair (version_snapshots (pv_id v) s))) raws []) (\<lambda>new.
       if new = [] then Inr (Flash (policy_page (po_id p)) ''No new approval changes.'' ''success'', s)
       else rbind (insert_snapshots new s) (\<lambda>s1.
         Inr (Flash (policy_page (po_id p)) (''Synced approvals: '' @ str_int (int (length new)) @ '' new snapshot(s).'') ''success'',
           audit_policy ''policy_version'' (pv_id v) ''sync_drive_approvals''
             (sync_detail (length new) p v) (ac_email admin) s1)))"

text \<open>What Drive says, \<open>None\<close> when it is not available.\<close>

definition available_approvals :: "drive_page_env \<Rightarrow> string \<Rightarrow> policy_pages \<Rightarrow> json list option result" where
  "available_approvals env file_id s =
     (case rbind (get_access_token_for_active_connection (dx_crypto env) (dx_api env) s) (\<lambda>(_, token).
             fetch_approvals (dx_api env) file_id token) of
        Inl (ValueError _) \<Rightarrow> Inr None
      | outcome \<Rightarrow> outcome)"

definition sync_drive_approvals ::
  "drive_page_env \<Rightarrow> (nat \<Rightarrow> string) \<Rightarrow> string \<Rightarrow> actor \<Rightarrow> policy_pages \<Rightarrow> (response \<times> policy_pages) result" where
  "sync_drive_approvals env ids policy_id admin s =
     rbind (linked_file policy_id s) (\<lambda>(p, file_id).
       case policy_latest_version policy_id (dv_db s) of
         None \<Rightarrow> Inr (Flash (policy_page policy_id) ''Capture a version before syncing approvals.'' ''error'', s)
       | Some v \<Rightarrow>
           rbind (available_approvals env file_id s) (\<lambda>raws.
             case raws of
               None \<Rightarrow> Inr (Flash (policy_page policy_id) ''Approval data unavailable.'' ''error'', s)
             | Some raws \<Rightarrow> store_approvals env ids p v raws admin s))"

section \<open>Histories\<close>

datatype policy_request_page =
    Create_policy string tick policy_form "(string + Policy_Lifecycle.stored_upload) option" string actor
  | Update_policy string policy_form actor
  | Upload_version tick string "Policy_Lifecycle.stored_upload option" string actor
  | Retire_policy tick string actor
  | Submit_version tick string string actor
  | Review_version tick string string string string actor
  | Make_version_effective tick tick string string actor
  | Withdraw_version tick string string string actor
  | Map_control string string string actor
  | Link_file drive_page_env string string actor
  | Refresh_file drive_page_env string
  | Capture_version drive_page_env store_env tick string string actor files
  | Sync_approvals drive_page_env "nat \<Rightarrow> string" string actor

fun page_exec :: "policy_request_page \<Rightarrow> policy_pages \<Rightarrow> policy_pages result" where
  "page_exec (Create_policy i t f upload note u) s = map_sum id snd (create_policy i t f upload note u s)"
| "page_exec (Update_policy p f u) s = map_sum id snd (update_policy p f u s)"
| "page_exec (Upload_version t p f note u) s =
     rbind (upload_policy_version t p f note (ac_email u) (dv_db s)) (\<lambda>d. Inr (s\<lparr>dv_db := d\<rparr>))"
| "page_exec (Retire_policy t p u) s = map_sum id snd (retire_policy t p u s)"
| "page_exec (Submit_version t p v u) s = map_sum id snd (submit_version_for_review t p v u s)"
| "page_exec (Review_version t p v d c u) s = map_sum id snd (review_policy_version t p v d c u s)"
| "page_exec (Make_version_effective t1 t2 p v u) s = map_sum id snd (make_policy_version_effective t1 t2 p v u s)"
| "page_exec (Withdraw_version t p v r u) s = map_sum id snd (withdraw_policy_version t p v r u s)"
| "page_exec (Map_control i p c u) s = map_sum id snd (add_control_mapping i p c u s)"
| "page_exec (Link_file env p x u) s = map_sum id snd (link_drive_file env p x u s)"
| "page_exec (Refresh_file env p) s = map_sum id snd (refresh_drive_metadata env p s)"
| "page_exec (Capture_version env store t p note u fs) s = map_sum id snd (fst (capture_drive_version env store t p note u s fs))"
| "page_exec (Sync_approvals env ids p u) s = map_sum id snd (sync_drive_approvals env ids p u s)"

definition page_step :: "policy_pages \<Rightarrow> policy_request_page \<Rightarrow> policy_pages" where
  "page_step s q = (case page_exec q s of Inl _ \<Rightarrow> s | Inr s' \<Rightarrow> s')"

definition policies_ok :: "db \<Rightarrow> bool" where
  "policies_ok d =
     (policy_inv d \<and> unique_by po_id (policies d) \<and> list_all (\<lambda>p. po_status p \<in> set policy_statuses) (policies d) \<and>
      list_all (\<lambda>v. has_row po_id (pv_policy_id v) (policies d)) (policy_versions d))"

definition mappings_ok :: "policy_pages \<Rightarrow> bool" where
  "mappings_ok s =
     (unique_by (\<lambda>m. (pm_policy_id m, pm_control_id m)) (pp_mappings s) \<and>
      list_all (\<lambda>m. has_row po_id (pm_policy_id m) (policies (dv_db s)) \<and> has_row ic_id (pm_control_id m) (internal_controls (dv_db s)))
        (pp_mappings s))"

definition snapshots_ok :: "policy_pages \<Rightarrow> bool" where
  "snapshots_ok s =
     (unique_by (\<lambda>r. (pas_policy_version_id r, snapshot_pair r)) (pp_snapshots s) \<and>
      list_all (\<lambda>r. has_row pv_id (pas_policy_version_id r) (policy_versions (dv_db s))) (pp_snapshots s))"

definition pages_inv :: "policy_pages \<Rightarrow> bool" where
  "pages_inv s = (policies_ok (dv_db s) \<and> mappings_ok s \<and> snapshots_ok s)"

text \<open>What a command of the lifecycle leaves alone.\<close>

definition same_tables :: "db \<Rightarrow> db \<Rightarrow> bool" where
  "same_tables d d' =
     (policies d' = policies d \<and> internal_controls d' = internal_controls d \<and>
      map (\<lambda>v. (pv_id v, pv_policy_id v)) (policy_versions d') = map (\<lambda>v. (pv_id v, pv_policy_id v)) (policy_versions d))"

lemma same_tables_refl [simp]: "same_tables d d"
  by (simp add: same_tables_def)

lemma same_tables_audit [simp]: "same_tables d (record_audit_event a b c e u d') = same_tables d d'"
  by (simp add: same_tables_def record_audit_event_def)

lemma same_tables_trans: "same_tables d d1 \<Longrightarrow> same_tables d1 d2 \<Longrightarrow> same_tables d d2"
  by (simp add: same_tables_def)

lemma same_tables_append:
  assumes "policy_append t c d = Inr d'" "c_idempotency_key c = None"
  shows "same_tables d d'"
proof -
  obtain e where "run_projector policy_version_projectors (d\<lparr>domain_events := domain_events d @ [e]\<rparr>) e = Inr d'"
    using policy_append_Inr [OF assms] by blast
  then show ?thesis
    by (auto simp: run_projector_def same_tables_def upd_policy_version_def row_upd_def o_def if_distrib
        elim!: policy_projector_cases split: option.splits cong: if_cong)
qed

lemma same_tables_submit: "policy_submit_for_review t a i v d = Inr d' \<Longrightarrow> same_tables d d'"
  by (auto simp: policy_submit_for_review_def event_command_def split: if_splits dest: same_tables_append)

lemma same_tables_review: "policy_review_version t dc c a i v d = Inr d' \<Longrightarrow> same_tables d d'"
  by (auto simp: policy_review_version_def event_command_def split: if_splits dest: same_tables_append)

lemma same_tables_withdraw: "policy_withdraw_version t r at a i v d = Inr d' \<Longrightarrow> same_tables d d'"
  by (auto simp: policy_withdraw_version_def event_command_def split: if_splits dest: same_tables_append)

lemma same_tables_effective: "policy_make_version_effective t1 t2 a i v d = Inr d' \<Longrightarrow> same_tables d d'"
  by (auto simp: policy_make_version_effective_def policy_flush_def event_command_def Let_def
      split: if_splits option.splits dest!: same_tables_append dest: same_tables_trans)

text \<open>The invariant of the policy tables, table by table.\<close>

lemma policies_ok_audit [simp]: "policies_ok (record_audit_event a b c e u d) = policies_ok d"
  by (simp add: policies_ok_def policy_inv_def record_audit_event_def)

lemma list_all_pair_map:
  "map (\<lambda>v. (pv_id v, pv_policy_id v)) vs' = map (\<lambda>v. (pv_id v, pv_policy_id v)) vs \<Longrightarrow>
     list_all (\<lambda>v. P (pv_policy_id v)) vs' = list_all (\<lambda>v. P (pv_policy_id v)) vs \<and> map pv_id vs' = map pv_id vs"
proof -
  assume same: "map (\<lambda>v. (pv_id v, pv_policy_id v)) vs' = map (\<lambda>v. (pv_id v, pv_policy_id v)) vs"
  have "map pv_policy_id vs' = map pv_policy_id vs" "map pv_id vs' = map pv_id vs"
    using arg_cong [OF same, of "map snd"] arg_cong [OF same, of "map fst"] by (simp_all add: o_def)
  then show ?thesis by (metis list.pred_map comp_def list_all_cong)
qed

lemma policies_ok_same: "policies_ok d \<Longrightarrow> same_tables d d' \<Longrightarrow> policy_inv d' \<Longrightarrow> policies_ok d'"
  using list_all_pair_map [of "policy_versions d'" "policy_versions d" "\<lambda>k. has_row po_id k (policies d)"]
  by (simp add: policies_ok_def same_tables_def)

definition lawful :: "(policy \<Rightarrow> policy) \<Rightarrow> bool" where
  "lawful f = (\<forall>p. po_id (f p) = po_id p \<and> (po_status p \<in> set policy_statuses \<longrightarrow> po_status (f p) \<in> set policy_statuses))"

lemma policies_ok_upd:
  "policies_ok d \<Longrightarrow> lawful f \<Longrightarrow> policies_ok (d\<lparr>policies := row_upd po_id k f (policies d)\<rparr>)"
  by (auto simp: policies_ok_def policy_inv_def lawful_def list_all_iff set_row_upd)

lemma policies_ok_new:
  "policies_ok d \<Longrightarrow> \<not> has_row po_id (po_id p) (policies d) \<Longrightarrow> po_status p \<in> set policy_statuses \<Longrightarrow>
     policies_ok (d\<lparr>policies := policies d @ [p]\<rparr>)"
  by (auto simp: policies_ok_def policy_inv_def list_all_iff)

lemma policies_ok_insert_version:
  assumes "policies_ok d" "insert_policy_version r d = Inr d'" "pv_lc r = lifecycle_defaults"
  shows "policies_ok d'"
  using assms
  by (auto simp: policies_ok_def policy_inv_def insert_policy_version_def one_effective_index_def lifecycle_defaults_def
      list_all_iff split: if_splits)

text \<open>The lifecycle commands keep the invariant: they are steps of the approval machine.\<close>

definition command_env :: "tick \<Rightarrow> tick \<Rightarrow> string \<Rightarrow> string option \<Rightarrow> policy_env" where
  "command_env t1 t2 a i =
     \<lparr>px_t1 = t1, px_t2 = t2, px_actor_type = a, px_actor_id = i,
      px_upload = \<lparr>st_original_filename = [], st_stored_filename = [], st_media_type = [], st_byte_size = 0, st_sha256 = []\<rparr>,
      px_note = [], px_email = []\<rparr>"

lemma command_keeps_inv: "policy_inv d \<Longrightarrow> policy_exec (command_env t1 t2 a i) c v d = Inr d' \<Longrightarrow> policy_inv d'"
proof -
  assume inv: "policy_inv d" and ok: "policy_exec (command_env t1 t2 a i) c v d = Inr d'"
  show ?thesis
    using policy_exec_step [OF inv ok] inv step_one_effective [of "policy_view d" "(c, v)" "policy_view d'"]
    by (simp add: policy_inv_view)
qed

lemma policies_ok_commands:
  assumes "policies_ok d"
  shows "policy_submit_for_review t a i v d = Inr d' \<Longrightarrow> policies_ok d'"
    and "policy_review_version t dc cm a i v d = Inr d' \<Longrightarrow> policies_ok d'"
    and "policy_withdraw_version t rs at a i v d = Inr d' \<Longrightarrow> policies_ok d'"
    and "policy_make_version_effective t t2 a i v d = Inr d' \<Longrightarrow> policies_ok d'"
proof -
  have inv: "policy_inv d" using assms by (simp add: policies_ok_def)
  show "policies_ok d'" if "policy_submit_for_review t a i v d = Inr d'"
    using command_keeps_inv [OF inv, of t t a i Submit v d'] that
    by (auto intro!: policies_ok_same [OF assms] same_tables_submit [OF that] simp: policy_exec_def command_env_def)
  show "policies_ok d'" if "policy_review_version t dc cm a i v d = Inr d'"
    using command_keeps_inv [OF inv, of t t a i "Review dc cm" v d'] that
    by (auto intro!: policies_ok_same [OF assms] same_tables_review [OF that] simp: policy_exec_def command_env_def)
  show "policies_ok d'" if "policy_withdraw_version t rs at a i v d = Inr d'"
    using command_keeps_inv [OF inv, of t t a i "Withdraw rs at" v d'] that
    by (auto intro!: policies_ok_same [OF assms] same_tables_withdraw [OF that] simp: policy_exec_def command_env_def)
  show "policies_ok d'" if "policy_make_version_effective t t2 a i v d = Inr d'"
    using command_keeps_inv [OF inv, of t t2 a i Make_effective v d'] that
    by (auto intro!: policies_ok_same [OF assms] same_tables_effective [OF that] simp: policy_exec_def command_env_def)
qed

text \<open>No table loses a row.\<close>

definition keeps_rows :: "db \<Rightarrow> db \<Rightarrow> bool" where
  "keeps_rows d d' =
     (po_id ` set (policies d) \<subseteq> po_id ` set (policies d') \<and> pv_id ` set (policy_versions d) \<subseteq> pv_id ` set (policy_versions d') \<and>
      internal_controls d' = internal_controls d)"

lemma same_keys: "map f xs = map f ys \<Longrightarrow> f ` set xs = f ` set ys"
  by (metis set_map)

lemma keeps_rows_refl [simp]: "keeps_rows d d"
  by (simp add: keeps_rows_def)

lemma keeps_rows_audit [simp]: "keeps_rows d (record_audit_event a b c e u d') = keeps_rows d d'"
  by (simp add: keeps_rows_def record_audit_event_def)

lemma keeps_rows_trans: "keeps_rows d d1 \<Longrightarrow> keeps_rows d1 d2 \<Longrightarrow> keeps_rows d d2"
  unfolding keeps_rows_def by (simp, meson order_trans)

lemma keeps_rows_same: "same_tables d d' \<Longrightarrow> keeps_rows d d'"
  using list_all_pair_map [of "policy_versions d'" "policy_versions d" "\<lambda>_. True"] same_keys [of pv_id "policy_versions d'" "policy_versions d"]
  by (simp add: same_tables_def keeps_rows_def)

lemma keeps_rows_upd [simp]: "lawful f \<Longrightarrow> keeps_rows d (d\<lparr>policies := row_upd po_id k f (policies d)\<rparr>)"
  using same_keys [of po_id "row_upd po_id k f (policies d)" "policies d"] by (simp add: keeps_rows_def lawful_def)

lemma keeps_rows_new [simp]: "keeps_rows d (d\<lparr>policies := policies d @ [p]\<rparr>)"
  by (auto simp: keeps_rows_def)

lemma keeps_rows_insert_version: "insert_policy_version r d = Inr d' \<Longrightarrow> keeps_rows d d'"
  by (auto simp: keeps_rows_def insert_policy_version_def split: if_splits)

lemma pages_inv_keeps:
  assumes "pages_inv s" "keeps_rows (dv_db s) (dv_db s')" "policies_ok (dv_db s')" "pp_mappings s' = pp_mappings s" "pp_snapshots s' = pp_snapshots s"
  shows "pages_inv s'"
  using assms
  by (auto simp: pages_inv_def mappings_ok_def snapshots_ok_def keeps_rows_def list_all_iff has_row_image)

lemma pages_inv_simps [simp]: "pages_inv (audit_policy a b c e u s) = pages_inv s"
  by (simp add: pages_inv_def audit_policy_def mappings_ok_def snapshots_ok_def record_audit_event_def policies_ok_def policy_inv_def)

lemma pages_inv_db: "pages_inv s \<Longrightarrow> keeps_rows (dv_db s) d \<Longrightarrow> policies_ok d \<Longrightarrow> pages_inv (s\<lparr>dv_db := d\<rparr>)"
  by (rule pages_inv_keeps) simp_all

lemma pages_inv_upd: "pages_inv s \<Longrightarrow> lawful f \<Longrightarrow> pages_inv (upd_policy k f s)"
  unfolding upd_policy_def by (intro pages_inv_db policies_ok_upd) (simp_all add: pages_inv_def)

lemma lawful_form: "lawful (apply_form title f)"
  by (simp add: lawful_def apply_form_def)

lemma lawful_drive: "lawful (seen_in_drive now metadata)"
  "lawful (\<lambda>p. (seen_in_drive now metadata p)\<lparr>po_source_type := x, po_drive_file_id := y\<rparr>)"
  by (simp_all add: lawful_def seen_in_drive_def)

lemma lawful_retired: "lawful (\<lambda>p. p\<lparr>po_status := ''retired''\<rparr>)"
  by (simp add: lawful_def policy_statuses_def)

lemma pages_inv_policies_ok: "pages_inv s \<Longrightarrow> policies_ok (dv_db s)"
  by (simp add: pages_inv_def)

lemma answered_inv:
  assumes "pages_inv s" "answered url m audit outcome s = Inr (r, s')"
    and "\<And>d. outcome = Inr d \<Longrightarrow> same_tables (dv_db s) d \<and> policies_ok d"
    and "\<And>d. audit d = record_audit_event a b c e u d"
  shows "pages_inv s'"
  using assms by (auto simp: answered_def intro!: pages_inv_db keeps_rows_same split: sum.splits error.splits)

text \<open>Handler by handler.\<close>

lemma insert_after_audit:
  assumes "insert_policy_version r (record_audit_event a b c e u (d\<lparr>policies := policies d @ [p]\<rparr>)) = Inr d'"
    and "policies_ok (d\<lparr>policies := policies d @ [p]\<rparr>)" "pv_lc r = lifecycle_defaults"
  shows "policies_ok d' \<and> keeps_rows d d'"
  using policies_ok_insert_version [OF _ assms(1,3)] assms(2) keeps_rows_trans [OF _ keeps_rows_insert_version [OF assms(1)], of d] by simp

lemma create_policy_inv:
  assumes "pages_inv s" "create_policy i t f upload note u s = Inr (r, s')"
  shows "pages_inv s'"
proof -
  let ?d = "(dv_db s)\<lparr>policies := policies (dv_db s) @ [new_policy i (strip (pf_title f)) f]\<rparr>"
  have new: "po_id (new_policy i title f) = i" "po_status (new_policy i title f) \<in> set policy_statuses" for title
    by (simp_all add: new_policy_def policy_statuses_def)
  have ok: "policies_ok ?d" "keeps_rows (dv_db s) ?d" if "\<not> has_row po_id i (policies (dv_db s))"
    using that assms(1) new by (auto intro!: policies_ok_new simp: pages_inv_def)
  show ?thesis
    using assms ok
    by (auto simp: create_policy_def Let_def audit_policy_def record_audit_event_def [symmetric]
        intro!: pages_inv_db split: if_splits option.splits sum.splits
        dest!: insert_after_audit)
qed

lemma update_policy_inv: "pages_inv s \<Longrightarrow> update_policy p f u s = Inr (r, s') \<Longrightarrow> pages_inv s'"
  by (auto simp: update_policy_def Let_def intro!: pages_inv_upd lawful_form split: option.splits if_splits)

lemma retire_policy_inv:
  assumes "pages_inv s" "retire_policy t p u s = Inr (r, s')"
  shows "pages_inv s'"
proof -
  let ?s1 = "upd_policy p (\<lambda>p. p\<lparr>po_status := ''retired''\<rparr>) s"
  have inv: "pages_inv ?s1" by (rule pages_inv_upd [OF assms(1) lawful_retired])
  have "pages_inv (?s1\<lparr>dv_db := d\<rparr>)"
    if "policy_withdraw_version t rs at a i v (dv_db ?s1) = Inr d" for rs at a i v d
    using that inv policies_ok_commands(3) [OF pages_inv_policies_ok [OF inv] that] same_tables_withdraw [OF that]
    by (auto intro!: pages_inv_db keeps_rows_same)
  then show ?thesis
    using assms(2) inv by (auto simp: retire_policy_def Let_def split: option.splits)
qed

lemma version_routes_inv:
  assumes "pages_inv s"
  shows "submit_version_for_review t p v u s = Inr (r, s') \<Longrightarrow> pages_inv s'"
    and "review_policy_version t p v dc cm u s = Inr (r, s') \<Longrightarrow> pages_inv s'"
    and "withdraw_policy_version t p v rs u s = Inr (r, s') \<Longrightarrow> pages_inv s'"
    and "make_policy_version_effective t t2 p v u s = Inr (r, s') \<Longrightarrow> pages_inv s'"
proof -
  note ok = policies_ok_commands [OF pages_inv_policies_ok [OF assms]]
  show "pages_inv s'" if "submit_version_for_review t p v u s = Inr (r, s')"
    using that by (auto simp: submit_version_for_review_def dest: same_tables_submit ok(1) elim!: answered_inv [OF assms])
  show "pages_inv s'" if "review_policy_version t p v dc cm u s = Inr (r, s')"
    using that by (auto simp: review_policy_version_def dest: same_tables_review ok(2) elim!: answered_inv [OF assms])
  show "pages_inv s'" if "withdraw_policy_version t p v rs u s = Inr (r, s')"
    using that by (auto simp: withdraw_policy_version_def dest: same_tables_withdraw ok(3) elim!: answered_inv [OF assms])
  show "pages_inv s'" if "make_policy_version_effective t t2 p v u s = Inr (r, s')"
  proof (cases "policy_make_version_effective t t2 ''user'' (Some (ac_id u)) v (dv_db s) = Inl IntegrityError")
    case True
    then show ?thesis using that assms by (auto simp: make_policy_version_effective_def)
  next
    case False
    then show ?thesis using that
      by (auto simp: make_policy_version_effective_def Let_def dest: same_tables_effective ok(4) elim!: answered_inv [OF assms])
  qed
qed

lemma upload_route_inv:
  "pages_inv s \<Longrightarrow> upload_policy_version t p f note u (dv_db s) = Inr d \<Longrightarrow> pages_inv (s\<lparr>dv_db := d\<rparr>)"
  using pages_inv_policies_ok [of s]
  by (auto simp: upload_policy_version_def split: option.splits intro!: pages_inv_db
      dest: policies_ok_insert_version keeps_rows_insert_version)

lemma pages_inv_map:
  "pages_inv s \<Longrightarrow> row_get po_id (pm_policy_id m) (policies (dv_db s)) = Some p \<Longrightarrow>
     row_get ic_id (pm_control_id m) (internal_controls (dv_db s)) = Some c \<Longrightarrow> insert_control_mapping m s = Inr s' \<Longrightarrow> pages_inv s'"
  by (auto simp: insert_control_mapping_def pages_inv_def mappings_ok_def snapshots_ok_def
      dest: row_get_Some_has_row split: if_splits)

lemma add_control_mapping_inv:
  assumes "pages_inv s" "add_control_mapping i p c u s = Inr (r, s')"
  shows "pages_inv s'"
  using assms pages_inv_map [OF assms(1), of "\<lparr>pm_id = i, pm_policy_id = p, pm_control_id = c\<rparr>"]
  by (auto simp: add_control_mapping_def split: option.splits sum.splits)

lemma with_drive_Inr:
  "with_drive url s outcome k = Inr (r, s') \<Longrightarrow> s' = s \<or> (\<exists>x. outcome = Inr x \<and> k x = Inr (r, s'))"
  by (auto simp: with_drive_def split: sum.splits error.splits)

lemma drive_routes_inv:
  assumes "pages_inv s"
  shows "link_drive_file env p x u s = Inr (r, s') \<Longrightarrow> pages_inv s'"
    and "refresh_drive_metadata env p s = Inr (r, s') \<Longrightarrow> pages_inv s'"
  using assms
  by (auto simp: link_drive_file_def refresh_drive_metadata_def intro!: pages_inv_upd lawful_drive
      split: option.splits dest!: with_drive_Inr)

lemma record_capture_inv:
  assumes "pages_inv s" "record_capture env t p cn metadata revs n f note u s = Inr (r, s')"
  shows "pages_inv s'"
proof -
  obtain m d where ins: "insert_policy_version (captured_version t (po_id p) n f metadata m note (ac_email u)) (dv_db s) = Inr d"
    and s': "s' = audit_policy ''policy'' (po_id p) ''capture_drive_version'' (capture_detail n p metadata) (ac_email u)
       (upd_policy (po_id p) (seen_in_drive (dx_now env) metadata)
         (s\<lparr>dv_db := d, dv_connections := row_upd dc_id (dc_id cn) (\<lambda>c. c\<lparr>dc_last_successful_sync_at := Some (dx_now env)\<rparr>) (dv_connections s)\<rparr>))"
    using assms(2) by (auto simp: record_capture_def)
  have "policies_ok d" "keeps_rows (dv_db s) d"
    using policies_ok_insert_version [OF pages_inv_policies_ok [OF assms(1)] ins] keeps_rows_insert_version [OF ins]
    by (simp_all add: captured_version_def)
  then have "pages_inv (s\<lparr>dv_db := d, dv_connections := cs\<rparr>)" for cs
    by (intro pages_inv_keeps [OF assms(1)]) simp_all
  then show ?thesis unfolding s' by (simp add: pages_inv_upd lawful_drive)
qed

lemma capture_inv:
  "pages_inv s \<Longrightarrow> fst (capture_drive_version env store t p note u s fs) = Inr (r, s') \<Longrightarrow> pages_inv s'"
  by (auto simp: capture_drive_version_def Let_def dest: record_capture_inv
      split: sum.splits error.splits prod.splits)

text \<open>The rows of one sync: new pairs of one version.\<close>

lemma new_snapshots_Inr:
  "new_snapshots env ids now v seen raws new = Inr rows \<Longrightarrow>
     \<exists>fresh. rows = new @ fresh \<and> distinct (map snapshot_pair fresh) \<and> set (map snapshot_pair fresh) \<inter> seen = {} \<and>
       (\<forall>r \<in> set fresh. pas_policy_version_id r = v)"
proof (induction raws arbitrary: seen new)
  case (Cons raw raws)
  show ?case
  proof (cases "parse_approval env raw")
    case (Inr a)
    show ?thesis
    proof (cases a)
      case None
      then show ?thesis using Cons Inr by simp
    next
      case (Some b)
      let ?pair = "(pa_external_approval_id b, pa_raw_payload_sha256 b)"
      let ?row = "\<lparr>pas_id = ids (length new), pas_policy_version_id = v, pas_approval = b, pas_captured_at = now\<rparr>"
      have pair: "snapshot_pair ?row = ?pair" by (simp add: snapshot_pair_def)
      show ?thesis
      proof (cases "?pair \<in> seen")
        case True
        then show ?thesis using Cons Inr Some by simp
      next
        case False
        then have "new_snapshots env ids now v (insert ?pair seen) raws (new @ [?row]) = Inr rows"
          using Cons.prems Inr Some by (simp add: Let_def)
        from Cons.IH [OF this] obtain fresh where fresh: "rows = (new @ [?row]) @ fresh" "distinct (map snapshot_pair fresh)"
          "set (map snapshot_pair fresh) \<inter> insert ?pair seen = {}" "\<forall>r \<in> set fresh. pas_policy_version_id r = v" by blast
        show ?thesis using fresh False by (intro exI [of _ "?row # fresh"]) (auto simp: pair)
      qed
    qed
  qed (use Cons.prems in simp)
qed simp

lemma unique_by_append:
  assumes "unique_by f xs" "distinct (map f ys)" "f ` set ys \<inter> f ` set xs = {}"
  shows "unique_by f (xs @ ys)"
  using assms by (auto simp: unique_by_def)

lemma pages_inv_snapshots:
  assumes "pages_inv s" "has_row pv_id v (policy_versions (dv_db s))" "insert_snapshots fresh s = Inr s'"
    and "distinct (map snapshot_pair fresh)" "set (map snapshot_pair fresh) \<inter> set (map snapshot_pair (version_snapshots v s)) = {}"
    and "\<forall>r \<in> set fresh. pas_policy_version_id r = v"
  shows "pages_inv s'"
proof -
  let ?f = "\<lambda>r. (pas_policy_version_id r, snapshot_pair r)"
  have s': "s' = s\<lparr>pp_snapshots := pp_snapshots s @ fresh\<rparr>"
    using assms(3) by (auto simp: insert_snapshots_def split: if_splits)
  have "map ?f fresh = map (Pair v) (map snapshot_pair fresh)" using assms(6) by simp
  then have "distinct (map ?f fresh)" using assms(4) by (simp add: distinct_map inj_on_def)
  moreover have "?f ` set fresh \<inter> ?f ` set (pp_snapshots s) = {}"
    using assms(5,6) by (auto simp: version_snapshots_def)
  ultimately have "unique_by ?f (pp_snapshots s @ fresh)"
    using assms(1) by (intro unique_by_append) (simp_all add: pages_inv_def snapshots_ok_def)
  then show ?thesis
    using assms(1,2,6) by (auto simp: s' pages_inv_def mappings_ok_def snapshots_ok_def list_all_iff)
qed

lemma latest_version_row: "policy_latest_version p d = Some v \<Longrightarrow> v \<in> set (policy_versions d)"
proof -
  assume "policy_latest_version p d = Some v"
  then obtain vs where "policy_versions_desc p d = v # vs" by (auto simp: policy_latest_version_def split: list.splits)
  then have "v \<in> set (policy_versions_desc p d)" by (metis list.set_intros(1))
  then show ?thesis by simp
qed

text \<open>What a sync does: nothing, or it adds rows and one line of the audit trail.\<close>

lemma sync_cases:
  assumes "sync_drive_approvals env ids p u s = Inr (r, s')"
  shows "s' = s \<or>
    (\<exists>q v raws. policy_latest_version p (dv_db s) = Some v \<and> store_approvals env ids q v raws u s = Inr (r, s'))"
  using assms by (auto simp: sync_drive_approvals_def split: option.split_asm)

lemma store_inv:
  assumes "pages_inv s" "v \<in> set (policy_versions (dv_db s))" "store_approvals env ids q v raws u s = Inr (r, s')"
  shows "pages_inv s'"
proof -
  obtain new where new: "new_snapshots (dx_approvals env) ids (dx_now env) (pv_id v)
      (set (map snapshot_pair (version_snapshots (pv_id v) s))) raws [] = Inr new"
    and rest: "s' = s \<or> (\<exists>s1. insert_snapshots new s = Inr s1 \<and>
      s' = audit_policy ''policy_version'' (pv_id v) ''sync_drive_approvals'' (sync_detail (length new) q v) (ac_email u) s1)"
    using assms(3) by (fastforce simp: store_approvals_def split: if_splits)
  have "has_row pv_id (pv_id v) (policy_versions (dv_db s))" using assms(2) by (auto simp: has_row_image)
  then have "pages_inv s1" if "insert_snapshots new s = Inr s1" for s1
    using new_snapshots_Inr [OF new] by (intro pages_inv_snapshots [OF assms(1) _ that]) auto
  then show ?thesis using rest assms(1) by auto
qed

lemma sync_inv:
  assumes "pages_inv s" "sync_drive_approvals env ids p u s = Inr (r, s')"
  shows "pages_inv s'"
  using sync_cases [OF assms(2)] assms(1) store_inv [OF assms(1)] latest_version_row by blast

text \<open>
  C40. The policy pages keep their tables. Whatever requests come, every policy has a status of the
  list and at most one effective version, a control is mapped to a policy once, and an approval
  that Drive reported is held once per version and content.
\<close>

theorem policy_pages_invariant:
  assumes "pages_inv s"
  shows "pages_inv (foldl page_step s qs)"
proof -
  have step: "pages_inv (page_step s q)" if "pages_inv s" for s q
  proof (cases "page_exec q s")
    case (Inr s')
    have "pages_inv s'"
      using Inr that
      by (cases q)
        (auto dest: create_policy_inv update_policy_inv retire_policy_inv version_routes_inv upload_route_inv
          add_control_mapping_inv drive_routes_inv capture_inv sync_inv)
    then show ?thesis using Inr by (simp add: page_step_def)
  qed (use that in \<open>simp add: page_step_def\<close>)
  show ?thesis using assms by (induction qs arbitrary: s) (simp_all add: step)
qed

definition no_pages :: policy_pages where
  "no_pages = \<lparr>dv_db = empty_db, dv_connections = [], pp_mappings = [], pp_snapshots = []\<rparr>"

definition demo_user :: actor where
  "demo_user = \<lparr>ac_id = ''u'', ac_email = ''ann''\<rparr>"

definition demo_form :: "string \<Rightarrow> policy_form" where
  "demo_form status = \<lparr>pf_title = '' Access '', pf_description = [], pf_owner = ''ann'', pf_status = status,
     pf_effective_date = ''2026-08-01'', pf_next_review_date = ''soon''\<rparr>"

definition demo_pages :: "policy_request_page list" where
  "demo_pages =
     [Create_policy ''p'' \<lparr>t_now = Datetime (Date 2026 8 1) 0, t_id = ''v''\<rparr> (demo_form ''unknown'') None [] demo_user,
      Update_policy ''p'' (demo_form ''approved'') demo_user, Update_policy ''p'' (demo_form ''gone'') demo_user]"

lemma demo_pages_run:
  "map (\<lambda>p. (po_title p, po_status p, po_effective_date p, po_next_review_date p))
     (policies (dv_db (foldl page_step no_pages demo_pages))) =
   [(''Access'', ''approved'', Some (Date 2026 8 1), None)]"
  by code_simp

lemma policy_pages_invariant_witness:
  "pages_inv (foldl page_step no_pages demo_pages) \<and> policies (dv_db (foldl page_step no_pages demo_pages)) \<noteq> []"
proof -
  have "pages_inv no_pages"
    by (simp add: no_pages_def pages_inv_def policies_ok_def policy_inv_def mappings_ok_def snapshots_ok_def empty_db_def one_effective_index_def)
  from policy_pages_invariant [OF this, of demo_pages] show ?thesis using demo_pages_run by auto
qed

section \<open>Retirement\<close>

lemma effective_None_iff:
  assumes "unique_by pv_id (policy_versions d)"
  shows "policy_effective_version p d = None \<longleftrightarrow> (\<forall>v. policy_view d v \<noteq> Some (p, Effective))"
  unfolding policy_view_def policy_effective_version_def
  using table_view_Some [OF assms] by (auto simp: find_None_iff)

lemma withdraw_effective:
  assumes inv: "policy_inv d" and eff: "policy_effective_version p d = Some v"
    and wd: "policy_withdraw_version t rs at a i (pv_id v) d = Inr d'"
  shows "policy_effective_version p d' = None"
proof -
  have u: "unique_by pv_id (policy_versions d)" and one: "one_effective (policy_view d)"
    using inv by (simp_all add: policy_inv_view)
  have v: "v \<in> set (policy_versions d)" "pv_policy_id v = p" "lc_status (pv_lc v) = Effective"
    using find_SomeD [OF eff [unfolded policy_effective_version_def]] by auto
  have view: "policy_view d (pv_id v) = Some (p, Effective)"
    using policy_view_get [OF row_get_unique [OF u v(1)]] v by simp
  obtain q st where after: "policy_view d' = (policy_view d)(pv_id v \<mapsto> (q, Withdrawn))"
    "unique_by pv_id (policy_versions d') = unique_by pv_id (policy_versions d)"
    using policy_withdraw_view [OF wd] by blast
  have "policy_view d' w \<noteq> Some (p, Effective)" for w
    using one view by (auto simp: after(1) one_effective_def)
  then show ?thesis using effective_None_iff [of d' p] after(2) u by simp
qed

text \<open>
  A policy that was retired through its route has no effective version left.
\<close>

theorem retired_has_no_effective_version:
  assumes "pages_inv s" "retire_policy t p u s = Inr (r, s')"
  shows "policy_effective_version p (dv_db s') = None"
proof -
  let ?s1 = "upd_policy p (\<lambda>p. p\<lparr>po_status := ''retired''\<rparr>) s"
  have inv: "policy_inv (dv_db ?s1)"
    using pages_inv_policies_ok [OF pages_inv_upd [OF assms(1) lawful_retired]] by (simp add: policies_ok_def)
  have audit: "policy_effective_version p (record_audit_event a b c e w d) = policy_effective_version p d" for a b c e w d
    by (simp add: policy_effective_version_def policy_versions_desc_def record_audit_event_def)
  show ?thesis
    using assms(2) withdraw_effective [OF inv]
    by (auto simp: retire_policy_def Let_def audit_policy_def audit split: option.splits)
qed

text \<open>
  The form of the policy takes the same status without the withdrawal: a policy that the form
  retires keeps its effective version, which \<open>retire_policy\<close> is there to prevent.
\<close>

theorem form_retires_with_effective_version:
  assumes "row_get po_id p (policies (dv_db s)) = Some q" "strip (pf_title f) \<noteq> []" "pf_status f = ''retired''"
    and "policy_effective_version p (dv_db s) = Some v"
  shows "\<exists>s' q'. update_policy p f u s = Inr (Flash (policy_page p) ''Policy updated.'' ''success'', s') \<and>
    row_get po_id p (policies (dv_db s')) = Some q' \<and> po_status q' = ''retired'' \<and>
    policy_effective_version p (dv_db s') = Some v"
proof -
  have "row_get po_id p (row_upd po_id p (apply_form title f) (policies (dv_db s))) = Some (apply_form title f q)" for title
    using assms(1) by (simp add: row_get_upd apply_form_def)
  then show ?thesis
    using assms
    by (simp add: update_policy_def Let_def audit_policy_def record_audit_event_def upd_policy_def policy_effective_version_def
        policy_versions_desc_def) (simp add: apply_form_def policy_statuses_def)
qed

section \<open>Synchronising twice\<close>

definition approval_pair :: "parsed_approval \<Rightarrow> string \<times> string" where
  "approval_pair a = (pa_external_approval_id a, pa_raw_payload_sha256 a)"

lemma new_snapshots_parsed:
  "new_snapshots env ids now v seen raws new = Inr rows \<Longrightarrow> raw \<in> set raws \<Longrightarrow>
     \<exists>a. parse_approval env raw = Inr a \<and> (\<forall>b. a = Some b \<longrightarrow> approval_pair b \<in> seen \<or> approval_pair b \<in> snapshot_pair ` set rows)"
proof (induction raws arbitrary: seen new)
  case (Cons x raws)
  show ?case
  proof (cases "parse_approval env x")
    case (Inl e)
    then show ?thesis using Cons.prems by simp
  next
    case (Inr a)
    show ?thesis
    proof (cases "\<exists>b. a = Some b \<and> approval_pair b \<notin> seen")
      case False
      then have "new_snapshots env ids now v seen raws new = Inr rows"
        using Cons.prems Inr by (auto simp: approval_pair_def split: option.splits)
      then show ?thesis using Cons.IH Cons.prems(2) Inr False by auto
    next
      case True
      then obtain b where b: "a = Some b" "approval_pair b \<notin> seen" by blast
      let ?row = "\<lparr>pas_id = ids (length new), pas_policy_version_id = v, pas_approval = b, pas_captured_at = now\<rparr>"
      have pair: "snapshot_pair ?row = approval_pair b" by (simp add: snapshot_pair_def approval_pair_def)
      have run: "new_snapshots env ids now v (insert (approval_pair b) seen) raws (new @ [?row]) = Inr rows"
        using Cons.prems Inr b by (simp add: approval_pair_def)
      then have "approval_pair b \<in> snapshot_pair ` set rows"
        using new_snapshots_Inr [OF run] pair by (auto simp: image_Un)
      then show ?thesis using Cons.IH [OF run] Cons.prems(2) Inr b by auto
    qed
  qed
qed simp

lemma new_snapshots_seen:
  "(\<And>raw. raw \<in> set raws \<Longrightarrow> \<exists>a. parse_approval env raw = Inr a \<and> (\<forall>b. a = Some b \<longrightarrow> approval_pair b \<in> seen)) \<Longrightarrow>
     new_snapshots env ids now v seen raws new = Inr new"
proof (induction raws)
  case (Cons raw raws)
  obtain a where "parse_approval env raw = Inr a" "\<forall>b. a = Some b \<longrightarrow> approval_pair b \<in> seen"
    using Cons.prems [of raw] by auto
  moreover have "new_snapshots env ids now v seen raws new = Inr new"
    using Cons by auto
  ultimately show ?case by (cases a) (simp_all add: approval_pair_def)
qed simp

lemma sync_frame:
  assumes "s1 = audit_policy a b c e w (s\<lparr>pp_snapshots := rows\<rparr>)"
  shows "linked_file p s1 = linked_file p s" "policy_latest_version p (dv_db s1) = policy_latest_version p (dv_db s)"
    "available_approvals env i s1 = available_approvals env i s"
  using assms
  by (simp_all add: linked_file_def audit_policy_def record_audit_event_def policy_latest_version_def policy_versions_desc_def
      available_approvals_def get_access_token_for_active_connection_def active_connection_def)

text \<open>
  Synchronising again what Drive has not changed adds nothing: not a snapshot, not a line of the
  audit trail.
\<close>

theorem approvals_sync_idempotent:
  assumes "sync_drive_approvals env ids p u s = Inr (r, s')"
  shows "\<exists>r'. sync_drive_approvals env ids' p u' s' = Inr (r', s')"
proof -
  obtain q i where link: "linked_file p s = Inr (q, i)"
    using assms by (auto simp: sync_drive_approvals_def)
  show ?thesis
  proof (cases "\<exists>v raws. policy_latest_version p (dv_db s) = Some v \<and> available_approvals env i s = Inr (Some raws)")
    case False
    then have "s' = s \<and> sync_drive_approvals env ids' p u' s = Inr (r, s)"
      using assms link by (auto simp: sync_drive_approvals_def split: option.splits)
    then show ?thesis by auto
  next
    case True
    then obtain v raws where vr: "policy_latest_version p (dv_db s) = Some v" "available_approvals env i s = Inr (Some raws)" by blast
    then have store: "store_approvals env ids q v raws u s = Inr (r, s')"
      using assms link by (simp add: sync_drive_approvals_def)
    let ?seen = "\<lambda>s. set (map snapshot_pair (version_snapshots (pv_id v) s))"
    obtain new where new: "new_snapshots (dx_approvals env) ids (dx_now env) (pv_id v) (?seen s) raws [] = Inr new"
      and rest: "new = [] \<and> s' = s \<or> (\<exists>s1. insert_snapshots new s = Inr s1 \<and>
        s' = audit_policy ''policy_version'' (pv_id v) ''sync_drive_approvals'' (sync_detail (length new) q v) (ac_email u) s1)"
      using store by (fastforce simp: store_approvals_def split: if_splits)
    have frame: "linked_file p s' = Inr (q, i)" "policy_latest_version p (dv_db s') = Some v" "available_approvals env i s' = Inr (Some raws)"
      and snaps: "pp_snapshots s' = pp_snapshots s @ new"
      using rest link vr sync_frame [where s = s and rows = "pp_snapshots s @ new"]
      by (auto simp: insert_snapshots_def audit_policy_def split: if_splits)
    have "snapshot_pair ` set new \<union> ?seen s \<subseteq> ?seen s'"
      using new_snapshots_Inr [OF new] by (auto simp: version_snapshots_def snaps)
    then have "new_snapshots (dx_approvals env) ids' (dx_now env) (pv_id v) (?seen s') raws [] = Inr []"
      using new_snapshots_parsed [OF new] by (intro new_snapshots_seen) blast
    then show ?thesis
      by (simp add: sync_drive_approvals_def frame store_approvals_def)
  qed
qed

section \<open>Requests to Drive\<close>

text \<open>
  What is typed into the link form cannot lead a request away from the files of Drive: the outcome
  depends on Drive's answers for well-formed file ids alone.
\<close>

theorem link_stays_on_drive:
  assumes "\<And>i token. 10 \<le> length i \<Longrightarrow> list_all id_char i \<Longrightarrow>
      get_file_metadata api i token = get_file_metadata (dx_api env) i token"
    and "da_refresh api = da_refresh (dx_api env)"
  shows "link_drive_file (env\<lparr>dx_api := api\<rparr>) p typed u s = link_drive_file env p typed u s"
proof -
  have "get_access_token_for_active_connection (dx_crypto env) api s = get_access_token_for_active_connection (dx_crypto env) (dx_api env) s"
    by (simp add: get_access_token_for_active_connection_def assms(2) split: option.splits)
  then have "rbind (parse_drive_file_id typed) (\<lambda>i. rbind (get_access_token_for_active_connection (dx_crypto env) api s) (\<lambda>(_, token). get_file_metadata api i token)) =
      rbind (parse_drive_file_id typed) (\<lambda>i. rbind (get_access_token_for_active_connection (dx_crypto env) (dx_api env) s) (\<lambda>(_, token). get_file_metadata (dx_api env) i token))"
    using assms(1) parse_drive_file_id_safe by (cases "parse_drive_file_id typed") (auto simp: rbind_def split: sum.splits)
  then show ?thesis by (simp add: link_drive_file_def split: option.splits)
qed

section \<open>A stored file whose version was lost\<close>

text \<open>
  The file of a version is stored before the transaction that records it. When that transaction is
  lost, the number is still free and its place is not: every later file of that kind for the
  policy is refused, until someone removes the file by hand.
\<close>

theorem lost_commit_blocks_version:
  assumes "save_policy_version sha256 zip_names tmp chunks name ext dir pid n max_bytes fs = (Inr f, fs')"
    and "tmp' \<noteq> policy_version_path dir pid n (''document.'' @ ext)"
  shows "\<exists>e. fst (save_policy_version sha256 zip_names tmp' chunks' name' ext dir pid n max_bytes fs') = Inl e"
proof -
  have "fs' (policy_version_path dir pid n (''document.'' @ ext)) \<noteq> None"
    using assms(1) by (auto simp: save_policy_version_def Let_def split: sum.splits if_splits option.splits)
  then show ?thesis
    using assms(2) by (auto simp: save_policy_version_def Let_def split: sum.splits)
qed

end
