(* ===== verification/Import_Directory.thy ===== *)
theory Import_Directory
  imports Imports Audit_Package
begin

text \<open>
  The watched import directory: \<open>src/app/import_directory.py\<close>. A directory is the list of its
  regular files with their names, bytes and times of modification; a rename replaces a file of the
  same name and keeps the time, as on POSIX. What other workers do between two calls of one worker
  is an argument. The import itself is \<open>run_import\<close>.
\<close>

section \<open>Files\<close>

record watched_file =
  wf_content :: string
  wf_mtime :: int

type_synonym dir = "(string \<times> watched_file) list"

record import_dirs =
  id_inbox :: dir
  id_processing :: dir
  id_completed :: dir
  id_rejected :: dir

definition without :: "string \<Rightarrow> dir \<Rightarrow> dir" where
  "without name d = filter (\<lambda>(n, _). n \<noteq> name) d"

definition put_file :: "string \<Rightarrow> watched_file \<Rightarrow> dir \<Rightarrow> dir" where
  "put_file name f d = without name d @ [(name, f)]"

lemma map_of_without [simp]: "map_of (without name d) = (map_of d)(name := None)"
  by (induction d) (auto simp: without_def fun_eq_iff)

lemma map_of_put_file [simp]: "map_of (put_file name f d) = (map_of d)(name \<mapsto> f)"
  by (auto simp: put_file_def map_add_def fun_eq_iff split: option.splits)

text \<open>\<open>os.rename\<close> from the inbox to \<open>processing\<close>; \<open>None\<close> is \<open>FileNotFoundError\<close>.\<close>

definition claim_file :: "string \<Rightarrow> import_dirs \<Rightarrow> import_dirs option" where
  "claim_file name d =
     (case map_of (id_inbox d) name of
        None \<Rightarrow> None
      | Some f \<Rightarrow> Some (d\<lparr>id_inbox := without name (id_inbox d), id_processing := put_file name f (id_processing d)\<rparr>))"

section \<open>Claiming\<close>

text \<open>The two sizes that \<open>_is_file_stable\<close> reads; \<open>None\<close> where the file is gone.\<close>

definition is_file_stable :: "nat option \<times> nat option \<Rightarrow> bool" where
  "is_file_stable sizes = (case sizes of (Some a, Some b) \<Rightarrow> a = b | _ \<Rightarrow> False)"

fun claim_loop :: "(string \<Rightarrow> nat option \<times> nat option) \<Rightarrow> string list \<Rightarrow> import_dirs \<Rightarrow> (string \<times> import_dirs) option" where
  "claim_loop sizes [] d = None"
| "claim_loop sizes (name # names) d =
     (if \<not> is_file_stable (sizes name) then claim_loop sizes names d
      else (case claim_file name d of None \<Rightarrow> claim_loop sizes names d | Some d' \<Rightarrow> Some (name, d')))"

text \<open>Other workers rename the files of \<open>rivals\<close> between this worker's listing and its renames.\<close>

definition rival_claims :: "string list \<Rightarrow> import_dirs \<Rightarrow> import_dirs" where
  "rival_claims rivals d = fold (\<lambda>name d. case claim_file name d of None \<Rightarrow> d | Some d' \<Rightarrow> d') rivals d"

definition claim_one_file ::
  "(string \<Rightarrow> nat option \<times> nat option) \<Rightarrow> string list \<Rightarrow> import_dirs \<Rightarrow> string option \<times> import_dirs" where
  "claim_one_file sizes rivals d =
     (let candidates = sort (map fst (id_inbox d)); d1 = rival_claims rivals d
      in case claim_loop sizes candidates d1 of None \<Rightarrow> (None, d1) | Some (name, d2) \<Rightarrow> (Some name, d2))"

definition default_stale_seconds :: int where
  "default_stale_seconds = 300"

text \<open>The count of the files moved back, and the directories after it.\<close>

definition reconcile_stale_processing :: "int \<Rightarrow> int \<Rightarrow> import_dirs \<Rightarrow> nat \<times> import_dirs" where
  "reconcile_stale_processing now stale_seconds d =
     (let stale = filter (\<lambda>(_, f). stale_seconds < now - wf_mtime f) (id_processing d)
      in (length stale,
          d\<lparr>id_processing := filter (\<lambda>(_, f). \<not> stale_seconds < now - wf_mtime f) (id_processing d),
            id_inbox := fold (\<lambda>(name, f). put_file name f) stale (id_inbox d)\<rparr>))"

section \<open>Processing\<close>

definition status_text :: "import_status \<Rightarrow> string" where
  "status_text st = (case st of Validating \<Rightarrow> ''validating'' | Importing \<Rightarrow> ''importing'' | Completed \<Rightarrow> ''completed'' | Rejected \<Rightarrow> ''rejected'')"

definition import_manifest :: "string \<Rightarrow> import_job \<Rightarrow> json" where
  "import_manifest name job =
     JObj [(''import_job_id'', JStr (ij_id job)), (''status'', JStr (status_text (ij_status job))),
       (''records_created'', JInt (int (ij_records_created job))), (''records_skipped'', JInt (int (ij_records_skipped job))),
       (''checksum_sha256'', JStr (ij_checksum_sha256 job)), (''original_filename'', JStr name)]"

definition manifest_file :: "int \<Rightarrow> string \<Rightarrow> import_job \<Rightarrow> watched_file" where
  "manifest_file now name job = \<lparr>wf_content = dumps_indent 0 (import_manifest name job), wf_mtime = now\<rparr>"

definition archive_file :: "int \<Rightarrow> string \<Rightarrow> watched_file \<Rightarrow> import_job \<Rightarrow> import_dirs \<Rightarrow> import_dirs" where
  "archive_file now name f job d =
     (let add = (\<lambda>dir. put_file (name @ ''.manifest.json'') (manifest_file now name job) (put_file name f dir));
          d1 = d\<lparr>id_processing := without name (id_processing d)\<rparr>
      in if ij_status job = Completed then d1\<lparr>id_completed := add (id_completed d)\<rparr> else d1\<lparr>id_rejected := add (id_rejected d)\<rparr>)"

definition directory_request :: "string \<Rightarrow> string \<Rightarrow> string \<Rightarrow> string \<Rightarrow> import_request" where
  "directory_request importer_name actor name content =
     \<lparr>iq_importer_name = importer_name, iq_raw_bytes = content, iq_filename = name, iq_target = [], iq_actor = actor,
      iq_source = ''watched_directory''\<rparr>"

text \<open>
  The import runs in a session of its own, which starts at the committed state \<open>base\<close>. A file that
  another worker took meanwhile is \<open>FileNotFoundError\<close>, at the read or at the rename.
\<close>

definition process_claimed_file ::
  "import_env \<Rightarrow> int \<Rightarrow> string \<Rightarrow> string \<Rightarrow> bool \<Rightarrow> string \<Rightarrow> registers \<Rightarrow> import_dirs \<Rightarrow> (import_job \<times> registers \<times> import_dirs) result" where
  "process_claimed_file env now importer_name actor taken name base d =
     (case map_of (id_processing d) name of
        None \<Rightarrow> Inl OSError
      | Some f \<Rightarrow>
          rbind (run_import env default_max_bytes base (directory_request importer_name actor name (wf_content f)) base) (\<lambda>(_, job, s1).
            if taken then Inl OSError
            else Inr (job,
              audit_registers ''import_job'' (ij_id job) ''watched_directory_archive''
                (''Archived '' @ in_quotes name @ '' to '' @ (if ij_status job = Completed then ''completed'' else ''rejected'') @ ''/ ('' @
                 status_text (ij_status job) @ '')'') actor s1,
              archive_file now name f job d)))"

text \<open>One pass; the commit comes last and may fail. An exception ends the pass with what was renamed so far.\<close>

record pass_env =
  pe_import :: import_env
  pe_now :: int
  pe_sizes :: "string \<Rightarrow> nat option \<times> nat option"
  pe_rivals :: "string list"
  pe_taken :: bool
  pe_commit_ok :: bool

definition run_directory_once ::
  "pass_env \<Rightarrow> string \<Rightarrow> string \<Rightarrow> registers \<Rightarrow> import_dirs \<Rightarrow> bool result \<times> registers \<times> import_dirs" where
  "run_directory_once env importer_name actor s d =
     (let d1 = snd (reconcile_stale_processing (pe_now env) default_stale_seconds d)
      in case claim_one_file (pe_sizes env) (pe_rivals env) d1 of
           (None, d2) \<Rightarrow> (Inr False, s, d2)
         | (Some name, d2) \<Rightarrow>
             (case process_claimed_file (pe_import env) (pe_now env) importer_name actor (pe_taken env) name s d2 of
                Inl e \<Rightarrow> (Inl e, s, d2)
              | Inr (_, s', d3) \<Rightarrow> if pe_commit_ok env then (Inr True, s', d3) else (Inl OSError, s, d3)))"

section \<open>What a pass does\<close>

lemma claim_loop_Some:
  "claim_loop sizes names d = Some (name, d') \<Longrightarrow> name \<in> set names \<and> is_file_stable (sizes name) \<and> claim_file name d = Some d'"
  by (induction sizes names d rule: claim_loop.induct) (auto split: if_splits option.splits)

lemma claim_file_gone: "claim_file name d = Some d' \<Longrightarrow> map_of (id_inbox d) name \<noteq> None \<and> map_of (id_inbox d') name = None"
  by (auto simp: claim_file_def split: option.splits)

lemma rival_claims_inbox:
  "map_of (id_inbox (rival_claims rivals d)) name = (if name \<in> set rivals then None else map_of (id_inbox d) name)"
  unfolding rival_claims_def
  by (induction rivals arbitrary: d) (auto simp: claim_file_def split: option.splits)

text \<open>
  A file is claimed by one worker: what a rival renamed after this worker listed the inbox is never
  claimed again, and what is claimed was in the inbox, complete.
\<close>

theorem claim_exclusive:
  assumes "claim_one_file sizes rivals d = (Some name, d')"
  shows "name \<notin> set rivals \<and> is_file_stable (sizes name) \<and>
    (\<exists>f. map_of (id_inbox d) name = Some f \<and> map_of (id_processing d') name = Some f \<and> map_of (id_inbox d') name = None)"
proof -
  have claim: "claim_loop sizes (sort (map fst (id_inbox d))) (rival_claims rivals d) = Some (name, d')"
    using assms by (auto simp: claim_one_file_def Let_def split: option.splits)
  from claim_loop_Some [OF this] have c: "is_file_stable (sizes name)" "claim_file name (rival_claims rivals d) = Some d'" by simp_all
  then obtain f where "map_of (id_inbox (rival_claims rivals d)) name = Some f" using claim_file_gone by fastforce
  then show ?thesis using c rival_claims_inbox [of rivals d name]
    by (auto simp: claim_file_def split: if_splits option.splits)
qed

text \<open>
  What is claimed can be claimed again at once. The age that \<open>reconcile_stale_processing\<close> looks at is
  the file's own time of modification, which the rename keeps: a file that was dropped with an
  older time is back in the inbox on the next pass of any other worker, while the first still
  imports it.
\<close>

theorem claimed_file_reclaimed:
  assumes "claim_one_file sizes rivals d = (Some name, d')" "map_of (id_inbox d) name = Some f"
    and "default_stale_seconds < now - wf_mtime f" "distinct (map fst (id_processing d'))"
  shows "map_of (id_inbox (snd (reconcile_stale_processing now default_stale_seconds d'))) name = Some f \<and>
    map_of (id_processing (snd (reconcile_stale_processing now default_stale_seconds d'))) name = None"
proof -
  have f: "map_of (id_processing d') name = Some f" using claim_exclusive [OF assms(1)] assms(2) by auto
  have put: "map_of (fold (\<lambda>(n, g). put_file n g) xs base) name = (case map_of (rev xs) name of None \<Rightarrow> map_of base name | Some g \<Rightarrow> Some g)" for xs base
    by (induction xs arbitrary: base) (auto simp: map_add_def split: option.splits)
  have dist: "distinct (map fst (filter P (id_processing d')))" for P
    using assms(4) by (rule distinct_map_filter)
  let ?stale = "filter (\<lambda>(_, f). default_stale_seconds < now - wf_mtime f) (id_processing d')"
  have "(name, f) \<in> set ?stale" using map_of_SomeD [OF f] assms(3) by auto
  then have "map_of (rev ?stale) name = Some f"
    using dist [of "\<lambda>(_, f). default_stale_seconds < now - wf_mtime f"]
    by (metis distinct_rev map_of_is_SomeI rev_map set_rev)
  moreover have "map_of (filter (\<lambda>(_, f). \<not> default_stale_seconds < now - wf_mtime f) (id_processing d')) name = None"
    using map_of_SomeD [OF f] assms(3,4) by (auto simp: map_of_eq_None_iff dest: eq_key_imp_eq_value)
  ultimately show ?thesis by (simp add: reconcile_stale_processing_def Let_def put)
qed

text \<open>
  Dropping a file again is harmless. Once a file has been imported, a file with the same bytes,
  under whatever name and at whatever later state that has the record of the first, is archived as
  completed and changes no data.
\<close>

theorem redelivered_file_imports_nothing:
  assumes first: "process_claimed_file env now importer actor False name base d = Inr (job, s, d1)" "ij_status job = Completed"
    and later: "job \<in> set (import_jobs t)" "ie_sha256 env' = ie_sha256 env" "\<not> has_row ij_id (ie_job_id env') (import_jobs t)"
    and same: "map_of (id_processing d) name = Some f" "map_of (id_processing e) name' = Some f'" "wf_content f' = wf_content f"
    and small: "length (wf_content f) \<le> default_max_bytes"
  shows "\<exists>job' t' e'. process_claimed_file env' now' importer actor' False name' t e = Inr (job', t', e') \<and>
    ij_status job' = Completed \<and> ij_records_created job' = 0 \<and> business t' = business t \<and> map_of (id_completed e') name' \<noteq> None"
proof -
  let ?q = "directory_request importer actor name (wf_content f)" and ?q' = "directory_request importer actor' name' (wf_content f')"
  obtain rolled s1 where run: "run_import env default_max_bytes base ?q base = Inr (rolled, job, s1)"
    using first(1) same(1) by (auto simp: process_claimed_file_def)
  obtain job' t' where again: "run_import env' default_max_bytes t ?q' t = Inr (False, job', t')" "ij_status job' = Completed"
    "ij_records_created job' = 0" "business t' = business t"
    using import_again [OF run first(2) later(1,2), of ?q' default_max_bytes t] later(3) same(3) small
    by (auto simp: directory_request_def import_sources_def)
  then show ?thesis
    using same(2) by (auto simp: process_claimed_file_def archive_file_def Let_def)
qed

text \<open>
  A commit that fails loses the import. The file is archived, with a manifest that says completed,
  before the transaction is committed: when the commit fails, no data and no record of the import
  exist, and no later pass sees the file.
\<close>

theorem failed_commit_archives_file:
  assumes "claim_one_file (pe_sizes env) (pe_rivals env) (snd (reconcile_stale_processing (pe_now env) default_stale_seconds d)) = (Some name, d2)"
    and "process_claimed_file (pe_import env) (pe_now env) importer actor (pe_taken env) name s d2 = Inr (job, s', d3)"
    and "\<not> pe_commit_ok env"
  shows "run_directory_once env importer actor s d = (Inl OSError, s, d3) \<and>
    map_of (id_inbox d3) name = None \<and> map_of (id_processing d3) name = None \<and>
    (\<exists>f. map_of (id_processing d2) name = Some f \<and>
       (map_of (id_completed d3) name = Some f \<or> map_of (id_rejected d3) name = Some f))"
proof -
  have "map_of (id_inbox d2) name = None" using claim_exclusive [OF assms(1)] by blast
  then show ?thesis
    using assms by (auto simp: run_directory_once_def Let_def process_claimed_file_def archive_file_def split: option.splits if_splits)
qed

end
