(* ===== verification/Operation_Routes.thy ===== *)
theory Operation_Routes
  imports Framework_Catalog Connector_Lifecycle Evidence_Repository Py_Text
begin

text \<open>
  The pages of the control operations: \<open>src/app/routers/controls.py\<close>, \<open>control_periods.py\<close>,
  \<open>occurrences.py\<close>, \<open>control_tests.py\<close> and \<open>findings.py\<close>. A handler that writes answers with its
  redirect and the database its transaction commits, a handler that reads with what it hands to its
  template (the lists of people, controls and periods that fill its selections are left out). An
  error that no handler catches rolls the transaction back. A form field that holds a date is read
  in the form of a date input. The guards are \<open>Access_Control\<close>'s part.
\<close>

section \<open>Forms\<close>

type_synonym answered_db = "(response \<times> db) result"

definition refuse :: "string \<Rightarrow> string \<Rightarrow> db \<Rightarrow> answered_db" where
  "refuse url message s = Inr (Flash url message ''error'', s)"

text \<open>\<open>field.strip() or None\<close>.\<close>

definition opt_field :: "string \<Rightarrow> string option" where
  "opt_field v = (if strip v = [] then None else Some (strip v))"

text \<open>The row an optional field names; a handler refuses with its message when there is none.\<close>

definition with_row ::
  "('r \<Rightarrow> string) \<Rightarrow> string option \<Rightarrow> 'r list \<Rightarrow> string \<Rightarrow> string \<Rightarrow> db \<Rightarrow> ('r option \<Rightarrow> answered_db) \<Rightarrow> answered_db" where
  "with_row key k rows url message s cont =
     (case k of None \<Rightarrow> cont None
      | Some i \<Rightarrow> (case row_get key i rows of None \<Rightarrow> refuse url message s | Some r \<Rightarrow> cont (Some r)))"

text \<open>The row of the address: without it the page does not exist.\<close>

definition or_404 :: "('r \<Rightarrow> string) \<Rightarrow> string \<Rightarrow> 'r list \<Rightarrow> 'r result" where
  "or_404 key k rows = (case row_get key k rows of None \<Rightarrow> Inl (HTTPException 404) | Some r \<Rightarrow> Inr r)"

definition value_error :: "error \<Rightarrow> string option" where
  "value_error e = (case e of ValueError m \<Rightarrow> Some m | InvalidControlTestError m \<Rightarrow> Some m | _ \<Rightarrow> None)"

definition invalid_test :: "error \<Rightarrow> string option" where
  "invalid_test e = (case e of InvalidControlTestError m \<Rightarrow> Some m | _ \<Rightarrow> None)"

text \<open>A command behind a handler: what the handler catches is the message, the rest is not answered.\<close>

definition reply :: "(error \<Rightarrow> string option) \<Rightarrow> string \<Rightarrow> string \<Rightarrow> string \<Rightarrow> db result \<Rightarrow> db \<Rightarrow> answered_db" where
  "reply catch error_url url message outcome s =
     (case outcome of
        Inl e \<Rightarrow> (case catch e of None \<Rightarrow> Inl e | Some m \<Rightarrow> refuse error_url m s)
      | Inr d \<Rightarrow> Inr (Flash url message ''success'', d))"

section \<open>Findings\<close>

record finding_form =
  ff_title :: string
  ff_description :: string
  ff_severity :: string
  ff_control_id :: string
  ff_source_test_id :: string
  ff_owner_person_id :: string
  ff_due_date :: string

definition finding_page :: "string \<Rightarrow> string" where
  "finding_page finding_id = ''/findings/'' @ finding_id"

definition finding_form_args :: "finding_form \<Rightarrow> date option \<Rightarrow> finding_args" where
  "finding_form_args f due =
     \<lparr>fa_title = strip (ff_title f), fa_description = strip (ff_description f), fa_severity = ff_severity f,
      fa_control_id = opt_field (ff_control_id f), fa_source_test_id = opt_field (ff_source_test_id f),
      fa_owner_person_id = opt_field (ff_owner_person_id f), fa_due_date = due\<rparr>"

definition create_finding :: "tick \<Rightarrow> string \<Rightarrow> finding_form \<Rightarrow> actor \<Rightarrow> db \<Rightarrow> answered_db" where
  "create_finding t new_id f user s =
     with_row ic_id (opt_field (ff_control_id f)) (internal_controls s) ''/findings/new'' ''Control not found.'' s (\<lambda>_.
     with_row ct_id (opt_field (ff_source_test_id f)) (control_tests s) ''/findings/new'' ''Source test not found.'' s (\<lambda>_.
     with_row pe_id (opt_field (ff_owner_person_id f)) (people s) ''/findings/new'' ''Owner person not found.'' s (\<lambda>_.
       case (case opt_field (ff_due_date f) of None \<Rightarrow> Inr None | Some d \<Rightarrow> map_sum id Some (date_fromisoformat d)) of
         Inl _ \<Rightarrow> refuse ''/findings/new'' ''Due date must be a valid date.'' s
       | Inr due \<Rightarrow>
           reply value_error ''/findings/new'' (finding_page new_id) ''Finding opened.''
             (open_finding t new_id (finding_form_args f due) ''user'' (Some (ac_id user)) s) s)))"

definition list_findings :: "db \<Rightarrow> finding list" where
  "list_findings s = rev (sort_key fi_created_at (rev (findings s)))"

text \<open>\<open>view_finding\<close>: the finding, its updates, its retests, and the tests that could be its next retest.\<close>

definition candidate_tests :: "finding \<Rightarrow> db \<Rightarrow> control_test list" where
  "candidate_tests f s =
     (case fi_control_id f of
        None \<Rightarrow> []
      | Some c \<Rightarrow>
          let used = map ft_test_id (filter (\<lambda>r. ft_finding_id r = fi_id f) (finding_retests s))
          in filter (\<lambda>t. ct_control_id t = c \<and> (fi_source_test_id f = None \<or> ct_retest_of_test_id t = fi_source_test_id f) \<and>
               ct_id t \<notin> set used) (control_tests s))"

definition view_finding ::
  "string \<Rightarrow> db \<Rightarrow> (finding \<times> finding_remediation_update list \<times> finding_retest list \<times> control_test list \<times>
   evidence_artifact_version list) result" where
  "view_finding finding_id s =
     rbind (or_404 fi_id finding_id (findings s)) (\<lambda>f.
       Inr (f, sort_key fu_created_at (filter (\<lambda>u. fu_finding_id u = finding_id) (finding_remediation_updates s)),
            filter (\<lambda>r. ft_finding_id r = finding_id) (finding_retests s), candidate_tests f s, evidence_artifact_versions s))"

definition create_remediation_update :: "tick \<Rightarrow> string \<Rightarrow> string \<Rightarrow> string \<Rightarrow> actor \<Rightarrow> db \<Rightarrow> answered_db" where
  "create_remediation_update t finding_id note linked user s =
     rbind (or_404 fi_id finding_id (findings s)) (\<lambda>f.
       with_row av_id (opt_field linked) (evidence_artifact_versions s) (finding_page finding_id) ''Evidence version not found.'' s (\<lambda>_.
         reply value_error (finding_page finding_id) (finding_page finding_id) ''Remediation update recorded.''
           (record_remediation_update t f (strip note) (opt_field linked) ''user'' (Some (ac_id user)) s) s))"

definition request_retest_route :: "tick \<Rightarrow> string \<Rightarrow> actor \<Rightarrow> db \<Rightarrow> answered_db" where
  "request_retest_route t finding_id user s =
     rbind (or_404 fi_id finding_id (findings s)) (\<lambda>f.
       reply value_error (finding_page finding_id) (finding_page finding_id) ''Retest requested.''
         (request_retest t f ''user'' (Some (ac_id user)) s) s)"

definition record_retest_route :: "tick \<Rightarrow> string \<Rightarrow> string \<Rightarrow> actor \<Rightarrow> db \<Rightarrow> answered_db" where
  "record_retest_route t finding_id test_id user s =
     rbind (or_404 fi_id finding_id (findings s)) (\<lambda>f.
       case row_get ct_id test_id (control_tests s) of
         None \<Rightarrow> refuse (finding_page finding_id) ''Test not found.'' s
       | Some test \<Rightarrow>
           reply value_error (finding_page finding_id) (finding_page finding_id) ''Retest recorded.''
             (record_retest t f test ''user'' (Some (ac_id user)) s) s)"

definition close_finding_route :: "tick \<Rightarrow> string \<Rightarrow> string \<Rightarrow> string \<Rightarrow> actor \<Rightarrow> db \<Rightarrow> answered_db" where
  "close_finding_route t finding_id decision note user s =
     rbind (or_404 fi_id finding_id (findings s)) (\<lambda>f.
       reply value_error (finding_page finding_id) (finding_page finding_id) ''Finding closed.''
         (close_finding t f decision (strip note) ''user'' (Some (ac_id user)) s) s)"

section \<open>Control tests\<close>

definition new_population :: string where
  "new_population = ''/control-tests/populations/new''"

definition population_page :: "string \<Rightarrow> string" where
  "population_page population_id = ''/control-tests/populations/'' @ population_id"

definition test_page :: "string \<Rightarrow> string" where
  "test_page test_id = ''/control-tests/'' @ test_id"

definition create_population ::
  "string \<Rightarrow> (nat \<Rightarrow> string) \<Rightarrow> string \<Rightarrow> string \<Rightarrow> string \<Rightarrow> string \<Rightarrow> actor \<Rightarrow> db \<Rightarrow> answered_db" where
  "create_population pop_id item_id control_id control_period_id description criteria_note user s =
     (case row_get ic_id control_id (internal_controls s) of
        None \<Rightarrow> refuse new_population ''Control not found.'' s
      | Some control \<Rightarrow>
          with_row cp_id (opt_field control_period_id) (control_periods s) new_population ''Control period not found.'' s (\<lambda>period.
            reply (\<lambda>_. None) [] (population_page pop_id) ''Population frozen.''
              (freeze_population pop_id item_id control_id (map_option cp_id period) (strip description) (strip criteria_note)
                 (ac_email user) s) s))"

definition view_population :: "string \<Rightarrow> db \<Rightarrow> (control_test_population \<times> control_test_sample list) result" where
  "view_population population_id s =
     rbind (or_404 tp_id population_id (control_test_populations s)) (\<lambda>p.
       Inr (p, filter (\<lambda>x. ts_population_id x = population_id) (control_test_samples s)))"

definition create_sample ::
  "string \<Rightarrow> (nat \<Rightarrow> string) \<Rightarrow> string \<Rightarrow> string list \<Rightarrow> string \<Rightarrow> string \<Rightarrow> actor \<Rightarrow> db \<Rightarrow> answered_db" where
  "create_sample sample_id item_id population_id population_item_ids selection_method selection_rationale user s =
     rbind (or_404 tp_id population_id (control_test_populations s)) (\<lambda>_.
       reply invalid_test (population_page population_id) (population_page population_id) ''Sample drawn.''
         (draw_sample sample_id item_id population_id population_item_ids (strip selection_method) (strip selection_rationale)
            (ac_email user) s) s)"

definition list_control_tests :: "db \<Rightarrow> control_test list" where
  "list_control_tests s = rev (sort_key (\<lambda>t. the (ct_performed_at t)) (rev (control_tests s)))"

text \<open>\<open>str.splitlines\<close>; a carriage return and the line feed after it are one break.\<close>

definition line_break :: "char \<Rightarrow> bool" where
  "line_break c = (of_char c \<in> {10, 11, 12, 13, 28, 29, 30, 133 :: nat})"

fun lines_from :: "bool \<Rightarrow> string \<Rightarrow> string \<Rightarrow> string list" where
  "lines_from after_cr line [] = (if line = [] then [] else [line])"
| "lines_from after_cr line (c # cs) =
     (if after_cr \<and> c = CHR 0x0A then lines_from False line cs
      else if line_break c then line # lines_from (c = CHR 0x0D) [] cs
      else lines_from False (line @ [c]) cs)"

definition splitlines :: "string \<Rightarrow> string list" where
  "splitlines x = lines_from False [] x"

definition form_exceptions :: "string \<Rightarrow> test_exception list" where
  "form_exceptions exception_lines =
     map (\<lambda>line. \<lparr>tx_sample_item_id = None, tx_description = strip line\<rparr>)
       (filter (\<lambda>line. strip line \<noteq> []) (splitlines exception_lines))"

record test_form =
  tf_control_id :: string
  tf_control_period_id :: string
  tf_sample_id :: string
  tf_procedure_description :: string
  tf_tester_person_id :: string
  tf_performed_on :: string
  tf_result :: string
  tf_notes :: string
  tf_exception_lines :: string
  tf_retest_of_test_id :: string

definition test_form_args ::
  "test_form \<Rightarrow> person \<Rightarrow> date \<Rightarrow> control_test_sample option \<Rightarrow> control_period option \<Rightarrow> control_test option \<Rightarrow> test_args" where
  "test_form_args f tester performed sample period retest_of =
     \<lparr>tt_sample = sample, tt_period = period, tt_procedure_description = strip (tf_procedure_description f),
      tt_tester_person_id = pe_id tester, tt_performed_at = due_at_for_date performed, tt_result = tf_result f,
      tt_notes = strip (tf_notes f), tt_exceptions = form_exceptions (tf_exception_lines f), tt_retest_of = retest_of\<rparr>"

definition create_control_test :: "tick \<Rightarrow> string \<Rightarrow> test_form \<Rightarrow> actor \<Rightarrow> db \<Rightarrow> answered_db" where
  "create_control_test t new_id f user s =
     (let url = ''/control-tests/new''
      in case row_get ic_id (tf_control_id f) (internal_controls s) of
           None \<Rightarrow> refuse url ''Control not found.'' s
         | Some control \<Rightarrow>
             (case row_get pe_id (tf_tester_person_id f) (people s) of
                None \<Rightarrow> refuse url ''Tester not found.'' s
              | Some tester \<Rightarrow>
                  (case date_fromisoformat (tf_performed_on f) of
                     Inl _ \<Rightarrow> refuse url ''Performed date must be a valid date.'' s
                   | Inr performed \<Rightarrow>
                       with_row cp_id (opt_field (tf_control_period_id f)) (control_periods s) url ''Control period not found.'' s (\<lambda>period.
                       with_row ts_id (opt_field (tf_sample_id f)) (control_test_samples s) url ''Sample not found.'' s (\<lambda>sample.
                       with_row ct_id (opt_field (tf_retest_of_test_id f)) (control_tests s) url ''Retest-of test not found.'' s (\<lambda>retest_of.
                         reply invalid_test url (test_page new_id) ''Test recorded.''
                           (record_test t new_id control (test_form_args f tester performed sample period retest_of) ''user''
                              (Some (ac_id user)) s) s))))))"

text \<open>\<open>view_control_test\<close>: the test, its evidence, the evidence that could be linked, its exceptions and its retests.\<close>

definition view_control_test ::
  "string \<Rightarrow> db \<Rightarrow> (control_test \<times> control_test_evidence_artifact list \<times> evidence_artifact_version list \<times>
   control_test_exception list \<times> control_test list) result" where
  "view_control_test test_id s =
     rbind (or_404 ct_id test_id (control_tests s)) (\<lambda>t.
       let rows = filter (\<lambda>r. ta_test_id r = test_id) (control_test_evidence_artifacts s)
       in Inr (t, rows, filter (\<lambda>v. av_id v \<notin> set (map ta_evidence_artifact_version_id rows)) (evidence_artifact_versions s),
            filter (\<lambda>x. te_test_id x = test_id) (control_test_exceptions s),
            filter (\<lambda>x. ct_retest_of_test_id x = Some test_id) (control_tests s)))"

definition link_evidence_route :: "tick \<Rightarrow> string \<Rightarrow> string \<Rightarrow> actor \<Rightarrow> db \<Rightarrow> answered_db" where
  "link_evidence_route t test_id evidence_artifact_version_id user s =
     rbind (or_404 ct_id test_id (control_tests s)) (\<lambda>_.
       case row_get av_id evidence_artifact_version_id (evidence_artifact_versions s) of
         None \<Rightarrow> refuse (test_page test_id) ''Evidence version not found.'' s
       | Some v \<Rightarrow>
           reply (\<lambda>_. None) [] (test_page test_id) ''Evidence linked.''
             (link_test_evidence t test_id (av_id v) ''user'' (Some (ac_id user)) s) s)"

section \<open>Control periods\<close>

definition periods_page :: string where
  "periods_page = ''/control-periods''"

definition period_page :: "string \<Rightarrow> string" where
  "period_page period_id = ''/control-periods/'' @ period_id"

text \<open>
  The table's primary key and its check on the dates. The row's creator is not a column of the
  model; \<open>PII_Redaction\<close> keeps that column on its own.
\<close>

definition insert_control_period :: "control_period \<Rightarrow> db \<Rightarrow> db result" where
  "insert_control_period r s =
     (if has_row cp_id (cp_id r) (control_periods s) \<or> cp_ends_on r \<le> cp_starts_on r then Inl IntegrityError
      else Inr (s\<lparr>control_periods := control_periods s @ [r]\<rparr>))"

definition created_period_detail :: "string \<Rightarrow> date \<Rightarrow> date \<Rightarrow> string" where
  "created_period_detail name starts_on ends_on =
     ''Created control period '' @ in_quotes name @ '' ('' @ date_isoformat starts_on @ '' to '' @ date_isoformat ends_on @ '')''"

definition create_control_period :: "string \<Rightarrow> string \<Rightarrow> string \<Rightarrow> string \<Rightarrow> actor \<Rightarrow> db \<Rightarrow> answered_db" where
  "create_control_period new_id name starts_on ends_on admin s =
     (let name = strip name
      in if name = [] then refuse periods_page ''Name is required.'' s
         else (case (date_fromisoformat starts_on, date_fromisoformat ends_on) of
                 (Inr starts_on, Inr ends_on) \<Rightarrow>
                   if ends_on \<le> starts_on then refuse periods_page ''End date must be after the start date.'' s
                   else rbind (insert_control_period
                          \<lparr>cp_id = new_id, cp_name = name, cp_starts_on = starts_on, cp_ends_on = ends_on,
                           cp_status = Planned, cp_closed_at = None\<rparr> s) (\<lambda>s1.
                        Inr (Flash (period_page new_id) ''Control period created.'' ''success'',
                          record_audit_event ''control_period'' new_id ''create'' (created_period_detail name starts_on ends_on)
                            (ac_email admin) s1))
               | _ \<Rightarrow> refuse periods_page ''Dates must be valid calendar dates.'' s))"

definition upd_period :: "string \<Rightarrow> (control_period \<Rightarrow> control_period) \<Rightarrow> db \<Rightarrow> db" where
  "upd_period k f s = s\<lparr>control_periods := row_upd cp_id k f (control_periods s)\<rparr>"

definition activate_control_period :: "string \<Rightarrow> actor \<Rightarrow> db \<Rightarrow> answered_db" where
  "activate_control_period period_id admin s =
     rbind (or_404 cp_id period_id (control_periods s)) (\<lambda>p.
       if cp_status p \<noteq> Planned then refuse (period_page period_id) ''Only a planned period can be activated.'' s
       else Inr (Flash (period_page period_id) ''Control period activated.'' ''success'',
              record_audit_event ''control_period'' period_id ''activate'' (''Activated control period '' @ in_quotes (cp_name p))
                (ac_email admin) (upd_period period_id (\<lambda>p. p\<lparr>cp_status := Active\<rparr>) s)))"

definition close_control_period :: "datetime \<Rightarrow> string \<Rightarrow> actor \<Rightarrow> db \<Rightarrow> answered_db" where
  "close_control_period now period_id admin s =
     rbind (or_404 cp_id period_id (control_periods s)) (\<lambda>p.
       if cp_status p = Closed then Inr (Flash (period_page period_id) ''That period is already closed.'' ''success'', s)
       else Inr (Flash (period_page period_id) ''Control period closed.'' ''success'',
              record_audit_event ''control_period'' period_id ''close'' (''Closed control period '' @ in_quotes (cp_name p))
                (ac_email admin) (upd_period period_id (\<lambda>p. p\<lparr>cp_status := Closed, cp_closed_at := Some now\<rparr>) s)))"

text \<open>A generation under the clock readings and ids of a feed, for the default horizon of twelve months.\<close>

definition generated ::
  "(nat \<Rightarrow> tick \<times> string) \<Rightarrow> date \<Rightarrow> internal_control \<Rightarrow> control_period option \<Rightarrow> actor \<Rightarrow> db \<Rightarrow> (nat \<times> db) result" where
  "generated feed today control period user s =
     (case generate_occurrences feed today control period 12 ''user'' (Some (ac_id user)) s of
        None \<Rightarrow> Inl RuntimeError
      | Some outcome \<Rightarrow> rbind outcome (\<lambda>(occurrences, s1). Inr (length occurrences, s1)))"

fun generate_all ::
  "(nat \<Rightarrow> nat \<Rightarrow> tick \<times> string) \<Rightarrow> date \<Rightarrow> control_period \<Rightarrow> actor \<Rightarrow> internal_control list \<Rightarrow> nat \<Rightarrow> db \<Rightarrow> (nat \<times> db) result" where
  "generate_all feeds today period admin [] made s = Inr (made, s)"
| "generate_all feeds today period admin (control # controls) made s =
     rbind (generated (feeds 0) today control (Some period) admin s) (\<lambda>(n, s1).
       generate_all (\<lambda>k. feeds (Suc k)) today period admin controls (made + n) s1)"

definition generate_period_occurrences ::
  "(nat \<Rightarrow> nat \<Rightarrow> tick \<times> string) \<Rightarrow> date \<Rightarrow> string \<Rightarrow> actor \<Rightarrow> db \<Rightarrow> answered_db" where
  "generate_period_occurrences feeds today period_id admin s =
     rbind (or_404 cp_id period_id (control_periods s)) (\<lambda>p.
       if cp_status p \<noteq> Active then refuse (period_page period_id) ''Occurrences can only be generated for an active period.'' s
       else
         let controls = filter (\<lambda>c. ic_cadence_type c = Some ''calendar'') (internal_controls s)
         in rbind (generate_all feeds today p admin controls 0 s) (\<lambda>(total, s1).
              Inr (Flash (period_page period_id)
                (''Generated/confirmed '' @ str_int (int total) @ '' occurrence(s) across '' @ str_int (int (length controls)) @ '' control(s).'')
                ''success'', s1)))"

text \<open>The database's order of a missing due date is not the code's to choose.\<close>

definition by_due :: "bool \<Rightarrow> control_occurrence list \<Rightarrow> control_occurrence list" where
  "by_due missing_last rows =
     (let dated = sort_key (\<lambda>x. the (oc_due_at x)) (filter (\<lambda>x. oc_due_at x \<noteq> None) rows);
          undated = filter (\<lambda>x. oc_due_at x = None) rows
      in if missing_last then dated @ undated else undated @ dated)"

definition view_control_period :: "bool \<Rightarrow> string \<Rightarrow> db \<Rightarrow> (control_period \<times> control_occurrence list) result" where
  "view_control_period missing_last period_id s =
     rbind (or_404 cp_id period_id (control_periods s)) (\<lambda>p.
       Inr (p, by_due missing_last (filter (\<lambda>x. oc_control_period_id x = Some period_id) (control_occurrences s))))"

definition list_control_periods :: "db \<Rightarrow> control_period list" where
  "list_control_periods s = rev (sort_key cp_starts_on (rev (control_periods s)))"

section \<open>Occurrences\<close>

definition occurrence_page :: "string \<Rightarrow> string" where
  "occurrence_page occurrence_id = ''/occurrences/'' @ occurrence_id"

text \<open>\<open>view_occurrence\<close>: the occurrence, the evidence that could be linked, and the date of the form.\<close>

definition view_occurrence :: "datetime \<Rightarrow> string \<Rightarrow> db \<Rightarrow> (control_occurrence \<times> evidence_snapshot list \<times> string) result" where
  "view_occurrence now occurrence_id s =
     rbind (or_404 oc_id occurrence_id (control_occurrences s)) (\<lambda>x.
       let linked = map oe_evidence_snapshot_id (filter (\<lambda>e. oe_occurrence_id e = occurrence_id) (control_occurrence_evidence_rows s))
       in Inr (x, filter (\<lambda>e. es_id e \<notin> set linked) (evidence_snapshots s),
            date_isoformat (dt_date (case oc_performed_at x of Some at \<Rightarrow> at | None \<Rightarrow> now))))"

text \<open>
  \<open>perform\<close>. The evidence is linked in a savepoint: when it is linked already, the performance stays
  and the answer says so. The second clock reading is that of the link.
\<close>

definition perform ::
  "tick \<Rightarrow> tick \<Rightarrow> string \<Rightarrow> string \<Rightarrow> string \<Rightarrow> string \<Rightarrow> string \<Rightarrow> string \<Rightarrow> actor \<Rightarrow> db \<Rightarrow> answered_db" where
  "perform t1 t2 occurrence_id performed_on performed_by_person_id scope_note evidence_note evidence_snapshot_id user s =
     rbind (or_404 oc_id occurrence_id (control_occurrences s)) (\<lambda>_.
       let url = occurrence_page occurrence_id
       in case date_fromisoformat performed_on of
            Inl _ \<Rightarrow> refuse url ''Performed date must be a valid date.'' s
          | Inr performed \<Rightarrow>
              if dt_date (t_now t1) < performed then refuse url ''Performed date cannot be in the future.'' s
              else with_row pe_id (opt_field performed_by_person_id) (people s) url ''Selected person not found.'' s (\<lambda>performer.
                   with_row es_id (opt_field evidence_snapshot_id) (evidence_snapshots s) url ''Selected evidence snapshot not found.'' s (\<lambda>evidence.
                     rbind (perform_occurrence t1 occurrence_id (due_at_for_date performed) (map_option pe_id performer)
                              (strip scope_note) (strip evidence_note) ''user'' (Some (ac_id user)) s) (\<lambda>s1.
                       case evidence of
                         None \<Rightarrow> Inr (Flash url ''Occurrence recorded as performed.'' ''success'', s1)
                       | Some e \<Rightarrow>
                           let linked = link_evidence t2 occurrence_id (es_id e) ''user'' (Some (ac_id user)) s1
                           in if linked = Inl IntegrityError
                              then Inr (Flash url ''That evidence is already linked to this occurrence.'' ''error'', s1)
                              else rbind linked (\<lambda>s2. Inr (Flash url ''Occurrence recorded as performed.'' ''success'', s2))))))"

section \<open>Controls\<close>

definition control_page :: "string \<Rightarrow> string" where
  "control_page control_id = ''/controls/'' @ control_id"

definition is_overdue :: "datetime \<Rightarrow> control_occurrence \<Rightarrow> bool" where
  "is_overdue now x = (oc_performed_at x = None \<and> (case oc_due_at x of None \<Rightarrow> False | Some due \<Rightarrow> due < now))"

record control_details =
  vw_control :: internal_control
  vw_available_requirements :: "framework_requirement list"
  vw_overdue :: "control_occurrence list"
  vw_upcoming :: "control_occurrence list"
  vw_completed :: "control_occurrence list"
  vw_active_periods :: "control_period list"

definition view_control :: "datetime \<Rightarrow> bool \<Rightarrow> string \<Rightarrow> db \<Rightarrow> control_details result" where
  "view_control now missing_last control_id s =
     rbind (or_404 ic_id control_id (internal_controls s)) (\<lambda>c.
       let mapped = map crm_requirement_id (filter (\<lambda>m. crm_control_id m = control_id) (control_requirement_mappings s));
           occurrences = rev (by_due (\<not> missing_last) (rev (filter (\<lambda>x. oc_control_id x = control_id) (control_occurrences s))))
       in Inr \<lparr>vw_control = c, vw_available_requirements = filter (\<lambda>r. fr_id r \<notin> set mapped) (framework_requirements s),
            vw_overdue = filter (is_overdue now) occurrences,
            vw_upcoming = filter (\<lambda>x. oc_performed_at x = None \<and> \<not> is_overdue now x) occurrences,
            vw_completed = filter (\<lambda>x. oc_performed_at x \<noteq> None) occurrences,
            vw_active_periods = sort_key cp_starts_on (filter (\<lambda>p. cp_status p = Active) (control_periods s))\<rparr>)"

definition owner_detail :: "internal_control \<Rightarrow> person option \<Rightarrow> string" where
  "owner_detail c p =
     ''Set control '' @ in_quotes (ic_name c) @ '' owner_person_id to '' @
     in_quotes (case p of None \<Rightarrow> ''none'' | Some p \<Rightarrow> pe_email p)"

definition set_control_owner :: "string \<Rightarrow> string \<Rightarrow> actor \<Rightarrow> db \<Rightarrow> answered_db" where
  "set_control_owner control_id owner_person_id user s =
     rbind (or_404 ic_id control_id (internal_controls s)) (\<lambda>c.
       with_row pe_id (opt_field owner_person_id) (people s) (control_page control_id) ''Selected person not found.'' s (\<lambda>p.
         Inr (Flash (control_page control_id) ''Control owner updated.'' ''success'',
           record_audit_event ''control'' control_id ''set_owner_person'' (owner_detail c p) (ac_email user)
             (s\<lparr>internal_controls := row_upd ic_id control_id (\<lambda>c. c\<lparr>ic_owner_person_id := map_option pe_id p\<rparr>)
                (internal_controls s)\<rparr>))))"

definition parse_due_on :: "string \<Rightarrow> datetime option result" where
  "parse_due_on v =
     (case opt_field v of None \<Rightarrow> Inr None | Some d \<Rightarrow> map_sum id (\<lambda>x. Some (due_at_for_date x)) (date_fromisoformat d))"

definition generate_control_occurrences :: "(nat \<Rightarrow> tick \<times> string) \<Rightarrow> date \<Rightarrow> string \<Rightarrow> actor \<Rightarrow> db \<Rightarrow> answered_db" where
  "generate_control_occurrences feed today control_id user s =
     rbind (or_404 ic_id control_id (internal_controls s)) (\<lambda>c.
     rbind (generated feed today c None user s) (\<lambda>(n, s1).
       Inr (Flash (control_page control_id) (''Generated/confirmed '' @ str_int (int n) @ '' occurrence(s).'') ''success'', s1)))"

definition create_control_occurrence ::
  "tick \<Rightarrow> string \<Rightarrow> string \<Rightarrow> string \<Rightarrow> string \<Rightarrow> string \<Rightarrow> actor \<Rightarrow> db \<Rightarrow> answered_db" where
  "create_control_occurrence t new_id control_id control_period_id due_on scope_note user s =
     rbind (or_404 ic_id control_id (internal_controls s)) (\<lambda>c.
     rbind (case opt_field control_period_id of None \<Rightarrow> Inr None
            | Some k \<Rightarrow> map_sum id Some (or_404 cp_id k (control_periods s))) (\<lambda>period.
       if (case period of None \<Rightarrow> False | Some p \<Rightarrow> cp_status p \<noteq> Active)
       then refuse (control_page control_id) ''Occurrences can only be associated with an active control period.'' s
       else (case parse_due_on due_on of
               Inl _ \<Rightarrow> refuse (control_page control_id) ''Due date must be a valid date.'' s
             | Inr due \<Rightarrow>
                 let outcome = record_occurrence_manually t new_id control_id (opt_field control_period_id) due (strip scope_note)
                                 ''user'' (Some (ac_id user)) s
                 in if outcome = Inl IntegrityError
                    then refuse (control_page control_id) ''An occurrence with that due date already exists for this control/period.'' s
                    else rbind outcome (\<lambda>s1. Inr (Flash (control_page control_id) ''Occurrence recorded.'' ''success'', s1)))))"

definition add_mapping :: "string \<Rightarrow> string \<Rightarrow> actor \<Rightarrow> db \<Rightarrow> answered_db" where
  "add_mapping control_id requirement_id user s =
     rbind (or_404 ic_id control_id (internal_controls s)) (\<lambda>c.
     rbind (or_404 fr_id requirement_id (framework_requirements s)) (\<lambda>r.
       case insert_control_requirement_mapping \<lparr>crm_control_id = control_id, crm_requirement_id = requirement_id\<rparr> s of
         Inl _ \<Rightarrow> refuse (control_page control_id) ''That requirement is already mapped to this control.'' s
       | Inr s1 \<Rightarrow>
           Inr (Flash (control_page control_id) ''Requirement mapped.'' ''success'',
             record_audit_event ''control'' control_id ''map_requirement''
               (''Mapped control '' @ in_quotes (ic_name c) @ '' to requirement '' @ in_quotes (fr_reference_code r)) (ac_email user) s1)))"

end
