(* ===== verification/Operation_Pages.thy ===== *)
theory Operation_Pages
  imports Operation_Routes
begin

text \<open>
  Histories of the control-operation pages. \<open>served\<close> says what a page may do to the database: calls
  of the domain commands with the rows the page looked up, and the few writes that are not commands.
  Every handler is such a step, and the invariants of the components are kept by these steps.
\<close>

section \<open>What the pages do to the database\<close>

definition period_open :: "string option \<Rightarrow> db \<Rightarrow> bool" where
  "period_open k s =
     (case k of None \<Rightarrow> True
      | Some i \<Rightarrow> (case row_get cp_id i (control_periods s) of None \<Rightarrow> False | Some p \<Rightarrow> cp_status p = Active))"

inductive served :: "db \<Rightarrow> db \<Rightarrow> bool" where
  served_idle: "served s s"
| served_finding: "finding_exec c s = Inr s' \<Longrightarrow> served s s'"
| served_test: "test_exec q s = Inr s' \<Longrightarrow> served s s'"
| served_generated:
    "generate_occurrences feed today c p 12 a i s = Some (Inr (found, s')) \<Longrightarrow> period_open (map_option cp_id p) s \<Longrightarrow>
       served s s'"
| served_recorded: "record_occurrence_manually t k c p due note a i s = Inr s' \<Longrightarrow> period_open p s \<Longrightarrow> served s s'"
| served_performed: "perform_occurrence t k at by note ev a i s = Inr s' \<Longrightarrow> served s s'"
| served_linked: "link_evidence t k e a i s = Inr s' \<Longrightarrow> served s s'"
| served_period:
    "insert_control_period r s = Inr s' \<Longrightarrow> cp_status r = Planned \<Longrightarrow> cp_closed_at r = None \<Longrightarrow> served s s'"
| served_activated:
    "row_get cp_id k (control_periods s) = Some p \<Longrightarrow> cp_status p = Planned \<Longrightarrow>
       served s (upd_period k (\<lambda>p. p\<lparr>cp_status := Active\<rparr>) s)"
| served_closed:
    "row_get cp_id k (control_periods s) = Some p \<Longrightarrow> cp_status p \<noteq> Closed \<Longrightarrow>
       served s (upd_period k (\<lambda>p. p\<lparr>cp_status := Closed, cp_closed_at := Some now\<rparr>) s)"
| served_owner:
    "served s (s\<lparr>internal_controls := row_upd ic_id k (\<lambda>c. c\<lparr>ic_owner_person_id := p\<rparr>) (internal_controls s)\<rparr>)"
| served_mapped: "insert_control_requirement_mapping r s = Inr s' \<Longrightarrow> served s s'"
| served_audited: "served s (record_audit_event et k ac dt u s)"
| served_then: "served s s1 \<Longrightarrow> served s1 s2 \<Longrightarrow> served s s2"

datatype operation_request =
    Create_finding tick string finding_form actor
  | Create_update tick string string string actor
  | Ask_retest tick string actor
  | Store_retest tick string string actor
  | Close_finding_page tick string string string actor
  | Create_population string "nat \<Rightarrow> string" string string string string actor
  | Create_sample string "nat \<Rightarrow> string" string "string list" string string actor
  | Create_test tick string test_form actor
  | Link_test_evidence tick string string actor
  | Create_period string string string string actor
  | Activate_period string actor
  | Close_period datetime string actor
  | Generate_period "nat \<Rightarrow> nat \<Rightarrow> tick \<times> string" date string actor
  | Perform_page tick tick string string string string string string actor
  | Set_owner string string actor
  | Generate_control "nat \<Rightarrow> tick \<times> string" date string actor
  | Create_occurrence tick string string string string string actor
  | Add_mapping string string actor

fun operation_exec :: "operation_request \<Rightarrow> db \<Rightarrow> answered_db" where
  "operation_exec (Create_finding t i f u) s = create_finding t i f u s"
| "operation_exec (Create_update t k note linked u) s = create_remediation_update t k note linked u s"
| "operation_exec (Ask_retest t k u) s = request_retest_route t k u s"
| "operation_exec (Store_retest t k test u) s = record_retest_route t k test u s"
| "operation_exec (Close_finding_page t k d note u) s = close_finding_route t k d note u s"
| "operation_exec (Create_population i f c p d n u) s = create_population i f c p d n u s"
| "operation_exec (Create_sample i f p items m r u) s = create_sample i f p items m r u s"
| "operation_exec (Create_test t i f u) s = create_control_test t i f u s"
| "operation_exec (Link_test_evidence t k v u) s = link_evidence_route t k v u s"
| "operation_exec (Create_period i n a b u) s = create_control_period i n a b u s"
| "operation_exec (Activate_period k u) s = activate_control_period k u s"
| "operation_exec (Close_period now k u) s = close_control_period now k u s"
| "operation_exec (Generate_period feeds today k u) s = generate_period_occurrences feeds today k u s"
| "operation_exec (Perform_page t1 t2 k on by scope ev snap u) s = perform t1 t2 k on by scope ev snap u s"
| "operation_exec (Set_owner c p u) s = set_control_owner c p u s"
| "operation_exec (Generate_control feed today c u) s = generate_control_occurrences feed today c u s"
| "operation_exec (Create_occurrence t i c p due scope u) s = create_control_occurrence t i c p due scope u s"
| "operation_exec (Add_mapping c r u) s = add_mapping c r u s"

definition operation_step :: "db \<Rightarrow> operation_request \<Rightarrow> db" where
  "operation_step s q = (case operation_exec q s of Inl _ \<Rightarrow> s | Inr (_, s') \<Rightarrow> s')"

definition operation_run :: "operation_request list \<Rightarrow> db \<Rightarrow> db" where
  "operation_run qs s = foldl operation_step s qs"

section \<open>Every handler is such a step\<close>

lemma refuse_Inr [simp]: "refuse url m s = Inr (r, s') \<longleftrightarrow> r = Flash url m ''error'' \<and> s' = s"
  by (auto simp: refuse_def)

lemma reply_Inr:
  "reply catch e url m outcome s = Inr (r, s') \<Longrightarrow> outcome = Inr s' \<or> s' = s"
  by (auto simp: reply_def split: sum.splits option.splits)

lemma with_row_Inr:
  "with_row key k rows url m s cont = Inr (r, s') \<Longrightarrow>
     s' = s \<or> (k = None \<and> cont None = Inr (r, s')) \<or>
     (\<exists>i x. k = Some i \<and> row_get key i rows = Some x \<and> cont (Some x) = Inr (r, s'))"
  by (auto simp: with_row_def split: option.splits)

lemma or_404_Inr [simp]: "or_404 key k rows = Inr x \<longleftrightarrow> row_get key k rows = Some x"
  by (auto simp: or_404_def split: option.splits)

text \<open>A reply behind a command that is a step.\<close>

lemma reply_served:
  "reply catch e url m outcome s = Inr (r, s') \<Longrightarrow> (\<And>d. outcome = Inr d \<Longrightarrow> served s d) \<Longrightarrow> served s s'"
  using reply_Inr by (metis served_idle)

lemma with_row_served:
  "with_row key k rows url m s cont = Inr (r, s') \<Longrightarrow> (\<And>x. cont x = Inr (r, s') \<Longrightarrow> served s s') \<Longrightarrow> served s s'"
  using with_row_Inr by (metis served_idle)

lemma finding_call_served:
  "open_finding t i fa a ai s = Inr s' \<Longrightarrow> served s s'"
  "row_get fi_id k (findings s) = Some f \<Longrightarrow> record_remediation_update t f note linked a ai s = Inr s' \<Longrightarrow> served s s'"
  "row_get fi_id k (findings s) = Some f \<Longrightarrow> request_retest t f a ai s = Inr s' \<Longrightarrow> served s s'"
  "row_get fi_id k (findings s) = Some f \<Longrightarrow> row_get ct_id j (control_tests s) = Some test \<Longrightarrow>
     record_retest t f test a ai s = Inr s' \<Longrightarrow> served s s'"
  "row_get fi_id k (findings s) = Some f \<Longrightarrow> close_finding t f d note a ai s = Inr s' \<Longrightarrow> served s s'"
  using served_finding [of "(t, a, ai, Open_finding i fa)" s s'] served_finding [of "(t, a, ai, Update_finding k note linked)" s s']
    served_finding [of "(t, a, ai, Request_retest k)" s s'] served_finding [of "(t, a, ai, Record_retest k j)" s s']
    served_finding [of "(t, a, ai, Close_finding k d note)" s s']
  by (simp_all add: row_of_eq)

lemma create_finding_served: "create_finding t i f u s = Inr (r, s') \<Longrightarrow> served s s'"
  unfolding create_finding_def
  by (elim with_row_served) (auto intro: served_idle finding_call_served(1) elim!: reply_served split: sum.splits)

lemma create_update_served: "create_remediation_update t k note linked u s = Inr (r, s') \<Longrightarrow> served s s'"
  by (auto simp: create_remediation_update_def elim!: with_row_served reply_served intro: finding_call_served(2))

lemma request_retest_served: "request_retest_route t k u s = Inr (r, s') \<Longrightarrow> served s s'"
  by (auto simp: request_retest_route_def elim!: reply_served intro: finding_call_served(3))

lemma record_retest_served: "record_retest_route t k test u s = Inr (r, s') \<Longrightarrow> served s s'"
  by (auto simp: record_retest_route_def elim!: reply_served intro: served_idle finding_call_served(4) split: option.splits)

lemma close_finding_served: "close_finding_route t k d note u s = Inr (r, s') \<Longrightarrow> served s s'"
  by (auto simp: close_finding_route_def elim!: reply_served intro: finding_call_served(5))

lemma test_call_served:
  "freeze_population p f c d n m a s = Inr s' \<Longrightarrow> served s s'"
  "draw_sample k f p items m n a s = Inr s' \<Longrightarrow> served s s'"
  "link_test_evidence t k v a ai s = Inr s' \<Longrightarrow> served s s'"
  using served_test [of "Freeze p f c d n m a" s s'] served_test [of "Draw k f p items m n a" s s']
    served_test [of "Link_test t k v a ai" s s']
  by simp_all

lemma create_population_served: "create_population i f c p d n u s = Inr (r, s') \<Longrightarrow> served s s'"
  by (auto simp: create_population_def elim!: with_row_served reply_served intro: served_idle test_call_served split: option.splits)

lemma create_sample_served: "create_sample i f p items m n u s = Inr (r, s') \<Longrightarrow> served s s'"
  by (auto simp: create_sample_def elim!: reply_served intro: test_call_served)

lemma link_route_served: "link_evidence_route t k v u s = Inr (r, s') \<Longrightarrow> served s s'"
  by (auto simp: link_evidence_route_def elim!: reply_served intro: served_idle test_call_served split: option.splits)

text \<open>The rows of an optional field, as \<open>lookup_opt\<close> finds them.\<close>

lemma with_row_lookup:
  "with_row key k rows url m s cont = Inr (r, s') \<Longrightarrow>
     s' = s \<or> (\<exists>x. lookup_opt key k rows = Inr x \<and> cont x = Inr (r, s'))"
  by (auto simp: lookup_opt_Inr dest!: with_row_Inr)

lemma record_test_served:
  assumes "row_get ic_id c (internal_controls s) = Some control" "lookup_opt ts_id sample (control_test_samples s) = Inr smp"
    "lookup_opt cp_id period (control_periods s) = Inr per" "lookup_opt ct_id retest (control_tests s) = Inr prior"
    "record_test t i control (test_form_args f tester performed smp per prior) a ai s = Inr s'"
  shows "served s s'"
  by (rule served_test [where q = "Record_test t i c sample period retest (test_form_args f tester performed smp per prior) a ai"])
     (use assms in \<open>simp add: row_of_eq test_form_args_def\<close>)

lemma create_test_cases:
  "create_control_test t i f u s = Inr (r, s') \<Longrightarrow>
     s' = s \<or> (\<exists>control tester performed smp per prior. row_get ic_id (tf_control_id f) (internal_controls s) = Some control \<and>
       lookup_opt ts_id (opt_field (tf_sample_id f)) (control_test_samples s) = Inr smp \<and>
       lookup_opt cp_id (opt_field (tf_control_period_id f)) (control_periods s) = Inr per \<and>
       lookup_opt ct_id (opt_field (tf_retest_of_test_id f)) (control_tests s) = Inr prior \<and>
       record_test t i control (test_form_args f tester performed smp per prior) ''user'' (Some (ac_id u)) s = Inr s')"
  unfolding create_control_test_def Let_def
  by (auto split: option.splits sum.splits dest!: with_row_lookup reply_Inr)

lemma create_test_served: "create_control_test t i f u s = Inr (r, s') \<Longrightarrow> served s s'"
  using create_test_cases record_test_served served_idle by metis

section \<open>Periods, occurrences and controls\<close>

lemma insert_period_Inr:
  "insert_control_period r s = Inr s' \<Longrightarrow>
     s' = s\<lparr>control_periods := control_periods s @ [r]\<rparr> \<and> \<not> has_row cp_id (cp_id r) (control_periods s) \<and> cp_starts_on r < cp_ends_on r"
  by (auto simp: insert_control_period_def split: if_splits)

lemma served_audit: "served s s1 \<Longrightarrow> served s (record_audit_event et k ac dt u s1)"
  by (rule served_then [OF _ served_audited])

lemma create_period_served: "create_control_period i n a b u s = Inr (r, s') \<Longrightarrow> served s s'"
  by (auto simp: create_control_period_def Let_def intro!: served_audit intro: served_idle served_period split: sum.splits if_splits)

lemma activate_served: "activate_control_period k u s = Inr (r, s') \<Longrightarrow> served s s'"
  by (auto simp: activate_control_period_def intro!: served_audit served_activated intro: served_idle split: if_splits)

lemma close_served: "close_control_period now k u s = Inr (r, s') \<Longrightarrow> served s s'"
  by (auto simp: close_control_period_def intro!: served_audit served_closed intro: served_idle split: if_splits)

lemma generated_served:
  "generated feed today c p u s = Inr (n, s') \<Longrightarrow> period_open (map_option cp_id p) s \<Longrightarrow> served s s'"
  by (auto simp: generated_def intro: served_generated split: option.splits sum.splits)

text \<open>What a command does not write: projectors and the insertion of events stay in their tables.\<close>

definition occurrence_rest :: "db \<Rightarrow> db" where
  "occurrence_rest s = occurrence_writes [] [] [] (s\<lparr>domain_events := []\<rparr>)"

definition finding_rest :: "db \<Rightarrow> db" where
  "finding_rest s = finding_writes [] [] [] (s\<lparr>domain_events := []\<rparr>)"

lemma append_keeps:
  assumes "append_and_project race t ps c s = Inr (e, s')"
    and "\<And>k p s e s'. ps k = Some p \<Longrightarrow> p s e = Inr s' \<Longrightarrow> g s' = g s"
    and "\<And>s es. g (s\<lparr>domain_events := es\<rparr>) = g s"
  shows "g s' = g (s :: db)"
proof -
  obtain created s1 where a: "append_event_with_created_flag race t c s = Inr (e, created, s1)"
    and s': "if created then run_projector ps s1 e = Inr s' else s' = s1"
    using assms(1) by (auto simp: append_and_project_def split: if_splits)
  have "g s1 = g s" using append_flag_extends [OF a] assms(3) by auto
  moreover have "g s' = g s1"
    using s' assms(2) by (auto simp: run_projector_def split: if_splits option.splits)
  ultimately show ?thesis by simp
qed

lemma occurrence_projector_rest:
  assumes "control_occurrence_projectors k = Some p" "p s e = Inr s'"
  shows "occurrence_rest s' = occurrence_rest s"
  by (rule occurrence_projector_frame [OF assms]) (simp add: occurrence_rest_def occurrence_writes_def)

lemma occurrence_append_rest:
  assumes "append_and_project [] t control_occurrence_projectors c s = Inr (e, s')"
  shows "occurrence_rest s' = occurrence_rest s"
  by (rule append_keeps [where g = occurrence_rest, OF assms], erule (1) occurrence_projector_rest)
     (simp add: occurrence_rest_def occurrence_writes_def)

lemma finding_projector_rest:
  assumes "finding_projectors k = Some p" "p s e = Inr s'"
  shows "finding_rest s' = finding_rest s"
  by (rule finding_projector_frame [OF assms]) (simp add: finding_rest_def finding_writes_def)

lemma finding_append_rest:
  assumes "finding_append t c s = Inr s'"
  shows "finding_rest s' = finding_rest s"
proof -
  obtain e where app: "append_and_project [] t finding_projectors c s = Inr (e, s')"
    using assms by (auto simp: finding_append_def)
  show ?thesis
    by (rule append_keeps [where g = finding_rest, OF app], erule (1) finding_projector_rest)
       (simp add: finding_rest_def finding_writes_def)
qed

lemma finding_exec_rest: "finding_exec c s = Inr s' \<Longrightarrow> finding_rest s' = finding_rest s"
  by (cases "(c, s)" rule: finding_exec.cases)
     (auto simp: open_finding_def record_remediation_update_def request_retest_def record_retest_def close_finding_def
       split: if_splits dest: finding_append_rest)

lemma materialize_rest: "materialize_all feed cmd dues s = Inr (found, s') \<Longrightarrow> occurrence_rest s' = occurrence_rest s"
proof (induction dues arbitrary: feed s found)
  case (Cons due dues)
  then obtain e s1 found1 where "append_and_project [] (fst (feed 0)) control_occurrence_projectors
      (cmd (snd (feed 0)) due) s = Inr (e, s1)" "materialize_all (\<lambda>n. feed (Suc n)) cmd dues s1 = Inr (found1, s')"
    by auto
  then show ?case using Cons.IH occurrence_append_rest by metis
qed simp

lemma generate_cases:
  "generate_occurrences feed today c p h a i s = Some (Inr (found, s')) \<Longrightarrow>
     s' = s \<or> (\<exists>v n dues. materialize_all feed (\<lambda>k. materialize_command k c (map_option cp_id p) v n a i) dues s = Inr (found, s'))"
  by (auto simp: generate_occurrences_def split: option.splits if_splits sum.splits)

lemma generate_rest:
  "generate_occurrences feed today c p h a i s = Some (Inr (found, s')) \<Longrightarrow> occurrence_rest s' = occurrence_rest s"
  using generate_cases materialize_rest by metis

lemma occurrence_command_rest:
  "record_occurrence_manually t k c p due note a i s = Inr s' \<Longrightarrow> occurrence_rest s' = occurrence_rest s"
  "perform_occurrence t k at by note ev a i s = Inr s' \<Longrightarrow> occurrence_rest s' = occurrence_rest s"
  "link_evidence t k e a i s = Inr s' \<Longrightarrow> occurrence_rest s' = occurrence_rest s"
  by (auto simp: record_occurrence_manually_def perform_occurrence_def link_evidence_def occurrence_append_def
      dest: occurrence_append_rest)

lemma occurrence_rest_tables:
  assumes "occurrence_rest s' = occurrence_rest s"
  shows "control_periods s' = control_periods s" "internal_controls s' = internal_controls s"
    "findings s' = findings s" "finding_retests s' = finding_retests s" "control_tests s' = control_tests s"
    "control_test_exceptions s' = control_test_exceptions s" "control_test_populations s' = control_test_populations s"
    "control_test_population_items s' = control_test_population_items s" "control_test_samples s' = control_test_samples s"
    "control_test_sample_items s' = control_test_sample_items s"
  using assms [THEN arg_cong, of control_periods] assms [THEN arg_cong, of internal_controls]
    assms [THEN arg_cong, of findings] assms [THEN arg_cong, of finding_retests] assms [THEN arg_cong, of control_tests]
    assms [THEN arg_cong, of control_test_exceptions] assms [THEN arg_cong, of control_test_populations]
    assms [THEN arg_cong, of control_test_population_items] assms [THEN arg_cong, of control_test_samples]
    assms [THEN arg_cong, of control_test_sample_items]
  by (simp_all add: occurrence_rest_def occurrence_writes_def)

lemma finding_rest_tables:
  assumes "finding_rest s' = finding_rest s"
  shows "control_periods s' = control_periods s" "control_occurrences s' = control_occurrences s"
    "control_tests s' = control_tests s" "control_test_exceptions s' = control_test_exceptions s"
    "control_test_populations s' = control_test_populations s"
    "control_test_population_items s' = control_test_population_items s" "control_test_samples s' = control_test_samples s"
    "control_test_sample_items s' = control_test_sample_items s"
  using assms [THEN arg_cong, of control_periods] assms [THEN arg_cong, of control_occurrences]
    assms [THEN arg_cong, of control_tests]
    assms [THEN arg_cong, of control_test_exceptions] assms [THEN arg_cong, of control_test_populations]
    assms [THEN arg_cong, of control_test_population_items] assms [THEN arg_cong, of control_test_samples]
    assms [THEN arg_cong, of control_test_sample_items]
  by (simp_all add: finding_rest_def finding_writes_def)

lemma generate_all_served:
  "generate_all feeds today p u cs m s = Inr (n, s') \<Longrightarrow> period_open (Some (cp_id p)) s \<Longrightarrow> served s s'"
proof (induction cs arbitrary: feeds m s)
  case (Cons c cs)
  then obtain k s1 where g: "generated (feeds 0) today c (Some p) u s = Inr (k, s1)"
    and rest: "generate_all (\<lambda>i. feeds (Suc i)) today p u cs (m + k) s1 = Inr (n, s')" by auto
  have "control_periods s1 = control_periods s"
    using g occurrence_rest_tables(1) [OF generate_rest] by (auto simp: generated_def split: option.splits sum.splits)
  then have "served s1 s'" using Cons.IH [OF rest] Cons.prems(2) by (simp add: period_open_def)
  then show ?case using generated_served [OF g] Cons.prems(2) by (auto intro: served_then)
qed (simp add: served_idle)

lemma period_open_row:
  assumes "row_get cp_id k (control_periods s) = Some p" "cp_status p = Active"
  shows "period_open (Some (cp_id p)) s" "period_open (Some k) s"
  using assms row_get_SomeD [OF assms(1)] by (auto simp: period_open_def)

lemma generate_period_served: "generate_period_occurrences feeds today k u s = Inr (r, s') \<Longrightarrow> served s s'"
  by (auto simp: generate_period_occurrences_def Let_def intro: served_idle period_open_row
      elim!: generate_all_served split: if_splits)

lemma generate_control_served: "generate_control_occurrences feed today c u s = Inr (r, s') \<Longrightarrow> served s s'"
  by (auto simp: generate_control_occurrences_def period_open_def elim!: generated_served)

lemma perform_served: "perform t1 t2 k on by scope ev snap u s = Inr (r, s') \<Longrightarrow> served s s'"
  unfolding perform_def Let_def
  by (auto split: sum.splits if_splits option.splits dest!: with_row_Inr
      intro: served_idle served_performed served_then [OF served_performed served_linked])

lemma set_owner_served: "set_control_owner c p u s = Inr (r, s') \<Longrightarrow> served s s'"
  by (auto simp: set_control_owner_def elim!: with_row_served intro: served_audit served_owner)

lemma create_occurrence_cases:
  "create_control_occurrence t i c p due scope u s = Inr (r, s') \<Longrightarrow>
     s' = s \<or> (\<exists>d. record_occurrence_manually t i c (opt_field p) d (strip scope) ''user'' (Some (ac_id u)) s = Inr s' \<and>
       period_open (opt_field p) s)"
  unfolding create_control_occurrence_def Let_def
  by (auto split: if_splits option.splits sum.splits simp: period_open_def)

lemma create_occurrence_served: "create_control_occurrence t i c p due scope u s = Inr (r, s') \<Longrightarrow> served s s'"
  using create_occurrence_cases served_recorded served_idle by metis

lemma add_mapping_served: "add_mapping c q u s = Inr (r, s') \<Longrightarrow> served s s'"
  unfolding add_mapping_def
  by (cases "insert_control_requirement_mapping \<lparr>crm_control_id = c, crm_requirement_id = q\<rparr> s")
     (auto intro!: served_audit intro: served_idle served_mapped)

lemma operation_exec_served: "operation_exec q s = Inr (r, s') \<Longrightarrow> served s s'"
  by (cases q)
     (simp_all add: create_finding_served create_update_served request_retest_served record_retest_served close_finding_served
        create_population_served create_sample_served create_test_served link_route_served create_period_served
        activate_served close_served generate_period_served perform_served set_owner_served generate_control_served
        create_occurrence_served add_mapping_served)

lemma operation_run_served: "served s (operation_run qs s)"
proof (induction qs arbitrary: s)
  case (Cons q qs)
  have "served s (operation_step s q)"
    by (auto simp: operation_step_def intro: served_idle operation_exec_served split: sum.splits)
  then show ?case using Cons.IH [of "operation_step s q"] served_then by (simp add: operation_run_def)
qed (simp add: operation_run_def served_idle)

section \<open>What histories keep\<close>

definition period_ok :: "control_period \<Rightarrow> bool" where
  "period_ok p = (cp_starts_on p < cp_ends_on p \<and> (cp_status p = Closed \<longleftrightarrow> cp_closed_at p \<noteq> None))"

definition periods_ok :: "db \<Rightarrow> bool" where
  "periods_ok s = (unique_by cp_id (control_periods s) \<and> list_all period_ok (control_periods s))"

text \<open>How far a period is; a later row is the same period, further on, and a closed one does not change.\<close>

fun period_rank :: "period_status \<Rightarrow> nat" where
  "period_rank Planned = 0" | "period_rank Active = 1" | "period_rank Closed = 2"

definition period_after :: "control_period \<Rightarrow> control_period \<Rightarrow> bool" where
  "period_after p p' =
     (cp_id p' = cp_id p \<and> cp_name p' = cp_name p \<and> cp_starts_on p' = cp_starts_on p \<and> cp_ends_on p' = cp_ends_on p \<and>
      period_rank (cp_status p) \<le> period_rank (cp_status p') \<and> (cp_status p = Closed \<longrightarrow> p' = p))"

lemma period_after_refl [simp]: "period_after p p"
  by (simp add: period_after_def)

lemma period_after_closed: "period_after p q \<Longrightarrow> cp_status p = Closed \<Longrightarrow> q = p"
  by (simp add: period_after_def)

lemma period_after_trans:
  assumes "period_after p q" "period_after q r"
  shows "period_after p r"
proof (cases "cp_status p = Closed")
  case True
  then have "q = p" using assms(1) by (rule period_after_closed [rotated])
  then show ?thesis using assms(2) by simp
next
  case False
  then show ?thesis using assms by (simp add: period_after_def)
qed

definition periods_advance :: "db \<Rightarrow> db \<Rightarrow> bool" where
  "periods_advance s s' \<longleftrightarrow>
     (\<forall>k p. row_get cp_id k (control_periods s) = Some p \<longrightarrow>
        (\<exists>p'. row_get cp_id k (control_periods s') = Some p' \<and> period_after p p'))"

lemma periods_advance_trans: "periods_advance s s1 \<Longrightarrow> periods_advance s1 s2 \<Longrightarrow> periods_advance s s2"
  unfolding periods_advance_def by (blast intro: period_after_trans)

definition periods_kept :: "db \<Rightarrow> db \<Rightarrow> bool" where
  "periods_kept s s' \<longleftrightarrow> (periods_ok s \<longrightarrow> periods_ok s' \<and> periods_advance s s')"

lemma periods_kept_same: "control_periods s' = control_periods s \<Longrightarrow> periods_kept s s'"
  by (auto simp: periods_kept_def periods_ok_def periods_advance_def)

lemma periods_kept_trans: "periods_kept s s1 \<Longrightarrow> periods_kept s1 s2 \<Longrightarrow> periods_kept s s2"
  unfolding periods_kept_def by (blast intro: periods_advance_trans)

lemma upd_period_kept:
  assumes "row_get cp_id k (control_periods s) = Some p" "\<And>x. cp_id (f x) = cp_id x"
    "period_ok p \<Longrightarrow> period_ok (f p) \<and> period_after p (f p)"
  shows "periods_kept s (upd_period k f s)"
proof -
  have p: "p \<in> set (control_periods s)" "cp_id p = k"
    using row_get_SomeD [OF assms(1)] by simp_all
  have "period_ok x" if ok: "periods_ok s" and x: "x \<in> set (control_periods (upd_period k f s))" for x
  proof -
    obtain r where r: "r \<in> set (control_periods s)" "x = (if cp_id r = k then f r else r)"
      using x by (auto simp: upd_period_def set_row_upd)
    then have "cp_id r = k \<Longrightarrow> r = p"
      using unique_by_eqD [of cp_id "control_periods s" r p] ok p by (simp add: periods_ok_def)
    then show ?thesis
      using r ok assms(3) by (auto simp: periods_ok_def list_all_iff)
  qed
  moreover have "unique_by cp_id (control_periods (upd_period k f s))" if "periods_ok s"
    using that assms(2) by (simp add: upd_period_def periods_ok_def)
  moreover have "periods_advance s (upd_period k f s)" if "periods_ok s"
    using that assms p by (auto simp: periods_advance_def upd_period_def row_get_upd periods_ok_def list_all_iff)
  ultimately show ?thesis
    by (simp add: periods_kept_def periods_ok_def list_all_iff)
qed

lemma insert_period_kept:
  assumes "insert_control_period r s = Inr s'" "cp_status r = Planned" "cp_closed_at r = None"
  shows "periods_kept s s'"
proof -
  have s': "s' = s\<lparr>control_periods := control_periods s @ [r]\<rparr>" "\<not> has_row cp_id (cp_id r) (control_periods s)"
    "cp_starts_on r < cp_ends_on r"
    using insert_period_Inr [OF assms(1)] by blast+
  then show ?thesis
    using assms(2,3) by (auto simp: periods_kept_def periods_ok_def periods_advance_def period_ok_def row_get_append)
qed

lemma test_append_periods: "test_append t c s = Inr s' \<Longrightarrow> control_periods s' = control_periods s"
proof -
  assume "test_append t c s = Inr s'"
  then obtain e where app: "append_and_project [] t control_test_projectors c s = Inr (e, s')"
    by (auto simp: test_append_def)
  show ?thesis
    by (rule append_keeps [where g = control_periods, OF app], erule (1) test_projector_frame)
       (simp_all add: tests_writes_def)
qed

lemma test_exec_periods: "test_exec q s = Inr s' \<Longrightarrow> control_periods s' = control_periods s"
  by (cases q)
     (auto simp: freeze_population_def draw_sample_def record_test_def link_test_evidence_def add_population_def add_sample_def Let_def
       split: if_splits dest: test_append_periods add_population_items_only add_sample_items_only)

lemma served_periods: "served s s' \<Longrightarrow> periods_kept s s'"
proof (induction rule: served.induct)
  case (served_finding c s s')
  then show ?case using finding_rest_tables(1) [OF finding_exec_rest] periods_kept_same by metis
next
  case (served_test q s s')
  then show ?case using test_exec_periods periods_kept_same by metis
next
  case (served_generated feed today c p a i s found s')
  then show ?case using occurrence_rest_tables(1) [OF generate_rest] periods_kept_same by metis
next
  case (served_recorded t k c p due memo a i s s')
  then show ?case using occurrence_rest_tables(1) [OF occurrence_command_rest(1)] periods_kept_same by metis
next
  case (served_performed t k instant person memo ev a i s s')
  then show ?case using occurrence_rest_tables(1) [OF occurrence_command_rest(2)] periods_kept_same by metis
next
  case (served_linked t k e a i s s')
  then show ?case using occurrence_rest_tables(1) [OF occurrence_command_rest(3)] periods_kept_same by metis
next
  case (served_period r s s')
  then show ?case by (rule insert_period_kept)
next
  case (served_activated k s p)
  then show ?case by (auto intro!: upd_period_kept simp: period_ok_def period_after_def)
next
  case (served_closed k s p now)
  then have "period_rank (cp_status p) \<le> 2" by (cases "cp_status p") simp_all
  with served_closed show ?case by (auto intro!: upd_period_kept simp: period_ok_def period_after_def)
next
  case (served_then s s1 s2)
  then show ?case using periods_kept_trans by blast
qed (auto simp: record_audit_event_def insert_control_requirement_mapping_def intro!: periods_kept_same split: if_splits)

text \<open>
  Whatever requests the pages receive, a period keeps its name and dates, moves only from planned
  over active to closed, has a closing instant exactly when it is closed, and a closed one never
  changes again.
\<close>

theorem periods_only_advance:
  assumes "periods_ok s"
  shows "periods_ok (operation_run qs s) \<and> periods_advance s (operation_run qs s)"
  using served_periods [OF operation_run_served] assms by (simp add: periods_kept_def)

end
