(* ===== verification/Spec2Isabelle.thy ===== *)
theory Spec2Isabelle
  imports Policy_Lifecycle Evidence_Repository Jobs Access_Control Compliance_Scope Framework_Catalog Connector_Lifecycle
    History Backup Register_History Imports PII_Redaction Readiness Audit_Package Trust_Center Register_Grid AI_Egress Policy_Routes Import_Directory
    Operation_Pages
begin

text \<open>
  MiniGRC keeps the records of a compliance programme: policies and their versions, controls and
  how they are operated, tested and remediated, evidence, frameworks, vendors and risks. It is a
  FastAPI application over SQLAlchemy (\<open>src/app\<close>). This library models its core in HOL, from the
  event store up to the pages that write, and proves what makes the parts correct. Every
  definition follows a function, class or statement of the source and keeps its name where
  Isabelle allows it; \<open>PROJECT.json\<close> maps each to its lines.

  \<^bold>\<open>How the program fits together.\<close> The domain modules (\<open>policy_lifecycle.py\<close>,
  \<open>control_definition_lifecycle.py\<close>, \<open>control_occurrences.py\<close>, \<open>control_tests.py\<close>,
  \<open>finding_lifecycle.py\<close>, \<open>evidence_repository.py\<close>, \<open>compliance_scope.py\<close>,
  \<open>framework_adoption.py\<close>) do not write their tables. A command checks its guards, appends an event
  to the store of \<open>events.py\<close> and runs the projector of that event, which writes the rows; a
  rebuild resets the tables and replays the events. Registers, connectors, jobs, users and the
  trust centre are ordinary tables with an audit trail. Routers parse forms, call the commands and
  turn exceptions into messages; \<open>deps.py\<close> guards them. Readiness, history, the audit package and
  the egress boundary only read; backup copies everything and verifies it by rebuilding.

  \<^bold>\<open>State, errors, effects.\<close> A table is the list of its records in insertion order, the database \<open>db\<close>
  (\<open>Models\<close>) the record of the tables over the extensible \<open>store\<close> of events. An exception is a value
  of \<open>error\<close>, a fallible operation returns \<open>error + 'a\<close>, and an operation that leaves something behind
  when it raises (a file, an object, a rolled-back session) returns the state in both cases.
  Constraints of the schema are checked where the row is sent to the database. Clock readings, new
  ids and random tokens are arguments. Python's integers are unbounded and are \<open>int\<close>; columns are
  bounded where the database bounds them. A string holds characters below 256. Messages that
  quote the \<open>repr\<close> of a value are shortened; nothing depends on their text.

  \<^bold>\<open>Theories.\<close>
  \<^item> \<open>Prelude\<close>: exceptions, tables, Python's string methods, and the lemmas on them (\<open>table_simps\<close> and
    the other collections). \<open>Py_Time\<close>: dates and instants with \<open>isoformat\<close>. \<open>Py_Text\<close>: \<open>int\<close> on a text,
    decoding with \<open>utf-8-sig\<close>, \<open>csv\<close>. \<open>Json\<close>: values and typed readers.
  \<^item> \<open>Event_Store\<close> (\<open>events.py\<close>): append with retries under the commits of other transactions,
    idempotency keys, projectors, rebuild. The locale \<open>projection\<close> is the contract of a module whose
    tables are a projection; \<open>projected_domain\<close> adds its requests, and gives that every history keeps
    the tables in step with the events and that a rebuild is the identity. Each module interprets
    them. \<open>Lifecycle\<close>: the approval machine of policies and control definitions as a labelled step
    relation, and the locale \<open>version_lifecycle\<close> of the modules that refine it.
  \<^item> \<open>Policy_Lifecycle\<close>, \<open>Control_Definition\<close>, \<open>Occurrences\<close>, \<open>Control_Tests\<close>, \<open>Findings\<close>,
    \<open>Evidence_Repository\<close>, \<open>Compliance_Scope\<close>, \<open>Framework_Adoption\<close>: one module each, as named
    above: projectors, reset and rebuild, commands, invariant, refinement of its state machine.
  \<^item> \<open>File_Storage\<close> (\<open>storage.py\<close>, \<open>uploads.py\<close>, \<open>object_storage.py\<close>), \<open>Jobs\<close> (\<open>jobs.py\<close>),
    \<open>Access_Control\<close> (\<open>security.py\<close>, \<open>deps.py\<close>, sign-in, users, tokens, single sign-on),
    \<open>Framework_Catalog\<close> (catalogues, starter controls, progress), \<open>Connector_Contract\<close> and
    \<open>Connector_Lifecycle\<close> (\<open>connectors/\<close>, \<open>connector_lifecycle.py\<close>, \<open>connector_registry.py\<close>,
    \<open>secrets.py\<close>), \<open>History\<close>, \<open>Backup\<close>.
  \<^item> \<open>Registers\<close>, \<open>Vendors\<close>, \<open>Vendor_Roster\<close>, \<open>Register_History\<close>, \<open>Imports\<close>, \<open>Import_Directory\<close>,
    \<open>Register_Grid\<close> (\<open>registers/\<close>), \<open>PII_Redaction\<close>, \<open>Readiness\<close> (with \<open>onboarding.py\<close>),
    \<open>Audit_Package\<close>, \<open>Trust_Center\<close>, \<open>AI_Egress\<close>, \<open>Drive\<close> (\<open>google_drive.py\<close> and its router).
  \<^item> \<open>Policy_Routes\<close> (\<open>routers/policies.py\<close>), \<open>Operation_Routes\<close> and \<open>Operation_Pages\<close>
    (\<open>routers/controls.py\<close>, \<open>control_periods.py\<close>, \<open>occurrences.py\<close>, \<open>control_tests.py\<close>,
    \<open>findings.py\<close>): the pages, as requests that change the database.
  \<^item> This theory: recovery across components.

  \<^bold>\<open>What the lemmas show.\<close> For each component: the behaviour of each operation on every branch,
  an invariant that every operation keeps, and what follows for whole histories. Among them: sequence
  numbers stay gapless and keys unique under races; at most one version of a policy or control is
  effective and none becomes so unreviewed; due dates are exact and their generation ends and is
  idempotent; a finding closes as remediated only behind a passing retest; evidence is
  stored before it is recorded and keeps its hash; two workers never hold one job; changes of
  accounts and sessions are authorised; a backup restored is the database it was taken from; an
  import happens wholly or not at all; the public page shows what was published. Where the code
  does something else than it means to, a lemma shows it and \<open>PROJECT.json\<close> lists it.

  \<^bold>\<open>Bounds and fuel.\<close> The due-date loop is a \<open>partial_function\<close>: with an interval of zero it runs for
  ever (\<open>None\<close>), with a positive one it is proved to end. The append loop makes the five
  attempts of the code. The parser of CSV fields refuses more than
  131072 characters as Python does, files are read in chunks of one mebibyte, and the lease and
  back-off of a job are the code's constants; none of them is a restriction of the model.

  \<^bold>\<open>Parameters.\<close> Code that is not in the repository is an argument: SHA-256, Argon2, Fernet, the S3
  client (\<open>s3_laws\<close>), \<open>pg_dump\<close> and \<open>pg_restore\<close>, the OpenID provider, Google's APIs, the Markdown
  converter, the listing of a zip archive, and \<open>datetime.fromisoformat\<close> where it reads more
  forms than the application writes. A theorem that relies on a law of one of them states it as a
  hypothesis, and its witness gives an instance.

  \<^bold>\<open>Not modelled.\<close> Templates and pages that only list rows; the worker's polling loop, the command
  line, configuration and start-up; the MCP server; the adapters for AWS, Google sign-in and the
  connection pages, which reshape what third-party clients return; migrations. Transactions are
  serial but where a theory says otherwise (appends, jobs, catalogue reconciliation, adoption,
  the import directory), and the lost update of two concurrent grid edits is a lemma of its own.
\<close>

section \<open>Recovery across components\<close>

text \<open>What another rebuild took from tables of the occurrences, their own rebuild restores.\<close>

lemma rebuild_occurrences_of:
  assumes "in_sync control_occurrence_projectors ''control_occurrence'' clear_control_occurrences s"
    and "no_population_reference s'" and "clear_control_occurrences s' = clear_control_occurrences s"
  shows "rebuild_control_occurrence_projection s' = Inr s"
proof -
  have "domain_events (clear_control_occurrences s) = domain_events s"
    by (simp add: clear_control_occurrences_def)
  then show ?thesis
    using assms(1,3) occurrence_domain.reset_clears [OF assms(2)]
    by (simp add: rebuild_control_occurrence_projection_def rebuild_projection_def in_sync_def)
qed

lemma detach_then_rebuild_occurrences:
  assumes "in_sync control_occurrence_projectors ''control_occurrence'' clear_control_occurrences s"
    and "no_population_reference s"
  shows "rebuild_control_occurrence_projection (detach_definitions s) = Inr s"
  by (rule rebuild_occurrences_of [OF assms(1)])
     (use assms(2) in \<open>simp_all add: no_population_reference_def detach_definitions_def clear_control_occurrences_def has_row_def list_ex_iff\<close>)

text \<open>
  Full recovery. The rebuild of the control definitions takes the occurrences' references
  to them away; followed by the rebuild of the occurrences, as its comment asks, it gives back
  exactly the original database.
\<close>

theorem full_recovery:
  assumes "in_sync internal_control_version_projectors ''internal_control_version'' clear_internal_control_versions s"
    and "in_sync control_occurrence_projectors ''control_occurrence'' clear_control_occurrences s"
    and "no_population_reference s"
  shows "rbind (rebuild_internal_control_version_projection s) rebuild_control_occurrence_projection = Inr s"
proof -
  have "rebuild_internal_control_version_projection s = Inr (detach_definitions s)"
    unfolding rebuild_internal_control_version_projection_def
    by (rule control_def.rebuild_in_sync_modulo [OF assms(1)])
       (simp_all add: control_domain.reset_clears detach_definitions_run control_domain.detach_events)
  then show ?thesis using detach_then_rebuild_occurrences [OF assms(2,3)] by simp
qed

lemma full_recovery_witness:
  "\<exists>s' s''. bootstrap_initial_effective_version \<lparr>bt_draft = demo_tick 1, bt_submit = demo_tick 2, bt_review = demo_tick 3,
        bt_supersede = demo_tick 4, bt_effective = demo_tick 5\<rparr> ''v1'' ''system'' None ''c'' demo_operation_db = Inr s' \<and>
      record_occurrence_manually (demo_tick 6) ''occ'' ''c'' (Some ''q1'') None ''note'' ''user'' None s' = Inr s'' \<and>
      map oc_control_definition_version_id (control_occurrences s'') = [Some ''v1''] \<and>
      rbind (rebuild_internal_control_version_projection s'') rebuild_control_occurrence_projection = Inr s''"
proof -
  let ?ts = "\<lparr>bt_draft = demo_tick 1, bt_submit = demo_tick 2, bt_review = demo_tick 3,
      bt_supersede = demo_tick 4, bt_effective = demo_tick 5\<rparr>"
  have "case bootstrap_initial_effective_version ?ts ''v1'' ''system'' None ''c'' demo_operation_db of
      Inl _ \<Rightarrow> False | Inr s' \<Rightarrow>
        (case record_occurrence_manually (demo_tick 6) ''occ'' ''c'' (Some ''q1'') None ''note'' ''user'' None s' of
           Inl _ \<Rightarrow> False
         | Inr s'' \<Rightarrow> map oc_control_definition_version_id (control_occurrences s'') = [Some ''v1''] \<and>
             in_sync internal_control_version_projectors ''internal_control_version'' clear_internal_control_versions s'' \<and>
             in_sync control_occurrence_projectors ''control_occurrence'' clear_control_occurrences s'' \<and>
             no_population_reference s'')"
    by code_simp
  then obtain s' s'' where run: "bootstrap_initial_effective_version ?ts ''v1'' ''system'' None ''c'' demo_operation_db = Inr s'"
    "record_occurrence_manually (demo_tick 6) ''occ'' ''c'' (Some ''q1'') None ''note'' ''user'' None s' = Inr s''"
    "map oc_control_definition_version_id (control_occurrences s'') = [Some ''v1'']"
    and sync: "in_sync internal_control_version_projectors ''internal_control_version'' clear_internal_control_versions s''"
      "in_sync control_occurrence_projectors ''control_occurrence'' clear_control_occurrences s''" "no_population_reference s''"
    by (auto split: sum.splits)
  show ?thesis by (intro exI conjI) (rule run full_recovery [OF sync])+
qed

text \<open>
  Recovery of the evidence. The rebuild of the evidence versions deletes the occurrences'
  links to them; followed by the rebuild of the occurrences, as the reset's comment asks, it
  gives back exactly the original database.
\<close>

theorem evidence_recovery:
  assumes "in_sync evidence_artifact_version_projectors ''evidence_artifact_version'' clear_evidence_artifact_versions s"
    and "in_sync control_occurrence_projectors ''control_occurrence'' clear_control_occurrences s"
    and "no_version_reference s" and "no_population_reference s"
  shows "rbind (rebuild_evidence_artifact_version_projection s) rebuild_control_occurrence_projection = Inr s"
proof -
  have "rebuild_evidence_artifact_version_projection s = Inr (drop_occurrence_links s)"
    unfolding rebuild_evidence_artifact_version_projection_def
    by (rule evidence.rebuild_in_sync_modulo [OF assms(1)])
       (simp_all add: evidence_domain.reset_clears assms(3) drop_links_run evidence_domain.detach_events)
  moreover have "rebuild_control_occurrence_projection (drop_occurrence_links s) = Inr s"
    by (rule rebuild_occurrences_of [OF assms(2)])
       (use assms(4) in \<open>simp_all add: no_population_reference_def drop_occurrence_links_def clear_control_occurrences_def\<close>)
  ultimately show ?thesis by simp
qed

lemma evidence_recovery_witness:
  "\<exists>s. control_occurrence_evidence_artifacts s = [\<lparr>oa_occurrence_id = ''occ'', oa_evidence_artifact_version_id = ''v1''\<rparr>] \<and>
       rbind (rebuild_evidence_artifact_version_projection s) rebuild_control_occurrence_projection = Inr s"
proof -
  let ?run = "\<lambda>s. rbind (record_occurrence_manually (demo_tick 1) ''occ'' ''c'' (Some ''q1'') None ''note'' ''user'' None s) (\<lambda>s1.
      rbind (capture_event (demo_tick 2) ''v1'' ''art'' (demo_capture_args ''one'') s1) (\<lambda>s2.
        link_evidence_artifact_version (demo_tick 3) ''occ'' ''v1'' ''user'' None s2))"
  have "case ?run (demo_operation_db\<lparr>evidence_artifacts := [\<lparr>ea_id = ''art'', ea_title = ''A'', ea_description = []\<rparr>]\<rparr>) of
      Inl _ \<Rightarrow> False
    | Inr s \<Rightarrow> control_occurrence_evidence_artifacts s = [\<lparr>oa_occurrence_id = ''occ'', oa_evidence_artifact_version_id = ''v1''\<rparr>] \<and>
        in_sync evidence_artifact_version_projectors ''evidence_artifact_version'' clear_evidence_artifact_versions s \<and>
        in_sync control_occurrence_projectors ''control_occurrence'' clear_control_occurrences s \<and>
        no_version_reference s \<and> no_population_reference s"
    by code_simp
  then obtain s where "control_occurrence_evidence_artifacts s = [\<lparr>oa_occurrence_id = ''occ'', oa_evidence_artifact_version_id = ''v1''\<rparr>]"
    and sync: "in_sync evidence_artifact_version_projectors ''evidence_artifact_version'' clear_evidence_artifact_versions s"
      "in_sync control_occurrence_projectors ''control_occurrence'' clear_control_occurrences s"
      "no_version_reference s" "no_population_reference s"
    by (auto split: sum.splits)
  then show ?thesis using evidence_recovery [OF sync] by blast
qed

end
